(* ===== verification/Prelude.thy ===== *)
theory Prelude
  imports Main "HOL-Library.Word" "HOL-Library.State_Monad"
begin

text \<open>
  Shared ground of the development: the machine integers, the fragment of Go's
  \<^verbatim>\<open>strings\<close> and \<^verbatim>\<open>strconv\<close> packages the agent uses (on byte strings, so case
  folding is the ASCII one), the map idioms of Go as association lists, and the
  collections of simplification rules that the component theories extend.
\<close>

section \<open>Collections\<close>

named_theorems go_defs \<open>definitions unfolded when a program is evaluated step by step\<close>
named_theorems frame \<open>what an operation leaves unchanged\<close>

section \<open>Machine integers\<close>

type_synonym uint64 = "64 word"

section \<open>Strings\<close>

definition digit_char :: "nat \<Rightarrow> char" where
  "digit_char d = char_of (48 + d)"

definition char_digit :: "char \<Rightarrow> nat option" where
  "char_digit c = (let n = of_char c :: nat in if 48 \<le> n \<and> n \<le> 57 then Some (n - 48) else None)"

fun itoa :: "nat \<Rightarrow> string" where
  "itoa n = (if n < 10 then [digit_char n] else itoa (n div 10) @ [digit_char (n mod 10)])"

declare itoa.simps [simp del]

fun parse_digits :: "nat \<Rightarrow> string \<Rightarrow> nat option" where
  "parse_digits acc [] = Some acc"
| "parse_digits acc (c # cs) =
     (case char_digit c of None \<Rightarrow> None | Some d \<Rightarrow> parse_digits (10 * acc + d) cs)"

text \<open>\<^verbatim>\<open>strconv.ParseUint(s, 10, bits)\<close>: \<open>None\<close> stands for a non-nil error.\<close>

definition ParseUint :: "nat \<Rightarrow> string \<Rightarrow> nat option" where
  "ParseUint bits s =
     (if s = [] then None
      else case parse_digits 0 s of
             None \<Rightarrow> None
           | Some n \<Rightarrow> if n < 2 ^ bits then Some n else None)"

definition toLowerChar :: "char \<Rightarrow> char" where
  "toLowerChar c = (let n = of_char c :: nat in if 65 \<le> n \<and> n \<le> 90 then char_of (n + 32) else c)"

definition ToLower :: "string \<Rightarrow> string" where
  "ToLower s = map toLowerChar s"

text \<open>\<^verbatim>\<open>strings.Split(s, sep)\<close> for a one-byte separator: always at least one part.\<close>

fun split_aux :: "char \<Rightarrow> string \<Rightarrow> string \<Rightarrow> string list" where
  "split_aux sep acc [] = [rev acc]"
| "split_aux sep acc (c # cs) =
     (if c = sep then rev acc # split_aux sep [] cs else split_aux sep (c # acc) cs)"

definition Split :: "char \<Rightarrow> string \<Rightarrow> string list" where
  "Split sep s = split_aux sep [] s"

fun Join :: "char \<Rightarrow> string list \<Rightarrow> string" where
  "Join sep [] = []"
| "Join sep [x] = x"
| "Join sep (x # y # ys) = x @ sep # Join sep (y # ys)"

fun HasPrefix :: "string \<Rightarrow> string \<Rightarrow> bool" where
  "HasPrefix s [] = True"
| "HasPrefix [] (p # ps) = False"
| "HasPrefix (c # cs) (p # ps) = (c = p \<and> HasPrefix cs ps)"

text \<open>\<^verbatim>\<open>strings.Contains(s, sub)\<close>.\<close>

fun Contains :: "string \<Rightarrow> string \<Rightarrow> bool" where
  "Contains [] sub = (sub = [])"
| "Contains (c # cs) sub = (HasPrefix (c # cs) sub \<or> Contains cs sub)"

definition TrimPrefix :: "string \<Rightarrow> string \<Rightarrow> string" where
  "TrimPrefix s p = (if HasPrefix s p then drop (length p) s else s)"

text \<open>\<^verbatim>\<open>strings.TrimLeft(s, cutset)\<close>.\<close>

definition TrimLeft :: "string \<Rightarrow> string \<Rightarrow> string" where
  "TrimLeft s cutset = dropWhile (\<lambda>c. c \<in> set cutset) s"

definition ContainsAny :: "string \<Rightarrow> string \<Rightarrow> bool" where
  "ContainsAny s chars = list_ex (\<lambda>c. c \<in> set chars) s"

definition EqualFold :: "string \<Rightarrow> string \<Rightarrow> bool" where
  "EqualFold s t = (ToLower s = ToLower t)"

text \<open>\<^verbatim>\<open>strings.Cut(s, sep)\<close> at the first separator: before, after, found.\<close>

fun Cut :: "char \<Rightarrow> string \<Rightarrow> string \<times> string \<times> bool" where
  "Cut sep [] = ([], [], False)"
| "Cut sep (c # cs) =
     (if c = sep then ([], cs, True)
      else case Cut sep cs of (b, a, f) \<Rightarrow> (c # b, a, f))"

definition HasSuffix :: "string \<Rightarrow> string \<Rightarrow> bool" where
  "HasSuffix s suffix = HasPrefix (rev s) (rev suffix)"

definition TrimSuffix :: "string \<Rightarrow> string \<Rightarrow> string" where
  "TrimSuffix s suffix = (if HasPrefix (rev s) (rev suffix) then take (length s - length suffix) s else s)"

text \<open>\<^verbatim>\<open>strconv.Atoi(s)\<close> and \<^verbatim>\<open>strconv.ParseInt(s, 10, 64)\<close>.\<close>

definition Atoi :: "string \<Rightarrow> int option" where
  "Atoi s = (let neg = (s \<noteq> [] \<and> hd s = CHR ''-'');
                 digits = (if s \<noteq> [] \<and> hd s \<in> {CHR ''-'', CHR ''+''} then tl s else s) in
     if digits = [] then None
     else case parse_digits 0 digits of
       None \<Rightarrow> None
     | Some n \<Rightarrow> let i = (if neg then - int n else int n) in if - (2 ^ 63) \<le> i \<and> i < 2 ^ 63 then Some i else None)"

section \<open>Go maps as association lists\<close>

text \<open>
  Iteration over a Go map has no fixed order, so a map whose iteration order matters is an
  association list with distinct keys; a theorem about it holds for every order.
\<close>

definition map_put :: "'k \<Rightarrow> 'v \<Rightarrow> ('k \<times> 'v) list \<Rightarrow> ('k \<times> 'v) list" where
  "map_put k v m = (k, v) # filter (\<lambda>e. fst e \<noteq> k) m"

definition map_del :: "'k \<Rightarrow> ('k \<times> 'v) list \<Rightarrow> ('k \<times> 'v) list" where
  "map_del k m = filter (\<lambda>e. fst e \<noteq> k) m"

section \<open>Lemmas on digits\<close>

lemma char_digit_digit_char [simp]: "d < 10 \<Longrightarrow> char_digit (digit_char d) = Some d"
  by (simp add: char_digit_def digit_char_def of_char_of)

lemma itoa_not_Nil [simp]: "itoa n \<noteq> []"
  by (subst itoa.simps) simp

lemma parse_digits_append:
  "parse_digits acc (xs @ ys) =
     (case parse_digits acc xs of None \<Rightarrow> None | Some a \<Rightarrow> parse_digits a ys)"
  by (induction xs arbitrary: acc) (auto split: option.splits)

lemma parse_digits_itoa: "parse_digits 0 (itoa n) = Some n"
proof (induction n rule: itoa.induct)
  case (1 n)
  show ?case
  proof (cases "n < 10")
    case True
    then show ?thesis by (subst itoa.simps) simp
  next
    case False
    with "1.IH" have "parse_digits 0 (itoa (n div 10)) = Some (n div 10)" by simp
    with False show ?thesis by (subst itoa.simps) (simp add: parse_digits_append)
  qed
qed

lemma ParseUint_itoa: "ParseUint bits (itoa n) = (if n < 2 ^ bits then Some n else None)"
  by (simp add: ParseUint_def parse_digits_itoa)

lemma ParseUint_itoa_unat [simp]: "ParseUint 64 (itoa (unat (k :: uint64))) = Some (unat k)"
  using unsigned_less [of k, where ?'a = nat] by (simp add: ParseUint_itoa)

text \<open>The bound is compared as an integer when the function is evaluated: a natural number of that size is not.\<close>

lemma ParseUint_code [code]:
  "ParseUint bits s =
     (if s = [] then None
      else case parse_digits 0 s of None \<Rightarrow> None | Some n \<Rightarrow> if int n < 2 ^ bits then Some n else None)"
  by (simp add: ParseUint_def split: option.split)

lemma ParseUint_bound: "ParseUint bits s = Some n \<Longrightarrow> n < 2 ^ bits"
  by (auto simp: ParseUint_def split: if_splits option.splits)

lemma itoa_inject [simp]: "itoa m = itoa n \<longleftrightarrow> m = n"
  by (metis option.inject parse_digits_itoa)

lemma of_char_digit_char: "d < 10 \<Longrightarrow> (of_char (digit_char d) :: nat) = 48 + d"
  by (simp add: digit_char_def of_char_of)

lemma itoa_chars: "c \<in> set (itoa n) \<Longrightarrow> 48 \<le> (of_char c :: nat) \<and> (of_char c :: nat) \<le> 57"
proof (induction n rule: itoa.induct)
  case (1 n)
  show ?case
  proof (cases "n < 10")
    case True
    with "1.prems" show ?thesis by (subst (asm) itoa.simps) (simp add: of_char_digit_char)
  next
    case False
    have "n mod 10 < 10" by simp
    with False "1.prems" "1.IH" show ?thesis
      by (subst (asm) itoa.simps) (auto simp: of_char_digit_char)
  qed
qed

lemma underscore_not_in_itoa [simp]: "CHR ''_'' \<notin> set (itoa n)"
  using itoa_chars [of "CHR ''_''" n] by auto

section \<open>Lemmas on splitting and joining\<close>

lemma split_aux_no_sep:
  "sep \<notin> set xs \<Longrightarrow> split_aux sep acc (xs @ ys) = split_aux sep (rev xs @ acc) ys"
  by (induction xs arbitrary: acc) auto

lemma Split_no_sep: "sep \<notin> set xs \<Longrightarrow> Split sep xs = [xs]"
  using split_aux_no_sep [of sep xs "[]" "[]"] by (simp add: Split_def)

lemma Split_Cons_sep: "sep \<notin> set xs \<Longrightarrow> Split sep (xs @ sep # ys) = xs # Split sep ys"
  using split_aux_no_sep [of sep xs "[]" "sep # ys"] by (simp add: Split_def)

lemma split_aux_not_Nil [simp]: "split_aux sep acc s \<noteq> []"
  by (induction s arbitrary: acc) auto

lemma Split_not_Nil [simp]: "Split sep s \<noteq> []"
  by (simp add: Split_def)

lemma Join_Cons: "xs \<noteq> [] \<Longrightarrow> Join sep (x # xs) = x @ sep # Join sep xs"
  by (cases xs) auto

lemma Join_split_aux: "Join sep (split_aux sep acc s) = rev acc @ s"
  by (induction s arbitrary: acc) (auto simp: Join_Cons)

lemma Join_Split [simp]: "Join sep (Split sep s) = s"
  by (simp add: Split_def Join_split_aux)

lemma HasPrefix_iff: "HasPrefix s p \<longleftrightarrow> (\<exists>t. s = p @ t)"
  by (induction s p rule: HasPrefix.induct) auto

lemma Contains_iff: "Contains s sub \<longleftrightarrow> (\<exists>a b. s = a @ sub @ b)"
proof (induction s)
  case Nil
  then show ?case by auto
next
  case (Cons c cs)
  show ?case
    by (auto simp: Cons.IH HasPrefix_iff) (metis append_Cons append_Nil append_eq_Cons_conv)+
qed

section \<open>Lemmas on case folding\<close>

lemma toLowerChar_idem [simp]: "toLowerChar (toLowerChar c) = toLowerChar c"
proof (cases "65 \<le> (of_char c :: nat) \<and> (of_char c :: nat) \<le> 90")
  case True
  then have "(of_char (char_of (of_char c + 32 :: nat)) :: nat) = of_char c + 32"
    by (simp add: of_char_of)
  with True show ?thesis by (simp add: toLowerChar_def Let_def)
next
  case False
  then show ?thesis by (auto simp: toLowerChar_def Let_def)
qed

lemma ToLower_idem [simp]: "ToLower (ToLower s) = ToLower s"
  by (simp add: ToLower_def)

lemma ToLower_append [simp]: "ToLower (xs @ ys) = ToLower xs @ ToLower ys"
  by (simp add: ToLower_def)

lemma length_ToLower [simp]: "length (ToLower s) = length s"
  by (simp add: ToLower_def)

lemma ToLower_Cons: "ToLower (c # cs) = toLowerChar c # ToLower cs"
  by (simp add: ToLower_def)

lemma ToLower_Nil [simp]: "ToLower [] = []"
  by (simp add: ToLower_def)

lemma ToLower_itoa [simp]: "ToLower (itoa n) = itoa n"
proof -
  have "toLowerChar c = c" if "c \<in> set (itoa n)" for c
    using itoa_chars [OF that] by (simp add: toLowerChar_def Let_def)
  then show ?thesis by (simp add: ToLower_def map_idI)
qed

lemma toLowerChar_eq_underscore [simp]: "toLowerChar c = CHR ''_'' \<longleftrightarrow> c = CHR ''_''"
proof (cases "65 \<le> (of_char c :: nat) \<and> (of_char c :: nat) \<le> 90")
  case True
  then have "(of_char (toLowerChar c) :: nat) \<ge> 97"
    by (simp add: toLowerChar_def Let_def of_char_of)
  with True show ?thesis by auto
next
  case False
  then show ?thesis by (auto simp: toLowerChar_def Let_def)
qed

lemma underscore_in_ToLower [simp]: "CHR ''_'' \<in> set (ToLower s) \<longleftrightarrow> CHR ''_'' \<in> set s"
  by (induction s) (simp_all add: ToLower_Cons eq_commute [of "CHR ''_''"])

section \<open>Lemmas on Go maps\<close>

lemma map_of_map_del [simp]: "map_of (map_del k m) = (map_of m)(k := None)"
  by (induction m) (auto simp: map_del_def fun_eq_iff)

lemma map_put_map_del: "map_put k v m = (k, v) # map_del k m"
  by (simp add: map_put_def map_del_def)

lemma map_of_map_put [simp]: "map_of (map_put k v m) = (map_of m)(k \<mapsto> v)"
  by (simp add: map_put_map_del fun_eq_iff)

lemma distinct_map_put [simp]:
  "distinct (map fst m) \<Longrightarrow> distinct (map fst (map_put k v m))"
  by (induction m) (auto simp: map_put_def)

lemma distinct_map_del [simp]:
  "distinct (map fst m) \<Longrightarrow> distinct (map fst (map_del k m))"
  by (induction m) (auto simp: map_del_def)

lemma find_Some_in: "find P xs = Some x \<Longrightarrow> x \<in> set xs \<and> P x"
  by (auto simp: find_Some_iff)

end
