(* ===== verification/Errdefs.thy ===== *)
theory Errdefs
  imports Prelude
begin

text \<open>
  The agent's typed errors (\<^verbatim>\<open>src/errdefs\<close>). Every kind is a Go struct that embeds the error
  it wraps; \<open>IsX\<close> is a type assertion, so it sees only the outermost struct. A Go \<^verbatim>\<open>error\<close>
  value is a \<open>go_error option\<close>, with \<open>None\<close> for nil.
\<close>

datatype go_error =
    Msg string \<comment> \<open>\<^verbatim>\<open>errors.New\<close>, \<^verbatim>\<open>fmt.Errorf\<close> and errors of other packages\<close>
  | Wrap string go_error \<comment> \<open>\<^verbatim>\<open>errors.Wrap\<close>: message prefix and cause\<close>
  | ErrBuildFailed go_error
  | ErrContainerNameAlreadyInUse go_error
  | ErrContainerNotFound go_error
  | ErrImageNotFound go_error
  | ErrInsufficientPrivileges go_error
  | ErrContainerRemovalAlreadyInProgress go_error
  | ErrDockerfileCannotBeEmpty go_error
  | ErrDockerfileIsMissing go_error
  | ErrDockerBuildFilesNotFound go_error
  | ErrDockerStreamCanceled go_error
  | ErrDockerComposeNotSupported go_error
  | ErrRegistrationHandlerFailed go_error string
  | ErrNoActionTransition go_error
  | ErrInProgress go_error

type_synonym err = "go_error option"

text \<open>\<^verbatim>\<open>err.Error()\<close>: an embedded error lends its method to the struct.\<close>

fun Error :: "go_error \<Rightarrow> string" where
  "Error (Msg s) = s"
| "Error (Wrap s e) = s @ '': '' @ Error e"
| "Error (ErrBuildFailed e) = Error e"
| "Error (ErrContainerNameAlreadyInUse e) = Error e"
| "Error (ErrContainerNotFound e) = Error e"
| "Error (ErrImageNotFound e) = Error e"
| "Error (ErrInsufficientPrivileges e) = Error e"
| "Error (ErrContainerRemovalAlreadyInProgress e) = Error e"
| "Error (ErrDockerfileCannotBeEmpty e) = Error e"
| "Error (ErrDockerfileIsMissing e) = Error e"
| "Error (ErrDockerBuildFilesNotFound e) = Error e"
| "Error (ErrDockerStreamCanceled e) = Error e"
| "Error (ErrDockerComposeNotSupported e) = Error e"
| "Error (ErrRegistrationHandlerFailed e uri) = Error e"
| "Error (ErrNoActionTransition e) = Error e"
| "Error (ErrInProgress e) = Error e"

text \<open>\<^verbatim>\<open>errors.Unwrap\<close>, and the \<^verbatim>\<open>Unwrap\<close> and \<^verbatim>\<open>Cause\<close> methods of the structs, which agree.\<close>

fun Unwrap :: "go_error \<Rightarrow> go_error option" where
  "Unwrap (Msg s) = None"
| "Unwrap (Wrap s e) = Some e"
| "Unwrap (ErrBuildFailed e) = Some e"
| "Unwrap (ErrContainerNameAlreadyInUse e) = Some e"
| "Unwrap (ErrContainerNotFound e) = Some e"
| "Unwrap (ErrImageNotFound e) = Some e"
| "Unwrap (ErrInsufficientPrivileges e) = Some e"
| "Unwrap (ErrContainerRemovalAlreadyInProgress e) = Some e"
| "Unwrap (ErrDockerfileCannotBeEmpty e) = Some e"
| "Unwrap (ErrDockerfileIsMissing e) = Some e"
| "Unwrap (ErrDockerBuildFilesNotFound e) = Some e"
| "Unwrap (ErrDockerStreamCanceled e) = Some e"
| "Unwrap (ErrDockerComposeNotSupported e) = Some e"
| "Unwrap (ErrNoActionTransition e) = Some e"
| "Unwrap (ErrInProgress e) = Some e"
| "Unwrap (ErrRegistrationHandlerFailed e uri) = Some e"

section \<open>Type assertions\<close>

fun IsBuildFailed :: "err \<Rightarrow> bool" where
  "IsBuildFailed (Some (ErrBuildFailed e)) = True"
| "IsBuildFailed _ = False"

fun IsContainerNameAlreadyInUse :: "err \<Rightarrow> bool" where
  "IsContainerNameAlreadyInUse (Some (ErrContainerNameAlreadyInUse e)) = True"
| "IsContainerNameAlreadyInUse _ = False"

fun IsContainerNotFound :: "err \<Rightarrow> bool" where
  "IsContainerNotFound (Some (ErrContainerNotFound e)) = True"
| "IsContainerNotFound _ = False"

fun IsImageNotFound :: "err \<Rightarrow> bool" where
  "IsImageNotFound (Some (ErrImageNotFound e)) = True"
| "IsImageNotFound _ = False"

fun IsInsufficientPrivileges :: "err \<Rightarrow> bool" where
  "IsInsufficientPrivileges (Some (ErrInsufficientPrivileges e)) = True"
| "IsInsufficientPrivileges _ = False"

fun IsContainerRemovalAlreadyInProgress :: "err \<Rightarrow> bool" where
  "IsContainerRemovalAlreadyInProgress (Some (ErrContainerRemovalAlreadyInProgress e)) = True"
| "IsContainerRemovalAlreadyInProgress _ = False"

fun IsDockerfileCannotBeEmpty :: "err \<Rightarrow> bool" where
  "IsDockerfileCannotBeEmpty (Some (ErrDockerfileCannotBeEmpty e)) = True"
| "IsDockerfileCannotBeEmpty _ = False"

fun IsDockerfileIsMissing :: "err \<Rightarrow> bool" where
  "IsDockerfileIsMissing (Some (ErrDockerfileIsMissing e)) = True"
| "IsDockerfileIsMissing _ = False"

fun IsDockerBuildFilesNotFound :: "err \<Rightarrow> bool" where
  "IsDockerBuildFilesNotFound (Some (ErrDockerBuildFilesNotFound e)) = True"
| "IsDockerBuildFilesNotFound _ = False"

fun IsDockerStreamCanceled :: "err \<Rightarrow> bool" where
  "IsDockerStreamCanceled (Some (ErrDockerStreamCanceled e)) = True"
| "IsDockerStreamCanceled _ = False"

fun IsDockerComposeNotSupported :: "err \<Rightarrow> bool" where
  "IsDockerComposeNotSupported (Some (ErrDockerComposeNotSupported e)) = True"
| "IsDockerComposeNotSupported _ = False"

fun IsNoActionTransition :: "err \<Rightarrow> bool" where
  "IsNoActionTransition (Some (ErrNoActionTransition e)) = True"
| "IsNoActionTransition _ = False"

fun IsInProgress :: "err \<Rightarrow> bool" where
  "IsInProgress (Some (ErrInProgress e)) = True"
| "IsInProgress _ = False"

fun IsRegistrationHandlerFailed :: "err \<Rightarrow> bool" where
  "IsRegistrationHandlerFailed (Some (ErrRegistrationHandlerFailed e uri)) = True"
| "IsRegistrationHandlerFailed _ = False"

section \<open>Constructors\<close>

definition BuildFailed :: "err \<Rightarrow> err" where
  "BuildFailed err = (if err = None \<or> IsBuildFailed err then err else map_option ErrBuildFailed err)"

definition ContainerNameAlreadyInUse :: "err \<Rightarrow> err" where
  "ContainerNameAlreadyInUse err = (if err = None \<or> IsContainerNameAlreadyInUse err then err else map_option ErrContainerNameAlreadyInUse err)"

definition ContainerNotFound :: "err \<Rightarrow> err" where
  "ContainerNotFound err = (if err = None \<or> IsContainerNotFound err then err else map_option ErrContainerNotFound err)"

definition ImageNotFound :: "err \<Rightarrow> err" where
  "ImageNotFound err = (if err = None \<or> IsImageNotFound err then err else map_option ErrImageNotFound err)"

definition InsufficientPrivileges :: "err \<Rightarrow> err" where
  "InsufficientPrivileges err = (if err = None \<or> IsInsufficientPrivileges err then err else map_option ErrInsufficientPrivileges err)"

definition ContainerRemovalAlreadyInProgress :: "err \<Rightarrow> err" where
  "ContainerRemovalAlreadyInProgress err = (if err = None \<or> IsContainerRemovalAlreadyInProgress err then err else map_option ErrContainerRemovalAlreadyInProgress err)"

definition DockerfileCannotBeEmpty :: "err \<Rightarrow> err" where
  "DockerfileCannotBeEmpty err = (if err = None \<or> IsDockerfileCannotBeEmpty err then err else map_option ErrDockerfileCannotBeEmpty err)"

definition DockerfileIsMissing :: "err \<Rightarrow> err" where
  "DockerfileIsMissing err = (if err = None \<or> IsDockerfileIsMissing err then err else map_option ErrDockerfileIsMissing err)"

definition DockerBuildFilesNotFound :: "err \<Rightarrow> err" where
  "DockerBuildFilesNotFound err = (if err = None \<or> IsDockerBuildFilesNotFound err then err else map_option ErrDockerBuildFilesNotFound err)"

definition DockerStreamCanceled :: "err \<Rightarrow> err" where
  "DockerStreamCanceled err = (if err = None \<or> IsDockerStreamCanceled err then err else map_option ErrDockerStreamCanceled err)"

definition DockerComposeNotSupported :: "err \<Rightarrow> err" where
  "DockerComposeNotSupported err = (if err = None \<or> IsDockerComposeNotSupported err then err else map_option ErrDockerComposeNotSupported err)"

definition RegistrationHandlerFailed :: "err \<Rightarrow> string \<Rightarrow> err" where
  "RegistrationHandlerFailed err uri =
     (if err = None \<or> IsRegistrationHandlerFailed err then err
      else map_option (\<lambda>e. ErrRegistrationHandlerFailed e uri) err)"

definition NoActionTransition :: err where
  "NoActionTransition = Some (ErrNoActionTransition (Msg ''no action''))"

definition InProgress :: "go_error \<Rightarrow> err" where
  "InProgress e = Some (ErrInProgress e)"

lemmas errdefs_constructors [go_defs] =
  BuildFailed_def ContainerNameAlreadyInUse_def ContainerNotFound_def ImageNotFound_def InsufficientPrivileges_def ContainerRemovalAlreadyInProgress_def DockerfileCannotBeEmpty_def DockerfileIsMissing_def DockerBuildFilesNotFound_def DockerStreamCanceled_def DockerComposeNotSupported_def
  RegistrationHandlerFailed_def NoActionTransition_def InProgress_def

section \<open>Laws of the typed errors\<close>

text \<open>
  The contract every kind keeps, stated once: wrapping keeps nil, gives the kind, is
  idempotent and keeps the message.
\<close>

locale error_kind =
  fixes wrap :: "err \<Rightarrow> err"
    and is_kind :: "err \<Rightarrow> bool"
  assumes wrap_nil: "wrap None = None"
    and nil_is_no_kind: "\<not> is_kind None"
    and wrap_kind: "err \<noteq> None \<Longrightarrow> is_kind (wrap err)"
    and wrap_fix: "is_kind err \<Longrightarrow> wrap err = err"
    and wrap_message: "map_option Error (wrap err) = map_option Error err"
begin

lemma wrap_idem: "wrap (wrap err) = wrap err"
  by (cases err) (simp_all add: wrap_nil wrap_fix wrap_kind)

lemma wrap_nil_iff: "wrap err = None \<longleftrightarrow> err = None"
  by (metis nil_is_no_kind wrap_kind wrap_nil)

lemma is_kind_wrap_iff: "is_kind (wrap err) \<longleftrightarrow> err \<noteq> None"
  by (metis nil_is_no_kind wrap_kind wrap_nil)

end

text \<open>The kinds of \<^verbatim>\<open>helpers.go\<close> that wrap another error all keep the contract.\<close>

interpretation BuildFailed: error_kind BuildFailed IsBuildFailed
  by unfold_locales (auto simp: BuildFailed_def elim!: IsBuildFailed.elims)

interpretation ContainerNameAlreadyInUse: error_kind ContainerNameAlreadyInUse IsContainerNameAlreadyInUse
  by unfold_locales (auto simp: ContainerNameAlreadyInUse_def elim!: IsContainerNameAlreadyInUse.elims)

interpretation ContainerNotFound: error_kind ContainerNotFound IsContainerNotFound
  by unfold_locales (auto simp: ContainerNotFound_def elim!: IsContainerNotFound.elims)

interpretation ImageNotFound: error_kind ImageNotFound IsImageNotFound
  by unfold_locales (auto simp: ImageNotFound_def elim!: IsImageNotFound.elims)

interpretation InsufficientPrivileges: error_kind InsufficientPrivileges IsInsufficientPrivileges
  by unfold_locales (auto simp: InsufficientPrivileges_def elim!: IsInsufficientPrivileges.elims)

interpretation ContainerRemovalAlreadyInProgress: error_kind ContainerRemovalAlreadyInProgress IsContainerRemovalAlreadyInProgress
  by unfold_locales (auto simp: ContainerRemovalAlreadyInProgress_def elim!: IsContainerRemovalAlreadyInProgress.elims)

interpretation DockerfileCannotBeEmpty: error_kind DockerfileCannotBeEmpty IsDockerfileCannotBeEmpty
  by unfold_locales (auto simp: DockerfileCannotBeEmpty_def elim!: IsDockerfileCannotBeEmpty.elims)

interpretation DockerfileIsMissing: error_kind DockerfileIsMissing IsDockerfileIsMissing
  by unfold_locales (auto simp: DockerfileIsMissing_def elim!: IsDockerfileIsMissing.elims)

interpretation DockerBuildFilesNotFound: error_kind DockerBuildFilesNotFound IsDockerBuildFilesNotFound
  by unfold_locales (auto simp: DockerBuildFilesNotFound_def elim!: IsDockerBuildFilesNotFound.elims)

interpretation DockerStreamCanceled: error_kind DockerStreamCanceled IsDockerStreamCanceled
  by unfold_locales (auto simp: DockerStreamCanceled_def elim!: IsDockerStreamCanceled.elims)

interpretation DockerComposeNotSupported: error_kind DockerComposeNotSupported IsDockerComposeNotSupported
  by unfold_locales (auto simp: DockerComposeNotSupported_def elim!: IsDockerComposeNotSupported.elims)

end
