(* ===== verification/Types.thy ===== *)
theory Types
  imports Prelude
begin

text \<open>
  \<^verbatim>\<open>src/common/constants.go\<close>: app states, stages and the predicates the state machine, the
  observer and the disk guard decide with. Go's \<^verbatim>\<open>AppState\<close> and \<^verbatim>\<open>Stage\<close> are string types:
  the named constants are constructors, every other string (the empty one included) is
  \<open>OtherState\<close> / \<open>OtherStage\<close>. The stage \<^verbatim>\<open>PROD\<close> is written \<open>PROD'\<close>, since \<^verbatim>\<open>PROD\<close> is HOL syntax.
\<close>

datatype AppState =
    PRESENT | REMOVED | UNINSTALLED | FAILED | BUILT | BUILDING | TRANSFERED | TRANSFERING
  | PUBLISHING | PUBLISHED | DOWNLOADING | STARTING | STOPPING | STOPPED | UPDATING
  | DELETING | RUNNING | OtherState string

datatype Stage = DEV | PROD' | OtherStage string

datatype UpdateStatus = COMPLETED | CANCELED | PENDING_REMOTE_CONFIRMATION | OtherUpdateStatus string

datatype LogType = PULL | PUSH | BUILD | APP

datatype Environment = PRODUCTION | TEST | LOCAL | OtherEnvironment string

text \<open>The zero value of the string types.\<close>

abbreviation NoState :: AppState where
  "NoState \<equiv> OtherState []"

definition IsCancelableState :: "AppState \<Rightarrow> bool" where
  "IsCancelableState s = (case s of
     BUILDING \<Rightarrow> True | PUBLISHING \<Rightarrow> True | DOWNLOADING \<Rightarrow> True | TRANSFERING \<Rightarrow> True
   | UPDATING \<Rightarrow> True | _ \<Rightarrow> False)"

definition GetCurrentLogType :: "AppState \<Rightarrow> LogType" where
  "GetCurrentLogType s =
     (if s = DOWNLOADING \<or> s = UPDATING then PULL
      else if s = PUBLISHING then PUSH
      else if s = BUILDING then BUILD
      else APP)"

definition IsDiskGrowingState :: "AppState \<Rightarrow> bool" where
  "IsDiskGrowingState s = (case s of
     RUNNING \<Rightarrow> True | PRESENT \<Rightarrow> True | BUILT \<Rightarrow> True | BUILDING \<Rightarrow> True | PUBLISHING \<Rightarrow> True
   | PUBLISHED \<Rightarrow> True | DOWNLOADING \<Rightarrow> True | UPDATING \<Rightarrow> True | _ \<Rightarrow> False)"

definition TransientToActualState :: "AppState \<Rightarrow> AppState" where
  "TransientToActualState s = (case s of
     BUILDING \<Rightarrow> PRESENT | TRANSFERED \<Rightarrow> PRESENT | DOWNLOADING \<Rightarrow> PRESENT | TRANSFERING \<Rightarrow> PRESENT
   | PUBLISHING \<Rightarrow> PRESENT | UPDATING \<Rightarrow> PRESENT | STOPPING \<Rightarrow> PRESENT
   | DELETING \<Rightarrow> REMOVED
   | STARTING \<Rightarrow> RUNNING
   | _ \<Rightarrow> s)"

definition IsTransientState :: "AppState \<Rightarrow> bool" where
  "IsTransientState s = (case s of
     BUILDING \<Rightarrow> True | BUILT \<Rightarrow> True | TRANSFERED \<Rightarrow> True | DELETING \<Rightarrow> True | TRANSFERING \<Rightarrow> True
   | PUBLISHING \<Rightarrow> True | PUBLISHED \<Rightarrow> True | DOWNLOADING \<Rightarrow> True | STOPPING \<Rightarrow> True
   | UPDATING \<Rightarrow> True | STARTING \<Rightarrow> True | _ \<Rightarrow> False)"

text \<open>\<open>None\<close> is the error \<^verbatim>\<open>unkown state\<close>; the exit code is read nowhere.\<close>

definition ContainerStateToAppState :: "string \<Rightarrow> int \<Rightarrow> AppState option" where
  "ContainerStateToAppState containerState exitCode =
     (if containerState = ''running'' then Some RUNNING
      else if containerState = ''created'' then Some PRESENT
      else if containerState = ''removing'' then Some STOPPING
      else if containerState = ''paused'' then None
      else if containerState = ''restarting'' then Some FAILED
      else if containerState = ''exited'' then Some FAILED
      else if containerState = ''dead'' then Some FAILED
      else None)"

definition AppState_string :: "AppState \<Rightarrow> string" where
  "AppState_string s = (case s of
     PRESENT \<Rightarrow> ''PRESENT'' | REMOVED \<Rightarrow> ''REMOVED'' | UNINSTALLED \<Rightarrow> ''UNINSTALLED''
   | FAILED \<Rightarrow> ''FAILED'' | BUILT \<Rightarrow> ''BUILT'' | BUILDING \<Rightarrow> ''BUILDING''
   | TRANSFERED \<Rightarrow> ''TRANSFERED'' | TRANSFERING \<Rightarrow> ''TRANSFERING''
   | PUBLISHING \<Rightarrow> ''PUBLISHING'' | PUBLISHED \<Rightarrow> ''PUBLISHED''
   | DOWNLOADING \<Rightarrow> ''DOWNLOADING'' | STARTING \<Rightarrow> ''STARTING'' | STOPPING \<Rightarrow> ''STOPPING''
   | STOPPED \<Rightarrow> ''STOPPED'' | UPDATING \<Rightarrow> ''UPDATING'' | DELETING \<Rightarrow> ''DELETING''
   | RUNNING \<Rightarrow> ''RUNNING'' | OtherState t \<Rightarrow> t)"

definition Stage_string :: "Stage \<Rightarrow> string" where
  "Stage_string s = (case s of DEV \<Rightarrow> ''DEV'' | PROD' \<Rightarrow> ''PROD'' | OtherStage t \<Rightarrow> t)"

lemmas state_predicates =
  IsCancelableState_def IsDiskGrowingState_def IsTransientState_def TransientToActualState_def

text \<open>
  Settling a requested state twice changes nothing, and the only transient states it lets
  through are the two one-shot developer goals.
\<close>

lemma TransientToActualState_idem:
  "TransientToActualState (TransientToActualState s) = TransientToActualState s"
  by (simp add: TransientToActualState_def split: AppState.splits)

lemma TransientToActualState_transient:
  "IsTransientState (TransientToActualState s) \<longleftrightarrow> s = BUILT \<or> s = PUBLISHED"
  by (cases s) (simp_all add: state_predicates)

lemma cancelable_is_transient: "IsCancelableState s \<Longrightarrow> IsTransientState s"
  by (cases s) (simp_all add: state_predicates)

end
