(* ===== verification/Names.thy ===== *)
theory Names
  imports Errdefs Types
begin

text \<open>
  \<^verbatim>\<open>src/common/utils.go\<close>: how containers, compose projects, images, streams and topics are
  named, how a name is read back, and when the reading inverts the building.
\<close>

section \<open>Building names\<close>

definition BuildContainerName :: "Stage \<Rightarrow> uint64 \<Rightarrow> string \<Rightarrow> string" where
  "BuildContainerName stage appKey appName =
     ToLower (Stage_string stage @ ''_'' @ itoa (unat appKey) @ ''_'' @ appName)"

definition BuildComposeContainerName :: "Stage \<Rightarrow> uint64 \<Rightarrow> string \<Rightarrow> string" where
  "BuildComposeContainerName stage appKey appName =
     ToLower (Stage_string stage @ ''_'' @ itoa (unat appKey) @ ''_'' @ appName @ ''_compose'')"

definition project_char :: "char \<Rightarrow> bool" where
  "project_char c = (let r = of_char c :: nat in
     (97 \<le> r \<and> r \<le> 122) \<or> (48 \<le> r \<and> r \<le> 57) \<or> c = CHR ''_'' \<or> c = CHR ''-'')"

definition NormalizeComposeProjectName :: "string \<Rightarrow> string" where
  "NormalizeComposeProjectName name = TrimLeft (filter project_char (ToLower name)) ''_-''"

definition BuildImageName :: "Stage \<Rightarrow> string \<Rightarrow> uint64 \<Rightarrow> string \<Rightarrow> string" where
  "BuildImageName stage arch appKey appName =
     ToLower (Stage_string stage @ ''_'' @ arch @ ''_'' @ itoa (unat appKey) @ ''_'' @ appName)"

definition BuildRegistryImageName :: "string \<Rightarrow> string \<Rightarrow> string \<Rightarrow> string" where
  "BuildRegistryImageName registryURL mainRepositoryName imageName =
     ToLower (registryURL @ mainRepositoryName @ imageName)"

definition BuildDockerBuildID :: "uint64 \<Rightarrow> string \<Rightarrow> string" where
  "BuildDockerBuildID appKey appName = ''build_'' @ itoa (unat appKey) @ ''_'' @ appName"

definition BuildDockerPullID :: "uint64 \<Rightarrow> string \<Rightarrow> string" where
  "BuildDockerPullID appKey appName = ''pull_'' @ itoa (unat appKey) @ ''_'' @ appName"

definition BuildDockerPushID :: "uint64 \<Rightarrow> string \<Rightarrow> string" where
  "BuildDockerPushID appKey appName = ''push_'' @ itoa (unat appKey) @ ''_'' @ appName"

section \<open>Reading names\<close>

definition strip_slash :: "string \<Rightarrow> string" where
  "strip_slash name = (case name of [] \<Rightarrow> [] | c # cs \<Rightarrow> if c = CHR ''/'' then cs else name)"

definition stage_of_prefix :: "string \<Rightarrow> Stage" where
  "stage_of_prefix p =
     (if p = ''dev'' then DEV
      else if p = ''prod'' then PROD'
      else if p = ''pub'' then DEV
      else OtherStage [])"

definition ParseContainerName :: "string \<Rightarrow> go_error + (Stage \<times> uint64 \<times> string)" where
  "ParseContainerName containerName =
     (if containerName = [] then Inl (Msg ''container name is empty'')
      else let containerSplit = Split (CHR ''_'') (strip_slash containerName) in
        if length containerSplit < 3 then Inl (Msg ''invalid container name'')
        else case ParseUint 64 (containerSplit ! 1) of
               None \<Rightarrow> Inl (Msg ''strconv.ParseUint'')
             | Some appKey \<Rightarrow>
                 Inr (stage_of_prefix (containerSplit ! 0), of_nat appKey,
                      Join (CHR ''_'') (drop 2 containerSplit)))"

definition ParseComposeContainerName :: "string \<Rightarrow> go_error + (Stage \<times> uint64 \<times> string)" where
  "ParseComposeContainerName containerName =
     (if containerName = [] then Inl (Msg ''container name is empty'')
      else let containerSplit = Split (CHR ''_'') (strip_slash containerName) in
        if length containerSplit < 4 \<or> containerSplit ! 3 \<noteq> ''compose''
        then Inl (Msg ''invalid compose container name'')
        else case ParseUint 64 (containerSplit ! 1) of
               None \<Rightarrow> Inl (Msg ''strconv.ParseUint'')
             | Some appKey \<Rightarrow>
                 Inr (stage_of_prefix (containerSplit ! 0), of_nat appKey, containerSplit ! 2))"

text \<open>\<^verbatim>\<open>Ordinal\<close> converts to \<^verbatim>\<open>int\<close> before printing, which is signed.\<close>

definition itoa_int :: "int \<Rightarrow> string" where
  "itoa_int i = (if i < 0 then CHR ''-'' # itoa (nat (- i)) else itoa (nat i))"

definition Ordinal :: "uint64 \<Rightarrow> string" where
  "Ordinal x =
     (let d = unat x mod 10; h = unat x mod 100;
          suffix = (if d = 1 \<and> h \<noteq> 11 then ''st''
                    else if d = 2 \<and> h \<noteq> 12 then ''nd''
                    else if d = 3 \<and> h \<noteq> 13 then ''rd''
                    else ''th'')
      in itoa_int (sint x) @ suffix)"

section \<open>Round trips\<close>

text \<open>The stages a name can carry.\<close>

definition deployed :: "Stage \<Rightarrow> bool" where
  "deployed stage = (stage = DEV \<or> stage = PROD')"

definition prefix_of_stage :: "Stage \<Rightarrow> string" where
  "prefix_of_stage stage = (if stage = DEV then ''dev'' else ''prod'')"

lemma ToLower_DEV: "ToLower ''DEV'' = ''dev''"
  by code_simp

lemma ToLower_PROD: "ToLower ''PROD'' = ''prod''"
  by code_simp

lemma ToLower_stage: "deployed stage \<Longrightarrow> ToLower (Stage_string stage) = prefix_of_stage stage"
  by (auto simp: deployed_def Stage_string_def prefix_of_stage_def ToLower_DEV ToLower_PROD)

lemma prefix_of_stage_simps [simp]:
  "CHR ''_'' \<notin> set (prefix_of_stage stage)"
  "prefix_of_stage stage \<noteq> []"
  "strip_slash (prefix_of_stage stage @ s) = prefix_of_stage stage @ s"
  by (auto simp: prefix_of_stage_def strip_slash_def)

lemma stage_of_prefix_of_stage: "deployed stage \<Longrightarrow> stage_of_prefix (prefix_of_stage stage) = stage"
  by (auto simp: deployed_def prefix_of_stage_def stage_of_prefix_def)

lemma Stage_string_no_underscore: "deployed stage \<Longrightarrow> CHR ''_'' \<notin> set (Stage_string stage)"
  by (auto simp: deployed_def Stage_string_def)

lemma BuildContainerName_unfold:
  "deployed stage \<Longrightarrow> BuildContainerName stage k n =
     prefix_of_stage stage @ CHR ''_'' # itoa (unat k) @ CHR ''_'' # ToLower n"
  by (simp add: BuildContainerName_def ToLower_stage ToLower_Cons toLowerChar_def)

lemma BuildComposeContainerName_unfold:
  "deployed stage \<Longrightarrow> BuildComposeContainerName stage k n =
     prefix_of_stage stage @ CHR ''_'' # itoa (unat k) @ CHR ''_'' # ToLower n @ CHR ''_'' # ''compose''"
  by (simp add: BuildComposeContainerName_def ToLower_stage ToLower_Cons toLowerChar_def)

lemma Split_name:
  "Split (CHR ''_'') (prefix_of_stage stage @ CHR ''_'' # itoa (unat k) @ CHR ''_'' # rest) =
     prefix_of_stage stage # itoa (unat k) # Split (CHR ''_'') rest"
  by (simp add: Split_Cons_sep)

lemma length_Split_pos: "0 < length (Split sep s)"
  by simp

text \<open>
  The name a container was created under gives back the app's stage and key and its name in
  lower case, whatever underscores the app's name has.
\<close>

theorem ParseContainerName_BuildContainerName:
  assumes "deployed stage"
  shows "ParseContainerName (BuildContainerName stage k n) = Inr (stage, k, ToLower n)"
proof -
  have "0 < length (Split (CHR ''_'') (ToLower n))" by simp
  with assms show ?thesis
    by (simp add: ParseContainerName_def BuildContainerName_unfold Split_name Let_def
        stage_of_prefix_of_stage del: length_greater_0_conv)
qed

theorem ParseContainerName_BuildContainerName_witness:
  "ParseContainerName ''dev_6_net_data'' = Inr (DEV, 6, ''net_data'')"
proof -
  have "BuildContainerName DEV 6 ''Net_Data'' = ''dev_6_net_data''" "ToLower ''Net_Data'' = ''net_data''" by code_simp+
  then show ?thesis
    using ParseContainerName_BuildContainerName [of DEV 6 "''Net_Data''"] by (simp add: deployed_def)
qed

lemma ParseCompose_split:
  assumes "deployed stage"
  shows "ParseComposeContainerName (BuildComposeContainerName stage k n) =
     (let ps = Split (CHR ''_'') (ToLower n @ CHR ''_'' # ''compose'') in
      if length ps < 2 \<or> ps ! 1 \<noteq> ''compose'' then Inl (Msg ''invalid compose container name'')
      else Inr (stage, k, ps ! 0))"
  using assms
  by (auto simp: ParseComposeContainerName_def BuildComposeContainerName_unfold Split_name Let_def
      stage_of_prefix_of_stage numeral_3_eq_3)

text \<open>
  The compose reading inverts the building exactly on app names without an underscore; with
  one, the second component of the app name is taken for the \<^verbatim>\<open>compose\<close> marker.
\<close>

theorem ParseComposeContainerName_no_underscore:
  assumes "deployed stage" and "CHR ''_'' \<notin> set n"
  shows "ParseComposeContainerName (BuildComposeContainerName stage k n) = Inr (stage, k, ToLower n)"
proof -
  have "Split (CHR ''_'') (ToLower n @ CHR ''_'' # ''compose'') = [ToLower n, ''compose'']"
    using assms(2) by (simp add: Split_Cons_sep Split_no_sep)
  with assms(1) show ?thesis by (simp add: ParseCompose_split)
qed

theorem ParseComposeContainerName_underscore:
  assumes "deployed stage" and "CHR ''_'' \<notin> set a" and "CHR ''_'' \<notin> set b"
    and "ToLower b \<noteq> ''compose''"
  shows "ParseComposeContainerName (BuildComposeContainerName stage k (a @ CHR ''_'' # b)) =
           Inl (Msg ''invalid compose container name'')"
proof -
  have "toLowerChar (CHR ''_'') = CHR ''_''" by simp
  with assms have "Split (CHR ''_'') (ToLower (a @ CHR ''_'' # b) @ CHR ''_'' # ''compose'') =
      [ToLower a, ToLower b, ''compose'']"
    by (simp add: Split_Cons_sep Split_no_sep ToLower_Cons del: toLowerChar_eq_underscore)
  with assms show ?thesis by (simp add: ParseCompose_split)
qed

text \<open>Normalising a project name is idempotent, so labels and built names can be compared.\<close>

lemma project_char_lower: "project_char c \<Longrightarrow> toLowerChar c = c"
  by (auto simp: project_char_def toLowerChar_def Let_def)

lemma TrimLeft_idem [simp]: "TrimLeft (TrimLeft s cs) cs = TrimLeft s cs"
  by (simp add: TrimLeft_def dropWhile_idem)

lemma Normalize_chars: "c \<in> set (NormalizeComposeProjectName s) \<Longrightarrow> project_char c"
  by (auto simp: NormalizeComposeProjectName_def TrimLeft_def dest: set_dropWhileD)

theorem NormalizeComposeProjectName_idem:
  "NormalizeComposeProjectName (NormalizeComposeProjectName s) = NormalizeComposeProjectName s"
proof -
  let ?t = "NormalizeComposeProjectName s"
  have low: "ToLower ?t = ?t"
    by (simp add: ToLower_def map_idI project_char_lower Normalize_chars)
  have fil: "filter project_char ?t = ?t"
    by (simp add: filter_id_conv Normalize_chars)
  have "TrimLeft ?t ''_-'' = ?t"
    by (simp add: NormalizeComposeProjectName_def)
  then show ?thesis
    by (subst NormalizeComposeProjectName_def) (simp only: low fil)
qed

end
