(* ===== verification/HostPorts.thy ===== *)
theory HostPorts
  imports Errdefs Types
begin

text \<open>
  \<^verbatim>\<open>src/apps/hostports.go\<close>: the registry of host ports handed out to app containers. A registry
  operation is a function on the registry record; every one runs under the registry's mutex, so
  operations are atomic and a run is a sequence of them. Whether the operating system would
  bind a port right now (\<^verbatim>\<open>probeFree\<close>) is a parameter of the operations that allocate.
\<close>

section \<open>State\<close>

record hostPortKey =
  kStage :: Stage
  kAppKey :: uint64
  kProtocol :: string
  kPort :: uint64
  kService :: string

record HostPortRegistry =
  assigned :: "(hostPortKey \<times> uint64) list"
  inUse :: "uint64 set"

type_synonym probe = "string \<Rightarrow> uint64 \<Rightarrow> bool"

definition hostPortRangeStart :: uint64 where
  "hostPortRangeStart = 40000"

definition hostPortRangeEnd :: uint64 where
  "hostPortRangeEnd = 49999"

definition NewHostPortRegistry :: HostPortRegistry where
  "NewHostPortRegistry = \<lparr>assigned = [], inUse = {}\<rparr>"

section \<open>Operations\<close>

definition Get :: "HostPortRegistry \<Rightarrow> hostPortKey \<Rightarrow> uint64 option" where
  "Get r key = map_of (assigned r) key"

definition GetByPort :: "HostPortRegistry \<Rightarrow> Stage \<Rightarrow> uint64 \<Rightarrow> string \<Rightarrow> uint64 \<Rightarrow> uint64 option" where
  "GetByPort r stage appKey protocol port =
     map_option snd (find (\<lambda>(key, hostPort). kStage key = stage \<and> kAppKey key = appKey
                             \<and> kProtocol key = protocol \<and> kPort key = port) (assigned r))"

definition record_port :: "HostPortRegistry \<Rightarrow> hostPortKey \<Rightarrow> uint64 \<Rightarrow> HostPortRegistry" where
  "record_port r key port =
     r\<lparr>assigned := map_put key port (assigned r), inUse := insert port (inUse r)\<rparr>"

lemma port_step_decreases:
  "port \<le> hostPortRangeEnd \<Longrightarrow> unat (49999 - port) < unat (50000 - port)"
  unfolding hostPortRangeEnd_def by unat_arith

text \<open>The scan of \<^verbatim>\<open>reserveFreeLocked\<close>, from the port the loop variable holds.\<close>

function scanFree :: "probe \<Rightarrow> HostPortRegistry \<Rightarrow> hostPortKey \<Rightarrow> uint64 \<Rightarrow> uint64 option" where
  "scanFree probeFree r key port =
     (if port \<le> hostPortRangeEnd then
        if port \<in> inUse r then scanFree probeFree r key (port + 1)
        else if \<not> probeFree (kProtocol key) port then scanFree probeFree r key (port + 1)
        else Some port
      else None)"
  by pat_completeness auto

termination
  by (relation "measure (\<lambda>(_, _, _, port). unat (50000 - port))") (auto simp: port_step_decreases)

declare scanFree.simps [simp del]

definition reserveFreeLocked ::
  "probe \<Rightarrow> HostPortRegistry \<Rightarrow> hostPortKey \<Rightarrow> HostPortRegistry \<times> (go_error + uint64)" where
  "reserveFreeLocked probeFree r key =
     (case scanFree probeFree r key hostPortRangeStart of
        Some port \<Rightarrow> (record_port r key port, Inr port)
      | None \<Rightarrow> (r, Inl (Msg ''no free host port available in range 40000-49999'')))"

definition RecoverOrReserve ::
  "probe \<Rightarrow> HostPortRegistry \<Rightarrow> hostPortKey \<Rightarrow> uint64 \<Rightarrow> HostPortRegistry \<times> (go_error + uint64)" where
  "RecoverOrReserve probeFree r key preferred =
     (case Get r key of
        Some port \<Rightarrow> (r, Inr port)
      | None \<Rightarrow>
          if preferred > 0 \<and> preferred \<notin> inUse r
          then (record_port r key preferred, Inr preferred)
          else reserveFreeLocked probeFree r key)"

definition ReserveDeclared :: "HostPortRegistry \<Rightarrow> hostPortKey \<Rightarrow> HostPortRegistry \<times> bool" where
  "ReserveDeclared r key =
     (if Get r key = Some (kPort key) then (r, True)
      else if kPort key \<in> inUse r then (r, False)
      else (record_port r key (kPort key), True))"

definition drop_key :: "HostPortRegistry \<Rightarrow> hostPortKey \<Rightarrow> uint64 \<Rightarrow> HostPortRegistry" where
  "drop_key r key port = r\<lparr>assigned := map_del key (assigned r), inUse := inUse r - {port}\<rparr>"

definition ReassignFresh ::
  "probe \<Rightarrow> HostPortRegistry \<Rightarrow> hostPortKey \<Rightarrow> HostPortRegistry \<times> (go_error + uint64)" where
  "ReassignFresh probeFree r key =
     reserveFreeLocked probeFree
       (case Get r key of Some port \<Rightarrow> drop_key r key port | None \<Rightarrow> r) key"

text \<open>The \<^verbatim>\<open>range\<close> loop of \<^verbatim>\<open>ReleaseApp\<close> deletes the entry it visits, which Go allows.\<close>

definition ReleaseApp :: "HostPortRegistry \<Rightarrow> Stage \<Rightarrow> uint64 \<Rightarrow> HostPortRegistry" where
  "ReleaseApp r stage appKey =
     fold (\<lambda>(key, port) r'. if kStage key = stage \<and> kAppKey key = appKey then drop_key r' key port else r')
       (assigned r) r"

section \<open>Well-formed registries\<close>

definition registry_inv :: "HostPortRegistry \<Rightarrow> bool" where
  "registry_inv r \<longleftrightarrow>
     distinct (map fst (assigned r)) \<and> distinct (map snd (assigned r))
     \<and> set (map snd (assigned r)) \<subseteq> inUse r"

text \<open>No port is marked as used without an assignment that holds it.\<close>

definition registry_exact :: "HostPortRegistry \<Rightarrow> bool" where
  "registry_exact r \<longleftrightarrow> inUse r \<subseteq> set (map snd (assigned r))"

lemma Get_in: "registry_inv r \<Longrightarrow> Get r k = Some p \<longleftrightarrow> (k, p) \<in> set (assigned r)"
  by (simp add: Get_def registry_inv_def)

lemma Get_inUse: "registry_inv r \<Longrightarrow> Get r k = Some p \<Longrightarrow> p \<in> inUse r"
  by (force simp: Get_in registry_inv_def)

lemma Get_inj:
  assumes "registry_inv r" and "Get r k = Some p" and "Get r k' = Some p"
  shows "k = k'"
proof -
  from assms have "(k, p) \<in> set (assigned r)" and "(k', p) \<in> set (assigned r)"
    by (simp_all add: Get_in)
  moreover have "inj_on snd (set (assigned r))"
    using assms(1) by (simp add: registry_inv_def distinct_map)
  ultimately show ?thesis by (metis fst_conv inj_onD snd_conv)
qed

lemma Get_record_port [simp]: "Get (record_port r k p) = (Get r)(k \<mapsto> p)"
  by (simp add: Get_def record_port_def fun_eq_iff)

lemma Get_drop_key [simp]: "Get (drop_key r k p) = (Get r)(k := None)"
  by (simp add: Get_def drop_key_def fun_eq_iff)

lemma inUse_simps [simp]:
  "inUse (record_port r k p) = insert p (inUse r)"
  "inUse (drop_key r k p) = inUse r - {p}"
  by (simp_all add: record_port_def drop_key_def)

lemma distinct_snd_filter: "distinct (map snd m) \<Longrightarrow> distinct (map snd (filter P m))"
  by (induction m) auto

lemma record_port_inv:
  assumes "registry_inv r" and "p \<notin> inUse r"
  shows "registry_inv (record_port r k p)"
  using assms
  by (auto simp: registry_inv_def record_port_def map_put_def distinct_snd_filter
      distinct_map_filter image_iff subset_iff)

lemma drop_key_inv:
  assumes "registry_inv r" and "Get r k = Some p"
  shows "registry_inv (drop_key r k p)"
proof -
  have "q \<noteq> p" if "(k', q) \<in> set (assigned r)" and "k' \<noteq> k" for k' q
    using that assms Get_inj [OF assms(1)] by (metis Get_in)
  with assms(1) show ?thesis
    by (force simp: registry_inv_def drop_key_def map_del_def distinct_snd_filter distinct_map_filter)
qed

lemma record_port_exact:
  assumes "registry_exact r" and "Get r k = None"
  shows "registry_exact (record_port r k p)"
proof -
  have "filter (\<lambda>e. fst e \<noteq> k) (assigned r) = assigned r"
    using assms(2) by (auto simp: Get_def map_of_eq_None_iff filter_id_conv image_iff)
  with assms(1) show ?thesis by (auto simp: registry_exact_def record_port_def map_put_def)
qed

lemma drop_key_exact:
  assumes "registry_inv r" and "registry_exact r" and "Get r k = Some p"
  shows "registry_exact (drop_key r k p)"
proof -
  have "k' \<noteq> k" if "(k', q) \<in> set (assigned r)" and "q \<noteq> p" for k' q
    using that assms(1,3) by (metis Get_in option.inject)
  with assms(2) show ?thesis
    by (force simp: registry_exact_def drop_key_def map_del_def)
qed

section \<open>The scan\<close>

lemma port_le_step:
  assumes "port \<le> hostPortRangeEnd"
  shows "port \<le> q \<longleftrightarrow> q = port \<or> port + 1 \<le> q"
proof -
  have "unat port < 2 ^ 64 - 1"
    using assms by (simp add: hostPortRangeEnd_def word_le_nat_alt)
  then have "unat (port + 1) = unat port + 1"
    by (simp add: unat_add_lem [THEN iffD1])
  then show ?thesis by (auto simp: word_le_nat_alt word_unat_eq_iff)
qed

lemma scanFree_None:
  "scanFree probeFree r key port = None \<longleftrightarrow>
     (\<forall>q. port \<le> q \<and> q \<le> hostPortRangeEnd \<longrightarrow> q \<in> inUse r \<or> \<not> probeFree (kProtocol key) q)"
proof (induction probeFree r key port rule: scanFree.induct)
  case (1 probeFree r key port)
  show ?case
  proof (cases "port \<le> hostPortRangeEnd \<and> (port \<in> inUse r \<or> \<not> probeFree (kProtocol key) port)")
    case True
    then have "scanFree probeFree r key port = scanFree probeFree r key (port + 1)"
      by (subst scanFree.simps) auto
    with True 1 show ?thesis by (metis port_le_step)
  next
    case False
    then show ?thesis by (subst scanFree.simps) force
  qed
qed

lemma scanFree_Some:
  assumes "scanFree probeFree r key port = Some p"
  shows "port \<le> p \<and> p \<le> hostPortRangeEnd \<and> p \<notin> inUse r \<and> probeFree (kProtocol key) p \<and>
     (\<forall>q. port \<le> q \<and> q < p \<longrightarrow> q \<in> inUse r \<or> \<not> probeFree (kProtocol key) q)"
  using assms
proof (induction probeFree r key port rule: scanFree.induct)
  case (1 probeFree r key port)
  show ?case
  proof (cases "port \<le> hostPortRangeEnd \<and> (port \<in> inUse r \<or> \<not> probeFree (kProtocol key) port)")
    case True
    then have eq: "scanFree probeFree r key port = scanFree probeFree r key (port + 1)"
      by (subst scanFree.simps) auto
    with True 1 show ?thesis by (metis port_le_step)
  next
    case False
    with "1.prems" have "port = p \<and> port \<le> hostPortRangeEnd \<and> port \<notin> inUse r \<and> probeFree (kProtocol key) port"
      by (subst (asm) scanFree.simps) (auto split: if_splits)
    then show ?thesis by auto
  qed
qed

section \<open>The contract of an allocator\<close>

text \<open>
  What the code that publishes ports relies on: an allocator hands out a port per key, no two
  keys share one, and serving a key leaves the others alone. The sequence of reservations a
  container launch makes is \<open>reserve_all\<close>; it stops at the first error, as the loops do.
\<close>

fun reserve_all ::
  "('r \<Rightarrow> 'k \<Rightarrow> 'h \<Rightarrow> 'r \<times> (go_error + uint64)) \<Rightarrow> 'r \<Rightarrow> ('k \<times> 'h) list \<Rightarrow> 'r \<times> (go_error + uint64 list)" where
  "reserve_all reserve r [] = (r, Inr [])"
| "reserve_all reserve r ((k, h) # reqs) =
     (case reserve r k h of
        (r', Inl e) \<Rightarrow> (r', Inl e)
      | (r', Inr p) \<Rightarrow>
          (case reserve_all reserve r' reqs of
             (r'', Inl e) \<Rightarrow> (r'', Inl e)
           | (r'', Inr ps) \<Rightarrow> (r'', Inr (p # ps))))"

locale port_allocator =
  fixes inv :: "'r \<Rightarrow> bool"
    and lookup :: "'r \<Rightarrow> 'k \<Rightarrow> uint64 option"
    and reserve :: "'r \<Rightarrow> 'k \<Rightarrow> 'h \<Rightarrow> 'r \<times> (go_error + uint64)"
  assumes lookup_inj: "inv r \<Longrightarrow> lookup r k = Some p \<Longrightarrow> lookup r k' = Some p \<Longrightarrow> k = k'"
    and reserve_inv: "inv r \<Longrightarrow> reserve r k h = (r', res) \<Longrightarrow> inv r'"
    and reserve_hit: "inv r \<Longrightarrow> reserve r k h = (r', Inr p) \<Longrightarrow> lookup r' k = Some p"
    and reserve_frame: "inv r \<Longrightarrow> reserve r k h = (r', res) \<Longrightarrow> k' \<noteq> k \<Longrightarrow> lookup r' k' = lookup r k'"
begin

lemma reserve_all_inv: "inv r \<Longrightarrow> reserve_all reserve r reqs = (r', res) \<Longrightarrow> inv r'"
proof (induction reqs arbitrary: r res)
  case Nil
  then show ?case by simp
next
  case (Cons req reqs)
  obtain k h where [simp]: "req = (k, h)" by (cases req)
  obtain r1 res1 where r1: "reserve r k h = (r1, res1)" by (cases "reserve r k h")
  have "inv r1" using Cons.prems(1) r1 by (rule reserve_inv)
  with Cons.IH Cons.prems(2) r1 show ?case by (auto split: prod.splits sum.splits)
qed

lemma reserve_all_frame:
  "inv r \<Longrightarrow> reserve_all reserve r reqs = (r', res) \<Longrightarrow> k' \<notin> fst ` set reqs \<Longrightarrow> lookup r' k' = lookup r k'"
proof (induction reqs arbitrary: r r' res)
  case Nil
  then show ?case by simp
next
  case (Cons req reqs)
  obtain k h where [simp]: "req = (k, h)" by (cases req)
  obtain r1 res1 where r1: "reserve r k h = (r1, res1)" by (cases "reserve r k h")
  have "inv r1" and "lookup r1 k' = lookup r k'"
    using Cons.prems r1 by (auto dest: reserve_inv reserve_frame)
  with Cons r1 show ?case by (auto split: prod.splits sum.splits)
qed

text \<open>Every key of a successful launch holds the port it was told, all of them at the end.\<close>

lemma reserve_all_lookup:
  "inv r \<Longrightarrow> distinct (map fst reqs) \<Longrightarrow> reserve_all reserve r reqs = (r', Inr ps) \<Longrightarrow>
     map (lookup r') (map fst reqs) = map Some ps"
proof (induction reqs arbitrary: r ps)
  case Nil
  then show ?case by simp
next
  case (Cons req reqs)
  obtain k h where [simp]: "req = (k, h)" by (cases req)
  from Cons.prems(3) obtain r1 p ps' where
    r1: "reserve r k h = (r1, Inr p)" and rest: "reserve_all reserve r1 reqs = (r', Inr ps')" and [simp]: "ps = p # ps'"
    by (auto split: prod.splits sum.splits)
  have "inv r1" and hit: "lookup r1 k = Some p"
    using Cons.prems(1) r1 by (auto dest: reserve_inv reserve_hit)
  moreover have "k \<notin> fst ` set reqs" using Cons.prems(2) by auto
  ultimately have "lookup r' k = Some p" using reserve_all_frame [OF _ rest] by simp
  with Cons.IH [OF \<open>inv r1\<close> _ rest] Cons.prems(2) show ?case by simp
qed

lemma reserve_all_distinct:
  assumes "inv r" and "distinct (map fst reqs)" and "reserve_all reserve r reqs = (r', Inr ps)"
  shows "distinct ps"
proof -
  have "inv r'" using assms(1,3) by (rule reserve_all_inv)
  then have "inj_on (lookup r') {k. lookup r' k \<noteq> None}"
    by (auto intro!: inj_onI dest: lookup_inj)
  moreover have eq: "map (lookup r') (map fst reqs) = map Some ps"
    using assms by (rule reserve_all_lookup)
  then have "set (map fst reqs) \<subseteq> {k. lookup r' k \<noteq> None}"
    by (intro subsetI CollectI) (metis ex_map_conv image_set imageI option.distinct(1))
  ultimately have "distinct (map (lookup r') (map fst reqs))"
    using assms(2) by (subst distinct_map) (blast intro: inj_on_subset)
  with eq show ?thesis by (simp add: distinct_map)
qed

end

text \<open>An allocator that never moves a key it has already served.\<close>

locale stable_allocator = port_allocator +
  assumes reserve_stable: "lookup r k = Some p \<Longrightarrow> reserve r k h = (r, Inr p)"
begin

lemma reserve_again:
  "inv r \<Longrightarrow> reserve r k h = (r', Inr p) \<Longrightarrow> reserve r' k h' = (r', Inr p)"
  by (rule reserve_stable) (rule reserve_hit)

end

section \<open>The registry keeps the contract\<close>

lemma reserveFreeLocked_cases:
  assumes "reserveFreeLocked probeFree r key = (r', res)"
  obtains (reserved) p where "res = Inr p" and "r' = record_port r key p" and "p \<notin> inUse r"
      and "hostPortRangeStart \<le> p" and "p \<le> hostPortRangeEnd" and "probeFree (kProtocol key) p"
  | (exhausted) "res = Inl (Msg ''no free host port available in range 40000-49999'')" and "r' = r"
  using assms by (auto simp: reserveFreeLocked_def split: option.splits dest: scanFree_Some)

lemma RecoverOrReserve_cases:
  assumes "RecoverOrReserve probeFree r key preferred = (r', res)"
  obtains (known) p where "Get r key = Some p" and "res = Inr p" and "r' = r"
  | (fresh) p where "Get r key = None" and "res = Inr p" and "r' = record_port r key p" and "p \<notin> inUse r"
      and "p = preferred \<and> 0 < p \<or>
           hostPortRangeStart \<le> p \<and> p \<le> hostPortRangeEnd \<and> probeFree (kProtocol key) p"
  | (exhausted) e where "Get r key = None" and "res = Inl e" and "r' = r"
  using assms
  by (auto simp: RecoverOrReserve_def split: option.splits if_splits elim!: reserveFreeLocked_cases)

lemma ReserveDeclared_cases:
  assumes "ReserveDeclared r key = (r', b)"
  obtains (known) "Get r key = Some (kPort key)" and "b = True" and "r' = r"
  | (fresh) "kPort key \<notin> inUse r" and "b = True" and "r' = record_port r key (kPort key)"
  | (taken) "kPort key \<in> inUse r" and "b = False" and "r' = r"
  using assms unfolding ReserveDeclared_def by (metis prod.inject)

lemma RecoverOrReserve_known:
  "Get r key = Some p \<Longrightarrow> RecoverOrReserve probeFree r key preferred = (r, Inr p)"
  by (simp add: RecoverOrReserve_def)

interpretation recover: stable_allocator registry_inv Get "RecoverOrReserve probeFree" for probeFree
  by unfold_locales
    (auto dest: Get_inj elim!: RecoverOrReserve_cases intro: record_port_inv
      simp: RecoverOrReserve_known)

text \<open>
  The launch policy of \<^verbatim>\<open>reserveLaunchHostPort\<close> and \<^verbatim>\<open>rewriteComposeHostPorts\<close>: a developer app
  with nothing to recover gets its declared port if no other app holds it.
\<close>

definition reserveLaunch ::
  "probe \<Rightarrow> HostPortRegistry \<Rightarrow> hostPortKey \<Rightarrow> uint64 \<Rightarrow> HostPortRegistry \<times> (go_error + uint64)" where
  "reserveLaunch probeFree r key preferred =
     (if kStage key = DEV \<and> preferred = 0 then
        case ReserveDeclared r key of
          (r', True) \<Rightarrow> (r', Inr (kPort key))
        | (r', False) \<Rightarrow> RecoverOrReserve probeFree r' key preferred
      else RecoverOrReserve probeFree r key preferred)"

lemma reserveLaunch_cases:
  assumes "reserveLaunch probeFree r key preferred = (r', res)"
  obtains (known) p where "Get r key = Some p" and "res = Inr p" and "r' = r"
  | (fresh) p where "res = Inr p" and "r' = record_port r key p" and "p \<notin> inUse r"
  | (exhausted) e where "res = Inl e" and "r' = r"
  using assms
  by (auto simp: reserveLaunch_def split: if_splits prod.splits bool.splits
      elim!: RecoverOrReserve_cases ReserveDeclared_cases)

interpretation launch: port_allocator registry_inv Get "reserveLaunch probeFree" for probeFree
  by unfold_locales (auto dest: Get_inj elim!: reserveLaunch_cases intro: record_port_inv)

section \<open>Releasing an app\<close>

definition of_app :: "Stage \<Rightarrow> uint64 \<Rightarrow> hostPortKey \<Rightarrow> bool" where
  "of_app stage appKey key \<longleftrightarrow> kStage key = stage \<and> kAppKey key = appKey"

lemma fold_release:
  "fold (\<lambda>(key, port) r'. if kStage key = stage \<and> kAppKey key = appKey then drop_key r' key port else r') xs r =
     r\<lparr>assigned := filter (\<lambda>e. fst e \<notin> fst ` set (filter (of_app stage appKey \<circ> fst) xs)) (assigned r),
       inUse := inUse r - snd ` set (filter (of_app stage appKey \<circ> fst) xs)\<rparr>"
proof (induction xs arbitrary: r)
  case Nil
  then show ?case by simp
next
  case (Cons e xs)
  show ?case
    by (simp add: Cons.IH of_app_def drop_key_def map_del_def split: prod.split)
      (auto intro!: filter_cong arg_cong2 [of _ _ _ _ "\<lambda>a u. r\<lparr>assigned := a, inUse := u\<rparr>"])
qed

lemma ReleaseApp_eq:
  "ReleaseApp r stage appKey =
     r\<lparr>assigned := filter (\<lambda>e. \<not> of_app stage appKey (fst e)) (assigned r),
       inUse := inUse r - snd ` set (filter (of_app stage appKey \<circ> fst) (assigned r))\<rparr>"
proof -
  have "filter (\<lambda>e. fst e \<notin> fst ` set (filter (of_app stage appKey \<circ> fst) (assigned r))) (assigned r) =
        filter (\<lambda>e. \<not> of_app stage appKey (fst e)) (assigned r)"
    by (rule filter_cong) (force+)
  then show ?thesis by (simp add: ReleaseApp_def fold_release)
qed

lemma ReleaseApp_inv:
  assumes "registry_inv r"
  shows "registry_inv (ReleaseApp r stage appKey)"
proof -
  have "q \<noteq> p" if "(k, p) \<in> set (assigned r)" "(k', q) \<in> set (assigned r)"
      "of_app stage appKey k" "\<not> of_app stage appKey k'" for k k' p q
    using that Get_inj [OF assms] Get_in [OF assms] by blast
  with assms show ?thesis
    by (force simp: registry_inv_def ReleaseApp_eq distinct_snd_filter distinct_map_filter)
qed

lemma Get_ReleaseApp:
  "Get (ReleaseApp r stage appKey) key = (if of_app stage appKey key then None else Get r key)"
proof -
  have "map_of (filter (\<lambda>e. P (fst e)) m) k = (if P k then map_of m k else None)" for P and m :: "(hostPortKey \<times> uint64) list" and k
    by (induction m) auto
  from this [of "\<lambda>k. \<not> of_app stage appKey k"] show ?thesis
    by (simp add: Get_def ReleaseApp_eq)
qed

section \<open>Runs of the registry\<close>

text \<open>One public operation, by any goroutine; the operating system's answers are arbitrary.\<close>

inductive registry_step :: "HostPortRegistry \<Rightarrow> HostPortRegistry \<Rightarrow> bool" where
  step_recover: "RecoverOrReserve probeFree r key preferred = (r', res) \<Longrightarrow> registry_step r r'"
| step_declared: "ReserveDeclared r key = (r', b) \<Longrightarrow> registry_step r r'"
| step_reassign: "ReassignFresh probeFree r key = (r', res) \<Longrightarrow> registry_step r r'"
| step_release: "registry_step r (ReleaseApp r stage appKey)"

inductive registry_reachable :: "HostPortRegistry \<Rightarrow> bool" where
  init: "registry_reachable NewHostPortRegistry"
| step: "registry_reachable r \<Longrightarrow> registry_step r r' \<Longrightarrow> registry_reachable r'"

inductive_cases registry_stepE: "registry_step r r'"

lemma ReassignFresh_cases:
  assumes "registry_inv r" and "ReassignFresh probeFree r key = (r', res)"
  obtains (reserved) r0 p where "registry_inv r0" and "res = Inr p" and "r' = record_port r0 key p"
      and "p \<notin> inUse r0" and "probeFree (kProtocol key) p"
      and "hostPortRangeStart \<le> p" and "p \<le> hostPortRangeEnd" and "\<And>k. k \<noteq> key \<Longrightarrow> Get r0 k = Get r k"
      and "Get r0 key = None"
  | (exhausted) e where "registry_inv r'" and "res = Inl e" and "Get r' key = None"
      and "\<And>k. k \<noteq> key \<Longrightarrow> Get r' k = Get r k"
proof -
  define r0 where "r0 = (case Get r key of Some port \<Rightarrow> drop_key r key port | None \<Rightarrow> r)"
  have r0: "registry_inv r0" "Get r0 key = None" "\<And>k. k \<noteq> key \<Longrightarrow> Get r0 k = Get r k"
    using assms(1) by (auto simp: r0_def drop_key_inv split: option.splits)
  have "reserveFreeLocked probeFree r0 key = (r', res)"
    using assms(2) by (simp add: ReassignFresh_def r0_def)
  then show ?thesis
    by (cases rule: reserveFreeLocked_cases) (use r0 reserved exhausted in metis)+
qed

lemma registry_step_inv:
  assumes "registry_step r r'" and "registry_inv r"
  shows "registry_inv r'"
  using assms(1)
proof (cases rule: registry_step.cases)
  case (step_recover probeFree key preferred res)
  with assms(2) show ?thesis by (rule recover.reserve_inv)
next
  case (step_declared key b)
  then show ?thesis
    using assms(2) by (cases rule: ReserveDeclared_cases) (simp_all add: record_port_inv)
next
  case (step_reassign probeFree key res)
  with assms(2) show ?thesis by (cases rule: ReassignFresh_cases) (auto intro: record_port_inv)
next
  case (step_release stage appKey)
  with assms(2) show ?thesis by (simp add: ReleaseApp_inv)
qed

lemma NewHostPortRegistry_inv: "registry_inv NewHostPortRegistry"
  by (simp add: registry_inv_def NewHostPortRegistry_def)

lemma registry_reachable_inv: "registry_reachable r \<Longrightarrow> registry_inv r"
  by (induction rule: registry_reachable.induct)
    (auto intro: registry_step_inv NewHostPortRegistry_inv)

section \<open>Properties\<close>

text \<open>
  C4: whatever the goroutines of the agent do with the registry and whatever the operating
  system answers, no host port is ever held by two published app ports, and every held port
  is marked as used.
\<close>

theorem host_ports_exclusive:
  assumes "registry_reachable r" and "Get r k = Some p"
  shows "p \<in> inUse r \<and> (\<forall>k'. Get r k' = Some p \<longrightarrow> k' = k)"
  using registry_reachable_inv [OF assms(1)] assms(2) by (blast intro: Get_inUse dest: Get_inj)

definition wkey :: "uint64 \<Rightarrow> hostPortKey" where
  "wkey n = \<lparr>kStage = DEV, kAppKey = n, kProtocol = ''tcp'', kPort = 8080, kService = []\<rparr>"

lemma wkey_eq [simp]: "wkey m = wkey n \<longleftrightarrow> m = n"
  by (simp add: wkey_def)

lemma wkey_reachable: "registry_reachable (record_port NewHostPortRegistry (wkey 1) 8080)"
proof -
  have "ReserveDeclared NewHostPortRegistry (wkey 1) = (record_port NewHostPortRegistry (wkey 1) 8080, True)"
    by (simp add: ReserveDeclared_def NewHostPortRegistry_def Get_def wkey_def)
  then show ?thesis
    by (blast intro: registry_reachable.intros registry_step.intros)
qed

theorem host_ports_exclusive_witness:
  "let r = record_port NewHostPortRegistry (wkey 1) 8080 in
     8080 \<in> inUse r \<and> (\<forall>k'. Get r k' = Some 8080 \<longrightarrow> k' = wkey 1)"
  unfolding Let_def by (rule host_ports_exclusive [OF wkey_reachable]) simp

text \<open>
  A container launch that reserves its ports one after the other, with the developer policy
  or without, ends with pairwise different host ports, each recorded under its own key.
\<close>

theorem launch_ports_distinct:
  assumes "registry_reachable r" and "distinct (map fst reqs)"
    and "reserve_all (reserveLaunch probeFree) r reqs = (r', Inr ps)"
  shows "distinct ps \<and> map (Get r') (map fst reqs) = map Some ps"
  using registry_reachable_inv [OF assms(1)] assms(2,3)
  by (blast intro: launch.reserve_all_distinct launch.reserve_all_lookup)

text \<open>Two developer apps that declare the same port: the second one is moved to the pool.\<close>

lemma scanFree_first: "hostPortRangeStart \<notin> inUse r \<Longrightarrow> probeFree (kProtocol key) hostPortRangeStart \<Longrightarrow>
    scanFree probeFree r key hostPortRangeStart = Some hostPortRangeStart"
  by (subst scanFree.simps) (simp add: hostPortRangeStart_def hostPortRangeEnd_def)

theorem launch_ports_distinct_witness:
  "\<exists>r'. reserve_all (reserveLaunch (\<lambda>_ _. True)) NewHostPortRegistry [(wkey 1, 0), (wkey 2, 0)] = (r', Inr [8080, 40000])
     \<and> distinct [8080, 40000 :: uint64] \<and> map (Get r') [wkey 1, wkey 2] = map Some [8080, 40000]"
proof -
  let ?r1 = "record_port NewHostPortRegistry (wkey 1) 8080"
  have 1: "reserveLaunch (\<lambda>_ _. True) NewHostPortRegistry (wkey 1) 0 = (?r1, Inr 8080)"
    by (simp add: reserveLaunch_def ReserveDeclared_def NewHostPortRegistry_def Get_def wkey_def)
  have 2: "reserveLaunch (\<lambda>_ _. True) ?r1 (wkey 2) 0 = (record_port ?r1 (wkey 2) 40000, Inr 40000)"
    using scanFree_first [of ?r1 "\<lambda>_ _. True" "wkey 2"]
    by (simp add: reserveLaunch_def ReserveDeclared_def RecoverOrReserve_def reserveFreeLocked_def
        hostPortRangeStart_def NewHostPortRegistry_def Get_def record_port_def map_put_def wkey_def)
  have 3: "reserve_all (reserveLaunch (\<lambda>_ _. True)) NewHostPortRegistry [(wkey 1, 0), (wkey 2, 0)] =
      (record_port ?r1 (wkey 2) 40000, Inr [8080, 40000])"
    by (simp add: 1 2)
  from launch_ports_distinct [OF registry_reachable.init _ this] 3 show ?thesis by simp
qed

text \<open>
  Recovering or reserving a port for a key without one takes the preferred port when it is
  non-zero and not held, else the lowest port of the pool that neither the registry nor the
  operating system holds, and fails exactly when the pool has none; a key that has a port
  keeps it whatever is preferred. Nothing changes on failure.
\<close>

theorem RecoverOrReserve_spec:
  "RecoverOrReserve probeFree r key preferred =
     (let free = (\<lambda>q. hostPortRangeStart \<le> q \<and> q \<le> hostPortRangeEnd \<and> q \<notin> inUse r \<and> probeFree (kProtocol key) q) in
      case Get r key of
        Some p \<Rightarrow> (r, Inr p)
      | None \<Rightarrow>
          if preferred \<noteq> 0 \<and> preferred \<notin> inUse r then (record_port r key preferred, Inr preferred)
          else if \<exists>q. free q then (let p = (LEAST q. free q) in (record_port r key p, Inr p))
          else (r, Inl (Msg ''no free host port available in range 40000-49999'')))"
proof (cases "Get r key = None \<and> (preferred = 0 \<or> preferred \<in> inUse r)")
  case True
  show ?thesis
  proof (cases "scanFree probeFree r key hostPortRangeStart")
    case None
    with True scanFree_None [of probeFree r key hostPortRangeStart] show ?thesis
      by (auto simp: RecoverOrReserve_def reserveFreeLocked_def Let_def)
  next
    case (Some p)
    note p = scanFree_Some [OF Some]
    then have "(LEAST q. hostPortRangeStart \<le> q \<and> q \<le> hostPortRangeEnd \<and> q \<notin> inUse r \<and> probeFree (kProtocol key) q) = p"
      by (intro Least_equality) (auto simp: not_le [symmetric])
    with True Some p show ?thesis
      by (auto simp: RecoverOrReserve_def reserveFreeLocked_def Let_def)
  qed
next
  case False
  then show ?thesis
    by (auto simp: RecoverOrReserve_def word_gt_0 Let_def split: option.split)
qed

text \<open>
  Releasing an app forgets exactly its keys and frees their ports, so that another app can
  take them, and keeps the registry well formed.
\<close>

theorem ReleaseApp_spec:
  assumes "registry_reachable r"
  shows "registry_reachable (ReleaseApp r stage appKey) \<and>
     (\<forall>key. Get (ReleaseApp r stage appKey) key = (if of_app stage appKey key then None else Get r key)) \<and>
     (\<forall>key p. Get r key = Some p \<and> of_app stage appKey key \<longrightarrow> p \<notin> inUse (ReleaseApp r stage appKey))"
proof (intro conjI allI impI)
  show "registry_reachable (ReleaseApp r stage appKey)"
    using assms by (blast intro: registry_reachable.step registry_step.step_release)
  show "Get (ReleaseApp r stage appKey) key = (if of_app stage appKey key then None else Get r key)" for key
    by (rule Get_ReleaseApp)
  show "p \<notin> inUse (ReleaseApp r stage appKey)" if "Get r key = Some p \<and> of_app stage appKey key" for key p
    using that Get_in [OF registry_reachable_inv [OF assms]] by (force simp: ReleaseApp_eq)
qed

theorem ReleaseApp_spec_witness:
  "let r = record_port NewHostPortRegistry (wkey 1) 8080 in
     Get (ReleaseApp r DEV 1) (wkey 1) = None \<and> 8080 \<notin> inUse (ReleaseApp r DEV 1)"
proof -
  have "of_app DEV 1 (wkey 1)" by (simp add: of_app_def wkey_def)
  moreover have "Get (record_port NewHostPortRegistry (wkey 1) 8080) (wkey 1) = Some 8080" by simp
  ultimately show ?thesis
    using ReleaseApp_spec [OF wkey_reachable, of DEV 1] unfolding Let_def by metis
qed

text \<open>
  Claiming the declared port for a key that already holds another one moves the key but
  leaves the old port marked as used for good: not even releasing the app gives it back.
\<close>

theorem ReserveDeclared_leaks_old_port:
  assumes "registry_reachable r" and "Get r key = Some old" and "kPort key \<notin> inUse r" and "old \<noteq> kPort key"
  shows "let r' = fst (ReserveDeclared r key); r'' = ReleaseApp r' (kStage key) (kAppKey key) in
           Get r' key = Some (kPort key) \<and> old \<in> inUse r''
           \<and> (\<forall>k. Get r' k \<noteq> Some old) \<and> (\<forall>k. Get r'' k \<noteq> Some old)"
proof -
  note inv = registry_reachable_inv [OF assms(1)]
  let ?r' = "record_port r key (kPort key)"
  have inv': "registry_inv ?r'" using inv assms(3) by (rule record_port_inv)
  have r': "ReserveDeclared r key = (?r', True)"
    using assms(2,3,4) by (simp add: ReserveDeclared_def)
  have none: "Get ?r' k \<noteq> Some old" for k
    unfolding Get_record_port fun_upd_apply using assms(4) Get_inj [OF inv _ assms(2), of k]
    by (metis option.inject)
  have "old \<in> inUse ?r'" using Get_inUse [OF inv assms(2)] by simp
  moreover have "old \<notin> snd ` set (filter P (assigned ?r'))" for P
    using none Get_in [OF inv'] by force
  ultimately have "old \<in> inUse (ReleaseApp ?r' (kStage key) (kAppKey key))"
    by (simp add: ReleaseApp_eq)
  with none show ?thesis by (simp add: r' Let_def Get_ReleaseApp)
qed

theorem ReserveDeclared_leaks_old_port_witness:
  "let r = record_port NewHostPortRegistry (wkey 1) 40000; r' = fst (ReserveDeclared r (wkey 1));
       r'' = ReleaseApp r' DEV 1 in
     Get r' (wkey 1) = Some 8080 \<and> 40000 \<in> inUse r'' \<and> (\<forall>k. Get r'' k \<noteq> Some 40000)"
proof -
  have "RecoverOrReserve (\<lambda>_ _. True) NewHostPortRegistry (wkey 1) 40000 =
      (record_port NewHostPortRegistry (wkey 1) 40000, Inr 40000)"
    by (simp add: RecoverOrReserve_def NewHostPortRegistry_def Get_def)
  then have "registry_reachable (record_port NewHostPortRegistry (wkey 1) 40000)"
    by (blast intro: registry_reachable.intros registry_step.intros)
  from ReserveDeclared_leaks_old_port [OF this, of "wkey 1" 40000] show ?thesis
    by (simp add: Let_def wkey_def NewHostPortRegistry_def)
qed

end
