(* ===== verification/Effects.thy ===== *)
theory Effects
  imports Errdefs
begin

text \<open>
  Programs over a state of any type: the combinators the components are written with, the effect
  of a program (\<open>wp\<close>), what it keeps related whatever it does (\<open>keeps\<close>, for any relation that is
  reflexive and transitive: the locale \<open>state_relation\<close>) and what holds when it returns without
  an error (\<open>ensures\<close>).
\<close>

section \<open>Combinators\<close>

abbreviation ret :: "'a \<Rightarrow> ('s, 'a) state" where
  "ret \<equiv> State_Monad.return"

definition gets :: "('s \<Rightarrow> 'a) \<Rightarrow> ('s, 'a) state" where
  "gets f = do { w \<leftarrow> State_Monad.get; ret (f w) }"

definition modify :: "('s \<Rightarrow> 's) \<Rightarrow> ('s, unit) state" where
  "modify f = do { w \<leftarrow> State_Monad.get; State_Monad.set (f w) }"

text \<open>\<^verbatim>\<open>if err != nil { return err }\<close> after each statement.\<close>

fun steps :: "('s, err) state list \<Rightarrow> ('s, err) state" where
  "steps [] = ret None"
| "steps (m # ms) = do { e \<leftarrow> m; case e of None \<Rightarrow> steps ms | Some x \<Rightarrow> ret (Some x) }"

text \<open>A statement whose error is dropped or only logged.\<close>

definition ignore :: "('s, 'a) state \<Rightarrow> ('s, err) state" where
  "ignore m = do { _ \<leftarrow> m; ret None }"

section \<open>The effect of a program\<close>

definition wp :: "('s, 'a) state \<Rightarrow> ('a \<Rightarrow> 's \<Rightarrow> bool) \<Rightarrow> 's \<Rightarrow> bool" where
  "wp m Q w = (case run_state m w of (a, w') \<Rightarrow> Q a w')"

named_theorems wp_simps \<open>effects of the combinators and of the operations\<close>

lemma run_bind: "run_state (State_Monad.bind m f) w = (case run_state m w of (a, w') \<Rightarrow> run_state (f a) w')"
  by (simp add: State_Monad.bind_def)

lemma wp_bind [wp_simps]: "wp (State_Monad.bind m f) Q w = wp m (\<lambda>a. wp (f a) Q) w"
  by (simp add: wp_def run_bind split: prod.split)

lemma wp_return [wp_simps]: "wp (ret a) Q = Q a"
  by (simp add: fun_eq_iff wp_def State_Monad.return_def)

lemma wp_get [wp_simps]: "wp State_Monad.get Q w = Q w w"
  by (simp add: wp_def State_Monad.get_def)

lemma wp_set [wp_simps]: "wp (State_Monad.set v) Q w = Q () v"
  by (simp add: wp_def State_Monad.set_def)

lemma run_bind_gets: "run_state (State_Monad.bind (gets f) k) w = run_state (k (f w)) w"
  by (simp add: gets_def run_bind State_Monad.get_def State_Monad.return_def)

lemma wp_gets [wp_simps]: "wp (gets f) Q w = Q (f w) w"
  by (simp add: gets_def wp_simps)

lemma wp_modify [wp_simps]: "wp (modify f) Q w = Q () (f w)"
  by (simp add: modify_def wp_simps)

lemma wp_ignore [wp_simps]: "wp (ignore m) Q w = wp m (\<lambda>_. Q None) w"
  by (simp add: ignore_def wp_simps)

lemma wp_steps_Nil [wp_simps]: "wp (steps []) Q w = Q None w"
  by (simp add: wp_simps)

lemma wp_steps_Cons:
  "wp (steps (m # ms)) Q w = wp m (\<lambda>e w'. case e of None \<Rightarrow> wp (steps ms) Q w' | Some x \<Rightarrow> Q (Some x) w') w"
  by (auto simp: wp_bind wp_return intro!: arg_cong [of _ _ "\<lambda>Q. wp m Q w"] split: option.split)

lemma wp_mono: "wp m Q w \<Longrightarrow> (\<And>a w'. Q a w' \<Longrightarrow> Q' a w') \<Longrightarrow> wp m Q' w"
  by (auto simp: wp_def split: prod.splits)

lemma wp_conj: "wp m Q w \<Longrightarrow> wp m Q' w \<Longrightarrow> wp m (\<lambda>a w'. Q a w' \<and> Q' a w') w"
  by (auto simp: wp_def split: prod.splits)

lemma wp_runD: "wp m Q w \<Longrightarrow> run_state m w = (a, w') \<Longrightarrow> Q a w'"
  by (simp add: wp_def)

lemma wp_runI: "(\<And>a w'. run_state m w = (a, w') \<Longrightarrow> Q a w') \<Longrightarrow> wp m Q w"
  by (simp add: wp_def split: prod.split)

lemma wp_option: "wp m Q w \<Longrightarrow> (\<And>x. wp (f x) Q w) \<Longrightarrow> wp (case e of None \<Rightarrow> m | Some x \<Rightarrow> f x) Q w"
  by (cases e) simp_all

lemma wp_sum: "(\<And>x. wp (f x) Q w) \<Longrightarrow> (\<And>x. wp (g x) Q w) \<Longrightarrow> wp (case e of Inl x \<Rightarrow> f x | Inr x \<Rightarrow> g x) Q w"
  by (cases e) simp_all

lemma wp_if: "(b \<Longrightarrow> wp m Q w) \<Longrightarrow> (\<not> b \<Longrightarrow> wp n Q w) \<Longrightarrow> wp (if b then m else n) Q w"
  by simp

section \<open>What a program keeps\<close>

lemma run_steps_Cons:
  "run_state (steps (m # ms)) w =
     (case run_state m w of (None, w') \<Rightarrow> run_state (steps ms) w' | (Some x, w') \<Rightarrow> (Some x, w'))"
  by (auto simp: run_bind State_Monad.return_def split: prod.split option.split)

definition keeps :: "('s \<Rightarrow> 's \<Rightarrow> bool) \<Rightarrow> ('s, 'a) state \<Rightarrow> bool" where
  "keeps R m \<longleftrightarrow> (\<forall>w. R w (snd (run_state m w)))"

lemma keepsD: "keeps R m \<Longrightarrow> run_state m w = (a, w') \<Longrightarrow> R w w'"
  by (metis keeps_def snd_conv)

lemma keeps_wp: "keeps R m \<longleftrightarrow> (\<forall>w. wp m (\<lambda>_. R w) w)"
  by (simp add: keeps_def wp_def split_beta)

text \<open>
  A relation between the state before and the state after. Every program built from programs
  that keep it keeps it.
\<close>

locale state_relation =
  fixes R :: "'s \<Rightarrow> 's \<Rightarrow> bool"
  assumes R_refl: "R w w"
    and R_trans: "R u v \<Longrightarrow> R v w \<Longrightarrow> R u w"
begin

lemma keeps_return: "keeps R (ret a)"
  by (simp add: keeps_wp wp_return R_refl)

lemma keeps_bind:
  assumes "keeps R m" and "\<And>a. keeps R (f a)"
  shows "keeps R (State_Monad.bind m f)"
proof -
  have "R w (snd (run_state (f a) w'))" if "run_state m w = (a, w')" for w a w'
    using assms that by (metis R_trans keeps_def snd_conv)
  then show ?thesis by (simp add: keeps_def run_bind split: prod.split)
qed

lemma wp_bind_keeps:
  assumes "keeps R m" and "R u w" and "\<And>a w1. R u w1 \<Longrightarrow> wp (f a) Q w1"
  shows "wp (State_Monad.bind m f) Q w"
  unfolding wp_bind by (rule wp_runI) (metis assms R_trans keepsD)

lemma wp_steps_keeps:
  assumes "keeps R m" and "R u w" and "\<And>x w1. R u w1 \<Longrightarrow> Q (Some x) w1"
    and "\<And>w1. R u w1 \<Longrightarrow> run_state m w = (None, w1) \<Longrightarrow> wp (steps ms) Q w1"
  shows "wp (steps (m # ms)) Q w"
  unfolding wp_steps_Cons
proof (rule wp_runI)
  fix e w1 assume run: "run_state m w = (e, w1)"
  then have "R u w1" using assms(1,2) by (metis R_trans keepsD)
  with run assms show "case e of None \<Rightarrow> wp (steps ms) Q w1 | Some x \<Rightarrow> Q (Some x) w1" by (cases e) simp_all
qed

lemma wp_keeps: "keeps R m \<Longrightarrow> R u w \<Longrightarrow> wp m (\<lambda>_. R u) w"
  by (rule wp_runI) (metis R_trans keepsD)

lemma keeps_gets: "keeps R (gets f)"
  by (simp add: keeps_wp wp_gets R_refl)

lemma keeps_get: "keeps R State_Monad.get"
  by (simp add: keeps_wp wp_get R_refl)

lemma keeps_modify: "(\<And>w. R w (f w)) \<Longrightarrow> keeps R (modify f)"
  by (simp add: keeps_wp wp_modify)

lemma keeps_ignore: "keeps R m \<Longrightarrow> keeps R (ignore m)"
  by (simp add: ignore_def keeps_bind keeps_return)

lemma keeps_steps_Nil: "keeps R (steps [])"
  by (simp add: keeps_return)

lemma keeps_steps_Cons:
  assumes "keeps R m" and "keeps R (steps ms)"
  shows "keeps R (steps (m # ms))"
proof -
  have "R w w''" if "run_state m w = (None, w')" and "run_state (steps ms) w' = (e, w'')" for w w' e w''
    using keepsD [OF assms(1) that(1)] keepsD [OF assms(2) that(2)] by (rule R_trans)
  then show ?thesis
    using assms(1) by (auto simp: keeps_def run_steps_Cons split: prod.split option.split)
      (metis snd_conv surj_pair)+
qed

lemma keeps_steps: "(\<And>m. m \<in> set ms \<Longrightarrow> keeps R m) \<Longrightarrow> keeps R (steps ms)"
  by (induction ms) (simp_all only: keeps_steps_Nil keeps_steps_Cons list.set_intros)

lemma keeps_if: "(b \<Longrightarrow> keeps R m) \<Longrightarrow> (\<not> b \<Longrightarrow> keeps R n) \<Longrightarrow> keeps R (if b then m else n)"
  by simp

lemma keeps_case_option:
  "keeps R m \<Longrightarrow> (\<And>x. keeps R (f x)) \<Longrightarrow> keeps R (case e of None \<Rightarrow> m | Some x \<Rightarrow> f x)"
  by (cases e) simp_all

lemma keeps_case_sum:
  "(\<And>x. keeps R (f x)) \<Longrightarrow> (\<And>x. keeps R (g x)) \<Longrightarrow> keeps R (case e of Inl x \<Rightarrow> f x | Inr x \<Rightarrow> g x)"
  by (cases e) simp_all

lemma keeps_case_prod: "(\<And>x y. keeps R (f x y)) \<Longrightarrow> keeps R (case e of (x, y) \<Rightarrow> f x y)"
  by (cases e) simp

lemma keeps_case_list:
  "keeps R m \<Longrightarrow> (\<And>x xs. keeps R (f x xs)) \<Longrightarrow> keeps R (case e of [] \<Rightarrow> m | x # xs \<Rightarrow> f x xs)"
  by (cases e) simp_all

lemma keeps_let: "(\<And>x. keeps R (f x)) \<Longrightarrow> keeps R (let x = e in f x)"
  by simp

lemmas keeps_basic =
  keeps_return keeps_bind keeps_gets keeps_get
  keeps_ignore keeps_steps_Nil keeps_steps_Cons keeps_if keeps_case_option
  keeps_case_sum keeps_case_prod keeps_case_list keeps_let

end

section \<open>What holds when a program returns nil\<close>

definition ensures :: "('s, err) state \<Rightarrow> ('s \<Rightarrow> bool) \<Rightarrow> bool" where
  "ensures m Q \<longleftrightarrow> (\<forall>w w'. run_state m w = (None, w') \<longrightarrow> Q w')"

lemma ensuresD: "ensures m Q \<Longrightarrow> run_state m w = (None, w') \<Longrightarrow> Q w'"
  by (simp add: ensures_def)

lemma ensures_steps_Cons: "ensures (steps ms) Q \<Longrightarrow> ensures (steps (m # ms)) Q"
  unfolding ensures_def run_steps_Cons by (auto split: prod.splits option.splits)

lemma ensures_steps_last: "ensures m Q \<Longrightarrow> ensures (steps [m]) Q"
  unfolding ensures_def run_steps_Cons
  by (auto simp: State_Monad.return_def split: prod.splits option.splits)

text \<open>The last statement may come after the one that establishes the condition, if it keeps it.\<close>

lemma ensures_steps_keep:
  assumes "ensures m Q" and "keeps R (steps ms)" and "\<And>u v. R u v \<Longrightarrow> Q u \<Longrightarrow> Q v"
  shows "ensures (steps (m # ms)) Q"
  unfolding ensures_def run_steps_Cons
  using assms by (auto simp: ensures_def split: prod.splits option.splits dest: keepsD)

lemma run_steps_append:
  "run_state (steps (xs @ ys)) w =
     (case run_state (steps xs) w of (None, w') \<Rightarrow> run_state (steps ys) w' | (Some x, w') \<Rightarrow> (Some x, w'))"
proof (induction xs arbitrary: w)
  case Nil
  then show ?case by (simp add: State_Monad.return_def)
next
  case (Cons x xs)
  then show ?case unfolding append_Cons run_steps_Cons by (auto split: prod.split option.split)
qed

lemma ensures_append_keep:
  assumes "ensures (steps xs) Q" and "keeps R (steps ys)" and "\<And>u v. R u v \<Longrightarrow> Q u \<Longrightarrow> Q v"
  shows "ensures (steps (xs @ ys)) Q"
  unfolding ensures_def run_steps_append
  using assms by (auto simp: ensures_def split: prod.splits option.splits dest: keepsD)

lemma ensures_bind: "(\<And>a. ensures (f a) Q) \<Longrightarrow> ensures (State_Monad.bind m f) Q"
  by (auto simp: ensures_def run_bind split: prod.splits)

lemma ensures_if: "(b \<Longrightarrow> ensures m Q) \<Longrightarrow> (\<not> b \<Longrightarrow> ensures n Q) \<Longrightarrow> ensures (if b then m else n) Q"
  by simp

lemma ensures_Some: "ensures (ret (Some x)) Q"
  by (simp add: ensures_def State_Monad.return_def)

end
