(* ===== verification/World.thy ===== *)
theory World
  imports Names HostPorts Effects
begin

text \<open>
  The state of the agent's app manager and the effects its code has. A Go function that works
  on shared state is a \<open>(world, 'a) state\<close> program: the store's app objects (a pointer is an
  index into \<open>wApps\<close>), the three SQLite tables, the crash loops, the host port registry, the
  compose cancel registry, the credential key and the disk emergency flag are fields of the
  world. Everything outside the process (Docker, compose, the messenger, the file system, the
  log manager, the tunnel manager, SQLite's own failures) is reached through \<open>ext\<close>: a call is
  appended to \<open>wTrace\<close> and answered by \<open>wExt\<close>, a parameter that may depend on everything that
  was called before. A goroutine the code starts and does not wait for is a task in \<open>wTasks\<close>.
  Mutexes that guard a few assignments are not represented: such a section is one step. A Go
  panic is an error value with a message that starts with \<^verbatim>\<open>panic\<close>: the goroutine it ends and
  the locks it leaves held are not represented.
\<close>

section \<open>JSON values\<close>

text \<open>
  What \<^verbatim>\<open>encoding/json\<close> decodes into an \<^verbatim>\<open>interface{}\<close>. Numbers are integers: the agent reads them
  only as ports and keys. An object is an association list, a nil map is \<open>None\<close>.
\<close>

datatype json = JNull | JBool bool | JNum int | JStr string | JArr "json list" | JObj "(string \<times> json) list"

type_synonym jmap = "(string \<times> json) list option"

section \<open>Apps and payloads\<close>

record App =
  aAppKey :: uint64
  aDeviceToAppKey :: uint64
  aRequestorAccountKey :: uint64
  aReleaseKey :: uint64
  aAppName :: string
  aRequestedState :: AppState
  aCurrentState :: AppState
  aUpdateStatus :: UpdateStatus
  aStage :: Stage
  aRequestUpdate :: bool
  aReleaseBuild :: bool
  aVersion :: string
  aLastUpdated :: string
  aTransitionLock :: bool \<comment> \<open>the one permit of the semaphore is taken\<close>

record StageBasedResult =
  Dev :: string
  Prod :: string

record TransitionPayload =
  pRequestedState :: AppState
  pCurrentState :: AppState
  pStage :: Stage
  pRequestorAccountKey :: uint64
  pDeviceOwnerAccountKey :: uint64
  pDeviceToAppKey :: uint64
  pAppKey :: uint64
  pInstanceKey :: uint64
  pAppCredEpoch :: uint64
  pAppName :: string
  pImageName :: StageBasedResult
  pPresentImageName :: string
  pRegistryImageName :: StageBasedResult
  pContainerName :: StageBasedResult
  pDockerCredentials :: "(string \<times> string \<times> string) list option"
  pEnvironmentVariables :: jmap
  pEnvironmentTemplate :: jmap
  pDockerCompose :: jmap
  pNewDockerCompose :: jmap
  pPorts :: "json list"
  pPublishContainerName :: string
  pRegisteryToken :: string
  pNewestVersion :: string
  pPresentVersion :: string
  pReleaseKey :: uint64
  pNewReleaseKey :: uint64
  pVersion :: string
  pRequestUpdate :: bool
  pRetrying :: bool
  pCancelTransition :: bool

record Config =
  cDeviceKey :: uint64
  cSwarmKey :: uint64
  cSerialNumber :: string
  cDockerRegistryURL :: string
  cDockerMainRepository :: string
  cSecret :: string
  cAppsDirectory :: string
  cAppsBuildDir :: string
  cAppsComposeDir :: string
  cAppsSharedDir :: string
  cCompressedBuildExtension :: string
  cName :: string
  cDeviceEndpointURL :: string
  cApplianceDomain :: string
  cEnvironment :: Environment
  cReswarmBaseURL :: string
  cSwarmOwnerName :: string
  cSwarmName :: string
  cArchName :: string \<comment> \<open>\<^verbatim>\<open>release.GetSystemInfo\<close>: architecture and variant\<close>

definition NoNames :: StageBasedResult where
  "NoNames = \<lparr>Dev = [], Prod = []\<rparr>"

definition EmptyPayload :: TransitionPayload where
  "EmptyPayload = \<lparr>pRequestedState = NoState, pCurrentState = NoState, pStage = OtherStage [],
     pRequestorAccountKey = 0, pDeviceOwnerAccountKey = 0, pDeviceToAppKey = 0, pAppKey = 0,
     pInstanceKey = 0, pAppCredEpoch = 0, pAppName = [], pImageName = NoNames,
     pPresentImageName = [], pRegistryImageName = NoNames, pContainerName = NoNames,
     pDockerCredentials = None, pEnvironmentVariables = None, pEnvironmentTemplate = None,
     pDockerCompose = None, pNewDockerCompose = None, pPorts = [], pPublishContainerName = [],
     pRegisteryToken = [], pNewestVersion = [], pPresentVersion = [], pReleaseKey = 0,
     pNewReleaseKey = 0, pVersion = [], pRequestUpdate = False, pRetrying = False,
     pCancelTransition = False\<rparr>"

definition initContainerData :: "TransitionPayload \<Rightarrow> uint64 \<Rightarrow> string \<Rightarrow> Config \<Rightarrow> TransitionPayload" where
  "initContainerData tp appKey appName config =
     (let devImageName = BuildImageName DEV (cArchName config) appKey appName;
          prodImageName = BuildImageName PROD' (cArchName config) appKey appName;
          registry = BuildRegistryImageName (cDockerRegistryURL config) (cDockerMainRepository config)
      in tp\<lparr>pPublishContainerName := BuildContainerName (OtherStage ''pub'') appKey appName,
            pContainerName := \<lparr>Dev = BuildContainerName DEV appKey appName, Prod = BuildContainerName PROD' appKey appName\<rparr>,
            pImageName := \<lparr>Dev = devImageName, Prod = prodImageName\<rparr>,
            pRegistryImageName := \<lparr>Dev = registry devImageName, Prod = registry prodImageName\<rparr>\<rparr>)"

definition BuildTransitionPayload ::
  "uint64 \<Rightarrow> string \<Rightarrow> uint64 \<Rightarrow> Stage \<Rightarrow> AppState \<Rightarrow> AppState \<Rightarrow> uint64 \<Rightarrow> uint64 \<Rightarrow> Config \<Rightarrow> TransitionPayload" where
  "BuildTransitionPayload appKey appName requestorAccountKey stage currentState requestedState releaseKey newReleaseKey config =
     initContainerData
       (EmptyPayload\<lparr>pStage := stage, pRequestedState := requestedState, pAppName := appName, pAppKey := appKey,
          pCurrentState := currentState, pReleaseKey := releaseKey, pNewReleaseKey := newReleaseKey,
          pRequestorAccountKey := requestorAccountKey\<rparr>) appKey appName config"

section \<open>Tables\<close>

record AppStateRow =
  sAppName :: string
  sAppKey :: uint64
  sVersion :: string
  sReleaseKey :: uint64
  sStage :: Stage
  sState :: AppState
  sTimestamp :: string

record RequestedRow =
  rAppName :: string
  rAppKey :: uint64
  rStage :: Stage
  rVersion :: string
  rPresentVersion :: string
  rNewestVersion :: string
  rCurrentState :: AppState
  rRequestedState :: AppState
  rRequestorAccountKey :: uint64
  rDeviceOwnerAccountKey :: uint64
  rReleaseKey :: uint64
  rNewReleaseKey :: uint64
  rRequestUpdate :: bool
  rEnvironmentVariables :: jmap
  rEnvironmentTemplate :: jmap
  rPorts :: "json list"
  rDockerCompose :: jmap
  rNewDockerCompose :: jmap

record CrashLoop =
  clPayload :: TransitionPayload
  clRetries :: uint64

section \<open>Calls and the world\<close>

datatype ext_call = Ext string "string list"

text \<open>What Docker's list of containers tells about one: \<^verbatim>\<open>types.Container\<close> and \<^verbatim>\<open>ContainerResult\<close>.\<close>

record Container =
  ctID :: string
  ctNames :: "string list"
  ctLabels :: "(string \<times> string) list"
  ctState :: string
  ctExitCode :: int
  ctImageID :: string

record reply =
  rpErr :: err
  rpStr :: string
  rpNum :: int
  rpFlag :: bool
  rpStrs :: "(string \<times> string list) list"
  rpPorts :: "(string \<times> uint64) list"
  rpJson :: json
  rpContainers :: "Container list"

text \<open>The transition functions, as values: what \<^verbatim>\<open>getTransitionFunc\<close> and \<^verbatim>\<open>getUpdateTransition\<close> return.\<close>

datatype TransitionFunc =
    F_removedToPresent | F_removedToRunning | F_buildApp | F_publishApp | F_uninstallApp
  | F_noActionTransitionFunc | F_pullApp | F_runApp | F_cancelPush | F_cancelBuild | F_removeApp
  | F_recoverFailToPresentHandler | F_recoverFailToRunningHandler | F_cancelTransfer | F_stopApp
  | F_removeAndPublishApp | F_cancelPull | F_cancelUpdate | F_cancelUpdateAndRemove
  | F_cancelUpdateAndUninstall | F_updateApp

datatype task =
    RequestTask TransitionPayload \<comment> \<open>\<^verbatim>\<open>RequestAppState\<close> in a goroutine\<close>
  | EnsureTask nat TransitionPayload \<comment> \<open>the goroutine of \<^verbatim>\<open>EnsureLocalRequestedStates\<close>\<close>
  | RetryTask TransitionPayload uint64 \<comment> \<open>the sleeper of a crash loop and its attempt\<close>
  | CancelTask nat TransitionPayload TransitionFunc \<comment> \<open>a cancel transition nobody waits for\<close>
  | RecoverTask \<comment> \<open>what the disk guard starts when an emergency is over\<close>
  | ObserveTask nat Stage uint64 string string \<comment> \<open>\<^verbatim>\<open>observeAppState\<close>: its context, its app and the last status it saw\<close>
  | ObserveComposeTask nat Stage uint64 string AppState \<comment> \<open>\<^verbatim>\<open>observeComposeAppState\<close> and the last state it saw\<close>

text \<open>Functions of Go's library and of the host that the code applies without relying on their values.\<close>

record Lib =
  lHmac :: "string \<Rightarrow> string \<Rightarrow> string" \<comment> \<open>base64 of HMAC-SHA256\<close>
  lAppEndpointURL :: "string \<Rightarrow> string" \<comment> \<open>\<^verbatim>\<open>appEndpointURL\<close>, on parsed URLs\<close>
  lLanIP :: string \<comment> \<open>\<^verbatim>\<open>network.GetPrimaryLANIP\<close>\<close>
  lNewPort :: "string \<Rightarrow> string \<Rightarrow> go_error + string" \<comment> \<open>\<^verbatim>\<open>nat.NewPort\<close>\<close>
  lMarshal :: "json \<Rightarrow> string" \<comment> \<open>\<^verbatim>\<open>json.Marshal\<close>\<close>
  lUnmarshal :: "string \<Rightarrow> json option" \<comment> \<open>\<^verbatim>\<open>json.Unmarshal\<close>\<close>
  lSplitHostPort :: "string \<Rightarrow> string option" \<comment> \<open>the host of \<^verbatim>\<open>net.SplitHostPort\<close>\<close>
  lLocalIP :: "string \<Rightarrow> bool" \<comment> \<open>parsed by \<^verbatim>\<open>net.ParseIP\<close>, and a loopback, private or link-local address\<close>

record world =
  wApps :: "App list"
  wAppStates :: "AppStateRow list"
  wHistory :: "AppStateRow list"
  wRequested :: "RequestedRow list"
  wCrashLoops :: "CrashLoop list"
  wHostPorts :: HostPortRegistry
  wComposeCancels :: "string list"
  wAppCredKey :: string
  wEmergency :: bool
  wObservers :: "(string \<times> nat) list" \<comment> \<open>\<^verbatim>\<open>activeObservers\<close>: container name to observer context\<close>
  wNextCtx :: nat
  wSpawnerActive :: bool
  wTasks :: "task list"
  wConfig :: Config
  wLib :: Lib
  wTrace :: "ext_call list"
  wExt :: "ext_call list \<Rightarrow> ext_call \<Rightarrow> reply"

type_synonym 'a prog = "(world, 'a) state"

end
