(* ===== verification/ComposePorts.thy ===== *)
theory ComposePorts
  imports World
begin

text \<open>
  \<^verbatim>\<open>src/apps/compose_ports.go\<close> and \<^verbatim>\<open>src/apps/hostports_resolve.go\<close>: how the published ports of an
  app are read from its port rules and its compose file, given host ports of the registry and
  written back. What Docker reports about live containers is an argument of the operations.
\<close>

section \<open>JSON access\<close>

definition obj_get :: "json \<Rightarrow> string \<Rightarrow> json" where
  "obj_get j k = (case j of JObj m \<Rightarrow> (case map_of m k of Some v \<Rightarrow> v | None \<Rightarrow> JNull) | _ \<Rightarrow> JNull)"

definition jmap_get :: "jmap \<Rightarrow> string \<Rightarrow> json" where
  "jmap_get m k = (case m of None \<Rightarrow> JNull | Some kvs \<Rightarrow> (case map_of kvs k of Some v \<Rightarrow> v | None \<Rightarrow> JNull))"

section \<open>Port rules\<close>

record PortForwardRule =
  Main :: bool
  RuleName :: string
  Active :: bool
  Public :: bool
  Port :: uint64
  Protocol :: string
  LocalIP :: string
  RemotePortEnvironment :: string
  RemotePort :: uint64
  HostPort :: uint64
  CloudRemotePort :: uint64

text \<open>\<^verbatim>\<open>json.Unmarshal\<close> of one field: absent or null is the zero value, a wrong type an error.\<close>

definition field_bool :: "json \<Rightarrow> string \<Rightarrow> bool option" where
  "field_bool j k = (case obj_get j k of JNull \<Rightarrow> Some False | JBool b \<Rightarrow> Some b | _ \<Rightarrow> None)"

definition field_string :: "json \<Rightarrow> string \<Rightarrow> string option" where
  "field_string j k = (case obj_get j k of JNull \<Rightarrow> Some [] | JStr s \<Rightarrow> Some s | _ \<Rightarrow> None)"

definition field_uint :: "json \<Rightarrow> string \<Rightarrow> uint64 option" where
  "field_uint j k = (case obj_get j k of
     JNull \<Rightarrow> Some 0
   | JNum n \<Rightarrow> if 0 \<le> n \<and> n < 2 ^ 64 then Some (word_of_int n) else None
   | _ \<Rightarrow> None)"

definition decode_rule :: "json \<Rightarrow> PortForwardRule option" where
  "decode_rule j =
     (case j of
        JObj _ \<Rightarrow>
          Option.bind (field_bool j ''main'') (\<lambda>main.
          Option.bind (field_string j ''name'') (\<lambda>name.
          Option.bind (field_bool j ''active'') (\<lambda>active.
          Option.bind (field_bool j ''public'') (\<lambda>public.
          Option.bind (field_uint j ''port'') (\<lambda>port.
          Option.bind (field_string j ''protocol'') (\<lambda>protocol.
          Option.bind (field_string j ''local_ip'') (\<lambda>ip.
          Option.bind (field_string j ''remote_port_environment'') (\<lambda>env.
          Option.bind (field_uint j ''remote_port'') (\<lambda>remote.
          Option.bind (field_uint j ''host_port'') (\<lambda>host.
          Option.bind (field_uint j ''cloud_remote_port'') (\<lambda>cloud.
            Some \<lparr>Main = main, RuleName = name, Active = active, Public = public, Port = port,
                  Protocol = protocol, LocalIP = ip, RemotePortEnvironment = env, RemotePort = remote,
                  HostPort = host, CloudRemotePort = cloud\<rparr>)))))))))))
      | JNull \<Rightarrow> Some \<lparr>Main = False, RuleName = [], Active = False, Public = False, Port = 0, Protocol = [],
                       LocalIP = [], RemotePortEnvironment = [], RemotePort = 0, HostPort = 0, CloudRemotePort = 0\<rparr>
      | _ \<Rightarrow> None)"

fun InterfaceToPortForwardRule :: "json list \<Rightarrow> go_error + PortForwardRule list" where
  "InterfaceToPortForwardRule [] = Inr []"
| "InterfaceToPortForwardRule (j # js) =
     (case decode_rule j of
        None \<Rightarrow> Inl (Msg ''json: cannot unmarshal'')
      | Some r \<Rightarrow>
          (case InterfaceToPortForwardRule js of
             Inl e \<Rightarrow> Inl e
           | Inr rs \<Rightarrow> Inr (r\<lparr>Protocol := (if Protocol r = [] then ''http'' else Protocol r)\<rparr> # rs)))"

text \<open>The \<^verbatim>\<open>omitempty\<close> fields are written only when they are not zero.\<close>

definition encode_rule :: "PortForwardRule \<Rightarrow> json" where
  "encode_rule r = JObj (
     [(''main'', JBool (Main r)), (''name'', JStr (RuleName r)), (''active'', JBool (Active r)),
      (''public'', JBool (Public r)), (''port'', JNum (uint (Port r))), (''protocol'', JStr (Protocol r)),
      (''local_ip'', JStr (LocalIP r)), (''remote_port_environment'', JStr (RemotePortEnvironment r)),
      (''remote_port'', JNum (uint (RemotePort r)))]
     @ (if HostPort r = 0 then [] else [(''host_port'', JNum (uint (HostPort r)))])
     @ (if CloudRemotePort r = 0 then [] else [(''cloud_remote_port'', JNum (uint (CloudRemotePort r)))]))"

definition PortForwardRuleToInterface :: "PortForwardRule list \<Rightarrow> json list" where
  "PortForwardRuleToInterface = map encode_rule"

section \<open>Compose port entries\<close>

definition wireProtocol :: "string \<Rightarrow> string" where
  "wireProtocol protocol = (if protocol = ''udp'' then ''udp'' else ''tcp'')"

record composePortEntry =
  eService :: string
  eHostIP :: string
  eHostPort :: uint64
  eContainerPort :: uint64
  eProtocol :: string
  eRaw :: json
  eRewritable :: bool

definition DeclaredPort :: "composePortEntry \<Rightarrow> uint64" where
  "DeclaredPort e = (if eHostPort e \<noteq> 0 then eHostPort e else eContainerPort e)"

definition matchesRule :: "composePortEntry \<Rightarrow> uint64 \<Rightarrow> string \<Rightarrow> bool" where
  "matchesRule e rulePort ruleProtocol \<longleftrightarrow>
     eRewritable e \<and> DeclaredPort e = rulePort \<and> eProtocol e = wireProtocol ruleProtocol"

definition parsePort :: "string \<Rightarrow> uint64" where
  "parsePort value = (case ParseUint 16 value of None \<Rightarrow> 0 | Some n \<Rightarrow> of_nat n)"

definition parsePortValue :: "json \<Rightarrow> uint64" where
  "parsePortValue value = (case value of JStr s \<Rightarrow> parsePort s | JNum n \<Rightarrow> word_of_int n | _ \<Rightarrow> 0)"

text \<open>\<^verbatim>\<open>strings.LastIndex\<close> of a byte, as the split it is used for.\<close>

definition cut_last :: "char \<Rightarrow> string \<Rightarrow> (string \<times> string) option" where
  "cut_last sep s =
     (if sep \<in> set s
      then Some (rev (tl (dropWhile (\<lambda>c. c \<noteq> sep) (rev s))), rev (takeWhile (\<lambda>c. c \<noteq> sep) (rev s)))
      else None)"

text \<open>The part of \<^verbatim>\<open>parseShortSyntax\<close> after the protocol was cut off.\<close>

definition parseShortPorts :: "string \<Rightarrow> composePortEntry \<Rightarrow> composePortEntry" where
  "parseShortPorts spec entry =
     (let parts = Split (CHR '':'') spec; n = length parts;
          finish = (\<lambda>e. let c = parsePort (parts ! (n - 1)) in e\<lparr>eContainerPort := c, eRewritable := c > 0\<rparr>)
      in if n = 1 then finish entry
         else if n = 2 then
           (let e = entry\<lparr>eHostPort := parsePort (parts ! 0)\<rparr> in if eHostPort e = 0 then e else finish e)
         else
           (let e = entry\<lparr>eHostIP := Join (CHR '':'') (take (n - 2) parts), eHostPort := parsePort (parts ! (n - 2))\<rparr>
            in if eHostPort e = 0 then e else finish e))"

definition parseShortSyntax :: "string \<Rightarrow> composePortEntry \<Rightarrow> composePortEntry" where
  "parseShortSyntax value entry =
     (if CHR ''$'' \<in> set value then entry
      else case cut_last (CHR ''/'') value of
             None \<Rightarrow> parseShortPorts value entry
           | Some (spec, proto) \<Rightarrow>
               let protocol = ToLower proto in
               if protocol \<noteq> ''tcp'' \<and> protocol \<noteq> ''udp'' then entry
               else parseShortPorts spec (entry\<lparr>eProtocol := protocol\<rparr>))"

definition parseLongSyntax :: "(string \<times> json) list \<Rightarrow> composePortEntry \<Rightarrow> composePortEntry" where
  "parseLongSyntax value entry =
     (let e0 = entry\<lparr>eContainerPort := parsePortValue (obj_get (JObj value) ''target'')\<rparr>;
          withIP = (\<lambda>e. case map_of value ''host_ip'' of Some (JStr ip) \<Rightarrow> e\<lparr>eHostIP := ip\<rparr> | _ \<Rightarrow> e);
          published = (\<lambda>e. case map_of value ''published'' of
              None \<Rightarrow> e\<lparr>eRewritable := True\<rparr>
            | Some p \<Rightarrow>
                let e' = e\<lparr>eHostPort := parsePortValue p\<rparr>
                in if eHostPort e' = 0 then e' else e'\<lparr>eRewritable := True\<rparr>)
      in if eContainerPort e0 = 0 then e0
         else case map_of value ''protocol'' of
                Some (JStr p) \<Rightarrow>
                  (let protocol = ToLower p in
                   if protocol \<noteq> ''tcp'' \<and> protocol \<noteq> ''udp'' then e0
                   else published (withIP (e0\<lparr>eProtocol := protocol\<rparr>)))
              | _ \<Rightarrow> published (withIP e0))"

definition parseComposePortEntry :: "json \<Rightarrow> composePortEntry" where
  "parseComposePortEntry raw =
     (let entry = \<lparr>eService = [], eHostIP = [], eHostPort = 0, eContainerPort = 0, eProtocol = ''tcp'',
                   eRaw = raw, eRewritable = False\<rparr>
      in case raw of
           JStr value \<Rightarrow> parseShortSyntax value entry
         | JNum n \<Rightarrow> entry\<lparr>eContainerPort := word_of_int n, eRewritable := (word_of_int n :: uint64) > 0\<rparr>
         | JObj value \<Rightarrow> parseLongSyntax value entry
         | _ \<Rightarrow> entry)"

definition service_ports :: "json \<Rightarrow> json list option" where
  "service_ports service = (case service of
     JObj _ \<Rightarrow> (case obj_get service ''ports'' of JArr ports \<Rightarrow> Some ports | _ \<Rightarrow> None)
   | _ \<Rightarrow> None)"

definition parseComposePorts :: "jmap \<Rightarrow> composePortEntry list" where
  "parseComposePorts dockerCompose =
     (case jmap_get dockerCompose ''services'' of
        JObj services \<Rightarrow>
          concat (map (\<lambda>(serviceName, service). case service_ports service of
              None \<Rightarrow> []
            | Some ports \<Rightarrow> map (\<lambda>raw. (parseComposePortEntry raw)\<lparr>eService := serviceName\<rparr>) ports) services)
      | _ \<Rightarrow> [])"

definition rewriteComposePortEntry :: "composePortEntry \<Rightarrow> string \<Rightarrow> uint64 \<Rightarrow> json" where
  "rewriteComposePortEntry entry bindIP hostPort =
     (case eRaw entry of
        JObj longSyntax \<Rightarrow> JObj (map_put ''host_ip'' (JStr bindIP)
                               (map_put ''published'' (JStr (itoa (unat hostPort))) longSyntax))
      | _ \<Rightarrow> JStr (bindIP @ '':'' @ itoa (unat hostPort) @ '':'' @ itoa (unat (eContainerPort entry))
                   @ (if eProtocol entry = ''udp'' then ''/udp'' else [])))"

section \<open>Host ports for rules\<close>

type_synonym bindings = "(string \<times> uint64) list"

definition lookup0 :: "bindings \<Rightarrow> string \<Rightarrow> uint64" where
  "lookup0 m k = (case map_of m k of Some p \<Rightarrow> p | None \<Rightarrow> 0)"

definition hostPortKeyForRule :: "Stage \<Rightarrow> uint64 \<Rightarrow> PortForwardRule \<Rightarrow> hostPortKey" where
  "hostPortKeyForRule stage appKey rule =
     \<lparr>kStage = stage, kAppKey = appKey, kProtocol = wireProtocol (Protocol rule), kPort = Port rule, kService = []\<rparr>"

definition bindingKey :: "uint64 \<Rightarrow> string \<Rightarrow> string" where
  "bindingKey port protocol = itoa (unat port) @ ''/'' @ protocol"

definition PublishedPortKey :: "string \<Rightarrow> uint64 \<Rightarrow> string \<Rightarrow> string" where
  "PublishedPortKey service targetPort protocol =
     service @ ''|'' @ itoa (unat targetPort) @ ''/'' @ (if protocol = [] then ''tcp'' else protocol)"

definition reserveLaunchHostPort ::
  "probe \<Rightarrow> Stage \<Rightarrow> uint64 \<Rightarrow> PortForwardRule \<Rightarrow> bindings \<Rightarrow> HostPortRegistry \<Rightarrow> HostPortRegistry \<times> (go_error + uint64)" where
  "reserveLaunchHostPort probeFree stage appKey rule liveBindings r =
     (let key = hostPortKeyForRule stage appKey rule;
          live = lookup0 liveBindings (bindingKey (Port rule) (kProtocol key));
          preferred = (if live = 0 then HostPort rule else live)
      in reserveLaunch probeFree r key preferred)"

text \<open>
  The loop of \<^verbatim>\<open>computePortBindings\<close>; \<^verbatim>\<open>nat.NewPort\<close> belongs to Docker's library and is the
  parameter \<open>newPort\<close>. A binding is the host port the container port is published on. The line the
  loop writes to the log of a developer app about a moved port is left out: its error is dropped.
\<close>

fun bindRules ::
  "probe \<Rightarrow> (string \<Rightarrow> string \<Rightarrow> go_error + string) \<Rightarrow> Stage \<Rightarrow> uint64 \<Rightarrow> bindings \<Rightarrow> PortForwardRule list
   \<Rightarrow> HostPortRegistry \<Rightarrow> bindings \<Rightarrow> HostPortRegistry \<times> (go_error + bindings)" where
  "bindRules probeFree newPort stage appKey live [] r acc = (r, Inr acc)"
| "bindRules probeFree newPort stage appKey live (rule # rules) r acc =
     (case reserveLaunchHostPort probeFree stage appKey rule live r of
        (r', Inl e) \<Rightarrow> (r', Inl e)
      | (r', Inr hostPort) \<Rightarrow>
          (case newPort (wireProtocol (Protocol rule)) (itoa (unat (Port rule))) of
             Inl e \<Rightarrow> (r', Inl e)
           | Inr containerPort \<Rightarrow>
               bindRules probeFree newPort stage appKey live rules r' (map_put containerPort hostPort acc)))"

definition computePortBindings ::
  "probe \<Rightarrow> (string \<Rightarrow> string \<Rightarrow> go_error + string) \<Rightarrow> Stage \<Rightarrow> uint64 \<Rightarrow> (go_error + bindings) \<Rightarrow> PortForwardRule list
   \<Rightarrow> HostPortRegistry \<Rightarrow> HostPortRegistry \<times> (go_error + bindings)" where
  "computePortBindings probeFree newPort stage appKey liveReply portRules r =
     (let publishable = filter (\<lambda>rule. LocalIP rule = []) portRules;
          liveBindings = (case liveReply of Inl _ \<Rightarrow> [] | Inr m \<Rightarrow> m)
      in if publishable = [] then (r, Inr [])
         else bindRules probeFree newPort stage appKey liveBindings publishable r [])"

definition normalizeNetworkMode :: "string \<Rightarrow> string" where
  "normalizeNetworkMode mode = (if mode = [] \<or> mode = ''default'' then ''bridge'' else mode)"

definition containerNetworkConfigOutdated :: "string \<Rightarrow> string \<Rightarrow> bindings \<Rightarrow> (go_error + bindings) \<Rightarrow> bool" where
  "containerNetworkConfigOutdated contMode wantedMode desired actualReply =
     (if normalizeNetworkMode contMode \<noteq> normalizeNetworkMode wantedMode then True
      else if desired = [] then False
      else case actualReply of
             Inl _ \<Rightarrow> False
           | Inr actual \<Rightarrow> length desired \<noteq> length actual
               \<or> list_ex (\<lambda>(containerPort, hostPort). lookup0 actual containerPort \<noteq> hostPort) desired)"

section \<open>Host ports for compose entries\<close>

definition composeKey :: "Stage \<Rightarrow> uint64 \<Rightarrow> composePortEntry \<Rightarrow> hostPortKey" where
  "composeKey stage appKey entry =
     \<lparr>kStage = stage, kAppKey = appKey, kProtocol = eProtocol entry, kPort = DeclaredPort entry, kService = eService entry\<rparr>"

definition rewritePort ::
  "probe \<Rightarrow> Stage \<Rightarrow> uint64 \<Rightarrow> bindings \<Rightarrow> PortForwardRule list \<Rightarrow> string \<Rightarrow> json \<Rightarrow> HostPortRegistry
   \<Rightarrow> HostPortRegistry \<times> (go_error + json)" where
  "rewritePort probeFree stage appKey published rules serviceName raw r =
     (let entry = (parseComposePortEntry raw)\<lparr>eService := serviceName\<rparr>;
          matchingRule = find (\<lambda>rule. LocalIP rule = [] \<and> matchesRule entry (Port rule) (Protocol rule)) rules;
          live = lookup0 published (PublishedPortKey serviceName (eContainerPort entry) (eProtocol entry));
          preferred = (if live = 0 then (case matchingRule of Some rule \<Rightarrow> HostPort rule | None \<Rightarrow> 0) else live)
      in if \<not> eRewritable entry then (r, Inr raw)
         else if eHostPort entry = 0 \<and> matchingRule = None then (r, Inr raw)
         else case reserveLaunch probeFree r (composeKey stage appKey entry) preferred of
                (r', Inl e) \<Rightarrow> (r', Inl e)
              | (r', Inr hostPort) \<Rightarrow> (r', Inr (rewriteComposePortEntry entry ''0.0.0.0'' hostPort)))"

text \<open>A Go loop that threads the registry and stops at the first error.\<close>

fun map_err :: "('a \<Rightarrow> 's \<Rightarrow> 's \<times> (go_error + 'b)) \<Rightarrow> 'a list \<Rightarrow> 's \<Rightarrow> 's \<times> (go_error + 'b list)" where
  "map_err f [] r = (r, Inr [])"
| "map_err f (x # xs) r =
     (case f x r of
        (r', Inl e) \<Rightarrow> (r', Inl e)
      | (r', Inr y) \<Rightarrow> (case map_err f xs r' of (r'', Inl e) \<Rightarrow> (r'', Inl e) | (r'', Inr ys) \<Rightarrow> (r'', Inr (y # ys))))"

definition rewriteService ::
  "probe \<Rightarrow> Stage \<Rightarrow> uint64 \<Rightarrow> bindings \<Rightarrow> PortForwardRule list \<Rightarrow> string \<times> json \<Rightarrow> HostPortRegistry
   \<Rightarrow> HostPortRegistry \<times> (go_error + string \<times> json)" where
  "rewriteService probeFree stage appKey published rules named r =
     (case service_ports (snd named) of
        None \<Rightarrow> (r, Inr named)
      | Some ports \<Rightarrow>
          (case map_err (rewritePort probeFree stage appKey published rules (fst named)) ports r of
             (r', Inl e) \<Rightarrow> (r', Inl e)
           | (r', Inr ports') \<Rightarrow>
               (r', Inr (fst named, (case snd named of JObj m \<Rightarrow> JObj (map_put ''ports'' (JArr ports') m) | j \<Rightarrow> j)))))"

definition rewriteComposeHostPorts ::
  "probe \<Rightarrow> Stage \<Rightarrow> uint64 \<Rightarrow> bindings \<Rightarrow> json list \<Rightarrow> (string \<times> json) list \<Rightarrow> HostPortRegistry
   \<Rightarrow> HostPortRegistry \<times> (go_error + (string \<times> json) list)" where
  "rewriteComposeHostPorts probeFree stage appKey published ports dockerCompose r =
     (case InterfaceToPortForwardRule ports of
        Inl e \<Rightarrow> (r, Inl e)
      | Inr rules \<Rightarrow>
          (case map_of dockerCompose ''services'' of
             Some (JObj services) \<Rightarrow>
               (case map_err (rewriteService probeFree stage appKey published rules) services r of
                  (r', Inl e) \<Rightarrow> (r', Inl e)
                | (r', Inr services') \<Rightarrow> (r', Inr (map_put ''services'' (JObj services') dockerCompose)))
           | _ \<Rightarrow> (r, Inr dockerCompose)))"

section \<open>After a bind conflict\<close>

definition isPortAllocationError :: "err \<Rightarrow> bool" where
  "isPortAllocationError err = (case err of
     None \<Rightarrow> False
   | Some e \<Rightarrow> Contains (Error e) ''port is already allocated'' \<or> Contains (Error e) ''address already in use'')"

text \<open>One candidate of the two reassignment loops.\<close>

definition reassignKey :: "probe \<Rightarrow> string \<Rightarrow> hostPortKey \<Rightarrow> HostPortRegistry \<times> bool \<Rightarrow> HostPortRegistry \<times> bool" where
  "reassignKey probeFree message key st =
     (case Get (fst st) key of
        None \<Rightarrow> st
      | Some hostPort \<Rightarrow>
          if \<not> Contains message (CHR '':'' # itoa (unat hostPort)) then st
          else (case ReassignFresh probeFree (fst st) key of
                  (r', Inl _) \<Rightarrow> (r', snd st)
                | (r', Inr _) \<Rightarrow> (r', True)))"

definition reassignPortsAfterBindConflict ::
  "probe \<Rightarrow> Stage \<Rightarrow> uint64 \<Rightarrow> json list \<Rightarrow> go_error \<Rightarrow> HostPortRegistry \<Rightarrow> HostPortRegistry \<times> bool" where
  "reassignPortsAfterBindConflict probeFree stage appKey ports bindErr r =
     (case InterfaceToPortForwardRule ports of
        Inl _ \<Rightarrow> (r, False)
      | Inr rules \<Rightarrow>
          fold (\<lambda>rule st. if LocalIP rule \<noteq> [] then st
                          else reassignKey probeFree (Error bindErr) (hostPortKeyForRule stage appKey rule) st)
            rules (r, False))"

definition reassignComposePortsAfterBindConflict ::
  "probe \<Rightarrow> Stage \<Rightarrow> uint64 \<Rightarrow> jmap \<Rightarrow> go_error \<Rightarrow> HostPortRegistry \<Rightarrow> HostPortRegistry \<times> bool" where
  "reassignComposePortsAfterBindConflict probeFree stage appKey dockerCompose bindErr r =
     (if dockerCompose = None then (r, False)
      else fold (\<lambda>entry st. if \<not> eRewritable entry then st
                            else reassignKey probeFree (Error bindErr) (composeKey stage appKey entry) st)
             (parseComposePorts dockerCompose) (r, False))"

section \<open>Reading back a rewritten entry\<close>

lemma not_in_itoa:
  "of_char c < (48 :: nat) \<or> (57 :: nat) < of_char c \<Longrightarrow> c \<notin> set (itoa n)"
  using itoa_chars [of c n] by auto

lemma punctuation_not_in_itoa [simp]:
  "CHR ''$'' \<notin> set (itoa n)" "CHR ''/'' \<notin> set (itoa n)" "CHR '':'' \<notin> set (itoa n)"
  by (simp_all add: not_in_itoa)

lemma parsePort_itoa: "unat p < 65536 \<Longrightarrow> parsePort (itoa (unat p)) = p"
  by (simp add: parsePort_def ParseUint_itoa)

lemma cut_last_append: "sep \<notin> set b \<Longrightarrow> cut_last sep (a @ sep # b) = Some (a, b)"
  by (simp add: cut_last_def takeWhile_append dropWhile_append takeWhile_eq_all_conv [THEN iffD2]
      dropWhile_eq_Nil_conv [THEN iffD2])

lemma cut_last_None: "sep \<notin> set s \<Longrightarrow> cut_last sep s = None"
  by (simp add: cut_last_def)

definition published_spec :: "uint64 \<Rightarrow> uint64 \<Rightarrow> string" where
  "published_spec hp cp = ''0.0.0.0'' @ CHR '':'' # itoa (unat hp) @ CHR '':'' # itoa (unat cp)"

lemma Split_published_spec: "Split (CHR '':'') (published_spec hp cp) = [''0.0.0.0'', itoa (unat hp), itoa (unat cp)]"
  using Split_Cons_sep [of "CHR '':''" "''0.0.0.0''" "itoa (unat hp) @ CHR '':'' # itoa (unat cp)"]
  by (simp add: published_spec_def Split_Cons_sep Split_no_sep)

lemma published_spec_chars: "CHR ''$'' \<notin> set (published_spec hp cp)" "CHR ''/'' \<notin> set (published_spec hp cp)"
  by (simp_all add: published_spec_def)

lemma parseShortPorts_published:
  assumes "0 < hp" and "unat hp < 65536" and "0 < cp" and "unat cp < 65536"
  shows "parseShortPorts (published_spec hp cp) e =
     e\<lparr>eHostIP := ''0.0.0.0'', eHostPort := hp, eContainerPort := cp, eRewritable := True\<rparr>"
  using assms by (simp add: parseShortPorts_def Split_published_spec parsePort_itoa Let_def)

definition blank_entry :: "json \<Rightarrow> composePortEntry" where
  "blank_entry raw = \<lparr>eService = [], eHostIP = [], eHostPort = 0, eContainerPort = 0, eProtocol = ''tcp'',
     eRaw = raw, eRewritable = False\<rparr>"

lemma parse_rewritten_short:
  assumes "0 < hp" and "unat hp < 65536" and "0 < cp" and "unat cp < 65536" and "proto = ''tcp'' \<or> proto = ''udp''"
  shows "parseShortSyntax (published_spec hp cp @ (if proto = ''udp'' then ''/udp'' else [])) (blank_entry raw) =
     (blank_entry raw)\<lparr>eHostIP := ''0.0.0.0'', eHostPort := hp, eContainerPort := cp, eProtocol := proto, eRewritable := True\<rparr>"
proof (cases "proto = ''udp''")
  case True
  have "ToLower ''udp'' = ''udp''" by code_simp
  with True cut_last_append [of "CHR ''/''" "''udp''" "published_spec hp cp"] assms show ?thesis
    by (simp add: parseShortSyntax_def published_spec_chars parseShortPorts_published)
next
  case False
  with assms show ?thesis
    by (auto simp: parseShortSyntax_def cut_last_None published_spec_chars parseShortPorts_published blank_entry_def)
qed

text \<open>What the protocol of a parsed entry can be.\<close>

lemma parse_protocol: "eProtocol (parseComposePortEntry raw) = ''tcp'' \<or> eProtocol (parseComposePortEntry raw) = ''udp''"
  by (auto simp: parseComposePortEntry_def parseShortSyntax_def parseShortPorts_def parseLongSyntax_def Let_def
      split: json.split option.split prod.split)

lemma parse_raw: "eRaw (parseComposePortEntry raw) = raw"
  by (auto simp: parseComposePortEntry_def parseShortSyntax_def parseShortPorts_def parseLongSyntax_def Let_def
      split: json.split option.split prod.split)

lemma short_rewritable: "eRewritable (parseShortSyntax v (blank_entry raw)) \<Longrightarrow> 0 < eContainerPort (parseShortSyntax v (blank_entry raw))"
  by (auto simp: parseShortSyntax_def parseShortPorts_def blank_entry_def Let_def split: option.splits prod.splits if_splits)

text \<open>The long syntax, field by field.\<close>

definition long_target :: "(string \<times> json) list \<Rightarrow> uint64" where
  "long_target m = parsePortValue (obj_get (JObj m) ''target'')"

definition long_protocol :: "(string \<times> json) list \<Rightarrow> string" where
  "long_protocol m = (case map_of m ''protocol'' of Some (JStr p) \<Rightarrow> ToLower p | _ \<Rightarrow> ''tcp'')"

lemma parseLong_rewritable:
  assumes "eRewritable (parseLongSyntax m (blank_entry raw))"
  shows "long_target m \<noteq> 0 \<and> (long_protocol m = ''tcp'' \<or> long_protocol m = ''udp'') \<and>
     eContainerPort (parseLongSyntax m (blank_entry raw)) = long_target m \<and>
     eProtocol (parseLongSyntax m (blank_entry raw)) = long_protocol m"
  using assms unfolding parseLongSyntax_def Let_def long_target_def [symmetric] long_protocol_def
  by (cases "map_of m ''protocol''"; cases "map_of m ''host_ip''"; cases "map_of m ''published''")
    (auto simp: blank_entry_def split: if_splits json.splits)

lemma parseLong_published:
  assumes "long_target m \<noteq> 0" and "long_protocol m = ''tcp'' \<or> long_protocol m = ''udp''"
    and "map_of m ''host_ip'' = Some (JStr ip)" and "map_of m ''published'' = Some p" and "parsePortValue p \<noteq> 0"
  shows "parseLongSyntax m (blank_entry raw) = (blank_entry raw)\<lparr>eHostIP := ip, eHostPort := parsePortValue p,
     eContainerPort := long_target m, eProtocol := long_protocol m, eRewritable := True\<rparr>"
  using assms unfolding parseLongSyntax_def Let_def long_target_def [symmetric] long_protocol_def
  by (cases "map_of m ''protocol''") (auto simp: blank_entry_def split: json.splits)

lemma parse_JObj: "parseComposePortEntry (JObj m) = parseLongSyntax m (blank_entry (JObj m))"
  by (simp add: parseComposePortEntry_def blank_entry_def Let_def)

lemma parse_JStr: "parseComposePortEntry (JStr v) = parseShortSyntax v (blank_entry (JStr v))"
  by (simp add: parseComposePortEntry_def blank_entry_def Let_def)

lemma rewritable_container_port:
  assumes "eRewritable (parseComposePortEntry raw)"
  shows "0 < eContainerPort (parseComposePortEntry raw)"
proof (cases raw)
  case (JStr v)
  with assms short_rewritable show ?thesis by (simp add: parse_JStr)
next
  case (JObj m)
  with assms parseLong_rewritable [of m "JObj m"] show ?thesis by (simp add: parse_JObj word_gt_0)
qed (use assms in \<open>simp_all add: parseComposePortEntry_def Let_def\<close>)

definition republished :: "composePortEntry \<Rightarrow> uint64 \<Rightarrow> composePortEntry \<Rightarrow> bool" where
  "republished e hp e' \<longleftrightarrow> eRewritable e' \<and> eContainerPort e' = eContainerPort e \<and> eProtocol e' = eProtocol e
     \<and> eHostPort e' = hp \<and> eHostIP e' = ''0.0.0.0''"

lemma republish_short:
  assumes "\<And>m. raw \<noteq> JObj m" and "e = parseComposePortEntry raw" and "eRewritable e"
    and "0 < hp" and "unat hp < 65536" and "unat (eContainerPort e) < 65536"
  shows "republished e hp (parseComposePortEntry (rewriteComposePortEntry e ''0.0.0.0'' hp))"
proof -
  let ?spec = "published_spec hp (eContainerPort e) @ (if eProtocol e = ''udp'' then ''/udp'' else [])"
  have raw: "rewriteComposePortEntry e ''0.0.0.0'' hp = JStr ?spec"
    using assms(1) parse_raw [of raw]
    by (simp add: rewriteComposePortEntry_def assms(2) published_spec_def split: json.split)
  have "parseComposePortEntry (JStr ?spec) = parseShortSyntax ?spec (blank_entry (JStr ?spec))"
    by (simp add: parseComposePortEntry_def blank_entry_def)
  also have "\<dots> = (blank_entry (JStr ?spec))\<lparr>eHostIP := ''0.0.0.0'', eHostPort := hp,
      eContainerPort := eContainerPort e, eProtocol := eProtocol e, eRewritable := True\<rparr>"
    using assms rewritable_container_port [of raw] parse_protocol [of raw]
    by (intro parse_rewritten_short) simp_all
  finally show ?thesis by (simp add: raw republished_def)
qed

lemma republish_long:
  assumes "e = parseComposePortEntry (JObj m)" and "eRewritable e" and "0 < hp" and "unat hp < 65536"
  shows "republished e hp (parseComposePortEntry (rewriteComposePortEntry e ''0.0.0.0'' hp))"
proof -
  let ?m = "map_put ''host_ip'' (JStr ''0.0.0.0'') (map_put ''published'' (JStr (itoa (unat hp))) m)"
  note e = parseLong_rewritable [OF assms(2) [unfolded assms(1) parse_JObj]]
  have "eRaw e = JObj m" using assms(1) parse_raw by simp
  then have raw: "rewriteComposePortEntry e ''0.0.0.0'' hp = JObj ?m"
    by (simp add: rewriteComposePortEntry_def)
  have hp: "parsePortValue (JStr (itoa (unat hp))) = hp"
    using assms(4) by (simp add: parsePortValue_def parsePort_itoa)
  have same: "long_target ?m = long_target m" "long_protocol ?m = long_protocol m"
    by (simp_all add: long_target_def long_protocol_def obj_get_def)
  have "parseLongSyntax ?m (blank_entry (JObj ?m)) = (blank_entry (JObj ?m))\<lparr>eHostIP := ''0.0.0.0'',
      eHostPort := parsePortValue (JStr (itoa (unat hp))), eContainerPort := long_target ?m,
      eProtocol := long_protocol ?m, eRewritable := True\<rparr>"
    using e assms(3) hp by (intro parseLong_published) (simp_all add: same)
  with e show ?thesis
    unfolding raw by (simp add: parse_JObj republished_def hp same assms(1))
qed

text \<open>
  C33: publishing a managed compose port changes only where it is published: whichever syntax the
  entry was authored in, the written entry is read back as managed, with the same container
  port and protocol, on the given host port and on all interfaces.
\<close>

theorem compose_port_roundtrip:
  assumes "e = parseComposePortEntry raw" and "eRewritable e" and "0 < hp" and "unat hp < 65536"
    and "unat (eContainerPort e) < 65536"
  shows "republished e hp (parseComposePortEntry (rewriteComposePortEntry e ''0.0.0.0'' hp))"
proof (cases "\<exists>m. raw = JObj m")
  case True
  with assms show ?thesis by (auto intro: republish_long)
next
  case False
  with assms show ?thesis by (auto intro: republish_short)
qed

theorem compose_port_roundtrip_witness:
  "let e = parseComposePortEntry (JObj [(''target'', JNum 80), (''protocol'', JStr ''UDP'')]) in
     eContainerPort e = 80 \<and> eProtocol e = ''udp'' \<and>
     republished e 40001 (parseComposePortEntry (rewriteComposePortEntry e ''0.0.0.0'' 40001))"
proof -
  let ?e = "parseComposePortEntry (JObj [(''target'', JNum 80), (''protocol'', JStr ''UDP'')])"
  have "ToLower ''UDP'' = ''udp''" by code_simp
  then have e: "eRewritable ?e" "eContainerPort ?e = 80" "eProtocol ?e = ''udp''"
    by (simp_all add: parse_JObj parseLongSyntax_def blank_entry_def obj_get_def parsePortValue_def)
  then show ?thesis
    using compose_port_roundtrip [OF refl e(1), of 40001] by (simp add: Let_def)
qed

section \<open>Publishing keeps the registry\<close>

lemma reserveLaunch_reachable:
  assumes "registry_reachable r" and "reserveLaunch probeFree r key preferred = (r', res)"
  shows "registry_reachable r'"
proof (cases "kStage key = DEV \<and> preferred = 0")
  case True
  obtain r1 b where r1: "ReserveDeclared r key = (r1, b)" by fastforce
  then have "registry_reachable r1" using assms(1) by (blast intro: registry_reachable.step step_declared)
  with True r1 assms(2) show ?thesis
    by (auto simp: reserveLaunch_def split: bool.splits intro: registry_reachable.step step_recover)
next
  case False
  with assms show ?thesis
    by (auto simp: reserveLaunch_def intro: registry_reachable.step step_recover)
qed

lemma map_err_keeps:
  assumes "\<And>x r r' res. f x r = (r', res) \<Longrightarrow> P r \<Longrightarrow> P r'" and "map_err f xs r = (r', res)" and "P r"
  shows "P r'"
  using assms(2,3)
proof (induction xs arbitrary: r res)
  case Nil
  then show ?case by simp
next
  case (Cons x xs)
  obtain r1 res1 where "f x r = (r1, res1)" by fastforce
  with Cons assms(1) [OF this] show ?case by (auto split: prod.splits sum.splits)
qed

lemma rewritePort_reachable:
  "rewritePort probeFree stage appKey published rules serviceName raw r = (r', res) \<Longrightarrow>
     registry_reachable r \<Longrightarrow> registry_reachable r'"
  by (auto simp: rewritePort_def Let_def split: if_splits prod.splits sum.splits intro: reserveLaunch_reachable)

lemma rewriteService_reachable:
  "rewriteService probeFree stage appKey published rules named r = (r', res) \<Longrightarrow>
     registry_reachable r \<Longrightarrow> registry_reachable r'"
  by (auto simp: rewriteService_def split: option.splits prod.splits sum.splits
      elim!: map_err_keeps [of _ registry_reachable, rotated] intro: rewritePort_reachable)

lemma rewriteComposeHostPorts_reachable:
  "rewriteComposeHostPorts probeFree stage appKey published ports compose r = (r', res) \<Longrightarrow>
     registry_reachable r \<Longrightarrow> registry_reachable r'"
  by (auto simp: rewriteComposeHostPorts_def split: option.splits prod.splits sum.splits json.splits
      elim!: map_err_keeps [of _ registry_reachable, rotated] intro: rewriteService_reachable)

lemma bindRules_reachable:
  "bindRules probeFree newPort stage appKey live rules r acc = (r', res) \<Longrightarrow> registry_reachable r \<Longrightarrow> registry_reachable r'"
proof (induction rules arbitrary: r acc)
  case Nil
  then show ?case by simp
next
  case (Cons rule rules)
  obtain r1 res1 where r1: "reserveLaunchHostPort probeFree stage appKey rule live r = (r1, res1)" by fastforce
  with Cons.prems(2) have "registry_reachable r1"
    by (auto simp: reserveLaunchHostPort_def Let_def intro: reserveLaunch_reachable)
  with Cons r1 show ?case by (auto split: sum.splits)
qed

lemma reassignKey_reachable: "registry_reachable (fst st) \<Longrightarrow> registry_reachable (fst (reassignKey probeFree msg key st))"
  by (auto simp: reassignKey_def split: option.split prod.split sum.split
      intro: registry_reachable.step step_reassign)

lemma fold_keeps: "(\<And>x s. P s \<Longrightarrow> P (f x s)) \<Longrightarrow> P s \<Longrightarrow> P (fold f xs s)"
  by (induction xs arbitrary: s) auto

lemma reassign_reachable:
  assumes "registry_reachable r"
  shows "registry_reachable (fst (reassignPortsAfterBindConflict probeFree stage appKey ports e r))"
    and "registry_reachable (fst (reassignComposePortsAfterBindConflict probeFree stage appKey compose e r))"
  using assms
  by (auto simp: reassignPortsAfterBindConflict_def reassignComposePortsAfterBindConflict_def
      split: sum.split intro!: fold_keeps [of "\<lambda>st. registry_reachable (fst st)"] reassignKey_reachable)

text \<open>
  A port entry that the agent rewrites ends up published on the host port the registry
  holds for it, and on no port that any other app, service or port holds.
\<close>

theorem rewritten_port_is_exclusive:
  assumes "registry_reachable r"
    and "rewritePort probeFree stage appKey published rules service raw r = (r', Inr raw')"
    and "raw' \<noteq> raw"
  shows "\<exists>hp. let e = (parseComposePortEntry raw)\<lparr>eService := service\<rparr> in
           raw' = rewriteComposePortEntry e ''0.0.0.0'' hp \<and> Get r' (composeKey stage appKey e) = Some hp
           \<and> (\<forall>k. Get r' k = Some hp \<longrightarrow> k = composeKey stage appKey e)"
proof -
  let ?e = "(parseComposePortEntry raw)\<lparr>eService := service\<rparr>"
  from assms(2,3) obtain preferred hp where
    launch: "reserveLaunch probeFree r (composeKey stage appKey ?e) preferred = (r', Inr hp)"
    and raw': "raw' = rewriteComposePortEntry ?e ''0.0.0.0'' hp"
    by (auto simp: rewritePort_def Let_def split: if_splits prod.splits sum.splits)
  have "Get r' (composeKey stage appKey ?e) = Some hp"
    using registry_reachable_inv [OF assms(1)] launch by (rule launch.reserve_hit)
  moreover have "registry_inv r'"
    using assms(1) launch by (blast intro: registry_reachable_inv reserveLaunch_reachable)
  ultimately show ?thesis
    using raw' by (intro exI [of _ hp]) (auto simp: Let_def dest: Get_inj)
qed

definition demo_entry :: json where
  "demo_entry = JObj [(''target'', JNum 80), (''published'', JNum 8080)]"

lemma parse_demo_entry:
  "parseComposePortEntry demo_entry = \<lparr>eService = [], eHostIP = [], eHostPort = 8080, eContainerPort = 80,
     eProtocol = ''tcp'', eRaw = demo_entry, eRewritable = True\<rparr>"
  by (simp add: demo_entry_def parse_JObj parseLongSyntax_def blank_entry_def obj_get_def parsePortValue_def)

theorem rewritten_port_is_exclusive_witness:
  "\<exists>r' raw'. rewritePort (\<lambda>_ _. True) PROD' 3 [] [] ''web'' demo_entry NewHostPortRegistry = (r', Inr raw')
     \<and> raw' = rewriteComposePortEntry (parseComposePortEntry demo_entry) ''0.0.0.0'' 40000
     \<and> (\<exists>hp. let e = (parseComposePortEntry demo_entry)\<lparr>eService := ''web''\<rparr> in
           raw' = rewriteComposePortEntry e ''0.0.0.0'' hp \<and> Get r' (composeKey PROD' 3 e) = Some hp
           \<and> (\<forall>k. Get r' k = Some hp \<longrightarrow> k = composeKey PROD' 3 e))"
proof -
  let ?e = "(parseComposePortEntry demo_entry)\<lparr>eService := ''web''\<rparr>"
  let ?r = "record_port NewHostPortRegistry (composeKey PROD' 3 ?e) 40000"
  let ?raw = "rewriteComposePortEntry ?e ''0.0.0.0'' 40000"
  have "reserveLaunch (\<lambda>_ _. True) NewHostPortRegistry (composeKey PROD' 3 ?e) 0 = (?r, Inr 40000)"
    using scanFree_first [of NewHostPortRegistry "\<lambda>_ _. True" "composeKey PROD' 3 ?e"]
    by (simp add: reserveLaunch_def RecoverOrReserve_def reserveFreeLocked_def hostPortRangeStart_def
        NewHostPortRegistry_def Get_def composeKey_def)
  then have run: "rewritePort (\<lambda>_ _. True) PROD' 3 [] [] ''web'' demo_entry NewHostPortRegistry = (?r, Inr ?raw)"
    by (simp add: rewritePort_def parse_demo_entry lookup0_def Let_def)
  have "?raw \<noteq> demo_entry"
    unfolding parse_demo_entry rewriteComposePortEntry_def by (simp add: demo_entry_def map_put_def)
  with run have "\<exists>hp. let e = ?e in
           ?raw = rewriteComposePortEntry e ''0.0.0.0'' hp \<and> Get ?r (composeKey PROD' 3 e) = Some hp
           \<and> (\<forall>k. Get ?r k = Some hp \<longrightarrow> k = composeKey PROD' 3 e)"
    by (rule rewritten_port_is_exclusive [OF registry_reachable.init])
  moreover have "?raw = rewriteComposePortEntry (parseComposePortEntry demo_entry) ''0.0.0.0'' 40000"
    unfolding parse_demo_entry rewriteComposePortEntry_def by (simp add: demo_entry_def)
  ultimately show ?thesis using run by blast
qed

end
