(* ===== verification/EnvVars.thy ===== *)
theory EnvVars
  imports ComposePorts "HOL-Library.Char_ord" "HOL-Library.List_Lexorder"
begin

text \<open>
  What app containers are told through their environment: \<^verbatim>\<open>src/apps/run_app.go\<close>,
  \<^verbatim>\<open>src/apps/build_app.go\<close>, \<^verbatim>\<open>src/apps/app_credential.go\<close>, \<^verbatim>\<open>src/apps/host_access.go\<close> and the string
  helpers of \<^verbatim>\<open>src/common/utils.go\<close>. Functions of the standard library that the code only
  applies (HMAC, URL parsing, the interface address) are parameters.
\<close>

section \<open>Rendering values\<close>

abbreviation LF :: char where "LF \<equiv> CHR 0x0A"
abbreviation TAB :: char where "TAB \<equiv> CHR 0x09"
abbreviation CR :: char where "CR \<equiv> CHR 0x0D"

definition ReplaceAll :: "char \<Rightarrow> string \<Rightarrow> string \<Rightarrow> string" where
  "ReplaceAll c t s = concat (map (\<lambda>x. if x = c then t else [x]) s)"

definition EscapeNewlineCharacters :: "string \<Rightarrow> string" where
  "EscapeNewlineCharacters input =
     ReplaceAll CR [CHR 0x5C, CHR ''r''] (ReplaceAll TAB [CHR 0x5C, CHR ''t''] (ReplaceAll LF [CHR 0x5C, CHR ''n''] input))"

text \<open>\<^verbatim>\<open>fmt.Sprint\<close> on a decoded JSON value. Go prints the keys of a map in order; a map is taken
  to be listed in that order here.\<close>

fun Sprint :: "json \<Rightarrow> string" where
  "Sprint JNull = ''<nil>''"
| "Sprint (JBool b) = (if b then ''true'' else ''false'')"
| "Sprint (JNum n) = itoa_int n"
| "Sprint (JStr s) = s"
| "Sprint (JArr js) = ''['' @ Join (CHR '' '') (map Sprint js) @ '']''"
| "Sprint (JObj kvs) = ''map['' @ Join (CHR '' '') (map (\<lambda>kv. fst kv @ '':'' @ Sprint (snd kv)) kvs) @ '']''"

text \<open>The type assertion on an entry panics when the entry is no object: \<open>None\<close>.\<close>

fun EnvironmentVarsToStringArray :: "(string \<times> json) list \<Rightarrow> string list option" where
  "EnvironmentVarsToStringArray [] = Some []"
| "EnvironmentVarsToStringArray ((key, entry) # rest) =
     (case entry of
        JObj _ \<Rightarrow> map_option (\<lambda>ls. (key @ ''='' @ EscapeNewlineCharacters (Sprint (obj_get entry ''value''))) # ls)
                     (EnvironmentVarsToStringArray rest)
      | _ \<Rightarrow> None)"

fun EnvironmentTemplateToStringArray :: "(string \<times> json) list \<Rightarrow> string list option" where
  "EnvironmentTemplateToStringArray [] = Some []"
| "EnvironmentTemplateToStringArray ((key, entry) # rest) =
     (case entry of
        JObj _ \<Rightarrow> map_option (\<lambda>ls. if obj_get entry ''defaultValue'' \<noteq> JNull
                                     then (key @ ''='' @ EscapeNewlineCharacters (Sprint (obj_get entry ''defaultValue''))) # ls
                                     else ls)
                     (EnvironmentTemplateToStringArray rest)
      | _ \<Rightarrow> None)"

section \<open>Variables of a production app\<close>

definition reservedEnvNames :: "string list" where
  "reservedEnvNames = [''APP_AUTH_ID'', ''APP_AUTH_SECRET'']"

text \<open>\<^verbatim>\<open>strings.SplitN(s, "=", 2)[0]\<close>.\<close>

definition env_name :: "string \<Rightarrow> string" where
  "env_name line = fst (Cut (CHR ''='') line)"

definition buildProdEnvironmentVariables :: "string list \<Rightarrow> jmap \<Rightarrow> string list option" where
  "buildProdEnvironmentVariables defaults payloadVars =
     map_option (\<lambda>vars. defaults @ filter (\<lambda>envVar. env_name envVar \<notin> set reservedEnvNames) vars)
       (EnvironmentVarsToStringArray (case payloadVars of None \<Rightarrow> [] | Some m \<Rightarrow> m))"

text \<open>Which template defaults are added: those whose name no variable line contains.\<close>

definition missingDefaults :: "string list \<Rightarrow> string list \<Rightarrow> string list" where
  "missingDefaults templateDefaults environmentVariables =
     filter (\<lambda>t. \<not> list_ex (\<lambda>v. Contains v (Split (CHR ''='') t ! 0)) environmentVariables) templateDefaults"

definition maxEnvVarSize :: nat where
  "maxEnvVarSize = 20 * 1024"

definition filterLargeEnvVars :: "string list \<Rightarrow> string list" where
  "filterLargeEnvVars envVars = filter (\<lambda>v. length v \<le> maxEnvVarSize) envVars"

definition isValidDotEnvKey :: "string \<Rightarrow> bool" where
  "isValidDotEnvKey key =
     (if key = [] \<or> HasPrefix key ''#'' then False
      else \<not> ContainsAny key [CHR '' '', TAB, CR, LF, CHR ''=''])"

definition is_space :: "char \<Rightarrow> bool" where
  "is_space c = (c \<in> {CHR '' '', TAB, LF, CHR 0x0B, CHR 0x0C, CR})"

definition TrimSpace :: "string \<Rightarrow> string" where
  "TrimSpace s = rev (dropWhile is_space (rev (dropWhile is_space s)))"

fun filterValidDotEnvLines :: "string list \<Rightarrow> string list \<times> string list" where
  "filterValidDotEnvLines [] = ([], [])"
| "filterValidDotEnvLines (line # rest) =
     (case filterValidDotEnvLines rest of (valid, skipped) \<Rightarrow>
        (case Cut (CHR ''='') line of (before, _, found) \<Rightarrow>
           let key = TrimSpace before in
           if \<not> found \<or> \<not> isValidDotEnvKey key
           then (valid, (if key = [] then TrimSpace line else key) # skipped)
           else (line # valid, skipped)))"

section \<open>Credentials\<close>

definition appCredMessagePrefix :: string where
  "appCredMessagePrefix = ''ironflock/app-cred/v1''"

definition appCredentialAuthID :: "string \<Rightarrow> uint64 \<Rightarrow> Stage \<Rightarrow> uint64 \<Rightarrow> string" where
  "appCredentialAuthID serialNumber appKey stage epoch =
     ''app-'' @ itoa (unat appKey) @ ''-'' @ ToLower (Stage_string stage) @ ''-e'' @ itoa (unat epoch) @ ''@'' @ serialNumber"

definition toUpperChar :: "char \<Rightarrow> char" where
  "toUpperChar c = (let n = of_char c :: nat in if 97 \<le> n \<and> n \<le> 122 then char_of (n - 32) else c)"

text \<open>\<open>hmac key msg\<close> is the base64 text of the HMAC-SHA256.\<close>

definition appCredentialSecret :: "(string \<Rightarrow> string \<Rightarrow> string) \<Rightarrow> string \<Rightarrow> string \<Rightarrow> uint64 \<Rightarrow> Stage \<Rightarrow> uint64 \<Rightarrow> string" where
  "appCredentialSecret hmac appCredKey serialNumber appKey stage epoch =
     hmac appCredKey (appCredMessagePrefix @ ''|'' @ serialNumber @ ''|'' @ itoa (unat appKey) @ ''|''
       @ map toUpperChar (Stage_string stage) @ ''|'' @ itoa (unat epoch))"

definition appCredential ::
  "(string \<Rightarrow> string \<Rightarrow> string) \<Rightarrow> Config \<Rightarrow> string \<Rightarrow> TransitionPayload \<Rightarrow> string \<times> string" where
  "appCredential hmac cfg appCredKey payload =
     (if appCredKey = [] \<or> cSerialNumber cfg = [] \<or> pAppKey payload = 0 then ([], [])
      else let epoch = (if pAppCredEpoch payload = 0 then 1 else pAppCredEpoch payload)
           in (appCredentialAuthID (cSerialNumber cfg) (pAppKey payload) (pStage payload) epoch,
               appCredentialSecret hmac appCredKey (cSerialNumber cfg) (pAppKey payload) (pStage payload) epoch))"

section \<open>Tunnels and images\<close>

definition CreateSubdomain :: "string \<Rightarrow> uint64 \<Rightarrow> string \<Rightarrow> uint64 \<Rightarrow> string" where
  "CreateSubdomain protocol deviceKey appName localPort =
     (let base = ToLower (itoa (unat deviceKey) @ ''-'' @ appName @ ''-'' @ itoa (unat localPort))
      in if protocol = ''https'' then ''secure-'' @ base else base)"

definition CreateTunnelID :: "string \<Rightarrow> string \<Rightarrow> string" where
  "CreateTunnelID subdomain protocol = subdomain @ ''-'' @ protocol"

definition tunnelDomainForApps :: "Config \<Rightarrow> string" where
  "tunnelDomainForApps cfg =
     (if cApplianceDomain cfg \<noteq> [] then cApplianceDomain cfg
      else case cEnvironment cfg of
             TEST \<Rightarrow> ''app.ironflock.dev'' | LOCAL \<Rightarrow> ''localhost'' | _ \<Rightarrow> ''app.ironflock.com'')"

definition registryHostOfImage :: "string \<Rightarrow> string" where
  "registryHostOfImage imageRef =
     (case Cut (CHR ''/'') imageRef of (firstComponent, _, found) \<Rightarrow>
        if found \<and> (ContainsAny firstComponent ''.:'' \<or> firstComponent = ''localhost'') then firstComponent
        else ''docker.io'')"

definition credentialForRegistryHost :: "(string \<times> string \<times> string) list option \<Rightarrow> string \<Rightarrow> string \<times> string" where
  "credentialForRegistryHost credentials host =
     (let m = map_of (case credentials of None \<Rightarrow> [] | Some cs \<Rightarrow> cs) in
      case m host of
        Some cred \<Rightarrow> cred
      | None \<Rightarrow> (case m (host @ ''/'') of Some cred \<Rightarrow> cred | None \<Rightarrow> ([], [])))"

definition hostGatewayEntry :: string where
  "hostGatewayEntry = ''host.docker.internal:host-gateway''"

definition addComposeExtraHost :: "(string \<times> json) list \<Rightarrow> (string \<times> json) list" where
  "addComposeExtraHost service =
     (case obj_get (JObj service) ''extra_hosts'' of
        JNull \<Rightarrow> map_put ''extra_hosts'' (JArr [JStr hostGatewayEntry]) service
      | JArr hosts \<Rightarrow>
          if list_ex (\<lambda>j. case j of JStr s \<Rightarrow> HasPrefix s ''host.docker.internal'' | _ \<Rightarrow> False) hosts then service
          else map_put ''extra_hosts'' (JArr (hosts @ [JStr hostGatewayEntry])) service
      | JObj hosts \<Rightarrow>
          if map_of hosts ''host.docker.internal'' = None
          then map_put ''extra_hosts'' (JObj (map_put ''host.docker.internal'' (JStr ''host-gateway'') hosts)) service
          else service
      | _ \<Rightarrow> service)"

definition addComposeEnvFilesMount :: "string \<Rightarrow> (string \<times> json) list \<Rightarrow> (string \<times> json) list" where
  "addComposeEnvFilesMount hostEnvDir service =
     (let mountEntry = JStr (hostEnvDir @ '':/data/env:ro'') in
      case obj_get (JObj service) ''volumes'' of
        JNull \<Rightarrow> map_put ''volumes'' (JArr [mountEntry]) service
      | JArr volumes \<Rightarrow>
          if list_ex (\<lambda>v. case v of
               JStr entry \<Rightarrow> Contains entry '':/data/env''
             | JObj entry \<Rightarrow> (case map_of entry ''target'' of Some (JStr target) \<Rightarrow> HasPrefix target ''/data/env'' | _ \<Rightarrow> False)
             | _ \<Rightarrow> False) volumes
          then service
          else map_put ''volumes'' (JArr (volumes @ [mountEntry])) service
      | _ \<Rightarrow> service)"

definition buildDefaultEnvironmentVariables ::
  "(string \<Rightarrow> string \<Rightarrow> string) \<Rightarrow> (string \<Rightarrow> string) \<Rightarrow> string \<Rightarrow> Config \<Rightarrow> TransitionPayload \<Rightarrow> Stage \<Rightarrow> App \<Rightarrow> string \<Rightarrow> string list" where
  "buildDefaultEnvironmentVariables hmac appEndpointURL lanIP config payload environment app appCredKey =
     [''DEVICE_SERIAL_NUMBER='' @ cSerialNumber config,
      ''ENV='' @ Stage_string environment,
      ''DEVICE_KEY='' @ itoa (unat (cDeviceKey config)),
      ''SWARM_KEY='' @ itoa (unat (cSwarmKey config)),
      ''APP_KEY='' @ itoa (unat (aAppKey app)),
      ''APP_NAME='' @ aAppName app,
      ''DEVICE_NAME='' @ cName config,
      ''DEVICE_ENDPOINT_URL='' @ appEndpointURL (cDeviceEndpointURL config),
      ''TUNNEL_DOMAIN='' @ tunnelDomainForApps config]
     @ (case appCredential hmac config appCredKey payload of (authID, secret) \<Rightarrow>
          if authID \<noteq> [] \<and> secret \<noteq> [] then [''APP_AUTH_ID='' @ authID, ''APP_AUTH_SECRET='' @ secret] else [])
     @ (if lanIP \<noteq> [] then [''DEVICE_LAN_IP='' @ lanIP] else [])
     @ (if pInstanceKey payload > 0 then [''INSTANCE_KEY='' @ itoa (unat (pInstanceKey payload))] else [])
     @ (if cReswarmBaseURL config \<noteq> [] then
          [''RESWARM_URL='' @ cReswarmBaseURL config,
           ''DEVICE_URL='' @ cReswarmBaseURL config @ ''/'' @ cSwarmOwnerName config @ ''/swarms/'' @ cSwarmName config
             @ ''/settings/devices/'' @ cName config]
        else [])"

text \<open>\<open>activeRemotePort\<close> is the remote port of the tunnel with an id, if the tunnel is up.\<close>

definition remotePortEnvVars ::
  "(string \<Rightarrow> uint64 option) \<Rightarrow> Config \<Rightarrow> string \<Rightarrow> PortForwardRule list \<Rightarrow> string list" where
  "remotePortEnvVars activeRemotePort config appName portRules =
     concat (map (\<lambda>rule.
       let names = (''REMOTE_PORT_FOR_'' @ itoa (unat (Port rule))) # (if RemotePortEnvironment rule \<noteq> [] then [RemotePortEnvironment rule] else []);
           tunnelID = CreateTunnelID (CreateSubdomain (Protocol rule) (cDeviceKey config) appName (Port rule)) (Protocol rule)
       in concat (map (\<lambda>name.
            (case activeRemotePort tunnelID of Some p \<Rightarrow> [name @ ''='' @ itoa (unat p)] | None \<Rightarrow> [])
            @ (if CloudRemotePort rule > 0 then [name @ ''_CLOUD='' @ itoa (unat (CloudRemotePort rule))] else [])) names))
       portRules)"

section \<open>Device ports\<close>

definition devicePortEnvLines :: "(uint64 \<times> uint64) list \<Rightarrow> string list" where
  "devicePortEnvLines hostPortByDeclared =
     map (\<lambda>(declared, hostPort). ''DEVICE_PORT_FOR_'' @ itoa (unat declared) @ ''='' @ itoa (unat hostPort))
       (sort_key fst hostPortByDeclared)"

text \<open>The assignment of the first entry in order wins; entries without one are skipped.\<close>

fun firstAssignments :: "(uint64 \<times> uint64 option) list \<Rightarrow> (uint64 \<times> uint64) list \<Rightarrow> (uint64 \<times> uint64) list" where
  "firstAssignments [] acc = acc"
| "firstAssignments ((declared, hp) # rest) acc =
     (case hp of
        Some p \<Rightarrow> firstAssignments rest (if map_of acc declared = None then acc @ [(declared, p)] else acc)
      | None \<Rightarrow> firstAssignments rest acc)"

definition devicePortEnvsForCompose :: "HostPortRegistry \<Rightarrow> Stage \<Rightarrow> uint64 \<Rightarrow> jmap \<Rightarrow> string list" where
  "devicePortEnvsForCompose r stage appKey dockerCompose =
     (let entries = sort_key DeclaredPort (sort_key eService (sort_key eProtocol (parseComposePorts dockerCompose)))
      in devicePortEnvLines (firstAssignments
           (map (\<lambda>e. (DeclaredPort e, if eRewritable e then Get r (composeKey stage appKey e) else None)) entries) []))"

text \<open>For a single container the container port is the declared one; the key is \<^verbatim>\<open>port/proto\<close>.\<close>

definition devicePortEnvsFromBindings :: "bindings \<Rightarrow> string list" where
  "devicePortEnvsFromBindings portBindings =
     devicePortEnvLines (firstAssignments
       (map (\<lambda>(containerPort, hostPort). (parsePort (fst (Cut (CHR ''/'') containerPort)), if hostPort \<noteq> 0 then Some hostPort else None))
         (sort_key fst portBindings)) [])"

section \<open>The dot-env file of a compose app\<close>

definition generateDotEnvContents ::
  "Lib \<Rightarrow> (string \<Rightarrow> uint64 option) \<Rightarrow> Config \<Rightarrow> TransitionPayload \<Rightarrow> App \<Rightarrow> string \<Rightarrow> HostPortRegistry \<Rightarrow> jmap
   \<Rightarrow> go_error + string \<times> string list" where
  "generateDotEnvContents lib activeRemotePort config payload app appCredKey r dockerCompose =
     (let system = buildDefaultEnvironmentVariables (lHmac lib) (lAppEndpointURL lib) (lLanIP lib) config payload (aStage app) app appCredKey;
          devicePorts = devicePortEnvsForCompose r (pStage payload) (pAppKey payload) dockerCompose;
          done = (\<lambda>envLines. case filterValidDotEnvLines (envLines @ devicePorts) of
                    (valid, skipped) \<Rightarrow> Inr (Join LF valid, skipped))
      in case buildProdEnvironmentVariables system (pEnvironmentVariables payload) of
           None \<Rightarrow> Inl (Msg ''panic: interface conversion'')
         | Some environmentVariables \<Rightarrow>
             (case EnvironmentTemplateToStringArray (case pEnvironmentTemplate payload of None \<Rightarrow> [] | Some m \<Rightarrow> m) of
                None \<Rightarrow> Inl (Msg ''panic: interface conversion'')
              | Some templateDefaults \<Rightarrow>
                  if pStage payload = DEV then done (system @ templateDefaults)
                  else (case InterfaceToPortForwardRule (pPorts payload) of
                          Inl e \<Rightarrow> Inl e
                        | Inr rules \<Rightarrow>
                            done (environmentVariables @ remotePortEnvVars activeRemotePort config (aAppName app) rules
                                    @ missingDefaults templateDefaults environmentVariables))))"

section \<open>Values stay on their line\<close>

definition one_line :: "string \<Rightarrow> bool" where
  "one_line s \<longleftrightarrow> LF \<notin> set s \<and> TAB \<notin> set s \<and> CR \<notin> set s"

lemma ReplaceAll_gone: "c \<notin> set t \<Longrightarrow> c \<notin> set (ReplaceAll c t s)"
  by (induction s) (auto simp: ReplaceAll_def)

lemma ReplaceAll_other: "d \<notin> set t \<Longrightarrow> d \<notin> set s \<Longrightarrow> d \<notin> set (ReplaceAll c t s)"
  by (induction s) (auto simp: ReplaceAll_def)

lemma Escape_one_line: "one_line (EscapeNewlineCharacters s)"
  by (simp add: one_line_def EscapeNewlineCharacters_def ReplaceAll_gone ReplaceAll_other)

lemma ReplaceAll_id: "c \<notin> set s \<Longrightarrow> ReplaceAll c t s = s"
  by (induction s) (auto simp: ReplaceAll_def)

lemma Escape_id: "one_line s \<Longrightarrow> EscapeNewlineCharacters s = s"
  by (simp add: one_line_def EscapeNewlineCharacters_def ReplaceAll_id)

lemma EnvironmentVars_lines:
  "EnvironmentVarsToStringArray m = Some ls \<Longrightarrow> l \<in> set ls \<Longrightarrow> \<exists>k v. k \<in> fst ` set m \<and> one_line v \<and> l = k @ CHR ''='' # v"
proof (induction m arbitrary: ls rule: EnvironmentVarsToStringArray.induct)
  case 1
  then show ?case by simp
next
  case (2 key entry rest)
  from "2.prems"(1) obtain o' ls' where o: "entry = JObj o'" and ls': "EnvironmentVarsToStringArray rest = Some ls'"
    and ls: "ls = (key @ CHR ''='' # EscapeNewlineCharacters (Sprint (obj_get entry ''value''))) # ls'"
    by (auto split: json.splits)
  from "2.prems"(2) ls consider "l = key @ CHR ''='' # EscapeNewlineCharacters (Sprint (obj_get entry ''value''))" | "l \<in> set ls'"
    by auto
  then show ?case
  proof cases
    case 1
    then show ?thesis using Escape_one_line by fastforce
  next
    case 2
    then obtain k v where "k \<in> fst ` set rest" and "one_line v" and "l = k @ CHR ''='' # v"
      using "2.IH" [OF o ls'] by blast
    then show ?thesis by (intro exI [of _ k] exI [of _ v]) simp
  qed
qed

text \<open>
  Whatever JSON values an app's variables have, every line the agent renders for them is the
  variable's name, an equals sign and text without a line break, tab or carriage return.
\<close>

theorem env_lines_unbroken:
  assumes "EnvironmentVarsToStringArray m = Some ls" and "l \<in> set ls"
  shows "\<exists>k v. k \<in> fst ` set m \<and> one_line v \<and> l = k @ CHR ''='' # v"
  using assms by (rule EnvironmentVars_lines)

theorem env_lines_unbroken_witness:
  "\<exists>k v. k \<in> fst ` set [(''A'', JObj [(''value'', JStr [CHR ''x'', LF])])] \<and> one_line v
     \<and> [CHR ''A'', CHR ''='', CHR ''x'', CHR 0x5C, CHR ''n''] = k @ CHR ''='' # v"
proof -
  let ?m = "[(''A'', JObj [(''value'', JStr [CHR ''x'', LF])])]"
  have "EnvironmentVarsToStringArray ?m = Some [[CHR ''A'', CHR ''='', CHR ''x'', CHR 0x5C, CHR ''n'']]" by code_simp
  then show ?thesis by (rule env_lines_unbroken) simp
qed

section \<open>Reserved names\<close>

text \<open>
  The variables an app's settings supply never displace the credential the agent injects:
  every line named \<^verbatim>\<open>APP_AUTH_ID\<close> or \<^verbatim>\<open>APP_AUTH_SECRET\<close> is one of the agent's own, and no other
  line of the app is dropped.
\<close>

lemma reserved_names_kept:
  "buildProdEnvironmentVariables defaults (Some m) = Some ls \<longleftrightarrow>
     (\<exists>vars. EnvironmentVarsToStringArray m = Some vars \<and>
        ls = defaults @ filter (\<lambda>l. env_name l \<noteq> ''APP_AUTH_ID'' \<and> env_name l \<noteq> ''APP_AUTH_SECRET'') vars)"
  by (auto simp: buildProdEnvironmentVariables_def reservedEnvNames_def)

text \<open>
  A name with a blank in front passes that filter and the check of the \<^verbatim>\<open>.env\<close> file, although
  the name that counts there is the trimmed one, the reserved name.
\<close>

lemma padded_reserved_name_passes:
  "buildProdEnvironmentVariables [] (Some [('' APP_AUTH_ID'', JObj [(''value'', JStr ''x'')])]) = Some ['' APP_AUTH_ID=x'']"
  "filterValidDotEnvLines ['' APP_AUTH_ID=x''] = (['' APP_AUTH_ID=x''], [])"
  "TrimSpace (env_name '' APP_AUTH_ID=x'') = ''APP_AUTH_ID''"
  by code_simp+

text \<open>
  A template default is dropped when some variable line merely contains its name: here the
  value of another variable.
\<close>

lemma default_dropped_by_substring:
  "missingDefaults [''PORT=80''] [''NOTE=see PORT''] = []"
  by code_simp

text \<open>A name that ends in a line break passes the check but makes two lines, the second invalid.\<close>

lemma trailing_newline_name_passes:
  "let line = ''FOO'' @ [LF] @ ''=1'' in
     filterValidDotEnvLines [line] = ([line], []) \<and> Split LF (Join LF [line]) = [''FOO'', ''=1''] \<and>
     fst (filterValidDotEnvLines [''FOO'', ''=1'']) = []"
  by code_simp

section \<open>The identity of an app\<close>

lemma ToLower_stage_char: "c \<in> set (ToLower (Stage_string DEV)) \<union> set (ToLower (Stage_string PROD')) \<Longrightarrow> c \<noteq> CHR ''-''"
  by (auto simp: Stage_string_def ToLower_DEV ToLower_PROD)

lemma append_sep_eq:
  "sep \<notin> set a \<Longrightarrow> sep \<notin> set b \<Longrightarrow> a @ sep # xs = b @ sep # ys \<longleftrightarrow> a = b \<and> xs = ys"
proof (induction a arbitrary: b)
  case Nil
  then show ?case by (cases b) auto
next
  case (Cons c a)
  then show ?case by (cases b) auto
qed

text \<open>
  The identities of two apps of a device differ: from an identity the app key, the stage and
  the generation of the credential can be read off.
\<close>

theorem appCredentialAuthID_inj:
  assumes "deployed s" and "deployed s'"
  shows "appCredentialAuthID serial k s e = appCredentialAuthID serial k' s' e' \<longleftrightarrow> k = k' \<and> s = s' \<and> e = e'"
proof -
  have dash: "CHR ''-'' \<notin> set (itoa n)" "CHR ''@'' \<notin> set (itoa n)" for n by (simp_all add: not_in_itoa)
  have stage: "CHR ''-'' \<notin> set (ToLower (Stage_string s))" "CHR ''-'' \<notin> set (ToLower (Stage_string s'))"
    using assms by (auto simp: deployed_def Stage_string_def ToLower_DEV ToLower_PROD)
  have inj: "ToLower (Stage_string s) = ToLower (Stage_string s') \<longleftrightarrow> s = s'"
    using assms by (auto simp: deployed_def Stage_string_def ToLower_DEV ToLower_PROD)
  show ?thesis
    by (auto simp: appCredentialAuthID_def append_sep_eq dash stage inj word_unat_eq_iff)
qed

theorem appCredentialAuthID_inj_witness:
  "appCredentialAuthID ''sn'' 1 DEV 11 \<noteq> appCredentialAuthID ''sn'' 1 PROD' 11 \<and>
   appCredentialAuthID ''sn'' 1 DEV 11 \<noteq> appCredentialAuthID ''sn'' 11 DEV 1"
  using appCredentialAuthID_inj [of DEV PROD' "''sn''" 1 11 1 11] appCredentialAuthID_inj [of DEV DEV "''sn''" 1 11 11 1]
  by (simp add: deployed_def)

lemma appCredential_epoch_zero:
  "appCredential hmac cfg key (p\<lparr>pAppCredEpoch := 0\<rparr>) = appCredential hmac cfg key (p\<lparr>pAppCredEpoch := 1\<rparr>)"
  by (simp add: appCredential_def)

end
