(* ===== verification/Prog.thy ===== *)
theory Prog
  imports World
begin

text \<open>
  The programs of the app manager: calls of the outside, the objects behind pointers, goroutines,
  and what such programs keep related (the locales \<open>program_relation\<close> and \<open>step_relation\<close>).
\<close>

section \<open>Combinators\<close>

definition ext :: "string \<Rightarrow> string list \<Rightarrow> reply prog" where
  "ext name args = do {
     w \<leftarrow> State_Monad.get;
     _ \<leftarrow> State_Monad.set (w\<lparr>wTrace := wTrace w @ [Ext name args]\<rparr>);
     ret (wExt w (wTrace w) (Ext name args)) }"

text \<open>A call of which only the error matters.\<close>

definition extE :: "string \<Rightarrow> string list \<Rightarrow> err prog" where
  "extE name args = do { r \<leftarrow> ext name args; ret (rpErr r) }"

text \<open>Reading and writing the app behind a pointer.\<close>

definition app_at :: "nat \<Rightarrow> App prog" where
  "app_at i = gets (\<lambda>w. wApps w ! i)"

definition app_upd :: "nat \<Rightarrow> (App \<Rightarrow> App) \<Rightarrow> unit prog" where
  "app_upd i f = modify (\<lambda>w. w\<lparr>wApps := (wApps w)[i := f (wApps w ! i)]\<rparr>)"

definition spawn :: "task \<Rightarrow> unit prog" where
  "spawn t = modify (\<lambda>w. w\<lparr>wTasks := wTasks w @ [t]\<rparr>)"

section \<open>The effect of a program\<close>

lemma wp_ext [wp_simps]:
  "wp (ext n as) Q w = Q (wExt w (wTrace w) (Ext n as)) (w\<lparr>wTrace := wTrace w @ [Ext n as]\<rparr>)"
  by (simp add: ext_def wp_simps)

lemma wp_extE [wp_simps]:
  "wp (extE n as) Q w = Q (rpErr (wExt w (wTrace w) (Ext n as))) (w\<lparr>wTrace := wTrace w @ [Ext n as]\<rparr>)"
  by (simp add: extE_def wp_simps)

lemma wp_app_at [wp_simps]: "wp (app_at i) Q w = Q (wApps w ! i) w"
  by (simp add: app_at_def wp_simps)

lemma wp_app_upd [wp_simps]:
  "wp (app_upd i f) Q w = Q () (w\<lparr>wApps := (wApps w)[i := f (wApps w ! i)]\<rparr>)"
  by (simp add: app_upd_def wp_simps)

lemma wp_spawn [wp_simps]: "wp (spawn t) Q w = Q () (w\<lparr>wTasks := wTasks w @ [t]\<rparr>)"
  by (simp add: spawn_def wp_simps)

section \<open>What a program keeps\<close>

text \<open>Relations between worlds.\<close>

locale program_relation = state_relation R for R :: "world \<Rightarrow> world \<Rightarrow> bool"
begin

lemma keeps_app_at: "keeps R (app_at i)"
  by (simp add: keeps_wp wp_app_at R_refl)

lemma keeps_app_upd:
  "(\<And>w. R w (w\<lparr>wApps := (wApps w)[i := f (wApps w ! i)]\<rparr>)) \<Longrightarrow> keeps R (app_upd i f)"
  by (simp add: keeps_wp wp_app_upd)

lemma keeps_spawn: "(\<And>w. R w (w\<lparr>wTasks := wTasks w @ [t]\<rparr>)) \<Longrightarrow> keeps R (spawn t)"
  by (simp add: keeps_wp wp_spawn)

lemmas keeps_flow = keeps_basic keeps_app_at

end

text \<open>A relation that is not about the calls.\<close>

locale step_relation = program_relation +
  assumes R_trace: "R w (w\<lparr>wTrace := wTrace w @ t\<rparr>)"
begin

lemma keeps_ext: "keeps R (ext n as)"
  by (simp add: keeps_wp wp_ext R_trace)

lemma keeps_extE: "keeps R (extE n as)"
  by (simp add: keeps_wp wp_extE R_trace)

lemmas keeps_intros = keeps_flow keeps_ext keeps_extE

end

text \<open>Only calls with a name in \<open>S\<close> are made.\<close>

definition calls_in :: "string set \<Rightarrow> world \<Rightarrow> world \<Rightarrow> bool" where
  "calls_in S w w' \<longleftrightarrow> (\<exists>t. wTrace w' = wTrace w @ t \<and> (\<forall>c\<in>set t. case c of Ext name args \<Rightarrow> name \<in> S))"

interpretation calls: program_relation "calls_in S" for S
proof unfold_locales
  show "calls_in S w w" for w by (simp add: calls_in_def)
  show "calls_in S u w" if "calls_in S u v" and "calls_in S v w" for u v w
  proof -
    from that obtain t t' where "wTrace v = wTrace u @ t" "wTrace w = wTrace v @ t'"
      and "\<forall>c\<in>set t. case c of Ext name args \<Rightarrow> name \<in> S" "\<forall>c\<in>set t'. case c of Ext name args \<Rightarrow> name \<in> S"
      by (auto simp: calls_in_def)
    then show ?thesis unfolding calls_in_def by (intro exI [of _ "t @ t'"]) auto
  qed
qed

lemma calls_ext: "name \<in> S \<Longrightarrow> keeps (calls_in S) (ext name args)"
  by (simp add: keeps_wp wp_ext calls_in_def)

lemma calls_extE: "name \<in> S \<Longrightarrow> keeps (calls_in S) (extE name args)"
  by (simp add: keeps_wp wp_extE calls_in_def)

text \<open>Assignments make no call.\<close>

lemma calls_modify: "(\<And>w. wTrace (f w) = wTrace w) \<Longrightarrow> keeps (calls_in S) (modify f)"
  by (simp add: keeps_wp wp_modify calls_in_def)

lemma calls_app_upd: "keeps (calls_in S) (app_upd i f)"
  by (simp add: keeps_wp wp_app_upd calls_in_def)

section \<open>A concrete world\<close>

text \<open>An agent at rest in which every call succeeds, for evaluating programs on an input.\<close>

definition ok_reply :: reply where
  "ok_reply = \<lparr>rpErr = None, rpStr = [], rpNum = 0, rpFlag = True, rpStrs = [], rpPorts = [], rpJson = JNull, rpContainers = []\<rparr>"

definition demo_config :: Config where
  "demo_config = \<lparr>cDeviceKey = 7, cSwarmKey = 1, cSerialNumber = ''sn'', cDockerRegistryURL = ''reg/'',
     cDockerMainRepository = ''apps/'', cSecret = ''s'', cAppsDirectory = ''/apps'', cAppsBuildDir = ''/build'',
     cAppsComposeDir = ''/compose'', cAppsSharedDir = ''/shared'', cCompressedBuildExtension = ''tgz'', cName = ''dev1'', cDeviceEndpointURL = ''wss://x'',
     cApplianceDomain = [], cEnvironment = PRODUCTION, cReswarmBaseURL = [], cSwarmOwnerName = [], cSwarmName = [],
     cArchName = ''arm64''\<rparr>"

definition demo_lib :: Lib where
  "demo_lib = \<lparr>lHmac = (\<lambda>k m. k @ m), lAppEndpointURL = (\<lambda>u. u), lLanIP = [],
     lNewPort = (\<lambda>proto port. Inr (port @ ''/'' @ proto)), lMarshal = (\<lambda>_. []), lUnmarshal = (\<lambda>_. None),
     lSplitHostPort = (\<lambda>_. None), lLocalIP = (\<lambda>_. False)\<rparr>"

definition demo_world :: world where
  "demo_world = \<lparr>wApps = [], wAppStates = [], wHistory = [], wRequested = [], wCrashLoops = [],
     wHostPorts = NewHostPortRegistry, wComposeCancels = [], wAppCredKey = [], wEmergency = False,
     wObservers = [], wNextCtx = 0, wSpawnerActive = False, wTasks = [], wConfig = demo_config, wLib = demo_lib, wTrace = [], wExt = (\<lambda>_ _. ok_reply)\<rparr>"

definition demo_app :: App where
  "demo_app = \<lparr>aAppKey = 3, aDeviceToAppKey = 0, aRequestorAccountKey = 5, aReleaseKey = 1,
     aAppName = ''cam'', aRequestedState = RUNNING, aCurrentState = RUNNING, aUpdateStatus = OtherUpdateStatus [],
     aStage = PROD', aRequestUpdate = False, aReleaseBuild = False, aVersion = ''1'', aLastUpdated = [],
     aTransitionLock = False\<rparr>"

definition demo_payload :: TransitionPayload where
  "demo_payload = BuildTransitionPayload 3 ''cam'' 5 PROD' RUNNING RUNNING 1 1 demo_config"

end
