(* ===== verification/Database.thy ===== *)
theory Database
  imports Prog
begin

text \<open>
  \<^verbatim>\<open>src/persistence\<close>: the SQLite tables behind the app store. Every statement may fail for
  reasons of the database itself (the call \<^verbatim>\<open>sqlite\<close>, named by its statement) and fails when a
  row breaks a \<^verbatim>\<open>CHECK\<close> or \<^verbatim>\<open>UNIQUE\<close> constraint of the schema. JSON columns hold the decoded
  value: \<^verbatim>\<open>json.Marshal\<close> and \<^verbatim>\<open>json.Unmarshal\<close> are inverse on such values, and a nil map is
  stored as \<^verbatim>\<open>null\<close> and read back as nil.
\<close>

section \<open>Constraints of the schema\<close>

definition stage_allowed :: "Stage \<Rightarrow> bool" where
  "stage_allowed s = (s = DEV \<or> s = PROD')"

definition state_allowed :: "AppState \<Rightarrow> bool" where
  "state_allowed s = (case s of STOPPED \<Rightarrow> False | OtherState t \<Rightarrow> t = ''INHERIT'' | _ \<Rightarrow> True)"

definition check_failed :: err where
  "check_failed = Some (Msg ''CHECK constraint failed'')"

definition unique_failed :: err where
  "unique_failed = Some (Msg ''UNIQUE constraint failed'')"

abbreviation sqlite :: "string \<Rightarrow> err prog" where
  "sqlite stmt \<equiv> extE ''sqlite'' [stmt]"

section \<open>Requested states\<close>

definition same_app :: "uint64 \<Rightarrow> Stage \<Rightarrow> RequestedRow \<Rightarrow> bool" where
  "same_app key stage r \<longleftrightarrow> rAppKey r = key \<and> rStage r = stage"

definition row_of_payload :: "TransitionPayload \<Rightarrow> RequestedRow" where
  "row_of_payload p = \<lparr>rAppName = pAppName p, rAppKey = pAppKey p, rStage = pStage p,
     rVersion = pVersion p, rPresentVersion = pPresentVersion p, rNewestVersion = pNewestVersion p,
     rCurrentState = pCurrentState p, rRequestedState = pRequestedState p,
     rRequestorAccountKey = pRequestorAccountKey p, rDeviceOwnerAccountKey = pDeviceOwnerAccountKey p,
     rReleaseKey = pReleaseKey p, rNewReleaseKey = pNewReleaseKey p, rRequestUpdate = pRequestUpdate p,
     rEnvironmentVariables = pEnvironmentVariables p, rEnvironmentTemplate = pEnvironmentTemplate p,
     rPorts = pPorts p, rDockerCompose = pDockerCompose p, rNewDockerCompose = pNewDockerCompose p\<rparr>"

definition payload_of_row :: "Config \<Rightarrow> RequestedRow \<Rightarrow> TransitionPayload" where
  "payload_of_row config r =
     (BuildTransitionPayload (rAppKey r) (rAppName r) (rRequestorAccountKey r) (rStage r) (rCurrentState r)
        (rRequestedState r) (rReleaseKey r) (rNewReleaseKey r) config)
       \<lparr>pDeviceOwnerAccountKey := rDeviceOwnerAccountKey r, pVersion := rVersion r,
        pNewestVersion := rNewestVersion r, pPresentVersion := rPresentVersion r,
        pRequestUpdate := rRequestUpdate r, pEnvironmentVariables := rEnvironmentVariables r,
        pEnvironmentTemplate := rEnvironmentTemplate r, pPorts := rPorts r,
        pDockerCompose := rDockerCompose r, pNewDockerCompose := rNewDockerCompose r\<rparr>"

text \<open>
  The \<^verbatim>\<open>on conflict\<close> branch of \<^verbatim>\<open>QueryUpsertRequestedStateEntry\<close>: every listed column is
  overwritten, the owner only by a positive key, and \<^verbatim>\<open>version\<close> is not listed.
\<close>

definition upsert_conflict :: "RequestedRow \<Rightarrow> RequestedRow \<Rightarrow> RequestedRow" where
  "upsert_conflict old new =
     new\<lparr>rVersion := rVersion old,
         rDeviceOwnerAccountKey :=
           (if rDeviceOwnerAccountKey new > 0 then rDeviceOwnerAccountKey new else rDeviceOwnerAccountKey old)\<rparr>"

definition same_entry :: "RequestedRow \<Rightarrow> RequestedRow \<Rightarrow> bool" where
  "same_entry r s \<longleftrightarrow> rAppName r = rAppName s \<and> rAppKey r = rAppKey s \<and> rStage r = rStage s"

definition row_allowed :: "RequestedRow \<Rightarrow> bool" where
  "row_allowed r \<longleftrightarrow> stage_allowed (rStage r) \<and> state_allowed (rCurrentState r) \<and> state_allowed (rRequestedState r)"

fun upsert_row :: "RequestedRow \<Rightarrow> RequestedRow list \<Rightarrow> RequestedRow list" where
  "upsert_row new [] = [new]"
| "upsert_row new (r # rs) = (if same_entry r new then upsert_conflict r new # rs else r # upsert_row new rs)"

definition UpsertRequestedStateChange :: "TransitionPayload \<Rightarrow> err prog" where
  "UpsertRequestedStateChange payload = steps [
     sqlite ''UpsertRequestedStateEntry'',
     (let row = row_of_payload payload in
      if row_allowed row
      then ignore (modify (\<lambda>w. w\<lparr>wRequested := upsert_row row (wRequested w)\<rparr>))
      else ret check_failed)]"

text \<open>One transaction: a failure rolls every row back.\<close>

fun bulk_rows :: "TransitionPayload list \<Rightarrow> RequestedRow list \<Rightarrow> RequestedRow list option" where
  "bulk_rows [] rows = Some rows"
| "bulk_rows (p # ps) rows =
     (if row_allowed (row_of_payload p) then bulk_rows ps (upsert_row (row_of_payload p) rows) else None)"

definition BulkUpsertRequestedStateChanges :: "TransitionPayload list \<Rightarrow> err prog" where
  "BulkUpsertRequestedStateChanges payloads = steps [
     sqlite ''BulkUpsert'',
     do { rows \<leftarrow> gets wRequested;
          case bulk_rows payloads rows of
            None \<Rightarrow> ret check_failed
          | Some rows' \<Rightarrow> ignore (modify (\<lambda>w. w\<lparr>wRequested := rows'\<rparr>)) }]"

definition GetRequestedState :: "uint64 \<Rightarrow> Stage \<Rightarrow> (go_error + TransitionPayload) prog" where
  "GetRequestedState aKey aStage' = do {
     e \<leftarrow> sqlite ''SelectRequestedStateByAppKeyAndStage'';
     case e of
       Some x \<Rightarrow> ret (Inl x)
     | None \<Rightarrow> gets (\<lambda>w. case find (same_app aKey aStage') (wRequested w) of
                            None \<Rightarrow> Inl (Msg ''no requested state found'')
                          | Some r \<Rightarrow> Inr (payload_of_row (wConfig w) r)) }"

definition GetRequestedStates :: "(go_error + TransitionPayload list) prog" where
  "GetRequestedStates = do {
     e \<leftarrow> sqlite ''SelectAllRequestedStates'';
     case e of
       Some x \<Rightarrow> ret (Inl x)
     | None \<Rightarrow> gets (\<lambda>w. Inr (map (payload_of_row (wConfig w)) (wRequested w))) }"

definition DeleteRequestedState :: "uint64 \<Rightarrow> Stage \<Rightarrow> err prog" where
  "DeleteRequestedState key stage = steps [
     sqlite ''DeleteRequestedStateByAppKeyAndStage'',
     ignore (modify (\<lambda>w. w\<lparr>wRequested := filter (\<lambda>r. \<not> same_app key stage r) (wRequested w)\<rparr>))]"

section \<open>App states\<close>

definition row_of_app :: "uint64 \<Rightarrow> Stage \<Rightarrow> AppStateRow \<Rightarrow> bool" where
  "row_of_app key stage r \<longleftrightarrow> sAppKey r = key \<and> sStage r = stage"

definition state_row :: "App \<Rightarrow> AppState \<Rightarrow> string \<Rightarrow> AppStateRow" where
  "state_row a st ts = \<lparr>sAppName = aAppName a, sAppKey = aAppKey a, sVersion = aVersion a,
     sReleaseKey = aReleaseKey a, sStage = aStage a, sState = st, sTimestamp = ts\<rparr>"

definition insertAppState :: "nat \<Rightarrow> (go_error + string) prog" where
  "insertAppState app = do {
     now \<leftarrow> ext ''time.Now'' [];
     a \<leftarrow> app_at app;
     e \<leftarrow> sqlite ''InsertAppStateEntry'';
     case e of
       Some x \<Rightarrow> ret (Inl x)
     | None \<Rightarrow> do {
         rows \<leftarrow> gets wAppStates;
         if \<not> (stage_allowed (aStage a) \<and> state_allowed (aCurrentState a)) then ret (Inl (the check_failed))
         else if \<exists>r\<in>set rows. row_of_app (aAppKey a) (aStage a) r \<and> sAppName r = aAppName a
         then ret (Inl (the unique_failed))
         else do {
           _ \<leftarrow> modify (\<lambda>w. w\<lparr>wAppStates := wAppStates w @ [state_row a (aCurrentState a) (rpStr now)]\<rparr>);
           ret (Inr (rpStr now)) }}}"

text \<open>The last part of \<^verbatim>\<open>UpsertAppState\<close>: the requested state follows the app, if there is one.\<close>

definition syncRequestedState :: "App \<Rightarrow> AppState \<Rightarrow> err prog" where
  "syncRequestedState a newState = do {
     r \<leftarrow> GetRequestedState (aAppKey a) (aStage a);
     case r of
       Inl _ \<Rightarrow> ret None
     | Inr p \<Rightarrow> UpsertRequestedStateChange
         (p\<lparr>pCurrentState := newState, pRequestedState := aRequestedState a,
            pPresentVersion := aVersion a, pReleaseKey := aReleaseKey a\<rparr>) }"

text \<open>\<^verbatim>\<open>UpsertAppState\<close> once it has locked the app and knows its fields.\<close>

definition upsertLocked :: "nat \<Rightarrow> App \<Rightarrow> AppState \<Rightarrow> (go_error + string) prog" where
  "upsertLocked app a newState = do {
     e \<leftarrow> sqlite ''SelectCurrentAppStateByKeyAndStage'';
     case e of Some x \<Rightarrow> ret (Inl x) | None \<Rightarrow> do {
     rows \<leftarrow> gets wAppStates;
     case find (row_of_app (aAppKey a) (aStage a)) rows of
       None \<Rightarrow> insertAppState app
     | Some cur \<Rightarrow>
         if sState cur = newState \<and> sVersion cur = aVersion a \<and> sReleaseKey cur = aReleaseKey a
         then ret (Inr [])
         else do {
           now \<leftarrow> ext ''time.Now'' [];
           e \<leftarrow> steps [
             sqlite ''InsertAppStateHistoryEntry'',
             ignore (modify (\<lambda>w. w\<lparr>wHistory := wHistory w @ [state_row a (sState cur) (rpStr now)]\<rparr>)),
             sqlite ''UpdateAppStateByAppKeyAndStage'',
             (if state_allowed newState
              then ignore (modify (\<lambda>w. w\<lparr>wAppStates :=
                     map (\<lambda>r. if row_of_app (aAppKey a) (aStage a) r
                              then r\<lparr>sState := newState, sVersion := aVersion a, sReleaseKey := aReleaseKey a\<rparr> else r)
                       (wAppStates w)\<rparr>))
              else ret check_failed),
             syncRequestedState a newState];
           case e of Some x \<Rightarrow> ret (Inl x) | None \<Rightarrow> ret (Inr (rpStr now)) }}}"

definition UpsertAppState :: "nat \<Rightarrow> AppState \<Rightarrow> (go_error + string) prog" where
  "UpsertAppState app newState = do { a \<leftarrow> app_at app; upsertLocked app a newState }"

definition app_of_row :: "AppStateRow \<Rightarrow> App" where
  "app_of_row r = \<lparr>aAppKey = sAppKey r, aDeviceToAppKey = 0, aRequestorAccountKey = 0,
     aReleaseKey = sReleaseKey r, aAppName = sAppName r, aRequestedState = NoState,
     aCurrentState = sState r, aUpdateStatus = OtherUpdateStatus [], aStage = sStage r,
     aRequestUpdate = False, aReleaseBuild = False, aVersion = sVersion r,
     aLastUpdated = sTimestamp r, aTransitionLock = False\<rparr>"

definition GetAppState :: "uint64 \<Rightarrow> Stage \<Rightarrow> (go_error + App option) prog" where
  "GetAppState key stage = do {
     e \<leftarrow> sqlite ''SelectAppStateByAppKeyAndStage'';
     case e of Some x \<Rightarrow> ret (Inl x) | None \<Rightarrow> do {
     rows \<leftarrow> gets wAppStates;
     case find (row_of_app key stage) rows of
       None \<Rightarrow> ret (Inr None)
     | Some row \<Rightarrow> do {
         r \<leftarrow> GetRequestedState (sAppKey row) (sStage row);
         ret (Inr (Some (case r of
           Inl _ \<Rightarrow> app_of_row row
         | Inr p \<Rightarrow> (app_of_row row)\<lparr>aRequestorAccountKey := pRequestorAccountKey p, aRequestedState := pRequestedState p\<rparr>))) }}}"

definition attach_requested :: "TransitionPayload list \<Rightarrow> App \<Rightarrow> App" where
  "attach_requested ps a = fold (\<lambda>p a. if aAppKey a = pAppKey p \<and> aStage a = pStage p
     then a\<lparr>aRequestorAccountKey := pRequestorAccountKey p, aRequestedState := pRequestedState p\<rparr> else a) ps a"

definition GetAppStates :: "(go_error + App list) prog" where
  "GetAppStates = do {
     e \<leftarrow> sqlite ''SelectAllAppStates'';
     case e of Some x \<Rightarrow> ret (Inl x) | None \<Rightarrow> do {
     apps \<leftarrow> gets (\<lambda>w. map app_of_row (wAppStates w));
     r \<leftarrow> GetRequestedStates;
     ret (case r of Inl x \<Rightarrow> Inl x | Inr ps \<Rightarrow> Inr (map (attach_requested ps) apps)) }}"

definition DeleteAppState :: "uint64 \<Rightarrow> Stage \<Rightarrow> err prog" where
  "DeleteAppState key stage = steps [
     sqlite ''DeleteAppStateByAppKeyAndStage'',
     ignore (modify (\<lambda>w. w\<lparr>wAppStates := filter (\<lambda>r. \<not> row_of_app key stage r) (wAppStates w)\<rparr>))]"

section \<open>Well-formed tables\<close>

definition entry_key :: "RequestedRow \<Rightarrow> string \<times> uint64 \<times> Stage" where
  "entry_key r = (rAppName r, rAppKey r, rStage r)"

definition state_key :: "AppStateRow \<Rightarrow> string \<times> uint64 \<times> Stage" where
  "state_key r = (sAppName r, sAppKey r, sStage r)"

definition state_row_allowed :: "AppStateRow \<Rightarrow> bool" where
  "state_row_allowed r \<longleftrightarrow> stage_allowed (sStage r) \<and> state_allowed (sState r)"

definition tables_ok :: "RequestedRow list \<Rightarrow> AppStateRow list \<Rightarrow> bool" where
  "tables_ok rs ss \<longleftrightarrow> list_all row_allowed rs \<and> distinct (map entry_key rs)
     \<and> list_all state_row_allowed ss \<and> distinct (map state_key ss)"

definition db_inv :: "world \<Rightarrow> bool" where
  "db_inv w = tables_ok (wRequested w) (wAppStates w)"

lemma same_entry_key: "same_entry r s \<longleftrightarrow> entry_key r = entry_key s"
  by (simp add: same_entry_def entry_key_def)

lemma entry_key_upsert_conflict [simp]: "entry_key (upsert_conflict r s) = entry_key s"
  by (simp add: entry_key_def upsert_conflict_def)

lemma row_allowed_upsert_conflict [simp]: "row_allowed (upsert_conflict r s) = row_allowed s"
  by (simp add: row_allowed_def upsert_conflict_def)

lemma set_upsert_row_keys: "entry_key ` set (upsert_row new rs) = insert (entry_key new) (entry_key ` set rs)"
  by (induction rs) (auto simp: same_entry_key)

lemma tables_ok_upsert_row:
  assumes "tables_ok rs ss" and "row_allowed new"
  shows "tables_ok (upsert_row new rs) ss"
proof -
  have "list_all row_allowed (upsert_row new rs)"
    using assms by (induction rs) (auto simp: tables_ok_def)
  moreover have "distinct (map entry_key rs) \<Longrightarrow> distinct (map entry_key (upsert_row new rs))"
    by (induction rs) (auto simp: same_entry_key set_upsert_row_keys)
  ultimately show ?thesis using assms by (simp add: tables_ok_def)
qed

lemma tables_ok_bulk_rows: "bulk_rows ps rs = Some rs' \<Longrightarrow> tables_ok rs ss \<Longrightarrow> tables_ok rs' ss"
  by (induction ps arbitrary: rs) (auto split: if_splits intro: tables_ok_upsert_row)

lemma tables_ok_filter:
  "tables_ok rs ss \<Longrightarrow> tables_ok (filter P rs) ss"
  "tables_ok rs ss \<Longrightarrow> tables_ok rs (filter Q ss)"
  by (auto simp: tables_ok_def list_all_iff distinct_map_filter)

lemma tables_ok_state_append:
  "tables_ok rs ss \<Longrightarrow> state_row_allowed r \<Longrightarrow> state_key r \<notin> state_key ` set ss \<Longrightarrow> tables_ok rs (ss @ [r])"
  by (simp add: tables_ok_def)

lemma tables_ok_state_map:
  assumes "tables_ok rs ss" and "\<And>r. state_key (f r) = state_key r" and "\<And>r. state_row_allowed r \<Longrightarrow> state_row_allowed (f r)"
  shows "tables_ok rs (map f ss)"
proof -
  have "state_key \<circ> f = state_key" using assms(2) by auto
  with assms show ?thesis by (auto simp: tables_ok_def list_all_iff)
qed

abbreviation keeps_db :: "world \<Rightarrow> world \<Rightarrow> bool" where
  "keeps_db w w' \<equiv> db_inv w \<longrightarrow> db_inv w'"

interpretation db: step_relation keeps_db
  by unfold_locales (simp_all add: db_inv_def)

text \<open>Programs that leave the two tables alone.\<close>

lemma keeps_db_app_upd: "keeps keeps_db (app_upd i f)"
  by (rule db.keeps_app_upd) (simp add: db_inv_def)

lemma keeps_db_spawn: "keeps keeps_db (spawn t)"
  by (rule db.keeps_spawn) (simp add: db_inv_def)

lemma UpsertRequestedStateChange_db: "keeps keeps_db (UpsertRequestedStateChange p)"
proof -
  have "keeps keeps_db (modify (\<lambda>w. w\<lparr>wRequested := upsert_row row (wRequested w)\<rparr>))"
    if "row_allowed row" for row
    using that by (intro db.keeps_modify) (simp add: db_inv_def tables_ok_upsert_row)
  then show ?thesis
    unfolding UpsertRequestedStateChange_def Let_def by (intro db.keeps_intros) simp
qed

lemma BulkUpsert_db: "keeps keeps_db (BulkUpsertRequestedStateChanges ps)"
proof -
  have "wp (do { rows \<leftarrow> gets wRequested;
          case bulk_rows ps rows of
            None \<Rightarrow> ret check_failed
          | Some rows' \<Rightarrow> ignore (modify (\<lambda>w. w\<lparr>wRequested := rows'\<rparr>)) }) (\<lambda>_. keeps_db w) w" for w
    by (auto simp: wp_simps db_inv_def split: option.split dest: tables_ok_bulk_rows)
  then show ?thesis
    unfolding BulkUpsertRequestedStateChanges_def
    by (intro db.keeps_steps_Cons db.keeps_steps_Nil db.keeps_extE) (simp add: keeps_wp)
qed

lemma GetRequestedState_db: "keeps keeps_db (GetRequestedState k s)"
  unfolding GetRequestedState_def by (intro db.keeps_intros)

lemma GetRequestedStates_db: "keeps keeps_db GetRequestedStates"
  unfolding GetRequestedStates_def by (intro db.keeps_intros)

lemma DeleteRequestedState_db: "keeps keeps_db (DeleteRequestedState k s)"
  unfolding DeleteRequestedState_def
  by (intro db.keeps_intros db.keeps_modify) (simp add: db_inv_def tables_ok_filter)

lemma DeleteAppState_db: "keeps keeps_db (DeleteAppState k s)"
  unfolding DeleteAppState_def
  by (intro db.keeps_intros db.keeps_modify) (simp add: db_inv_def tables_ok_filter)

lemma GetAppState_db: "keeps keeps_db (GetAppState k s)"
  unfolding GetAppState_def by (intro db.keeps_intros GetRequestedState_db)

lemma GetAppStates_db: "keeps keeps_db GetAppStates"
  unfolding GetAppStates_def by (intro db.keeps_intros GetRequestedStates_db)

lemma insertAppState_db: "keeps keeps_db (insertAppState i)"
proof -
  have "wp (insertAppState i) (\<lambda>_. keeps_db w) w" for w
    by (auto simp: insertAppState_def wp_simps db_inv_def split: option.split
        intro!: tables_ok_state_append simp: state_row_allowed_def state_row_def state_key_def row_of_app_def)
  then show ?thesis by (simp add: keeps_wp)
qed

lemma syncRequestedState_db: "keeps keeps_db (syncRequestedState a st)"
  unfolding syncRequestedState_def
  by (intro db.keeps_intros GetRequestedState_db UpsertRequestedStateChange_db)

lemma UpsertAppState_db: "keeps keeps_db (UpsertAppState i st)"
proof -
  have "keeps keeps_db (modify (\<lambda>w. w\<lparr>wHistory := h w\<rparr>))" for h
    by (rule db.keeps_modify) (simp add: db_inv_def)
  moreover have "keeps keeps_db (modify (\<lambda>w. w\<lparr>wAppStates :=
      map (\<lambda>r. if row_of_app k s r then r\<lparr>sState := st, sVersion := v, sReleaseKey := rk\<rparr> else r) (wAppStates w)\<rparr>))"
    if "state_allowed st" for k s v rk
    using that by (intro db.keeps_modify)
      (auto simp: db_inv_def state_key_def state_row_allowed_def intro!: tables_ok_state_map)
  ultimately show ?thesis
    unfolding UpsertAppState_def upsertLocked_def
    by (intro db.keeps_intros insertAppState_db syncRequestedState_db)
qed

section \<open>Reading back what was stored\<close>

definition named_alike :: "TransitionPayload \<Rightarrow> RequestedRow list \<Rightarrow> bool" where
  "named_alike p rs \<longleftrightarrow> (\<forall>r\<in>set rs. same_app (pAppKey p) (pStage p) r \<longrightarrow> rAppName r = pAppName p)"

lemma same_app_row_of_payload [simp]: "same_app (pAppKey p) (pStage p) (row_of_payload p)"
  by (simp add: same_app_def row_of_payload_def)

lemma same_app_upsert_conflict [simp]: "same_app k s (upsert_conflict old new) = same_app k s new"
  by (simp add: same_app_def upsert_conflict_def)

lemma find_upsert_row:
  assumes "named_alike p rs"
  shows "find (same_app (pAppKey p) (pStage p)) (upsert_row (row_of_payload p) rs) =
     Some (case find (same_app (pAppKey p) (pStage p)) rs of
             None \<Rightarrow> row_of_payload p | Some old \<Rightarrow> upsert_conflict old (row_of_payload p))"
  using assms
proof (induction rs)
  case Nil
  then show ?case by simp
next
  case (Cons r rs)
  then have "same_entry r (row_of_payload p) \<longleftrightarrow> same_app (pAppKey p) (pStage p) r"
    by (auto simp: same_entry_def row_of_payload_def same_app_def named_alike_def)
  with Cons show ?case by (auto simp: named_alike_def)
qed

lemma find_upsert_row_renamed:
  assumes "find (same_app (pAppKey p) (pStage p)) rs = Some r" and "rAppName r \<noteq> pAppName p"
  shows "find (same_app (pAppKey p) (pStage p)) (upsert_row (row_of_payload p) rs) = Some r"
  using assms
proof (induction rs)
  case Nil
  then show ?case by simp
next
  case (Cons r' rs)
  have "same_entry r' (row_of_payload p) \<Longrightarrow> same_app (pAppKey p) (pStage p) r' \<and> rAppName r' = pAppName p"
    by (auto simp: same_entry_def row_of_payload_def same_app_def)
  with Cons show ?case by (auto split: if_splits)
qed

lemma UpsertRequestedStateChange_nil:
  assumes "run_state (UpsertRequestedStateChange p) w = (None, w')"
  shows "wRequested w' = upsert_row (row_of_payload p) (wRequested w)" and "wConfig w' = wConfig w"
proof -
  have "wp (UpsertRequestedStateChange p) (\<lambda>e w'. e = None \<longrightarrow>
      wRequested w' = upsert_row (row_of_payload p) (wRequested w) \<and> wConfig w' = wConfig w) w"
    by (auto simp: UpsertRequestedStateChange_def Let_def wp_steps_Cons wp_simps check_failed_def
        simp del: steps.simps split: option.split)
  from wp_runD [OF this assms] show "wRequested w' = upsert_row (row_of_payload p) (wRequested w)"
    and "wConfig w' = wConfig w" by auto
qed

lemma GetRequestedState_ok:
  assumes "run_state (GetRequestedState k s) w = (Inr q, w')"
  shows "\<exists>r. find (same_app k s) (wRequested w) = Some r \<and> q = payload_of_row (wConfig w) r"
proof -
  have "wp (GetRequestedState k s) (\<lambda>res w'. \<forall>q. res = Inr q \<longrightarrow>
      (\<exists>r. find (same_app k s) (wRequested w) = Some r \<and> q = payload_of_row (wConfig w) r)) w"
    by (auto simp: GetRequestedState_def wp_simps split: option.split)
  from wp_runD [OF this assms] show ?thesis by simp
qed

lemma payload_of_row_simps [simp]:
  "pRequestedState (payload_of_row c r) = rRequestedState r" "pCurrentState (payload_of_row c r) = rCurrentState r"
  "pStage (payload_of_row c r) = rStage r" "pAppKey (payload_of_row c r) = rAppKey r"
  "pAppName (payload_of_row c r) = rAppName r" "pNewestVersion (payload_of_row c r) = rNewestVersion r"
  "pPresentVersion (payload_of_row c r) = rPresentVersion r" "pReleaseKey (payload_of_row c r) = rReleaseKey r"
  "pNewReleaseKey (payload_of_row c r) = rNewReleaseKey r" "pRequestUpdate (payload_of_row c r) = rRequestUpdate r"
  "pEnvironmentVariables (payload_of_row c r) = rEnvironmentVariables r"
  "pEnvironmentTemplate (payload_of_row c r) = rEnvironmentTemplate r" "pPorts (payload_of_row c r) = rPorts r"
  "pDockerCompose (payload_of_row c r) = rDockerCompose r" "pNewDockerCompose (payload_of_row c r) = rNewDockerCompose r"
  "pAppCredEpoch (payload_of_row c r) = 0" "pInstanceKey (payload_of_row c r) = 0"
  "pRetrying (payload_of_row c r) = False" "pCancelTransition (payload_of_row c r) = False"
  "pVersion (payload_of_row c r) = rVersion r" "pDeviceOwnerAccountKey (payload_of_row c r) = rDeviceOwnerAccountKey r"
  "pRequestorAccountKey (payload_of_row c r) = rRequestorAccountKey r" "pRegisteryToken (payload_of_row c r) = []"
  "pDeviceToAppKey (payload_of_row c r) = 0" "pDockerCredentials (payload_of_row c r) = None"
  by (simp_all add: payload_of_row_def BuildTransitionPayload_def initContainerData_def EmptyPayload_def Let_def)

lemma payload_of_row_names:
  "pContainerName (payload_of_row c r) =
     \<lparr>Dev = BuildContainerName DEV (rAppKey r) (rAppName r), Prod = BuildContainerName PROD' (rAppKey r) (rAppName r)\<rparr>"
  by (simp add: payload_of_row_def BuildTransitionPayload_def initContainerData_def Let_def)

text \<open>What of a payload the table keeps, written as a payload.\<close>

definition persisted_part :: "TransitionPayload \<Rightarrow> TransitionPayload \<Rightarrow> bool" where
  "persisted_part p q \<longleftrightarrow>
     pAppKey q = pAppKey p \<and> pStage q = pStage p \<and> pAppName q = pAppName p \<and>
     pRequestedState q = pRequestedState p \<and> pCurrentState q = pCurrentState p \<and>
     pPresentVersion q = pPresentVersion p \<and> pNewestVersion q = pNewestVersion p \<and>
     pReleaseKey q = pReleaseKey p \<and> pNewReleaseKey q = pNewReleaseKey p \<and>
     pRequestUpdate q = pRequestUpdate p \<and> pRequestorAccountKey q = pRequestorAccountKey p \<and>
     pEnvironmentVariables q = pEnvironmentVariables p \<and> pEnvironmentTemplate q = pEnvironmentTemplate p \<and>
     pPorts q = pPorts p \<and> pDockerCompose q = pDockerCompose p \<and> pNewDockerCompose q = pNewDockerCompose p"



end
