(* ===== verification/Store.thy ===== *)
theory Store
  imports Database
begin

text \<open>
  \<^verbatim>\<open>src/store/app_store.go\<close> and the notification half of \<^verbatim>\<open>src/apps/state_observer.go\<close>: the cache
  of app objects over the database, and how an achieved state reaches memory, the tables and
  the backend. A pointer to an app is its index in \<open>wApps\<close>; apps are only ever appended.
\<close>

section \<open>The app store\<close>

fun index_of_app :: "App list \<Rightarrow> uint64 \<Rightarrow> Stage \<Rightarrow> nat option" where
  "index_of_app [] key stage = None"
| "index_of_app (a # as) key stage =
     (if aAppKey a = key \<and> aStage a = stage then Some 0 else map_option Suc (index_of_app as key stage))"

definition push_app :: "App \<Rightarrow> nat prog" where
  "push_app a = do {
     n \<leftarrow> gets (\<lambda>w. length (wApps w));
     _ \<leftarrow> modify (\<lambda>w. w\<lparr>wApps := wApps w @ [a]\<rparr>);
     ret n }"

definition GetApp :: "uint64 \<Rightarrow> Stage \<Rightarrow> (go_error + nat option) prog" where
  "GetApp key stage = do {
     apps \<leftarrow> gets wApps;
     case index_of_app apps key stage of
       Some i \<Rightarrow> ret (Inr (Some i))
     | None \<Rightarrow> do {
         r \<leftarrow> GetAppState key stage;
         case r of
           Inl e \<Rightarrow> ret (Inl e)
         | Inr a \<Rightarrow>
             (case a of
                None \<Rightarrow> ret (Inr None)
              | Some app \<Rightarrow> do { i \<leftarrow> push_app (app\<lparr>aTransitionLock := False\<rparr>); ret (Inr (Some i)) }) }}"

definition AddApp :: "TransitionPayload \<Rightarrow> (go_error + nat) prog" where
  "AddApp payload = do {
     i \<leftarrow> push_app \<lparr>aAppKey = pAppKey payload, aDeviceToAppKey = pDeviceToAppKey payload,
            aRequestorAccountKey = pRequestorAccountKey payload, aReleaseKey = pReleaseKey payload,
            aAppName = pAppName payload, aRequestedState = pRequestedState payload,
            aCurrentState = (if pCurrentState payload = NoState then REMOVED else pCurrentState payload),
            aUpdateStatus = OtherUpdateStatus [], aStage = pStage payload,
            aRequestUpdate = pRequestUpdate payload, aReleaseBuild = False, aVersion = pPresentVersion payload,
            aLastUpdated = [], aTransitionLock = False\<rparr>;
     a \<leftarrow> app_at i;
     r \<leftarrow> UpsertAppState i (aCurrentState a);
     case r of Inl e \<Rightarrow> ret (Inl e) | Inr _ \<Rightarrow> ret (Inr i) }"

definition UpdateLocalRequestedState :: "TransitionPayload \<Rightarrow> err prog" where
  "UpdateLocalRequestedState payload = UpsertRequestedStateChange payload"

text \<open>
  The reply's \<^verbatim>\<open>Arguments\<close> are \<open>rpJson\<close>: nil, or a list. On an empty non-nil list the Go code of
  \<^verbatim>\<open>GetRegistryToken\<close> panics; that is the error value \<^verbatim>\<open>panic: index out of range\<close> here.
\<close>

definition GetRegistryToken :: "uint64 \<Rightarrow> (go_error + string) prog" where
  "GetRegistryToken callerID = do {
     resp \<leftarrow> ext ''Messenger.Call GetRegistryToken'' [itoa (unat callerID)];
     ret (case rpErr resp of
            Some e \<Rightarrow> Inl e
          | None \<Rightarrow> (case rpJson resp of
              JNull \<Rightarrow> Inr []
            | JArr (JStr t # _) \<Rightarrow> Inr t
            | JArr [] \<Rightarrow> Inl (Msg ''panic: index out of range'')
            | _ \<Rightarrow> Inl (Msg ''invalid registry_token payload''))) }"

definition GetAppCredKey :: "(go_error + string) prog" where
  "GetAppCredKey = do {
     resp \<leftarrow> ext ''Messenger.Call GetAppCredKey'' [];
     ret (case rpErr resp of
            Some e \<Rightarrow> Inl e
          | None \<Rightarrow> (case rpJson resp of
              JArr (JStr key # _) \<Rightarrow> if key = [] then Inl (Msg ''invalid app_cred_key payload'') else Inr key
            | JArr (_ # _) \<Rightarrow> Inl (Msg ''invalid app_cred_key payload'')
            | _ \<Rightarrow> Inl (Msg ''empty app_cred_key payload''))) }"

definition UpdateLocalAppState :: "nat \<Rightarrow> AppState \<Rightarrow> err prog" where
  "UpdateLocalAppState app stateToSet = do {
     r \<leftarrow> UpsertAppState app stateToSet;
     _ \<leftarrow> app_upd app (\<lambda>a. a\<lparr>aLastUpdated := (case r of Inl _ \<Rightarrow> [] | Inr ts \<Rightarrow> ts)\<rparr>);
     ret (case r of Inl e \<Rightarrow> Some e | Inr _ \<Rightarrow> None) }"

definition bool_string :: "bool \<Rightarrow> string" where
  "bool_string b = (if b then ''true'' else ''false'')"

definition UpdateStatus_string :: "UpdateStatus \<Rightarrow> string" where
  "UpdateStatus_string u = (case u of COMPLETED \<Rightarrow> ''completed'' | CANCELED \<Rightarrow> ''canceled''
     | PENDING_REMOTE_CONFIRMATION \<Rightarrow> ''pending_remote_confirmation'' | OtherUpdateStatus t \<Rightarrow> t)"

definition set_state_args :: "Config \<Rightarrow> App \<Rightarrow> AppState \<Rightarrow> string list" where
  "set_state_args c a st = [itoa (unat (aAppKey a)), itoa (unat (cDeviceKey c)), itoa (unat (cSwarmKey c)),
     cSerialNumber c, Stage_string (aStage a), AppState_string st, itoa (unat (aDeviceToAppKey a)),
     itoa (unat (aRequestorAccountKey a)), itoa (unat (aReleaseKey a)), bool_string (aRequestUpdate a),
     bool_string (aReleaseBuild a), UpdateStatus_string (aUpdateStatus a)]"

definition UpdateRemoteAppState :: "nat \<Rightarrow> AppState \<Rightarrow> err prog" where
  "UpdateRemoteAppState app stateToSet = do {
     c \<leftarrow> gets wConfig;
     a \<leftarrow> app_at app;
     e \<leftarrow> extE ''Messenger.Call SetActualAppOnDeviceState'' (set_state_args c a stateToSet);
     case e of
       Some x \<Rightarrow> ret (Some x)
     | None \<Rightarrow> ignore (app_upd app (\<lambda>a. if aUpdateStatus a = PENDING_REMOTE_CONFIRMATION
                                         then a\<lparr>aUpdateStatus := COMPLETED\<rparr> else a)) }"

text \<open>One entry of the device sync, as the backend sends it.\<close>

record DeviceSyncResponse =
  dAppKey :: uint64
  dAppName :: string
  dRequestorAccountKey :: int
  dDeviceOwnerAccountKey :: int
  dStage :: Stage
  dCurrentState :: AppState
  dTargetState :: AppState
  dReleaseKey :: int
  dNewReleaseKey :: int
  dRequestUpdate :: bool
  dPresentVersion :: string
  dNewestVersion :: string
  dDockerCompose :: jmap
  dNewDockerCompose :: jmap
  dEnvironment :: jmap
  dEnvironmentTemplate :: jmap
  dPorts :: "json list"
  dAppCredEpoch :: uint64

definition payload_of_sync :: "Config \<Rightarrow> DeviceSyncResponse \<Rightarrow> TransitionPayload" where
  "payload_of_sync config d =
     (BuildTransitionPayload (dAppKey d) (dAppName d) (word_of_int (dRequestorAccountKey d)) (dStage d)
        (dCurrentState d) (dTargetState d) (word_of_int (dReleaseKey d)) (word_of_int (dNewReleaseKey d)) config)
       \<lparr>pDeviceOwnerAccountKey := word_of_int (dDeviceOwnerAccountKey d), pRequestUpdate := dRequestUpdate d,
        pPresentVersion := dPresentVersion d, pDockerCompose := dDockerCompose d,
        pNewDockerCompose := dNewDockerCompose d, pVersion := dPresentVersion d,
        pNewestVersion := dNewestVersion d, pEnvironmentVariables := dEnvironment d,
        pEnvironmentTemplate := dEnvironmentTemplate d, pPorts := dPorts d, pAppCredEpoch := dAppCredEpoch d\<rparr>"

text \<open>
  \<^verbatim>\<open>FetchRequestedAppStates\<close>: decoding the reply into sync entries is \<^verbatim>\<open>encoding/json\<close> on the
  struct tags, a parameter here; its error is dropped by the code.
\<close>

definition FetchRequestedAppStates ::
  "(json \<Rightarrow> DeviceSyncResponse list) \<Rightarrow> (go_error + TransitionPayload list) prog" where
  "FetchRequestedAppStates decode = do {
     c \<leftarrow> gets wConfig;
     result \<leftarrow> ext ''Messenger.Call GetRequestedAppStates'' [itoa (unat (cDeviceKey c))];
     ret (case rpErr result of
            Some e \<Rightarrow> Inl e
          | None \<Rightarrow> Inr (map (payload_of_sync c) (decode (rpJson result)))) }"

definition UpdateRequestedStatesWithRemote :: "(json \<Rightarrow> DeviceSyncResponse list) \<Rightarrow> err prog" where
  "UpdateRequestedStatesWithRemote decode = do {
     r \<leftarrow> FetchRequestedAppStates decode;
     case r of Inl e \<Rightarrow> ret (Some e) | Inr ps \<Rightarrow> BulkUpsertRequestedStateChanges ps }"

definition GetAppByContainerName :: "App list \<Rightarrow> string \<Rightarrow> nat option" where
  "GetAppByContainerName apps containerName =
     map_option fst (find (\<lambda>(i, a). EqualFold (Stage_string (aStage a) @ ''_'' @ itoa (unat (aAppKey a)) @ ''_'' @ aAppName a) containerName)
       (enumerate 0 apps))"

section \<open>Notification\<close>

definition NotifyLocal :: "nat \<Rightarrow> AppState \<Rightarrow> err prog" where
  "NotifyLocal app achievedState = do {
     _ \<leftarrow> app_upd app (\<lambda>a. a\<lparr>aCurrentState := achievedState\<rparr>);
     a \<leftarrow> app_at app;
     e \<leftarrow> UpdateLocalAppState app achievedState;
     case e of
       Some x \<Rightarrow> ret (Some x)
     | None \<Rightarrow>
         if achievedState = REMOVED then do {
           r \<leftarrow> GetRequestedState (aAppKey a) (aStage a);
           case r of
             Inl _ \<Rightarrow> ret None
           | Inr p \<Rightarrow>
               if pRequestedState p = REMOVED \<or> pRequestedState p = UNINSTALLED
               then steps [ignore (DeleteAppState (aAppKey a) (aStage a)),
                           ignore (DeleteRequestedState (aAppKey a) (aStage a))]
               else ret None }
         else ret None }"

definition NotifyRemote :: "nat \<Rightarrow> AppState \<Rightarrow> err prog" where
  "NotifyRemote app achievedState = UpdateRemoteAppState app achievedState"

definition Notify :: "nat \<Rightarrow> AppState \<Rightarrow> err prog" where
  "Notify app achievedState = steps [NotifyLocal app achievedState, NotifyRemote app achievedState]"

text \<open>\<^verbatim>\<open>StateMachine.setState\<close>.\<close>

definition setState :: "nat \<Rightarrow> AppState \<Rightarrow> err prog" where
  "setState app st = do { e \<leftarrow> Notify app st; case e of Some x \<Rightarrow> ret (Some x) | None \<Rightarrow> ret None }"

section \<open>What notification leaves alone\<close>

text \<open>
  A program working for the app at \<open>i\<close>: it neither moves nor renames apps nor touches a
  transition lock, it writes no other app and no table row of another app, it keeps the
  configuration, the environment, the credential key, the crash loops and the tasks, and the
  calls already made stay made.
\<close>

definition ident :: "App \<Rightarrow> uint64 \<times> Stage \<times> string \<times> bool" where
  "ident a = (aAppKey a, aStage a, aAppName a, aTransitionLock a)"

definition env_frame :: "world \<Rightarrow> world \<Rightarrow> bool" where
  "env_frame w w' \<longleftrightarrow> wConfig w' = wConfig w \<and> wLib w' = wLib w \<and> wExt w' = wExt w \<and> wEmergency w' = wEmergency w
     \<and> wAppCredKey w' = wAppCredKey w \<and> wCrashLoops w' = wCrashLoops w \<and> wTasks w' = wTasks w
     \<and> wObservers w' = wObservers w \<and> wNextCtx w' = wNextCtx w \<and> wSpawnerActive w' = wSpawnerActive w
     \<and> (\<exists>t. wTrace w' = wTrace w @ t)"

definition apps_frame :: "nat \<Rightarrow> world \<Rightarrow> world \<Rightarrow> bool" where
  "apps_frame i w w' \<longleftrightarrow> map ident (wApps w') = map ident (wApps w)
     \<and> (\<forall>j<length (wApps w). j \<noteq> i \<longrightarrow> wApps w' ! j = wApps w ! j)"

definition other_rows :: "uint64 \<Rightarrow> Stage \<Rightarrow> world \<Rightarrow> RequestedRow list \<times> AppStateRow list" where
  "other_rows k s w = (filter (\<lambda>r. \<not> same_app k s r) (wRequested w), filter (\<lambda>r. \<not> row_of_app k s r) (wAppStates w))"

definition rows_frame :: "nat \<Rightarrow> world \<Rightarrow> world \<Rightarrow> bool" where
  "rows_frame i w w' \<longleftrightarrow> (i < length (wApps w) \<longrightarrow>
     (let k = aAppKey (wApps w ! i); s = aStage (wApps w ! i) in other_rows k s w' = other_rows k s w))"

definition app_frame :: "nat \<Rightarrow> world \<Rightarrow> world \<Rightarrow> bool" where
  "app_frame i w w' \<longleftrightarrow> env_frame w w' \<and> apps_frame i w w' \<and> rows_frame i w w'"

lemma ident_nth:
  assumes "map ident as = map ident bs" and "i < length bs"
  shows "aAppKey (as ! i) = aAppKey (bs ! i)" and "aStage (as ! i) = aStage (bs ! i)"
    and "aTransitionLock (as ! i) = aTransitionLock (bs ! i)" and "aAppName (as ! i) = aAppName (bs ! i)"
proof -
  have "length as = length bs" using assms(1) by (rule map_eq_imp_length_eq)
  then have "ident (as ! i) = ident (bs ! i)" using assms by (metis nth_map)
  then show "aAppKey (as ! i) = aAppKey (bs ! i)" and "aStage (as ! i) = aStage (bs ! i)"
    and "aTransitionLock (as ! i) = aTransitionLock (bs ! i)" and "aAppName (as ! i) = aAppName (bs ! i)"
    by (simp_all add: ident_def)
qed

lemma ident_length: "map ident as = map ident bs \<Longrightarrow> length as = length bs"
  by (rule map_eq_imp_length_eq)

interpretation env: step_relation env_frame
  by unfold_locales (auto simp: env_frame_def)

interpretation apps: step_relation "apps_frame i" for i
proof unfold_locales
  show "apps_frame i w w" and "apps_frame i w (w\<lparr>wTrace := wTrace w @ t\<rparr>)" for w t
    by (simp_all add: apps_frame_def)
  show "apps_frame i u w" if uv: "apps_frame i u v" and vw: "apps_frame i v w" for u v w
    unfolding apps_frame_def
  proof (intro conjI allI impI)
    from uv vw show "map ident (wApps w) = map ident (wApps u)"
      unfolding apps_frame_def by (elim conjE) (rule trans)
    fix j
    assume "j < length (wApps u)" and "j \<noteq> i"
    moreover from uv have "length (wApps v) = length (wApps u)"
      unfolding apps_frame_def by (blast intro: ident_length)
    ultimately show "wApps w ! j = wApps u ! j"
      using uv vw by (simp add: apps_frame_def)
  qed
qed

lemma rows_frame_trans:
  assumes "apps_frame i u v" and "rows_frame i u v" and "rows_frame i v w"
  shows "rows_frame i u w"
proof -
  have eq: "map ident (wApps v) = map ident (wApps u)" using assms(1) by (simp add: apps_frame_def)
  from ident_nth(1,2) [OF eq, of i] ident_length [OF eq] assms(2,3) show ?thesis by (simp add: rows_frame_def Let_def)
qed

interpretation frm: step_relation "app_frame i" for i
proof unfold_locales
  show "app_frame i w w" for w
    by (simp add: app_frame_def env.R_refl apps.R_refl rows_frame_def)
  show "app_frame i u w" if "app_frame i u v" and "app_frame i v w" for u v w
    using that unfolding app_frame_def by (blast intro: env.R_trans apps.R_trans rows_frame_trans)
  show "app_frame i w (w\<lparr>wTrace := wTrace w @ t\<rparr>)" for w t
    by (simp add: app_frame_def env.R_trace apps.R_trace rows_frame_def other_rows_def)
qed

lemma map_ident_update: "ident (f (as ! i)) = ident (as ! i) \<Longrightarrow> map ident (as[i := f (as ! i)]) = map ident as"
  by (metis list_update_beyond list_update_id linorder_not_less map_update)

lemma app_upd_frame:
  assumes "\<And>a. ident (f a) = ident a"
  shows "keeps (app_frame i) (app_upd i f)"
  by (rule frm.keeps_app_upd)
    (simp add: app_frame_def env_frame_def apps_frame_def rows_frame_def other_rows_def map_ident_update assms)

text \<open>The database operations change no app object.\<close>

abbreviation same_objects :: "world \<Rightarrow> world \<Rightarrow> bool" where
  "same_objects w w' \<equiv> env_frame w w' \<and> wApps w' = wApps w"

interpretation obj: step_relation same_objects
  by unfold_locales (auto simp: env_frame_def)

text \<open>They change rows of one app only.\<close>

abbreviation same_others :: "uint64 \<Rightarrow> Stage \<Rightarrow> world \<Rightarrow> world \<Rightarrow> bool" where
  "same_others k s w w' \<equiv> other_rows k s w' = other_rows k s w"

interpretation oth: step_relation "same_others k s" for k s
  by unfold_locales (simp_all add: other_rows_def)

lemma filter_upsert_row:
  "same_app k s new \<Longrightarrow> filter (\<lambda>r. \<not> same_app k s r) (upsert_row new rs) = filter (\<lambda>r. \<not> same_app k s r) rs"
  by (induction rs) (auto simp: same_entry_def same_app_def upsert_conflict_def)

lemma UpsertRequestedStateChange_objects: "keeps same_objects (UpsertRequestedStateChange p)"
  unfolding UpsertRequestedStateChange_def Let_def
  by (intro obj.keeps_intros obj.keeps_modify) (simp add: env_frame_def)

lemma UpsertRequestedStateChange_others: "keeps (same_others (pAppKey p) (pStage p)) (UpsertRequestedStateChange p)"
  unfolding UpsertRequestedStateChange_def Let_def
  by (intro oth.keeps_intros oth.keeps_modify) (simp add: other_rows_def filter_upsert_row)

lemma GetRequestedState_objects: "keeps same_objects (GetRequestedState k s)"
  unfolding GetRequestedState_def by (intro obj.keeps_intros)

lemma GetRequestedState_others: "keeps (same_others k' s') (GetRequestedState k s)"
  unfolding GetRequestedState_def by (intro oth.keeps_intros)

lemma syncRequestedState_objects: "keeps same_objects (syncRequestedState a st)"
  unfolding syncRequestedState_def
  by (intro obj.keeps_intros GetRequestedState_objects UpsertRequestedStateChange_objects)

lemma syncRequestedState_others: "keeps (same_others (aAppKey a) (aStage a)) (syncRequestedState a st)"
proof -
  have "wp (syncRequestedState a st) (\<lambda>_. same_others (aAppKey a) (aStage a) w) w" for w
    unfolding syncRequestedState_def wp_bind
  proof (rule wp_runI)
    fix r w1
    assume r: "run_state (GetRequestedState (aAppKey a) (aStage a)) w = (r, w1)"
    note same = keepsD [OF GetRequestedState_others r]
    show "wp (case r of Inl x \<Rightarrow> ret None
        | Inr p \<Rightarrow> UpsertRequestedStateChange (p\<lparr>pCurrentState := st, pRequestedState := aRequestedState a,
            pPresentVersion := aVersion a, pReleaseKey := aReleaseKey a\<rparr>))
      (\<lambda>_. same_others (aAppKey a) (aStage a) w) w1"
    proof (cases r)
      case (Inl e)
      then show ?thesis using same by (simp add: wp_return)
    next
      case (Inr p)
      with r GetRequestedState_ok have "pAppKey p = aAppKey a \<and> pStage p = aStage a"
        by (fastforce simp: same_app_def dest: find_Some_in)
      with same Inr show ?thesis
        by (auto intro!: wp_runI dest!: keepsD [OF UpsertRequestedStateChange_others])
    qed
  qed
  then show ?thesis by (simp add: keeps_wp)
qed

lemma DeleteAppState_objects: "keeps same_objects (DeleteAppState k s)"
  unfolding DeleteAppState_def by (intro obj.keeps_intros obj.keeps_modify) (simp add: env_frame_def)

lemma DeleteRequestedState_objects: "keeps same_objects (DeleteRequestedState k s)"
  unfolding DeleteRequestedState_def by (intro obj.keeps_intros obj.keeps_modify) (simp add: env_frame_def)

lemma DeleteAppState_others: "keeps (same_others k s) (DeleteAppState k s)"
  unfolding DeleteAppState_def by (intro oth.keeps_intros oth.keeps_modify) (simp add: other_rows_def)

lemma DeleteRequestedState_others: "keeps (same_others k s) (DeleteRequestedState k s)"
  unfolding DeleteRequestedState_def by (intro oth.keeps_intros oth.keeps_modify) (simp add: other_rows_def)

lemma insertAppState_objects: "keeps same_objects (insertAppState i)"
  unfolding insertAppState_def by (intro obj.keeps_intros obj.keeps_modify) (simp add: env_frame_def)

lemma UpsertAppState_objects: "keeps same_objects (UpsertAppState i st)"
  unfolding UpsertAppState_def upsertLocked_def
  by (intro obj.keeps_intros obj.keeps_modify insertAppState_objects syncRequestedState_objects)
    (simp_all add: env_frame_def)

text \<open>With the app object that a pointer is known to hold.\<close>

definition own_rows :: "nat \<Rightarrow> App \<Rightarrow> world \<Rightarrow> world \<Rightarrow> bool" where
  "own_rows i a w w' \<longleftrightarrow> same_objects w w' \<and> (wApps w ! i = a \<longrightarrow> same_others (aAppKey a) (aStage a) w w')"

interpretation own: step_relation "own_rows i a" for i a
  by unfold_locales (auto simp: own_rows_def env.R_refl env.R_trace oth.R_trace intro: env.R_trans)

lemma own_rowsI: "keeps same_objects m \<Longrightarrow> keeps (same_others (aAppKey a) (aStage a)) m \<Longrightarrow> keeps (own_rows i a) m"
  by (simp add: keeps_def own_rows_def)

lemma insertAppState_own: "keeps (own_rows i a) (insertAppState i)"
proof -
  have "wp (insertAppState i) (\<lambda>_ w'. wApps w ! i = a \<longrightarrow> same_others (aAppKey a) (aStage a) w w') w" for w
    by (auto simp: insertAppState_def wp_simps other_rows_def row_of_app_def state_row_def split: option.split)
  moreover have "wp (insertAppState i) (\<lambda>_. same_objects w) w" for w
    using insertAppState_objects [of i] by (simp only: keeps_wp)
  ultimately have "wp (insertAppState i) (\<lambda>_. own_rows i a w) w" for w
    unfolding own_rows_def by (simp only: wp_conj)
  then show ?thesis by (simp add: keeps_wp)
qed

lemma filter_map_own:
  "(\<And>r. P r \<Longrightarrow> P (f r)) \<Longrightarrow> filter (\<lambda>r. \<not> P r) (map (\<lambda>r. if P r then f r else r) rs) = filter (\<lambda>r. \<not> P r) rs"
  by (induction rs) auto

lemma upsertLocked_own: "keeps (own_rows i a) (upsertLocked i a st)"
proof -
  have "own_rows i a w (w\<lparr>wAppStates :=
      map (\<lambda>r. if row_of_app (aAppKey a) (aStage a) r
               then r\<lparr>sState := st, sVersion := v, sReleaseKey := rk\<rparr> else r) (wAppStates w)\<rparr>)" for w v rk
    using filter_map_own [of "row_of_app (aAppKey a) (aStage a)" "\<lambda>r. r\<lparr>sState := st, sVersion := v, sReleaseKey := rk\<rparr>"]
    by (simp add: own_rows_def env_frame_def other_rows_def row_of_app_def)
  moreover have "own_rows i a w (w\<lparr>wHistory := h\<rparr>)" for w h
    by (simp add: own_rows_def env_frame_def other_rows_def)
  ultimately show ?thesis
    unfolding upsertLocked_def
    by (intro own.keeps_intros own.keeps_modify insertAppState_own
        own_rowsI [OF syncRequestedState_objects syncRequestedState_others])
qed

lemma UpsertAppState_frame: "keeps (app_frame i) (UpsertAppState i st)"
proof -
  have "own_rows i (wApps w ! i) w (snd (run_state (UpsertAppState i st) w))" for w
    using upsertLocked_own [of i "wApps w ! i" st]
    by (simp add: keeps_def UpsertAppState_def run_bind app_at_def gets_def State_Monad.get_def State_Monad.return_def)
  then have "app_frame i w (snd (run_state (UpsertAppState i st) w))" for w
    by (simp add: own_rows_def app_frame_def apps_frame_def rows_frame_def Let_def)
  then show ?thesis by (simp add: keeps_def)
qed

lemma app_frame_others:
  assumes "keeps same_objects m" and "keeps (same_others k s) m"
    and "i < length (wApps w) \<Longrightarrow> aAppKey (wApps w ! i) = k \<and> aStage (wApps w ! i) = s"
  shows "app_frame i w (snd (run_state m w))"
  using assms by (simp add: keeps_def app_frame_def apps_frame_def rows_frame_def Let_def)

lemma UpdateLocalAppState_frame: "keeps (app_frame i) (UpdateLocalAppState i st)"
  unfolding UpdateLocalAppState_def
  by (intro frm.keeps_intros UpsertAppState_frame app_upd_frame) (simp add: ident_def)

text \<open>The end of \<^verbatim>\<open>NotifyLocal\<close> deletes rows of the app it was called for.\<close>

definition forgetRemoved :: "App \<Rightarrow> err prog" where
  "forgetRemoved a = do {
     r \<leftarrow> GetRequestedState (aAppKey a) (aStage a);
     case r of
       Inl _ \<Rightarrow> ret None
     | Inr p \<Rightarrow>
         if pRequestedState p = REMOVED \<or> pRequestedState p = UNINSTALLED
         then steps [ignore (DeleteAppState (aAppKey a) (aStage a)),
                     ignore (DeleteRequestedState (aAppKey a) (aStage a))]
         else ret None }"

lemma NotifyLocal_forget:
  "NotifyLocal app st = do {
     _ \<leftarrow> app_upd app (\<lambda>a. a\<lparr>aCurrentState := st\<rparr>);
     a \<leftarrow> app_at app;
     e \<leftarrow> UpdateLocalAppState app st;
     case e of Some x \<Rightarrow> ret (Some x) | None \<Rightarrow> if st = REMOVED then forgetRemoved a else ret None }"
  unfolding NotifyLocal_def forgetRemoved_def ..

lemma forgetRemoved_objects: "keeps same_objects (forgetRemoved a)"
  unfolding forgetRemoved_def
  by (intro obj.keeps_intros GetRequestedState_objects DeleteAppState_objects DeleteRequestedState_objects)

lemma forgetRemoved_others: "keeps (same_others (aAppKey a) (aStage a)) (forgetRemoved a)"
  unfolding forgetRemoved_def
  by (intro oth.keeps_intros GetRequestedState_others DeleteAppState_others DeleteRequestedState_others)

lemma NotifyLocal_frame: "keeps (app_frame i) (NotifyLocal i st)"
proof -
  have "keeps (app_frame i) (do { a \<leftarrow> app_at i;
     e \<leftarrow> UpdateLocalAppState i st;
     case e of Some x \<Rightarrow> ret (Some x) | None \<Rightarrow> if st = REMOVED then forgetRemoved a else ret None })" (is "keeps _ ?m")
    unfolding keeps_wp
  proof
    fix w
    show "wp ?m (\<lambda>_. app_frame i w) w"
      unfolding wp_bind wp_app_at
    proof (rule wp_runI)
      fix e w1
      assume run: "run_state (UpdateLocalAppState i st) w = (e, w1)"
      note f = keepsD [OF UpdateLocalAppState_frame run]
      show "wp (case e of Some x \<Rightarrow> ret (Some x) | None \<Rightarrow> if st = REMOVED then forgetRemoved (wApps w ! i) else ret None) (\<lambda>_. app_frame i w) w1"
      proof (cases "e = None \<and> st = REMOVED")
        case True
        have eq: "map ident (wApps w1) = map ident (wApps w)" using f by (simp add: app_frame_def apps_frame_def)
        have "app_frame i w1 (snd (run_state (forgetRemoved (wApps w ! i)) w1))"
          using ident_nth(1,2) [OF eq, of i] ident_length [OF eq]
          by (intro app_frame_others [OF forgetRemoved_objects forgetRemoved_others]) simp
        with f True show ?thesis by (auto intro!: wp_runI dest: frm.R_trans)
      next
        case False
        with f show ?thesis by (auto simp: wp_return split: option.split)
      qed
    qed
  qed
  then show ?thesis
    unfolding NotifyLocal_forget
    by (rule frm.keeps_bind [OF app_upd_frame, rotated]) (simp add: ident_def)
qed

lemma UpdateRemoteAppState_frame: "keeps (app_frame i) (UpdateRemoteAppState i st)"
  unfolding UpdateRemoteAppState_def
  by (intro frm.keeps_intros app_upd_frame) (simp add: ident_def)

lemma Notify_frame: "keeps (app_frame i) (Notify i st)"
  unfolding Notify_def NotifyRemote_def
  by (intro frm.keeps_intros NotifyLocal_frame UpdateRemoteAppState_frame)

lemma setState_frame: "keeps (app_frame i) (setState i st)"
  unfolding setState_def by (intro frm.keeps_intros Notify_frame)

section \<open>What notification achieves\<close>

text \<open>The object keeps every field but its state, its timestamp and its update status.\<close>

definition in_state :: "nat \<Rightarrow> AppState \<Rightarrow> world \<Rightarrow> bool" where
  "in_state i st w \<longleftrightarrow> (i < length (wApps w) \<longrightarrow> aCurrentState (wApps w ! i) = st)"

definition keeps_state :: "nat \<Rightarrow> world \<Rightarrow> world \<Rightarrow> bool" where
  "keeps_state i w w' \<longleftrightarrow> length (wApps w') = length (wApps w) \<and> aCurrentState (wApps w' ! i) = aCurrentState (wApps w ! i)"

interpretation kst: step_relation "keeps_state i" for i
  by unfold_locales (simp_all add: keeps_state_def)

lemma same_objects_state: "keeps same_objects m \<Longrightarrow> keeps (keeps_state i) m"
  by (simp add: keeps_def keeps_state_def)

lemma app_upd_state: "(\<And>a. aCurrentState (f a) = aCurrentState a) \<Longrightarrow> keeps (keeps_state i) (app_upd j f)"
  by (rule kst.keeps_app_upd) (simp add: keeps_state_def, metis linorder_not_less list_update_beyond nth_list_update)

lemma UpdateLocalAppState_state: "keeps (keeps_state i) (UpdateLocalAppState j st)"
  unfolding UpdateLocalAppState_def
  by (intro kst.keeps_intros same_objects_state [OF UpsertAppState_objects] app_upd_state) simp

lemma UpdateRemoteAppState_state: "keeps (keeps_state i) (UpdateRemoteAppState j st)"
  unfolding UpdateRemoteAppState_def by (intro kst.keeps_intros app_upd_state) simp

lemma in_state_keep: "keeps_state i u v \<Longrightarrow> in_state i st u \<Longrightarrow> in_state i st v"
  by (simp add: keeps_state_def in_state_def)

lemma NotifyLocal_state: "run_state (NotifyLocal i st) w = (e, w') \<Longrightarrow> in_state i st w'"
proof -
  assume run: "run_state (NotifyLocal i st) w = (e, w')"
  let ?w0 = "w\<lparr>wApps := (wApps w)[i := (wApps w ! i)\<lparr>aCurrentState := st\<rparr>]\<rparr>"
  have "keeps (keeps_state i) (do { a \<leftarrow> app_at i; e \<leftarrow> UpdateLocalAppState i st;
     case e of Some x \<Rightarrow> ret (Some x) | None \<Rightarrow> if st = REMOVED then forgetRemoved a else ret None })"
    by (intro kst.keeps_intros UpdateLocalAppState_state same_objects_state [OF forgetRemoved_objects])
  then have "wp (NotifyLocal i st) (\<lambda>_. keeps_state i ?w0) w"
    unfolding NotifyLocal_forget keeps_wp by (subst wp_bind) (simp add: wp_app_upd)
  from wp_runD [OF this run] have "keeps_state i ?w0 w'" .
  then show ?thesis by (rule in_state_keep) (simp add: in_state_def)
qed

text \<open>Whatever else fails, memory holds the achieved state afterwards.\<close>

lemma Notify_state: "run_state (Notify i st) w = (e, w') \<Longrightarrow> in_state i st w'"
proof -
  assume run: "run_state (Notify i st) w = (e, w')"
  obtain e1 w1 where local: "run_state (NotifyLocal i st) w = (e1, w1)" by fastforce
  have "in_state i st w1" using local by (rule NotifyLocal_state)
  moreover have "keeps (keeps_state i) (steps [NotifyRemote i st])"
    unfolding NotifyRemote_def by (intro kst.keeps_intros UpdateRemoteAppState_state)
  then have "e1 = None \<Longrightarrow> keeps_state i w1 w'"
    using run local unfolding Notify_def run_steps_Cons [of "NotifyLocal i st"] by (auto dest: keepsD)
  moreover have "e1 \<noteq> None \<Longrightarrow> w' = w1"
    using run local unfolding Notify_def run_steps_Cons [of "NotifyLocal i st"] by auto
  ultimately show ?thesis by (cases "e1 = None") (auto intro: in_state_keep)
qed

lemma run_setState: "run_state (setState i st) w = run_state (Notify i st) w"
  by (auto simp: setState_def run_bind State_Monad.return_def split: prod.split option.split)

lemma setState_ensures: "ensures (setState i st) (in_state i st)"
  unfolding ensures_def run_setState using Notify_state by blast

section \<open>What reaches the tables\<close>

abbreviation same_state_rows :: "world \<Rightarrow> world \<Rightarrow> bool" where
  "same_state_rows w w' \<equiv> wAppStates w' = wAppStates w"

interpretation rws: step_relation same_state_rows
  by unfold_locales simp_all

lemma syncRequestedState_rows: "keeps same_state_rows (syncRequestedState a st)"
  unfolding syncRequestedState_def GetRequestedState_def UpsertRequestedStateChange_def Let_def
  by (intro rws.keeps_intros rws.keeps_modify) simp

definition stored_as :: "App \<Rightarrow> AppState \<Rightarrow> AppStateRow list \<Rightarrow> bool" where
  "stored_as a st rows \<longleftrightarrow> (\<exists>row. find (row_of_app (aAppKey a) (aStage a)) rows = Some row
     \<and> sState row = st \<and> sVersion row = aVersion a \<and> sReleaseKey row = aReleaseKey a)"

lemma find_map_own:
  "(\<And>r. P r \<Longrightarrow> P (f r)) \<Longrightarrow> find P (map (\<lambda>r. if P r then f r else r) rs) = map_option f (find P rs)"
  by (induction rs) auto

lemma find_append_None: "find P xs = None \<Longrightarrow> find P (xs @ ys) = find P ys"
  by (induction xs) (auto split: if_splits)

lemma insertAppState_stored:
  assumes "find (row_of_app (aAppKey (wApps w ! i)) (aStage (wApps w ! i))) (wAppStates w) = None"
  shows "wp (insertAppState i) (\<lambda>r w'. isl r \<or> stored_as (wApps w ! i) (aCurrentState (wApps w ! i)) (wAppStates w')) w"
  using assms
  by (auto simp: insertAppState_def wp_simps stored_as_def find_append_None row_of_app_def state_row_def split: option.split)

lemma upsertLocked_stored:
  assumes "aCurrentState (wApps w ! i) = st"
  shows "wp (upsertLocked i (wApps w ! i) st) (\<lambda>r w'. isl r \<or> stored_as (wApps w ! i) st (wAppStates w')) w"
proof -
  let ?a = "wApps w ! i"
  let ?P = "row_of_app (aAppKey ?a) (aStage ?a)"
  let ?Q = "\<lambda>r w'. isl r \<or> stored_as ?a st (wAppStates w')"
  have sync: "wp (syncRequestedState ?a st) (\<lambda>e w'. e = None \<longrightarrow> stored_as ?a st (wAppStates w')) w1"
    if "stored_as ?a st (wAppStates w1)" for w1
    using that by (auto intro!: wp_runI dest: keepsD [OF syncRequestedState_rows])
  have upd: "stored_as ?a st (map (\<lambda>r. if ?P r then r\<lparr>sState := st, sVersion := aVersion ?a, sReleaseKey := aReleaseKey ?a\<rparr> else r) rows)"
    if "find ?P rows = Some cur" for rows cur
    using that find_map_own [of ?P "\<lambda>r. r\<lparr>sState := st, sVersion := aVersion ?a, sReleaseKey := aReleaseKey ?a\<rparr>" rows]
    by (auto simp: stored_as_def row_of_app_def)
  show ?thesis
  proof (cases "find ?P (wAppStates w)")
    case None
    let ?w1 = "w\<lparr>wTrace := wTrace w @ [Ext ''sqlite'' [''SelectCurrentAppStateByKeyAndStage'']]\<rparr>"
    from None assms insertAppState_stored [of ?w1 i] show ?thesis
      by (auto simp: upsertLocked_def wp_simps split: option.split)
  next
    case (Some cur)
    then show ?thesis
      by (auto simp: upsertLocked_def wp_simps wp_steps_Cons check_failed_def stored_as_def [of _ _ "wAppStates w"]
          simp del: steps.simps split: option.split intro!: sync upd)
  qed
qed

lemma NotifyLocal_stores:
  assumes "run_state (NotifyLocal i st) w = (None, w')" and "i < length (wApps w)" and "st \<noteq> REMOVED"
  shows "in_state i st w' \<and> stored_as (wApps w' ! i) st (wAppStates w')
    \<and> aVersion (wApps w' ! i) = aVersion (wApps w ! i) \<and> aReleaseKey (wApps w' ! i) = aReleaseKey (wApps w ! i)"
proof -
  let ?w0 = "w\<lparr>wApps := (wApps w)[i := (wApps w ! i)\<lparr>aCurrentState := st\<rparr>]\<rparr>"
  have a0: "wApps ?w0 ! i = (wApps w ! i)\<lparr>aCurrentState := st\<rparr>" using assms(2) by simp
  have "wp (upsertLocked i (wApps ?w0 ! i) st) (\<lambda>_ w'. own_rows i (wApps ?w0 ! i) ?w0 w') ?w0"
    using upsertLocked_own [of i "wApps ?w0 ! i" st] unfolding keeps_wp by blast
  moreover have "wp (upsertLocked i (wApps ?w0 ! i) st)
      (\<lambda>r w'. isl r \<or> stored_as (wApps ?w0 ! i) st (wAppStates w')) ?w0"
    using a0 by (intro upsertLocked_stored) simp
  ultimately have up: "wp (upsertLocked i (wApps ?w0 ! i) st)
      (\<lambda>r w'. own_rows i (wApps ?w0 ! i) ?w0 w' \<and> (isl r \<or> stored_as (wApps ?w0 ! i) st (wAppStates w'))) ?w0"
    by (rule wp_conj)
  have "wp (NotifyLocal i st) (\<lambda>e w'. e = None \<longrightarrow> stored_as (wApps ?w0 ! i) st (wAppStates w')
      \<and> aAppKey (wApps w' ! i) = aAppKey (wApps w ! i) \<and> aStage (wApps w' ! i) = aStage (wApps w ! i)
      \<and> aVersion (wApps w' ! i) = aVersion (wApps w ! i) \<and> aReleaseKey (wApps w' ! i) = aReleaseKey (wApps w ! i)) w"
    unfolding NotifyLocal_forget UpdateLocalAppState_def UpsertAppState_def wp_bind wp_app_upd wp_app_at
    by (rule wp_mono [OF up])
      (use assms(2,3) in \<open>auto simp: own_rows_def wp_simps split: sum.splits\<close>)
  from wp_runD [OF this assms(1)] NotifyLocal_state [OF assms(1)] a0 show ?thesis
    by (auto simp: stored_as_def)
qed

text \<open>
  When a state other than \<^verbatim>\<open>REMOVED\<close> was noted locally without an error, the app's row in the
  table of app states carries that state and the app's version and release, and memory agrees.
\<close>

theorem NotifyLocal_persists:
  assumes "run_state (NotifyLocal i st) w = (None, w')" and "i < length (wApps w)" and "st \<noteq> REMOVED"
  shows "in_state i st w' \<and> stored_as (wApps w' ! i) st (wAppStates w')"
  using NotifyLocal_stores [OF assms] by blast

theorem NotifyLocal_persists_witness:
  "let w' = snd (run_state (NotifyLocal 0 PRESENT) (demo_world\<lparr>wApps := [demo_app]\<rparr>)) in
     in_state 0 PRESENT w' \<and> stored_as (wApps w' ! 0) PRESENT (wAppStates w')"
proof -
  have "fst (run_state (NotifyLocal 0 PRESENT) (demo_world\<lparr>wApps := [demo_app]\<rparr>)) = None" by code_simp
  then show ?thesis
    unfolding Let_def by (intro NotifyLocal_persists [of 0 PRESENT "demo_world\<lparr>wApps := [demo_app]\<rparr>"]) (simp_all add: prod_eq_iff)
qed

section \<open>The tables stay well formed\<close>

lemma push_app_db: "keeps keeps_db (push_app a)"
  unfolding push_app_def by (intro db.keeps_intros db.keeps_modify) (simp add: db_inv_def)

lemma GetApp_db: "keeps keeps_db (GetApp k s)"
  unfolding GetApp_def by (intro db.keeps_intros GetAppState_db push_app_db)

lemma AddApp_db: "keeps keeps_db (AddApp p)"
  unfolding AddApp_def by (intro db.keeps_intros push_app_db UpsertAppState_db)

lemma UpdateLocalAppState_db: "keeps keeps_db (UpdateLocalAppState i st)"
  unfolding UpdateLocalAppState_def by (intro db.keeps_intros UpsertAppState_db keeps_db_app_upd)

lemma UpdateRemoteAppState_db: "keeps keeps_db (UpdateRemoteAppState i st)"
  unfolding UpdateRemoteAppState_def by (intro db.keeps_intros keeps_db_app_upd)

lemma NotifyLocal_db: "keeps keeps_db (NotifyLocal i st)"
  unfolding NotifyLocal_def
  by (intro db.keeps_intros keeps_db_app_upd UpdateLocalAppState_db GetRequestedState_db
      DeleteAppState_db DeleteRequestedState_db)

lemma Notify_db: "keeps keeps_db (Notify i st)"
  unfolding Notify_def NotifyRemote_def by (intro db.keeps_intros NotifyLocal_db UpdateRemoteAppState_db)

lemma setState_db: "keeps keeps_db (setState i st)"
  unfolding setState_def by (intro db.keeps_intros Notify_db)

section \<open>Setting a state stores it\<close>

definition stored :: "nat \<Rightarrow> AppState \<Rightarrow> string \<Rightarrow> uint64 \<Rightarrow> world \<Rightarrow> bool" where
  "stored i st v rk w \<longleftrightarrow> stored_as (wApps w ! i) st (wAppStates w) \<and> aVersion (wApps w ! i) = v \<and> aReleaseKey (wApps w ! i) = rk"

lemma UpdateRemoteAppState_run:
  assumes "run_state (UpdateRemoteAppState i st) w = (e, w')" and "i < length (wApps w)"
  shows "wAppStates w' = wAppStates w \<and> aAppKey (wApps w' ! i) = aAppKey (wApps w ! i)
    \<and> aStage (wApps w' ! i) = aStage (wApps w ! i) \<and> aVersion (wApps w' ! i) = aVersion (wApps w ! i)
    \<and> aReleaseKey (wApps w' ! i) = aReleaseKey (wApps w ! i)"
proof -
  have "wp (UpdateRemoteAppState i st) (\<lambda>_ w'. wAppStates w' = wAppStates w \<and> aAppKey (wApps w' ! i) = aAppKey (wApps w ! i)
    \<and> aStage (wApps w' ! i) = aStage (wApps w ! i) \<and> aVersion (wApps w' ! i) = aVersion (wApps w ! i)
    \<and> aReleaseKey (wApps w' ! i) = aReleaseKey (wApps w ! i)) w"
    using assms(2) by (auto simp: UpdateRemoteAppState_def wp_simps split: option.split)
  from wp_runD [OF this assms(1)] show ?thesis .
qed

lemma setState_stores:
  assumes run: "run_state (setState i st) w = (None, w')" and len: "i < length (wApps w)" and "st \<noteq> REMOVED"
  shows "stored i st (aVersion (wApps w ! i)) (aReleaseKey (wApps w ! i)) w'"
proof -
  from run obtain w1 where local: "run_state (NotifyLocal i st) w = (None, w1)"
    and remote: "run_state (UpdateRemoteAppState i st) w1 = (None, w')"
    unfolding run_setState Notify_def NotifyRemote_def run_steps_Cons
    by (auto simp: State_Monad.return_def split: prod.splits option.splits)
  have "length (wApps w1) = length (wApps w)"
    using keepsD [OF NotifyLocal_frame local] by (auto simp: app_frame_def apps_frame_def dest: ident_length)
  with UpdateRemoteAppState_run [OF remote] NotifyLocal_stores [OF local len assms(3)] len show ?thesis
    by (auto simp: stored_def stored_as_def)
qed

end
