(* ===== verification/Compose.thy ===== *)
theory Compose
  imports EnvVars Store
begin

text \<open>
  What the transitions share: calls to Docker, to compose and to the log manager, the compose
  cancel registry of \<^verbatim>\<open>src/apps/state_machine.go\<close>, and \<^verbatim>\<open>SetupComposeFiles\<close>
  (\<^verbatim>\<open>src/apps/build_app.go\<close>), which writes the compose project of an app to disk and reserves its
  host ports.
\<close>

section \<open>Calls\<close>

definition LogWrite :: "string \<Rightarrow> string \<Rightarrow> err prog" where
  "LogWrite topic message = extE ''LogManager.Write'' [topic, message]"

definition ClearLogHistory :: "string \<Rightarrow> err prog" where
  "ClearLogHistory topic = extE ''LogManager.ClearLogHistory'' [topic]"

text \<open>
  \<^verbatim>\<open>err = f(); if err != nil { writeErr := Write(...); if writeErr != nil { return writeErr };
  return err }\<close>: the error is logged first, and a failure to log it wins.
\<close>

definition logged :: "string \<Rightarrow> err prog \<Rightarrow> err prog" where
  "logged topic m = do {
     e \<leftarrow> m;
     case e of
       None \<Rightarrow> ret None
     | Some x \<Rightarrow> do { we \<leftarrow> LogWrite topic (Error x); ret (case we of Some y \<Rightarrow> Some y | None \<Rightarrow> Some x) } }"

text \<open>Docker answers with the id of a container, or an error.\<close>

definition GetContainer :: "string \<Rightarrow> (go_error + string) prog" where
  "GetContainer name = do {
     r \<leftarrow> ext ''Container.GetContainer'' [name];
     ret (case rpErr r of Some e \<Rightarrow> Inl e | None \<Rightarrow> Inr (rpStr r)) }"

definition RemoveContainerByID :: "string \<Rightarrow> err prog" where
  "RemoveContainerByID cid = extE ''Container.RemoveContainerByID'' [cid]"

text \<open>
  \<^verbatim>\<open>err := <-errC\<close> after \<^verbatim>\<open>PollContainerState\<close>: the channel delivers the first error of the poll
  and never nil; a container that stays until the poll's deadline ends it with that error.
\<close>

definition PollContainerState :: "string \<Rightarrow> err prog" where
  "PollContainerState cid = do {
     r \<leftarrow> ext ''Container.PollContainerState'' [cid];
     ret (case rpErr r of
            None \<Rightarrow> Some (Msg ''context deadline exceeded'')
          | Some e \<Rightarrow> if Contains (Error e) ''no such container'' then ContainerNotFound (Some e) else Some e) }"

definition ComposeSupported :: "bool prog" where
  "ComposeSupported = do { r \<leftarrow> ext ''Compose.Supported'' []; ret (rpFlag r) }"

definition notSupported :: "string \<Rightarrow> err prog" where
  "notSupported topic = do {
     we \<leftarrow> LogWrite topic ''Docker Compose is not supported for this device'';
     ret (case we of Some y \<Rightarrow> Some y
          | None \<Rightarrow> DockerComposeNotSupported (Some (Msg ''docker compose is not supported''))) }"

definition teardownComposeProject :: "string \<Rightarrow> err prog" where
  "teardownComposeProject path = steps [extE ''Compose.Stop'' [path], extE ''Compose.Remove'' [path]]"

definition HandleRegistryLoginsWithDefault :: "TransitionPayload \<Rightarrow> err prog" where
  "HandleRegistryLoginsWithDefault payload = do {
     c \<leftarrow> gets wConfig;
     extE ''Container.HandleRegistryLogins''
       (concat (map (\<lambda>(url, user, pw). [url, user, pw])
          (map_put (cDockerRegistryURL c) (pRegisteryToken payload, cSecret c)
             (case pDockerCredentials payload of None \<Rightarrow> [] | Some cs \<Rightarrow> cs)))) }"

section \<open>The compose cancel registry\<close>

definition composeTransitionKey :: "Stage \<Rightarrow> uint64 \<Rightarrow> string" where
  "composeTransitionKey stage appKey = Stage_string stage @ ''_'' @ itoa (unat appKey)"

definition registerComposeTransitionCancel :: "Stage \<Rightarrow> uint64 \<Rightarrow> err prog" where
  "registerComposeTransitionCancel stage appKey =
     ignore (modify (\<lambda>w. w\<lparr>wComposeCancels := List.insert (composeTransitionKey stage appKey) (wComposeCancels w)\<rparr>))"

definition clearComposeTransitionCancel :: "Stage \<Rightarrow> uint64 \<Rightarrow> err prog" where
  "clearComposeTransitionCancel stage appKey =
     ignore (modify (\<lambda>w. w\<lparr>wComposeCancels := removeAll (composeTransitionKey stage appKey) (wComposeCancels w)\<rparr>))"

definition cancelComposeTransition :: "Stage \<Rightarrow> uint64 \<Rightarrow> bool prog" where
  "cancelComposeTransition stage appKey = do {
     cancels \<leftarrow> gets wComposeCancels;
     if composeTransitionKey stage appKey \<in> set cancels
     then do { _ \<leftarrow> ext ''cancel'' [composeTransitionKey stage appKey]; ret True }
     else ret False }"

text \<open>Register, run, and clear on every path: the \<^verbatim>\<open>defer\<close> of the compose transitions.\<close>

definition withComposeCancel :: "Stage \<Rightarrow> uint64 \<Rightarrow> err prog \<Rightarrow> err prog" where
  "withComposeCancel stage appKey body = do {
     _ \<leftarrow> registerComposeTransitionCancel stage appKey;
     e \<leftarrow> body;
     _ \<leftarrow> clearComposeTransitionCancel stage appKey;
     ret e }"

text \<open>Whether the context was canceled is asked when the error is at hand.\<close>

definition composeTransitionErr :: "err prog \<Rightarrow> err prog" where
  "composeTransitionErr m = do {
     e \<leftarrow> m;
     case e of
       None \<Rightarrow> ret None
     | Some x \<Rightarrow> do { r \<leftarrow> ext ''ctx.Err'' []; ret (if rpErr r \<noteq> None then DockerStreamCanceled (Some x) else Some x) } }"

section \<open>The host port registry in a program\<close>

definition probe_now :: "world \<Rightarrow> probe" where
  "probe_now w = (\<lambda>protocol port. rpFlag (wExt w (wTrace w) (Ext ''net.Listen'' [protocol, itoa (unat port)])))"

definition with_registry :: "(probe \<Rightarrow> HostPortRegistry \<Rightarrow> HostPortRegistry \<times> 'a) \<Rightarrow> 'a prog" where
  "with_registry f = do {
     w \<leftarrow> State_Monad.get;
     case f (probe_now w) (wHostPorts w) of (r, a) \<Rightarrow> do { _ \<leftarrow> State_Monad.set (w\<lparr>wHostPorts := r\<rparr>); ret a } }"

definition tunnel_now :: "world \<Rightarrow> string \<Rightarrow> uint64 option" where
  "tunnel_now w tid = (let r = wExt w (wTrace w) (Ext ''TunnelManager.Get'' [tid])
     in if rpFlag r then Some (word_of_int (rpNum r)) else None)"

definition publishedComposeHostPorts :: "TransitionPayload \<Rightarrow> bindings prog" where
  "publishedComposeHostPorts payload = do {
     r \<leftarrow> ext ''Container.GetComposePublishedPorts''
            [BuildComposeContainerName (pStage payload) (pAppKey payload) (pAppName payload)];
     ret (if rpErr r \<noteq> None then [] else rpPorts r) }"

section \<open>Files of an app\<close>

definition appEnvFilesHostDir :: "Config \<Rightarrow> Stage \<Rightarrow> string \<Rightarrow> string" where
  "appEnvFilesHostDir cfg stage appName =
     cAppsDirectory cfg @ ''/'' @ ToLower (Stage_string stage) @ ''/'' @ ToLower appName @ ''/env''"

definition WriteFile :: "string \<Rightarrow> string \<Rightarrow> err prog" where
  "WriteFile path content = extE ''os.WriteFile'' [path, content]"

text \<open>\<^verbatim>\<open>fmt.Errorf("...: %w", err)\<close> around the error of a call.\<close>

definition wrapped :: "string \<Rightarrow> err prog \<Rightarrow> err prog" where
  "wrapped message m = do { e \<leftarrow> m; ret (map_option (Wrap message) e) }"

definition writeEnvironmentVariablesToFiles :: "string \<Rightarrow> string list \<Rightarrow> err prog" where
  "writeEnvironmentVariablesToFiles appSpecificDirectory envVars =
     (let envDir = appSpecificDirectory @ ''/env'' in steps (
        [extE ''os.MkdirAll'' [envDir]]
        @ map (\<lambda>envVar. case Cut (CHR ''='') envVar of (name, value, found) \<Rightarrow>
                 if found then wrapped (''failed to write env var '' @ name @ '' to file'') (WriteFile (envDir @ ''/'' @ name @ ''.txt'') value)
                 else ret None) envVars
        @ [ignore (extE ''os.Remove'' [envDir @ ''/DEVICE_SECRET.txt''])]))"

definition refreshAppCredentialEnvFiles :: "TransitionPayload \<Rightarrow> err prog" where
  "refreshAppCredentialEnvFiles payload = do {
     w \<leftarrow> State_Monad.get;
     let envDir = appEnvFilesHostDir (wConfig w) (pStage payload) (pAppName payload);
     case appCredential (lHmac (wLib w)) (wConfig w) (wAppCredKey w) payload of
       (authID, secret) \<Rightarrow>
         if authID = [] \<or> secret = [] then ret None
         else do {
           e \<leftarrow> extE ''os.MkdirAll'' [envDir];
           if e \<noteq> None then ret None
           else steps [ignore (WriteFile (envDir @ ''/APP_AUTH_ID.txt'') authID),
                       ignore (WriteFile (envDir @ ''/APP_AUTH_SECRET.txt'') secret),
                       ignore (extE ''os.Remove'' [envDir @ ''/DEVICE_SECRET.txt''])] } }"

definition SetAppCredKey :: "string \<Rightarrow> err prog" where
  "SetAppCredKey key = (if key = [] then ret None else ignore (modify (\<lambda>w. w\<lparr>wAppCredKey := key\<rparr>)))"

section \<open>The compose project on disk\<close>

text \<open>Every service gets the env file, the host gateway and the mount of the env files.\<close>

definition equipService :: "string \<Rightarrow> string \<times> json \<Rightarrow> go_error + string \<times> json" where
  "equipService envDir named =
     (case snd named of
        JObj service \<Rightarrow> Inr (fst named, JObj (addComposeEnvFilesMount envDir (addComposeExtraHost
                           (map_put ''env_file'' (JStr ''.env-compose'') service))))
      | _ \<Rightarrow> Inl (Msg ''failed to infer service''))"

fun equipServices :: "string \<Rightarrow> (string \<times> json) list \<Rightarrow> go_error + (string \<times> json) list" where
  "equipServices envDir [] = Inr []"
| "equipServices envDir (s # ss) =
     (case equipService envDir s of
        Inl e \<Rightarrow> Inl e
      | Inr s' \<Rightarrow> (case equipServices envDir ss of Inl e \<Rightarrow> Inl e | Inr ss' \<Rightarrow> Inr (s' # ss')))"

definition prepareCompose :: "string \<Rightarrow> string \<Rightarrow> jmap \<Rightarrow> go_error + (string \<times> json) list" where
  "prepareCompose envDir project source =
     (case source of
        None \<Rightarrow> Inl (Msg ''panic: assignment to entry in nil map'')
      | Some m \<Rightarrow>
          (case map_of m ''services'' of
             Some (JObj services) \<Rightarrow>
               (case equipServices envDir services of
                  Inl e \<Rightarrow> Inl e
                | Inr services' \<Rightarrow> Inr (map_put ''services'' (JObj services') (map_put ''name'' (JStr project) m)))
           | _ \<Rightarrow> Inl (Msg ''failed to infer services'')))"

definition writeComposeFiles :: "TransitionPayload \<Rightarrow> nat \<Rightarrow> string \<Rightarrow> jmap \<Rightarrow> (string \<times> json) list \<Rightarrow> (go_error + string) prog" where
  "writeComposeFiles payload app targetAppDir source compose = do {
     st \<leftarrow> extE ''os.Stat'' [targetAppDir];
     e \<leftarrow> (if st \<noteq> None then extE ''os.MkdirAll'' [targetAppDir] else ret None);
     case e of Some x \<Rightarrow> ret (Inl x) | None \<Rightarrow> do {
     w \<leftarrow> State_Monad.get;
     let a = wApps w ! app;
     case generateDotEnvContents (wLib w) (tunnel_now w) (wConfig w) payload a (wAppCredKey w) (wHostPorts w) source of
       Inl x \<Rightarrow> ret (Inl x)
     | Inr (contents, skipped) \<Rightarrow> do {
         e \<leftarrow> steps [
           (if skipped \<noteq> []
            then ignore (LogWrite (if pStage payload = PROD' then Prod (pContainerName payload) else Dev (pContainerName payload))
                   ''Warning: ignored environment variable(s) with invalid name(s)'')
            else ret None),
           WriteFile (targetAppDir @ ''/.env-compose'') contents,
           wrapped ''failed to write environment variables to files'' (writeEnvironmentVariablesToFiles
             (cAppsDirectory (wConfig w) @ ''/'' @ ToLower (Stage_string (pStage payload)) @ ''/'' @ ToLower (aAppName a))
             (Split LF contents)),
           WriteFile (targetAppDir @ ''/docker-compose.json'') (lMarshal (wLib w) (JObj compose))];
         ret (case e of Some x \<Rightarrow> Inl x | None \<Rightarrow> Inr (targetAppDir @ ''/docker-compose.json'')) }}}"

definition SetupComposeFiles :: "TransitionPayload \<Rightarrow> nat \<Rightarrow> bool \<Rightarrow> (go_error + string) prog" where
  "SetupComposeFiles payload app updatingApp = do {
     config \<leftarrow> gets wConfig;
     a \<leftarrow> app_at app;
     let targetAppDir = (if pStage payload = PROD' then cAppsComposeDir config else cAppsBuildDir config) @ ''/'' @ aAppName a;
     let source = (if pNewDockerCompose payload \<noteq> None \<and> updatingApp then pNewDockerCompose payload else pDockerCompose payload);
     case prepareCompose (appEnvFilesHostDir config (pStage payload) (aAppName a))
            (BuildComposeContainerName (pStage payload) (aAppKey a) (aAppName a)) source of
       Inl e \<Rightarrow> ret (Inl e)
     | Inr compose \<Rightarrow> do {
         published \<leftarrow> publishedComposeHostPorts payload;
         r \<leftarrow> with_registry (\<lambda>probeFree. rewriteComposeHostPorts probeFree (pStage payload) (pAppKey payload) published (pPorts payload) compose);
         case r of
           Inl e \<Rightarrow> ret (Inl e)
         | Inr compose' \<Rightarrow> writeComposeFiles payload app targetAppDir source compose' }}"

section \<open>What every transition keeps\<close>

text \<open>
  An operation on the registry that leads from a registry the agent can have to another one.
\<close>

definition registry_op :: "(probe \<Rightarrow> HostPortRegistry \<Rightarrow> HostPortRegistry \<times> 'a) \<Rightarrow> bool" where
  "registry_op f \<longleftrightarrow> (\<forall>probeFree r. registry_reachable r \<longrightarrow> registry_reachable (fst (f probeFree r)))"

lemma registry_op_rewrite: "registry_op (\<lambda>probeFree. rewriteComposeHostPorts probeFree stage appKey published ports compose)"
  unfolding registry_op_def by (metis prod.collapse rewriteComposeHostPorts_reachable)

lemma registry_op_release: "registry_op (\<lambda>_ r. (ReleaseApp r stage appKey, ()))"
  unfolding registry_op_def by (simp add: registry_reachable.step step_release)

lemma registry_op_bind: "registry_op (\<lambda>probeFree. computePortBindings probeFree newPort stage appKey live rules)"
proof -
  have "registry_reachable (fst (bindRules pf newPort stage appKey l rs r []))" if "registry_reachable r" for pf l rs r
    using that bindRules_reachable by (metis prod.collapse)
  then show ?thesis by (simp add: registry_op_def computePortBindings_def Let_def)
qed

lemma registry_op_reassign:
  "registry_op (\<lambda>probeFree. reassignPortsAfterBindConflict probeFree stage appKey ports e)"
  "registry_op (\<lambda>probeFree. reassignComposePortsAfterBindConflict probeFree stage appKey compose e)"
  unfolding registry_op_def by (simp_all add: reassign_reachable)

lemmas registry_ops = registry_op_rewrite registry_op_release registry_op_bind registry_op_reassign

lemma with_registry_run: "snd (run_state (with_registry f) w) = w\<lparr>wHostPorts := fst (f (probe_now w) (wHostPorts w))\<rparr>"
  by (simp add: with_registry_def run_bind State_Monad.get_def State_Monad.set_def State_Monad.return_def split: prod.split)

text \<open>
  The contract between a relation on worlds and the transition functions working on payload
  \<open>p\<close> for the app at \<open>i\<close>. A relation that notification, the assignments to the app's own fields,
  the registry operations, the compose cancel bracket and the write of the request keep is kept
  by every transition function: that is proved once, below and in the theories that follow.
\<close>

locale transition_relation = step_relation +
  fixes i :: nat and p :: TransitionPayload
  assumes R_setState: "keeps R (setState i st)"
    and R_object: "(\<And>a. ident (f a) = ident a) \<Longrightarrow> keeps R (app_upd i f)"
    and R_registry: "(registry_reachable (wHostPorts w) \<longrightarrow> registry_reachable r) \<Longrightarrow> R w (w\<lparr>wHostPorts := r\<rparr>)"
    and R_bracket: "keeps R m \<Longrightarrow> keeps R (withComposeCancel stage key m)"
    and R_request: "pAppKey p' = pAppKey p \<Longrightarrow> pStage p' = pStage p \<Longrightarrow> keeps R (UpdateLocalRequestedState p')"
begin

lemma calls:
  "keeps R (LogWrite topic msg)" "keeps R (ClearLogHistory topic)" "keeps R (GetContainer name)"
  "keeps R (RemoveContainerByID cid)" "keeps R (PollContainerState cid)" "keeps R ComposeSupported"
  "keeps R (teardownComposeProject path)" "keeps R (HandleRegistryLoginsWithDefault payload)"
  "keeps R (WriteFile path content)" "keeps R (publishedComposeHostPorts payload)"
  unfolding LogWrite_def ClearLogHistory_def GetContainer_def RemoveContainerByID_def PollContainerState_def
    ComposeSupported_def teardownComposeProject_def HandleRegistryLoginsWithDefault_def WriteFile_def publishedComposeHostPorts_def
  by (intro keeps_intros)+

lemma cancelCompose: "keeps R (cancelComposeTransition stage key)"
  unfolding cancelComposeTransition_def by (intro keeps_intros)

lemma wrappers:
  "keeps R m \<Longrightarrow> keeps R (logged topic m)"
  "keeps R m \<Longrightarrow> keeps R (wrapped message m)"
  "keeps R m \<Longrightarrow> keeps R (composeTransitionErr m)"
  "keeps R (notSupported topic)"
  unfolding logged_def wrapped_def composeTransitionErr_def notSupported_def
  by (intro keeps_intros calls | assumption)+

lemma envFiles: "keeps R (writeEnvironmentVariablesToFiles dir vars)"
  unfolding writeEnvironmentVariablesToFiles_def Let_def
  by (intro keeps_steps, auto simp: split_beta intro!: keeps_intros wrappers calls)

lemma registry: "registry_op g \<Longrightarrow> keeps R (with_registry g)"
  by (simp add: keeps_def with_registry_run registry_op_def R_registry)

lemma setupCompose: "keeps R (SetupComposeFiles payload app updating)"
  unfolding SetupComposeFiles_def writeComposeFiles_def
  by (intro keeps_intros calls wrappers envFiles registry registry_ops)

lemmas transition_intros = keeps_intros calls cancelCompose wrappers envFiles setupCompose R_setState registry registry_ops R_bracket

end

subsection \<open>The relations\<close>

text \<open>The payload is one for the app behind the pointer.\<close>

definition payload_of :: "nat \<Rightarrow> TransitionPayload \<Rightarrow> world \<Rightarrow> bool" where
  "payload_of i p w \<longleftrightarrow> (i < length (wApps w) \<longrightarrow> aAppKey (wApps w ! i) = pAppKey p \<and> aStage (wApps w ! i) = pStage p)"

definition owned_frame :: "nat \<Rightarrow> TransitionPayload \<Rightarrow> world \<Rightarrow> world \<Rightarrow> bool" where
  "owned_frame i p w w' \<longleftrightarrow> (payload_of i p w \<longrightarrow> app_frame i w w')"

lemma payload_of_frame: "app_frame i w w' \<Longrightarrow> payload_of i p w \<Longrightarrow> payload_of i p w'"
proof -
  assume "app_frame i w w'" and p: "payload_of i p w"
  then have eq: "map ident (wApps w') = map ident (wApps w)" by (simp add: app_frame_def apps_frame_def)
  show ?thesis using p ident_nth(1,2) [OF eq, of i] ident_length [OF eq] by (simp add: payload_of_def)
qed

lemma keeps_mono: "keeps R m \<Longrightarrow> (\<And>w w'. R w w' \<Longrightarrow> S w w') \<Longrightarrow> keeps S m"
  by (auto simp: keeps_def)

lemma withComposeCancel_run:
  "snd (run_state (withComposeCancel s k m) w) =
     (let w2 = snd (run_state m (w\<lparr>wComposeCancels := List.insert (composeTransitionKey s k) (wComposeCancels w)\<rparr>))
      in w2\<lparr>wComposeCancels := removeAll (composeTransitionKey s k) (wComposeCancels w2)\<rparr>)"
  by (simp add: withComposeCancel_def registerComposeTransitionCancel_def clearComposeTransitionCancel_def ignore_def
      modify_def run_bind State_Monad.get_def State_Monad.set_def State_Monad.return_def split: prod.split)

text \<open>A relation that does not look at the cancel registry survives the bracket.\<close>

lemma bracket_ignoring:
  assumes "\<And>w c. R w (w\<lparr>wComposeCancels := c\<rparr>)" and "\<And>u v w. R u v \<Longrightarrow> R v w \<Longrightarrow> R u w" and "keeps R m"
  shows "keeps R (withComposeCancel s k m)"
  unfolding keeps_def withComposeCancel_run Let_def using assms by (metis keeps_def)

interpretation owned: transition_relation "owned_frame i p" i p for i p
proof unfold_locales
  show "owned_frame i p w w" and "owned_frame i p w (w\<lparr>wTrace := wTrace w @ t\<rparr>)" for w t
    by (simp_all add: owned_frame_def frm.R_refl frm.R_trace)
  show trans: "owned_frame i p u w" if "owned_frame i p u v" and "owned_frame i p v w" for u v w
    using that unfolding owned_frame_def by (blast intro: frm.R_trans payload_of_frame)
  show "keeps (owned_frame i p) (setState i st)" for st
    by (rule keeps_mono [OF setState_frame]) (simp add: owned_frame_def)
  show "keeps (owned_frame i p) (app_upd i f)" if "\<And>a. ident (f a) = ident a" for f
    by (rule keeps_mono [OF app_upd_frame [OF that]]) (simp add: owned_frame_def)
  have other: "app_frame i w (w\<lparr>wHostPorts := r\<rparr>)" "app_frame i w (w\<lparr>wComposeCancels := c\<rparr>)" for w r c
    by (simp_all add: app_frame_def env_frame_def apps_frame_def rows_frame_def other_rows_def)
  show "owned_frame i p w (w\<lparr>wHostPorts := r\<rparr>)" for w r
    by (simp add: owned_frame_def other)
  show "keeps (owned_frame i p) (withComposeCancel stage key m)" if "keeps (owned_frame i p) m" for stage key m
    using trans that by (intro bracket_ignoring) (simp_all add: owned_frame_def other)
  show "keeps (owned_frame i p) (UpdateLocalRequestedState p')" if "pAppKey p' = pAppKey p" "pStage p' = pStage p" for p'
    using that app_frame_others [OF UpsertRequestedStateChange_objects UpsertRequestedStateChange_others, of i _ p']
    by (simp add: keeps_def owned_frame_def payload_of_def UpdateLocalRequestedState_def)
qed

interpretation tables: transition_relation keeps_db i p for i p
proof unfold_locales
  show "keeps keeps_db (setState i st)" for st by (rule setState_db)
  show "keeps keeps_db (app_upd i f)" for f by (rule keeps_db_app_upd)
  have other: "keeps_db w (w\<lparr>wHostPorts := r\<rparr>)" "keeps_db w (w\<lparr>wComposeCancels := c\<rparr>)" for w r c
    by (simp_all add: db_inv_def)
  show "keeps_db w (w\<lparr>wHostPorts := r\<rparr>)" for w r by (rule other)
  show "keeps keeps_db (withComposeCancel stage key m)" if "keeps keeps_db m" for stage key m
    using that other by (intro bracket_ignoring) simp_all
  show "keeps keeps_db (UpdateLocalRequestedState p')" for p'
    unfolding UpdateLocalRequestedState_def by (rule UpsertRequestedStateChange_db)
qed

text \<open>The registry stays one the agent can have.\<close>

abbreviation keeps_ports :: "world \<Rightarrow> world \<Rightarrow> bool" where
  "keeps_ports w w' \<equiv> registry_reachable (wHostPorts w) \<longrightarrow> registry_reachable (wHostPorts w')"

text \<open>No cancel function stays registered.\<close>

abbreviation fewer_cancels :: "world \<Rightarrow> world \<Rightarrow> bool" where
  "fewer_cancels w w' \<equiv> set (wComposeCancels w') \<subseteq> set (wComposeCancels w)"

abbreviation same_registries :: "world \<Rightarrow> world \<Rightarrow> bool" where
  "same_registries w w' \<equiv> wHostPorts w' = wHostPorts w \<and> wComposeCancels w' = wComposeCancels w"

interpretation regs: step_relation same_registries
  by unfold_locales simp_all

lemma setState_registries: "keeps same_registries (setState i st)"
proof -
  have "keeps same_registries (app_upd i f)" for f by (rule regs.keeps_app_upd) simp
  then show ?thesis
    unfolding setState_def Notify_def NotifyLocal_def NotifyRemote_def UpdateLocalAppState_def UpdateRemoteAppState_def
      UpsertAppState_def upsertLocked_def insertAppState_def syncRequestedState_def GetRequestedState_def
      UpsertRequestedStateChange_def DeleteAppState_def DeleteRequestedState_def Let_def
    by (intro regs.keeps_intros regs.keeps_modify) simp_all
qed

lemma UpdateLocalRequestedState_registries: "keeps same_registries (UpdateLocalRequestedState p)"
  unfolding UpdateLocalRequestedState_def UpsertRequestedStateChange_def Let_def
  by (intro regs.keeps_intros regs.keeps_modify) simp

interpretation ports: transition_relation keeps_ports i p for i p
proof unfold_locales
  show "keeps keeps_ports (setState i st)" for st by (rule keeps_mono [OF setState_registries]) simp
  show "keeps keeps_ports (app_upd i f)" for f by (rule keeps_mono [OF regs.keeps_app_upd]) simp_all
  show "keeps keeps_ports (withComposeCancel stage key m)" if "keeps keeps_ports m" for stage key m
    using that by (intro bracket_ignoring) simp_all
  show "keeps keeps_ports (UpdateLocalRequestedState p')" for p'
    by (rule keeps_mono [OF UpdateLocalRequestedState_registries]) simp
qed simp_all

interpretation cancels: transition_relation fewer_cancels i p for i p
proof unfold_locales
  show "keeps fewer_cancels (setState i st)" for st by (rule keeps_mono [OF setState_registries]) simp
  show "keeps fewer_cancels (app_upd i f)" for f by (rule keeps_mono [OF regs.keeps_app_upd]) simp_all
  show "keeps fewer_cancels (withComposeCancel stage key m)" if "keeps fewer_cancels m" for stage key m
    using that unfolding keeps_def withComposeCancel_run Let_def by fastforce
  show "keeps fewer_cancels (UpdateLocalRequestedState p')" for p'
    by (rule keeps_mono [OF UpdateLocalRequestedState_registries]) simp
qed (simp_all add: subset_trans)

end
