(* ===== verification/Transitions.thy ===== *)
theory Transitions
  imports Compose
begin

text \<open>
  The transition functions of \<^verbatim>\<open>src/apps\<close> that stop, remove, uninstall, download and cancel. Each
  is the whole Go function: every call in its order, every early return.
\<close>

section \<open>Stopping (\<^verbatim>\<open>stop_app.go\<close>)\<close>

text \<open>The container that was not found has the empty id, which the code goes on with.\<close>

definition stopContainer :: "string \<Rightarrow> string \<Rightarrow> err prog" where
  "stopContainer during cid = steps [
     (do { e \<leftarrow> extE ''Container.StopContainerByID'' [cid];
           ret (map_option (Wrap (''failed to stop container by ID during '' @ during)) e) }),
     extE ''Container.WaitForContainerByID'' [cid, ''not-running''],
     RemoveContainerByID cid]"

text \<open>What follows the removal: wait until the container is gone, then note \<^verbatim>\<open>PRESENT\<close>.\<close>

definition finishStop :: "string \<Rightarrow> TransitionPayload \<Rightarrow> nat \<Rightarrow> string \<Rightarrow> err prog" where
  "finishStop topic payload app cid = do {
     e \<leftarrow> PollContainerState cid;
     if \<not> IsContainerNotFound e then ret e
     else steps [setState app PRESENT, LogWrite topic (''Successfully stopped '' @ pAppName payload)] }"

definition stopProdComposeApp :: "TransitionPayload \<Rightarrow> nat \<Rightarrow> err prog" where
  "stopProdComposeApp payload app = do {
     r \<leftarrow> SetupComposeFiles payload app False;
     case r of
       Inl e \<Rightarrow> ret (Some e)
     | Inr path \<Rightarrow> steps [
         LogWrite (Prod (pContainerName payload)) (''Received stop signal for '' @ pAppName payload),
         setState app STOPPING,
         teardownComposeProject path,
         setState app PRESENT,
         LogWrite (Prod (pContainerName payload)) (''Successfully stopped '' @ pAppName payload)] }"

definition stopDevComposeApp :: "TransitionPayload \<Rightarrow> nat \<Rightarrow> err prog" where
  "stopDevComposeApp payload app = do {
     r \<leftarrow> SetupComposeFiles payload app False;
     case r of
       Inl e \<Rightarrow> ret (Some e)
     | Inr path \<Rightarrow> steps [
         LogWrite (Dev (pContainerName payload)) (''Received stop signal for '' @ pAppName payload),
         setState app STOPPING,
         teardownComposeProject path,
         setState app PRESENT,
         LogWrite (Dev (pContainerName payload)) (''Successfully stopped '' @ pAppName payload)] }"

definition stopProdApp :: "TransitionPayload \<Rightarrow> nat \<Rightarrow> err prog" where
  "stopProdApp payload app =
     (if pDockerCompose payload \<noteq> None then stopProdComposeApp payload app
      else steps [
        setState app STOPPING,
        do {
          r \<leftarrow> GetContainer (Prod (pContainerName payload));
          let cid = (case r of Inl _ \<Rightarrow> [] | Inr i \<Rightarrow> i);
          let e = (case r of Inl x \<Rightarrow> Some x | Inr _ \<Rightarrow> None);
          if e \<noteq> None \<and> \<not> IsContainerNotFound e then ret (map_option (Wrap ''failed to getContainer during stopDevApp'') e)
          else steps [
            LogWrite (Prod (pContainerName payload)) (''Received stop signal for '' @ pAppName payload),
            setState app STOPPING,
            stopContainer ''stopProdApp'' cid,
            finishStop (Prod (pContainerName payload)) payload app cid] }])"

definition stopDevApp :: "TransitionPayload \<Rightarrow> nat \<Rightarrow> err prog" where
  "stopDevApp payload app =
     (if pDockerCompose payload \<noteq> None then stopDevComposeApp payload app
      else do {
        r \<leftarrow> GetContainer (Dev (pContainerName payload));
        let cid = (case r of Inl _ \<Rightarrow> [] | Inr i \<Rightarrow> i);
        let e = (case r of Inl x \<Rightarrow> Some x | Inr _ \<Rightarrow> None);
        if e \<noteq> None \<and> \<not> IsContainerNotFound e then ret (map_option (Wrap ''failed to getContainer during stopDevApp'') e)
        else steps [
          LogWrite (Dev (pContainerName payload)) (''Received stop signal for '' @ pAppName payload),
          setState app STOPPING,
          stopContainer ''stopDevApp'' cid,
          finishStop (Dev (pContainerName payload)) payload app cid] })"

definition stopApp :: "TransitionPayload \<Rightarrow> nat \<Rightarrow> err prog" where
  "stopApp payload app =
     (if pStage payload = DEV then stopDevApp payload app
      else if pStage payload = PROD' then stopProdApp payload app
      else ret None)"

section \<open>Removing (\<^verbatim>\<open>remove_app.go\<close>)\<close>

definition removeContainerIfAny :: "string \<Rightarrow> err prog" where
  "removeContainerIfAny name = do {
     r \<leftarrow> GetContainer name;
     case r of
       Inl e \<Rightarrow> ret (if IsContainerNotFound (Some e) then None else Some e)
     | Inr cid \<Rightarrow> do {
         e \<leftarrow> RemoveContainerByID cid;
         if e \<noteq> None \<and> \<not> IsContainerNotFound e then ret e
         else do {
           e \<leftarrow> extE ''Container.WaitForContainerByID'' [cid, ''removed''];
           ret (if IsContainerNotFound e then None else e) }}}"

definition removeSingleApp :: "string \<Rightarrow> string \<Rightarrow> TransitionPayload \<Rightarrow> nat \<Rightarrow> err prog" where
  "removeSingleApp topic img payload app = steps [
     ClearLogHistory topic,
     LogWrite topic (''Starting removal process for '' @ pAppName payload @ ''...''),
     setState app DELETING,
     removeContainerIfAny topic,
     extE ''Container.RemoveImagesByName'' [img],
     setState app REMOVED,
     LogWrite topic (''Successfully removed '' @ pAppName payload @ ''!'')]"

definition removeDevApp :: "TransitionPayload \<Rightarrow> nat \<Rightarrow> err prog" where
  "removeDevApp payload app = removeSingleApp (Dev (pContainerName payload)) (Dev (pRegistryImageName payload)) payload app"

definition removeProdApp :: "TransitionPayload \<Rightarrow> nat \<Rightarrow> err prog" where
  "removeProdApp payload app = removeSingleApp (Prod (pContainerName payload)) (Prod (pRegistryImageName payload)) payload app"

definition removeComposeApp :: "TransitionPayload \<Rightarrow> nat \<Rightarrow> err prog" where
  "removeComposeApp payload app =
     (let containerName = (if pStage payload = PROD' then Prod (pContainerName payload) else Dev (pContainerName payload));
          success = [setState app REMOVED, LogWrite containerName (''Successfully removed '' @ pAppName payload @ ''!'')]
      in steps [
        ClearLogHistory containerName,
        LogWrite containerName (''Starting removal process for '' @ pAppName payload @ ''...''),
        setState app DELETING,
        do {
          r \<leftarrow> SetupComposeFiles payload app False;
          case r of
            Inl e \<Rightarrow> ret (Some e)
          | Inr path \<Rightarrow> do {
              supported \<leftarrow> ComposeSupported;
              if \<not> supported then steps success
              else steps [
                extE ''Compose.Down'' [path],
                extE ''Compose.Remove'' [path],
                do {
                  images \<leftarrow> ext ''Compose.ListImages'' [];
                  case rpErr images of
                    Some e \<Rightarrow> ret (Some e)
                  | None \<Rightarrow> steps (map (\<lambda>img. extE ''Container.RemoveImage'' [fst img]) (rpStrs images) @ success) }] }}])"

definition removeApp :: "TransitionPayload \<Rightarrow> nat \<Rightarrow> err prog" where
  "removeApp payload app =
     (if pDockerCompose payload \<noteq> None then removeComposeApp payload app
      else do {
        a \<leftarrow> app_at app;
        if aStage a = PROD' then removeProdApp payload app
        else if aStage a = DEV then removeDevApp payload app
        else ret None })"

section \<open>Uninstalling (\<^verbatim>\<open>uninstall_app.go\<close>)\<close>

text \<open>
  The last \<^verbatim>\<open>return err\<close> gives the error of the last \<^verbatim>\<open>os.RemoveAll\<close> that was assigned to the outer
  variable: of the build archive for a developer app without compose, of the data directory
  otherwise.
\<close>

definition removeAppFiles :: "TransitionPayload \<Rightarrow> err prog" where
  "removeAppFiles payload = do {
     config \<leftarrow> gets wConfig;
     dataErr \<leftarrow> extE ''os.RemoveAll'' [cAppsDirectory config @ ''/'' @ ToLower (Stage_string (pStage payload)) @ ''/'' @ ToLower (pAppName payload)];
     zipErr \<leftarrow> (if pStage payload = DEV \<and> pDockerCompose payload = None
                then extE ''os.RemoveAll'' [cAppsBuildDir config @ ''/'' @ pAppName payload @ ''.'' @ cCompressedBuildExtension config]
                else ret dataErr);
     if pDockerCompose payload \<noteq> None then do {
       let appDir = (if pStage payload = DEV then cAppsBuildDir config else cAppsComposeDir config) @ ''/'' @ pAppName payload;
       st \<leftarrow> extE ''os.Stat'' [appDir];
       e \<leftarrow> (if st = None then extE ''os.RemoveAll'' [appDir] else ret None);
       ret (if e \<noteq> None then e else zipErr) }
     else ret zipErr }"

definition uninstallApp :: "TransitionPayload \<Rightarrow> nat \<Rightarrow> err prog" where
  "uninstallApp payload app = steps [
     removeApp payload app,
     setState app UNINSTALLED,
     ignore (with_registry (\<lambda>_ r. (ReleaseApp r (pStage payload) (pAppKey payload), ()))),
     removeAppFiles payload]"

section \<open>Downloading (\<^verbatim>\<open>pull_app.go\<close>)\<close>

definition pullComposeImages :: "string \<Rightarrow> TransitionPayload \<Rightarrow> string list \<Rightarrow> err prog" where
  "pullComposeImages path payload services = steps [
     composeTransitionErr (extE ''Compose.PullContext'' (path # services)),
     composeTransitionErr (extE ''LogManager.StreamLogsChannel'' [Prod (pContainerName payload)]),
     composeTransitionErr (extE ''pullCmd.Wait'' [])]"

definition pullComposeApp :: "TransitionPayload \<Rightarrow> nat \<Rightarrow> err prog" where
  "pullComposeApp payload app =
     (let topic = Prod (pContainerName payload) in steps [
        ClearLogHistory topic,
        withComposeCancel (pStage payload) (pAppKey payload) (steps [
          setState app DOWNLOADING,
          do {
            r \<leftarrow> SetupComposeFiles payload app False;
            case r of
              Inl e \<Rightarrow> ret (Some e)
            | Inr path \<Rightarrow> do {
                supported \<leftarrow> ComposeSupported;
                if \<not> supported then notSupported topic
                else steps [
                  teardownComposeProject path,
                  logged topic (HandleRegistryLoginsWithDefault payload),
                  pullComposeImages path payload [],
                  LogWrite topic ''Compose Image Installed successfully'',
                  setState app PRESENT] }}])])"

text \<open>A stream that was canceled is reported to the log; either way its error is returned.\<close>

definition streamed :: "string \<Rightarrow> string \<Rightarrow> string \<Rightarrow> err prog" where
  "streamed topic kind canceledMessage = do {
     e \<leftarrow> extE ''LogManager.StreamBlocking'' [topic, kind];
     if IsDockerStreamCanceled e
     then do { we \<leftarrow> LogWrite topic canceledMessage; ret (if we \<noteq> None then we else e) }
     else ret e }"

definition pullImage :: "TransitionPayload \<Rightarrow> err prog" where
  "pullImage payload = do {
     c \<leftarrow> gets wConfig;
     e \<leftarrow> extE ''Container.Pull'' [Prod (pRegistryImageName payload) @ '':'' @ pNewestVersion payload,
            BuildDockerPullID (pAppKey payload) (pAppName payload), pRegisteryToken payload, cSecret c];
     case e of
       None \<Rightarrow> ret None
     | Some x \<Rightarrow> do {
         _ \<leftarrow> LogWrite (Prod (pContainerName payload)) (''Error occured while trying to pull the image: '' @ Error x);
         ret (Some x) } }"

definition pullApp :: "TransitionPayload \<Rightarrow> nat \<Rightarrow> err prog" where
  "pullApp payload app =
     (if pDockerCompose payload \<noteq> None then pullComposeApp payload app
      else if pStage payload = DEV then ret (Some (Msg ''cannot pull dev apps''))
      else let topic = Prod (pContainerName payload) in steps [
        extE ''LogManager.ClearRemote'' [topic],
        LogWrite topic (''Initialising download for the app: '' @ pAppName payload @ ''...''),
        ClearLogHistory topic,
        logged topic (HandleRegistryLoginsWithDefault payload),
        pullImage payload,
        setState app DOWNLOADING,
        streamed topic ''PULL'' ''The app download was canceled'',
        LogWrite topic (''Succesfully installed the app: '' @ pAppName payload @ '' (Version: '' @ pNewestVersion payload @ '')''),
        setState app PRESENT])"

definition noActionTransitionFunc :: "TransitionPayload \<Rightarrow> nat \<Rightarrow> err prog" where
  "noActionTransitionFunc payload app = ret NoActionTransition"

definition removedToPresent :: "TransitionPayload \<Rightarrow> nat \<Rightarrow> err prog" where
  "removedToPresent payload app =
     (if pStage payload = DEV then noActionTransitionFunc payload app else pullApp payload app)"

section \<open>What they keep\<close>

context transition_relation
begin

lemma finishing:
  "keeps R (stopContainer during cid)" "keeps R (finishStop topic payload i cid)"
  "keeps R (removeContainerIfAny name)" "keeps R (removeAppFiles payload)" "keeps R (pullImage payload)"
  "keeps R (streamed topic kind msg)" "keeps R (pullComposeImages path payload services)"
  unfolding stopContainer_def finishStop_def removeContainerIfAny_def removeAppFiles_def pullImage_def streamed_def pullComposeImages_def
  by (intro transition_intros)+

lemma stopApp_keeps: "keeps R (stopProdApp payload i)" "keeps R (stopDevApp payload i)" "keeps R (stopApp payload i)"
  unfolding stopApp_def stopProdApp_def stopDevApp_def stopProdComposeApp_def stopDevComposeApp_def
  by (intro transition_intros finishing)+

lemma removeSingleApp_keeps: "keeps R (removeSingleApp topic img payload i)"
  unfolding removeSingleApp_def by (intro transition_intros finishing)

lemma removeComposeApp_keeps: "keeps R (removeComposeApp payload i)"
proof -
  have removal: "keeps R (steps (map f xs @ [setState i st, LogWrite topic msg]))"
    if "\<And>x. keeps R (f x)" for f :: "string \<times> string list \<Rightarrow> err prog" and xs st topic msg
    using that R_setState calls by (intro keeps_steps) auto
  then show ?thesis
    unfolding removeComposeApp_def Let_def by (intro transition_intros removal)
qed

lemma removeApp_keeps: "keeps R (removeDevApp payload i)" "keeps R (removeApp payload i)"
  unfolding removeApp_def removeProdApp_def removeDevApp_def
  by (intro transition_intros removeSingleApp_keeps removeComposeApp_keeps)+

lemma uninstallApp_keeps: "keeps R (uninstallApp payload i)"
  unfolding uninstallApp_def by (intro transition_intros removeApp_keeps finishing)

lemma pullApp_keeps: "keeps R (pullApp payload i)"
  unfolding pullApp_def pullComposeApp_def by (intro transition_intros finishing)

lemma removedToPresent_keeps: "keeps R (removedToPresent payload i)"
  unfolding removedToPresent_def noActionTransitionFunc_def by (intro transition_intros pullApp_keeps)

end

section \<open>What they achieve\<close>

lemma calls_state: "keeps (keeps_state i) (LogWrite topic msg)" "keeps (keeps_state i) (ClearLogHistory topic)"
  unfolding LogWrite_def ClearLogHistory_def by (intro kst.keeps_intros)+

text \<open>The state is set, then only things that keep it follow.\<close>

lemma ensures_setState_then:
  "keeps (keeps_state i) (steps ms) \<Longrightarrow> ensures (steps (setState i st # ms)) (in_state i st)"
  by (erule ensures_steps_keep [OF setState_ensures]) (rule in_state_keep)

lemmas then_state = ensures_setState_then kst.keeps_intros calls_state

lemma ensures_sum: "(\<And>x. ensures (f x) Q) \<Longrightarrow> (\<And>x. ensures (g x) Q) \<Longrightarrow> ensures (case e of Inl x \<Rightarrow> f x | Inr x \<Rightarrow> g x) Q"
  by (cases e) simp_all

lemma ensures_let: "(\<And>x. ensures (f x) Q) \<Longrightarrow> ensures (let x = e in f x) Q"
  by simp

lemma ensures_option: "ensures m Q \<Longrightarrow> (\<And>x. ensures (f x) Q) \<Longrightarrow> ensures (case e of None \<Rightarrow> m | Some x \<Rightarrow> f x) Q"
  by (cases e) simp_all

lemma ensures_ret: "e \<noteq> None \<Longrightarrow> ensures (ret e) Q"
  by (auto simp: ensures_def State_Monad.return_def)

lemma ensures_bracket: "ensures m (in_state i st) \<Longrightarrow> ensures (withComposeCancel s k m) (in_state i st)"
  by (auto simp: ensures_def withComposeCancel_def registerComposeTransitionCancel_def clearComposeTransitionCancel_def
      ignore_def modify_def in_state_def run_bind State_Monad.get_def State_Monad.set_def State_Monad.return_def split: prod.splits)

lemma ensures_notSupported: "ensures (notSupported topic) Q"
  unfolding notSupported_def by (intro ensures_bind ensures_ret) (simp add: DockerComposeNotSupported_def split: option.split)

text \<open>A program that only ever ends in nil after the state was set.\<close>

lemma ensures_append: "ensures (steps ms) Q \<Longrightarrow> ensures (steps (xs @ ms)) Q"
  by (induction xs) (simp_all only: append.simps ensures_steps_Cons)

lemmas ensures_intros = ensures_let ensures_if ensures_bind ensures_sum ensures_option ensures_Some ensures_notSupported

lemma finishStop_present: "ensures (finishStop topic payload i cid) (in_state i PRESENT)"
proof -
  have poll: "ensures (State_Monad.bind (PollContainerState cid) f) Q" if "\<And>x. ensures (f (Some x)) Q" for f Q
    using that unfolding ensures_def PollContainerState_def ContainerNotFound_def run_bind State_Monad.return_def
    by (auto split: prod.splits option.splits if_splits)
  show ?thesis
    unfolding finishStop_def by (intro poll ensures_if ensures_Some then_state)
qed

lemmas final_state = ensures_intros ensures_append ensures_steps_Cons ensures_steps_last ensures_setState_then setState_ensures
  kst.keeps_intros calls_state

lemma stopCompose_present:
  "ensures (stopProdComposeApp payload i) (in_state i PRESENT)"
  "ensures (stopDevComposeApp payload i) (in_state i PRESENT)"
  unfolding stopProdComposeApp_def stopDevComposeApp_def by (fast intro: final_state)+

lemma stopApp_present: "deployed (pStage payload) \<Longrightarrow> ensures (stopApp payload i) (in_state i PRESENT)"
proof -
  have failed: "ensures (ret (map_option f e)) Q" if "e \<noteq> None \<and> \<not> b" for f :: "go_error \<Rightarrow> go_error" and e b Q
    using that by (intro ensures_ret) simp
  have "ensures (stopDevApp payload i) (in_state i PRESENT)" "ensures (stopProdApp payload i) (in_state i PRESENT)"
    unfolding stopDevApp_def stopProdApp_def
    by (fast intro: final_state failed finishStop_present stopCompose_present)+
  then show "deployed (pStage payload) \<Longrightarrow> ensures (stopApp payload i) (in_state i PRESENT)"
    by (auto simp: stopApp_def deployed_def)
qed

lemma removeSingleApp_removed: "ensures (removeSingleApp topic img payload i) (in_state i REMOVED)"
  unfolding removeSingleApp_def by (fast intro: final_state)

lemma removeComposeApp_removed: "ensures (removeComposeApp payload i) (in_state i REMOVED)"
  unfolding removeComposeApp_def Let_def by (fast intro: final_state)

text \<open>\<^verbatim>\<open>removeApp\<close> looks at the stage of the app, not of the payload.\<close>

definition in_stage :: "nat \<Rightarrow> world \<Rightarrow> bool" where
  "in_stage i w \<longleftrightarrow> deployed (aStage (wApps w ! i))"

lemma removeApp_removed:
  assumes "run_state (removeApp payload i) w = (None, w')" and "in_stage i w"
  shows "in_state i REMOVED w'"
  using assms removeSingleApp_removed removeComposeApp_removed
  by (auto simp: removeApp_def removeProdApp_def removeDevApp_def in_stage_def deployed_def app_at_def gets_def
      run_bind State_Monad.get_def State_Monad.return_def ensures_def split: if_splits)

lemma with_registry_state: "keeps (keeps_state i) (with_registry g)"
  by (simp add: keeps_def with_registry_run keeps_state_def)

lemma removeAppFiles_state: "keeps (keeps_state i) (removeAppFiles payload)"
  unfolding removeAppFiles_def by (intro kst.keeps_intros)

lemma uninstallApp_uninstalled: "ensures (uninstallApp payload i) (in_state i UNINSTALLED)"
  unfolding uninstallApp_def by (fast intro: final_state with_registry_state removeAppFiles_state)

lemma pullApp_present: "ensures (pullApp payload i) (in_state i PRESENT)"
  unfolding pullApp_def pullComposeApp_def by (fast intro: final_state ensures_bracket)

lemma removedToPresent_present: "ensures (removedToPresent payload i) (in_state i PRESENT)"
  unfolding removedToPresent_def noActionTransitionFunc_def NoActionTransition_def
  by (fast intro: final_state pullApp_present)

end
