(* ===== verification/Releases.thy ===== *)
theory Releases
  imports Transitions
begin

text \<open>
  The transitions that cancel, update, build and publish an app: \<^verbatim>\<open>cancel_transitions.go\<close>,
  \<^verbatim>\<open>update_app.go\<close>, \<^verbatim>\<open>build_app.go\<close>, \<^verbatim>\<open>publish_app.go\<close> and \<^verbatim>\<open>stop_and_publish_app.go\<close>.
\<close>

section \<open>Canceling (\<^verbatim>\<open>cancel_transitions.go\<close>)\<close>

definition CancelStream :: "string \<Rightarrow> err prog" where
  "CancelStream streamID = ignore (ext ''Container.CancelStream'' [streamID])"

definition cancelBuild :: "TransitionPayload \<Rightarrow> nat \<Rightarrow> err prog" where
  "cancelBuild payload app =
     (if pStage payload = PROD' then ret (Some (Msg ''cannot build prod apps''))
      else do {
        a \<leftarrow> app_at app;
        let buildID = BuildDockerBuildID (aAppKey a) (aAppName a);
        if pDockerCompose payload \<noteq> None
        then steps [ignore (ext ''Compose.CancelBuild'' [buildID]), setState app REMOVED]
        else steps [CancelStream buildID, setState app REMOVED] })"

definition cancelPull :: "TransitionPayload \<Rightarrow> nat \<Rightarrow> err prog" where
  "cancelPull payload app =
     (if pStage payload \<noteq> PROD' then ret (Some (Msg ''cannot pull dev apps''))
      else if pDockerCompose payload \<noteq> None then steps [
        ignore (cancelComposeTransition (pStage payload) (pAppKey payload)),
        (if pRequestedState payload = UNINSTALLED then uninstallApp payload app else removeApp payload app)]
      else steps [CancelStream (BuildDockerPullID (pAppKey payload) (pAppName payload)), setState app REMOVED])"

definition cancelPush :: "TransitionPayload \<Rightarrow> nat \<Rightarrow> err prog" where
  "cancelPush payload app =
     steps [CancelStream (BuildDockerPushID (pAppKey payload) (pAppName payload)), setState app REMOVED]"

definition cancelActiveUpdate :: "TransitionPayload \<Rightarrow> err prog" where
  "cancelActiveUpdate payload =
     (if pDockerCompose payload \<noteq> None then ignore (cancelComposeTransition (pStage payload) (pAppKey payload))
      else CancelStream (BuildDockerPullID (pAppKey payload) (pAppName payload)))"

definition markUpdateCanceled :: "nat \<Rightarrow> err prog" where
  "markUpdateCanceled app = ignore (app_upd app (\<lambda>a. a\<lparr>aUpdateStatus := CANCELED\<rparr>))"

definition cancelUpdate :: "TransitionPayload \<Rightarrow> nat \<Rightarrow> err prog" where
  "cancelUpdate payload app = steps [cancelActiveUpdate payload, markUpdateCanceled app, setState app PRESENT]"

definition cancelUpdateAndRemove :: "TransitionPayload \<Rightarrow> nat \<Rightarrow> err prog" where
  "cancelUpdateAndRemove payload app =
     steps [cancelActiveUpdate payload, markUpdateCanceled app, removeApp payload app]"

definition cancelUpdateAndUninstall :: "TransitionPayload \<Rightarrow> nat \<Rightarrow> err prog" where
  "cancelUpdateAndUninstall payload app =
     steps [cancelActiveUpdate payload, markUpdateCanceled app, uninstallApp payload app]"

definition cancelTransfer :: "TransitionPayload \<Rightarrow> nat \<Rightarrow> err prog" where
  "cancelTransfer payload app =
     (if pStage payload \<noteq> DEV then ret (Some (Msg ''file transfer is only for dev apps''))
      else steps [ignore (ext ''Filesystem.CancelFileTransfer'' [Dev (pContainerName payload)]), setState app REMOVED])"

section \<open>Updating (\<^verbatim>\<open>update_app.go\<close>)\<close>

text \<open>The app takes the version it was updated to, in memory.\<close>

definition noteUpdated :: "TransitionPayload \<Rightarrow> nat \<Rightarrow> err prog" where
  "noteUpdated payload app = ignore (app_upd app (\<lambda>a. a\<lparr>aVersion := pNewestVersion payload,
     aReleaseKey := pNewReleaseKey payload, aUpdateStatus := PENDING_REMOTE_CONFIRMATION\<rparr>))"

definition persistPostUpdateRequestedState :: "TransitionPayload \<Rightarrow> nat \<Rightarrow> err prog" where
  "persistPostUpdateRequestedState payload app = do {
     a \<leftarrow> app_at app;
     UpdateLocalRequestedState (payload\<lparr>pNewestVersion := aVersion a, pPresentVersion := aVersion a,
       pVersion := aVersion a, pRequestedState := aRequestedState a\<rparr>) }"

definition updateComposeApp :: "TransitionPayload \<Rightarrow> nat \<Rightarrow> err prog" where
  "updateComposeApp payload app =
     (let topic = Prod (pContainerName payload) in
      if pStage payload = DEV then ret (Some (Msg ''cannot update dev app''))
      else do {
        a \<leftarrow> app_at app;
        if pNewestVersion payload = aVersion a
        then ret (Some (Msg ''the app is already equal to the newest version''))
        else steps [
          setState app UPDATING,
          do {
            supported \<leftarrow> ComposeSupported;
            if \<not> supported then notSupported topic
            else withComposeCancel (pStage payload) (pAppKey payload) (do {
              r \<leftarrow> SetupComposeFiles payload app True;
              case r of
                Inl e \<Rightarrow> ret (Some e)
              | Inr path \<Rightarrow> steps [
                  composeTransitionErr (extE ''Compose.DownRemoveOrphansContext'' [path]),
                  LogWrite topic (''Initialising download for the app: '' @ pAppName payload @ ''...''),
                  logged topic (HandleRegistryLoginsWithDefault payload),
                  ClearLogHistory topic,
                  pullComposeImages path payload [],
                  LogWrite topic (''Succesfully installed the app: '' @ pAppName payload @ '' (Version: '' @ pNewestVersion payload @ '')''),
                  noteUpdated payload app,
                  setState app PRESENT,
                  persistPostUpdateRequestedState (payload\<lparr>pDockerCompose := pNewDockerCompose payload\<rparr>) app] }) }] })"

text \<open>
  A container that cannot be looked up is left alone. The poll never reports nil, so an error
  that is not \<^verbatim>\<open>ContainerNotFound\<close> ends the update.
\<close>

definition removeOldContainer :: "TransitionPayload \<Rightarrow> err prog" where
  "removeOldContainer payload = do {
     r \<leftarrow> GetContainer (Prod (pContainerName payload));
     case r of
       Inl _ \<Rightarrow> ret None
     | Inr cid \<Rightarrow> steps [
         RemoveContainerByID cid,
         do { e \<leftarrow> PollContainerState cid; ret (if IsContainerNotFound e then None else e) }] }"

definition updateApp :: "TransitionPayload \<Rightarrow> nat \<Rightarrow> err prog" where
  "updateApp payload app =
     (let topic = Prod (pContainerName payload) in
      if pDockerCompose payload \<noteq> None then updateComposeApp payload app
      else if pStage payload = DEV then ret (Some (Msg ''cannot update dev app''))
      else do {
        a \<leftarrow> app_at app;
        if pNewestVersion payload = aVersion a
        then ret (Some (Msg ''the app is already equal to the newest version''))
        else steps [
          setState app UPDATING,
          removeOldContainer payload,
          LogWrite topic (''Initialising download for the app: '' @ pAppName payload @ ''...''),
          ClearLogHistory topic,
          logged topic (HandleRegistryLoginsWithDefault payload),
          pullImage payload,
          streamed topic ''PULL'' ''The update was canceled'',
          LogWrite topic (''Succesfully installed the app: '' @ pAppName payload @ '' (Version: '' @ pNewestVersion payload @ '')''),
          noteUpdated payload app,
          setState app PRESENT,
          ignore (ext ''Container.RemoveImageByName'' [Prod (pRegistryImageName payload), pPresentVersion payload]),
          persistPostUpdateRequestedState payload app] })"

section \<open>Building (\<^verbatim>\<open>build_app.go\<close>)\<close>

definition buildTopic :: "TransitionPayload \<Rightarrow> bool \<Rightarrow> string" where
  "buildTopic payload releaseBuild = (if releaseBuild then pPublishContainerName payload else Dev (pContainerName payload))"

definition appFilesTar :: "Config \<Rightarrow> TransitionPayload \<Rightarrow> string" where
  "appFilesTar config payload =
     cAppsBuildDir config @ ''/'' @ pAppName payload @ ''.'' @ cCompressedBuildExtension config"

definition setReleaseBuild :: "nat \<Rightarrow> bool \<Rightarrow> err prog" where
  "setReleaseBuild app releaseBuild = ignore (app_upd app (\<lambda>a. a\<lparr>aReleaseBuild := releaseBuild\<rparr>))"

definition extractBuildFiles :: "TransitionPayload \<Rightarrow> nat \<Rightarrow> err prog" where
  "extractBuildFiles payload app = do {
     config \<leftarrow> gets wConfig;
     a \<leftarrow> app_at app;
     let targetAppDir = cAppsBuildDir config @ ''/'' @ aAppName a;
     st \<leftarrow> extE ''os.Stat'' [targetAppDir];
     steps [
       (if st = None then extE ''os.RemoveAll'' [targetAppDir] else ret None),
       extE ''filesystem.ExtractTarGz'' [appFilesTar config payload, targetAppDir]] }"

text \<open>Between registering the build's cancel function and unregistering it on every path.\<close>

definition composeBuild :: "TransitionPayload \<Rightarrow> nat \<Rightarrow> bool \<Rightarrow> string \<Rightarrow> err prog" where
  "composeBuild payload app releaseBuild path = do {
     a \<leftarrow> app_at app;
     let buildID = BuildDockerBuildID (aAppKey a) (aAppName a);
     let topic = buildTopic payload releaseBuild;
     _ \<leftarrow> ext ''Compose.RegisterBuildCancel'' [buildID];
     e \<leftarrow> steps ([
         extE ''Compose.Build'' [path],
         extE ''LogManager.StreamLogsChannel'' [topic],
         extE ''buildCmd.Wait'' []]
       @ (if releaseBuild then [] else [
         extE ''Compose.PullIgnoreBuildable'' [path],
         extE ''LogManager.StreamLogsChannel'' [topic],
         extE ''pullCmd.Wait'' []])
       @ [LogWrite topic ''Compose Image built successfully'', setState app BUILT]);
     _ \<leftarrow> ext ''Compose.UnregisterBuildCancel'' [buildID];
     ret e }"

definition buildDevComposeApp :: "TransitionPayload \<Rightarrow> nat \<Rightarrow> bool \<Rightarrow> err prog" where
  "buildDevComposeApp payload app releaseBuild =
     (let topic = buildTopic payload releaseBuild in steps [
        ClearLogHistory (Dev (pContainerName payload)),
        setState app REMOVED,
        extractBuildFiles payload app,
        setReleaseBuild app releaseBuild,
        LogWrite topic ''Starting image build...'',
        setState app BUILDING,
        do { supported \<leftarrow> ComposeSupported; if supported then ret None else notSupported topic },
        logged topic (HandleRegistryLoginsWithDefault payload),
        do {
          r \<leftarrow> SetupComposeFiles payload app False;
          case r of Inl e \<Rightarrow> ret (Some e) | Inr path \<Rightarrow> composeBuild payload app releaseBuild path }])"

definition build_message :: "go_error \<Rightarrow> string" where
  "build_message e =
     (if IsDockerfileCannotBeEmpty (Some e) then ''The Dockerfile cannot be empty, please fill out your Dockerfile''
      else if IsDockerfileIsMissing (Some e) then ''Could not find a Dockerfile, please create a Dockerfile in the root of your project''
      else if IsDockerBuildFilesNotFound (Some e) then ''Build files for app not found: '' @ Error e
      else Error e)"

definition buildImage :: "TransitionPayload \<Rightarrow> nat \<Rightarrow> string \<Rightarrow> string \<Rightarrow> err prog" where
  "buildImage payload app topic dockerFileName = do {
     config \<leftarrow> gets wConfig;
     a \<leftarrow> app_at app;
     e \<leftarrow> extE ''Container.Build'' [appFilesTar config payload, Dev (pRegistryImageName payload), dockerFileName,
            BuildDockerBuildID (aAppKey a) (aAppName a)];
     case e of
       None \<Rightarrow> ret None
     | Some x \<Rightarrow> do {
         me \<leftarrow> LogWrite topic (build_message x);
         ret (case me of Some y \<Rightarrow> Some y | None \<Rightarrow> Some x) } }"

definition buildDevApp :: "TransitionPayload \<Rightarrow> nat \<Rightarrow> bool \<Rightarrow> err prog" where
  "buildDevApp payload app releaseBuild =
     (let topic = buildTopic payload releaseBuild in
      if pDockerCompose payload \<noteq> None then buildDevComposeApp payload app releaseBuild
      else steps [
        ClearLogHistory (Dev (pContainerName payload)),
        setState app REMOVED,
        do {
          config \<leftarrow> gets wConfig;
          buildArch \<leftarrow> ext ''release.GetBuildArch'' [];
          let archSpecificDockerfile = ''Dockerfile.'' @ rpStr buildArch;
          e \<leftarrow> extE ''filesystem.ReadFileInTgz'' [appFilesTar config payload, archSpecificDockerfile];
          steps [
            setReleaseBuild app releaseBuild,
            LogWrite topic ''Starting image build...'',
            setState app BUILDING,
            buildImage payload app topic (if e = None then archSpecificDockerfile else ''Dockerfile''),
            streamed topic ''BUILD'' ''The build stream was canceled'',
            LogWrite topic ''Image built successfully'',
            setState app BUILT] }])"

definition buildApp :: "TransitionPayload \<Rightarrow> nat \<Rightarrow> err prog" where
  "buildApp payload app =
     (if pStage payload \<noteq> DEV then ret (Some (Msg ''can only build dev apps''))
      else buildDevApp payload app False)"

section \<open>Publishing (\<^verbatim>\<open>publish_app.go\<close>)\<close>

definition pushArgs :: "Config \<Rightarrow> TransitionPayload \<Rightarrow> string \<Rightarrow> string list" where
  "pushArgs config payload img =
     [img, pRegisteryToken payload, cSecret config, BuildDockerPushID (pAppKey payload) (pAppName payload)]"

definition rehostService :: "TransitionPayload \<Rightarrow> string \<times> json \<Rightarrow> err prog" where
  "rehostService payload named =
     (case snd named of
        JObj service \<Rightarrow>
          (let text = (\<lambda>key. case map_of service key of Some (JStr t) \<Rightarrow> t | _ \<Rightarrow> []);
               sourceImage = text ''x-source-image'';
               targetImage = text ''image''
           in if sourceImage = [] then ret None
              else if targetImage = []
              then ret (Some (Msg (''service '' @ fst named @ '' declares x-source-image but no image'')))
              else do {
                config \<leftarrow> gets wConfig;
                let cred = credentialForRegistryHost (pDockerCredentials payload) (registryHostOfImage sourceImage);
                steps [
                  LogWrite (pPublishContainerName payload)
                    (''Re-hosting image '' @ sourceImage @ '' of service '' @ fst named @ '' as '' @ targetImage @ ''...''),
                  extE ''Container.Pull'' [sourceImage, BuildDockerPullID (pAppKey payload) (pAppName payload), fst cred, snd cred],
                  extE ''LogManager.StreamBlocking'' [pPublishContainerName payload, ''PULL''],
                  extE ''Container.Tag'' [sourceImage, targetImage],
                  extE ''Container.Push'' (pushArgs config payload targetImage),
                  extE ''LogManager.StreamBlocking'' [pPublishContainerName payload, ''PUSH'']] })
      | _ \<Rightarrow> ret (Some (Msg ''failed to infer service'')))"

definition rehostSourceImages :: "TransitionPayload \<Rightarrow> err prog" where
  "rehostSourceImages payload =
     (case jmap_get (pDockerCompose payload) ''services'' of
        JObj services \<Rightarrow> steps (map (rehostService payload) services)
      | _ \<Rightarrow> ret (Some (Msg ''failed to infer services'')))"

text \<open>
  \<^verbatim>\<open>HandleRegistryLoginsWithDefault\<close> writes the login of the default registry into the map of the
  payload, which the caller shares unless it is nil.
\<close>

definition sharedDefaultLogin :: "Config \<Rightarrow> TransitionPayload \<Rightarrow> TransitionPayload" where
  "sharedDefaultLogin config payload = payload\<lparr>pDockerCredentials :=
     map_option (map_put (cDockerRegistryURL config) (pRegisteryToken payload, cSecret config)) (pDockerCredentials payload)\<rparr>"

definition publishComposeApp :: "TransitionPayload \<Rightarrow> nat \<Rightarrow> err prog" where
  "publishComposeApp payload app = do {
     config \<leftarrow> gets wConfig;
     a \<leftarrow> app_at app;
     let topic = pPublishContainerName payload;
     steps [
       LogWrite topic (''Initializing publish process for '' @ aAppName a @ ''...''),
       buildDevApp payload app True,
       LogWrite topic ''App build has finished, Starting to publish...'',
       setState app PUBLISHING,
       do {
         r \<leftarrow> SetupComposeFiles payload app False;
         case r of
           Inl e \<Rightarrow> ret (Some e)
         | Inr path \<Rightarrow> steps [
             logged topic (HandleRegistryLoginsWithDefault payload),
             do {
               e \<leftarrow> rehostSourceImages (sharedDefaultLogin config payload);
               if IsDockerStreamCanceled e then ret e else logged topic (ret e) },
             extE ''Compose.Push'' [path],
             extE ''LogManager.StreamLogsChannel'' [topic],
             extE ''pushCmd.Wait'' [],
             setState app PUBLISHED,
             ClearLogHistory topic] }] }"

definition publishApp :: "TransitionPayload \<Rightarrow> nat \<Rightarrow> err prog" where
  "publishApp payload app =
     (if pDockerCompose payload \<noteq> None then publishComposeApp payload app
      else do {
        config \<leftarrow> gets wConfig;
        a \<leftarrow> app_at app;
        let topic = pPublishContainerName payload;
        let prodImage = Prod (pRegistryImageName payload) @ '':'' @ pVersion payload;
        steps [
          LogWrite topic (''Initializing publish process for '' @ aAppName a @ ''...''),
          buildDevApp payload app True,
          LogWrite topic ''App build has finished, Starting to publish...'',
          extE ''Container.Tag'' [Dev (pRegistryImageName payload), prodImage],
          setState app PUBLISHING,
          logged topic (HandleRegistryLoginsWithDefault payload),
          extE ''Container.Push'' (pushArgs config payload prodImage),
          streamed topic ''PUSH'' ''The app release was canceled'',
          setState app PUBLISHED,
          ClearLogHistory topic] })"

definition removeAndPublishApp :: "TransitionPayload \<Rightarrow> nat \<Rightarrow> err prog" where
  "removeAndPublishApp payload app =
     (if pStage payload = DEV then steps [removeDevApp payload app, publishApp payload app] else ret None)"

section \<open>What they keep\<close>

context transition_relation
begin

lemma cancels_keep:
  "keeps R (CancelStream sid)" "keeps R (cancelActiveUpdate payload)" "keeps R (markUpdateCanceled i)"
  unfolding cancelActiveUpdate_def CancelStream_def markUpdateCanceled_def
  by (intro transition_intros R_object; simp add: ident_def)+

lemma cancel_keeps:
  "keeps R (cancelBuild payload i)" "keeps R (cancelPull payload i)" "keeps R (cancelPush payload i)"
  "keeps R (cancelUpdate payload i)" "keeps R (cancelUpdateAndRemove payload i)"
  "keeps R (cancelUpdateAndUninstall payload i)" "keeps R (cancelTransfer payload i)"
  unfolding cancelBuild_def cancelPull_def cancelPush_def cancelUpdate_def cancelUpdateAndRemove_def
    cancelUpdateAndUninstall_def cancelTransfer_def
  by (intro transition_intros cancels_keep removeApp_keeps uninstallApp_keeps)+

lemma noteUpdated_keeps: "keeps R (noteUpdated payload i)"
  unfolding noteUpdated_def by (intro transition_intros R_object) (simp add: ident_def)

lemma persist_keeps:
  "pAppKey p' = pAppKey p \<Longrightarrow> pStage p' = pStage p \<Longrightarrow> keeps R (persistPostUpdateRequestedState p' i)"
  unfolding persistPostUpdateRequestedState_def by (intro transition_intros R_request) simp_all

lemma removeOldContainer_keeps: "keeps R (removeOldContainer payload)"
  unfolding removeOldContainer_def by (intro transition_intros)

lemma updateApp_keeps: "keeps R (updateApp p i)"
  unfolding updateApp_def updateComposeApp_def
  by (intro transition_intros noteUpdated_keeps persist_keeps removeOldContainer_keeps finishing) simp_all

lemma composeBuild_keeps: "keeps R (composeBuild payload i releaseBuild path)"
  unfolding composeBuild_def
  by (cases releaseBuild; simp only: if_True if_False simp_thms append.simps; intro transition_intros)

lemma buildDevApp_keeps: "keeps R (buildDevApp payload i releaseBuild)"
  unfolding buildDevApp_def buildDevComposeApp_def extractBuildFiles_def setReleaseBuild_def buildImage_def
  by (intro transition_intros R_object composeBuild_keeps finishing) (simp_all add: ident_def)

lemma buildApp_keeps: "keeps R (buildApp payload i)"
  unfolding buildApp_def by (intro transition_intros buildDevApp_keeps)

lemma rehost_keeps: "keeps R (rehostSourceImages payload)"
proof -
  have "keeps R (rehostService payload named)" for named
    unfolding rehostService_def by (auto split: json.split intro!: transition_intros simp del: steps.simps)
  then have "keeps R (steps (map (rehostService payload) services))" for services
    by (intro keeps_steps) auto
  then show ?thesis
    unfolding rehostSourceImages_def by (auto split: json.split intro: keeps_return)
qed

lemma publishApp_keeps: "keeps R (publishApp payload i)"
  unfolding publishApp_def publishComposeApp_def
  by (intro transition_intros buildDevApp_keeps rehost_keeps finishing)

lemma removeAndPublishApp_keeps: "keeps R (removeAndPublishApp payload i)"
  unfolding removeAndPublishApp_def by (intro transition_intros removeApp_keeps publishApp_keeps)

end

section \<open>What they achieve\<close>

lemma cancel_removed:
  "ensures (cancelBuild payload i) (in_state i REMOVED)"
  "ensures (cancelPush payload i) (in_state i REMOVED)"
  "ensures (cancelTransfer payload i) (in_state i REMOVED)"
  "ensures (cancelUpdate payload i) (in_state i PRESENT)"
  "ensures (cancelUpdateAndUninstall payload i) (in_state i UNINSTALLED)"
  unfolding cancelBuild_def cancelPush_def cancelTransfer_def cancelUpdate_def cancelUpdateAndUninstall_def
  by (fast intro: final_state uninstallApp_uninstalled)+

lemma UpdateLocalRequestedState_state: "keeps (keeps_state i) (UpdateLocalRequestedState p)"
  unfolding UpdateLocalRequestedState_def by (rule same_objects_state [OF UpsertRequestedStateChange_objects])

lemma persist_state: "keeps (keeps_state i) (persistPostUpdateRequestedState payload j)"
  unfolding persistPostUpdateRequestedState_def by (intro kst.keeps_intros UpdateLocalRequestedState_state)

lemma updateComposeApp_present: "ensures (updateComposeApp payload i) (in_state i PRESENT)"
  unfolding updateComposeApp_def Let_def by (fast intro: final_state ensures_bracket persist_state)

lemma updateApp_present: "ensures (updateApp payload i) (in_state i PRESENT)"
  unfolding updateApp_def Let_def by (fast intro: final_state persist_state updateComposeApp_present)

lemma ensures_finally: "ensures m (in_state i st) \<Longrightarrow>
  ensures (do { e \<leftarrow> m; _ \<leftarrow> ext name args; ret e }) (in_state i st)"
  by (auto simp: ensures_def run_bind ext_def in_state_def State_Monad.get_def State_Monad.set_def State_Monad.return_def split: prod.splits)

lemma composeBuild_built: "ensures (composeBuild payload i releaseBuild path) (in_state i BUILT)"
  unfolding composeBuild_def Let_def
  by (rule ensures_bind, rule ensures_bind, rule ensures_finally) (fast intro: final_state)

lemma buildDevApp_built: "ensures (buildDevApp payload i releaseBuild) (in_state i BUILT)"
  unfolding buildDevApp_def buildDevComposeApp_def Let_def by (fast intro: final_state composeBuild_built)

lemma buildApp_built: "ensures (buildApp payload i) (in_state i BUILT)"
  unfolding buildApp_def by (fast intro: final_state buildDevApp_built)

lemma publishApp_published: "ensures (publishApp payload i) (in_state i PUBLISHED)"
  unfolding publishApp_def publishComposeApp_def Let_def by (fast intro: final_state)

lemma removeAndPublishApp_published:
  "pStage payload = DEV \<Longrightarrow> ensures (removeAndPublishApp payload i) (in_state i PUBLISHED)"
  unfolding removeAndPublishApp_def by (simp del: steps.simps) (fast intro: final_state publishApp_published)

section \<open>An update is stored\<close>

abbreviation same_states :: "world \<Rightarrow> world \<Rightarrow> bool" where
  "same_states w w' \<equiv> wApps w' = wApps w \<and> wAppStates w' = wAppStates w"

interpretation sts: step_relation same_states
  by unfold_locales simp_all

lemma persist_states: "keeps same_states (persistPostUpdateRequestedState payload j)"
  unfolding persistPostUpdateRequestedState_def UpdateLocalRequestedState_def UpsertRequestedStateChange_def Let_def
  by (intro sts.keeps_intros sts.keeps_modify) simp

definition stored_update :: "nat \<Rightarrow> TransitionPayload \<Rightarrow> world \<Rightarrow> bool" where
  "stored_update i p w \<longleftrightarrow> (i < length (wApps w) \<longrightarrow> stored i PRESENT (pNewestVersion p) (pNewReleaseKey p) w)"

lemma ensures_noteUpdated:
  assumes "keeps same_states (steps ms)"
  shows "ensures (steps (noteUpdated p i # setState i PRESENT # ms)) (stored_update i p)"
proof -
  have "ensures (steps [noteUpdated p i, setState i PRESENT]) (stored_update i p)"
    unfolding ensures_def
  proof (intro allI impI)
    fix w w'
    assume "run_state (steps [noteUpdated p i, setState i PRESENT]) w = (None, w')"
    then obtain w1 where w1: "w1 = w\<lparr>wApps := (wApps w)[i := (wApps w ! i)\<lparr>aVersion := pNewestVersion p,
        aReleaseKey := pNewReleaseKey p, aUpdateStatus := PENDING_REMOTE_CONFIRMATION\<rparr>]\<rparr>"
      and run: "run_state (setState i PRESENT) w1 = (None, w')"
      unfolding run_steps_Cons noteUpdated_def ignore_def app_upd_def modify_def
      by (auto simp: run_bind State_Monad.get_def State_Monad.set_def State_Monad.return_def split: prod.splits option.splits)
    have "length (wApps w') = length (wApps w)"
      using keepsD [OF setState_frame run] w1 by (auto simp: app_frame_def apps_frame_def dest: ident_length)
    with setState_stores [OF run] w1 show "stored_update i p w'" by (simp add: stored_update_def)
  qed
  moreover have "stored_update i p v" if "same_states u v" and "stored_update i p u" for u v
    using that by (simp add: stored_update_def stored_def)
  ultimately have "ensures (steps ([noteUpdated p i, setState i PRESENT] @ ms)) (stored_update i p)"
    using assms by (intro ensures_append_keep)
  then show ?thesis by (simp only: append.simps)
qed

lemma ensures_bracket_stored: "ensures m (stored_update i p) \<Longrightarrow> ensures (withComposeCancel s k m) (stored_update i p)"
  by (auto simp: ensures_def withComposeCancel_def registerComposeTransitionCancel_def clearComposeTransitionCancel_def
      ignore_def modify_def stored_update_def stored_def run_bind State_Monad.get_def State_Monad.set_def State_Monad.return_def
      split: prod.splits)

lemma updateApp_stored: "ensures (updateApp p i) (stored_update i p)"
  unfolding updateApp_def updateComposeApp_def Let_def
  by (fast intro: ensures_intros ensures_steps_Cons ensures_steps_last ensures_noteUpdated ensures_bracket_stored sts.keeps_intros persist_states)


definition outdated_world :: world where
  "outdated_world = demo_world\<lparr>wApps := [demo_app], wExt := (\<lambda>_ c. case c of Ext name _ \<Rightarrow>
     if name = ''Container.PollContainerState'' then ok_reply\<lparr>rpErr := Some (Msg ''no such container'')\<rparr> else ok_reply)\<rparr>"

definition newer_payload :: TransitionPayload where
  "newer_payload = demo_payload\<lparr>pRequestUpdate := True, pNewestVersion := ''2'', pNewReleaseKey := 9\<rparr>"


end
