(* ===== verification/Running.thy ===== *)
theory Running
  imports Releases
begin

text \<open>
  The transitions that start an app (\<^verbatim>\<open>run_app.go\<close>, \<^verbatim>\<open>pull_and_run_app.go\<close>, \<^verbatim>\<open>fail_run.go\<close>,
  \<^verbatim>\<open>fail_present.go\<close>, \<^verbatim>\<open>stop_and_build_app.go\<close>): how a container's configuration is put together,
  created and started, with new host ports after a bind conflict.
\<close>

section \<open>What a start needs\<close>

definition live_bindings :: "string \<Rightarrow> (go_error + bindings) prog" where
  "live_bindings containerName = do {
     r \<leftarrow> ext ''Container.GetContainerPortBindings'' [containerName];
     ret (case rpErr r of Some e \<Rightarrow> Inl e | None \<Rightarrow> Inr (rpPorts r)) }"

text \<open>
  \<^verbatim>\<open>composeServicesWithMissingImages\<close> (\<^verbatim>\<open>state_observer.go\<close>): local images come with their tags.
  A map is iterated in any order; its first faulty service decides, and the result is sorted.
\<close>

definition imageMissing :: "(string \<times> string list) list \<Rightarrow> (string \<times> json) list \<Rightarrow> bool" where
  "imageMissing images service =
     (case map_of service ''image'' of
        None \<Rightarrow> False
      | Some JNull \<Rightarrow> False
      | Some name \<Rightarrow> \<not> list_ex (\<lambda>i. list_ex (\<lambda>repoTag. Contains repoTag (Sprint name)) (snd i)) images)"

fun missingServices :: "(string \<times> string list) list \<Rightarrow> (string \<times> json) list \<Rightarrow> go_error + string list" where
  "missingServices images [] = Inr []"
| "missingServices images ((name, JObj service) # rest) =
     (case missingServices images rest of
        Inl e \<Rightarrow> Inl e
      | Inr ms \<Rightarrow> Inr (if imageMissing images service then name # ms else ms))"
| "missingServices images (_ # rest) = Inl (Msg ''failed to infer service'')"

definition composeServicesWithMissingImages :: "jmap \<Rightarrow> (string \<times> string list) list \<Rightarrow> go_error + string list" where
  "composeServicesWithMissingImages dockerCompose images =
     (case jmap_get dockerCompose ''services'' of
        JObj services \<Rightarrow> (case missingServices images services of Inl e \<Rightarrow> Inl e | Inr ms \<Rightarrow> Inr (sort ms))
      | _ \<Rightarrow> Inl (Msg ''failed to infer services''))"

section \<open>Compose apps\<close>

definition composeUpAttempts :: nat where
  "composeUpAttempts = 3"

text \<open>\<open>Inl e\<close> is a \<^verbatim>\<open>return e\<close> from the loop, \<open>Inr lastErr\<close> leaves it.\<close>

primrec composeUpLoop :: "TransitionPayload \<Rightarrow> nat \<Rightarrow> string \<Rightarrow> string \<Rightarrow> nat \<Rightarrow> err \<Rightarrow> (err + err) prog" where
  "composeUpLoop payload app path topic 0 lastErr = ret (Inr lastErr)"
| "composeUpLoop payload app path topic (Suc n) lastErr = do {
     e \<leftarrow> steps [
       extE (if pStage payload = PROD' then ''Compose.UpNoBuild'' else ''Compose.Up'') [path],
       extE ''LogManager.StreamLogsChannel'' [topic]];
     case e of
       Some x \<Rightarrow> ret (Inl (Some x))
     | None \<Rightarrow> do {
         waited \<leftarrow> extE ''upCmd.Wait'' [];
         case waited of
           None \<Rightarrow> ret (Inl None)
         | Some x \<Rightarrow>
             if \<not> isPortAllocationError (Some x) then ret (Inr (Some x))
             else do {
               reassigned \<leftarrow> with_registry (\<lambda>probeFree.
                 reassignComposePortsAfterBindConflict probeFree (pStage payload) (pAppKey payload) (pDockerCompose payload) x);
               if \<not> reassigned then ret (Inr (Some x))
               else do {
                 e \<leftarrow> steps [
                   teardownComposeProject path,
                   do {
                     r \<leftarrow> SetupComposeFiles payload app False;
                     ret (case r of Inl y \<Rightarrow> Some y | Inr _ \<Rightarrow> None) }];
                 case e of
                   Some y \<Rightarrow> ret (Inl (Some y))
                 | None \<Rightarrow> composeUpLoop payload app path topic n (Some x) }}}}"

definition composeUp :: "TransitionPayload \<Rightarrow> nat \<Rightarrow> string \<Rightarrow> string \<Rightarrow> err prog" where
  "composeUp payload app path topic = do {
     r \<leftarrow> composeUpLoop payload app path topic composeUpAttempts None;
     case r of
       Inl e \<Rightarrow> ret e
     | Inr lastErr \<Rightarrow> do {
         _ \<leftarrow> LogWrite topic (''The app failed to start, reason: '' @ (case lastErr of Some x \<Rightarrow> Error x | None \<Rightarrow> []));
         _ \<leftarrow> teardownComposeProject path;
         ret lastErr }}"

text \<open>
  The \<^verbatim>\<open>select\<close> on the channels of \<^verbatim>\<open>WaitForRunning\<close>: an error, or running. Compose tolerates the nil
  that a closed error channel delivers.
\<close>

definition awaitComposeRunning :: "string \<Rightarrow> string \<Rightarrow> err prog" where
  "awaitComposeRunning topic path = do {
     e \<leftarrow> extE ''Compose.WaitForRunning'' [path];
     case e of
       None \<Rightarrow> ret None
     | Some x \<Rightarrow> do {
         cleanupErr \<leftarrow> teardownComposeProject path;
         case cleanupErr of
           Some y \<Rightarrow> ret (Some y)
         | None \<Rightarrow> do { _ \<leftarrow> LogWrite topic (''The app failed to start, reason: '' @ Error x); ret (Some x) }}}"

definition nowRunning :: "TransitionPayload \<Rightarrow> nat \<Rightarrow> string \<Rightarrow> err prog" where
  "nowRunning payload app topic = do {
     a \<leftarrow> app_at app;
     LogWrite topic (''Now running app '' @ pAppName payload @ '' ('' @ aVersion a @ '')'') }"

definition finishComposeRun :: "TransitionPayload \<Rightarrow> nat \<Rightarrow> string \<Rightarrow> string \<Rightarrow> err prog" where
  "finishComposeRun payload app topic path = steps [
     composeUp payload app path topic,
     awaitComposeRunning topic path,
     setState app RUNNING,
     nowRunning payload app topic,
     extE ''Compose.LogStream'' [path],
     extE ''LogManager.StreamLogsChannel'' [topic]]"

definition runDevComposeApp :: "TransitionPayload \<Rightarrow> nat \<Rightarrow> err prog" where
  "runDevComposeApp payload app =
     (let topic = Dev (pContainerName payload) in steps [
        ClearLogHistory topic,
        setState app STARTING,
        do {
          r \<leftarrow> SetupComposeFiles payload app False;
          case r of
            Inl e \<Rightarrow> ret (Some e)
          | Inr path \<Rightarrow> steps [
              logged (Prod (pContainerName payload)) (HandleRegistryLoginsWithDefault payload),
              teardownComposeProject path,
              LogWrite topic (''Starting '' @ pAppName payload @ ''...''),
              finishComposeRun payload app topic path] }])"

definition missingImages :: "TransitionPayload \<Rightarrow> nat \<Rightarrow> string list prog" where
  "missingImages payload app = do {
     a \<leftarrow> app_at app;
     if aCurrentState a = UNINSTALLED \<or> aCurrentState a = REMOVED then do {
       r \<leftarrow> ext ''Container.GetImages'' [[]];
       ret (if rpErr r \<noteq> None then []
            else case composeServicesWithMissingImages (pDockerCompose payload) (rpStrs r) of Inl _ \<Rightarrow> [] | Inr ms \<Rightarrow> ms) }
     else ret [] }"

definition launchProdCompose :: "TransitionPayload \<Rightarrow> nat \<Rightarrow> string list \<Rightarrow> err prog" where
  "launchProdCompose payload app missing =
     (let topic = Prod (pContainerName payload); needsDownload = missing \<noteq> [] in steps [
        setState app (if needsDownload then DOWNLOADING else STARTING),
        do {
          r \<leftarrow> SetupComposeFiles payload app False;
          case r of
            Inl e \<Rightarrow> ret (Some e)
          | Inr path \<Rightarrow> steps [
              teardownComposeProject path,
              (if needsDownload
               then steps [LogWrite topic (''Downloading images for '' @ pAppName payload @ ''...''),
                           pullComposeImages path payload missing]
               else ret None),
              LogWrite topic (''Starting '' @ pAppName payload @ ''...''),
              (if needsDownload then setState app STARTING else ret None),
              finishComposeRun payload app topic path] }])"

definition runProdComposeApp :: "TransitionPayload \<Rightarrow> nat \<Rightarrow> err prog" where
  "runProdComposeApp payload app =
     (let topic = Prod (pContainerName payload) in steps [
        ClearLogHistory topic,
        do { supported \<leftarrow> ComposeSupported; if supported then ret None else notSupported topic },
        logged topic (HandleRegistryLoginsWithDefault payload),
        do {
          missing \<leftarrow> missingImages payload app;
          if missing \<noteq> [] then withComposeCancel (pStage payload) (pAppKey payload) (launchProdCompose payload app missing)
          else launchProdCompose payload app missing }])"

section \<open>The configuration of a container\<close>

record ContainerConfig =
  ccImage :: string
  ccEnv :: "string list"
  ccInteractive :: bool \<comment> \<open>the attached streams of a developer container\<close>
  ccExposedPorts :: "string list"

record HostConfig =
  hcMounts :: "(string \<times> string) list" \<comment> \<open>source and target of bind mounts\<close>
  hcPortBindings :: bindings
  hcRuntime :: string
  hcDeviceRequests :: "string list"

text \<open>The flag of a file system reply tells whether its error is of the kind the code asks for.\<close>

definition optionalMount :: "string \<Rightarrow> (string \<times> string) list prog" where
  "optionalMount path = do {
     r \<leftarrow> ext ''os.Stat'' [path];
     ret (if rpErr r \<noteq> None \<and> rpFlag r then [] else [(path, path)]) }"

definition computeMounts :: "Stage \<Rightarrow> string \<Rightarrow> (go_error + (string \<times> string) list) prog" where
  "computeMounts stage appName = do {
     config \<leftarrow> gets wConfig;
     let appSpecificDirectory = cAppsDirectory config @ ''/'' @ ToLower (Stage_string stage) @ ''/'' @ ToLower appName;
     made \<leftarrow> ext ''os.MkdirAll'' [appSpecificDirectory];
     if rpErr made \<noteq> None \<and> \<not> rpFlag made then ret (Inl (the (rpErr made)))
     else do {
       w1 \<leftarrow> optionalMount ''/sys/bus/w1/devices'';
       cuda \<leftarrow> optionalMount ''/usr/local/cuda'';
       ret (Inr ([(cAppsSharedDir config, ''/shared''), (appSpecificDirectory, ''/data'')] @ w1 @ cuda)) } }"

definition bindPorts :: "TransitionPayload \<Rightarrow> PortForwardRule list \<Rightarrow> string \<Rightarrow> (go_error + bindings) prog" where
  "bindPorts payload portRules containerName =
     (if filter (\<lambda>rule. LocalIP rule = []) portRules = [] then ret (Inr [])
      else do {
        live \<leftarrow> live_bindings containerName;
        lib \<leftarrow> gets wLib;
        with_registry (\<lambda>probeFree.
          computePortBindings probeFree (lNewPort lib) (pStage payload) (pAppKey payload) live portRules) })"

text \<open>A production image that is not there is downloaded; any other error is dropped.\<close>

definition ensureImage :: "TransitionPayload \<Rightarrow> nat \<Rightarrow> err prog" where
  "ensureImage payload app = do {
     e \<leftarrow> extE ''Container.GetImage'' [Prod (pRegistryImageName payload), pPresentVersion payload];
     if IsImageNotFound e then pullApp payload app else ret None }"

text \<open>
  The environment of the container, as the system's variables, the app's own and the template's
  defaults give it; nothing when a value has a type the code's conversions panic on.
\<close>

definition containerEnvironment ::
  "Lib \<Rightarrow> (string \<Rightarrow> uint64 option) \<Rightarrow> Config \<Rightarrow> TransitionPayload \<Rightarrow> App \<Rightarrow> string \<Rightarrow> PortForwardRule list \<Rightarrow> string list \<Rightarrow> go_error + string list" where
  "containerEnvironment lib activeRemotePort config payload app appCredKey portRules devicePortEnvs =
     (let system = buildDefaultEnvironmentVariables (lHmac lib) (lAppEndpointURL lib) (lLanIP lib) config payload (aStage app) app appCredKey in
      case (buildProdEnvironmentVariables system (pEnvironmentVariables payload),
            EnvironmentTemplateToStringArray (case pEnvironmentTemplate payload of None \<Rightarrow> [] | Some m \<Rightarrow> m)) of
        (Some environmentVariables, Some templateDefaults) \<Rightarrow>
          Inr ((if aStage app = DEV then system @ templateDefaults
                else environmentVariables @ remotePortEnvVars activeRemotePort config (aAppName app) portRules
                       @ missingDefaults templateDefaults environmentVariables) @ devicePortEnvs)
      | _ \<Rightarrow> Inl (Msg ''panic: interface conversion''))"

definition envTypesPanic :: "TransitionPayload \<Rightarrow> bool" where
  "envTypesPanic payload \<longleftrightarrow> buildProdEnvironmentVariables [] (pEnvironmentVariables payload) = None
     \<or> EnvironmentTemplateToStringArray (case pEnvironmentTemplate payload of None \<Rightarrow> [] | Some m \<Rightarrow> m) = None"

definition stageContainerName :: "TransitionPayload \<Rightarrow> App \<Rightarrow> string" where
  "stageContainerName payload a = (if aStage a = DEV then Dev (pContainerName payload) else Prod (pContainerName payload))"

text \<open>
  The image name of a production container carries the version the app had before the missing
  image was downloaded; downloading does not change it.
\<close>

definition writeContainerEnv :: "TransitionPayload \<Rightarrow> nat \<Rightarrow> PortForwardRule list \<Rightarrow> bindings \<Rightarrow> (go_error + string list) prog" where
  "writeContainerEnv payload app portRules portBindings = do {
     w \<leftarrow> State_Monad.get;
     let a = wApps w ! app;
     case containerEnvironment (wLib w) (tunnel_now w) (wConfig w) payload a (wAppCredKey w) portRules
            (devicePortEnvsFromBindings portBindings) of
       Inl e \<Rightarrow> ret (Inl e)
     | Inr allEnvVars \<Rightarrow> do {
         e \<leftarrow> wrapped ''failed to write environment variables to files'' (writeEnvironmentVariablesToFiles
           (cAppsDirectory (wConfig w) @ ''/'' @ ToLower (Stage_string (aStage a)) @ ''/'' @ ToLower (aAppName a)) allEnvVars);
         ret (case e of Some x \<Rightarrow> Inl x | None \<Rightarrow> Inr (filterLargeEnvVars allEnvVars)) }}"

definition computeContainerConfigs :: "TransitionPayload \<Rightarrow> nat \<Rightarrow> (go_error + ContainerConfig \<times> HostConfig) prog" where
  "computeContainerConfigs payload app = do {
     a \<leftarrow> app_at app;
     case (if envTypesPanic payload then Inl (Msg ''panic: interface conversion'')
           else InterfaceToPortForwardRule (pPorts payload)) of
       Inl e \<Rightarrow> ret (Inl e)
     | Inr portRules \<Rightarrow> do {
     bound \<leftarrow> bindPorts payload portRules (stageContainerName payload a);
     case bound of
       Inl e \<Rightarrow> ret (Inl e)
     | Inr portBindings \<Rightarrow> do {
     pulled \<leftarrow> (if aStage a = DEV then ret None else ensureImage payload app);
     case pulled of
       Some e \<Rightarrow> ret (Inl e)
     | None \<Rightarrow> do {
     env \<leftarrow> writeContainerEnv payload app portRules portBindings;
     case env of
       Inl e \<Rightarrow> ret (Inl e)
     | Inr envVars \<Rightarrow> do {
     mounts \<leftarrow> computeMounts (aStage a) (aAppName a);
     case mounts of
       Inl e \<Rightarrow> ret (Inl e)
     | Inr ms \<Rightarrow> do {
     gpu \<leftarrow> ext ''system.HasNvidiaGPU'' [];
     ret (Inr (
       \<lparr>ccImage = (if aStage a = DEV then Dev (pRegistryImageName payload)
                   else Prod (pRegistryImageName payload) @ '':'' @ aVersion a),
        ccEnv = envVars, ccInteractive = (aStage a = DEV), ccExposedPorts = map fst portBindings\<rparr>,
       \<lparr>hcMounts = ms, hcPortBindings = portBindings,
        hcRuntime = (if rpFlag gpu then ''nvidia'' else []), hcDeviceRequests = []\<rparr>)) }}}}}}"

section \<open>Creating and starting a container\<close>

definition create_args :: "string \<Rightarrow> ContainerConfig \<Rightarrow> HostConfig \<Rightarrow> string list" where
  "create_args name cc hc =
     [name, ccImage cc, hcRuntime hc, bool_string (ccInteractive cc)] @ ccEnv cc @ ccExposedPorts cc
     @ map (\<lambda>(s, t). s @ '':'' @ t) (hcMounts hc)
     @ map (\<lambda>(c, p). c @ ''='' @ itoa (unat p)) (hcPortBindings hc) @ hcDeviceRequests hc"

definition CreateContainer :: "string \<Rightarrow> ContainerConfig \<Rightarrow> HostConfig \<Rightarrow> reply prog" where
  "CreateContainer name cc hc = ext ''Container.CreateContainer'' (create_args name cc hc)"

text \<open>Whether the container that exists still fits, with its network mode from the reply.\<close>

definition networkConfigOutdated :: "string \<Rightarrow> string \<Rightarrow> HostConfig \<Rightarrow> bool prog" where
  "networkConfigOutdated containerName mode hc =
     (if normalizeNetworkMode mode \<noteq> normalizeNetworkMode ''bridge'' \<or> hcPortBindings hc = []
      then ret (containerNetworkConfigOutdated mode ''bridge'' (hcPortBindings hc) (Inr []))
      else do {
        actual \<leftarrow> live_bindings containerName;
        ret (containerNetworkConfigOutdated mode ''bridge'' (hcPortBindings hc) actual) })"

definition createNew ::
  "TransitionPayload \<Rightarrow> nat \<Rightarrow> string \<Rightarrow> ContainerConfig \<Rightarrow> HostConfig \<Rightarrow> (HostConfig \<times> (go_error + string)) prog" where
  "createNew payload app containerName cc hc = do {
     r \<leftarrow> CreateContainer containerName cc hc;
     case rpErr r of
       None \<Rightarrow> ret (hc, Inr (rpStr r))
     | Some x \<Rightarrow> do {
         a \<leftarrow> app_at app;
         _ \<leftarrow> (if IsImageNotFound (Some x) \<and> aStage a = DEV
              then LogWrite containerName (''The image '' @ Dev (pRegistryImageName payload) @ '' was not found on the device, try building the app again...'')
              else ret None);
         if Contains (Error x) ''nvidia'' then do {
           _ \<leftarrow> RemoveContainerByID (rpStr r);
           let hc' = hc\<lparr>hcRuntime := [], hcDeviceRequests := []\<rparr>;
           r' \<leftarrow> CreateContainer containerName cc hc';
           ret (hc', case rpErr r' of Some y \<Rightarrow> Inl y | None \<Rightarrow> Inr (rpStr r')) }
         else ret (hc, Inl x) }}"

definition removeOutdated :: "string \<Rightarrow> err prog" where
  "removeOutdated cid = steps [
     do { e \<leftarrow> RemoveContainerByID cid; ret (if IsContainerNotFound e then None else e) },
     do { e \<leftarrow> extE ''Container.WaitForContainerByID'' [cid, ''removed'']; ret (if IsContainerNotFound e then None else e) }]"

definition createContainer ::
  "TransitionPayload \<Rightarrow> nat \<Rightarrow> ContainerConfig \<Rightarrow> HostConfig \<Rightarrow> (HostConfig \<times> (go_error + string)) prog" where
  "createContainer payload app cc hc = do {
     a \<leftarrow> app_at app;
     let containerName = (if aStage a = PROD' then Prod (pContainerName payload) else Dev (pContainerName payload));
     cont \<leftarrow> ext ''Container.GetContainer'' [containerName];
     case rpErr cont of
       Some e \<Rightarrow>
         if \<not> IsContainerNotFound (Some e) then ret (hc, Inl e) else createNew payload app containerName cc hc
     | None \<Rightarrow> do {
         outdated \<leftarrow> networkConfigOutdated containerName (case rpJson cont of JStr mode \<Rightarrow> mode | _ \<Rightarrow> []) hc;
         if \<not> outdated then ret (hc, Inr (rpStr cont))
         else do {
           e \<leftarrow> removeOutdated (rpStr cont);
           case e of Some x \<Rightarrow> ret (hc, Inl x) | None \<Rightarrow> createNew payload app containerName cc hc }}}"

definition StartContainer :: "string \<Rightarrow> err prog" where
  "StartContainer cid = extE ''Container.StartContainer'' [cid]"

definition startContainerOnce :: "TransitionPayload \<Rightarrow> nat \<Rightarrow> (go_error + string) prog" where
  "startContainerOnce payload app = do {
     configs \<leftarrow> computeContainerConfigs payload app;
     case configs of
       Inl e \<Rightarrow> ret (Inl e)
     | Inr (cc, hc) \<Rightarrow> do {
     (hc1, created) \<leftarrow> createContainer payload app cc hc;
     case created of
       Inl e \<Rightarrow> ret (Inl e)
     | Inr containerID \<Rightarrow> do {
     e \<leftarrow> StartContainer containerID;
     case e of
       None \<Rightarrow> ret (Inr containerID)
     | Some x \<Rightarrow>
         if Contains (Error x) ''nvidia'' then do {
           _ \<leftarrow> RemoveContainerByID containerID;
           (hc2, recreated) \<leftarrow> createContainer payload app cc (hc1\<lparr>hcDeviceRequests := []\<rparr>);
           case recreated of
             Inl y \<Rightarrow> ret (Inl y)
           | Inr containerID' \<Rightarrow> do {
               e \<leftarrow> StartContainer containerID';
               ret (case e of Some y \<Rightarrow> Inl y | None \<Rightarrow> Inr containerID') } }
         else if isPortAllocationError (Some x) then ret (Inl x)
         else ret (Inr containerID) }}}"

primrec startAttempts :: "TransitionPayload \<Rightarrow> nat \<Rightarrow> nat \<Rightarrow> err \<Rightarrow> (go_error + string) prog" where
  "startAttempts payload app 0 lastErr = ret (Inl (the lastErr))"
| "startAttempts payload app (Suc n) lastErr = do {
     r \<leftarrow> startContainerOnce payload app;
     case r of
       Inr containerID \<Rightarrow> ret (Inr containerID)
     | Inl x \<Rightarrow>
         if \<not> isPortAllocationError (Some x) then ret (Inl x)
         else do {
           reassigned \<leftarrow> with_registry (\<lambda>probeFree.
             reassignPortsAfterBindConflict probeFree (pStage payload) (pAppKey payload) (pPorts payload) x);
           if \<not> reassigned then ret (Inl x) else startAttempts payload app n (Some x) }}"

definition startContainer :: "TransitionPayload \<Rightarrow> nat \<Rightarrow> (go_error + string) prog" where
  "startContainer payload app = startAttempts payload app 3 None"

section \<open>Single containers\<close>

text \<open>
  The \<^verbatim>\<open>select\<close> on \<^verbatim>\<open>WaitForRunning\<close>: an error, the running signal (the flag), or the nil of an
  error channel that was closed before the \<^verbatim>\<open>select\<close> was reached, on which \<^verbatim>\<open>err.Error()\<close> panics.
\<close>

definition awaitRunning :: "string \<Rightarrow> string \<Rightarrow> string \<Rightarrow> err prog" where
  "awaitRunning errTopic topic cid = do {
     r \<leftarrow> ext ''Container.WaitForRunning'' [cid];
     case rpErr r of
       None \<Rightarrow> ret (if rpFlag r then None else Some (Msg ''panic: nil pointer dereference''))
     | Some x \<Rightarrow> do {
         _ \<leftarrow> LogWrite errTopic (''The app failed to start, reason: '' @ Error x);
         logsErr \<leftarrow> extE ''Container.Logs'' [cid];
         case logsErr of
           Some y \<Rightarrow> ret (Some y)
         | None \<Rightarrow> do { _ \<leftarrow> ext ''LogManager.StreamBlocking'' [topic, ''APP'']; ret (Some x) }}}"

definition startAndAwait :: "TransitionPayload \<Rightarrow> nat \<Rightarrow> string \<Rightarrow> err prog" where
  "startAndAwait payload app topic = do {
     r \<leftarrow> startContainer payload app;
     case r of
       Inl e \<Rightarrow> ret (Some e)
     | Inr containerID \<Rightarrow> awaitRunning (Dev (pContainerName payload)) topic containerID }"

definition runProdApp :: "TransitionPayload \<Rightarrow> nat \<Rightarrow> err prog" where
  "runProdApp payload app =
     (let topic = Prod (pContainerName payload) in
      if pDockerCompose payload \<noteq> None then runProdComposeApp payload app
      else steps [
        ClearLogHistory topic,
        LogWrite topic (''Starting '' @ pAppName payload @ ''...''),
        setState app STARTING,
        startAndAwait payload app topic,
        setState app RUNNING,
        nowRunning payload app topic,
        extE ''LogManager.Stream'' [topic, ''APP'']])"

definition removeLeftover :: "string \<Rightarrow> err prog" where
  "removeLeftover name = do {
     r \<leftarrow> GetContainer name;
     case r of
       Inl e \<Rightarrow> ret (if IsContainerNotFound (Some e) then None else Some e)
     | Inr cid \<Rightarrow> steps [
         do { e \<leftarrow> RemoveContainerByID cid;
              ret (if IsContainerRemovalAlreadyInProgress e \<or> IsContainerNotFound e then None else e) },
         do { e \<leftarrow> extE ''Container.WaitForContainerByID'' [cid, ''removed''];
              ret (if IsContainerNotFound e then None else e) }] }"

definition runDevApp :: "TransitionPayload \<Rightarrow> nat \<Rightarrow> err prog" where
  "runDevApp payload app =
     (let topic = Dev (pContainerName payload) in
      if pDockerCompose payload \<noteq> None then runDevComposeApp payload app
      else steps [
        removeLeftover topic,
        ClearLogHistory topic,
        LogWrite topic (''Starting '' @ pAppName payload @ ''...''),
        setState app STARTING,
        startAndAwait payload app topic,
        setState app RUNNING,
        LogWrite topic (''Now running app '' @ pAppName payload),
        extE ''LogManager.Stream'' [topic, ''APP'']])"

definition runApp :: "TransitionPayload \<Rightarrow> nat \<Rightarrow> err prog" where
  "runApp payload app =
     (if pStage payload = DEV then runDevApp payload app
      else if pStage payload = PROD' then runProdApp payload app
      else ret None)"

definition removedToRunning :: "TransitionPayload \<Rightarrow> nat \<Rightarrow> err prog" where
  "removedToRunning payload app = runApp payload app"

section \<open>Recovering from a failure\<close>

definition failedContainerName :: "TransitionPayload \<Rightarrow> string" where
  "failedContainerName payload =
     (if pStage payload = DEV then Dev (pContainerName payload) else Prod (pContainerName payload))"

definition recoverFailToPresentHandler :: "TransitionPayload \<Rightarrow> nat \<Rightarrow> err prog" where
  "recoverFailToPresentHandler payload app = do {
     _ \<leftarrow> RemoveContainerByID (failedContainerName payload);
     if pStage payload = DEV then buildApp payload app
     else do {
       images \<leftarrow> ext ''Container.GetImages'' [if pStage payload = PROD' then Prod (pRegistryImageName payload) else []];
       case rpErr images of
         Some e \<Rightarrow> ret (Some e)
       | None \<Rightarrow> if rpStrs images \<noteq> [] then setState app PRESENT else pullApp payload app }}"

definition recoverFailToRunningHandler :: "TransitionPayload \<Rightarrow> nat \<Rightarrow> err prog" where
  "recoverFailToRunningHandler payload app = do {
     _ \<leftarrow> (if pDockerCompose payload = None then RemoveContainerByID (failedContainerName payload) else ret None);
     runApp payload app }"

definition stopAndBuildApp :: "TransitionPayload \<Rightarrow> nat \<Rightarrow> err prog" where
  "stopAndBuildApp payload app = steps [stopDevApp payload app, buildDevApp payload app False]"

section \<open>What they keep\<close>

context transition_relation
begin

lemma composeUp_keeps: "keeps R (composeUp payload i path topic)"
proof -
  have "keeps R (composeUpLoop payload i path topic n lastErr)" for n lastErr
  proof (induction n arbitrary: lastErr)
    case 0
    then show ?case by (simp only: composeUpLoop.simps keeps_return)
  next
    case (Suc n)
    then show ?case unfolding composeUpLoop.simps by (intro transition_intros) assumption
  qed
  then show ?thesis unfolding composeUp_def by (intro transition_intros) assumption
qed

lemma finishComposeRun_keeps: "keeps R (finishComposeRun payload i topic path)"
  unfolding finishComposeRun_def awaitComposeRunning_def nowRunning_def
  by (intro transition_intros composeUp_keeps)

lemma runCompose_keeps: "keeps R (runDevComposeApp payload i)" "keeps R (runProdComposeApp payload i)"
  unfolding runDevComposeApp_def runProdComposeApp_def launchProdCompose_def missingImages_def
  by (intro transition_intros finishComposeRun_keeps finishing)+

lemma configs_keep: "keeps R (computeContainerConfigs payload i)"
  unfolding computeContainerConfigs_def bindPorts_def live_bindings_def ensureImage_def writeContainerEnv_def
    computeMounts_def optionalMount_def
  by (intro transition_intros pullApp_keeps)

lemma createContainer_keeps: "keeps R (createContainer payload i cc hc)"
  unfolding createContainer_def networkConfigOutdated_def live_bindings_def removeOutdated_def createNew_def CreateContainer_def
  by (intro transition_intros)

lemma startContainer_keeps: "keeps R (startContainer payload i)"
proof -
  have once: "keeps R (startContainerOnce payload i)"
    unfolding startContainerOnce_def StartContainer_def
    by (intro transition_intros configs_keep createContainer_keeps)
  have "keeps R (startAttempts payload i n lastErr)" for n lastErr
    by (induction n arbitrary: lastErr; simp only: startAttempts.simps; intro transition_intros once; assumption)
  then show ?thesis by (simp only: startContainer_def)
qed

lemma runApp_keeps: "keeps R (runApp payload i)"
  unfolding runApp_def runProdApp_def runDevApp_def removeLeftover_def startAndAwait_def awaitRunning_def nowRunning_def
  by (intro transition_intros runCompose_keeps startContainer_keeps)

lemma recover_keeps: "keeps R (recoverFailToPresentHandler payload i)" "keeps R (recoverFailToRunningHandler payload i)"
  "keeps R (removedToRunning payload i)" "keeps R (stopAndBuildApp payload i)"
  unfolding recoverFailToPresentHandler_def recoverFailToRunningHandler_def removedToRunning_def stopAndBuildApp_def
  by (intro transition_intros buildApp_keeps buildDevApp_keeps pullApp_keeps runApp_keeps stopApp_keeps)+

end

section \<open>What they achieve\<close>

lemma run_state_calls: "keeps (keeps_state i) (nowRunning payload j topic)"
  unfolding nowRunning_def by (intro kst.keeps_intros calls_state)

lemma runApp_running: "deployed (pStage payload) \<Longrightarrow> ensures (runApp payload i) (in_state i RUNNING)"
proof -
  have finish: "ensures (finishComposeRun payload i topic path) (in_state i RUNNING)" for topic path
    unfolding finishComposeRun_def by (fast intro: final_state run_state_calls)
  have launch: "ensures (launchProdCompose payload i missing) (in_state i RUNNING)" for missing
    unfolding launchProdCompose_def Let_def by (fast intro: final_state finish)
  have "ensures (runProdComposeApp payload i) (in_state i RUNNING)"
    unfolding runProdComposeApp_def Let_def by (fast intro: final_state launch ensures_bracket)
  moreover have "ensures (runDevComposeApp payload i) (in_state i RUNNING)"
    unfolding runDevComposeApp_def Let_def by (fast intro: final_state finish)
  ultimately have "ensures (runDevApp payload i) (in_state i RUNNING)" "ensures (runProdApp payload i) (in_state i RUNNING)"
    unfolding runDevApp_def runProdApp_def Let_def by (fast intro: final_state run_state_calls)+
  then show "deployed (pStage payload) \<Longrightarrow> ensures (runApp payload i) (in_state i RUNNING)"
    by (auto simp: runApp_def deployed_def)
qed

lemma recoverFailToPresent_reaches:
  "ensures (recoverFailToPresentHandler payload i) (in_state i (if pStage payload = DEV then BUILT else PRESENT))"
  unfolding recoverFailToPresentHandler_def
  by (cases "pStage payload = DEV"; simp only: if_True if_False simp_thms; fast intro: final_state buildApp_built pullApp_present)

lemma recoverFailToRunning_running:
  "deployed (pStage payload) \<Longrightarrow> ensures (recoverFailToRunningHandler payload i) (in_state i RUNNING)"
  unfolding recoverFailToRunningHandler_def by (intro ensures_bind runApp_running)

end
