(* ===== verification/StateMachine.thy ===== *)
theory StateMachine
  imports Running
begin

text \<open>
  \<^verbatim>\<open>src/apps/state_machine.go\<close>: the table of transition functions, and how a transition is
  started or canceled. The goroutine of \<^verbatim>\<open>executeTransition\<close> delivers the function's error on a
  channel: starting a transition and waiting for it is running the function (\<open>Some err\<close> is what
  the channel delivers, \<open>None\<close> the nil channel); a cancel nobody waits for is a task.
\<close>

section \<open>The table\<close>

definition getTransitionFunc :: "AppState \<Rightarrow> AppState \<Rightarrow> TransitionFunc option" where
  "getTransitionFunc prevState nextState = (case prevState of
     REMOVED \<Rightarrow> (case nextState of
         PRESENT \<Rightarrow> Some F_removedToPresent | RUNNING \<Rightarrow> Some F_removedToRunning | BUILT \<Rightarrow> Some F_buildApp
       | PUBLISHED \<Rightarrow> Some F_publishApp | UNINSTALLED \<Rightarrow> Some F_uninstallApp
       | REMOVED \<Rightarrow> Some F_noActionTransitionFunc | _ \<Rightarrow> None)
   | UNINSTALLED \<Rightarrow> (case nextState of
         PRESENT \<Rightarrow> Some F_pullApp | RUNNING \<Rightarrow> Some F_runApp | BUILT \<Rightarrow> Some F_buildApp
       | PUBLISHED \<Rightarrow> Some F_publishApp | UNINSTALLED \<Rightarrow> Some F_noActionTransitionFunc | _ \<Rightarrow> None)
   | PUBLISHING \<Rightarrow> (case nextState of REMOVED \<Rightarrow> Some F_cancelPush | _ \<Rightarrow> None)
   | BUILDING \<Rightarrow> (case nextState of REMOVED \<Rightarrow> Some F_cancelBuild | _ \<Rightarrow> None)
   | STOPPED \<Rightarrow> (case nextState of
         REMOVED \<Rightarrow> Some F_removeApp | UNINSTALLED \<Rightarrow> Some F_uninstallApp | RUNNING \<Rightarrow> Some F_runApp
       | BUILT \<Rightarrow> Some F_buildApp | PUBLISHED \<Rightarrow> Some F_publishApp
       | STOPPED \<Rightarrow> Some F_noActionTransitionFunc | _ \<Rightarrow> None)
   | PRESENT \<Rightarrow> (case nextState of
         REMOVED \<Rightarrow> Some F_removeApp | UNINSTALLED \<Rightarrow> Some F_uninstallApp | RUNNING \<Rightarrow> Some F_runApp
       | BUILT \<Rightarrow> Some F_buildApp | PUBLISHED \<Rightarrow> Some F_publishApp
       | PRESENT \<Rightarrow> Some F_noActionTransitionFunc | _ \<Rightarrow> None)
   | FAILED \<Rightarrow> (case nextState of
         REMOVED \<Rightarrow> Some F_removeApp | UNINSTALLED \<Rightarrow> Some F_uninstallApp
       | PRESENT \<Rightarrow> Some F_recoverFailToPresentHandler | RUNNING \<Rightarrow> Some F_recoverFailToRunningHandler
       | BUILT \<Rightarrow> Some F_buildApp | PUBLISHED \<Rightarrow> Some F_publishApp | _ \<Rightarrow> None)
   | BUILT \<Rightarrow> (case nextState of
         REMOVED \<Rightarrow> Some F_removeApp | UNINSTALLED \<Rightarrow> Some F_uninstallApp
       | PRESENT \<Rightarrow> Some F_noActionTransitionFunc | RUNNING \<Rightarrow> Some F_runApp
       | BUILT \<Rightarrow> Some F_buildApp | PUBLISHED \<Rightarrow> Some F_publishApp | _ \<Rightarrow> None)
   | TRANSFERED \<Rightarrow> (case nextState of
         REMOVED \<Rightarrow> Some F_removeApp | UNINSTALLED \<Rightarrow> Some F_uninstallApp | PRESENT \<Rightarrow> Some F_pullApp | _ \<Rightarrow> None)
   | TRANSFERING \<Rightarrow> (case nextState of
         REMOVED \<Rightarrow> Some F_cancelTransfer | UNINSTALLED \<Rightarrow> Some F_cancelTransfer | PRESENT \<Rightarrow> Some F_cancelTransfer | _ \<Rightarrow> None)
   | PUBLISHED \<Rightarrow> (case nextState of
         REMOVED \<Rightarrow> Some F_removeApp | UNINSTALLED \<Rightarrow> Some F_uninstallApp | RUNNING \<Rightarrow> Some F_runApp
       | PRESENT \<Rightarrow> Some F_noActionTransitionFunc | BUILT \<Rightarrow> Some F_buildApp | PUBLISHED \<Rightarrow> Some F_publishApp | _ \<Rightarrow> None)
   | RUNNING \<Rightarrow> (case nextState of
         RUNNING \<Rightarrow> Some F_noActionTransitionFunc | PRESENT \<Rightarrow> Some F_stopApp | BUILT \<Rightarrow> Some F_stopApp
       | PUBLISHED \<Rightarrow> Some F_removeAndPublishApp | REMOVED \<Rightarrow> Some F_removeApp | UNINSTALLED \<Rightarrow> Some F_uninstallApp | _ \<Rightarrow> None)
   | DOWNLOADING \<Rightarrow> (case nextState of
         PRESENT \<Rightarrow> Some F_pullApp | REMOVED \<Rightarrow> Some F_cancelPull | UNINSTALLED \<Rightarrow> Some F_cancelPull | _ \<Rightarrow> None)
   | STARTING \<Rightarrow> (case nextState of
         PRESENT \<Rightarrow> Some F_stopApp | REMOVED \<Rightarrow> Some F_removeApp | UNINSTALLED \<Rightarrow> Some F_uninstallApp
       | RUNNING \<Rightarrow> Some F_runApp | _ \<Rightarrow> None)
   | STOPPING \<Rightarrow> (case nextState of
         PRESENT \<Rightarrow> Some F_stopApp | REMOVED \<Rightarrow> Some F_removeApp | UNINSTALLED \<Rightarrow> Some F_uninstallApp
       | RUNNING \<Rightarrow> Some F_runApp | _ \<Rightarrow> None)
   | UPDATING \<Rightarrow> (case nextState of
         PRESENT \<Rightarrow> Some F_cancelUpdate | REMOVED \<Rightarrow> Some F_cancelUpdateAndRemove
       | UNINSTALLED \<Rightarrow> Some F_cancelUpdateAndUninstall | RUNNING \<Rightarrow> None | _ \<Rightarrow> None)
   | DELETING \<Rightarrow> (case nextState of
         PRESENT \<Rightarrow> None | REMOVED \<Rightarrow> Some F_removeApp | UNINSTALLED \<Rightarrow> Some F_uninstallApp | RUNNING \<Rightarrow> None | _ \<Rightarrow> None)
   | OtherState _ \<Rightarrow> None)"

text \<open>Calling a transition function.\<close>

definition runTransitionFunc :: "TransitionFunc \<Rightarrow> TransitionPayload \<Rightarrow> nat \<Rightarrow> err prog" where
  "runTransitionFunc f = (case f of
     F_removedToPresent \<Rightarrow> removedToPresent | F_removedToRunning \<Rightarrow> removedToRunning | F_buildApp \<Rightarrow> buildApp
   | F_publishApp \<Rightarrow> publishApp | F_uninstallApp \<Rightarrow> uninstallApp | F_noActionTransitionFunc \<Rightarrow> noActionTransitionFunc
   | F_pullApp \<Rightarrow> pullApp | F_runApp \<Rightarrow> runApp | F_cancelPush \<Rightarrow> cancelPush | F_cancelBuild \<Rightarrow> cancelBuild
   | F_removeApp \<Rightarrow> removeApp | F_recoverFailToPresentHandler \<Rightarrow> recoverFailToPresentHandler
   | F_recoverFailToRunningHandler \<Rightarrow> recoverFailToRunningHandler | F_cancelTransfer \<Rightarrow> cancelTransfer
   | F_stopApp \<Rightarrow> stopApp | F_removeAndPublishApp \<Rightarrow> removeAndPublishApp | F_cancelPull \<Rightarrow> cancelPull
   | F_cancelUpdate \<Rightarrow> cancelUpdate | F_cancelUpdateAndRemove \<Rightarrow> cancelUpdateAndRemove
   | F_cancelUpdateAndUninstall \<Rightarrow> cancelUpdateAndUninstall | F_updateApp \<Rightarrow> updateApp)"

section \<open>Starting and canceling\<close>

definition getUpdateTransition :: "TransitionPayload \<Rightarrow> nat \<Rightarrow> TransitionFunc option" where
  "getUpdateTransition payload app = Some F_updateApp"

definition emergencyError :: "TransitionPayload \<Rightarrow> go_error" where
  "emergencyError payload = Msg (''disk emergency: device is critically low on storage; refusing to transition ''
     @ pAppName payload @ '' ('' @ Stage_string (pStage payload) @ '') to '' @ AppState_string (pRequestedState payload))"

definition chosenTransition :: "App \<Rightarrow> TransitionPayload \<Rightarrow> nat \<Rightarrow> TransitionFunc option" where
  "chosenTransition a payload app =
     (if pRequestUpdate payload \<and> pNewestVersion payload \<noteq> aVersion a \<and> pRequestedState payload \<noteq> UNINSTALLED
      then getUpdateTransition payload app
      else getTransitionFunc (aCurrentState a) (pRequestedState payload))"

definition executeTransition :: "TransitionFunc \<Rightarrow> TransitionPayload \<Rightarrow> nat \<Rightarrow> err option prog" where
  "executeTransition f payload app = do { e \<leftarrow> runTransitionFunc f payload app; ret (Some e) }"

definition InitTransition :: "nat \<Rightarrow> TransitionPayload \<Rightarrow> err option prog" where
  "InitTransition app payload = do {
     emergency \<leftarrow> gets wEmergency;
     if emergency \<and> IsDiskGrowingState (pRequestedState payload) then ret (Some (Some (emergencyError payload)))
     else do {
       a \<leftarrow> app_at app;
       case chosenTransition a payload app of
         None \<Rightarrow> ret None
       | Some f \<Rightarrow> executeTransition f payload app }}"

text \<open>The result tells whether a channel was returned; its caller does not read from it.\<close>

definition CancelTransition :: "nat \<Rightarrow> TransitionPayload \<Rightarrow> bool prog" where
  "CancelTransition app payload = do {
     a \<leftarrow> app_at app;
     case getTransitionFunc (aCurrentState a) (pRequestedState payload) of
       None \<Rightarrow> ret False
     | Some f \<Rightarrow> do { _ \<leftarrow> spawn (CancelTask app payload f); ret True } }"

section \<open>Every transition keeps the relations\<close>

context transition_relation
begin

lemma runTransitionFunc_keeps: "keeps R (runTransitionFunc f p i)"
  unfolding runTransitionFunc_def noActionTransitionFunc_def
  by (cases f) (simp_all add: stopApp_keeps removeApp_keeps uninstallApp_keeps pullApp_keeps removedToPresent_keeps
      cancel_keeps updateApp_keeps buildApp_keeps publishApp_keeps removeAndPublishApp_keeps runApp_keeps
      recover_keeps keeps_return)

lemma InitTransition_keeps: "keeps R (InitTransition i p)"
  unfolding InitTransition_def executeTransition_def by (intro keeps_intros runTransitionFunc_keeps)

end

text \<open>
  C6: whatever transition runs for an app, however it ends, no other app object, no row of
  another app, no transition lock, no configuration and no credential key changes, no crash loop
  and no task is touched, and the calls made before stay made.
\<close>

theorem transition_isolated:
  assumes "run_state (InitTransition i p) w = (r, w')" and "payload_of i p w"
  shows "app_frame i w w'"
  using keepsD [OF owned.InitTransition_keeps assms(1)] assms(2) by (simp add: owned_frame_def)

text \<open>
  A transition never leaves behind a registered compose cancel function it had not found
  there, on no path through it, and the host port registry stays a reachable one, so that its
  exclusiveness holds after every transition.
\<close>

theorem transition_registries:
  assumes "run_state (InitTransition i p) w = (r, w')"
  shows "set (wComposeCancels w') \<subseteq> set (wComposeCancels w)
    \<and> (registry_reachable (wHostPorts w) \<longrightarrow> registry_reachable (wHostPorts w'))"
  using keepsD [OF cancels.InitTransition_keeps assms] keepsD [OF ports.InitTransition_keeps assms] by simp


text \<open>A running app, on a device that answers every call and reports a removed container as gone.\<close>

definition stop_world :: world where
  "stop_world = demo_world\<lparr>wApps := [demo_app], wExt := (\<lambda>_ c. case c of Ext name _ \<Rightarrow>
     if name = ''Container.PollContainerState'' then ok_reply\<lparr>rpErr := Some (Msg ''no such container'')\<rparr> else ok_reply)\<rparr>"

definition stop_payload :: TransitionPayload where
  "stop_payload = demo_payload\<lparr>pRequestedState := PRESENT\<rparr>"

theorem transition_isolated_witness:
  "app_frame 0 stop_world (snd (run_state (InitTransition 0 stop_payload) stop_world))"
proof -
  have "payload_of 0 stop_payload stop_world" by code_simp
  then show ?thesis by (rule transition_isolated [rotated]) (rule prod.collapse [symmetric])
qed

theorem transition_registries_witness:
  "let w' = snd (run_state (InitTransition 0 stop_payload) stop_world) in
     set (wComposeCancels w') \<subseteq> {} \<and> registry_reachable (wHostPorts w')"
proof -
  have "registry_reachable (wHostPorts stop_world)"
    by (simp add: stop_world_def demo_world_def registry_reachable.init)
  moreover have "set (wComposeCancels stop_world) = {}" by (simp add: stop_world_def demo_world_def)
  ultimately show ?thesis
    using transition_registries [OF prod.collapse [symmetric], of 0 stop_payload stop_world] by simp
qed


section \<open>A disk emergency\<close>

text \<open>Calls that download, build or start something.\<close>

definition diskGrowingCalls :: "string list" where
  "diskGrowingCalls = [''Container.Pull'', ''Container.Build'', ''Container.Push'', ''Container.CreateContainer'',
     ''Container.StartContainer'', ''Compose.PullContext'', ''Compose.PullIgnoreBuildable'', ''Compose.Build'',
     ''Compose.Push'', ''Compose.Up'', ''Compose.UpNoBuild'']"

abbreviation sparing :: "world \<Rightarrow> world \<Rightarrow> bool" where
  "sparing \<equiv> calls_in (- set diskGrowingCalls)"

lemma sparing_ext:
  "name \<notin> set diskGrowingCalls \<Longrightarrow> keeps sparing (ext name args)"
  "name \<notin> set diskGrowingCalls \<Longrightarrow> keeps sparing (extE name args)"
  by (simp_all add: calls_ext calls_extE)

lemma sparing_setState: "keeps sparing (setState i st)"
  unfolding setState_def Notify_def NotifyLocal_def NotifyRemote_def UpdateLocalAppState_def UpdateRemoteAppState_def
    UpsertAppState_def upsertLocked_def insertAppState_def syncRequestedState_def GetRequestedState_def
    UpsertRequestedStateChange_def DeleteAppState_def DeleteRequestedState_def Let_def
  by (intro calls.keeps_flow calls_modify calls_app_upd sparing_ext; simp add: diskGrowingCalls_def)

lemma sparing_calls:
  "keeps sparing (LogWrite topic msg)" "keeps sparing (ClearLogHistory topic)" "keeps sparing (GetContainer name)"
  "keeps sparing (RemoveContainerByID cid)" "keeps sparing ComposeSupported" "keeps sparing (CancelStream sid)"
  "keeps sparing (cancelComposeTransition s k)"
  unfolding LogWrite_def ClearLogHistory_def GetContainer_def RemoveContainerByID_def ComposeSupported_def CancelStream_def
    cancelComposeTransition_def
  by (intro calls.keeps_flow sparing_ext; simp add: diskGrowingCalls_def)+

lemma sparing_with_registry: "keeps sparing (with_registry f)"
  by (simp add: keeps_def with_registry_run calls_in_def)

lemma sparing_setup: "keeps sparing (SetupComposeFiles payload app updating)"
proof -
  have env: "keeps sparing (writeEnvironmentVariablesToFiles dir vars)" for dir vars
    unfolding writeEnvironmentVariablesToFiles_def wrapped_def WriteFile_def Let_def
    by (intro calls.keeps_steps) (auto simp: split_beta intro!: calls.keeps_flow sparing_ext; simp add: diskGrowingCalls_def)
  show ?thesis
    unfolding SetupComposeFiles_def writeComposeFiles_def publishedComposeHostPorts_def wrapped_def WriteFile_def
    by (intro calls.keeps_flow sparing_calls sparing_with_registry env sparing_ext; simp add: diskGrowingCalls_def)
qed

lemmas sparing_intros = calls.keeps_flow sparing_setState sparing_calls sparing_with_registry sparing_setup sparing_ext

lemma sparing_remove: "keeps sparing (removeApp payload i)"
proof -
  have removal: "keeps sparing (steps (map (\<lambda>img. extE ''Container.RemoveImage'' [fst img]) imgs @ [setState i st, LogWrite topic msg]))"
    for imgs :: "(string \<times> string list) list" and st topic msg
    by (intro calls.keeps_steps) (auto intro!: sparing_setState sparing_calls sparing_ext; simp add: diskGrowingCalls_def)
  show ?thesis
    unfolding removeApp_def removeComposeApp_def removeProdApp_def removeDevApp_def removeSingleApp_def removeContainerIfAny_def Let_def
    by (intro removal sparing_intros; simp add: diskGrowingCalls_def)
qed

lemma sparing_uninstall: "keeps sparing (uninstallApp payload i)"
  unfolding uninstallApp_def removeAppFiles_def
  by (intro sparing_intros sparing_remove; simp add: diskGrowingCalls_def)

lemma sparing_cancel:
  "keeps sparing (cancelBuild payload i)" "keeps sparing (cancelPull payload i)" "keeps sparing (cancelPush payload i)"
  "keeps sparing (cancelUpdateAndRemove payload i)" "keeps sparing (cancelUpdateAndUninstall payload i)"
  "keeps sparing (cancelTransfer payload i)"
  unfolding cancelBuild_def cancelPull_def cancelPush_def cancelUpdateAndRemove_def cancelUpdateAndUninstall_def
    cancelTransfer_def cancelActiveUpdate_def markUpdateCanceled_def
  by (intro sparing_intros calls_app_upd sparing_remove sparing_uninstall; simp add: diskGrowingCalls_def)+

text \<open>Requests that do not grow the disk only lead to functions that remove or cancel.\<close>

lemma freeing_function:
  assumes "getTransitionFunc s t = Some f" and "\<not> IsDiskGrowingState t"
  shows "f \<in> {F_uninstallApp, F_noActionTransitionFunc, F_removeApp, F_cancelPush, F_cancelBuild, F_cancelTransfer,
    F_cancelPull, F_cancelUpdateAndRemove, F_cancelUpdateAndUninstall}"
  using assms by (cases s; cases t) (simp_all add: getTransitionFunc_def IsDiskGrowingState_def)

lemma sparing_function:
  assumes "getTransitionFunc s t = Some f" and "\<not> IsDiskGrowingState t"
  shows "keeps sparing (runTransitionFunc f payload i)"
  using freeing_function [OF assms]
  by (auto simp: runTransitionFunc_def noActionTransitionFunc_def calls.keeps_return sparing_uninstall sparing_remove sparing_cancel)

text \<open>
  C5: while the device is in a disk emergency, starting a transition that is not an update makes
  no call that downloads, builds, pushes, creates or starts anything; a request for a state that
  grows the disk is refused with an error, without any effect.
\<close>

theorem emergency_never_grows:
  assumes "wEmergency w" and "\<not> pRequestUpdate p" and "run_state (InitTransition i p) w = (r, w')"
  shows "calls_in (- set diskGrowingCalls) w w'
    \<and> (IsDiskGrowingState (pRequestedState p) \<longrightarrow> r = Some (Some (emergencyError p)) \<and> w' = w)"
proof (cases "IsDiskGrowingState (pRequestedState p)")
  case True
  with assms show ?thesis
    by (simp add: InitTransition_def gets_def run_bind State_Monad.get_def State_Monad.return_def calls.R_refl)
next
  case False
  have "keeps sparing (case chosenTransition a p i of None \<Rightarrow> ret None | Some f \<Rightarrow> executeTransition f p i)" for a
    using sparing_function [OF _ False] assms(2)
    by (auto simp: chosenTransition_def executeTransition_def split: option.split intro!: calls.keeps_flow)
  then have "keeps sparing (do { a \<leftarrow> app_at i;
      case chosenTransition a p i of None \<Rightarrow> ret None | Some f \<Rightarrow> executeTransition f p i })"
    by (rule calls.keeps_bind [OF calls.keeps_app_at])
  moreover have "run_state (do { a \<leftarrow> app_at i;
      case chosenTransition a p i of None \<Rightarrow> ret None | Some f \<Rightarrow> executeTransition f p i }) w = (r, w')"
    using assms False by (simp add: InitTransition_def gets_def run_bind State_Monad.get_def State_Monad.return_def)
  ultimately show ?thesis using False by (auto dest: keepsD)
qed

theorem emergency_never_grows_witness:
  "let w = stop_world\<lparr>wEmergency := True\<rparr>; (r, w') = run_state (InitTransition 0 (stop_payload\<lparr>pRequestedState := RUNNING\<rparr>)) w
   in r \<noteq> None \<and> the r \<noteq> None \<and> w' = w"
proof -
  let ?w = "stop_world\<lparr>wEmergency := True\<rparr>" and ?p = "stop_payload\<lparr>pRequestedState := RUNNING\<rparr>"
  have p: "\<not> pRequestUpdate ?p" by code_simp
  have grow: "IsDiskGrowingState (pRequestedState ?p)" by code_simp
  have "wEmergency ?w" by simp
  from emergency_never_grows [OF this p, of 0] grow show ?thesis
    unfolding Let_def by (auto split: prod.split)
qed

text \<open>An update requested together with a removal passes the gate and downloads.\<close>

definition update_payload :: TransitionPayload where
  "update_payload = demo_payload\<lparr>pRequestedState := REMOVED, pRequestUpdate := True, pNewestVersion := ''2''\<rparr>"

lemma update_passes_emergency:
  "chosenTransition demo_app update_payload 0 = Some F_updateApp \<and> \<not> IsDiskGrowingState (pRequestedState update_payload)"
  by (simp add: chosenTransition_def update_payload_def getUpdateTransition_def IsDiskGrowingState_def demo_app_def)

section \<open>A transition reaches what was requested\<close>

text \<open>
  The state a transition from \<open>prev\<close> ends in when it succeeds: the requested one, but for stopping
  instead of building, a canceled transfer or download, and the recovery of a developer app,
  which is built.
\<close>

definition reachedState :: "TransitionPayload \<Rightarrow> AppState \<Rightarrow> AppState" where
  "reachedState payload prev =
     (if prev = TRANSFERING then REMOVED
      else if prev = RUNNING \<and> pRequestedState payload = BUILT then PRESENT
      else if prev = FAILED \<and> pRequestedState payload = PRESENT \<and> pStage payload = DEV then BUILT
      else if prev = DOWNLOADING \<and> pRequestedState payload = UNINSTALLED \<and> pDockerCompose payload = None then REMOVED
      else pRequestedState payload)"

text \<open>With a condition on the world before that the programs on the way keep.\<close>

definition ensures_from :: "(world \<Rightarrow> bool) \<Rightarrow> err prog \<Rightarrow> (world \<Rightarrow> bool) \<Rightarrow> bool" where
  "ensures_from P m Q \<longleftrightarrow> (\<forall>w w'. P w \<longrightarrow> run_state m w = (None, w') \<longrightarrow> Q w')"

lemma ensures_from_ensures: "ensures m Q \<Longrightarrow> ensures_from P m Q"
  by (simp add: ensures_def ensures_from_def)

lemma ensures_from_Cons:
  assumes "keeps R m" and "\<And>u v. R u v \<Longrightarrow> P u \<Longrightarrow> P v" and "ensures_from P (steps ms) Q"
  shows "ensures_from P (steps (m # ms)) Q"
  using assms unfolding ensures_from_def run_steps_Cons by (auto split: prod.splits option.splits dest!: keepsD)

lemma ensures_from_last: "ensures_from P m Q \<Longrightarrow> ensures_from P (steps [m]) Q"
  unfolding ensures_from_def run_steps_Cons by (auto simp: State_Monad.return_def split: prod.splits option.splits)

definition ready :: "nat \<Rightarrow> TransitionPayload \<Rightarrow> world \<Rightarrow> bool" where
  "ready i p w \<longleftrightarrow> i < length (wApps w) \<and> payload_of i p w \<and> deployed (pStage p)"

lemma ready_frame: "owned_frame i p u v \<Longrightarrow> ready i p u \<Longrightarrow> ready i p v"
  by (auto simp: ready_def owned_frame_def app_frame_def apps_frame_def dest: ident_length
      intro: payload_of_frame [of i u v] simp del: length_map)

lemma ready_remove: "ensures_from (ready i p) (removeApp p i) (in_state i REMOVED)"
  by (auto simp: ensures_from_def ready_def payload_of_def in_stage_def intro: removeApp_removed)

lemmas ready_intros = ensures_from_Cons [OF _ ready_frame] ensures_from_last ready_remove

lemma ready_cancelPull:
  "ensures_from (ready i p) (cancelPull p i)
     (in_state i (if pRequestedState p = UNINSTALLED \<and> pDockerCompose p \<noteq> None then UNINSTALLED else REMOVED))"
  unfolding cancelPull_def
  by (auto simp del: steps.simps intro!: ensures_from_ensures [OF ensures_Some]
      ready_intros owned.transition_intros ensures_from_ensures [OF uninstallApp_uninstalled]
      ensures_from_ensures [OF setState_ensures] owned.cancels_keep)

lemma ready_cancelUpdateAndRemove: "ensures_from (ready i p) (cancelUpdateAndRemove p i) (in_state i REMOVED)"
  unfolding cancelUpdateAndRemove_def by (fast intro: ready_intros owned.cancels_keep)

lemma noAction_never: "ensures (noActionTransitionFunc p i) Q"
  by (simp add: noActionTransitionFunc_def NoActionTransition_def ensures_Some)

text \<open>What each function of the table leads to.\<close>

definition function_goal :: "TransitionFunc \<Rightarrow> TransitionPayload \<Rightarrow> AppState" where
  "function_goal f p = (case f of
     F_removedToPresent \<Rightarrow> PRESENT | F_removedToRunning \<Rightarrow> RUNNING | F_buildApp \<Rightarrow> BUILT | F_publishApp \<Rightarrow> PUBLISHED
   | F_uninstallApp \<Rightarrow> UNINSTALLED | F_noActionTransitionFunc \<Rightarrow> NoState | F_pullApp \<Rightarrow> PRESENT | F_runApp \<Rightarrow> RUNNING
   | F_cancelPush \<Rightarrow> REMOVED | F_cancelBuild \<Rightarrow> REMOVED | F_removeApp \<Rightarrow> REMOVED
   | F_recoverFailToPresentHandler \<Rightarrow> (if pStage p = DEV then BUILT else PRESENT)
   | F_recoverFailToRunningHandler \<Rightarrow> RUNNING | F_cancelTransfer \<Rightarrow> REMOVED | F_stopApp \<Rightarrow> PRESENT
   | F_removeAndPublishApp \<Rightarrow> PUBLISHED
   | F_cancelPull \<Rightarrow> (if pRequestedState p = UNINSTALLED \<and> pDockerCompose p \<noteq> None then UNINSTALLED else REMOVED)
   | F_cancelUpdate \<Rightarrow> PRESENT | F_cancelUpdateAndRemove \<Rightarrow> REMOVED | F_cancelUpdateAndUninstall \<Rightarrow> UNINSTALLED
   | F_updateApp \<Rightarrow> PRESENT)"

lemma function_reaches:
  assumes "f \<noteq> F_noActionTransitionFunc" and "f = F_removeAndPublishApp \<longrightarrow> pStage p = DEV"
  shows "ensures_from (ready i p) (runTransitionFunc f p i) (in_state i (function_goal f p))"
proof -
  have dep: "ensures_from (ready i p) m Q" if "deployed (pStage p) \<Longrightarrow> ensures m Q" for m Q
    using that by (auto simp: ensures_from_def ensures_def ready_def)
  show ?thesis
    using assms
    by (cases f)
      (simp_all only: runTransitionFunc_def function_goal_def TransitionFunc.case removedToRunning_def simp_thms,
       (rule ready_remove ready_cancelPull ready_cancelUpdateAndRemove | assumption
        | (rule dep, rule removedToPresent_present runApp_running buildApp_built publishApp_published uninstallApp_uninstalled
             pullApp_present cancel_removed recoverFailToPresent_reaches recoverFailToRunning_running stopApp_present
             removeAndPublishApp_published updateApp_present))+)
qed

text \<open>
  C3: a transition taken from the table for an app with a matching payload, once it returns
  without an error, has the app in the state the request asked for, with the exceptions
  \<open>reachedState\<close> names.
\<close>

theorem transition_reaches_requested:
  assumes "getTransitionFunc (aCurrentState (wApps w ! i)) (pRequestedState p) = Some f"
    and "run_state (runTransitionFunc f p i) w = (None, w')" and "ready i p w"
    and "f = F_removeAndPublishApp \<longrightarrow> pStage p = DEV"
  shows "aCurrentState (wApps w' ! i) = reachedState p (aCurrentState (wApps w ! i))"
proof -
  have act: "f \<noteq> F_noActionTransitionFunc"
    using assms(2) noAction_never [of p i "\<lambda>_. False"] by (auto simp: runTransitionFunc_def ensures_def)
  have "in_state i (function_goal f p) w'"
    using function_reaches [OF act assms(4), of i] assms(2,3) by (auto simp: ensures_from_def)
  moreover have "ready i p w'"
    using keepsD [OF owned.runTransitionFunc_keeps assms(2)] assms(3) by (rule ready_frame)
  moreover have "function_goal f p = reachedState p (aCurrentState (wApps w ! i))"
    using assms(1) act
    by (cases "aCurrentState (wApps w ! i)"; cases "pRequestedState p")
      (auto simp: getTransitionFunc_def function_goal_def reachedState_def)
  ultimately show ?thesis by (simp add: in_state_def ready_def)
qed

theorem transition_reaches_requested_witness:
  "fst (run_state (runTransitionFunc F_stopApp stop_payload 0) stop_world) = None
   \<and> aCurrentState (wApps (snd (run_state (runTransitionFunc F_stopApp stop_payload 0) stop_world)) ! 0) = PRESENT"
proof -
  have ok: "fst (run_state (runTransitionFunc F_stopApp stop_payload 0) stop_world) = None" by code_simp
  then have run: "run_state (runTransitionFunc F_stopApp stop_payload 0) stop_world
    = (None, snd (run_state (runTransitionFunc F_stopApp stop_payload 0) stop_world))"
    by (simp add: prod_eq_iff)
  have "ready 0 stop_payload stop_world" by code_simp
  moreover have "getTransitionFunc (aCurrentState (wApps stop_world ! 0)) (pRequestedState stop_payload) = Some F_stopApp" by code_simp
  moreover have "reachedState stop_payload (aCurrentState (wApps stop_world ! 0)) = PRESENT" by code_simp
  ultimately show ?thesis using ok transition_reaches_requested [OF _ run] by simp
qed

section \<open>Gaps in the table\<close>

text \<open>
  Which requests the table leaves without a function. An app can be uninstalled from every
  state but while building or publishing, removed from every state but uninstalled, and every
  state that can be canceled has a function for the removal that cancels it; an app that is
  deleting or updating cannot be started.
\<close>

theorem table_gaps:
  "(getTransitionFunc s UNINSTALLED = None \<longleftrightarrow> s = BUILDING \<or> s = PUBLISHING \<or> (\<exists>t. s = OtherState t))
   \<and> (getTransitionFunc s REMOVED = None \<longleftrightarrow> s = UNINSTALLED \<or> (\<exists>t. s = OtherState t))
   \<and> (getTransitionFunc s RUNNING = None \<longleftrightarrow> s = BUILDING \<or> s = PUBLISHING \<or> s = DOWNLOADING \<or> s = TRANSFERED
        \<or> s = TRANSFERING \<or> s = UPDATING \<or> s = DELETING \<or> (\<exists>t. s = OtherState t))"
  by (cases s) (simp_all add: getTransitionFunc_def)

end
