(* ===== verification/CrashLoops.thy ===== *)
theory CrashLoops
  imports StateMachine Complex_Main
begin

text \<open>
  \<^verbatim>\<open>src/apps/crashloop.go\<close>: how long a failed app waits before the next attempt, and the set of
  crash loops. The set of pointers is a list; the pointer is found by app and stage, and what is
  done to it under one lock or right after it is one step.
\<close>

section \<open>The time between attempts\<close>

text \<open>
  Durations are 64-bit counts of nanoseconds; \<open>u\<close> in \<open>[0, 1)\<close> is what \<^verbatim>\<open>jitterRand.Float64\<close> returns.
  The product with the jitter is rounded down; the rounding of float64 itself is not modelled.
\<close>

definition Second :: int where
  "Second = 1000000000"

definition Hour :: int where
  "Hour = 3600 * Second"

definition clampRetries :: "uint64 \<Rightarrow> uint64" where
  "clampRetries retries = (if retries = 0 then 1 else if retries > 100 then 100 else retries)"

definition loopSleepBase :: "uint64 \<Rightarrow> int" where
  "loopSleepBase retries =
     (let r = uint (clampRetries retries); sleepTime = signed_take_bit 63 (Second * 5 * r * r)
      in if sleepTime > Hour then Hour else sleepTime)"

definition calculateLoopSleepTime :: "rat \<Rightarrow> uint64 \<Rightarrow> int" where
  "calculateLoopSleepTime u retries = \<lfloor>of_int (loopSleepBase retries) * (4 / 5 + u * (2 / 5))\<rfloor>"

section \<open>The set of crash loops\<close>

definition loop_of :: "uint64 \<Rightarrow> Stage \<Rightarrow> CrashLoop \<Rightarrow> bool" where
  "loop_of appKey stage c \<longleftrightarrow> pStage (clPayload c) = stage \<and> pAppKey (clPayload c) = appKey"

fun remove_first :: "('a \<Rightarrow> bool) \<Rightarrow> 'a list \<Rightarrow> 'a list" where
  "remove_first P [] = []"
| "remove_first P (x # xs) = (if P x then xs else x # remove_first P xs)"

fun update_first :: "('a \<Rightarrow> bool) \<Rightarrow> ('a \<Rightarrow> 'a) \<Rightarrow> 'a list \<Rightarrow> 'a list" where
  "update_first P f [] = []"
| "update_first P f (x # xs) = (if P x then f x # xs else x # update_first P f xs)"

definition clearCrashLoop :: "uint64 \<Rightarrow> Stage \<Rightarrow> unit prog" where
  "clearCrashLoop appKey stage =
     modify (\<lambda>w. w\<lparr>wCrashLoops := remove_first (loop_of appKey stage) (wCrashLoops w)\<rparr>)"

text \<open>\<^verbatim>\<open>retry\<close>: count the attempt of the task found for an app and start its sleeper.\<close>

definition retry :: "CrashLoop \<Rightarrow> uint64 prog" where
  "retry crashTask = do {
     let retries = clRetries crashTask + 1;
     _ \<leftarrow> modify (\<lambda>w. w\<lparr>wCrashLoops := update_first (loop_of (pAppKey (clPayload crashTask)) (pStage (clPayload crashTask)))
             (\<lambda>c. c\<lparr>clRetries := retries\<rparr>) (wCrashLoops w)\<rparr>);
     _ \<leftarrow> spawn (RetryTask (clPayload crashTask) retries);
     ret retries }"

definition jitter_now :: "rat prog" where
  "jitter_now = do { r \<leftarrow> ext ''jitterRand.Float64'' []; ret (of_int (rpNum r) / 2 ^ 53) }"

definition incrementCrashLoop :: "TransitionPayload \<Rightarrow> (uint64 \<times> int) prog" where
  "incrementCrashLoop payload = do {
     loops \<leftarrow> gets wCrashLoops;
     retries \<leftarrow> (case find (loop_of (pAppKey payload) (pStage payload)) loops of
         Some existingCrash \<Rightarrow> retry existingCrash
       | None \<Rightarrow> do {
           let crashLoopTask = \<lparr>clPayload = payload\<lparr>pRetrying := True\<rparr>, clRetries = 0\<rparr>;
           _ \<leftarrow> modify (\<lambda>w. w\<lparr>wCrashLoops := wCrashLoops w @ [crashLoopTask]\<rparr>);
           retry crashLoopTask });
     u \<leftarrow> jitter_now;
     ret (retries, calculateLoopSleepTime u retries) }"

section \<open>Bounds of the waiting time\<close>

lemma uint_clampRetries: "uint (clampRetries retries) = min 100 (max 1 (uint retries))"
proof (cases "retries = 0")
  case True
  then show ?thesis by (simp add: clampRetries_def)
next
  case False
  then have "1 \<le> uint retries" by (metis int_one_le_iff_zero_less uint_0_iff uint_ge_0 le_less)
  with False show ?thesis by (auto simp: clampRetries_def word_less_def)
qed

lemma loopSleepBase_eq:
  "loopSleepBase retries = min Hour (5 * Second * (min 100 (max 1 (uint retries)))\<^sup>2)"
proof -
  let ?r = "uint (clampRetries retries)"
  have r: "1 \<le> ?r" "?r \<le> 100" by (simp_all add: uint_clampRetries)
  have "?r * ?r \<le> 100 * 100" using r by (intro mult_mono) auto
  moreover have "1 * 1 \<le> ?r * ?r" using r by (intro mult_mono) auto
  ultimately have "signed_take_bit 63 (Second * 5 * ?r * ?r) = Second * 5 * ?r * ?r"
    by (intro signed_take_bit_int_eq_self) (auto simp: Second_def algebra_simps)
  then show ?thesis
    by (simp add: loopSleepBase_def Let_def power2_eq_square min_def [of Hour] uint_clampRetries mult.assoc)
qed

lemma loopSleepBase_mono:
  assumes "retries \<le> r'"
  shows "loopSleepBase retries \<le> loopSleepBase r'"
proof -
  let ?f = "\<lambda>r. min 100 (max 1 (uint r))"
  have "?f retries \<le> ?f r'" using assms by (simp add: word_le_def)
  moreover have "0 \<le> ?f retries" by simp
  ultimately have "(?f retries)\<^sup>2 \<le> (?f r')\<^sup>2" by (rule power_mono)
  then show ?thesis unfolding loopSleepBase_eq by (intro min.mono mult_left_mono) (simp_all add: Second_def)
qed

lemma loopSleepBase_bounds: "5 * Second \<le> loopSleepBase retries \<and> loopSleepBase retries \<le> Hour"
proof -
  have "1 \<le> (min 100 (max 1 (uint retries)))\<^sup>2" by (simp add: one_le_power)
  then show ?thesis unfolding loopSleepBase_eq by (simp add: Hour_def Second_def)
qed

text \<open>
  The pause before an attempt is between four seconds and 72 minutes, its base is five
  seconds times the square of the attempt up to one hour, without an overflow of the 64-bit
  duration, and it never shrinks from one attempt to the next.
\<close>

theorem crash_loop_sleep_bounds:
  assumes "0 \<le> u" and "u < 1"
  shows "4 * Second \<le> calculateLoopSleepTime u retries \<and> calculateLoopSleepTime u retries \<le> 72 * 60 * Second
    \<and> loopSleepBase retries = min Hour (5 * Second * (min 100 (max 1 (uint retries)))\<^sup>2)
    \<and> (\<forall>r' \<ge> retries. loopSleepBase retries \<le> loopSleepBase r')"
proof -
  let ?b = "loopSleepBase retries" and ?j = "4 / 5 + u * (2 / 5) :: rat"
  have j: "4 / 5 \<le> ?j" "?j \<le> 6 / 5" using assms by simp_all
  have b: "5 * Second \<le> ?b" "?b \<le> Hour" using loopSleepBase_bounds by auto
  have "of_int (5 * Second) * (4 / 5) \<le> of_int ?b * ?j"
    using b(1) j by (intro mult_mono) (simp_all add: Second_def del: of_int_mult)
  then have low: "of_int (4 * Second) \<le> of_int ?b * ?j" by simp
  have "of_int ?b * ?j \<le> of_int Hour * (6 / 5)"
    using b j by (intro mult_mono) (simp_all add: Hour_def Second_def)
  then have "of_int ?b * ?j \<le> of_int (72 * 60 * Second)" by (simp add: Hour_def)
  with low show ?thesis
    unfolding calculateLoopSleepTime_def using loopSleepBase_eq loopSleepBase_mono
    by (auto simp: le_floor_iff floor_le_iff)
qed

theorem crash_loop_sleep_bounds_witness:
  "4 * Second \<le> calculateLoopSleepTime (1 / 2) 30 \<and> calculateLoopSleepTime (1 / 2) 30 \<le> 72 * 60 * Second"
  using crash_loop_sleep_bounds [of "1 / 2" 30] by simp

section \<open>One loop per app\<close>

definition loop_key :: "CrashLoop \<Rightarrow> uint64 \<times> Stage" where
  "loop_key c = (pAppKey (clPayload c), pStage (clPayload c))"

text \<open>At most one loop per app, and every loop's payload asks for a retry.\<close>

definition loops_inv :: "world \<Rightarrow> bool" where
  "loops_inv w \<longleftrightarrow> distinct (map loop_key (wCrashLoops w)) \<and> (\<forall>c\<in>set (wCrashLoops w). pRetrying (clPayload c))"

lemma loop_of_key: "loop_of k s c \<longleftrightarrow> loop_key c = (k, s)"
  by (auto simp: loop_of_def loop_key_def)

lemma remove_first_subset: "set (remove_first P xs) \<subseteq> set xs"
  by (induction xs) auto

lemma map_update_first: "(\<And>x. g (f x) = g x) \<Longrightarrow> map g (update_first P f xs) = map g xs"
  by (induction xs) auto

lemma find_update_first: "(\<And>x. P (f x) = P x) \<Longrightarrow> find P (update_first P f xs) = map_option f (find P xs)"
  by (induction xs) auto

lemma filter_update_first: "(\<And>x. P x \<Longrightarrow> \<not> Q x) \<Longrightarrow> (\<And>x. P (f x) = P x) \<Longrightarrow> filter Q (update_first P f xs) = filter Q xs"
  by (induction xs) auto

lemma all_update_first: "(\<And>x. Q x \<Longrightarrow> Q (f x)) \<Longrightarrow> \<forall>x\<in>set xs. Q x \<Longrightarrow> \<forall>x\<in>set (update_first P f xs). Q x"
  by (induction xs) auto

lemma distinct_remove_first: "distinct (map g xs) \<Longrightarrow> distinct (map g (remove_first P xs))"
  by (induction xs) (auto dest: subsetD [OF remove_first_subset])

lemma find_remove_first:
  "distinct (map loop_key xs) \<Longrightarrow> find (loop_of k s) (remove_first (loop_of k s) xs) = None"
  by (induction xs) (force simp: loop_of_key find_None_iff)+

text \<open>A request that is not a retry forgets the loop of its app, and only that.\<close>

lemma clearCrashLoop_run:
  assumes "run_state (clearCrashLoop k s) w = (u, w')" and "loops_inv w"
  shows "loops_inv w' \<and> find (loop_of k s) (wCrashLoops w') = None"
proof -
  have "w' = w\<lparr>wCrashLoops := remove_first (loop_of k s) (wCrashLoops w)\<rparr>"
    using assms(1) by (simp add: clearCrashLoop_def modify_def run_bind State_Monad.get_def State_Monad.set_def)
  with assms(2) find_remove_first [of "wCrashLoops w" k s] remove_first_subset [of "loop_of k s" "wCrashLoops w"]
  show ?thesis by (auto simp: loops_inv_def distinct_remove_first)
qed

lemma retry_run:
  "run_state (retry c) w = (clRetries c + 1,
     w\<lparr>wCrashLoops := update_first (loop_of (pAppKey (clPayload c)) (pStage (clPayload c))) (\<lambda>c'. c'\<lparr>clRetries := clRetries c + 1\<rparr>) (wCrashLoops w),
       wTasks := wTasks w @ [RetryTask (clPayload c) (clRetries c + 1)]\<rparr>)"
  by (simp add: retry_def modify_def spawn_def Let_def run_bind State_Monad.get_def State_Monad.set_def State_Monad.return_def)

lemma find_append_None2: "find P xs = None \<Longrightarrow> find P (xs @ [x]) = (if P x then Some x else None)"
  by (induction xs) (auto split: if_splits)

lemma incrementCrashLoop_run:
  assumes "run_state (incrementCrashLoop p) w = ((n, t), w')" and "loops_inv w"
  shows "loops_inv w'
    \<and> n = (case find (loop_of (pAppKey p) (pStage p)) (wCrashLoops w) of None \<Rightarrow> 1 | Some c \<Rightarrow> clRetries c + 1)
    \<and> (\<exists>c. find (loop_of (pAppKey p) (pStage p)) (wCrashLoops w') = Some c \<and> clRetries c = n
         \<and> wTasks w' = wTasks w @ [RetryTask (clPayload c) n])
    \<and> filter (\<lambda>c. \<not> loop_of (pAppKey p) (pStage p) c) (wCrashLoops w')
        = filter (\<lambda>c. \<not> loop_of (pAppKey p) (pStage p) c) (wCrashLoops w)"
proof -
  let ?P = "loop_of (pAppKey p) (pStage p)"
  let ?up = "\<lambda>c. update_first (loop_of (pAppKey (clPayload c)) (pStage (clPayload c))) (\<lambda>c'. c'\<lparr>clRetries := clRetries c + 1\<rparr>)"
  let ?new = "\<lparr>clPayload = p\<lparr>pRetrying := True\<rparr>, clRetries = 0\<rparr> :: CrashLoop"
  obtain c where c: "find ?P (wCrashLoops w) = Some c \<or> find ?P (wCrashLoops w) = None \<and> c = ?new" by (metis not_None_eq)
  let ?ls = "if find ?P (wCrashLoops w) = None then wCrashLoops w @ [?new] else wCrashLoops w"
  have run: "wCrashLoops w' = ?up c ?ls \<and> wTasks w' = wTasks w @ [RetryTask (clPayload c) (clRetries c + 1)] \<and> n = clRetries c + 1"
    using assms(1) c
    by (auto simp: incrementCrashLoop_def gets_def jitter_now_def ext_def modify_def Let_def run_bind retry_run
        State_Monad.get_def State_Monad.set_def State_Monad.return_def)
  have key: "?P c" using c by (auto simp: loop_of_def dest: find_Some_in)
  then have P: "loop_of (pAppKey (clPayload c)) (pStage (clPayload c)) = ?P" by (simp add: loop_of_def fun_eq_iff)
  have found: "find ?P ?ls = Some c" using c by (auto simp: find_append_None2 loop_of_def)
  have upd: "?P (x\<lparr>clRetries := m\<rparr>) = ?P x" "loop_key (x\<lparr>clRetries := m\<rparr>) = loop_key x" for x m
    by (simp_all add: loop_of_def loop_key_def)
  have "find ?P (wCrashLoops w') = Some (c\<lparr>clRetries := clRetries c + 1\<rparr>)"
    using run found unfolding P by (simp add: find_update_first upd)
  moreover have "loops_inv w'"
  proof -
    have "distinct (map loop_key ?ls)"
      using assms(2) by (auto simp: loops_inv_def find_None_iff loop_of_key loop_key_def)
    moreover have "\<forall>x\<in>set ?ls. pRetrying (clPayload x)" using assms(2) by (auto simp: loops_inv_def)
    moreover have "map loop_key (?up c ?ls) = map loop_key ?ls" by (rule map_update_first) (rule upd)
    moreover have "\<forall>x\<in>set (?up c ?ls). pRetrying (clPayload x)"
      using calculation(2) by (rule all_update_first [rotated]) simp
    ultimately show ?thesis using run by (simp only: loops_inv_def simp_thms)
  qed
  moreover have "filter (\<lambda>c. \<not> ?P c) (wCrashLoops w') = filter (\<lambda>c. \<not> ?P c) (wCrashLoops w)"
    using run unfolding P by (simp add: filter_update_first upd) (simp add: loop_of_def)
  moreover have "n = (case find ?P (wCrashLoops w) of None \<Rightarrow> 1 | Some c \<Rightarrow> clRetries c + 1)" using run c by auto
  ultimately show ?thesis using run by (intro conjI exI [of _ "c\<lparr>clRetries := clRetries c + 1\<rparr>"]) simp_all
qed

text \<open>The sleeper that is started retries on behalf of the app that failed.\<close>

lemma incrementCrashLoop_spec_core:
  assumes "run_state (incrementCrashLoop p) w = ((n, t), w')" and "loops_inv w"
  shows "loops_inv w' \<and> (\<exists>q. wTasks w' = wTasks w @ [RetryTask q n] \<and> pRetrying q \<and> pAppKey q = pAppKey p \<and> pStage q = pStage p)"
proof -
  obtain c where "find (loop_of (pAppKey p) (pStage p)) (wCrashLoops w') = Some c"
    and "wTasks w' = wTasks w @ [RetryTask (clPayload c) n]" and "loops_inv w'"
    using incrementCrashLoop_run [OF assms] by blast
  then show ?thesis by (auto simp: loops_inv_def loop_of_def dest!: find_Some_in intro!: exI [of _ "clPayload c"])
qed

text \<open>
  A failure adds exactly one attempt to the loop of its app, which exists once afterwards and
  whose payload is marked as a retry, starts exactly one sleeper for that attempt, and leaves the
  loops of the other apps as they were.
\<close>

theorem incrementCrashLoop_spec:
  assumes "run_state (incrementCrashLoop p) w = ((n, t), w')" and "loops_inv w"
  shows "loops_inv w'
    \<and> n = (case find (loop_of (pAppKey p) (pStage p)) (wCrashLoops w) of None \<Rightarrow> 1 | Some c \<Rightarrow> clRetries c + 1)
    \<and> (\<exists>c. find (loop_of (pAppKey p) (pStage p)) (wCrashLoops w') = Some c \<and> clRetries c = n
         \<and> wTasks w' = wTasks w @ [RetryTask (clPayload c) n])
    \<and> filter (\<lambda>c. \<not> loop_of (pAppKey p) (pStage p) c) (wCrashLoops w')
        = filter (\<lambda>c. \<not> loop_of (pAppKey p) (pStage p) c) (wCrashLoops w)"
  using assms by (rule incrementCrashLoop_run)

theorem incrementCrashLoop_spec_witness:
  "\<exists>c. find (loop_of 3 PROD') (wCrashLoops (snd (run_state (incrementCrashLoop demo_payload) demo_world))) = Some c
     \<and> clRetries c = 1"
proof -
  have inv: "loops_inv demo_world" by (simp add: loops_inv_def demo_world_def)
  obtain n t w' where run: "run_state (incrementCrashLoop demo_payload) demo_world = ((n, t), w')" by (metis surj_pair)
  have "pAppKey demo_payload = 3 \<and> pStage demo_payload = PROD'"
    by (simp add: demo_payload_def BuildTransitionPayload_def initContainerData_def Let_def)
  moreover have "wCrashLoops demo_world = []" by (simp add: demo_world_def)
  ultimately show ?thesis using incrementCrashLoop_spec [OF run inv] run by auto
qed

end
