(* ===== verification/Manager.thy ===== *)
theory Manager
  imports CrashLoops
begin

text \<open>
  \<^verbatim>\<open>src/apps/app_manager.go\<close> (with \<^verbatim>\<open>resolveTunnelHostPort\<close> of \<^verbatim>\<open>hostports_resolve.go\<close> and the env files of
  \<^verbatim>\<open>env_files.go\<close>): what the agent does with a requested state. A request takes the transition
  lock of its app, runs one transition and releases the lock; verification and retries come
  back as tasks.
\<close>

section \<open>The transition lock\<close>

text \<open>\<^verbatim>\<open>SecureTransition\<close> tells whether the app was locked already, and locks it otherwise.\<close>

definition SecureTransition :: "nat \<Rightarrow> bool prog" where
  "SecureTransition app = do {
     a \<leftarrow> app_at app;
     if aTransitionLock a then ret True
     else do { _ \<leftarrow> app_upd app (\<lambda>a. a\<lparr>aTransitionLock := True\<rparr>); ret False } }"

definition UnlockTransition :: "nat \<Rightarrow> unit prog" where
  "UnlockTransition app = app_upd app (\<lambda>a. a\<lparr>aTransitionLock := False\<rparr>)"

section \<open>Ports and tunnels\<close>

definition findComposeRulePort :: "TransitionPayload \<Rightarrow> PortForwardRule \<Rightarrow> (string \<times> uint64) prog" where
  "findComposeRulePort payload rule =
     (case find (\<lambda>entry. matchesRule entry (Port rule) (Protocol rule)) (parseComposePorts (pDockerCompose payload)) of
        None \<Rightarrow> ret ([], 0)
      | Some entry \<Rightarrow> do {
          published \<leftarrow> publishedComposeHostPorts payload;
          ret (eService entry, lookup0 published (PublishedPortKey (eService entry) (eContainerPort entry) (eProtocol entry))) })"

text \<open>Where a rule's port may already be published: the service it belongs to, and the port to prefer.\<close>

datatype preference = Dial uint64 | Prefer hostPortKey uint64

definition preferredHostPort :: "TransitionPayload \<Rightarrow> PortForwardRule \<Rightarrow> preference prog" where
  "preferredHostPort payload rule =
     (let key = hostPortKeyForRule (pStage payload) (pAppKey payload) rule in
      if pDockerCompose payload \<noteq> None then do {
        (service, published) \<leftarrow> findComposeRulePort payload rule;
        ret (Prefer (if service \<noteq> [] then key\<lparr>kService := service\<rparr> else key)
               (if published \<noteq> 0 then published else HostPort rule)) }
      else do {
        let containerName = (if pStage payload = DEV then Dev (pContainerName payload) else Prod (pContainerName payload));
        bindings \<leftarrow> live_bindings containerName;
        case bindings of
          Inl _ \<Rightarrow> ret (Prefer key (HostPort rule))
        | Inr m \<Rightarrow>
            if lookup0 m (bindingKey (Port rule) (wireProtocol (Protocol rule))) \<noteq> 0
            then ret (Prefer key (lookup0 m (bindingKey (Port rule) (wireProtocol (Protocol rule)))))
            else if m = [] then do {
              mode \<leftarrow> ext ''Container.GetContainerNetworkMode'' [containerName];
              ret (if rpErr mode = None \<and> rpStr mode = ''host'' then Dial (Port rule) else Prefer key (HostPort rule)) }
            else ret (Prefer key (HostPort rule)) })"

definition resolveTunnelHostPort :: "TransitionPayload \<Rightarrow> PortForwardRule \<Rightarrow> uint64 option prog" where
  "resolveTunnelHostPort payload rule = do {
     r \<leftarrow> gets wHostPorts;
     case GetByPort r (pStage payload) (pAppKey payload) (wireProtocol (Protocol rule)) (Port rule) of
       Some hostPort \<Rightarrow> ret (Some hostPort)
     | None \<Rightarrow> do {
         pref \<leftarrow> preferredHostPort payload rule;
         case pref of
           Dial port \<Rightarrow> ret (Some port)
         | Prefer key preferred \<Rightarrow>
             if preferred = 0 then ret None
             else do {
               got \<leftarrow> with_registry (\<lambda>probeFree r. RecoverOrReserve probeFree r key preferred);
               ret (case got of Inl _ \<Rightarrow> None | Inr hostPort \<Rightarrow> Some hostPort) }}}"

record TunnelConfig =
  tSubdomain :: string
  tAppName :: string
  tProtocol :: string
  tLocalPort :: uint64
  tLocalIP :: string
  tRemotePort :: uint64

definition tunnel_args :: "TunnelConfig \<Rightarrow> string list" where
  "tunnel_args t = [tSubdomain t, tAppName t, tProtocol t, itoa (unat (tLocalPort t)), tLocalIP t, itoa (unat (tRemotePort t))]"

text \<open>
  The tunnel manager answers a lookup with whether the tunnel exists, its remote port (the
  number) and its local port; adding a tunnel answers with its remote port. The result is the
  remote port of the configuration in force, zero for none.
\<close>

definition tunnelRule :: "TransitionPayload \<Rightarrow> App \<Rightarrow> bool \<Rightarrow> PortForwardRule \<Rightarrow> uint64 option \<Rightarrow> uint64 prog" where
  "tunnelRule payload a tunnelsAvailable rule dialPort = do {
     config \<leftarrow> gets wConfig;
     let subdomain = CreateSubdomain (Protocol rule) (cDeviceKey config) (pAppName payload) (Port rule);
     let tunnelID = CreateTunnelID subdomain (Protocol rule);
     let tunnelConfig = (\<lambda>localPort. \<lparr>tSubdomain = subdomain, tAppName = pAppName payload, tProtocol = Protocol rule,
           tLocalPort = localPort, tLocalIP = LocalIP rule, tRemotePort = RemotePort rule\<rparr>);
     if Active rule then
       if tunnelsAvailable \<and> (aRequestedState a = RUNNING \<or> aCurrentState a = RUNNING) then
         (case dialPort of
            None \<Rightarrow> ret 0
          | Some port \<Rightarrow> do {
              tnl \<leftarrow> ext ''TunnelManager.Get'' [tunnelID];
              if rpFlag tnl \<and> lookup0 (rpPorts tnl) ''LocalPort'' = port then ret (word_of_int (rpNum tnl))
              else do {
                _ \<leftarrow> (if rpFlag tnl then ignore (ext ''TunnelManager.RemoveTunnel'' [tunnelID]) else ret None);
                added \<leftarrow> ext ''TunnelManager.AddTunnel'' (tunnel_args (tunnelConfig port));
                ret (if rpErr added \<noteq> None then 0 else word_of_int (rpNum added)) }})
       else ret 0
     else if tunnelsAvailable then do {
       _ \<leftarrow> ext ''TunnelManager.RemoveTunnel'' (tunnel_args (tunnelConfig (Port rule)));
       ret 0 }
     else ret 0 }"

definition syncRule :: "TransitionPayload \<Rightarrow> App \<Rightarrow> bool \<Rightarrow> PortForwardRule \<Rightarrow> PortForwardRule prog" where
  "syncRule payload a tunnelsAvailable rule = do {
     dialPort \<leftarrow> (if LocalIP rule = [] then resolveTunnelHostPort payload rule else ret (Some (Port rule)));
     remotePort \<leftarrow> tunnelRule payload a tunnelsAvailable rule dialPort;
     let newPort = (if remotePort \<noteq> 0 then rule\<lparr>RemotePort := remotePort\<rparr> else rule);
     ret (if LocalIP rule = [] then (case dialPort of Some p \<Rightarrow> newPort\<lparr>HostPort := p\<rparr> | None \<Rightarrow> newPort) else newPort) }"

primrec mapProg :: "('a \<Rightarrow> 'b prog) \<Rightarrow> 'a list \<Rightarrow> 'b list prog" where
  "mapProg f [] = ret []"
| "mapProg f (x # xs) = do { y \<leftarrow> f x; ys \<leftarrow> mapProg f xs; ret (y # ys) }"

definition portEnvFiles :: "string \<Rightarrow> PortForwardRule \<Rightarrow> string \<Rightarrow> err prog" where
  "portEnvFiles envDir rule name = steps [
     (if RemotePort rule > 0 then ignore (WriteFile (envDir @ ''/'' @ name @ ''.txt'') (itoa (unat (RemotePort rule)))) else ret None),
     (if CloudRemotePort rule > 0
      then ignore (WriteFile (envDir @ ''/'' @ name @ ''_CLOUD.txt'') (itoa (unat (CloudRemotePort rule))))
      else ignore (extE ''os.Remove'' [envDir @ ''/'' @ name @ ''_CLOUD.txt'']))]"

definition ruleEnvFiles :: "string \<Rightarrow> PortForwardRule \<Rightarrow> err prog" where
  "ruleEnvFiles envDir rule =
     steps (map (portEnvFiles envDir rule)
       ((''REMOTE_PORT_FOR_'' @ itoa (unat (Port rule))) # (if RemotePortEnvironment rule \<noteq> [] then [RemotePortEnvironment rule] else [])))"

definition refreshRemotePortEnvFiles :: "Stage \<Rightarrow> string \<Rightarrow> PortForwardRule list \<Rightarrow> err prog" where
  "refreshRemotePortEnvFiles stage appName rules = do {
     config \<leftarrow> gets wConfig;
     let envDir = appEnvFilesHostDir config stage appName;
     e \<leftarrow> (if list_ex (\<lambda>rule. RemotePort rule > 0 \<or> CloudRemotePort rule > 0) rules
          then extE ''os.MkdirAll'' [envDir] else extE ''os.Stat'' [envDir]);
     if e \<noteq> None then ret None else steps (map (ruleEnvFiles envDir) rules) }"

definition UpdateTunnelState :: "err prog" where
  "UpdateTunnelState = do {
     config \<leftarrow> gets wConfig;
     steps [
       extE ''TunnelManager.GetState'' [],
       extE ''Messenger.Publish TunnelStateUpdate'' [cSerialNumber config]] }"

definition syncPortState :: "TransitionPayload \<Rightarrow> nat \<Rightarrow> err prog" where
  "syncPortState payload app =
     (if pStage payload = DEV then ret None
      else do {
        capable \<leftarrow> ext ''TunnelManager.TunnelCapable'' [];
        a \<leftarrow> app_at app;
        case InterfaceToPortForwardRule (pPorts payload) of
          Inl e \<Rightarrow> ret (Some e)
        | Inr portRules \<Rightarrow>
            if portRules = [] then ret None
            else do {
              newPorts \<leftarrow> mapProg (syncRule payload a (rpFlag capable)) portRules;
              lib \<leftarrow> gets wLib;
              _ \<leftarrow> ext ''TunnelManager.SaveRemotePorts'' [lMarshal lib (JArr (PortForwardRuleToInterface newPorts))];
              _ \<leftarrow> refreshRemotePortEnvFiles (pStage payload) (pAppName payload) newPorts;
              _ \<leftarrow> (if rpFlag capable then UpdateTunnelState else ret None);
              ret None } })"

section \<open>States and requests\<close>

definition noSuchApp :: "TransitionPayload \<Rightarrow> go_error" where
  "noSuchApp payload = Msg (''app ('' @ itoa (unat (pAppKey payload)) @ '', '' @ Stage_string (pStage payload)
     @ '') does not exist in the local app store'')"

text \<open>The state that is stored is the one the app had before.\<close>

definition UpdateCurrentAppState :: "TransitionPayload \<Rightarrow> err prog" where
  "UpdateCurrentAppState payload = do {
     r \<leftarrow> GetApp (pAppKey payload) (pStage payload);
     case r of
       Inl e \<Rightarrow> ret (Some e)
     | Inr None \<Rightarrow> ret (Some (noSuchApp payload))
     | Inr (Some app) \<Rightarrow> do {
         a \<leftarrow> app_at app;
         let cur = aCurrentState a;
         _ \<leftarrow> app_upd app (\<lambda>a.
           (if (cur = BUILT \<or> cur = PUBLISHED \<or> (cur = PRESENT \<and> aRequestedState a = BUILT)) \<and> pCurrentState payload \<noteq> NoState
            then a\<lparr>aCurrentState := pCurrentState payload\<rparr> else a)
           \<lparr>aVersion := (if pPresentVersion payload \<noteq> [] then pPresentVersion payload else aVersion a)\<rparr>);
         UpdateLocalAppState app cur }}"

definition CreateOrUpdateApp :: "TransitionPayload \<Rightarrow> err prog" where
  "CreateOrUpdateApp payload0 = do {
     r \<leftarrow> GetApp (pAppKey payload0) (pStage payload0);
     case r of
       Inl e \<Rightarrow> ret (Some e)
     | Inr found \<Rightarrow> do {
         let payload = payload0\<lparr>pRequestedState := TransientToActualState (pRequestedState payload0)\<rparr>;
         s \<leftarrow> (case found of Some app \<Rightarrow> ret (Inr app) | None \<Rightarrow> AddApp payload);
         case s of
           Inl e \<Rightarrow> ret (Some e)
         | Inr app \<Rightarrow> do {
             a \<leftarrow> app_at app;
             let isTeardown = (pRequestedState payload = UNINSTALLED \<or> pRequestedState payload = REMOVED);
             if aCurrentState a = BUILT \<and> aRequestedState a \<noteq> BUILT \<and> \<not> isTeardown then ret None
             else do {
               _ \<leftarrow> app_upd app (\<lambda>a. a\<lparr>aRequestedState := pRequestedState payload\<rparr>);
               UpdateLocalRequestedState payload }}}}"

definition VerifyState :: "nat \<Rightarrow> err prog" where
  "VerifyState app = do {
     a0 \<leftarrow> app_at app;
     r \<leftarrow> GetRequestedState (aAppKey a0) (aStage a0);
     case r of
       Inl e \<Rightarrow> ret (Some e)
     | Inr requested \<Rightarrow> do {
         a \<leftarrow> app_at app;
         let cur = aCurrentState a;
         let req = aRequestedState a;
         let pendingUpdate = (pRequestUpdate requested \<and> pNewestVersion requested \<noteq> pPresentVersion requested
               \<and> pRequestedState requested \<noteq> UNINSTALLED);
         if cur = FAILED then ret None
         else steps [
           (if cur \<noteq> req \<or> pendingUpdate then ignore (spawn (RequestTask requested))
            else do { _ \<leftarrow> refreshAppCredentialEnvFiles requested; syncPortState requested app }),
           (if cur = BUILT \<and> req = BUILT then Notify app PRESENT else ret None)] }}"

section \<open>A request\<close>

definition finishTransition :: "TransitionPayload \<Rightarrow> nat \<Rightarrow> err \<Rightarrow> err prog" where
  "finishTransition payload app e =
     (if IsNoActionTransition e then do {
        a \<leftarrow> app_at app;
        steps [Notify app (aCurrentState a), ignore UpdateTunnelState] }
      else if e = None \<or> IsDockerStreamCanceled e then
        steps [VerifyState app, ignore UpdateTunnelState]
      else do {
        _ \<leftarrow> Notify app FAILED;
        if pStage payload = PROD' then ignore (incrementCrashLoop payload) else ret None })"

definition tokenAccountKey :: "TransitionPayload \<Rightarrow> uint64" where
  "tokenAccountKey payload =
     (if pStage payload = PROD' \<and> pDeviceOwnerAccountKey payload \<noteq> 0 then pDeviceOwnerAccountKey payload
      else pRequestorAccountKey payload)"

text \<open>What happens between taking the lock and the end; the lock is released on every path.\<close>

definition requestLocked :: "TransitionPayload \<Rightarrow> nat \<Rightarrow> err prog" where
  "requestLocked payload app = do {
     e \<leftarrow> UpdateCurrentAppState payload;
     case e of
       Some x \<Rightarrow> do { _ \<leftarrow> UnlockTransition app; ret (Some x) }
     | None \<Rightarrow> do {
         t \<leftarrow> GetRegistryToken (tokenAccountKey payload);
         case t of
           Inl x \<Rightarrow> do { _ \<leftarrow> UnlockTransition app; ret (Some x) }
         | Inr token \<Rightarrow> do {
             let payload' = payload\<lparr>pRegisteryToken := token\<rparr>;
             c \<leftarrow> InitTransition app payload';
             _ \<leftarrow> UnlockTransition app;
             case c of None \<Rightarrow> ret None | Some err \<Rightarrow> finishTransition payload' app err }}}"

definition cancelsTransfer :: "App \<Rightarrow> TransitionPayload \<Rightarrow> bool" where
  "cancelsTransfer a payload \<longleftrightarrow>
     (aCurrentState a = UNINSTALLED \<or> aCurrentState a = REMOVED \<or> aCurrentState a = PRESENT \<or> aCurrentState a = FAILED)
     \<and> (aRequestedState a = PRESENT \<or> aRequestedState a = BUILT) \<and> pStage payload = DEV"

definition requestFor :: "TransitionPayload \<Rightarrow> nat \<Rightarrow> err prog" where
  "requestFor payload app = do {
     a \<leftarrow> app_at app;
     _ \<leftarrow> (if \<not> pRetrying payload then clearCrashLoop (aAppKey a) (aStage a) else ret ());
     _ \<leftarrow> (if cancelsTransfer a payload then ignore (ext ''Filesystem.CancelFileTransfer'' [Dev (pContainerName payload)]) else ret None);
     if pCancelTransition payload then ignore (CancelTransition app payload)
     else if aCurrentState a = UPDATING then
       (if pRequestedState payload = PRESENT \<or> pRequestedState payload = REMOVED \<or> pRequestedState payload = UNINSTALLED
        then ignore (CancelTransition app payload) else ret None)
     else do {
       _ \<leftarrow> refreshAppCredentialEnvFiles payload;
       e \<leftarrow> syncPortState payload app;
       case e of
         Some x \<Rightarrow> ret (Some x)
       | None \<Rightarrow> do {
           locked \<leftarrow> SecureTransition app;
           if locked then ret None else requestLocked payload app }}}"

definition RequestAppState :: "TransitionPayload \<Rightarrow> err prog" where
  "RequestAppState payload = do {
     r \<leftarrow> GetApp (pAppKey payload) (pStage payload);
     case r of
       Inl e \<Rightarrow> ret (Some e)
     | Inr None \<Rightarrow> ret (Some (noSuchApp payload))
     | Inr (Some app) \<Rightarrow> requestFor payload app }"

section \<open>Tasks\<close>

definition IsInvalidOfflineTransition :: "App \<Rightarrow> TransitionPayload \<Rightarrow> bool" where
  "IsInvalidOfflineTransition a payload =
     (let notInstalled = (aCurrentState a = REMOVED \<or> aCurrentState a = UNINSTALLED);
          buildRequest = (aRequestedState a = BUILT);
          removalRequest = (pRequestedState payload = REMOVED \<or> pRequestedState payload = UNINSTALLED)
      in if buildRequest then True
         else if notInstalled \<and> pStage payload = PROD' \<and> \<not> removalRequest then True
         else pRequestedState payload = PUBLISHED \<or> (pRequestedState payload = PRESENT \<and> pRequestUpdate payload))"

text \<open>The sleeper of \<^verbatim>\<open>retry\<close> once it wakes up.\<close>

definition wakeRetry :: "TransitionPayload \<Rightarrow> err prog" where
  "wakeRetry payload = do {
     loops \<leftarrow> gets wCrashLoops;
     case find (loop_of (pAppKey payload) (pStage payload)) loops of
       None \<Rightarrow> ret None
     | Some _ \<Rightarrow> do {
         r \<leftarrow> GetApp (pAppKey payload) (pStage payload);
         case r of
           Inr (Some app) \<Rightarrow> do {
             a \<leftarrow> app_at app;
             if aCurrentState a \<noteq> pRequestedState payload then ignore (RequestAppState payload)
             else ignore (clearCrashLoop (pAppKey payload) (pStage payload)) }
         | _ \<Rightarrow> ret None }}"

section \<open>The lock is balanced\<close>

text \<open>
  Identities and locks of the apps there were stay as they are; apps that are added are unlocked.
\<close>

definition idents_extend :: "world \<Rightarrow> world \<Rightarrow> bool" where
  "idents_extend w w' \<longleftrightarrow> (\<exists>new. map ident (wApps w') = map ident (wApps w) @ new \<and> (\<forall>x\<in>set new. \<not> snd (snd (snd x))))"

interpretation idn: step_relation idents_extend
proof unfold_locales
  show "idents_extend w w" and "idents_extend w (w\<lparr>wTrace := wTrace w @ t\<rparr>)" for w t by (auto simp: idents_extend_def)
  show "idents_extend u w" if uv: "idents_extend u v" and vw: "idents_extend v w" for u v w
  proof -
    from uv obtain n where n: "map ident (wApps v) = map ident (wApps u) @ n" "\<forall>x\<in>set n. \<not> snd (snd (snd x))"
      by (auto simp: idents_extend_def)
    from vw obtain m where m: "map ident (wApps w) = map ident (wApps v) @ m" "\<forall>x\<in>set m. \<not> snd (snd (snd x))"
      by (auto simp: idents_extend_def)
    show ?thesis unfolding idents_extend_def by (intro exI [of _ "n @ m"]) (use n m in auto)
  qed
qed

lemma frame_idents: "app_frame i w w' \<Longrightarrow> idents_extend w w'"
  by (simp add: app_frame_def apps_frame_def idents_extend_def)

lemma objects_idents: "wApps w' = wApps w \<Longrightarrow> idents_extend w w'"
  by (simp add: idents_extend_def)

lemma app_upd_idents: "(\<And>a. ident (f a) = ident a) \<Longrightarrow> keeps idents_extend (app_upd i f)"
  by (rule keeps_mono [OF app_upd_frame frame_idents])

lemma Notify_idents: "keeps idents_extend (Notify i st)"
  by (rule keeps_mono [OF Notify_frame]) (rule frame_idents)

lemma setState_idents: "keeps idents_extend (setState i st)"
  by (rule keeps_mono [OF setState_frame]) (rule frame_idents)

lemma GetRequestedState_idents: "keeps idents_extend (GetRequestedState k s)"
  by (rule keeps_mono [OF GetRequestedState_objects]) (simp add: objects_idents)

lemma with_registry_idents: "keeps idents_extend (with_registry g)"
  by (simp add: keeps_def with_registry_run objects_idents)

interpretation idt: transition_relation idents_extend i p for i p
proof unfold_locales
  show "keeps idents_extend (setState i st)" for st by (rule setState_idents)
  show "keeps idents_extend (app_upd i f)" if "\<And>a. ident (f a) = ident a" for f using that by (rule app_upd_idents)
  show "idents_extend w (w\<lparr>wHostPorts := r\<rparr>)" for w r by (simp add: objects_idents)
  show "keeps idents_extend (withComposeCancel stage key m)" if "keeps idents_extend m" for stage key m
    using that idn.R_trans by (intro bracket_ignoring) (simp_all add: objects_idents)
  show "keeps idents_extend (UpdateLocalRequestedState p')" for p'
    unfolding UpdateLocalRequestedState_def by (rule keeps_mono [OF UpsertRequestedStateChange_objects]) (simp add: objects_idents)
qed

lemma push_app_idents: "\<not> aTransitionLock a \<Longrightarrow> keeps idents_extend (push_app a)"
  unfolding push_app_def by (intro idn.keeps_intros idn.keeps_modify) (simp add: idents_extend_def ident_def)

lemma GetAppState_objects: "keeps same_objects (GetAppState k s)"
  unfolding GetAppState_def by (intro obj.keeps_intros GetRequestedState_objects)

lemma GetApp_idents: "keeps idents_extend (GetApp k s)"
  unfolding GetApp_def
  by (intro idn.keeps_intros push_app_idents) (rule keeps_mono [OF GetAppState_objects], simp add: objects_idents, simp)

lemma UpdateLocalAppState_idents: "keeps idents_extend (UpdateLocalAppState i st)"
  by (rule keeps_mono [OF UpdateLocalAppState_frame frame_idents])

lemma UpdateCurrentAppState_idents: "keeps idents_extend (UpdateCurrentAppState p)"
  unfolding UpdateCurrentAppState_def
  by (intro idn.keeps_intros GetApp_idents app_upd_idents UpdateLocalAppState_idents) (simp add: ident_def)

lemma GetRegistryToken_idents: "keeps idents_extend (GetRegistryToken k)"
  unfolding GetRegistryToken_def by (intro idn.keeps_intros)

text \<open>Synchronizing ports touches the registry and the outside only.\<close>

abbreviation only_ports :: "world \<Rightarrow> world \<Rightarrow> bool" where
  "only_ports w w' \<equiv> env_frame w w' \<and> wApps w' = wApps w \<and> wAppStates w' = wAppStates w \<and> wRequested w' = wRequested w
     \<and> wHistory w' = wHistory w \<and> wComposeCancels w' = wComposeCancels w \<and> keeps_ports w w'"

interpretation opt: step_relation only_ports
  by unfold_locales (auto simp: env.R_refl env.R_trace intro: env.R_trans)

lemma with_registry_only: "registry_op g \<Longrightarrow> keeps only_ports (with_registry g)"
  by (simp add: keeps_def with_registry_run env_frame_def registry_op_def)

lemma registry_op_recover: "registry_op (\<lambda>probeFree r. RecoverOrReserve probeFree r key preferred)"
  unfolding registry_op_def by (metis prod.collapse registry_reachable.step registry_step.intros(1))

lemma mapProg_keeps: "(\<And>x. keeps only_ports (f x)) \<Longrightarrow> keeps only_ports (mapProg f xs)"
  by (induction xs) (simp_all only: mapProg.simps, (intro opt.keeps_intros | assumption | simp)+)

lemma refreshAppCredential_only: "keeps only_ports (refreshAppCredentialEnvFiles payload)"
  unfolding refreshAppCredentialEnvFiles_def WriteFile_def by (intro opt.keeps_intros)

lemma UpdateTunnelState_only: "keeps only_ports UpdateTunnelState"
  unfolding UpdateTunnelState_def by (intro opt.keeps_intros)

lemma refreshRemotePort_only: "keeps only_ports (refreshRemotePortEnvFiles stage name rules)"
proof -
  have port: "keeps only_ports (portEnvFiles dir rule name)" for dir rule name
    unfolding portEnvFiles_def WriteFile_def by (intro opt.keeps_intros)
  have "keeps only_ports m" if "m \<in> set (map (portEnvFiles dir rule) names)" for m dir rule names
    using that port by auto
  then have "keeps only_ports (ruleEnvFiles dir rule)" for dir rule
    unfolding ruleEnvFiles_def by (rule opt.keeps_steps)
  then have "keeps only_ports m" if "m \<in> set (map (ruleEnvFiles dir) rules)" for m dir
    using that by auto
  then have "keeps only_ports (steps (map (ruleEnvFiles dir) rules))" for dir by (rule opt.keeps_steps)
  then show ?thesis unfolding refreshRemotePortEnvFiles_def by (intro opt.keeps_intros)
qed

lemma preferred_only: "keeps only_ports (preferredHostPort payload rule)"
  unfolding preferredHostPort_def findComposeRulePort_def publishedComposeHostPorts_def live_bindings_def
  by (intro opt.keeps_intros)

lemma resolve_only: "keeps only_ports (resolveTunnelHostPort payload rule)"
proof -
  have "keeps only_ports (case pref of Dial port \<Rightarrow> ret (Some port)
      | Prefer key preferred \<Rightarrow> if preferred = 0 then ret None
          else do { got \<leftarrow> with_registry (\<lambda>probeFree r. RecoverOrReserve probeFree r key preferred);
                    ret (case got of Inl _ \<Rightarrow> None | Inr hostPort \<Rightarrow> Some hostPort) })" for pref
    by (cases pref) (simp_all add: opt.keeps_return opt.keeps_bind with_registry_only registry_op_recover)
  then show ?thesis
    unfolding resolveTunnelHostPort_def by (intro opt.keeps_intros preferred_only)
qed

lemma syncPortState_only: "keeps only_ports (syncPortState payload app)"
proof -
  have "keeps only_ports (syncRule payload a capable rule)" for a capable rule
    unfolding syncRule_def tunnelRule_def by (intro opt.keeps_intros resolve_only)
  then show ?thesis
    unfolding syncPortState_def
    by (intro opt.keeps_intros mapProg_keeps refreshRemotePort_only UpdateTunnelState_only)
qed

lemma only_idents: "keeps only_ports m \<Longrightarrow> keeps idents_extend m"
  by (erule keeps_mono) (simp add: objects_idents)

lemma incrementCrashLoop_idents: "keeps idents_extend (incrementCrashLoop payload)"
  unfolding incrementCrashLoop_def retry_def jitter_now_def
  by (intro idn.keeps_intros idn.keeps_modify idn.keeps_spawn) (simp_all add: objects_idents)

lemma VerifyState_idents: "keeps idents_extend (VerifyState app)"
  unfolding VerifyState_def
  by (intro idn.keeps_intros idn.keeps_spawn GetRequestedState_idents Notify_idents
      only_idents [OF refreshAppCredential_only] only_idents [OF syncPortState_only]) (simp add: objects_idents)

lemma finishTransition_idents: "keeps idents_extend (finishTransition payload app e)"
  unfolding finishTransition_def
  by (intro idn.keeps_intros Notify_idents VerifyState_idents incrementCrashLoop_idents only_idents [OF UpdateTunnelState_only])

lemma clear_cancel_idents:
  "keeps idents_extend (clearCrashLoop k s)" "keeps idents_extend (CancelTransition app payload)"
  unfolding clearCrashLoop_def CancelTransition_def
  by (intro idn.keeps_intros idn.keeps_modify idn.keeps_spawn; simp add: objects_idents)+

text \<open>From the moment the lock is taken: after the bracket the identities are the old ones.\<close>

definition lock :: "nat \<Rightarrow> bool \<Rightarrow> world \<Rightarrow> world" where
  "lock i b w = w\<lparr>wApps := (wApps w)[i := (wApps w ! i)\<lparr>aTransitionLock := b\<rparr>]\<rparr>"

lemma run_UnlockTransition: "run_state (UnlockTransition i) w = ((), lock i False w)"
  by (simp add: UnlockTransition_def app_upd_def modify_def lock_def run_bind State_Monad.get_def State_Monad.set_def)

lemma unlock_restores:
  assumes "idents_extend (lock i True w) w1" and "i < length (wApps w)" and "\<not> aTransitionLock (wApps w ! i)"
  shows "idents_extend w (lock i False w1)"
proof -
  from assms(1) obtain new where new: "map ident (wApps w1) = map ident (wApps (lock i True w)) @ new" "\<forall>x\<in>set new. \<not> snd (snd (snd x))"
    by (auto simp: idents_extend_def)
  let ?un = "\<lambda>x. (fst x, fst (snd x), fst (snd (snd x)), False)"
  have un: "ident (a\<lparr>aTransitionLock := False\<rparr>) = ?un (ident a)" for a by (simp add: ident_def)
  have len: "i < length (wApps w1)" using arg_cong [OF new(1), of length] assms(2) by (simp add: lock_def)
  have "map ident (wApps (lock i False w1)) = (map ident (wApps w1))[i := ?un (map ident (wApps w1) ! i)]"
    using len by (simp add: lock_def map_update un)
  also have "\<dots> = map ident (wApps w) @ new"
  proof -
    have "map ident (wApps (lock i True w)) = (map ident (wApps w))[i := ident ((wApps w ! i)\<lparr>aTransitionLock := True\<rparr>)]"
      by (simp add: lock_def map_update)
    moreover have "?un (ident ((wApps w ! i)\<lparr>aTransitionLock := True\<rparr>)) = map ident (wApps w) ! i"
      using assms(2,3) by (simp add: ident_def)
    ultimately show ?thesis using assms(2) unfolding new(1)
      by (simp add: nth_append list_update_append1 del: map_update) (metis list_update_id length_map nth_map)
  qed
  finally show ?thesis using new(2) by (auto simp: idents_extend_def)
qed

lemma requestLocked_lock:
  assumes "run_state (requestLocked payload i) (lock i True w) = (e, w')"
    and "i < length (wApps w)" and "\<not> aTransitionLock (wApps w ! i)"
  shows "idents_extend w w'"
proof -
  let ?R = "idents_extend (lock i True w)"
  let ?Q = "\<lambda>_. idents_extend w"
  note through = idn.wp_bind_keeps [of _ "lock i True w"]
  have un: "wp (do { _ \<leftarrow> UnlockTransition i; m }) ?Q w1" if "?R w1" and "keeps idents_extend m" for w1 and m :: "err prog"
    using unlock_restores [OF that(1) assms(2,3)] that(2)
    by (auto simp: wp_def run_bind run_UnlockTransition keeps_def split: prod.split intro: idn.R_trans)
       (metis idn.R_trans snd_conv)
  have start: "?R (lock i True w)" by (rule idn.R_refl)
  have "wp (requestLocked payload i) ?Q (lock i True w)"
    unfolding requestLocked_def Let_def
    by (rule through [OF UpdateCurrentAppState_idents start], rule wp_option, rule through [OF GetRegistryToken_idents], assumption,
        rule wp_sum, erule un [OF _ idn.keeps_return], rule through [OF idt.InitTransition_keeps], assumption,
        erule un, (intro idn.keeps_intros finishTransition_idents)?, erule un [OF _ idn.keeps_return])
  from wp_runD [OF this assms(1)] show ?thesis .
qed

lemma index_of_app_Some:
  "index_of_app as k s = Some i \<Longrightarrow> i < length as \<and> aAppKey (as ! i) = k \<and> aStage (as ! i) = s"
  by (induction as arbitrary: i) (auto split: if_splits)

lemma GetAppState_key:
  "wp (GetAppState k s) (\<lambda>r _. \<forall>a. r = Inr (Some a) \<longrightarrow> aAppKey a = k \<and> aStage a = s) w"
proof -
  have "wp (GetAppState k s) (\<lambda>r _. \<forall>a. r = Inr (Some a) \<longrightarrow> (\<exists>row. row_of_app k s row \<and> aAppKey a = sAppKey row \<and> aStage a = sStage row)) w"
    unfolding GetAppState_def
    by (auto simp: wp_simps app_of_row_def GetRequestedState_def split: option.split dest: find_Some_in)
  then show ?thesis by (rule wp_mono) (auto simp: row_of_app_def)
qed

text \<open>A pointer that \<^verbatim>\<open>GetApp\<close> returns is one of the app asked for.\<close>

lemma GetApp_pointer:
  assumes "run_state (GetApp k s) w = (Inr (Some i), w')"
  shows "i < length (wApps w') \<and> aAppKey (wApps w' ! i) = k \<and> aStage (wApps w' ! i) = s"
proof -
  let ?Q = "\<lambda>r w'. \<forall>i. r = Inr (Some i) \<longrightarrow> i < length (wApps w') \<and> aAppKey (wApps w' ! i) = k \<and> aStage (wApps w' ! i) = s"
  have "wp (GetApp k s) ?Q w"
  proof (cases "index_of_app (wApps w) k s")
    case None
    have load: "wp (case r of Inl e \<Rightarrow> ret (Inl e) | Inr a \<Rightarrow> (case a of None \<Rightarrow> ret (Inr None)
        | Some app \<Rightarrow> do { i \<leftarrow> push_app (app\<lparr>aTransitionLock := False\<rparr>); ret (Inr (Some i)) })) ?Q w1"
      if "\<forall>a. r = Inr (Some a) \<longrightarrow> aAppKey a = k \<and> aStage a = s" for r :: "go_error + App option" and w1
      using that by (cases r; cases "projr r") (simp_all add: push_app_def wp_simps nth_append)
    show ?thesis
      unfolding GetApp_def wp_bind wp_gets None option.case by (rule wp_mono [OF GetAppState_key]) (rule load)
  next
    case (Some j)
    then show ?thesis by (auto simp: GetApp_def wp_simps dest: index_of_app_Some)
  qed
  from wp_runD [OF this assms] show ?thesis by simp
qed

lemma SecureTransition_run:
  "run_state (SecureTransition i) w = (if aTransitionLock (wApps w ! i) then (True, w) else (False, lock i True w))"
  by (simp add: SecureTransition_def app_at_def gets_def app_upd_def modify_def lock_def run_bind
      State_Monad.get_def State_Monad.set_def State_Monad.return_def)

text \<open>
  What a request does outside its lock, for any relation that the bookkeeping around the lock keeps.
\<close>

definition underLock :: "TransitionPayload \<Rightarrow> nat \<Rightarrow> err prog" where
  "underLock payload app = do { locked \<leftarrow> SecureTransition app; if locked then ret None else requestLocked payload app }"

locale request_relation = step_relation +
  assumes R_clear: "keeps R (clearCrashLoop k s)"
    and R_cancel: "keeps R (CancelTransition app payload)"
    and R_ports: "keeps only_ports m \<Longrightarrow> keeps R (m :: err prog)"
begin

lemma requestFor_wp:
  assumes start: "R u w" and locked: "\<And>w1. R u w1 \<Longrightarrow> wp (underLock payload i) (\<lambda>_. R u) w1"
  shows "wp (requestFor payload i) (\<lambda>_. R u) w"
proof -
  note through = wp_bind_keeps [where u = u]
  have rest: "wp (do {
       _ \<leftarrow> refreshAppCredentialEnvFiles payload;
       e \<leftarrow> syncPortState payload i;
       case e of Some x \<Rightarrow> ret (Some x) | None \<Rightarrow> underLock payload i }) (\<lambda>_. R u) w1"
    if "R u w1" for w1
    by (rule through [OF R_ports [OF refreshAppCredential_only] that], rule through [OF R_ports [OF syncPortState_only]],
        assumption, rule wp_option, erule locked) (simp add: wp_return)
  have cancel: "wp (ignore (CancelTransition i payload)) (\<lambda>_. R u) w1" "wp (ret (None :: err)) (\<lambda>_. R u) w1"
    if "R u w1" for w1
    using that by (simp_all add: wp_keeps keeps_ignore R_cancel wp_return)
  have choice: "wp (if pCancelTransition payload then ignore (CancelTransition i payload)
      else if aCurrentState a = UPDATING then
        (if pRequestedState payload = PRESENT \<or> pRequestedState payload = REMOVED \<or> pRequestedState payload = UNINSTALLED
         then ignore (CancelTransition i payload) else ret None)
      else do {
       _ \<leftarrow> refreshAppCredentialEnvFiles payload;
       e \<leftarrow> syncPortState payload i;
       case e of Some x \<Rightarrow> ret (Some x) | None \<Rightarrow> underLock payload i }) (\<lambda>_. R u) w1"
    if "R u w1" for w1 a
    using rest [OF that] cancel [OF that] by simp
  show ?thesis
    unfolding requestFor_def underLock_def [symmetric]
    by (rule through [OF keeps_app_at start], rule through [rotated], assumption, rule through [rotated], assumption,
        erule choice, (intro keeps_intros R_clear)+)
qed

end

interpretation idr: request_relation idents_extend
  by unfold_locales (rule clear_cancel_idents only_idents | assumption)+

lemma requestFor_lock:
  assumes "i < length (wApps w)"
  shows "wp (requestFor payload i) (\<lambda>_. idents_extend w) w"
proof (rule idr.requestFor_wp [OF idn.R_refl])
  fix w1
  assume w1: "idents_extend w w1"
  then have len: "i < length (wApps w1)" using assms by (auto simp: idents_extend_def dest: arg_cong [of _ _ length])
  show "wp (underLock payload i) (\<lambda>_. idents_extend w) w1"
  proof (cases "aTransitionLock (wApps w1 ! i)")
    case True
    then show ?thesis using w1 by (simp add: underLock_def wp_def run_bind SecureTransition_run State_Monad.return_def)
  next
    case False
    have "wp (requestLocked payload i) (\<lambda>_. idents_extend w1) (lock i True w1)"
      by (rule wp_runI) (rule requestLocked_lock [OF _ len False])
    then have "wp (requestLocked payload i) (\<lambda>_. idents_extend w) (lock i True w1)" by (rule wp_mono) (rule idn.R_trans [OF w1])
    with False show ?thesis by (simp add: underLock_def wp_def run_bind SecureTransition_run)
  qed
qed

lemma RequestAppState_idents: "keeps idents_extend (RequestAppState p)"
proof -
  have fail: "wp (ret (Some x)) (\<lambda>_. idents_extend w) w1" if "idents_extend w w1" for x :: go_error and w w1
    using that by (simp add: wp_return)
  have "wp (RequestAppState p) (\<lambda>_. idents_extend w) w" for w
    unfolding RequestAppState_def wp_bind
  proof (rule wp_runI)
    fix r w1 assume run: "run_state (GetApp (pAppKey p) (pStage p)) w = (r, w1)"
    then have w1: "idents_extend w w1" by (rule keepsD [OF GetApp_idents])
    have "wp (requestFor p i) (\<lambda>_. idents_extend w) w1" if "r = Inr (Some i)" for i
      by (rule wp_mono [OF requestFor_lock]) (use that GetApp_pointer run idn.R_trans [OF w1] in blast)+
    then show "wp (case r of Inl e \<Rightarrow> ret (Some e) | Inr None \<Rightarrow> ret (Some (noSuchApp p)) | Inr (Some app) \<Rightarrow> requestFor p app)
        (\<lambda>_. idents_extend w) w1"
      using fail [OF w1] by (auto split: sum.split option.split)
  qed
  then show ?thesis by (simp add: keeps_wp)
qed

lemma idents_locks:
  assumes "idents_extend w w'"
  shows "length (wApps w) \<le> length (wApps w') \<and> (\<forall>j < length (wApps w'). aTransitionLock (wApps w' ! j)
    = (j < length (wApps w) \<and> aTransitionLock (wApps w ! j)))"
proof -
  from assms obtain new where new: "map ident (wApps w') = map ident (wApps w) @ new" "\<forall>x\<in>set new. \<not> snd (snd (snd x))"
    by (auto simp: idents_extend_def)
  have len: "length (wApps w') = length (wApps w) + length new" using arg_cong [OF new(1), of length] by simp
  have "aTransitionLock (wApps w' ! j) = (j < length (wApps w) \<and> aTransitionLock (wApps w ! j))" if "j < length (wApps w')" for j
  proof -
    have "ident (wApps w' ! j) = (map ident (wApps w) @ new) ! j" using that new(1) by (metis nth_map)
    then have "snd (snd (snd (ident (wApps w' ! j)))) = (j < length (wApps w) \<and> snd (snd (snd (ident (wApps w ! j)))))"
      using that len new(2) by (auto simp: nth_append)
    then show ?thesis by (simp add: ident_def)
  qed
  with len show ?thesis by simp
qed



section \<open>A locked app is left alone\<close>

abbreviation same_tables :: "world \<Rightarrow> world \<Rightarrow> bool" where
  "same_tables w w' \<equiv> wApps w' = wApps w \<and> wAppStates w' = wAppStates w \<and> wRequested w' = wRequested w \<and> wHistory w' = wHistory w"

interpretation tbl: step_relation same_tables
  by unfold_locales simp_all

lemma only_tables: "keeps only_ports m \<Longrightarrow> keeps same_tables m"
  by (erule keeps_mono) simp

lemma clear_cancel_tables:
  "keeps same_tables (clearCrashLoop k s)" "keeps same_tables (CancelTransition app payload)"
  unfolding clearCrashLoop_def CancelTransition_def
  by (intro tbl.keeps_intros tbl.keeps_modify tbl.keeps_spawn; simp)+

interpretation tbr: request_relation same_tables
  by unfold_locales (rule clear_cancel_tables only_tables | assumption)+

lemma requestFor_locked:
  assumes "aTransitionLock (wApps w ! i)"
  shows "wp (requestFor payload i) (\<lambda>_. same_tables w) w"
  by (rule tbr.requestFor_wp) (use assms in \<open>simp_all add: underLock_def wp_def run_bind SecureTransition_run State_Monad.return_def\<close>)


definition busy_world :: world where
  "busy_world = stop_world\<lparr>wApps := [demo_app\<lparr>aTransitionLock := True\<rparr>]\<rparr>"


section \<open>Failures\<close>

text \<open>
  C8: when the transition function of a request fails with anything but a cancellation, the
  request itself returns nil, the app is \<^verbatim>\<open>FAILED\<close> in memory, and for a production app exactly one
  further attempt is scheduled while the crash loops stay well formed.
\<close>

theorem failed_transition_retried:
  assumes "run_state (finishTransition p i (Some x)) w = (e, w')"
    and "\<not> IsNoActionTransition (Some x)" and "\<not> IsDockerStreamCanceled (Some x)"
    and "i < length (wApps w)" and "loops_inv w"
  shows "e = None \<and> aCurrentState (wApps w' ! i) = FAILED \<and> loops_inv w'
    \<and> (if pStage p = PROD' then \<exists>q n. wTasks w' = wTasks w @ [RetryTask q n] \<and> pRetrying q \<and> pAppKey q = pAppKey p \<and> pStage q = PROD'
       else wTasks w' = wTasks w)"
proof -
  obtain r w1 where notify: "run_state (Notify i FAILED) w = (r, w1)" by fastforce
  have frame: "app_frame i w w1" using Notify_frame notify by (rule keepsD)
  then have len: "i < length (wApps w1)" and same: "wTasks w1 = wTasks w" "wCrashLoops w1 = wCrashLoops w"
    using assms(4) by (auto simp: app_frame_def apps_frame_def env_frame_def dest: ident_length)
  have st: "aCurrentState (wApps w1 ! i) = FAILED" using Notify_state [OF notify] len by (simp add: in_state_def)
  have inv: "loops_inv w1" using assms(5) same by (simp add: loops_inv_def)
  show ?thesis
  proof (cases "pStage p = PROD'")
    case True
    obtain n t w2 where inc: "run_state (incrementCrashLoop p) w1 = ((n, t), w2)" by (metis surj_pair)
    then have w': "w' = w2" "e = None"
      using assms(1-3) True notify by (auto simp: finishTransition_def ignore_def run_bind State_Monad.return_def)
    have "wApps w2 = wApps w1"
    proof -
      have "keeps same_tables (incrementCrashLoop p)"
        unfolding incrementCrashLoop_def retry_def jitter_now_def
        by (intro tbl.keeps_intros tbl.keeps_modify tbl.keeps_spawn) simp_all
      from keepsD [OF this inc] show ?thesis by simp
    qed
    with incrementCrashLoop_spec_core [OF inc inv] w' st same True show ?thesis by auto
  next
    case False
    then show ?thesis
      using assms(1-3) notify st inv same by (auto simp: finishTransition_def run_bind State_Monad.return_def)
  qed
qed

theorem failed_transition_retried_witness:
  "aCurrentState (wApps (snd (run_state (finishTransition stop_payload 0 (Some (Msg ''boom''))) stop_world)) ! 0) = FAILED"
proof -
  have "\<not> IsNoActionTransition (Some (Msg ''boom''))" "\<not> IsDockerStreamCanceled (Some (Msg ''boom''))" by simp_all
  moreover have "0 < length (wApps stop_world)" "loops_inv stop_world"
    by (simp_all add: stop_world_def loops_inv_def demo_world_def)
  ultimately show ?thesis
    using failed_transition_retried [of stop_payload 0 "Msg ''boom''" stop_world, OF prod.collapse [symmetric]] by (simp only: simp_thms)
qed

end
