(* ===== verification/Reconcile.thy ===== *)
theory Reconcile
  imports Manager
begin

text \<open>
  \<^verbatim>\<open>apps/app_manager.go\<close>, the part that brings the device in line with the backend after a
  connection: removal of containers and of apps the backend does not know, taking over the
  requested states it sent, and starting the transitions they ask for.
\<close>

section \<open>Failed transfers\<close>

definition HandleTransferFailure :: "string \<Rightarrow> err prog" where
  "HandleTransferFailure containerName = do {
     apps \<leftarrow> gets wApps;
     case GetAppByContainerName apps containerName of
       None \<Rightarrow> ret None
     | Some app \<Rightarrow> do {
         a \<leftarrow> app_at app;
         if aCurrentState a \<noteq> TRANSFERING then ret None else ignore (Notify app REMOVED) }}"

section \<open>Orphaned containers\<close>

definition composeProjectLabel :: string where
  "composeProjectLabel = ''com.docker.compose.project''"

definition containerOf :: "App \<Rightarrow> string" where
  "containerOf a = BuildContainerName (aStage a) (aAppKey a) (aAppName a)"

definition projectOf :: "App \<Rightarrow> string" where
  "projectOf a = NormalizeComposeProjectName (BuildComposeContainerName (aStage a) (aAppKey a) (aAppName a))"

text \<open>The loop over a container's names: the name under which it is removed, if any.\<close>

fun orphanedName :: "App list \<Rightarrow> string list \<Rightarrow> string option" where
  "orphanedName apps [] = None"
| "orphanedName apps (name # names) =
     (let cleanName = TrimPrefix name ''/'' in
      if Contains cleanName ''_compose-'' then orphanedName apps names
      else if isl (ParseContainerName cleanName) then orphanedName apps names
      else if cleanName \<notin> containerOf ` set apps then Some cleanName
      else orphanedName apps names)"

definition projectLabel :: "Container \<Rightarrow> string" where
  "projectLabel c = (case map_of (ctLabels c) composeProjectLabel of Some project \<Rightarrow> project | None \<Rightarrow> [])"

definition orphanLabel :: "App list \<Rightarrow> Container \<Rightarrow> string option" where
  "orphanLabel apps c =
     (let project = projectLabel c in
      if project \<noteq> [] then
        (if NormalizeComposeProjectName project \<in> projectOf ` set apps then None
         else if isl (ParseComposeContainerName project) then None else Some project)
      else orphanedName apps (ctNames c))"

definition removeOrphanedContainer :: "string \<Rightarrow> err prog" where
  "removeOrphanedContainer containerID = ignore (RemoveContainerByID containerID)"

definition CleanupOrphanedContainers :: "err prog" where
  "CleanupOrphanedContainers = do {
     r \<leftarrow> ext ''Container.GetContainers'' [];
     case rpErr r of Some e \<Rightarrow> ret (Some e) | None \<Rightarrow> do {
     s \<leftarrow> GetAppStates;
     case s of Inl e \<Rightarrow> ret (Some e) | Inr apps \<Rightarrow>
       steps (map (\<lambda>c. if orphanLabel apps c = None then ret None else removeOrphanedContainer (ctID c)) (rpContainers r)) }}"

section \<open>Orphaned apps\<close>

definition syncKey :: "uint64 \<Rightarrow> Stage \<Rightarrow> string" where
  "syncKey key stage = itoa (unat key) @ ''_'' @ Stage_string stage"

text \<open>A container is looked up by its name and removed; only a lookup that succeeds leads to a removal.\<close>

definition removeNamed :: "string \<Rightarrow> err prog" where
  "removeNamed name = do {
     r \<leftarrow> GetContainer name;
     case r of Inl _ \<Rightarrow> ret None | Inr cid \<Rightarrow> ignore (RemoveContainerByID cid) }"

definition removeOrphanedApp :: "App \<Rightarrow> err prog" where
  "removeOrphanedApp a = steps [
     removeNamed (containerOf a),
     removeNamed (BuildComposeContainerName (aStage a) (aAppKey a) (aAppName a)),
     (if aStage a = DEV
      then ignore (extE ''Container.RemoveImagesByName'' [BuildImageName (aStage a) ''amd64'' (aAppKey a) (aAppName a)])
      else ret None),
     ignore (DeleteAppState (aAppKey a) (aStage a)),
     ignore (DeleteRequestedState (aAppKey a) (aStage a))]"

definition CleanupOrphanedAppsFromDatabase :: "TransitionPayload list \<Rightarrow> err prog" where
  "CleanupOrphanedAppsFromDatabase remotePayloads = do {
     s \<leftarrow> GetAppStates;
     case s of Inl e \<Rightarrow> ret (Some e) | Inr localApps \<Rightarrow>
       steps (map (\<lambda>a. if syncKey (aAppKey a) (aStage a) \<in> (\<lambda>p. syncKey (pAppKey p) (pStage p)) ` set remotePayloads
                        then ret None else removeOrphanedApp a) localApps) }"

section \<open>Requested states\<close>

definition ensureLocal :: "TransitionPayload \<Rightarrow> err prog" where
  "ensureLocal payload = do {
     r \<leftarrow> GetApp (pAppKey payload) (pStage payload);
     case r of
       Inl e \<Rightarrow> ret (Some e)
     | Inr None \<Rightarrow> ret None
     | Inr (Some app) \<Rightarrow> do {
         _ \<leftarrow> spawn (EnsureTask app payload);
         ignore (ext ''time.Sleep'' [''100ms'']) }}"

definition EnsureLocalRequestedStates :: "err prog" where
  "EnsureLocalRequestedStates = do {
     r \<leftarrow> GetRequestedStates;
     case r of Inl e \<Rightarrow> ret (Some e) | Inr rStates \<Rightarrow> steps (map ensureLocal rStates) }"

definition reconciled :: "TransitionPayload \<Rightarrow> bool" where
  "reconciled payload \<longleftrightarrow> \<not> (pStage payload = DEV \<or> pRequestedState payload = PUBLISHED \<or> pRequestedState payload = BUILT)"

definition EnsureRemoteRequestedStates :: "err prog" where
  "EnsureRemoteRequestedStates = do {
     r \<leftarrow> GetRequestedStates;
     case r of Inl e \<Rightarrow> ret (Some e)
     | Inr payloads \<Rightarrow>
         steps (map (\<lambda>payload. if reconciled payload then ignore (spawn (RequestTask payload)) else ret None) payloads) }"

definition UpdateLocalRequestedAppStatesWithRemote :: "TransitionPayload list \<Rightarrow> err prog" where
  "UpdateLocalRequestedAppStatesWithRemote newestPayloads =
     steps (map (\<lambda>payload. if pStage payload = PROD' then CreateOrUpdateApp payload else ret None) newestPayloads)"

section \<open>Which containers go\<close>

text \<open>
  A container is an orphan when its compose project is named the agent's way and belongs to no
  known app, or when it is in no project and one of its names is a container name in the
  agent's scheme, but the name of no known app.
\<close>

definition orphan :: "App list \<Rightarrow> Container \<Rightarrow> bool" where
  "orphan apps c \<longleftrightarrow>
     (if projectLabel c \<noteq> []
      then \<not> isl (ParseComposeContainerName (projectLabel c)) \<and> (\<forall>a\<in>set apps. NormalizeComposeProjectName (projectLabel c) \<noteq> projectOf a)
      else \<exists>name\<in>set (ctNames c). let n = TrimPrefix name ''/'' in
             \<not> Contains n ''_compose-'' \<and> \<not> isl (ParseContainerName n) \<and> (\<forall>a\<in>set apps. n \<noteq> containerOf a))"

lemma orphanedName_iff:
  "orphanedName apps names = None \<longleftrightarrow> \<not> (\<exists>name\<in>set names. let n = TrimPrefix name ''/'' in
     \<not> Contains n ''_compose-'' \<and> \<not> isl (ParseContainerName n) \<and> (\<forall>a\<in>set apps. n \<noteq> containerOf a))"
  by (induction names) (auto simp: Let_def)

lemma orphanLabel_iff: "orphanLabel apps c = None \<longleftrightarrow> \<not> orphan apps c"
  unfolding orphanLabel_def orphan_def Let_def using orphanedName_iff [of apps "ctNames c"] by (auto simp: Let_def)

text \<open>The sweep is a sequence of removals none of whose errors stops it.\<close>

lemma run_extE: "run_state (extE n as) w = (rpErr (wExt w (wTrace w) (Ext n as)), w\<lparr>wTrace := wTrace w @ [Ext n as]\<rparr>)"
  by (simp add: extE_def ext_def run_bind State_Monad.get_def State_Monad.set_def State_Monad.return_def)

lemma run_sweep:
  "run_state (steps (map (\<lambda>c. if P c then ret None else removeOrphanedContainer (f c)) cs)) w =
     (None, w\<lparr>wTrace := wTrace w @ map (\<lambda>c. Ext ''Container.RemoveContainerByID'' [f c]) (filter (\<lambda>c. \<not> P c) cs)\<rparr>)"
proof (induction cs arbitrary: w)
  case Nil
  then show ?case by (simp add: State_Monad.return_def)
next
  case (Cons c cs)
  have "run_state (removeOrphanedContainer (f c)) w = (None, w\<lparr>wTrace := wTrace w @ [Ext ''Container.RemoveContainerByID'' [f c]]\<rparr>)"
    by (simp add: removeOrphanedContainer_def ignore_def RemoveContainerByID_def run_bind run_extE State_Monad.return_def)
  then show ?case
    unfolding list.map run_steps_Cons by (simp add: Cons.IH State_Monad.return_def del: steps.simps)
qed

text \<open>What \<^verbatim>\<open>GetAllApps\<close> returns has the keys, stages and names of the rows.\<close>

definition appsOfRows :: "AppStateRow list \<Rightarrow> App list" where
  "appsOfRows = map app_of_row"

lemma attach_requested_keeps [simp]:
  "aAppKey (attach_requested ps a) = aAppKey a" "aStage (attach_requested ps a) = aStage a"
  "aAppName (attach_requested ps a) = aAppName a"
  unfolding attach_requested_def by (induction ps arbitrary: a) auto

lemma GetAppStates_apps:
  obtains r t where "run_state GetAppStates w = (r, w\<lparr>wTrace := wTrace w @ t\<rparr>)" and "set t \<subseteq> range (Ext ''sqlite'')"
    and "\<And>apps. r = Inr apps \<Longrightarrow> \<exists>ps. apps = map (attach_requested ps) (appsOfRows (wAppStates w))"
proof -
  let ?a = "Ext ''sqlite'' [''SelectAllAppStates'']" and ?b = "Ext ''sqlite'' [''SelectAllRequestedStates'']"
  note runs = GetAppStates_def GetRequestedStates_def appsOfRows_def run_bind run_extE gets_def State_Monad.get_def State_Monad.return_def
  show thesis
  proof (cases "rpErr (wExt w (wTrace w) ?a)")
    case (Some x)
    then show ?thesis by (intro that [of "Inl x" "[?a]"]) (simp_all add: runs)
  next
    case None
    show ?thesis
    proof (cases "rpErr (wExt w (wTrace w @ [?a]) ?b)")
      case (Some x)
      with None show ?thesis by (intro that [of "Inl x" "[?a, ?b]"]) (simp_all add: runs)
    next
      case None2: None
      let ?ps = "map (payload_of_row (wConfig w)) (wRequested w)"
      show ?thesis
        using None None2 by (intro that [of "Inr (map (attach_requested ?ps) (appsOfRows (wAppStates w)))" "[?a, ?b]"])
          (auto simp: runs)
    qed
  qed
qed

lemma orphan_attach: "orphan (map (attach_requested ps) apps) = orphan apps"
  by (simp add: fun_eq_iff orphan_def containerOf_def projectOf_def Let_def)

text \<open>
  C40: the sweep after a reconnect changes nothing on the device but by removing containers; it
  removes exactly the orphans among those Docker listed, whatever the single removals return, and
  removes nothing at all when the containers or the known apps cannot be listed.
\<close>

theorem cleanup_removes_exactly_orphans:
  assumes "run_state CleanupOrphanedContainers w = (e, w')"
  shows "\<exists>t. w' = w\<lparr>wTrace := wTrace w @ t @ (if e \<noteq> None then [] else
      map (\<lambda>c. Ext ''Container.RemoveContainerByID'' [ctID c])
        (filter (orphan (appsOfRows (wAppStates w))) (rpContainers (wExt w (wTrace w) (Ext ''Container.GetContainers'' [])))))\<rparr>
    \<and> (\<forall>args. Ext ''Container.RemoveContainerByID'' args \<notin> set t)"
proof -
  let ?call = "Ext ''Container.GetContainers'' []"
  let ?r = "wExt w (wTrace w) ?call" and ?w1 = "w\<lparr>wTrace := wTrace w @ [?call]\<rparr>"
  note runs = CleanupOrphanedContainers_def run_bind ext_def State_Monad.get_def State_Monad.set_def State_Monad.return_def
  show ?thesis
  proof (cases "rpErr ?r")
    case (Some x)
    with assms show ?thesis by (auto simp: runs intro!: exI [of _ "[?call]"])
  next
    case None
    obtain r t where get: "run_state GetAppStates ?w1 = (r, ?w1\<lparr>wTrace := wTrace ?w1 @ t\<rparr>)" and t: "set t \<subseteq> range (Ext ''sqlite'')"
      and apps: "\<And>apps. r = Inr apps \<Longrightarrow> \<exists>ps. apps = map (attach_requested ps) (appsOfRows (wAppStates ?w1))"
      by (rule GetAppStates_apps [of ?w1], rule that) assumption+
    have same: "wAppStates ?w1 = wAppStates w" by simp
    have calls: "\<forall>args. Ext ''Container.RemoveContainerByID'' args \<notin> set (?call # t)" using t by auto
    show ?thesis
    proof (cases r)
      case (Inl x)
      with assms None get calls show ?thesis by (intro exI [of _ "?call # t"]) (simp add: runs, auto)
    next
      case (Inr a)
      let ?rm = "\<lambda>cs. map (\<lambda>c. Ext ''Container.RemoveContainerByID'' [ctID c]) cs"
      have "run_state CleanupOrphanedContainers w =
          (None, w\<lparr>wTrace := wTrace w @ (?call # t) @ ?rm (filter (\<lambda>c. orphanLabel a c \<noteq> None) (rpContainers ?r))\<rparr>)"
        using None get Inr by (simp add: runs run_sweep)
      moreover have "(\<lambda>c. orphanLabel a c \<noteq> None) = orphan a" unfolding orphanLabel_iff by simp
      moreover have "orphan a = orphan (appsOfRows (wAppStates w))"
        using apps [OF Inr, unfolded same] by (metis orphan_attach)
      ultimately show ?thesis
        using assms calls by (intro exI [of _ "?call # t"]) (simp del: not_None_eq)
    qed
  qed
qed

text \<open>A device that runs the container of a known app and one that is left over.\<close>

definition leftover_world :: world where
  "leftover_world = demo_world\<lparr>
     wAppStates := [\<lparr>sAppName = ''cam'', sAppKey = 3, sVersion = ''1'', sReleaseKey = 1, sStage = PROD', sState = RUNNING, sTimestamp = []\<rparr>],
     wExt := (\<lambda>_ c. if c = Ext ''Container.GetContainers'' [] then ok_reply\<lparr>rpContainers := [
       \<lparr>ctID = ''c1'', ctNames = [''/prod_3_cam''], ctLabels = [], ctState = ''running'', ctExitCode = 0, ctImageID = []\<rparr>,
       \<lparr>ctID = ''c2'', ctNames = [''/prod_9_old''], ctLabels = [], ctState = ''running'', ctExitCode = 0, ctImageID = []\<rparr>]\<rparr> else ok_reply)\<rparr>"

theorem cleanup_removes_exactly_orphans_witness:
  "\<exists>t. wTrace (snd (run_state CleanupOrphanedContainers leftover_world)) = t @ [Ext ''Container.RemoveContainerByID'' [''c2'']]
     \<and> (\<forall>args. Ext ''Container.RemoveContainerByID'' args \<notin> set t)"
proof -
  let ?w = leftover_world
  let ?cs = "rpContainers (wExt ?w (wTrace ?w) (Ext ''Container.GetContainers'' []))"
  have e: "fst (run_state CleanupOrphanedContainers ?w) = None" by code_simp
  have "map ctID (filter (orphan (appsOfRows (wAppStates ?w))) ?cs) = [''c2'']" by code_simp
  then have rm: "map (\<lambda>c. Ext ''Container.RemoveContainerByID'' [ctID c]) (filter (orphan (appsOfRows (wAppStates ?w))) ?cs)
      = [Ext ''Container.RemoveContainerByID'' [''c2'']]" by (simp add: map_eq_Cons_conv)
  from cleanup_removes_exactly_orphans [of ?w, OF prod.collapse [symmetric]] obtain t where
    "snd (run_state CleanupOrphanedContainers ?w) = ?w\<lparr>wTrace := wTrace ?w @ t @ [Ext ''Container.RemoveContainerByID'' [''c2'']]\<rparr>"
    and "\<forall>args. Ext ''Container.RemoveContainerByID'' args \<notin> set t"
    unfolding e rm by auto
  then show ?thesis by (intro exI [of _ t]) (simp add: leftover_world_def demo_world_def)
qed

text \<open>The containers of a known app, and every container of its compose project, are no orphans.\<close>

lemma known_container_kept:
  assumes "a \<in> set apps" and "projectLabel c = []" and "set (ctNames c) \<subseteq> {CHR ''/'' # containerOf a, containerOf a}"
    and "\<not> HasPrefix (containerOf a) ''/''"
  shows "\<not> orphan apps c"
proof -
  have "TrimPrefix n ''/'' = containerOf a" if "n \<in> set (ctNames c)" for n
    using that assms(3,4) by (auto simp: TrimPrefix_def)
  with assms(1,2) show ?thesis by (auto simp: orphan_def Let_def)
qed

lemma known_project_kept:
  assumes "a \<in> set apps" and "projectLabel c = projectOf a" and "projectOf a \<noteq> []"
  shows "\<not> orphan apps c"
  using assms by (auto simp: orphan_def projectOf_def NormalizeComposeProjectName_idem)

text \<open>
  The first part of a name is not looked at: a container of somebody else whose name has two
  underscores around a number counts as the agent's and is removed.
\<close>

lemma foreign_container_is_orphan:
  "orphan [] \<lparr>ctID = ''x'', ctNames = [''/redis_1_cache''], ctLabels = [], ctState = ''running'', ctExitCode = 0, ctImageID = []\<rparr>"
  by code_simp

section \<open>Which apps go\<close>

text \<open>The rows of the apps a list of payloads names.\<close>

definition backed :: "TransitionPayload list \<Rightarrow> uint64 \<Rightarrow> Stage \<Rightarrow> bool" where
  "backed ps key stage \<longleftrightarrow> (\<exists>p\<in>set ps. pAppKey p = key \<and> pStage p = stage)"

definition backedRows :: "TransitionPayload list \<Rightarrow> world \<Rightarrow> AppStateRow list \<times> RequestedRow list" where
  "backedRows ps w = (filter (\<lambda>r. backed ps (sAppKey r) (sStage r)) (wAppStates w),
                      filter (\<lambda>r. backed ps (rAppKey r) (rStage r)) (wRequested w))"

abbreviation same_backed :: "TransitionPayload list \<Rightarrow> world \<Rightarrow> world \<Rightarrow> bool" where
  "same_backed ps w w' \<equiv> backedRows ps w' = backedRows ps w \<and> wApps w' = wApps w"

interpretation bck: step_relation "same_backed ps" for ps
  by unfold_locales (simp_all add: backedRows_def)

lemma delete_backed:
  assumes "\<not> backed ps k s"
  shows "keeps (same_backed ps) (DeleteAppState k s)" "keeps (same_backed ps) (DeleteRequestedState k s)"
proof -
  have "\<not> row_of_app k s r" if "backed ps (sAppKey r) (sStage r)" for r
    using that assms by (auto simp: row_of_app_def)
  moreover have "\<not> same_app k s r" if "backed ps (rAppKey r) (rStage r)" for r
    using that assms by (auto simp: same_app_def)
  ultimately show "keeps (same_backed ps) (DeleteAppState k s)" "keeps (same_backed ps) (DeleteRequestedState k s)"
    unfolding DeleteAppState_def DeleteRequestedState_def
    by (intro bck.keeps_intros bck.keeps_modify; auto simp: backedRows_def intro!: filter_cong)+
qed

lemma removeNamed_backed: "keeps (same_backed ps) (removeNamed n)"
  unfolding removeNamed_def GetContainer_def RemoveContainerByID_def by (intro bck.keeps_intros)

lemma removeOrphanedApp_backed:
  "\<not> backed ps (aAppKey a) (aStage a) \<Longrightarrow> keeps (same_backed ps) (removeOrphanedApp a)"
  unfolding removeOrphanedApp_def by (intro bck.keeps_intros removeNamed_backed delete_backed)

lemma not_backed:
  "syncKey k s \<notin> (\<lambda>p. syncKey (pAppKey p) (pStage p)) ` set ps \<Longrightarrow> \<not> backed ps k s"
  by (auto simp: backed_def)

lemma CleanupOrphanedApps_backed: "keeps (same_backed ps) (CleanupOrphanedAppsFromDatabase ps)"
proof -
  have "keeps (same_backed ps) (steps (map (\<lambda>a. if syncKey (aAppKey a) (aStage a) \<in> (\<lambda>p. syncKey (pAppKey p) (pStage p)) ` set ps
      then ret None else removeOrphanedApp a) apps))" for apps
    by (rule bck.keeps_steps) (auto intro!: bck.keeps_return removeOrphanedApp_backed dest: not_backed)
  then show ?thesis
    unfolding CleanupOrphanedAppsFromDatabase_def GetAppStates_def GetRequestedStates_def
    by (intro bck.keeps_intros)
qed

text \<open>A database whose statements do not fail.\<close>

definition sqlite_ok :: "world \<Rightarrow> bool" where
  "sqlite_ok w \<longleftrightarrow> (\<forall>tr stmt. rpErr (wExt w tr (Ext ''sqlite'' [stmt])) = None)"

lemma wp_steps_None:
  assumes "wp m (\<lambda>e w'. e = None \<and> I w') w" and "\<And>w'. I w' \<Longrightarrow> wp (steps ms) Q w'"
  shows "wp (steps (m # ms)) Q w"
  unfolding wp_steps_Cons by (rule wp_mono [OF assms(1)]) (auto simp: assms(2) simp del: steps.simps)

lemma removeNamed_run:
  "wp (removeNamed n) (\<lambda>e w'. e = None \<and> wAppStates w' = wAppStates w \<and> wRequested w' = wRequested w \<and> wExt w' = wExt w) w"
  by (simp add: removeNamed_def GetContainer_def RemoveContainerByID_def wp_simps split: option.split)

lemma removeOrphanedApp_run:
  assumes "sqlite_ok w"
  shows "wp (removeOrphanedApp a) (\<lambda>e w'. e = None \<and> wExt w' = wExt w
    \<and> wAppStates w' = filter (\<lambda>r. \<not> row_of_app (aAppKey a) (aStage a) r) (wAppStates w)) w"
proof -
  have named: "wp (removeNamed n) (\<lambda>e w'. e = None \<and> wExt w' = wExt w \<and> wAppStates w' = wAppStates w) v"
    if "wExt v = wExt w" "wAppStates v = wAppStates w" for n v
    by (rule wp_mono [OF removeNamed_run]) (simp add: that)
  have del: "wp (steps [(if aStage a = DEV then ignore (extE ''Container.RemoveImagesByName'' [img]) else ret None),
      ignore (DeleteAppState (aAppKey a) (aStage a)), ignore (DeleteRequestedState (aAppKey a) (aStage a))])
      (\<lambda>e w'. e = None \<and> wExt w' = wExt w \<and> wAppStates w' = filter (\<lambda>r. \<not> row_of_app (aAppKey a) (aStage a) r) (wAppStates w)) v"
    if "wExt v = wExt w" "wAppStates v = wAppStates w" for v img
    using assms that
    by (simp add: wp_simps wp_steps_Cons DeleteAppState_def DeleteRequestedState_def sqlite_ok_def del: steps.simps)
  show ?thesis
    unfolding removeOrphanedApp_def
    by (rule wp_steps_None [OF named], (rule refl)+, rule wp_steps_None [OF named], (erule conjunct1 conjunct2)+, rule del) simp_all
qed

lemma sweep_apps_run:
  assumes "sqlite_ok w"
  shows "wp (steps (map (\<lambda>a. if P (aAppKey a) (aStage a) then ret None else removeOrphanedApp a) apps))
     (\<lambda>e w'. e = None \<and> wAppStates w' = filter (\<lambda>r. \<forall>a\<in>set apps. P (aAppKey a) (aStage a) \<or> \<not> row_of_app (aAppKey a) (aStage a) r) (wAppStates w)) w"
  using assms
proof (induction apps arbitrary: w)
  case Nil
  then show ?case by (simp add: wp_return)
next
  case (Cons a apps)
  show ?case
  proof (cases "P (aAppKey a) (aStage a)")
    case True
    with Cons show ?thesis by (simp add: wp_steps_Cons wp_return del: steps.simps)
  next
    case False
    have "wp (removeOrphanedApp a) (\<lambda>e w'. e = None \<and> sqlite_ok w'
        \<and> wAppStates w' = filter (\<lambda>r. \<not> row_of_app (aAppKey a) (aStage a) r) (wAppStates w)) w"
      by (rule wp_mono [OF removeOrphanedApp_run [OF Cons.prems]]) (use Cons.prems in \<open>simp add: sqlite_ok_def\<close>)
    then show ?thesis
      unfolding list.map if_not_P [OF False]
      by (rule wp_steps_None) (rule wp_mono [OF Cons.IH], use False in \<open>auto intro: filter_cong\<close>)
  qed
qed

text \<open>
  Cleaning up after a synchronisation touches no app object and no row of an app the backend
  named; when the database works, every other app is gone from the table of app states. An
  empty answer of the backend therefore empties the table.
\<close>

theorem cleanup_apps_spec:
  assumes "run_state (CleanupOrphanedAppsFromDatabase ps) w = (e, w')"
  shows "wApps w' = wApps w \<and> backedRows ps w' = backedRows ps w
    \<and> (sqlite_ok w \<longrightarrow> e = None \<and> (\<forall>r\<in>set (wAppStates w'). syncKey (sAppKey r) (sStage r) \<in> (\<lambda>p. syncKey (pAppKey p) (pStage p)) ` set ps))"
proof -
  let ?keys = "(\<lambda>p. syncKey (pAppKey p) (pStage p)) ` set ps"
  have "e = None \<and> (\<forall>r\<in>set (wAppStates w'). syncKey (sAppKey r) (sStage r) \<in> ?keys)" if ok: "sqlite_ok w"
  proof -
    have get: "wp GetAppStates (\<lambda>r v. (\<exists>ps. r = Inr (map (attach_requested ps) (map app_of_row (wAppStates w)))) \<and> sqlite_ok v \<and> wAppStates v = wAppStates w) w"
      using ok by (auto simp: GetAppStates_def GetRequestedStates_def wp_simps sqlite_ok_def)
    have "wp (CleanupOrphanedAppsFromDatabase ps) (\<lambda>e w'. e = None \<and> (\<forall>r\<in>set (wAppStates w'). syncKey (sAppKey r) (sStage r) \<in> ?keys)) w"
      unfolding CleanupOrphanedAppsFromDatabase_def wp_bind
      by (rule wp_mono [OF get], elim exE conjE, simp only: sum.case,
          rule wp_mono [OF sweep_apps_run [where P = "\<lambda>k s. syncKey k s \<in> ?keys"]]) (auto simp: row_of_app_def app_of_row_def)
    from wp_runD [OF this assms] show ?thesis .
  qed
  with keepsD [OF CleanupOrphanedApps_backed assms] show ?thesis by blast
qed

theorem cleanup_apps_spec_witness:
  "wAppStates (snd (run_state (CleanupOrphanedAppsFromDatabase [])
     (demo_world\<lparr>wAppStates := [\<lparr>sAppName = ''cam'', sAppKey = 3, sVersion = ''1'', sReleaseKey = 1, sStage = PROD', sState = RUNNING, sTimestamp = []\<rparr>]\<rparr>))) = []"
proof -
  let ?w = "demo_world\<lparr>wAppStates := [\<lparr>sAppName = ''cam'', sAppKey = 3, sVersion = ''1'', sReleaseKey = 1, sStage = PROD', sState = RUNNING, sTimestamp = []\<rparr>]\<rparr>"
  have "sqlite_ok ?w" by (simp add: sqlite_ok_def demo_world_def ok_reply_def)
  with cleanup_apps_spec [of "[]" ?w, OF prod.collapse [symmetric]] show ?thesis by (simp del: set_empty add: set_empty [symmetric] ex_in_conv [symmetric])
qed

section \<open>Which requests are taken over\<close>

end
