(* ===== verification/Observer.thy ===== *)
theory Observer
  imports Reconcile
begin

text \<open>
  \<^verbatim>\<open>apps/state_observer.go\<close>: correcting app states after a start, and the observers that poll the
  containers of apps. An observer is a goroutine with its own context; one round of its loop is
  one run of its task, which spawns itself again when the loop goes on. The context of a running
  observer is never canceled: only \<^verbatim>\<open>removeOwnObserver\<close> cancels it, as the observer ends.
\<close>

section \<open>What Docker tells about containers\<close>

definition GetContainerState :: "string \<Rightarrow> (go_error + (string \<times> int)) prog" where
  "GetContainerState name = do {
     r \<leftarrow> ext ''Container.GetContainerState'' [name];
     ret (case rpErr r of Some e \<Rightarrow> Inl e | None \<Rightarrow> Inr (rpStr r, rpNum r)) }"

definition listComposeProjectContainers :: "string \<Rightarrow> (go_error + Container list) prog" where
  "listComposeProjectContainers composeAppName = do {
     r \<leftarrow> ext ''Container.ListContainers'' [''com.docker.compose.project='' @ NormalizeComposeProjectName composeAppName];
     ret (case rpErr r of Some e \<Rightarrow> Inl e | None \<Rightarrow> Inr (rpContainers r)) }"

fun aggregate :: "AppState \<Rightarrow> Container list \<Rightarrow> AppState" where
  "aggregate aggregatedState [] = aggregatedState"
| "aggregate aggregatedState (cont # containers) =
     (if ctState cont = ''running'' then RUNNING
      else aggregate (if ctState cont = ''exited'' \<and> ctExitCode cont > 0 then FAILED else aggregatedState) containers)"

definition aggregateContainerResults :: "Container list \<Rightarrow> AppState" where
  "aggregateContainerResults containers = aggregate PRESENT containers"

section \<open>Correcting app states\<close>

text \<open>The corrected state of an app with containers in the given state.\<close>

definition settledState :: "AppState \<Rightarrow> AppState \<Rightarrow> AppState" where
  "settledState currentAppState observed =
     (if currentAppState = DOWNLOADING \<or> currentAppState = TRANSFERING \<or> currentAppState = BUILDING \<or> currentAppState = PUBLISHING
      then REMOVED else if currentAppState = UPDATING then PRESENT else observed)"

text \<open>The corrected state of an app without a container.\<close>

definition absentState :: "AppState \<Rightarrow> bool \<Rightarrow> AppState" where
  "absentState currentAppState foundImage =
     (if currentAppState = DOWNLOADING \<or> currentAppState = TRANSFERING \<or> currentAppState = PUBLISHING
         \<or> currentAppState = BUILDING \<or> currentAppState = UPDATING
      then (if foundImage then PRESENT else REMOVED)
      else if \<not> foundImage then (if currentAppState = UNINSTALLED then UNINSTALLED else REMOVED)
      else PRESENT)"

definition absentComposeState :: "AppState \<Rightarrow> bool \<Rightarrow> bool \<Rightarrow> AppState" where
  "absentComposeState currentAppState hasComposeDir foundAllImages =
     (if \<not> hasComposeDir then (if currentAppState = UNINSTALLED then UNINSTALLED else REMOVED)
      else if foundAllImages then PRESENT else UNINSTALLED)"

definition notifyIfChanged :: "bool \<Rightarrow> nat \<Rightarrow> AppState \<Rightarrow> AppState \<Rightarrow> err prog" where
  "notifyIfChanged updateRemote app current corrected =
     (if updateRemote then Notify app corrected
      else if current \<noteq> corrected then NotifyLocal app corrected else ret None)"

definition notifyAlways :: "bool \<Rightarrow> nat \<Rightarrow> AppState \<Rightarrow> err prog" where
  "notifyAlways updateRemote app corrected = (if updateRemote then Notify app corrected else NotifyLocal app corrected)"

definition correctAbsentCompose ::
  "TransitionPayload \<Rightarrow> (string \<times> string list) list \<Rightarrow> bool \<Rightarrow> nat \<Rightarrow> err prog" where
  "correctAbsentCompose requestedState images updateRemote app = do {
     a \<leftarrow> app_at app;
     case composeServicesWithMissingImages (pDockerCompose requestedState) images of
       Inl e \<Rightarrow> ret (Some e)
     | Inr missing \<Rightarrow> do {
         r \<leftarrow> ext ''Compose.HasComposeDir'' [aAppName a, Stage_string (aStage a)];
         notifyIfChanged updateRemote app (aCurrentState a) (absentComposeState (aCurrentState a) (rpFlag r) (missing = [])) }}"

definition CorrectComposeAppState ::
  "TransitionPayload \<Rightarrow> (string \<times> string list) list \<Rightarrow> string list \<Rightarrow> bool \<Rightarrow> err prog" where
  "CorrectComposeAppState requestedState images composeNames updateRemote = do {
     let composeName = BuildComposeContainerName (pStage requestedState) (pAppKey requestedState) (pAppName requestedState);
     r \<leftarrow> GetApp (pAppKey requestedState) (pStage requestedState);
     case r of
       Inl e \<Rightarrow> ret (Some e)
     | Inr None \<Rightarrow> ret None
     | Inr (Some app) \<Rightarrow>
         if composeName \<notin> set composeNames then correctAbsentCompose requestedState images updateRemote app
         else do {
           s \<leftarrow> listComposeProjectContainers composeName;
           case s of Inl e \<Rightarrow> ret (Some e) | Inr containers \<Rightarrow> do {
             a \<leftarrow> app_at app;
             ignore (notifyAlways updateRemote app (settledState (aCurrentState a) (aggregateContainerResults containers))) }}}"

definition stageImage :: "TransitionPayload \<Rightarrow> string" where
  "stageImage rState = (if pStage rState = DEV then Dev (pRegistryImageName rState)
     else if pStage rState = PROD' then Prod (pRegistryImageName rState) else [])"

definition imageFound :: "string \<Rightarrow> (string \<times> string list) list \<Rightarrow> bool" where
  "imageFound fullImageName images =
     list_ex (\<lambda>image. case snd image of [] \<Rightarrow> False | tag # _ \<Rightarrow> Contains tag fullImageName) images"

text \<open>The pause between two apps, taken unless it was the last one.\<close>

definition throttle :: "bool \<Rightarrow> bool \<Rightarrow> err prog" where
  "throttle updateRemote isLast = (if updateRemote \<and> \<not> isLast then ignore (ext ''time.Sleep'' [''100ms'']) else ret None)"

definition correctSingle :: "TransitionPayload \<Rightarrow> (string \<times> string list) list \<Rightarrow> bool \<Rightarrow> bool \<Rightarrow> nat \<Rightarrow> err prog" where
  "correctSingle rState images updateRemote isLast app = do {
     s \<leftarrow> GetContainerState (BuildContainerName (pStage rState) (pAppKey rState) (pAppName rState));
     a \<leftarrow> app_at app;
     case s of
       Inl e \<Rightarrow>
         if \<not> IsContainerNotFound (Some e) then ret (Some e)
         else steps [
           ignore (notifyIfChanged updateRemote app (aCurrentState a) (absentState (aCurrentState a) (imageFound (stageImage rState) images))),
           throttle updateRemote isLast]
     | Inr (status, exitCode) \<Rightarrow>
         (case ContainerStateToAppState status exitCode of
            None \<Rightarrow> ret (Some (Msg ''unkown state''))
          | Some observed \<Rightarrow> steps [
              ignore (notifyAlways updateRemote app (settledState (aCurrentState a) observed)),
              throttle updateRemote isLast]) }"

definition correctEntry :: "(string \<times> string list) list \<Rightarrow> string list \<Rightarrow> bool \<Rightarrow> bool \<Rightarrow> TransitionPayload \<Rightarrow> err prog" where
  "correctEntry images composeNames updateRemote isLast rState =
     (if pDockerCompose rState \<noteq> None
      then steps [CorrectComposeAppState rState images composeNames updateRemote, throttle updateRemote isLast]
      else do {
        r \<leftarrow> GetApp (pAppKey rState) (pStage rState);
        case r of
          Inl e \<Rightarrow> ret (Some e)
        | Inr None \<Rightarrow> ret None
        | Inr (Some app) \<Rightarrow> correctSingle rState images updateRemote isLast app })"

fun correctEntries :: "(string \<times> string list) list \<Rightarrow> string list \<Rightarrow> bool \<Rightarrow> TransitionPayload list \<Rightarrow> err prog list" where
  "correctEntries images composeNames updateRemote [] = []"
| "correctEntries images composeNames updateRemote (p # ps) =
     correctEntry images composeNames updateRemote (ps = []) p # correctEntries images composeNames updateRemote ps"

definition CorrectAppStates :: "bool \<Rightarrow> err prog" where
  "CorrectAppStates updateRemote = do {
     r \<leftarrow> GetRequestedStates;
     case r of Inl e \<Rightarrow> ret (Some e) | Inr rStates \<Rightarrow> do {
     images \<leftarrow> ext ''Container.GetImages'' [[]];
     case rpErr images of Some e \<Rightarrow> ret (Some e) | None \<Rightarrow> do {
     list \<leftarrow> ext ''Compose.List'' [];
     case rpErr list of Some e \<Rightarrow> ret (Some e) | None \<Rightarrow>
       steps (correctEntries (rpStrs images) (map fst (rpStrs list)) updateRemote rStates) }}}"

section \<open>Observers\<close>

definition removeOwnObserver :: "string \<Rightarrow> nat \<Rightarrow> err prog" where
  "removeOwnObserver mapKey ownerCtx = ignore (modify (\<lambda>w.
     if map_of (wObservers w) mapKey = Some ownerCtx then w\<lparr>wObservers := map_del mapKey (wObservers w)\<rparr> else w))"

text \<open>The section under the map's mutex: start the goroutine and register it, unless one is registered.\<close>

definition registerObserver :: "string \<Rightarrow> (nat \<Rightarrow> task) \<Rightarrow> bool prog" where
  "registerObserver mapKey start = do {
     w \<leftarrow> State_Monad.get;
     if map_of (wObservers w) mapKey \<noteq> None then ret False
     else do {
       _ \<leftarrow> modify (\<lambda>w. w\<lparr>wObservers := (mapKey, wNextCtx w) # wObservers w, wNextCtx := Suc (wNextCtx w),
                             wTasks := wTasks w @ [start (wNextCtx w)]\<rparr>);
       ret True }}"

definition addObserver :: "Stage \<Rightarrow> uint64 \<Rightarrow> string \<Rightarrow> bool prog" where
  "addObserver stage appKey appName = do {
     let containerName = BuildContainerName stage appKey appName;
     s \<leftarrow> GetContainerState containerName;
     case s of Inl _ \<Rightarrow> ret False
     | Inr _ \<Rightarrow> registerObserver containerName (\<lambda>ctx. ObserveTask ctx stage appKey appName ''UKNOWN'') }"

definition addComposeObserver :: "Stage \<Rightarrow> uint64 \<Rightarrow> string \<Rightarrow> (go_error + bool) prog" where
  "addComposeObserver stage appKey appName = do {
     let composeName = BuildComposeContainerName stage appKey appName;
     s \<leftarrow> listComposeProjectContainers composeName;
     case s of
       Inl e \<Rightarrow> ret (Inl e)
     | Inr containers \<Rightarrow>
         if containers = [] then ret (Inr False)
         else do { created \<leftarrow> registerObserver composeName (\<lambda>ctx. ObserveComposeTask ctx stage appKey appName NoState); ret (Inr created) } }"

text \<open>\<open>Some\<close> is what the loop goes on with, \<open>None\<close> the end of the goroutine.\<close>

definition again :: "'a \<Rightarrow> 'a option prog" where
  "again seen = do { _ \<leftarrow> ext ''time.Sleep'' [''1s'']; ret (Some seen) }"

text \<open>What follows a state that was reported: production apps are driven back to what was requested.\<close>

definition driveBack :: "string \<Rightarrow> nat \<Rightarrow> Stage \<Rightarrow> AppState \<Rightarrow> 'a \<Rightarrow> 'a option prog" where
  "driveBack topic app stage latest seen =
     (if stage \<noteq> PROD' then again seen
      else do {
        a \<leftarrow> app_at app;
        q \<leftarrow> GetRequestedState (aAppKey a) (aStage a);
        case q of
          Inl _ \<Rightarrow> ret None
        | Inr payload \<Rightarrow>
            if latest = FAILED then do {
              (retries, sleepTime) \<leftarrow> incrementCrashLoop payload;
              _ \<leftarrow> LogWrite topic (''Entered a crashloop ('' @ Ordinal retries @ '' attempt), retrying in '' @ itoa_int sleepTime);
              ret None }
            else do { _ \<leftarrow> RequestAppState payload; again seen }})"

definition observeRound :: "Stage \<Rightarrow> uint64 \<Rightarrow> string \<Rightarrow> string \<Rightarrow> string option prog" where
  "observeRound stage appKey appName lastKnownStatus = do {
     let containerName = BuildContainerName stage appKey appName;
     s \<leftarrow> GetContainerState containerName;
     case s of
       Inl e \<Rightarrow> if \<not> IsContainerNotFound (Some e) then ret None else do { _ \<leftarrow> GetApp appKey stage; ret None }
     | Inr (status, exitCode) \<Rightarrow>
         if lastKnownStatus = status then again lastKnownStatus
         else case ContainerStateToAppState status exitCode of
           None \<Rightarrow> ret None
         | Some latestAppState \<Rightarrow> do {
             r \<leftarrow> GetApp appKey stage;
             case r of
               Inl _ \<Rightarrow> ret None
             | Inr None \<Rightarrow> ret None
             | Inr (Some app) \<Rightarrow> do {
                 a \<leftarrow> app_at app;
                 alreadyTransitioning \<leftarrow> SecureTransition app;
                 if alreadyTransitioning then again lastKnownStatus
                 else do {
                   _ \<leftarrow> UnlockTransition app;
                   if aCurrentState a \<noteq> latestAppState \<and> \<not> IsTransientState (aCurrentState a) \<and> \<not> IsTransientState latestAppState
                   then do {
                     e \<leftarrow> Notify app latestAppState;
                     if e \<noteq> None then ret None
                     else do {
                       _ \<leftarrow> (if latestAppState = FAILED \<and> (stage = DEV \<or> stage = PROD')
                            then LogWrite containerName (appName @ '' ('' @ Stage_string stage @ '') exited with status code: '' @ itoa_int exitCode)
                            else ret None);
                       driveBack containerName app stage latestAppState status }}
                   else again status }}}}"

definition observeComposeRound :: "Stage \<Rightarrow> uint64 \<Rightarrow> string \<Rightarrow> AppState \<Rightarrow> AppState option prog" where
  "observeComposeRound stage appKey appName lastKnownStatus = do {
     s \<leftarrow> listComposeProjectContainers (BuildComposeContainerName stage appKey appName);
     case s of
       Inl _ \<Rightarrow> again lastKnownStatus
     | Inr containers \<Rightarrow>
         if containers = [] then ret None
         else do {
           let latestAppState = aggregateContainerResults containers;
           r \<leftarrow> GetApp appKey stage;
           case r of
             Inl _ \<Rightarrow> ret None
           | Inr None \<Rightarrow> ret None
           | Inr (Some app) \<Rightarrow> do {
               a \<leftarrow> app_at app;
               alreadyTransitioning \<leftarrow> SecureTransition app;
               if alreadyTransitioning then again lastKnownStatus
               else do {
                 _ \<leftarrow> UnlockTransition app;
                 if lastKnownStatus = latestAppState \<and> latestAppState = aCurrentState a then again lastKnownStatus
                 else if aCurrentState a \<noteq> latestAppState \<and> \<not> IsTransientState (aCurrentState a)
                 then do {
                   e \<leftarrow> Notify app latestAppState;
                   if e \<noteq> None then ret None
                   else driveBack (BuildContainerName stage appKey appName) app stage latestAppState latestAppState }
                 else again latestAppState }}}}"

definition goOn :: "string \<Rightarrow> nat \<Rightarrow> ('a \<Rightarrow> task) \<Rightarrow> 'a option \<Rightarrow> err prog" where
  "goOn mapKey ctx next r =
     (case r of None \<Rightarrow> removeOwnObserver mapKey ctx | Some seen \<Rightarrow> ignore (spawn (next seen)))"

definition observeAppState :: "nat \<Rightarrow> Stage \<Rightarrow> uint64 \<Rightarrow> string \<Rightarrow> string \<Rightarrow> err prog" where
  "observeAppState ctx stage appKey appName lastKnownStatus = do {
     r \<leftarrow> observeRound stage appKey appName lastKnownStatus;
     goOn (BuildContainerName stage appKey appName) ctx (ObserveTask ctx stage appKey appName) r }"

definition observeComposeAppState :: "nat \<Rightarrow> Stage \<Rightarrow> uint64 \<Rightarrow> string \<Rightarrow> AppState \<Rightarrow> err prog" where
  "observeComposeAppState ctx stage appKey appName lastKnownStatus = do {
     r \<leftarrow> observeComposeRound stage appKey appName lastKnownStatus;
     goOn (BuildComposeContainerName stage appKey appName) ctx (ObserveComposeTask ctx stage appKey appName) r }"

section \<open>Container events\<close>

text \<open>
  \<^verbatim>\<open>ContainerNameRegexExp\<close> is \<^verbatim>\<open>(.{3,4})_([0-9]*)_.*\<close>, not anchored: somewhere an underscore with
  three characters of its line before it, then digits, then another underscore.
\<close>

definition is_digit :: "char \<Rightarrow> bool" where
  "is_digit c = (char_digit c \<noteq> None)"

fun nameScan :: "nat \<Rightarrow> string \<Rightarrow> bool" where
  "nameScan before [] = False"
| "nameScan before (c # cs) =
     ((3 \<le> before \<and> c = CHR ''_'' \<and> HasPrefix (dropWhile is_digit cs) ''_'')
      \<or> nameScan (if c = LF then 0 else Suc before) cs)"

definition ContainerNameRegexExp :: "string \<Rightarrow> bool" where
  "ContainerNameRegexExp s = nameScan 0 s"

text \<open>
  \<^verbatim>\<open>ComposeContainerNameRegexExp\<close>: \<^verbatim>\<open>(dev|prod)_(\d+)_([a-zA-Z0-9]+)_compose-([a-zA-Z0-9]+)-(\d+)\<close>.
  What follows a repeated class is never in the class, so each repetition takes all it can.
\<close>

definition is_alnum :: "char \<Rightarrow> bool" where
  "is_alnum c = (let n = of_char c :: nat in (48 \<le> n \<and> n \<le> 57) \<or> (65 \<le> n \<and> n \<le> 90) \<or> (97 \<le> n \<and> n \<le> 122))"

definition eat :: "string \<Rightarrow> string option \<Rightarrow> string option" where
  "eat p r = (case r of None \<Rightarrow> None | Some s \<Rightarrow> if HasPrefix s p then Some (drop (length p) s) else None)"

definition eat1 :: "(char \<Rightarrow> bool) \<Rightarrow> string option \<Rightarrow> string option" where
  "eat1 P r = (case r of None \<Rightarrow> None | Some s \<Rightarrow> if takeWhile P s = [] then None else Some (dropWhile P s))"

definition composeMatchFrom :: "string \<Rightarrow> bool" where
  "composeMatchFrom s =
     list_ex (\<lambda>stage. eat1 is_digit (eat ''-'' (eat1 is_alnum (eat ''_compose-'' (eat1 is_alnum
        (eat ''_'' (eat1 is_digit (eat ''_'' (eat stage (Some s))))))))) \<noteq> None) [''dev'', ''prod'']"

fun suffixes_of :: "'a list \<Rightarrow> 'a list list" where
  "suffixes_of [] = [[]]"
| "suffixes_of (x # xs) = (x # xs) # suffixes_of xs"

definition ComposeContainerNameRegexExp :: "string \<Rightarrow> bool" where
  "ComposeContainerNameRegexExp s = list_ex composeMatchFrom (suffixes_of s)"

text \<open>What the spawner's loop does with one event.\<close>

definition containerEvent :: "string \<Rightarrow> string \<Rightarrow> err prog" where
  "containerEvent action containerName =
     (if action \<noteq> ''create'' \<and> action \<noteq> ''start'' then ret None
      else if ComposeContainerNameRegexExp containerName then
        (case ParseComposeContainerName (hd (Split (CHR ''-'') containerName)) of
           Inl _ \<Rightarrow> ret None
         | Inr (stage, key, name) \<Rightarrow> ignore (addComposeObserver stage key name))
      else if ContainerNameRegexExp containerName then
        (case ParseContainerName containerName of
           Inl _ \<Rightarrow> ret None
         | Inr (stage, key, name) \<Rightarrow> ignore (addObserver stage key name))
      else ret None)"

definition initObserverSpawner :: "err prog" where
  "initObserverSpawner = do {
     _ \<leftarrow> ext ''Container.ListenForContainerEvents'' [];
     ignore (modify (\<lambda>w. w\<lparr>wSpawnerActive := True\<rparr>)) }"

text \<open>The spawner's loop when the stream of events ends with an error.\<close>

definition spawnerFailed :: "err prog" where
  "spawnerFailed = ignore (modify (\<lambda>w. w\<lparr>wSpawnerActive := False\<rparr>))"

definition observable :: "AppState \<Rightarrow> bool" where
  "observable s \<longleftrightarrow> \<not> (s = REMOVED \<or> s = UNINSTALLED \<or> s = FAILED \<or> s = BUILT \<or> s = PUBLISHED)"

definition observeApp :: "App \<Rightarrow> err prog" where
  "observeApp a =
     (if \<not> observable (aCurrentState a) then ret None
      else do {
        createdObserver \<leftarrow> addObserver (aStage a) (aAppKey a) (aAppName a);
        if createdObserver then ret None else ignore (addComposeObserver (aStage a) (aAppKey a) (aAppName a)) })"

definition ObserveAppStates :: "err prog" where
  "ObserveAppStates = do {
     r \<leftarrow> GetAppStates;
     case r of Inl e \<Rightarrow> ret (Some e)
     | Inr apps \<Rightarrow> do {
         _ \<leftarrow> steps (map observeApp apps);
         active \<leftarrow> gets wSpawnerActive;
         if active then ret None else initObserverSpawner }}"

section \<open>The state of a compose project\<close>

lemma aggregate_spec:
  "aggregate s cs =
     (if \<exists>c\<in>set cs. ctState c = ''running'' then RUNNING
      else if \<exists>c\<in>set cs. ctState c = ''exited'' \<and> ctExitCode c > 0 then FAILED else s)"
  by (induction cs arbitrary: s) auto

text \<open>
  The state derived from a compose project's containers is \<^verbatim>\<open>RUNNING\<close> when one of them runs,
  otherwise \<^verbatim>\<open>FAILED\<close> when one exited with a positive code, otherwise \<^verbatim>\<open>PRESENT\<close>; it depends on
  the set of containers alone, not on the order Docker lists them in.
\<close>

theorem aggregateContainerResults_spec:
  "aggregateContainerResults cs =
     (if \<exists>c\<in>set cs. ctState c = ''running'' then RUNNING
      else if \<exists>c\<in>set cs. ctState c = ''exited'' \<and> ctExitCode c > 0 then FAILED else PRESENT)"
  by (simp add: aggregateContainerResults_def aggregate_spec)

section \<open>Corrected states\<close>

lemma ContainerState_settled:
  "ContainerStateToAppState status code = Some s \<Longrightarrow> IsTransientState s \<Longrightarrow> status = ''removing'' \<and> s = STOPPING"
  by (auto simp: ContainerStateToAppState_def IsTransientState_def split: if_splits)

text \<open>
  Correcting an app's state never leaves it in a state that needs a running transition:
  whatever state it was in, with or without containers, the corrected state is a settled one,
  but for a container that Docker is just removing.
\<close>

theorem corrected_state_settled:
  "\<not> IsTransientState (absentState cur found) \<and> \<not> IsTransientState (absentComposeState cur dir images)
   \<and> \<not> IsTransientState (settledState cur (aggregateContainerResults cs))
   \<and> (ContainerStateToAppState status code = Some s \<and> status \<noteq> ''removing'' \<longrightarrow> \<not> IsTransientState (settledState cur s))"
proof -
  have "\<not> IsTransientState (aggregateContainerResults cs)"
    unfolding aggregateContainerResults_def aggregate_spec by (simp add: IsTransientState_def)
  then show ?thesis
    using ContainerState_settled [of status code s]
    by (auto simp: absentState_def absentComposeState_def settledState_def IsTransientState_def)
qed

theorem corrected_state_settled_witness:
  "\<not> IsTransientState (settledState STARTING RUNNING)"
  using corrected_state_settled [where cur = STARTING and status = "''running''" and code = 0 and s = RUNNING]
  by (simp add: ContainerStateToAppState_def)

text \<open>
  A compose service with a hyphen in its name does not match the pattern for compose containers;
  its container is then taken for a container of its own, and observed under the app's key.
\<close>

lemma hyphenated_service_taken_for_app:
  "\<not> ComposeContainerNameRegexExp ''prod_6_app_compose-my-db-1''"
  "ContainerNameRegexExp ''prod_6_app_compose-my-db-1''"
  "ParseContainerName ''prod_6_app_compose-my-db-1'' = Inr (PROD', 6, ''app_compose-my-db-1'')"
  "BuildContainerName PROD' 6 ''app_compose-my-db-1'' = ''prod_6_app_compose-my-db-1''"
  by code_simp+

end
