(* ===== verification/DiskGuard.thy ===== *)
theory DiskGuard
  imports Reconcile
begin

text \<open>
  \<^verbatim>\<open>diskguard/diskguard.go\<close>: the guard that reclaims space when the disk runs low and declares a
  disk emergency when it is nearly full. The emergency flag is the world's; the guard's
  configuration and the time of its last registry collection are a record of its own. Listed
  volumes come as containers do (name and labels), images with their tags, directory entries
  with the mark \<^verbatim>\<open>dir\<close> when they are directories, log files with their sizes.
\<close>

section \<open>Data\<close>

datatype action = actNone | actWarn | actEmergency

record Guard =
  gDocker :: bool \<comment> \<open>a Docker client is there\<close>
  gDataRoot :: string
  gInterval :: int
  gEmergencyInterval :: int
  gWarnFreeBytes :: int
  gEmergencyFreeBytes :: int
  gLogMaxBytes :: int
  gAppsComposeDir :: string
  gAppsBuildDir :: string
  gInstalledAppNames :: "(go_error + string list) prog option"
  gAppImageRegistry :: string
  gWantedAppImages :: "(go_error + string list) prog option"
  gOnRecover :: bool
  gRegistryGC :: bool
  gLastRegistryGC :: int

definition gib :: int where
  "gib = 2 ^ 30"

definition withDefaults :: "Guard \<Rightarrow> Guard" where
  "withDefaults c = c\<lparr>
     gDataRoot := (if gDataRoot c = [] then ''/var/lib/docker'' else gDataRoot c),
     gInterval := (if gInterval c = 0 then 5 * 60 * Second else gInterval c),
     gEmergencyInterval := (if gEmergencyInterval c = 0 then 5 * Second else gEmergencyInterval c),
     gWarnFreeBytes := (if gWarnFreeBytes c = 0 then 3 * gib else gWarnFreeBytes c),
     gEmergencyFreeBytes := (if gEmergencyFreeBytes c = 0 then gib else gEmergencyFreeBytes c),
     gLogMaxBytes := (if gLogMaxBytes c = 0 then 50 * 2 ^ 20 else gLogMaxBytes c)\<rparr>"

definition registryGCMinInterval :: int where
  "registryGCMinInterval = 15 * 60 * Second"

definition applianceComposeProject :: string where
  "applianceComposeProject = ''ironflock-appliance''"

section \<open>Reading the disk\<close>

definition freeBytes :: "Guard \<Rightarrow> int prog" where
  "freeBytes g = do {
     st \<leftarrow> ext ''syscall.Statfs'' [gDataRoot g];
     ret (if rpErr st \<noteq> None then 2 ^ 50 else sint (lookup0 (rpPorts st) ''Bavail'' * lookup0 (rpPorts st) ''Bsize'')) }"

definition decide :: "Guard \<Rightarrow> int \<Rightarrow> action" where
  "decide g free =
     (if free < gEmergencyFreeBytes g then actEmergency else if free < gWarnFreeBytes g then actWarn else actNone)"

section \<open>Cleaning up\<close>

definition triggerRegistryGC :: "Guard \<Rightarrow> Guard prog" where
  "triggerRegistryGC g =
     (if \<not> gRegistryGC g then ret g
      else do {
        now \<leftarrow> ext ''time.Now'' [];
        if rpNum now - gLastRegistryGC g < registryGCMinInterval then ret g
        else do {
          stamp \<leftarrow> ext ''time.Now'' [];
          _ \<leftarrow> ext ''registryGC'' [];
          ret (g\<lparr>gLastRegistryGC := rpNum stamp\<rparr>) } })"

definition isAnonymousVolumeName :: "string \<Rightarrow> bool" where
  "isAnonymousVolumeName name \<longleftrightarrow> length name = 64 \<and>
     list_all (\<lambda>r. let n = of_char r :: nat in \<not> ((n < 48 \<or> n > 57) \<and> (n < 97 \<or> n > 102))) name"

definition matchesProject :: "string \<Rightarrow> reply \<Rightarrow> bool" where
  "matchesProject project r \<longleftrightarrow> rpErr r = None \<and>
     list_ex (\<lambda>e. ''dir'' \<in> set (snd e) \<and> NormalizeComposeProjectName (fst e) = project) (rpStrs r)"

definition dirUnder :: "string \<Rightarrow> string \<Rightarrow> bool prog" where
  "dirUnder project dir =
     (if dir = [] then ret False else do { r \<leftarrow> ext ''os.ReadDir'' [dir]; ret (matchesProject project r) })"

definition hasAppDirForProject :: "Guard \<Rightarrow> string \<Rightarrow> bool prog" where
  "hasAppDirForProject g project = do {
     found \<leftarrow> dirUnder project (gAppsComposeDir g);
     if found then ret True else dirUnder project (gAppsBuildDir g) }"

definition removeVolume :: "string \<Rightarrow> err prog" where
  "removeVolume name = ignore (ext ''Docker.RemoveVolume'' [name])"

definition pruneVolume :: "Guard \<Rightarrow> string list option \<Rightarrow> Container \<Rightarrow> err prog" where
  "pruneVolume g installed v =
     (let project = projectLabel v in
      if project = [] then
        (if ctLabels v = [] \<and> isAnonymousVolumeName (ctID v) then removeVolume (ctID v) else ret None)
      else if project = applianceComposeProject then ret None
      else case installed of
        None \<Rightarrow> ret None
      | Some names \<Rightarrow>
          if project \<in> NormalizeComposeProjectName ` set names then ret None
          else do {
            owned \<leftarrow> hasAppDirForProject g project;
            if owned then removeVolume (ctID v) else ret None })"

text \<open>The names of the installed apps, when they can be read.\<close>

definition installedNames :: "Guard \<Rightarrow> string list option prog" where
  "installedNames g = (case gInstalledAppNames g of
     None \<Rightarrow> ret None
   | Some read \<Rightarrow> do { r \<leftarrow> read; ret (case r of Inl _ \<Rightarrow> None | Inr names \<Rightarrow> Some names) })"

definition pruneOrphanedVolumes :: "Guard \<Rightarrow> err prog" where
  "pruneOrphanedVolumes g = do {
     r \<leftarrow> ext ''Docker.ListDanglingVolumes'' [];
     if rpErr r \<noteq> None \<or> rpContainers r = [] then ret None
     else do {
       installed \<leftarrow> installedNames g;
       steps (map (pruneVolume g installed) (rpContainers r)) }}"

fun before_slash :: "string \<Rightarrow> string option" where
  "before_slash [] = None"
| "before_slash (c # cs) = (if c = CHR ''/'' then Some [] else map_option ((#) c) (before_slash cs))"

definition registryHostOf :: "string \<Rightarrow> string" where
  "registryHostOf ref = (case before_slash ref of
     None \<Rightarrow> []
   | Some host \<Rightarrow> if \<not> ContainsAny host ''.:'' \<and> \<not> EqualFold host ''localhost'' then [] else host)"

definition TrimBrackets :: "string \<Rightarrow> string" where
  "TrimBrackets s = rev (TrimLeft (rev (TrimLeft s ''[]'')) ''[]'')"

definition localRegistryHost :: "Lib \<Rightarrow> string \<Rightarrow> string option" where
  "localRegistryHost lib registryURL =
     (let host = registryHostOf (TrimSuffix registryURL ''/'' @ ''/'') in
      if host = [] then None
      else let name = TrimBrackets (case lSplitHostPort lib host of Some h \<Rightarrow> h | None \<Rightarrow> host) in
        if EqualFold name ''localhost'' \<or> lLocalIP lib name then Some host else None)"

definition removeImageTag :: "string \<Rightarrow> err prog" where
  "removeImageTag tag = ignore (ext ''Docker.RemoveImage'' [tag])"

definition supersededTags :: "string \<Rightarrow> string list \<Rightarrow> string list \<Rightarrow> (string \<times> string list) list \<Rightarrow> string list" where
  "supersededTags host wanted pinned images =
     concat (map (\<lambda>(image, tags). if image \<in> set pinned then []
        else filter (\<lambda>tag. \<not> (registryHostOf tag \<noteq> host \<or> tag \<in> set wanted)) tags) images)"

definition reclaimSupersededAppImages :: "Guard \<Rightarrow> err prog" where
  "reclaimSupersededAppImages g = do {
     lib \<leftarrow> gets wLib;
     case localRegistryHost lib (gAppImageRegistry g) of
       None \<Rightarrow> ret None
     | Some host \<Rightarrow>
         (case gWantedAppImages g of
            None \<Rightarrow> ret None
          | Some readWanted \<Rightarrow> do {
              w \<leftarrow> readWanted;
              case w of Inl _ \<Rightarrow> ret None | Inr wanted \<Rightarrow> do {
              containers \<leftarrow> ext ''Docker.ListContainers'' [''all''];
              if rpErr containers \<noteq> None then ret None else do {
              images \<leftarrow> ext ''Docker.ListImages'' [];
              if rpErr images \<noteq> None then ret None
              else steps (map removeImageTag
                     (supersededTags host wanted (map ctImageID (rpContainers containers)) (rpStrs images))) }}}) }"

definition truncateOversizedLogs :: "Guard \<Rightarrow> err prog" where
  "truncateOversizedLogs g = do {
     files \<leftarrow> ext ''filepath.WalkDir'' [gDataRoot g @ ''/containers''];
     steps (map (\<lambda>(path, size). if HasSuffix path ''.log'' \<and> sint size > gLogMaxBytes g
                                  then ignore (ext ''os.Truncate'' [path]) else ret None) (rpPorts files)) }"

definition safeCleanup :: "Guard \<Rightarrow> Guard prog" where
  "safeCleanup g0 = do {
     g \<leftarrow> triggerRegistryGC g0;
     _ \<leftarrow> (if gDocker g then steps [
            ignore (ext ''Docker.PruneDanglingImages'' []),
            ignore (ext ''Docker.PruneBuildCache'' []),
            pruneOrphanedVolumes g,
            reclaimSupersededAppImages g] else ret None);
     _ \<leftarrow> ext ''exec'' [''journalctl'', ''--vacuum-size=100M''];
     apt \<leftarrow> ext ''exec.LookPath'' [''apt-get''];
     _ \<leftarrow> (if rpErr apt = None then ignore (ext ''exec'' [''apt-get'', ''clean'']) else ret None);
     _ \<leftarrow> truncateOversizedLogs g;
     ret g }"

section \<open>The emergency\<close>

definition stopForeignContainers :: "Guard \<Rightarrow> err prog" where
  "stopForeignContainers g =
     (if \<not> gDocker g then ret None
      else do {
        r \<leftarrow> ext ''Docker.ListContainers'' [];
        if rpErr r \<noteq> None then ret None
        else steps (map (\<lambda>c. if ctState c \<noteq> ''running'' then ret None
                              else if projectLabel c = applianceComposeProject then ret None
                              else ignore (ext ''Docker.StopContainerByID'' [ctID c])) (rpContainers r)) })"

definition setEmergency :: "bool \<Rightarrow> bool prog" where
  "setEmergency v = do {
     old \<leftarrow> gets wEmergency;
     _ \<leftarrow> modify (\<lambda>w. w\<lparr>wEmergency := v\<rparr>);
     ret (old \<noteq> v) }"

definition updateEmergency :: "Guard \<Rightarrow> int \<Rightarrow> err prog" where
  "updateEmergency g free = (case decide g free of
     actEmergency \<Rightarrow> do { _ \<leftarrow> setEmergency True; stopForeignContainers g }
   | actNone \<Rightarrow> do {
       changed \<leftarrow> setEmergency False;
       if changed \<and> gOnRecover g then ignore (spawn RecoverTask) else ret None }
   | actWarn \<Rightarrow> ret None)"

definition runOnce :: "Guard \<Rightarrow> Guard prog" where
  "runOnce g0 = do {
     free0 \<leftarrow> freeBytes g0;
     _ \<leftarrow> (if decide g0 free0 = actEmergency then updateEmergency g0 free0 else ret None);
     (g, free) \<leftarrow> (if decide g0 free0 \<noteq> actNone then do { g \<leftarrow> safeCleanup g0; free \<leftarrow> freeBytes g; ret (g, free) }
                 else ret (g0, free0));
     _ \<leftarrow> updateEmergency g free;
     ret g }"

definition pollInterval :: "Guard \<Rightarrow> bool \<Rightarrow> int" where
  "pollInterval g emergency = (if emergency then gEmergencyInterval g else gInterval g)"

text \<open>The first rounds of \<^verbatim>\<open>Run\<close>, which ends only when its context does.\<close>

fun Run :: "nat \<Rightarrow> Guard \<Rightarrow> Guard prog" where
  "Run 0 g = ret g"
| "Run (Suc n) g = do {
     g' \<leftarrow> runOnce g;
     emergency \<leftarrow> gets wEmergency;
     _ \<leftarrow> ext ''time.After'' [itoa_int (pollInterval g' emergency)];
     Run n g' }"

definition CheckNow :: "Guard \<Rightarrow> Guard prog" where
  "CheckNow g = runOnce g"

section \<open>Prevention\<close>

text \<open>
  The rotation of container logs: what is missing in \<^verbatim>\<open>daemon.json\<close> is added. The file's object is
  an association list, \<open>None\<close> the nil map that decoding \<^verbatim>\<open>null\<close> leaves, into which an assignment
  panics. Go renders the keys of a map in order; the encoding is applied to the pairs as they are.
\<close>

definition daemonJSONPath :: string where
  "daemonJSONPath = ''/etc/docker/daemon.json''"

definition journaldDropin :: string where
  "journaldDropin = ''/etc/systemd/journald.conf.d/10-ironflock.conf''"

definition addMissing :: "string \<Rightarrow> json \<Rightarrow> (string \<times> json) list \<Rightarrow> (string \<times> json) list" where
  "addMissing key v m = (if map_of m key \<in> {None, Some JNull} then map_put key v m else m)"

definition withLogRotation :: "(string \<times> json) list \<Rightarrow> (string \<times> json) list" where
  "withLogRotation m = addMissing ''log-opts'' (JObj [(''max-size'', JStr ''10m''), (''max-file'', JStr ''3'')])
     (addMissing ''log-driver'' (JStr ''json-file'') m)"

definition daemonConfig :: "Lib \<Rightarrow> reply \<Rightarrow> (string \<times> json) list option option" where
  "daemonConfig lib file =
     (if rpErr file \<noteq> None \<or> rpStr file = [] then Some (Some [])
      else case lUnmarshal lib (rpStr file) of
        Some (JObj m) \<Rightarrow> Some (Some m)
      | Some JNull \<Rightarrow> Some None
      | _ \<Rightarrow> None)"

definition ensureDockerLogRotation :: "err prog" where
  "ensureDockerLogRotation = do {
     file \<leftarrow> ext ''os.ReadFile'' [daemonJSONPath];
     lib \<leftarrow> gets wLib;
     case daemonConfig lib file of
       None \<Rightarrow> ret None
     | Some None \<Rightarrow> ret (Some (Msg ''panic: assignment to entry in nil map''))
     | Some (Some cfg) \<Rightarrow>
         if withLogRotation cfg = cfg then ret None
         else do {
           rendered \<leftarrow> ext ''json.MarshalIndent'' [lMarshal lib (JObj (withLogRotation cfg))];
           if rpErr rendered \<noteq> None then ret None
           else do {
             made \<leftarrow> extE ''os.MkdirAll'' [''/etc/docker''];
             if made \<noteq> None then ret None
             else ignore (ext ''os.WriteFile'' [daemonJSONPath, rpStr rendered @ [CHR 0x0A]]) } } }"

definition journaldCap :: string where
  "journaldCap = ''[Journal]'' @ [CHR 0x0A] @ ''SystemMaxUse=200M'' @ [CHR 0x0A]"

definition ensureJournaldCap :: "err prog" where
  "ensureJournaldCap = do {
     file \<leftarrow> ext ''os.ReadFile'' [journaldDropin];
     if rpErr file = None \<and> rpStr file = journaldCap then ret None
     else do {
       made \<leftarrow> extE ''os.MkdirAll'' [''/etc/systemd/journald.conf.d''];
       if made \<noteq> None then ret None
       else do {
         written \<leftarrow> extE ''os.WriteFile'' [journaldDropin, journaldCap];
         if written \<noteq> None then ret None
         else ignore (ext ''exec'' [''systemctl'', ''restart'', ''systemd-journald'']) } } }"

definition EnsurePreventionConfig :: "err prog" where
  "EnsurePreventionConfig = steps [ensureDockerLogRotation, ensureJournaldCap]"

section \<open>As the agent configures it\<close>

definition agentInstalledAppNames :: "(go_error + string list) prog" where
  "agentInstalledAppNames = do {
     r \<leftarrow> GetRequestedStates;
     ret (case r of Inl e \<Rightarrow> Inl e | Inr payloads \<Rightarrow> Inr (map pAppName payloads)) }"

definition wantedRefs :: "TransitionPayload \<Rightarrow> string list" where
  "wantedRefs p = concat (map (\<lambda>repo. map (\<lambda>version. repo @ '':'' @ version)
     (filter (\<lambda>v. v \<noteq> []) [pPresentVersion p, pNewestVersion p, pVersion p]))
     (filter (\<lambda>repo. repo \<noteq> []) [Prod (pRegistryImageName p), Dev (pRegistryImageName p)]))"

definition agentWantedAppImages :: "(go_error + string list) prog" where
  "agentWantedAppImages = do {
     r \<leftarrow> GetRequestedStates;
     ret (case r of Inl e \<Rightarrow> Inl e | Inr payloads \<Rightarrow> Inr (concat (map wantedRefs payloads))) }"

section \<open>Prevention is idempotent\<close>

lemma addMissing_lookup:
  "map_of (addMissing key v m) k = (if k = key \<and> map_of m key \<in> {None, Some JNull} then Some v else map_of m k)"
  by (simp add: addMissing_def)

lemma withLogRotation_idem: "withLogRotation (withLogRotation m) = withLogRotation m"
proof -
  have "addMissing ''log-driver'' v (withLogRotation m) = withLogRotation m" for v
    unfolding addMissing_def [of _ v "withLogRotation m"]
    by (auto simp: withLogRotation_def addMissing_lookup)
  moreover have "addMissing ''log-opts'' v (withLogRotation m) = withLogRotation m" for v
    unfolding addMissing_def [of _ v "withLogRotation m"]
    by (auto simp: withLogRotation_def addMissing_lookup)
  ultimately show ?thesis by (simp add: withLogRotation_def [of "withLogRotation m"])
qed

lemma withLogRotation_keeps: "map_of m k = Some v \<Longrightarrow> v \<noteq> JNull \<Longrightarrow> map_of (withLogRotation m) k = Some v"
  by (auto simp: withLogRotation_def addMissing_lookup)

section \<open>Hysteresis\<close>

text \<open>What the guard does apart from the emergency flag leaves the flag alone.\<close>

abbreviation same_flag :: "world \<Rightarrow> world \<Rightarrow> bool" where
  "same_flag w w' \<equiv> wEmergency w' = wEmergency w \<and> wExt w' = wExt w \<and> (\<exists>t. wTrace w' = wTrace w @ t)"

interpretation flg: step_relation same_flag
  by unfold_locales auto

definition readers_ok :: "(world \<Rightarrow> world \<Rightarrow> bool) \<Rightarrow> Guard \<Rightarrow> bool" where
  "readers_ok R g \<longleftrightarrow> (\<forall>m. gInstalledAppNames g = Some m \<longrightarrow> keeps R m) \<and> (\<forall>m. gWantedAppImages g = Some m \<longrightarrow> keeps R m)"

context step_relation
begin

lemma stopForeignContainers_keeps: "keeps R (stopForeignContainers g)"
proof -
  have "keeps R (steps (map (\<lambda>c. if ctState c \<noteq> ''running'' then ret None
      else if projectLabel c = applianceComposeProject then ret None else ignore (ext ''Docker.StopContainerByID'' [ctID c])) cs))" for cs
    by (rule keeps_steps) (auto intro!: keeps_intros)
  then show ?thesis unfolding stopForeignContainers_def by (intro keeps_intros)
qed

lemma pruneOrphanedVolumes_keeps:
  assumes "readers_ok R g"
  shows "keeps R (pruneOrphanedVolumes g)"
proof -
  have "keeps R (installedNames g)"
    using assms unfolding installedNames_def readers_ok_def by (auto split: option.split intro!: keeps_intros)
  moreover have "keeps R (steps (map (pruneVolume g names) vs))" for names vs
    unfolding pruneVolume_def removeVolume_def hasAppDirForProject_def dirUnder_def Let_def
    by (rule keeps_steps) (auto intro!: keeps_intros)
  ultimately show ?thesis unfolding pruneOrphanedVolumes_def by (intro keeps_intros)
qed

lemma reclaimSupersededAppImages_keeps:
  assumes "readers_ok R g"
  shows "keeps R (reclaimSupersededAppImages g)"
proof -
  have "keeps R (steps (map removeImageTag tags))" for tags
    unfolding removeImageTag_def by (rule keeps_steps) (auto intro!: keeps_intros)
  note tags = this
  show ?thesis
  proof (cases "gWantedAppImages g")
    case None
    show ?thesis unfolding reclaimSupersededAppImages_def None option.case by (intro keeps_intros)
  next
    case (Some m)
    with assms have "keeps R m" by (simp add: readers_ok_def)
    then show ?thesis unfolding reclaimSupersededAppImages_def Some option.case by (intro keeps_intros tags)
  qed
qed

lemma safeCleanup_keeps:
  assumes "readers_ok R g"
  shows "keeps R (safeCleanup g)"
proof -
  have gc: "wp (triggerRegistryGC g) (\<lambda>g' w'. R w w' \<and> (\<exists>n. g' = g\<lparr>gLastRegistryGC := n\<rparr>)) w" for w
  proof -
    have "keeps R (triggerRegistryGC g)" unfolding triggerRegistryGC_def by (intro keeps_intros)
    moreover have "wp (triggerRegistryGC g) (\<lambda>g' w'. \<exists>n. g' = g\<lparr>gLastRegistryGC := n\<rparr>) w"
      by (auto simp: triggerRegistryGC_def wp_simps intro: exI [of _ "gLastRegistryGC g"])
    ultimately show ?thesis by (auto simp: keeps_wp intro: wp_conj)
  qed
  have "keeps R (steps (map (\<lambda>(path, size). if HasSuffix path ''.log'' \<and> sint size > gLogMaxBytes g'
      then ignore (ext ''os.Truncate'' [path]) else ret None) files))" for g' :: Guard and files
    by (rule keeps_steps) (auto intro!: keeps_intros)
  then have trunc: "keeps R (truncateOversizedLogs g')" for g' unfolding truncateOversizedLogs_def by (intro keeps_intros)
  have rest: "keeps R (do {
     _ \<leftarrow> (if gDocker g' then steps [
            ignore (ext ''Docker.PruneDanglingImages'' []), ignore (ext ''Docker.PruneBuildCache'' []),
            pruneOrphanedVolumes g', reclaimSupersededAppImages g'] else ret None);
     _ \<leftarrow> ext ''exec'' [''journalctl'', ''--vacuum-size=100M''];
     apt \<leftarrow> ext ''exec.LookPath'' [''apt-get''];
     _ \<leftarrow> (if rpErr apt = None then ignore (ext ''exec'' [''apt-get'', ''clean'']) else ret None);
     _ \<leftarrow> truncateOversizedLogs g';
     ret g' })" if "g' = g\<lparr>gLastRegistryGC := n\<rparr>" for g' n
    using assms that
    by (intro keeps_intros trunc pruneOrphanedVolumes_keeps reclaimSupersededAppImages_keeps) (simp_all add: readers_ok_def)
  show ?thesis
    unfolding safeCleanup_def keeps_wp wp_bind [of "triggerRegistryGC g"]
    by (intro allI wp_mono [OF gc]) (elim conjE exE, rule wp_keeps [OF rest])
qed

end

lemma triggerRegistryGC_same:
  "run_state (triggerRegistryGC g) w = (g', w') \<Longrightarrow> \<exists>n. g' = g\<lparr>gLastRegistryGC := n\<rparr>"
  by (auto simp: triggerRegistryGC_def ext_def run_bind State_Monad.get_def State_Monad.set_def State_Monad.return_def
      split: if_splits intro: exI [of _ "gLastRegistryGC g"])

lemma safeCleanup_same:
  "run_state (safeCleanup g) w = (g', w') \<Longrightarrow> \<exists>n. g' = g\<lparr>gLastRegistryGC := n\<rparr>"
  by (auto simp: safeCleanup_def run_bind State_Monad.return_def split: prod.splits dest!: triggerRegistryGC_same)

lemma setEmergency_wp: "wp (setEmergency v) Q w = Q (wEmergency w \<noteq> v) (w\<lparr>wEmergency := v\<rparr>)"
  by (simp add: setEmergency_def wp_simps)

lemma updateEmergency_flag:
  "wp (updateEmergency g free) (\<lambda>_ w'. wExt w' = wExt w \<and> (\<exists>t. wTrace w' = wTrace w @ t)
     \<and> wEmergency w' = (case decide g free of actEmergency \<Rightarrow> True | actNone \<Rightarrow> False | actWarn \<Rightarrow> wEmergency w)) w"
proof -
  have "wp (stopForeignContainers g) (\<lambda>_. same_flag (w\<lparr>wEmergency := True\<rparr>)) (w\<lparr>wEmergency := True\<rparr>)"
    by (rule flg.wp_keeps [OF flg.stopForeignContainers_keeps flg.R_refl])
  then show ?thesis
    by (auto simp: updateEmergency_def wp_bind setEmergency_wp wp_simps split: action.split elim: wp_mono)
qed

lemma freeBytes_flag: "keeps same_flag (freeBytes g)"
  unfolding freeBytes_def by (intro flg.keeps_intros)

lemma freeBytes_trace:
  "run_state (freeBytes g) w = (f, w') \<Longrightarrow> wTrace w' = wTrace w @ [Ext ''syscall.Statfs'' [gDataRoot g]]"
  by (auto simp: freeBytes_def ext_def run_bind State_Monad.get_def State_Monad.set_def State_Monad.return_def)

text \<open>One pass of the guard, by what it decides on its readings.\<close>

lemma runOnce_flag:
  assumes "run_state (runOnce g) w = (g', w')" and "readers_ok same_flag g"
  shows "\<exists>w1. let free0 = fst (run_state (freeBytes g) w); free = fst (run_state (freeBytes g) w1) in
      wExt w1 = wExt w \<and> (\<exists>t. wTrace w1 = wTrace w @ t) \<and> (\<exists>t. wTrace w' = wTrace w1 @ Ext ''syscall.Statfs'' [gDataRoot g] # t)
    \<and> (decide g free0 = actEmergency \<longrightarrow> wEmergency w1)
    \<and> (decide g free0 = actNone \<longrightarrow> free = free0)
    \<and> wEmergency w' = (case decide g free of actEmergency \<Rightarrow> True | actNone \<Rightarrow> False
                        | actWarn \<Rightarrow> wEmergency w \<or> decide g free0 = actEmergency)"
proof -
  define free0 where "free0 = fst (run_state (freeBytes g) w)"
  obtain wa where ra: "run_state (freeBytes g) w = (free0, wa)" by (metis free0_def prod.collapse)
  have wa: "same_flag w wa" by (rule keepsD [OF freeBytes_flag ra])
  show ?thesis
  proof (cases "decide g free0 = actNone")
    case True
    obtain e where re: "run_state (updateEmergency g free0) wa = (e, w')"
      using assms(1) True ra by (auto simp: runOnce_def run_bind State_Monad.return_def split: prod.splits)
    show ?thesis
      using wp_runD [OF updateEmergency_flag re] True freeBytes_trace [OF ra]
      by (intro exI [of _ w]) (auto simp: free0_def Let_def)
  next
    case low: False
    let ?first = "if decide g free0 = actEmergency then updateEmergency g free0 else ret None"
    obtain e wb where rb: "run_state ?first wa = (e, wb)" by force
    have wb: "wExt wb = wExt w \<and> (\<exists>t. wTrace wb = wTrace w @ t) \<and> wEmergency wb = (wEmergency w \<or> decide g free0 = actEmergency)"
      using wp_runD [OF updateEmergency_flag, of g free0 wa e wb] rb wa
      by (auto simp: State_Monad.return_def split: if_splits)
    obtain g1 wc where rc: "run_state (safeCleanup g) wb = (g1, wc)" by force
    have wc: "same_flag wb wc" by (rule keepsD [OF flg.safeCleanup_keeps [OF assms(2)] rc])
    obtain free wd where rd: "run_state (freeBytes g1) wc = (free, wd)" by force
    have wd: "same_flag wc wd" by (rule keepsD [OF freeBytes_flag rd])
    obtain e2 where re: "run_state (updateEmergency g1 free) wd = (e2, w')"
      using assms(1) low ra rb rc rd by (auto simp: runOnce_def run_bind State_Monad.return_def split: prod.splits)
    have same: "decide g1 = decide g" "freeBytes g1 = freeBytes g"
      using safeCleanup_same [OF rc] by (auto simp: decide_def fun_eq_iff freeBytes_def)
    show ?thesis
      using wp_runD [OF updateEmergency_flag re] wb wc wd rd low freeBytes_trace [OF rd [unfolded same]]
      by (intro exI [of _ wc]) (auto simp: same Let_def free0_def [symmetric] split: action.split)
  qed
qed


definition demo_guard :: Guard where
  "demo_guard = withDefaults \<lparr>gDocker = True, gDataRoot = [], gInterval = 0, gEmergencyInterval = 0, gWarnFreeBytes = 0,
     gEmergencyFreeBytes = 0, gLogMaxBytes = 0, gAppsComposeDir = ''/compose'', gAppsBuildDir = ''/build'',
     gInstalledAppNames = Some agentInstalledAppNames, gAppImageRegistry = ''localhost:15001/'',
     gWantedAppImages = Some agentWantedAppImages, gOnRecover = True, gRegistryGC = False, gLastRegistryGC = 0\<rparr>"

lemma demo_guard_simps:
  "gInstalledAppNames demo_guard = Some agentInstalledAppNames" "gWantedAppImages demo_guard = Some agentWantedAppImages"
  "gEmergencyFreeBytes demo_guard = 2 ^ 30" "gWarnFreeBytes demo_guard = 3 * 2 ^ 30" "gDataRoot demo_guard = ''/var/lib/docker''"
  by (simp_all add: demo_guard_def withDefaults_def gib_def)


text \<open>A disk that cannot be read counts as a free one: an emergency ends, and the apps are started again.\<close>

lemma unreadable_disk_ends_emergency:
  "let w' = snd (run_state (runOnce demo_guard) (demo_world\<lparr>wEmergency := True,
       wExt := (\<lambda>_ _. ok_reply\<lparr>rpErr := Some (Msg ''input/output error'')\<rparr>)\<rparr>)) in
     \<not> wEmergency w' \<and> wTasks w' = [RecoverTask]"
  by (simp add: Let_def runOnce_def freeBytes_def updateEmergency_def setEmergency_def decide_def demo_guard_simps ext_def gets_def modify_def
      spawn_def ignore_def run_bind State_Monad.get_def State_Monad.set_def State_Monad.return_def demo_world_def ok_reply_def
      demo_guard_def withDefaults_def gib_def)

section \<open>What the guard leaves alone\<close>

text \<open>
  The calls that destroy something, as the agent configures the guard: a volume goes only when
  it was listed as dangling and is anonymous, or is labelled with a project that is neither the
  appliance's nor an installed app's and that has a directory among the agent's apps; an image
  only by a tag of the local registry that no requested state names, and not when a container
  uses the image; a container is stopped only when it is not part of the appliance.
\<close>

definition appDirListed :: "Guard \<Rightarrow> world \<Rightarrow> string \<Rightarrow> bool" where
  "appDirListed g u project \<longleftrightarrow>
     (\<exists>dir\<in>{gAppsComposeDir g, gAppsBuildDir g}. \<exists>tr. dir \<noteq> [] \<and> matchesProject project (wExt u tr (Ext ''os.ReadDir'' [dir])))"

definition deletableVolume :: "Guard \<Rightarrow> world \<Rightarrow> string list \<Rightarrow> Container \<Rightarrow> bool" where
  "deletableVolume g u names v \<longleftrightarrow>
     (ctLabels v = [] \<and> isAnonymousVolumeName (ctID v))
     \<or> (projectLabel v \<noteq> [] \<and> projectLabel v \<noteq> applianceComposeProject
        \<and> projectLabel v \<notin> NormalizeComposeProjectName ` set names \<and> appDirListed g u (projectLabel v))"

definition unusedImage :: "world \<Rightarrow> string \<Rightarrow> bool" where
  "unusedImage u tag \<longleftrightarrow> (\<exists>tr tr'. \<exists>(image, tags)\<in>set (rpStrs (wExt u tr (Ext ''Docker.ListImages'' []))).
     tag \<in> set tags \<and> image \<notin> ctImageID ` set (rpContainers (wExt u tr' (Ext ''Docker.ListContainers'' [''all'']))))"

definition requestedPayloads :: "world \<Rightarrow> TransitionPayload list" where
  "requestedPayloads w = map (payload_of_row (wConfig w)) (wRequested w)"

definition harmless :: "Guard \<Rightarrow> world \<Rightarrow> ext_call \<Rightarrow> bool" where
  "harmless g u c \<longleftrightarrow>
     (\<forall>x. c = Ext ''Docker.RemoveVolume'' [x] \<longrightarrow>
        (\<exists>tr. \<exists>v\<in>set (rpContainers (wExt u tr (Ext ''Docker.ListDanglingVolumes'' []))).
           ctID v = x \<and> deletableVolume g u (map pAppName (requestedPayloads u)) v))
   \<and> (\<forall>x. c = Ext ''Docker.RemoveImage'' [x] \<longrightarrow>
        localRegistryHost (wLib u) (gAppImageRegistry g) = Some (registryHostOf x)
        \<and> unusedImage u x \<and> (\<forall>p\<in>set (requestedPayloads u). x \<notin> set (wantedRefs p)))
   \<and> (\<forall>x. c = Ext ''Docker.StopContainerByID'' [x] \<longrightarrow>
        (\<exists>tr. \<exists>k\<in>set (rpContainers (wExt u tr (Ext ''Docker.ListContainers'' []))).
           ctID k = x \<and> projectLabel k \<noteq> applianceComposeProject))"

definition spared :: "Guard \<Rightarrow> world \<Rightarrow> world \<Rightarrow> bool" where
  "spared g u w \<longleftrightarrow> wExt w = wExt u \<and> wLib w = wLib u \<and> wConfig w = wConfig u \<and> wRequested w = wRequested u
     \<and> (\<exists>t. wTrace w = wTrace u @ t \<and> (\<forall>c\<in>set t. harmless g u c))"

abbreviation spares :: "Guard \<Rightarrow> world \<Rightarrow> world \<Rightarrow> world \<Rightarrow> bool" where
  "spares g u w w' \<equiv> spared g u w \<longrightarrow> spared g u w'"

interpretation spr: program_relation "spares g u" for g u
  by unfold_locales auto

lemma spared_call: "spared g u w \<Longrightarrow> harmless g u c \<Longrightarrow> spared g u (w\<lparr>wTrace := wTrace w @ [c]\<rparr>)"
  by (auto simp: spared_def)

lemma spares_bind_ext:
  assumes "harmless g u (Ext n as)" and "\<And>tr. keeps (spares g u) (f (wExt u tr (Ext n as)))"
  shows "keeps (spares g u) (State_Monad.bind (ext n as) f)"
proof -
  have "spared g u (snd (run_state (State_Monad.bind (ext n as) f) w))" if w: "spared g u w" for w
  proof -
    let ?w = "w\<lparr>wTrace := wTrace w @ [Ext n as]\<rparr>"
    have "spared g u ?w" by (rule spared_call [OF w assms(1)])
    moreover have "wExt w = wExt u" using w by (simp add: spared_def)
    ultimately show ?thesis
      using assms(2) by (simp add: keeps_def ext_def run_bind State_Monad.get_def State_Monad.set_def State_Monad.return_def)
  qed
  then show ?thesis by (simp add: keeps_def)
qed

lemma spares_ext: "harmless g u (Ext n as) \<Longrightarrow> keeps (spares g u) (ext n as)"
  by (simp add: keeps_wp wp_ext spared_call)

lemma spares_bind_requested:
  assumes "\<And>e. keeps (spares g u) (f (Inl e))" and "keeps (spares g u) (f (Inr (requestedPayloads u)))"
  shows "keeps (spares g u) (State_Monad.bind GetRequestedStates f)"
proof -
  have "wp (State_Monad.bind GetRequestedStates f) (\<lambda>_. spares g u w) w" for w
  proof (cases "spared g u w")
    case True
    let ?c = "Ext ''sqlite'' [''SelectAllRequestedStates'']"
    let ?w = "w\<lparr>wTrace := wTrace w @ [?c]\<rparr>"
    have w: "spared g u ?w" by (rule spared_call [OF True]) (simp add: harmless_def)
    have read: "map (payload_of_row (wConfig w)) (wRequested w) = requestedPayloads u"
      using True by (simp add: spared_def requestedPayloads_def)
    have "wp (f (Inl e)) (\<lambda>_. spared g u) ?w" "wp (f (Inr (requestedPayloads u))) (\<lambda>_. spared g u) ?w" for e
      using assms w by (auto simp: keeps_wp intro: wp_mono)
    then show ?thesis
      using True by (auto simp: GetRequestedStates_def wp_simps read split: option.split)
  qed (simp add: wp_def split: prod.split)
  then show ?thesis by (simp add: keeps_wp)
qed

lemmas spare_intros = spr.keeps_flow spares_bind_ext spares_ext

lemma harmless_stop:
  "k \<in> set (rpContainers (wExt u tr (Ext ''Docker.ListContainers'' []))) \<Longrightarrow> projectLabel k \<noteq> applianceComposeProject \<Longrightarrow>
   harmless g u (Ext ''Docker.StopContainerByID'' [ctID k])"
  by (fastforce simp: harmless_def)

lemma harmless_volume:
  "v \<in> set (rpContainers (wExt u tr (Ext ''Docker.ListDanglingVolumes'' []))) \<Longrightarrow>
   deletableVolume g u (map pAppName (requestedPayloads u)) v \<Longrightarrow> harmless g u (Ext ''Docker.RemoveVolume'' [ctID v])"
  by (fastforce simp: harmless_def)

lemma harmless_image:
  "localRegistryHost (wLib u) (gAppImageRegistry g) = Some (registryHostOf tag) \<Longrightarrow> unusedImage u tag \<Longrightarrow>
   \<forall>p\<in>set (requestedPayloads u). tag \<notin> set (wantedRefs p) \<Longrightarrow> harmless g u (Ext ''Docker.RemoveImage'' [tag])"
  by (simp add: harmless_def)

lemma harmless_other:
  "n \<noteq> ''Docker.RemoveVolume'' \<Longrightarrow> n \<noteq> ''Docker.RemoveImage'' \<Longrightarrow> n \<noteq> ''Docker.StopContainerByID'' \<Longrightarrow> harmless g u (Ext n as)"
  by (simp add: harmless_def)

lemma spares_stop: "keeps (spares g u) (stopForeignContainers g)"
proof -
  have "keeps (spares g u) (steps (map (\<lambda>c. if ctState c \<noteq> ''running'' then ret None
      else if projectLabel c = applianceComposeProject then ret None else ignore (ext ''Docker.StopContainerByID'' [ctID c]))
      (rpContainers (wExt u tr (Ext ''Docker.ListContainers'' [])))))" for tr
    by (rule spr.keeps_steps) (auto intro!: spare_intros intro: harmless_stop)
  then show ?thesis
    unfolding stopForeignContainers_def by (intro spr.keeps_if spr.keeps_return spares_bind_ext) (simp_all add: harmless_other)
qed

lemma spares_bind_dirUnder:
  assumes "keeps (spares g u) (f False)"
    and "\<And>tr. dir \<noteq> [] \<Longrightarrow> matchesProject project (wExt u tr (Ext ''os.ReadDir'' [dir])) \<Longrightarrow> keeps (spares g u) (f True)"
  shows "keeps (spares g u) (State_Monad.bind (dirUnder project dir) f)"
proof (cases "dir = []")
  case True
  then show ?thesis using assms(1) by (simp add: dirUnder_def State_Monad.bind_left_identity)
next
  case False
  have "keeps (spares g u) (f (matchesProject project (wExt u tr (Ext ''os.ReadDir'' [dir]))))" for tr
    using assms(1) assms(2) [OF False, of tr] by (cases "matchesProject project (wExt u tr (Ext ''os.ReadDir'' [dir]))") simp_all
  with False show ?thesis
    by (simp add: dirUnder_def State_Monad.bind_assoc State_Monad.bind_left_identity spares_bind_ext harmless_other)
qed

lemma spares_bind_dir:
  assumes "keeps (spares g u) (f False)" and "appDirListed g u project \<Longrightarrow> keeps (spares g u) (f True)"
  shows "keeps (spares g u) (State_Monad.bind (hasAppDirForProject g project) f)"
proof -
  have found: "keeps (spares g u) (f True)"
    if "dir \<in> {gAppsComposeDir g, gAppsBuildDir g}" "dir \<noteq> []" "matchesProject project (wExt u tr (Ext ''os.ReadDir'' [dir]))" for dir tr
    using that by (intro assms(2)) (auto simp: appDirListed_def)
  have "keeps (spares g u) (State_Monad.bind (dirUnder project (gAppsBuildDir g)) f)"
    by (rule spares_bind_dirUnder [where f = f]) (use assms(1) found [of "gAppsBuildDir g"] in simp_all)
  note second = this
  show ?thesis
    unfolding hasAppDirForProject_def State_Monad.bind_assoc
    by (rule spares_bind_dirUnder) (use second found [of "gAppsComposeDir g"] in \<open>simp_all add: State_Monad.bind_left_identity\<close>)
qed

lemma spares_volumes:
  assumes "gInstalledAppNames g = Some agentInstalledAppNames"
  shows "keeps (spares g u) (pruneOrphanedVolumes g)"
proof -
  let ?listed = "\<lambda>tr. rpContainers (wExt u tr (Ext ''Docker.ListDanglingVolumes'' []))"
  have rm: "keeps (spares g u) (removeVolume (ctID v))"
    if "v \<in> set (?listed tr)" and "deletableVolume g u (map pAppName (requestedPayloads u)) v" for v tr
    unfolding removeVolume_def by (intro spare_intros harmless_volume [OF that])
  have one: "keeps (spares g u) (pruneVolume g names v)"
    if "v \<in> set (?listed tr)" and "\<And>ns. names = Some ns \<Longrightarrow> ns = map pAppName (requestedPayloads u)" for v names tr
    unfolding pruneVolume_def Let_def
    using that(2) by (cases names) (auto intro!: spr.keeps_if spr.keeps_return spares_bind_dir rm [OF that(1)] simp: deletableVolume_def)
  have all: "keeps (spares g u) (steps (map (pruneVolume g names) (?listed tr)))"
    if "\<And>ns. names = Some ns \<Longrightarrow> ns = map pAppName (requestedPayloads u)" for names tr
    by (rule spr.keeps_steps) (use one that in auto)
  have inst: "installedNames g = State_Monad.bind GetRequestedStates (\<lambda>r. ret (case r of Inl _ \<Rightarrow> None | Inr ps \<Rightarrow> Some (map pAppName ps)))"
    unfolding installedNames_def assms option.case agentInstalledAppNames_def
    by (rule state.expand) (auto simp: fun_eq_iff run_bind State_Monad.return_def split: prod.split sum.split)
  have "keeps (spares g u) (do { installed \<leftarrow> installedNames g; steps (map (pruneVolume g installed) (?listed tr)) })" for tr
    unfolding inst State_Monad.bind_assoc
    by (rule spares_bind_requested) (auto simp: State_Monad.bind_left_identity intro!: all)
  then show ?thesis
    unfolding pruneOrphanedVolumes_def
    by (intro spares_bind_ext spr.keeps_if spr.keeps_return) (simp_all add: harmless_def)
qed

lemma spares_images:
  assumes "gWantedAppImages g = Some agentWantedAppImages"
  shows "keeps (spares g u) (reclaimSupersededAppImages g)"
proof -
  let ?wanted = "concat (map wantedRefs (requestedPayloads u))"
  let ?pinned = "\<lambda>tr. map ctImageID (rpContainers (wExt u tr (Ext ''Docker.ListContainers'' [''all''])))"
  let ?images = "\<lambda>tr. rpStrs (wExt u tr (Ext ''Docker.ListImages'' []))"
  have unused: "unusedImage u tag" if "tag \<in> set (supersededTags host ?wanted (?pinned tr') (?images tr))" for tag host tr tr'
    unfolding unusedImage_def using that
    by (intro exI [of _ tr] exI [of _ tr']) (fastforce simp: supersededTags_def split: if_splits)
  have tags: "keeps (spares g u) (steps (map removeImageTag (supersededTags host ?wanted (?pinned tr') (?images tr))))"
    if "localRegistryHost (wLib u) (gAppImageRegistry g) = Some host" for host tr tr'
  proof (rule spr.keeps_steps)
    fix m assume "m \<in> set (map removeImageTag (supersededTags host ?wanted (?pinned tr') (?images tr)))"
    then obtain tag where tag: "tag \<in> set (supersededTags host ?wanted (?pinned tr') (?images tr))" "m = removeImageTag tag" by auto
    then have "registryHostOf tag = host" "\<forall>p\<in>set (requestedPayloads u). tag \<notin> set (wantedRefs p)"
      by (auto simp: supersededTags_def split: if_splits)
    with that unused [OF tag(1)] have "harmless g u (Ext ''Docker.RemoveImage'' [tag])" by (simp add: harmless_image)
    then show "keeps (spares g u) m" unfolding tag(2) removeImageTag_def by (intro spare_intros)
  qed
  let ?rest = "\<lambda>host r. case r of Inl _ \<Rightarrow> ret None | Inr wanted \<Rightarrow> do {
      containers \<leftarrow> ext ''Docker.ListContainers'' [''all''];
      if rpErr containers \<noteq> None then ret None else do {
      images \<leftarrow> ext ''Docker.ListImages'' [];
      if rpErr images \<noteq> None then ret None
      else steps (map removeImageTag
             (supersededTags host wanted (map ctImageID (rpContainers containers)) (rpStrs images))) }}"
  have "keeps (spares g u) (?rest host (Inr ?wanted))"
    if "localRegistryHost (wLib u) (gAppImageRegistry g) = Some host" for host
    unfolding sum.case by (intro spares_bind_ext spr.keeps_if spr.keeps_return tags that) (simp_all add: harmless_other)
  then have rest: "keeps (spares g u) (State_Monad.bind agentWantedAppImages (?rest host))"
    if "localRegistryHost (wLib u) (gAppImageRegistry g) = Some host" for host
    unfolding agentWantedAppImages_def State_Monad.bind_assoc State_Monad.bind_left_identity
    by (intro spares_bind_requested) (use that in \<open>auto intro!: spr.keeps_return\<close>)
  have "spared g u (snd (run_state (reclaimSupersededAppImages g) w))" if w: "spared g u w" for w
  proof -
    have lib: "wLib w = wLib u" using w by (simp add: spared_def)
    show ?thesis
    proof (cases "localRegistryHost (wLib u) (gAppImageRegistry g)")
      case None
      then show ?thesis using w lib
        by (simp add: reclaimSupersededAppImages_def gets_def run_bind State_Monad.get_def State_Monad.return_def)
    next
      case (Some host)
      have "snd (run_state (reclaimSupersededAppImages g) w) = snd (run_state (State_Monad.bind agentWantedAppImages (?rest host)) w)"
        unfolding reclaimSupersededAppImages_def run_bind_gets lib Some assms option.case ..
      then show ?thesis using rest [OF Some] w by (simp add: keeps_def)
    qed
  qed
  then show ?thesis by (simp add: keeps_def)
qed

definition agent_guard :: "Guard \<Rightarrow> bool" where
  "agent_guard g \<longleftrightarrow> gInstalledAppNames g = Some agentInstalledAppNames \<and> gWantedAppImages g = Some agentWantedAppImages"

lemma spares_guard [simp]: "spared (g\<lparr>gLastRegistryGC := n\<rparr>) u = spared g u"
  by (simp add: spared_def harmless_def deletableVolume_def appDirListed_def fun_eq_iff)

lemma spares_truncate: "keeps (spares g u) (truncateOversizedLogs g')"
proof -
  have "keeps (spares g u) (steps (map (\<lambda>(path, size). if HasSuffix path ''.log'' \<and> sint size > gLogMaxBytes g'
      then ignore (ext ''os.Truncate'' [path]) else ret None) files))" for files
    by (rule spr.keeps_steps) (auto intro!: spare_intros simp: harmless_other)
  then show ?thesis unfolding truncateOversizedLogs_def by (intro spare_intros) (simp_all add: harmless_other)
qed

lemma spares_gc: "keeps (spares g u) (triggerRegistryGC g)"
  unfolding triggerRegistryGC_def by (intro spare_intros) (simp_all add: harmless_other)

lemma spares_cleanup:
  assumes "agent_guard g"
  shows "keeps (spares g u) (safeCleanup g)"
proof -
  have gc: "wp (triggerRegistryGC g) (\<lambda>g' w'. spares g u w w' \<and> (\<exists>n. g' = g\<lparr>gLastRegistryGC := n\<rparr>)) w" for w
    using spares_gc [of g u] triggerRegistryGC_same [of g w] by (auto simp: keeps_def wp_def split: prod.split)
  have rest: "keeps (spares g u) (do {
     _ \<leftarrow> (if gDocker g' then steps [
            ignore (ext ''Docker.PruneDanglingImages'' []), ignore (ext ''Docker.PruneBuildCache'' []),
            pruneOrphanedVolumes g', reclaimSupersededAppImages g'] else ret None);
     _ \<leftarrow> ext ''exec'' [''journalctl'', ''--vacuum-size=100M''];
     apt \<leftarrow> ext ''exec.LookPath'' [''apt-get''];
     _ \<leftarrow> (if rpErr apt = None then ignore (ext ''exec'' [''apt-get'', ''clean'']) else ret None);
     _ \<leftarrow> truncateOversizedLogs g';
     ret g' })" if g': "g' = g\<lparr>gLastRegistryGC := n\<rparr>" for g' n
  proof -
    have "keeps (spares g u) (pruneOrphanedVolumes g')" "keeps (spares g u) (reclaimSupersededAppImages g')"
      using spares_volumes [of g' u] spares_images [of g' u] assms by (simp_all add: g' agent_guard_def)
    then show ?thesis by (intro spare_intros spares_truncate) (simp_all add: harmless_other)
  qed
  show ?thesis
    unfolding safeCleanup_def keeps_wp wp_bind [of "triggerRegistryGC g"]
    by (intro allI wp_mono [OF gc]) (elim conjE exE, rule spr.wp_keeps [OF rest])
qed

lemma spares_set: "keeps (spares g u) (setEmergency v)"
  unfolding setEmergency_def by (intro spr.keeps_flow spr.keeps_modify) (simp add: spared_def)

lemma spares_update: "keeps (spares g u) (updateEmergency g free)"
proof -
  have "keeps (spares g u) (spawn RecoverTask)" by (rule spr.keeps_spawn) (simp add: spared_def)
  then show ?thesis
    unfolding updateEmergency_def
    by (cases "decide g free") (auto intro!: spr.keeps_flow spares_set spares_stop)
qed

lemma spares_free: "keeps (spares g u) (freeBytes g')"
  unfolding freeBytes_def by (intro spare_intros) (simp_all add: harmless_other)

lemma spares_runOnce:
  assumes "agent_guard g"
  shows "keeps (spares g u) (runOnce g)"
proof -
  let ?low = "\<lambda>free0. if decide g free0 \<noteq> actNone then do { g' \<leftarrow> safeCleanup g; free \<leftarrow> freeBytes g'; ret (g', free) }
                 else ret (g, free0)"
  have low: "wp (?low free0) (\<lambda>(g', free) w'. spares g u w w' \<and> (\<exists>n. g' = g\<lparr>gLastRegistryGC := n\<rparr>)) w" for free0 w
  proof -
    have "keeps (spares g u) (?low free0)"
      by (intro spr.keeps_flow spares_cleanup [OF assms] spares_free)
    moreover have "\<exists>n. g' = g\<lparr>gLastRegistryGC := n\<rparr>" if "run_state (?low free0) w = ((g', free), w')" for g' free w'
      using that by (auto simp: run_bind State_Monad.return_def split: if_splits prod.splits
          dest!: safeCleanup_same intro: exI [of _ "gLastRegistryGC g"])
    ultimately show ?thesis by (auto simp: keeps_def wp_def split: prod.split)
  qed
  have rest: "keeps (spares g u) (do { _ \<leftarrow> updateEmergency g' free; ret g' })" if "g' = g\<lparr>gLastRegistryGC := n\<rparr>" for g' n free
    using spares_update [of g' u free] by (auto simp: that intro!: spr.keeps_flow)
  have "keeps (spares g u) (State_Monad.bind (?low free0) (\<lambda>(g', free). do { _ \<leftarrow> updateEmergency g' free; ret g' }))" for free0
    unfolding keeps_wp wp_bind [of "?low free0"]
    by (intro allI wp_mono [OF low]) (clarify, rule spr.wp_keeps [OF rest], auto)
  note tail = this
  show ?thesis
    unfolding runOnce_def
    by (rule spr.keeps_bind [OF spares_free], rule spr.keeps_bind [OF _ tail])
       (intro spr.keeps_if spr.keeps_return spares_update)
qed


text \<open>A full disk with two leaked volumes: one of an installed app, one of an app that is gone.\<close>

definition demo_volume :: "string \<Rightarrow> Container" where
  "demo_volume project = \<lparr>ctID = project @ ''_data'', ctNames = [], ctLabels = [(composeProjectLabel, project)],
     ctState = [], ctExitCode = 0, ctImageID = []\<rparr>"

definition full_disk :: world where
  "full_disk = demo_world\<lparr>wRequested := [row_of_payload demo_payload],
     wExt := (\<lambda>_ c. case c of Ext n as \<Rightarrow>
        if n = ''Docker.ListDanglingVolumes'' then ok_reply\<lparr>rpContainers := [demo_volume ''cam'', demo_volume ''gone'']\<rparr>
        else if n = ''os.ReadDir'' then ok_reply\<lparr>rpStrs := [(''Gone'', [''dir'']), (''cam'', [''dir''])]\<rparr>
        else ok_reply)\<rparr>"


end
