(* ===== verification/Requests.thy ===== *)
theory Requests
  imports Manager
begin

text \<open>
  \<^verbatim>\<open>api/request_app_state.go\<close>: how a request of the backend becomes a transition payload, and the
  handler that takes the app over and starts the transition. A keyword argument is a JSON value,
  \<open>JNull\<close> when it is absent; the serializer delivers integers from 0 below \<open>2 ^ 64\<close> as \<^verbatim>\<open>uint64\<close>,
  the type the code asserts.
\<close>

section \<open>Reading arguments\<close>

abbreviation andThen :: "go_error + 'a \<Rightarrow> ('a \<Rightarrow> go_error + 'b) \<Rightarrow> go_error + 'b" where
  "andThen r f \<equiv> case r of Inl e \<Rightarrow> Inl e | Inr x \<Rightarrow> f x"

definition failedToParse :: "string \<Rightarrow> go_error" where
  "failedToParse name = Msg (''failed to parse '' @ name)"

definition missingFromPayload :: "string \<Rightarrow> go_error" where
  "missingFromPayload name = Msg (''missing from payload '' @ name)"

definition asUint64 :: "json \<Rightarrow> uint64 option" where
  "asUint64 v = (case v of JNum n \<Rightarrow> if 0 \<le> n \<and> n < 2 ^ 64 then Some (word_of_int n) else None | _ \<Rightarrow> None)"

definition kw_uint :: "string \<Rightarrow> json \<Rightarrow> go_error + uint64" where
  "kw_uint name v = (if v = JNull then Inr 0
     else case asUint64 v of Some n \<Rightarrow> Inr n | None \<Rightarrow> Inl (failedToParse name))"

definition kw_string :: "string \<Rightarrow> json \<Rightarrow> go_error + string" where
  "kw_string name v = (case v of JNull \<Rightarrow> Inr [] | JStr s \<Rightarrow> Inr s | _ \<Rightarrow> Inl (failedToParse name))"

definition kw_bool :: "string \<Rightarrow> json \<Rightarrow> go_error + bool" where
  "kw_bool name v = (case v of JNull \<Rightarrow> Inr False | JBool b \<Rightarrow> Inr b | _ \<Rightarrow> Inl (failedToParse name))"

definition kw_map :: "string \<Rightarrow> json \<Rightarrow> go_error + jmap" where
  "kw_map name v = (case v of JNull \<Rightarrow> Inr None | JObj m \<Rightarrow> Inr (Some m) | _ \<Rightarrow> Inl (failedToParse name))"

definition kw_list :: "string \<Rightarrow> json \<Rightarrow> go_error + json list" where
  "kw_list name v = (case v of JNull \<Rightarrow> Inr [] | JArr xs \<Rightarrow> Inr xs | _ \<Rightarrow> Inl (failedToParse name))"

text \<open>An account key: a number, or a signed number in a string, which wraps around.\<close>

definition kw_account :: "string \<Rightarrow> json \<Rightarrow> go_error + uint64" where
  "kw_account name v = (if v = JNull then Inr 0
     else case asUint64 v of
       Some n \<Rightarrow> Inr n
     | None \<Rightarrow> (case v of
         JStr s \<Rightarrow> (case Atoi s of Some i \<Rightarrow> Inr (word_of_int i) | None \<Rightarrow> Inl (Msg (''strconv.Atoi: parsing '' @ s)))
       | _ \<Rightarrow> Inl (failedToParse name)))"

definition kw_appKey :: "json \<Rightarrow> go_error + uint64" where
  "kw_appKey v = (if v = JNull then Inr 0
     else case asUint64 v of
       None \<Rightarrow> Inl (failedToParse ''app_key'')
     | Some n \<Rightarrow> if n = 0 then Inl (missingFromPayload ''app_key'') else Inr n)"

definition kw_appName :: "json \<Rightarrow> go_error + string" where
  "kw_appName v = (case v of
     JNull \<Rightarrow> Inr []
   | JStr s \<Rightarrow> if s = [] then Inl (failedToParse ''appName'') else Inr s
   | _ \<Rightarrow> Inl (failedToParse ''appName''))"

definition kw_stage :: "json \<Rightarrow> go_error + string" where
  "kw_stage v = (case v of
     JNull \<Rightarrow> Inr []
   | JStr s \<Rightarrow> if s = [] then Inl (missingFromPayload ''stage'') else Inr s
   | _ \<Rightarrow> Inl (failedToParse ''stage''))"

definition kw_releaseKey :: "json \<Rightarrow> go_error + uint64" where
  "kw_releaseKey v = (if v = JNull then Inr 0
     else case asUint64 v of
       Some n \<Rightarrow> Inr n
     | None \<Rightarrow> (case v of
         JStr s \<Rightarrow> (case ParseUint 64 s of Some n \<Rightarrow> Inr (of_nat n) | None \<Rightarrow> Inl (Msg (''strconv.ParseUint: parsing '' @ s)))
       | _ \<Rightarrow> Inl (failedToParse ''releaseKeyString'')))"

text \<open>Never an error.\<close>

definition kw_instanceKey :: "json \<Rightarrow> uint64" where
  "kw_instanceKey v = (case asUint64 v of
     Some n \<Rightarrow> n
   | None \<Rightarrow> (case v of JStr s \<Rightarrow> (case ParseUint 64 s of Some n \<Rightarrow> of_nat n | None \<Rightarrow> 0) | _ \<Rightarrow> 0))"

text \<open>The conversion of a float outside the range is left to the machine by Go; such a number counts as none here.\<close>

definition ToUint64 :: "json \<Rightarrow> uint64 option" where
  "ToUint64 v = (case asUint64 v of
     Some n \<Rightarrow> Some n
   | None \<Rightarrow> (case v of JStr s \<Rightarrow> map_option of_nat (ParseUint 64 s) | _ \<Rightarrow> None))"

definition kw_appCredEpoch :: "json \<Rightarrow> uint64" where
  "kw_appCredEpoch v = (if v = JNull then 0 else case ToUint64 v of Some n \<Rightarrow> n | None \<Rightarrow> 0)"

fun kw_credentialMap :: "(string \<times> json) list \<Rightarrow> go_error + (string \<times> string \<times> string) list" where
  "kw_credentialMap [] = Inr []"
| "kw_credentialMap ((key, v) # rest) = (case v of
     JObj m \<Rightarrow> (case (map_of m ''username'', map_of m ''password'') of
       (Some (JStr username), Some (JStr password)) \<Rightarrow>
         andThen (kw_credentialMap rest) (\<lambda>creds. Inr ((key, username, password) # creds))
     | _ \<Rightarrow> Inl (failedToParse ''docker credentials''))
   | _ \<Rightarrow> Inl (failedToParse ''docker credentials''))"

definition kw_credentials :: "json \<Rightarrow> go_error + (string \<times> string \<times> string) list option" where
  "kw_credentials v = (case v of
     JNull \<Rightarrow> Inr None
   | JObj m \<Rightarrow> andThen (kw_credentialMap m) (\<lambda>creds. Inr (Some creds))
   | _ \<Rightarrow> Inl (failedToParse ''docker credentials''))"

text \<open>The string types of states and stages.\<close>

definition namedStates :: "AppState list" where
  "namedStates = [PRESENT, REMOVED, UNINSTALLED, FAILED, BUILT, BUILDING, TRANSFERED, TRANSFERING, PUBLISHING,
     PUBLISHED, DOWNLOADING, STARTING, STOPPING, STOPPED, UPDATING, DELETING, RUNNING]"

definition AppState_of :: "string \<Rightarrow> AppState" where
  "AppState_of s = (case find (\<lambda>st. AppState_string st = s) namedStates of Some st \<Rightarrow> st | None \<Rightarrow> OtherState s)"

definition Stage_of :: "string \<Rightarrow> Stage" where
  "Stage_of s = (if s = ''DEV'' then DEV else if s = ''PROD'' then PROD' else OtherStage s)"

section \<open>The payload of a request\<close>

definition responseToTransitionPayload :: "Config \<Rightarrow> (string \<times> json) list \<Rightarrow> go_error + TransitionPayload" where
  "responseToTransitionPayload config kwargs =
     (let kw = obj_get (JObj kwargs) in
      andThen (kw_appKey (kw ''app_key'')) (\<lambda>appKey.
      andThen (kw_appName (kw ''app_name'')) (\<lambda>appName.
      andThen (kw_stage (kw ''stage'')) (\<lambda>stage.
      andThen (kw_string ''requestedState'' (kw ''target_state'')) (\<lambda>requestedState.
      andThen (kw_string ''manuallyRequestedState'' (kw ''manually_requested_state'')) (\<lambda>manuallyRequestedState.
      andThen (kw_string ''currentState'' (kw ''current_state'')) (\<lambda>currentState.
      andThen (kw_string ''currentState2'' (kw ''state'')) (\<lambda>currentState2.
      andThen (kw_account ''requestorAccountKey'' (kw ''requestor_account_key'')) (\<lambda>requestorAccountKey.
      andThen (kw_account ''requestorAccountKey2'' (kw ''account_id'')) (\<lambda>requestorAccountKey2.
      andThen (kw_account ''deviceOwnerAccountKey'' (kw ''device_owner_account_key'')) (\<lambda>deviceOwnerAccountKey.
      andThen (kw_releaseKey (kw ''release_key'')) (\<lambda>releaseKey.
      andThen (kw_uint ''newReleaseKey'' (kw ''new_release_key'')) (\<lambda>newReleaseKey.
      andThen (kw_string ''version'' (kw ''version'')) (\<lambda>version.
      andThen (kw_string ''newestVersion'' (kw ''newest_version'')) (\<lambda>newestVersion.
      andThen (kw_string ''presentVersion'' (kw ''present_version'')) (\<lambda>presentVersion.
      andThen (kw_bool ''requestUpdate'' (kw ''request_update'')) (\<lambda>requestUpdate.
      andThen (kw_bool ''cancelTransition'' (kw ''cancel_transition'')) (\<lambda>cancelTransition.
      andThen (kw_map ''environment'' (kw ''environment'')) (\<lambda>environment.
      andThen (kw_map ''environment template'' (kw ''environment_template'')) (\<lambda>environmentTemplate.
      andThen (kw_list ''ports'' (kw ''ports'')) (\<lambda>ports.
      andThen (kw_map ''docker compose'' (kw ''docker_compose'')) (\<lambda>dockerCompose.
      andThen (kw_map ''new docker compose'' (kw ''new_docker_compose'')) (\<lambda>newDockerCompose.
      andThen (kw_credentials (kw ''docker_credentials'')) (\<lambda>dockerCredentials.
        Inr ((BuildTransitionPayload appKey appName
                (if requestorAccountKey = 0 \<and> requestorAccountKey2 \<noteq> 0 then requestorAccountKey2 else requestorAccountKey)
                (Stage_of stage)
                (AppState_of (if currentState = [] \<and> currentState2 \<noteq> [] then currentState2 else currentState))
                (AppState_of (if requestedState = [] \<and> manuallyRequestedState \<noteq> [] then manuallyRequestedState else requestedState))
                releaseKey newReleaseKey config)
               \<lparr>pDeviceOwnerAccountKey := deviceOwnerAccountKey, pInstanceKey := kw_instanceKey (kw ''instance_key''),
                pAppCredEpoch := kw_appCredEpoch (kw ''app_cred_epoch''), pRequestUpdate := requestUpdate,
                pVersion := version, pNewestVersion := newestVersion, pPresentVersion := presentVersion,
                pEnvironmentVariables := environment, pEnvironmentTemplate := environmentTemplate, pPorts := ports,
                pDockerCompose := dockerCompose, pNewDockerCompose := newDockerCompose,
                pCancelTransition := cancelTransition, pDockerCredentials := dockerCredentials\<rparr>)))))))))))))))))))))))))"

section \<open>The handler\<close>

definition requestAppStateHandler :: "(string \<times> json) list \<Rightarrow> err prog" where
  "requestAppStateHandler kwargs = do {
     config \<leftarrow> gets wConfig;
     case responseToTransitionPayload config kwargs of
       Inl e \<Rightarrow> ret (Some e)
     | Inr payload \<Rightarrow> do {
         e \<leftarrow> CreateOrUpdateApp payload;
         if e \<noteq> None then ret e else ignore (spawn (RequestTask payload)) } }"

section \<open>What the backend sends is what the agent works with\<close>

text \<open>A request as the backend writes it, for a payload.\<close>

definition json_of_map :: "jmap \<Rightarrow> json" where
  "json_of_map m = (case m of None \<Rightarrow> JNull | Some kvs \<Rightarrow> JObj kvs)"

definition json_of_credentials :: "(string \<times> string \<times> string) list option \<Rightarrow> json" where
  "json_of_credentials c = (case c of
     None \<Rightarrow> JNull
   | Some cs \<Rightarrow> JObj (map (\<lambda>(key, username, password). (key, JObj [(''username'', JStr username), (''password'', JStr password)])) cs))"

definition kwargs_of :: "TransitionPayload \<Rightarrow> (string \<times> json) list" where
  "kwargs_of p = [(''app_key'', JNum (uint (pAppKey p))), (''app_name'', JStr (pAppName p)), (''stage'', JStr (Stage_string (pStage p))),
     (''target_state'', JStr (AppState_string (pRequestedState p))), (''current_state'', JStr (AppState_string (pCurrentState p))),
     (''requestor_account_key'', JNum (uint (pRequestorAccountKey p))),
     (''device_owner_account_key'', JNum (uint (pDeviceOwnerAccountKey p))), (''instance_key'', JNum (uint (pInstanceKey p))),
     (''app_cred_epoch'', JNum (uint (pAppCredEpoch p))), (''release_key'', JNum (uint (pReleaseKey p))),
     (''new_release_key'', JNum (uint (pNewReleaseKey p))), (''version'', JStr (pVersion p)),
     (''newest_version'', JStr (pNewestVersion p)), (''present_version'', JStr (pPresentVersion p)),
     (''request_update'', JBool (pRequestUpdate p)), (''cancel_transition'', JBool (pCancelTransition p)),
     (''environment'', json_of_map (pEnvironmentVariables p)), (''environment_template'', json_of_map (pEnvironmentTemplate p)),
     (''ports'', JArr (pPorts p)), (''docker_compose'', json_of_map (pDockerCompose p)),
     (''new_docker_compose'', json_of_map (pNewDockerCompose p)), (''docker_credentials'', json_of_credentials (pDockerCredentials p))]"

definition requestable :: "TransitionPayload \<Rightarrow> bool" where
  "requestable p \<longleftrightarrow> pAppKey p \<noteq> 0 \<and> pAppName p \<noteq> [] \<and> pStage p \<noteq> OtherStage []
     \<and> Stage_of (Stage_string (pStage p)) = pStage p \<and> AppState_of (AppState_string (pRequestedState p)) = pRequestedState p
     \<and> AppState_of (AppState_string (pCurrentState p)) = pCurrentState p"

lemma asUint64_uint [simp]: "asUint64 (JNum (uint n)) = Some n"
  using uint_lt2p [of n] by (simp add: asUint64_def)

lemma readers [simp]:
  "n \<noteq> 0 \<Longrightarrow> kw_appKey (JNum (uint n)) = Inr n" "s \<noteq> [] \<Longrightarrow> kw_appName (JStr s) = Inr s" "s \<noteq> [] \<Longrightarrow> kw_stage (JStr s) = Inr s"
  "kw_string name (JStr s) = Inr s" "kw_string name JNull = Inr []" "kw_account name (JNum (uint n)) = Inr n" "kw_account name JNull = Inr 0"
  "kw_releaseKey (JNum (uint n)) = Inr n" "kw_uint name (JNum (uint n)) = Inr n" "kw_bool name (JBool b) = Inr b"
  "kw_map name (json_of_map m) = Inr m" "kw_list name (JArr xs) = Inr xs" "kw_instanceKey (JNum (uint n)) = n"
  "kw_appCredEpoch (JNum (uint n)) = n"
  by (auto simp: kw_appKey_def kw_appName_def kw_stage_def kw_string_def kw_account_def kw_releaseKey_def kw_uint_def kw_bool_def
      kw_map_def kw_list_def kw_instanceKey_def kw_appCredEpoch_def ToUint64_def json_of_map_def split: option.split)

lemma kw_credentials_json [simp]: "kw_credentials (json_of_credentials c) = Inr c"
proof -
  have "kw_credentialMap (map (\<lambda>(key, username, password). (key, JObj [(''username'', JStr username), (''password'', JStr password)])) cs)
      = Inr cs" for cs
    by (induction cs) auto
  then show ?thesis by (cases c) (simp_all add: kw_credentials_def json_of_credentials_def)
qed

lemma Stage_string_nonempty: "s \<noteq> OtherStage [] \<Longrightarrow> Stage_string s \<noteq> []"
  by (cases s) (simp_all add: Stage_string_def)

text \<open>
  A request written from a payload with a key, a name and a stage, whose states and stage
  are spelled by their names, is read back as that payload: every transmitted field arrives, the
  names of containers and images are computed from them, and the other fields are empty.
\<close>

theorem request_roundtrip:
  assumes "requestable p"
  shows "responseToTransitionPayload config (kwargs_of p) =
    Inr ((initContainerData p (pAppKey p) (pAppName p) config)
      \<lparr>pDeviceToAppKey := 0, pPresentImageName := [], pRegisteryToken := [], pRetrying := False\<rparr>)"
proof -
  have "Stage_string (pStage p) \<noteq> []" using assms by (intro Stage_string_nonempty) (simp add: requestable_def)
  with assms show ?thesis
    by (cases p)
       (simp add: responseToTransitionPayload_def kwargs_of_def obj_get_def requestable_def BuildTransitionPayload_def
          initContainerData_def EmptyPayload_def Let_def)
qed

theorem request_roundtrip_witness:
  "pAppKey demo_payload = 3 \<and> responseToTransitionPayload demo_config (kwargs_of demo_payload) = Inr demo_payload"
proof -
  have "requestable demo_payload" by code_simp
  moreover have "demo_payload\<lparr>pDeviceToAppKey := 0, pPresentImageName := [], pRegisteryToken := [], pRetrying := False\<rparr> = demo_payload"
    by (simp add: demo_payload_def BuildTransitionPayload_def initContainerData_def EmptyPayload_def Let_def)
  moreover have "initContainerData demo_payload (pAppKey demo_payload) (pAppName demo_payload) demo_config = demo_payload"
    by (simp add: demo_payload_def BuildTransitionPayload_def initContainerData_def EmptyPayload_def Let_def)
  moreover have "pAppKey demo_payload = 3" by code_simp
  ultimately show ?thesis using request_roundtrip [of demo_payload demo_config] by simp
qed

text \<open>An argument that is not there is not an error, not even the app's key.\<close>

lemma missing_key_accepted:
  "\<exists>p. responseToTransitionPayload config [] = Inr p \<and> pAppKey p = 0 \<and> pAppName p = [] \<and> pStage p = OtherStage []"
  by (simp add: responseToTransitionPayload_def obj_get_def kw_appKey_def kw_appName_def kw_stage_def kw_releaseKey_def kw_uint_def
      kw_bool_def kw_map_def kw_list_def kw_credentials_def Stage_of_def BuildTransitionPayload_def initContainerData_def EmptyPayload_def Let_def)

text \<open>A negative account key in a string wraps around.\<close>

lemma negative_account_wraps: "kw_account name (JStr ''-1'') = Inr (- 1)"
proof -
  have "Atoi ''-1'' = Some (- 1)" by code_simp
  then show ?thesis by (simp add: kw_account_def asUint64_def)
qed

section \<open>The handler schedules the transition\<close>

abbreviation same_tasks :: "world \<Rightarrow> world \<Rightarrow> bool" where
  "same_tasks w w' \<equiv> wTasks w' = wTasks w"

interpretation tsk: step_relation same_tasks
  by unfold_locales simp_all

lemma CreateOrUpdateApp_tasks: "keeps same_tasks (CreateOrUpdateApp p)"
proof -
  have obj: "keeps same_tasks (app_upd i f)" for i f by (rule tsk.keeps_app_upd) simp
  have req: "keeps same_tasks (UpsertRequestedStateChange q)" for q
    unfolding UpsertRequestedStateChange_def Let_def by (intro tsk.keeps_intros tsk.keeps_modify) simp_all
  have "keeps same_tasks (UpsertAppState i st)" for i st
    unfolding UpsertAppState_def upsertLocked_def insertAppState_def syncRequestedState_def GetRequestedState_def Let_def
    by (intro tsk.keeps_intros tsk.keeps_modify obj req) simp_all
  then show ?thesis
    unfolding CreateOrUpdateApp_def GetApp_def GetAppState_def GetRequestedState_def AddApp_def push_app_def UpdateLocalRequestedState_def Let_def
    by (intro tsk.keeps_intros tsk.keeps_modify obj req) simp_all
qed

text \<open>
  The handler refuses a request it cannot read without any effect; otherwise it returns nil
  exactly when the app was taken over, and then, and only then, one goroutine with the payload
  as read is started, after the goroutines that were pending.
\<close>

theorem handler_schedules_request:
  "case run_state (requestAppStateHandler kwargs) w of (e, w') \<Rightarrow>
     (case responseToTransitionPayload (wConfig w) kwargs of
        Inl x \<Rightarrow> e = Some x \<and> w' = w
      | Inr payload \<Rightarrow> e = fst (run_state (CreateOrUpdateApp payload) w)
          \<and> wTasks w' = wTasks w @ (if e = None then [RequestTask payload] else []))"
proof (cases "responseToTransitionPayload (wConfig w) kwargs")
  case (Inl x)
  then show ?thesis by (simp add: requestAppStateHandler_def run_bind gets_def State_Monad.get_def State_Monad.return_def)
next
  case (Inr payload)
  obtain e w1 where run: "run_state (CreateOrUpdateApp payload) w = (e, w1)" by force
  have "wTasks w1 = wTasks w" by (rule keepsD [OF CreateOrUpdateApp_tasks run])
  then show ?thesis
    by (simp add: requestAppStateHandler_def gets_def Inr run_bind run ignore_def spawn_def modify_def
        State_Monad.get_def State_Monad.set_def State_Monad.return_def)
qed

end
