(* ===== verification/Agent.thy ===== *)
theory Agent
  imports Observer DiskGuard Requests "HOL-Library.Multiset"
begin

text \<open>
  The agent as a whole: the goroutines that are pending (\<^verbatim>\<open>runTask\<close>), what happens on a connection
  (\<^verbatim>\<open>agent.go\<close>), the steps the agent takes, and what holds in every state it reaches. A step runs
  one activity to its end; what a concurrent request meets while an app is in transition is
  stated in the theory \<open>Manager\<close>, for worlds with the lock held.
\<close>

section \<open>Goroutines\<close>

definition runTask :: "task \<Rightarrow> err prog" where
  "runTask t = (case t of
     RequestTask payload \<Rightarrow> ignore (RequestAppState payload)
   | EnsureTask app payload \<Rightarrow> do {
       a \<leftarrow> app_at app;
       if \<not> IsInvalidOfflineTransition a payload \<and> aCurrentState a \<noteq> pRequestedState payload
       then ignore (RequestAppState payload) else ret None }
   | RetryTask payload retries \<Rightarrow> do {
       u \<leftarrow> jitter_now;
       _ \<leftarrow> ext ''time.Sleep'' [itoa_int (calculateLoopSleepTime u retries)];
       wakeRetry payload }
   | CancelTask app payload f \<Rightarrow> runTransitionFunc f payload app
   | RecoverTask \<Rightarrow> EnsureLocalRequestedStates
   | ObserveTask ctx stage appKey appName seen \<Rightarrow> observeAppState ctx stage appKey appName seen
   | ObserveComposeTask ctx stage appKey appName seen \<Rightarrow> observeComposeAppState ctx stage appKey appName seen)"

section \<open>Connecting\<close>

text \<open>The part of \<^verbatim>\<open>OnConnect\<close> that works on the requested states the backend sent.\<close>

definition syncWithBackend :: "(json \<Rightarrow> DeviceSyncResponse list) \<Rightarrow> err prog" where
  "syncWithBackend decode = do {
     r \<leftarrow> FetchRequestedAppStates decode;
     case r of Inl _ \<Rightarrow> ret None
     | Inr remotePayloads \<Rightarrow> steps [
         ignore (CleanupOrphanedAppsFromDatabase remotePayloads),
         ignore (UpdateLocalRequestedAppStatesWithRemote remotePayloads),
         ignore CleanupOrphanedContainers] }"

definition fetchAppCredKey :: "err prog" where
  "fetchAppCredKey = do { r \<leftarrow> GetAppCredKey; case r of Inl _ \<Rightarrow> ret None | Inr key \<Rightarrow> ignore (SetAppCredKey key) }"

text \<open>The refreshed device metadata are a step of their own (\<open>metadata\<close> below).\<close>

definition OnConnect :: "(json \<Rightarrow> DeviceSyncResponse list) \<Rightarrow> bool \<Rightarrow> err prog" where
  "OnConnect decode reconnect = do {
     r \<leftarrow> ext ''System.UpdateDeviceMetadata'' [];
     if rpFlag r then ignore (ext ''Messenger.Reconnect'' [])
     else steps [
       fetchAppCredKey,
       ignore (ext ''Messenger.UpdateRemoteDeviceStatus'' [''CONFIGURING'']),
       ignore (ext ''External.RegisterAll'' []),
       (if reconnect then ignore (ext ''terminal.ReregisterControlTopics'' []) else ret None),
       (if \<not> reconnect then steps [ignore (ext ''System.DownloadFrpIfNotExists'' []), ignore (ext ''TunnelManager.SuperviseStart'' [])] else ret None),
       ignore (ext ''Messenger.Call'' [''reswarm.devices.update_device_architecture'']),
       ignore (ext ''LogManager.ReviveDeadLogs'' []),
       ignore (ext ''LogManager.SetupEndpoints'' []),
       syncWithBackend decode,
       ignore (CorrectAppStates True),
       ignore ObserveAppStates,
       ignore EnsureRemoteRequestedStates,
       extE ''Messenger.UpdateRemoteDeviceStatus'' [''CONNECTED'']] }"

section \<open>Starting\<close>

text \<open>
  The part of \<^verbatim>\<open>NewAgent\<close> that works on the disk and the apps: the guard looks at the disk before anything else, then
  the local states are reconciled, at once when the Docker daemon is up, else by a goroutine that waits for it. An
  error stands for the end of the process.
\<close>

definition newGuard :: "string \<Rightarrow> string \<Rightarrow> string \<Rightarrow> string \<Rightarrow> Guard" where
  "newGuard composeDir buildDir registryURL dataRoot = withDefaults \<lparr>gDocker = True, gDataRoot = dataRoot, gInterval = 0, gEmergencyInterval = 0,
     gWarnFreeBytes = 0, gEmergencyFreeBytes = 0, gLogMaxBytes = 0, gAppsComposeDir = composeDir, gAppsBuildDir = buildDir,
     gInstalledAppNames = Some agentInstalledAppNames, gAppImageRegistry = registryURL,
     gWantedAppImages = Some agentWantedAppImages, gOnRecover = True, gRegistryGC = False, gLastRegistryGC = 0\<rparr>"

definition startDiskGuard :: "string \<Rightarrow> string \<Rightarrow> string \<Rightarrow> err prog" where
  "startDiskGuard composeDir buildDir registryURL = do {
     e \<leftarrow> EnsurePreventionConfig;
     case e of
       Some x \<Rightarrow> ret (Some x)
     | None \<Rightarrow> do {
         root \<leftarrow> ext ''Container.DataRootDir'' [];
         _ \<leftarrow> CheckNow (newGuard composeDir buildDir registryURL (if rpErr root \<noteq> None then [] else rpStr root));
         ret None } }"

definition orFail :: "bool \<Rightarrow> err prog \<Rightarrow> err prog" where
  "orFail fatal m = (if fatal then m else ignore m)"

definition initLocalAppStates :: "bool \<Rightarrow> err prog" where
  "initLocalAppStates fatal = steps [
     orFail fatal (CorrectAppStates False),
     orFail fatal ObserveAppStates,
     ignore CleanupOrphanedContainers,
     orFail fatal EnsureLocalRequestedStates]"

definition startLocally :: "bool \<Rightarrow> string \<Rightarrow> string \<Rightarrow> string \<Rightarrow> err prog" where
  "startLocally linux composeDir buildDir registryURL = steps [
     (if linux then startDiskGuard composeDir buildDir registryURL else ret None),
     do {
       late \<leftarrow> extE ''Container.WaitForDaemon'' [''5s''];
       if late = None then initLocalAppStates True else ret None }]"

definition daemonCameUp :: "err prog" where
  "daemonCameUp = steps [ignore (ext ''Compose.RefreshSupport'' []), initLocalAppStates False]"

section \<open>Steps\<close>

inductive agent_step :: "world \<Rightarrow> world \<Rightarrow> bool" where
  request: "agent_step w (snd (run_state (RequestAppState payload) w))"
| backend_request: "agent_step w (snd (run_state (requestAppStateHandler kwargs) w))"
| transfer_failed: "agent_step w (snd (run_state (HandleTransferFailure containerName) w))"
| goroutine: "wTasks w = before @ t # after \<Longrightarrow> agent_step w (snd (run_state (runTask t) (w\<lparr>wTasks := before @ after\<rparr>)))"
| connect: "agent_step w (snd (run_state (OnConnect decode reconnect) w))"
| start_up: "agent_step w (snd (run_state (startLocally linux composeDir buildDir registryURL) w))"
| daemon_up: "agent_step w (snd (run_state daemonCameUp w))"
| ensure_local: "agent_step w (snd (run_state EnsureLocalRequestedStates w))"
| correct_local: "agent_step w (snd (run_state (CorrectAppStates False) w))"
| observe: "agent_step w (snd (run_state ObserveAppStates w))"
| container_event: "agent_step w (snd (run_state (containerEvent action name) w))"
| spawner_failed: "agent_step w (snd (run_state spawnerFailed w))"
| disk_guard: "agent_guard g \<Longrightarrow> agent_step w (snd (run_state (runOnce g) w))"
| metadata: "agent_step w (w\<lparr>wConfig := c\<rparr>)"

text \<open>The agent starts with the tables an earlier run left, and nothing in memory.\<close>

inductive agent_reachable :: "world \<Rightarrow> bool" where
  start: "db_inv w \<Longrightarrow> wApps w = [] \<Longrightarrow> wCrashLoops w = [] \<Longrightarrow> wHostPorts w = NewHostPortRegistry
    \<Longrightarrow> wObservers w = [] \<Longrightarrow> wTasks w = [] \<Longrightarrow> agent_reachable w"
| step: "agent_reachable w \<Longrightarrow> agent_step w w' \<Longrightarrow> agent_reachable w'"

section \<open>What every activity keeps\<close>

text \<open>The observer a goroutine is, if it is one: its key in the map of observers and its context.\<close>

definition observerOf :: "task \<Rightarrow> (string \<times> nat) option" where
  "observerOf t = (case t of
     ObserveTask ctx stage appKey appName seen \<Rightarrow> Some (BuildContainerName stage appKey appName, ctx)
   | ObserveComposeTask ctx stage appKey appName seen \<Rightarrow> Some (BuildComposeContainerName stage appKey appName, ctx)
   | _ \<Rightarrow> None)"

lemma observerOf_simps [simp]:
  "observerOf (RequestTask p) = None" "observerOf (EnsureTask i p) = None" "observerOf (RetryTask p m) = None"
  "observerOf (CancelTask i p f) = None" "observerOf RecoverTask = None"
  "observerOf (ObserveTask c st k n s) = Some (BuildContainerName st k n, c)"
  "observerOf (ObserveComposeTask c st k n s') = Some (BuildComposeContainerName st k n, c)"
  by (simp_all add: observerOf_def)

text \<open>Taking the lock and giving it back at once, as an observer does, is a test.\<close>

lemma lock_unlock: "\<not> aTransitionLock (wApps w ! i) \<Longrightarrow> lock i False (lock i True w) = w"
proof -
  assume free: "\<not> aTransitionLock (wApps w ! i)"
  then have "(wApps w ! i)\<lparr>aTransitionLock := False\<rparr> = wApps w ! i" by (cases "wApps w ! i") simp
  then show ?thesis
    by (cases "i < length (wApps w)") (simp_all add: lock_def list_update_beyond)
qed

lemma probe_lock:
  "State_Monad.bind (SecureTransition i) (\<lambda>b. if b then m else State_Monad.bind (UnlockTransition i) (\<lambda>_. n))
   = State_Monad.bind (app_at i) (\<lambda>a. if aTransitionLock a then m else n)"
  by (rule state.expand) (auto simp: fun_eq_iff run_bind SecureTransition_run run_UnlockTransition lock_unlock
      app_at_def gets_def State_Monad.get_def State_Monad.return_def)

text \<open>
  The contract of the app manager: a relation that a request, a notification, the loading of an
  app and the bookkeeping around them keep is kept by every activity built from them.
\<close>

locale agent_relation = step_relation +
  assumes R_request: "keeps R (RequestAppState p)"
    and R_create: "keeps R (CreateOrUpdateApp p)"
    and R_load: "keeps R (GetApp k s)"
    and R_notify: "keeps R (Notify i st)" "keeps R (NotifyLocal i st)"
    and R_function: "keeps R (runTransitionFunc f p i)"
    and R_loop: "keeps R (incrementCrashLoop p)" "keeps R (clearCrashLoop k s)"
    and R_delete: "keeps R (DeleteAppState k s)" "keeps R (DeleteRequestedState k s)"
    and R_spawn: "observerOf t = None \<Longrightarrow> R w (w\<lparr>wTasks := wTasks w @ [t]\<rparr>)"
    and R_device: "R w (w\<lparr>wAppCredKey := key\<rparr>)" "R w (w\<lparr>wEmergency := b\<rparr>)" "R w (w\<lparr>wConfig := c\<rparr>)" "R w (w\<lparr>wSpawnerActive := b\<rparr>)"
begin

lemmas agent_intros = keeps_intros R_request R_create R_load R_notify R_function R_loop R_delete

lemma reads:
  "keeps R (GetRequestedState k s)" "keeps R GetRequestedStates" "keeps R GetAppStates"
  "keeps R (GetContainerState n)" "keeps R (listComposeProjectContainers n)" "keeps R (GetContainer n)"
  "keeps R (RemoveContainerByID c)" "keeps R (LogWrite tp m)" "keeps R jitter_now" "keeps R (again x)"
  unfolding GetRequestedState_def GetRequestedStates_def GetAppStates_def GetContainerState_def
    listComposeProjectContainers_def GetContainer_def RemoveContainerByID_def LogWrite_def jitter_now_def again_def
  by (intro keeps_intros)+

lemma HandleTransferFailure_keeps: "keeps R (HandleTransferFailure n)"
  unfolding HandleTransferFailure_def by (intro agent_intros)

lemma CleanupOrphanedContainers_keeps: "keeps R CleanupOrphanedContainers"
proof -
  have "keeps R (steps (map (\<lambda>c. if orphanLabel apps c = None then ret None else removeOrphanedContainer (ctID c)) cs))" for apps cs
    unfolding removeOrphanedContainer_def by (rule keeps_steps) (auto intro!: agent_intros reads)
  then show ?thesis unfolding CleanupOrphanedContainers_def by (intro agent_intros reads)
qed

lemma CleanupOrphanedApps_keeps: "keeps R (CleanupOrphanedAppsFromDatabase ps)"
proof -
  have "keeps R (removeOrphanedApp a)" for a
    unfolding removeOrphanedApp_def removeNamed_def by (intro agent_intros reads)
  then have "keeps R (steps (map (\<lambda>a. if P a then ret None else removeOrphanedApp a) apps))" for P apps
    by (intro keeps_steps) (auto intro!: agent_intros)
  then show ?thesis unfolding CleanupOrphanedAppsFromDatabase_def by (intro agent_intros reads)
qed

lemma Ensure_keeps: "keeps R EnsureLocalRequestedStates" "keeps R EnsureRemoteRequestedStates"
proof -
  have "keeps R (ensureLocal p)" for p
    unfolding ensureLocal_def by (intro agent_intros keeps_spawn R_spawn) simp
  then have "keeps R (steps (map ensureLocal ps))" for ps by (intro keeps_steps) auto
  then show "keeps R EnsureLocalRequestedStates"
    unfolding EnsureLocalRequestedStates_def by (intro agent_intros reads)
  have "keeps R (ignore (spawn (RequestTask p)))" for p by (intro agent_intros keeps_spawn R_spawn) simp
  then have "keeps R (steps (map (\<lambda>p. if reconciled p then ignore (spawn (RequestTask p)) else ret None) ps))" for ps
    by (intro keeps_steps) (auto intro!: keeps_return)
  then show "keeps R EnsureRemoteRequestedStates"
    unfolding EnsureRemoteRequestedStates_def by (intro agent_intros reads)
qed

lemma UpdateLocal_keeps: "keeps R (UpdateLocalRequestedAppStatesWithRemote ps)"
  unfolding UpdateLocalRequestedAppStatesWithRemote_def by (rule keeps_steps) (auto intro!: agent_intros)

lemma CorrectAppStates_keeps: "keeps R (CorrectAppStates b)"
proof -
  note parts = notifyIfChanged_def notifyAlways_def throttle_def
  have "keeps R (correctEntry images names b lst p)" for images names lst p
    unfolding correctEntry_def CorrectComposeAppState_def correctAbsentCompose_def correctSingle_def parts Let_def
    by (intro agent_intros reads)
  then have "keeps R (steps (correctEntries images names b ps))" for images names ps
    by (induction ps) (simp_all only: correctEntries.simps keeps_steps_Nil keeps_steps_Cons)
  then show ?thesis unfolding CorrectAppStates_def by (intro agent_intros reads)
qed

lemma driveBack_keeps: "keeps R (driveBack topic i stage latest seen)"
  unfolding driveBack_def by (intro agent_intros reads)

lemma observeRound_keeps: "keeps R (observeRound stage k n seen)"
  unfolding observeRound_def Let_def probe_lock by (intro agent_intros reads driveBack_keeps)

lemma observeComposeRound_keeps: "keeps R (observeComposeRound stage k n seen)"
  unfolding observeComposeRound_def Let_def probe_lock by (intro agent_intros reads driveBack_keeps)

lemma wakeRetry_keeps: "keeps R (wakeRetry p)"
  unfolding wakeRetry_def by (intro agent_intros)

lemma runTask_keeps: "observerOf t = None \<Longrightarrow> keeps R (runTask t)"
  by (cases t) (auto simp: runTask_def intro!: agent_intros reads wakeRetry_keeps Ensure_keeps)

lemma syncWithBackend_keeps: "keeps R (syncWithBackend decode)"
  unfolding syncWithBackend_def FetchRequestedAppStates_def
  by (intro agent_intros CleanupOrphanedApps_keeps UpdateLocal_keeps CleanupOrphanedContainers_keeps)

lemma requestAppStateHandler_keeps: "keeps R (requestAppStateHandler kwargs)"
  unfolding requestAppStateHandler_def by (intro agent_intros keeps_spawn R_spawn) simp

lemma updateEmergency_keeps: "keeps R (updateEmergency g free)"
  unfolding updateEmergency_def setEmergency_def
  by (cases "decide g free") (auto intro!: keeps_intros keeps_modify R_device keeps_spawn R_spawn stopForeignContainers_keeps)

lemma runOnce_keeps:
  assumes "agent_guard g"
  shows "keeps R (runOnce g)"
proof -
  have "readers_ok R g"
    using assms reads(2)
    by (auto simp: readers_ok_def agent_guard_def agentInstalledAppNames_def agentWantedAppImages_def intro!: keeps_intros)
  moreover have "keeps R (freeBytes g')" for g' unfolding freeBytes_def by (intro keeps_intros)
  ultimately show ?thesis unfolding runOnce_def by (intro keeps_intros safeCleanup_keeps updateEmergency_keeps)
qed

lemma OnConnect_keeps:
  assumes "keeps R ObserveAppStates"
  shows "keeps R (OnConnect decode reconnect)"
proof -
  have "keeps R fetchAppCredKey"
    unfolding fetchAppCredKey_def GetAppCredKey_def SetAppCredKey_def by (intro agent_intros keeps_modify R_device)
  then show ?thesis
    unfolding OnConnect_def
    by (intro agent_intros assms syncWithBackend_keeps CorrectAppStates_keeps Ensure_keeps)
qed

lemma startDiskGuard_keeps: "keeps R (startDiskGuard composeDir buildDir registryURL)"
proof -
  have "agent_guard (newGuard composeDir buildDir registryURL root)" for root
    by (simp add: agent_guard_def newGuard_def withDefaults_def)
  then show ?thesis
    unfolding startDiskGuard_def EnsurePreventionConfig_def ensureDockerLogRotation_def ensureJournaldCap_def CheckNow_def
    by (intro keeps_intros runOnce_keeps)
qed

lemma start_keeps:
  assumes "keeps R ObserveAppStates"
  shows "keeps R (startLocally linux composeDir buildDir registryURL)" "keeps R daemonCameUp"
proof -
  have init: "keeps R (initLocalAppStates fatal)" for fatal
    unfolding initLocalAppStates_def orFail_def
    by (intro agent_intros assms CorrectAppStates_keeps CleanupOrphanedContainers_keeps Ensure_keeps)
  show "keeps R (startLocally linux composeDir buildDir registryURL)" "keeps R daemonCameUp"
    unfolding startLocally_def daemonCameUp_def by (intro agent_intros startDiskGuard_keeps init)+
qed

end

text \<open>
  A relation that does not look at the app objects: what the steps of transitions and the
  statements on the tables keep, every request keeps.
\<close>

locale calm_relation = step_relation +
  assumes C_transition: "transition_relation R i p"
    and C_only: "only_ports w w' \<Longrightarrow> R w w'"
    and C_apps: "R w (w\<lparr>wApps := as\<rparr>)"
    and C_upsert: "keeps R (UpsertAppState i st)" "keeps R (UpsertRequestedStateChange p)"
    and C_loop: "keeps R (incrementCrashLoop p)" "keeps R (clearCrashLoop k s)"
    and C_delete: "keeps R (DeleteAppState k s)" "keeps R (DeleteRequestedState k s)"
    and C_spawn: "observerOf t = None \<Longrightarrow> R w (w\<lparr>wTasks := wTasks w @ [t]\<rparr>)"
    and C_device: "R w (w\<lparr>wAppCredKey := key\<rparr>)" "R w (w\<lparr>wEmergency := b\<rparr>)" "R w (w\<lparr>wConfig := c\<rparr>)" "R w (w\<lparr>wSpawnerActive := b\<rparr>)"
begin

lemma objects: "keeps R (app_upd i f)"
  by (rule keeps_app_upd) (rule C_apps)

lemma tasks: "observerOf t = None \<Longrightarrow> keeps R (spawn t)"
  by (rule keeps_spawn) (rule C_spawn)

lemma Get_keeps: "keeps R (GetApp k s)" "keeps R (GetRequestedState k s)"
  unfolding GetApp_def GetAppState_def GetRequestedState_def push_app_def
  by (intro keeps_intros keeps_modify C_apps)+

lemma Notify_keeps: "keeps R (Notify i st)" "keeps R (NotifyLocal i st)"
  unfolding Notify_def NotifyLocal_def NotifyRemote_def UpdateLocalAppState_def UpdateRemoteAppState_def
  by (intro keeps_intros objects C_upsert C_delete Get_keeps)+

lemma only: "keeps only_ports m \<Longrightarrow> keeps R m"
  by (erule keeps_mono) (rule C_only)

lemmas manager_intros = keeps_intros objects tasks Get_keeps Notify_keeps C_upsert C_loop C_delete
  only [OF refreshAppCredential_only] only [OF syncPortState_only] only [OF UpdateTunnelState_only]

lemma VerifyState_keeps: "keeps R (VerifyState i)"
  unfolding VerifyState_def by (intro manager_intros) simp

lemma finishTransition_keeps: "keeps R (finishTransition p i e)"
  unfolding finishTransition_def by (intro manager_intros VerifyState_keeps)

lemma requestLocked_keeps: "keeps R (requestLocked p i)"
  unfolding requestLocked_def UpdateCurrentAppState_def UpdateLocalAppState_def GetRegistryToken_def UnlockTransition_def Let_def
  by (intro manager_intros transition_relation.InitTransition_keeps [OF C_transition] finishTransition_keeps)

lemma RequestAppState_keeps: "keeps R (RequestAppState p)"
  unfolding RequestAppState_def requestFor_def SecureTransition_def CancelTransition_def
  by (intro manager_intros requestLocked_keeps) simp_all

lemma CreateOrUpdateApp_keeps: "keeps R (CreateOrUpdateApp p)"
  unfolding CreateOrUpdateApp_def AddApp_def push_app_def UpdateLocalRequestedState_def Let_def
  by (intro manager_intros keeps_modify C_apps)

end

sublocale calm_relation \<subseteq> agent_relation
  by unfold_locales
    (rule RequestAppState_keeps CreateOrUpdateApp_keeps Get_keeps Notify_keeps C_loop C_delete C_device
       transition_relation.runTransitionFunc_keeps [OF C_transition] | erule C_spawn)+

section \<open>The invariants\<close>

text \<open>What no step of a transition touches: crash loops, observers and goroutines.\<close>

abbreviation same_mind :: "world \<Rightarrow> world \<Rightarrow> bool" where
  "same_mind w w' \<equiv> wCrashLoops w' = wCrashLoops w \<and> wObservers w' = wObservers w \<and> wNextCtx w' = wNextCtx w \<and> wTasks w' = wTasks w"

interpretation mind: step_relation same_mind
  by unfold_locales simp_all

lemma tables_mind:
  "keeps same_mind (UpsertRequestedStateChange p)" "keeps same_mind (UpsertAppState i st)"
  "keeps same_mind (DeleteAppState k s)" "keeps same_mind (DeleteRequestedState k s)"
proof -
  have "keeps same_mind (app_upd i f)" for i f by (rule mind.keeps_app_upd) simp
  moreover show requested: "keeps same_mind (UpsertRequestedStateChange p)" for p
    unfolding UpsertRequestedStateChange_def Let_def by (intro mind.keeps_intros mind.keeps_modify) simp_all
  ultimately show "keeps same_mind (UpsertAppState i st)"
    unfolding UpsertAppState_def upsertLocked_def insertAppState_def syncRequestedState_def GetRequestedState_def Let_def
    by (intro mind.keeps_intros mind.keeps_modify) simp_all
  show "keeps same_mind (DeleteAppState k s)" "keeps same_mind (DeleteRequestedState k s)"
    unfolding DeleteAppState_def DeleteRequestedState_def
    by (intro mind.keeps_intros mind.keeps_modify; simp)+
qed

lemma setState_mind: "keeps same_mind (setState i st)"
proof -
  have "keeps same_mind (app_upd i f)" for i f by (rule mind.keeps_app_upd) simp
  then show ?thesis
    unfolding setState_def Notify_def NotifyLocal_def NotifyRemote_def UpdateLocalAppState_def UpdateRemoteAppState_def GetRequestedState_def
    by (intro mind.keeps_intros tables_mind)
qed

text \<open>Any relation on the mind alone is kept by transitions and statements.\<close>

lemma mind_transition:
  assumes "step_relation R" and mind: "\<And>w w'. same_mind w w' \<Longrightarrow> R w w'"
  shows "transition_relation R i p"
proof (intro transition_relation.intro assms(1) transition_relation_axioms.intro)
  show "keeps R (setState i st)" for st by (rule keeps_mono [OF setState_mind mind])
  show "keeps R (app_upd i f)" for f by (rule keeps_mono [OF mind.keeps_app_upd mind]) simp_all
  show "R w (w\<lparr>wHostPorts := r\<rparr>)" for w r by (rule mind) simp
  show "keeps R (withComposeCancel stage key m)" if "keeps R m" for stage key m
    using that assms(1) by (intro bracket_ignoring) (simp_all add: mind state_relation.R_trans program_relation_def step_relation_def)
  show "keeps R (UpdateLocalRequestedState p')" for p'
    unfolding UpdateLocalRequestedState_def by (rule keeps_mono [OF tables_mind(1) mind])
qed

text \<open>The pollers among the goroutines.\<close>

definition pollers :: "world \<Rightarrow> (string \<times> nat) list" where
  "pollers w = List.map_filter observerOf (wTasks w)"

abbreviation same_pollers :: "world \<Rightarrow> world \<Rightarrow> bool" where
  "same_pollers w w' \<equiv> wObservers w' = wObservers w \<and> wNextCtx w' = wNextCtx w \<and> pollers w' = pollers w"

abbreviation keeps_loops :: "world \<Rightarrow> world \<Rightarrow> bool" where
  "keeps_loops w w' \<equiv> loops_inv w \<longrightarrow> loops_inv w'"

lemma pollers_simps [simp]:
  "pollers (w\<lparr>wTasks := []\<rparr>) = []"
  "pollers (w\<lparr>wTasks := t # ts\<rparr>) = (case observerOf t of None \<Rightarrow> [] | Some x \<Rightarrow> [x]) @ pollers (w\<lparr>wTasks := ts\<rparr>)"
  "pollers (w\<lparr>wTasks := ts @ us\<rparr>) = pollers (w\<lparr>wTasks := ts\<rparr>) @ pollers (w\<lparr>wTasks := us\<rparr>)"
  "pollers (w\<lparr>wTasks := wTasks w\<rparr>) = pollers w"
  by (simp_all add: pollers_def List.map_filter_def split: option.split)

lemma pollers_cong: "wTasks w' = wTasks w \<Longrightarrow> pollers w' = pollers w"
  by (simp add: pollers_def)

lemma mind_keeps: "same_mind w w' \<Longrightarrow> same_pollers w w'" "same_mind w w' \<Longrightarrow> keeps_loops w w'"
  by (simp_all add: pollers_def loops_inv_def)

interpretation tbc: calm_relation keeps_db
proof (intro calm_relation.intro calm_relation_axioms.intro)
  show "step_relation keeps_db" by (rule db.step_relation_axioms)
  show "transition_relation keeps_db i p" for i p by (rule tables.transition_relation_axioms)
  show "keeps keeps_db (incrementCrashLoop p)" for p
    unfolding incrementCrashLoop_def retry_def jitter_now_def
    by (intro db.keeps_intros db.keeps_modify db.keeps_spawn) (simp_all add: db_inv_def)
  show "keeps keeps_db (clearCrashLoop k s)" for k s
    unfolding clearCrashLoop_def by (intro db.keeps_modify) (simp add: db_inv_def)
qed (rule UpsertAppState_db UpsertRequestedStateChange_db DeleteAppState_db DeleteRequestedState_db | simp add: db_inv_def)+

lemma ports_statements:
  "keeps same_registries (UpsertRequestedStateChange p)" "keeps same_registries (UpsertAppState i st)"
  "keeps same_registries (DeleteAppState k s)" "keeps same_registries (DeleteRequestedState k s)"
  "keeps same_registries (incrementCrashLoop p)" "keeps same_registries (clearCrashLoop k s)"
proof -
  have obj: "keeps same_registries (app_upd i f)" for i f by (rule regs.keeps_app_upd) simp
  show requested: "keeps same_registries (UpsertRequestedStateChange p)" for p
    using UpdateLocalRequestedState_registries by (simp add: UpdateLocalRequestedState_def)
  show "keeps same_registries (UpsertAppState i st)"
    unfolding UpsertAppState_def upsertLocked_def insertAppState_def syncRequestedState_def GetRequestedState_def Let_def
    by (intro regs.keeps_intros regs.keeps_modify requested obj) simp_all
  show "keeps same_registries (DeleteAppState k s)" "keeps same_registries (DeleteRequestedState k s)"
    unfolding DeleteAppState_def DeleteRequestedState_def by (intro regs.keeps_intros regs.keeps_modify; simp)+
  show "keeps same_registries (incrementCrashLoop p)" "keeps same_registries (clearCrashLoop k s)"
    unfolding incrementCrashLoop_def retry_def jitter_now_def clearCrashLoop_def
    by (intro regs.keeps_intros regs.keeps_modify regs.keeps_spawn; simp)+
qed

interpretation ptc: calm_relation keeps_ports
proof (intro calm_relation.intro calm_relation_axioms.intro)
  show "step_relation keeps_ports" by unfold_locales simp_all
  show "transition_relation keeps_ports i p" for i p by (rule ports.transition_relation_axioms)
qed (rule keeps_mono [OF ports_statements(1)] keeps_mono [OF ports_statements(2)] keeps_mono [OF ports_statements(3)]
      keeps_mono [OF ports_statements(4)] keeps_mono [OF ports_statements(5)] keeps_mono [OF ports_statements(6)] | simp)+

interpretation lpc: calm_relation keeps_loops
proof (intro calm_relation.intro calm_relation_axioms.intro)
  show step: "step_relation keeps_loops" by unfold_locales (simp, blast, simp add: loops_inv_def)
  show "transition_relation keeps_loops i p" for i p by (rule mind_transition [OF step]) (simp add: loops_inv_def)
  have "keeps_loops w w'" if "run_state (incrementCrashLoop p) w = (a, w')" for p w a w'
    using that incrementCrashLoop_spec_core [of p w "fst a" "snd a" w'] by simp
  then show "keeps keeps_loops (incrementCrashLoop p)" for p by (auto simp: keeps_wp intro!: wp_runI)
  have "keeps_loops w w'" if "run_state (clearCrashLoop k s) w = (a, w')" for k s w a w'
    using that clearCrashLoop_run [of k s w a w'] by simp
  then show "keeps keeps_loops (clearCrashLoop k s)" for k s by (auto simp: keeps_wp intro!: wp_runI)
  show "keeps_loops w w'" if "only_ports w w'" for w w' using that by (auto simp: env_frame_def loops_inv_def)
qed (rule keeps_mono [OF tables_mind(1)] keeps_mono [OF tables_mind(2)] keeps_mono [OF tables_mind(3)]
      keeps_mono [OF tables_mind(4)] | simp add: loops_inv_def)+

interpretation plr: step_relation same_pollers
  by unfold_locales (simp_all add: pollers_def)

interpretation plc: calm_relation same_pollers
proof (intro calm_relation.intro calm_relation_axioms.intro)
  show step: "step_relation same_pollers" by (rule plr.step_relation_axioms)
  show "transition_relation same_pollers i p" for i p by (rule mind_transition [OF step]) (simp add: pollers_def)
  show "keeps same_pollers (incrementCrashLoop p)" for p
    unfolding incrementCrashLoop_def retry_def jitter_now_def
    by (intro plr.keeps_intros plr.keeps_modify plr.keeps_spawn) (simp_all add: pollers_def List.map_filter_def)
  show "keeps same_pollers (clearCrashLoop k s)" for k s
    unfolding clearCrashLoop_def by (intro plr.keeps_modify) (simp add: pollers_def)
  show "same_pollers w w'" if "only_ports w w'" for w w' using that by (auto simp: env_frame_def pollers_def)
qed (rule keeps_mono [OF tables_mind(1)] keeps_mono [OF tables_mind(2)] keeps_mono [OF tables_mind(3)]
      keeps_mono [OF tables_mind(4)] | simp add: pollers_def List.map_filter_def)+

section \<open>Every step\<close>

text \<open>A relation that does not look at observers and goroutines either is kept by every step of the agent.\<close>

locale watch_relation = agent_relation +
  assumes R_watch: "R w (w\<lparr>wObservers := obs, wNextCtx := n, wTasks := ts\<rparr>)"
begin

lemma R_tasks: "R w (w\<lparr>wTasks := ts\<rparr>)"
  using R_watch [where w = w and obs = "wObservers w" and n = "wNextCtx w" and ts = ts] by simp

lemma R_observers: "R w (w\<lparr>wObservers := obs\<rparr>)"
  using R_watch [where w = w and obs = obs and n = "wNextCtx w" and ts = "wTasks w"] by simp

lemma registerObserver_keeps: "keeps R (registerObserver key start)"
  unfolding registerObserver_def by (intro keeps_intros keeps_modify R_watch)

lemma add_keeps: "keeps R (addObserver st k n)" "keeps R (addComposeObserver st k n)"
  unfolding addObserver_def addComposeObserver_def Let_def by (intro keeps_intros reads registerObserver_keeps)+

lemma containerEvent_keeps: "keeps R (containerEvent action name)"
  unfolding containerEvent_def by (intro keeps_intros add_keeps)

lemma goOn_keeps: "keeps R (goOn key ctx nxt r)"
  unfolding goOn_def removeOwnObserver_def
  by (intro keeps_intros keeps_modify keeps_spawn R_tasks) (simp add: R_refl R_observers)

lemma observe_keeps: "keeps R (observeAppState c st k n s)" "keeps R (observeComposeAppState c st k n s')"
  unfolding observeAppState_def observeComposeAppState_def
  by (intro keeps_intros observeRound_keeps observeComposeRound_keeps goOn_keeps)+

lemma ObserveAppStates_keeps: "keeps R ObserveAppStates"
proof -
  have "keeps R (steps (map observeApp apps))" for apps
    unfolding observeApp_def by (rule keeps_steps) (auto intro!: keeps_intros add_keeps)
  moreover have "keeps R initObserverSpawner"
    unfolding initObserverSpawner_def by (intro keeps_intros keeps_modify R_device)
  ultimately show ?thesis unfolding ObserveAppStates_def by (intro keeps_intros reads)
qed

lemma everyTask_keeps: "keeps R (runTask t)"
  using runTask_keeps [of t] observe_keeps by (cases t) (simp_all add: runTask_def)

lemma agent_step_keeps: "agent_step w w' \<Longrightarrow> R w w'"
proof (induction rule: agent_step.induct)
  case (goroutine w before t after)
  have "R (w\<lparr>wTasks := before @ after\<rparr>) (snd (run_state (runTask t) (w\<lparr>wTasks := before @ after\<rparr>)))"
    using everyTask_keeps by (simp add: keeps_def)
  then show ?case by (rule R_trans [OF R_tasks])
next
  case (spawner_failed w)
  have "keeps R spawnerFailed" unfolding spawnerFailed_def by (intro keeps_intros keeps_modify R_device)
  then show ?case by (simp add: keeps_def)
next
  case (connect w decode reconnect)
  then show ?case using OnConnect_keeps [OF ObserveAppStates_keeps] by (simp add: keeps_def)
next
  case (disk_guard g w)
  then show ?case using runOnce_keeps by (simp add: keeps_def)
qed (use start_keeps [OF ObserveAppStates_keeps] R_request requestAppStateHandler_keeps HandleTransferFailure_keeps Ensure_keeps CorrectAppStates_keeps ObserveAppStates_keeps
       containerEvent_keeps R_device in \<open>simp_all add: keeps_def\<close>)

end

interpretation tbw: watch_relation keeps_db
  by unfold_locales (simp add: db_inv_def)

interpretation ptw: watch_relation keeps_ports
  by unfold_locales simp

interpretation lpw: watch_relation keeps_loops
  by unfold_locales (simp add: loops_inv_def)

lemma CreateOrUpdateApp_idents: "keeps idents_extend (CreateOrUpdateApp p)"
proof -
  have "keeps idents_extend (app_upd i (\<lambda>a. a\<lparr>aRequestedState := st\<rparr>))" for i st
    by (rule app_upd_idents) (simp add: ident_def)
  moreover have "keeps idents_extend (UpsertRequestedStateChange q)" for q
    by (rule keeps_mono [OF UpsertRequestedStateChange_objects]) (simp add: objects_idents)
  moreover have "keeps idents_extend (UpsertAppState i st)" for i st
    by (rule keeps_mono [OF UpsertAppState_objects]) (simp add: objects_idents)
  ultimately show ?thesis
    unfolding CreateOrUpdateApp_def AddApp_def UpdateLocalRequestedState_def Let_def
    by (intro idn.keeps_intros GetApp_idents push_app_idents) simp_all
qed

interpretation idw: watch_relation idents_extend
proof unfold_locales
  show "keeps idents_extend (NotifyLocal i st)" for i st
    by (rule keeps_mono [OF NotifyLocal_frame]) (rule frame_idents)
  show "keeps idents_extend (DeleteAppState k s)" "keeps idents_extend (DeleteRequestedState k s)" for k s
    by (rule keeps_mono [OF DeleteAppState_objects] keeps_mono [OF DeleteRequestedState_objects]; simp add: objects_idents)+
qed (rule RequestAppState_idents CreateOrUpdateApp_idents GetApp_idents Notify_idents idt.runTransitionFunc_keeps
      incrementCrashLoop_idents clear_cancel_idents | simp add: objects_idents)+

section \<open>One poller per app\<close>

definition observers_ok :: "world \<Rightarrow> (string \<times> nat) multiset \<Rightarrow> bool" where
  "observers_ok w running \<longleftrightarrow> distinct (map fst (wObservers w)) \<and> (\<forall>e\<in>set (wObservers w). snd e < wNextCtx w)
     \<and> mset (wObservers w) = mset (pollers w) + running"

abbreviation keeps_observers :: "world \<Rightarrow> world \<Rightarrow> bool" where
  "keeps_observers w w' \<equiv> observers_ok w {#} \<longrightarrow> observers_ok w' {#}"

lemma same_pollers_ok: "same_pollers w w' \<Longrightarrow> observers_ok w r \<Longrightarrow> observers_ok w' r"
  by (simp add: observers_ok_def)

interpretation obc: agent_relation keeps_observers
proof unfold_locales
  show "keeps_observers w w" and "keeps_observers w (w\<lparr>wTrace := wTrace w @ t\<rparr>)" for w t
    by (simp_all add: observers_ok_def pollers_def)
  note mono = keeps_mono [of same_pollers _ keeps_observers]
  show "keeps keeps_observers (RequestAppState p)" "keeps keeps_observers (CreateOrUpdateApp p)"
    "keeps keeps_observers (GetApp k s)" "keeps keeps_observers (Notify i st)" "keeps keeps_observers (NotifyLocal i st)"
    "keeps keeps_observers (runTransitionFunc f p i)" "keeps keeps_observers (incrementCrashLoop p)"
    "keeps keeps_observers (clearCrashLoop k s)" "keeps keeps_observers (DeleteAppState k s)" "keeps keeps_observers (DeleteRequestedState k s)"
    for p k s i st f
    by (rule mono, rule plc.agent_intros, simp add: observers_ok_def)+
  show "keeps_observers w (w\<lparr>wTasks := wTasks w @ [t]\<rparr>)" if "observerOf t = None" for w t
    using that by (simp add: observers_ok_def)
qed (simp_all add: observers_ok_def pollers_def)

lemma registerObserver_ok:
  assumes "\<And>c. observerOf (start c) = Some (key, c)"
  shows "keeps keeps_observers (registerObserver key start)"
proof -
  have "observers_ok (w\<lparr>wObservers := (key, wNextCtx w) # wObservers w, wNextCtx := Suc (wNextCtx w),
      wTasks := wTasks w @ [start (wNextCtx w)]\<rparr>) {#}"
    if "observers_ok w {#}" and "map_of (wObservers w) key = None" for w
  proof -
    have "key \<notin> set (map fst (wObservers w))" using that(2) by (simp add: map_of_eq_None_iff)
    with that(1) assms show ?thesis
      by (auto simp: observers_ok_def pollers_def List.map_filter_def less_Suc_eq)
  qed
  then show ?thesis
    unfolding registerObserver_def by (auto simp: keeps_wp wp_simps)
qed

lemma add_ok: "keeps keeps_observers (addObserver st k n)" "keeps keeps_observers (addComposeObserver st k n)"
  unfolding addObserver_def addComposeObserver_def Let_def
  by (intro obc.keeps_intros obc.reads registerObserver_ok; simp)+

lemma containerEvent_ok: "keeps keeps_observers (containerEvent action name)"
  unfolding containerEvent_def by (intro obc.keeps_intros add_ok)

lemma ObserveAppStates_ok: "keeps keeps_observers ObserveAppStates"
proof -
  have "keeps keeps_observers (steps (map observeApp apps))" for apps
    unfolding observeApp_def by (rule obc.keeps_steps) (auto intro!: obc.keeps_intros add_ok)
  moreover have "keeps keeps_observers initObserverSpawner"
    unfolding initObserverSpawner_def by (intro obc.keeps_intros obc.keeps_modify obc.R_device)
  ultimately show ?thesis unfolding ObserveAppStates_def by (intro obc.keeps_intros obc.reads)
qed

lemma filter_key_unique:
  "distinct (map fst xs) \<Longrightarrow> (k, v) \<in> set xs \<Longrightarrow> filter (\<lambda>e. fst e = k) xs = [(k, v)]"
  by (induction xs) (auto simp: filter_empty_conv rev_image_eqI)

text \<open>The round of an observer that is running, and the end of its round.\<close>

lemma goOn_ok:
  assumes "observers_ok w {#(key, ctx)#}" and "\<And>s. observerOf (nxt s) = Some (key, ctx)"
  shows "observers_ok (snd (run_state (goOn key ctx nxt r) w)) {#}"
proof (cases r)
  case None
  have "(key, ctx) \<in> set (wObservers w)"
    using assms(1) by (metis observers_ok_def set_mset_mset union_iff union_single_eq_member add.commute)
  then have "map_of (wObservers w) key = Some ctx" using assms(1) by (simp add: observers_ok_def)
  then have run: "snd (run_state (goOn key ctx nxt r) w) = w\<lparr>wObservers := map_del key (wObservers w)\<rparr>"
    by (simp add: None goOn_def removeOwnObserver_def ignore_def modify_def run_bind State_Monad.get_def State_Monad.set_def State_Monad.return_def)
  have "mset (map_del key (wObservers w)) = mset (pollers w)"
  proof -
    have "filter (\<lambda>e. fst e = key) (wObservers w) = [(key, ctx)]"
      using assms(1) \<open>(key, ctx) \<in> set (wObservers w)\<close> by (intro filter_key_unique) (simp_all add: observers_ok_def)
    moreover have "mset (wObservers w) = mset (filter (\<lambda>e. fst e = key) (wObservers w)) + mset (map_del key (wObservers w))"
      by (metis map_del_def mset_filter multiset_partition)
    ultimately show ?thesis using assms(1) by (simp add: observers_ok_def)
  qed
  with assms(1) show ?thesis
    by (auto simp: run observers_ok_def pollers_def map_del_def distinct_map_filter)
next
  case (Some s)
  with assms show ?thesis
    by (simp add: goOn_def ignore_def spawn_def modify_def run_bind State_Monad.get_def State_Monad.set_def State_Monad.return_def observers_ok_def
        pollers_def List.map_filter_def)
qed

lemma round_ok:
  assumes "observers_ok w {#(key, ctx)#}" and "keeps same_pollers m" and "\<And>s. observerOf (nxt s) = Some (key, ctx)"
  shows "observers_ok (snd (run_state (State_Monad.bind m (goOn key ctx nxt)) w)) {#}"
proof -
  obtain r w1 where run: "run_state m w = (r, w1)" by force
  with assms(1,2) have "observers_ok w1 {#(key, ctx)#}" by (blast dest: keepsD intro: same_pollers_ok)
  then show ?thesis using goOn_ok [where w = w1 and r = r, OF _ assms(3)] by (simp add: run_bind run)
qed

lemma runTask_ok:
  assumes "observers_ok w (case observerOf t of None \<Rightarrow> {#} | Some e \<Rightarrow> {#e#})"
  shows "observers_ok (snd (run_state (runTask t) w)) {#}"
proof (cases "observerOf t")
  case None
  with assms show ?thesis using obc.runTask_keeps [OF None] by (simp add: keeps_def)
next
  case (Some e)
  have "observers_ok (snd (run_state (observeAppState c st k n s) w)) {#}" if "observers_ok w {#(BuildContainerName st k n, c)#}" for c st k n s
    unfolding observeAppState_def by (rule round_ok [OF that plc.observeRound_keeps]) simp
  moreover have "observers_ok (snd (run_state (observeComposeAppState c st k n s) w)) {#}"
    if "observers_ok w {#(BuildComposeContainerName st k n, c)#}" for c st k n s
    unfolding observeComposeAppState_def by (rule round_ok [OF that plc.observeComposeRound_keeps]) simp
  ultimately show ?thesis using assms Some by (cases t) (simp_all add: runTask_def)
qed

lemma agent_step_observers: "agent_step w w' \<Longrightarrow> observers_ok w {#} \<Longrightarrow> observers_ok w' {#}"
proof (induction rule: agent_step.induct)
  case (goroutine w before t after)
  have "observers_ok (w\<lparr>wTasks := before @ after\<rparr>) (case observerOf t of None \<Rightarrow> {#} | Some e \<Rightarrow> {#e#})"
    using goroutine by (auto simp: observers_ok_def pollers_def List.map_filter_def split: option.split)
  then show ?case by (rule runTask_ok)
next
  case (spawner_failed w)
  then show ?case
    using obc.R_device(4) by (simp add: spawnerFailed_def ignore_def modify_def run_bind State_Monad.get_def State_Monad.set_def State_Monad.return_def)
next
  case (connect w decode reconnect)
  then show ?case using obc.OnConnect_keeps [OF ObserveAppStates_ok] by (simp add: keeps_def)
next
  case (disk_guard g w)
  then show ?case using obc.runOnce_keeps by (simp add: keeps_def)
qed (use obc.start_keeps [OF ObserveAppStates_ok] obc.R_request obc.requestAppStateHandler_keeps obc.HandleTransferFailure_keeps obc.Ensure_keeps obc.CorrectAppStates_keeps ObserveAppStates_ok
       containerEvent_ok obc.R_device in \<open>simp_all add: keeps_def\<close>)

section \<open>Every reachable state\<close>

lemma agent_reachable_ok:
  "agent_reachable w \<Longrightarrow> db_inv w \<and> registry_reachable (wHostPorts w) \<and> loops_inv w \<and> observers_ok w {#}
     \<and> (\<forall>a\<in>set (wApps w). \<not> aTransitionLock a)"
proof (induction rule: agent_reachable.induct)
  case (start w)
  then show ?case
    by (simp add: registry_reachable.init loops_inv_def observers_ok_def pollers_def List.map_filter_def)
next
  case (step w w')
  then have "\<forall>a\<in>set (wApps w'). \<not> aTransitionLock a"
    using idents_locks [OF idw.agent_step_keeps [OF step.hyps(2)]] by (metis in_set_conv_nth nth_mem)
  with step show ?case
    using tbw.agent_step_keeps ptw.agent_step_keeps lpw.agent_step_keeps agent_step_observers by blast
qed



end
