(* ===== verification/Startup.thy ===== *)
theory Startup
  imports Agent
begin

text \<open>
  \<^verbatim>\<open>agent.go\<close>: the disk is looked at before the apps. What the start of the agent does besides the check of
  the disk is kept apart from the flag of the emergency and makes no call that takes up space.
\<close>

section \<open>What the start leaves alone\<close>

definition gated :: "world \<Rightarrow> world \<Rightarrow> bool" where
  "gated w w' \<longleftrightarrow> sparing w w' \<and> wEmergency w' = wEmergency w \<and> wExt w' = wExt w"

interpretation gtd: program_relation gated
proof unfold_locales
  show "gated w w" for w by (simp add: gated_def calls.R_refl)
  show "gated u w" if "gated u v" "gated v w" for u v w
    using that calls.R_trans [of "- set diskGrowingCalls" u v w] by (simp add: gated_def)
qed

lemma gated_ext:
  "name \<notin> set diskGrowingCalls \<Longrightarrow> keeps gated (ext name args)"
  "name \<notin> set diskGrowingCalls \<Longrightarrow> keeps gated (extE name args)"
  by (simp_all add: keeps_wp wp_ext wp_extE gated_def calls_in_def)

lemma gated_modify:
  "(\<And>w. wTrace (f w) = wTrace w \<and> wEmergency (f w) = wEmergency w \<and> wExt (f w) = wExt w) \<Longrightarrow> keeps gated (modify f)"
  by (simp add: keeps_wp wp_modify gated_def calls_in_def)

lemma gated_app_upd: "keeps gated (app_upd i f)"
  by (simp add: keeps_wp wp_app_upd gated_def calls_in_def)

lemma gated_spawn: "keeps gated (spawn t)"
  by (simp add: keeps_wp wp_spawn gated_def calls_in_def)

lemmas gated_intros = gtd.keeps_flow gated_app_upd gated_spawn gated_ext

lemma gated_reads:
  "keeps gated (GetRequestedState k s)" "keeps gated GetRequestedStates" "keeps gated GetAppStates"
  "keeps gated (GetContainerState n)" "keeps gated (listComposeProjectContainers n)"
  "keeps gated (RemoveContainerByID c)"
  unfolding GetRequestedState_def GetRequestedStates_def GetAppStates_def GetContainerState_def
    listComposeProjectContainers_def RemoveContainerByID_def
  by (intro gated_intros; simp add: diskGrowingCalls_def)+

lemma gated_store:
  "keeps gated (UpsertRequestedStateChange p)" "keeps gated (DeleteAppState k s)" "keeps gated (DeleteRequestedState k s)"
  "keeps gated (UpsertAppState i st)" "keeps gated (GetApp k s)"
  unfolding UpsertRequestedStateChange_def DeleteAppState_def DeleteRequestedState_def UpsertAppState_def upsertLocked_def
    insertAppState_def syncRequestedState_def GetRequestedState_def GetApp_def GetAppState_def push_app_def Let_def
  by (intro gated_intros gated_modify; simp add: diskGrowingCalls_def)+

lemma gated_notify: "keeps gated (NotifyLocal i st)"
  unfolding NotifyLocal_def UpdateLocalAppState_def
  by (intro gated_intros gated_store gated_reads)

lemma gated_correct: "keeps gated (CorrectAppStates False)"
proof -
  have "keeps gated (correctEntry images names False lst p)" for images names lst p
    unfolding correctEntry_def CorrectComposeAppState_def correctAbsentCompose_def correctSingle_def notifyIfChanged_def notifyAlways_def throttle_def Let_def if_False
    by (intro gated_intros gated_reads gated_store gated_notify; simp add: diskGrowingCalls_def)
  then have "keeps gated (steps (correctEntries images names False ps))" for images names ps
    by (induction ps) (simp_all only: correctEntries.simps gtd.keeps_steps_Nil gtd.keeps_steps_Cons)
  then show ?thesis unfolding CorrectAppStates_def by (intro gated_intros gated_reads; simp add: diskGrowingCalls_def)
qed

lemma gated_observe: "keeps gated ObserveAppStates"
proof -
  have "keeps gated (steps (map observeApp apps))" for apps
    unfolding observeApp_def addObserver_def addComposeObserver_def registerObserver_def Let_def
    by (rule gtd.keeps_steps) (auto intro!: gated_intros gated_reads gated_modify)
  then show ?thesis
    unfolding ObserveAppStates_def initObserverSpawner_def
    by (intro gated_intros gated_reads gated_modify; simp add: diskGrowingCalls_def)
qed

lemma gated_cleanup: "keeps gated CleanupOrphanedContainers"
proof -
  have "keeps gated (steps (map (\<lambda>c. if orphanLabel apps c = None then ret None else removeOrphanedContainer (ctID c)) cs))" for apps cs
    unfolding removeOrphanedContainer_def by (rule gtd.keeps_steps) (auto intro!: gated_intros gated_reads)
  then show ?thesis
    unfolding CleanupOrphanedContainers_def by (intro gated_intros gated_reads; simp add: diskGrowingCalls_def)
qed

lemma gated_ensure: "keeps gated EnsureLocalRequestedStates"
proof -
  have "keeps gated (ensureLocal p)" for p
    unfolding ensureLocal_def by (intro gated_intros gated_store; simp add: diskGrowingCalls_def)
  then have "keeps gated (steps (map ensureLocal ps))" for ps by (intro gtd.keeps_steps) auto
  then show ?thesis unfolding EnsureLocalRequestedStates_def by (intro gated_intros gated_reads)
qed

lemma gated_init: "keeps gated (initLocalAppStates fatal)"
  unfolding initLocalAppStates_def orFail_def
  by (intro gated_intros gated_correct gated_observe gated_cleanup gated_ensure)

lemma gated_prevention: "keeps gated EnsurePreventionConfig"
  unfolding EnsurePreventionConfig_def ensureDockerLogRotation_def ensureJournaldCap_def
  by (intro gated_intros; simp add: diskGrowingCalls_def)

section \<open>The first check\<close>

lemma sparing_guard:
  "keeps sparing (freeBytes g)" "keeps sparing (stopForeignContainers g)" "keeps sparing (truncateOversizedLogs g)"
  "keeps sparing (setEmergency b)" "keeps sparing (ignore (spawn t))"
proof -
  have "keeps sparing (steps (map (\<lambda>c. if ctState c \<noteq> ''running'' then ret None
      else if projectLabel c = applianceComposeProject then ret None else ignore (ext ''Docker.StopContainerByID'' [ctID c])) cs))" for cs
    by (rule calls.keeps_steps) (auto intro!: calls.keeps_flow sparing_ext; simp add: diskGrowingCalls_def)
  then show "keeps sparing (stopForeignContainers g)"
    unfolding stopForeignContainers_def by (intro calls.keeps_flow sparing_ext; simp add: diskGrowingCalls_def)
  have "keeps sparing (steps (map (\<lambda>(path, size). if HasSuffix path ''.log'' \<and> sint size > gLogMaxBytes g
      then ignore (ext ''os.Truncate'' [path]) else ret None) files))" for files
    by (rule calls.keeps_steps) (auto intro!: calls.keeps_flow sparing_ext; simp add: diskGrowingCalls_def)
  then show "keeps sparing (truncateOversizedLogs g)"
    unfolding truncateOversizedLogs_def by (intro calls.keeps_flow sparing_ext; simp add: diskGrowingCalls_def)
  show "keeps sparing (freeBytes g)" "keeps sparing (setEmergency b)" "keeps sparing (ignore (spawn t))"
    unfolding freeBytes_def setEmergency_def
    by (intro calls.keeps_flow calls.keeps_spawn calls_modify sparing_ext; simp add: diskGrowingCalls_def calls_in_def)+
qed

lemma sparing_readers:
  assumes "agent_guard g"
  shows "keeps sparing (pruneOrphanedVolumes g)" "keeps sparing (reclaimSupersededAppImages g)"
proof -
  have requested: "keeps sparing GetRequestedStates"
    unfolding GetRequestedStates_def by (intro calls.keeps_flow sparing_ext; simp add: diskGrowingCalls_def)
  have "keeps sparing (pruneVolume g names v)" for names v
    unfolding pruneVolume_def removeVolume_def hasAppDirForProject_def dirUnder_def Let_def
    by (intro calls.keeps_flow sparing_ext; simp add: diskGrowingCalls_def)
  then have "keeps sparing (steps (map (pruneVolume g names) vs))" for names vs by (intro calls.keeps_steps) auto
  then show "keeps sparing (pruneOrphanedVolumes g)"
    using assms unfolding pruneOrphanedVolumes_def installedNames_def agent_guard_def agentInstalledAppNames_def
    by (simp only: option.case, intro calls.keeps_flow sparing_ext requested) (simp_all add: diskGrowingCalls_def)
  have "keeps sparing (steps (map removeImageTag tags))" for tags
    unfolding removeImageTag_def by (rule calls.keeps_steps) (auto intro!: calls.keeps_flow sparing_ext; simp add: diskGrowingCalls_def)
  then show "keeps sparing (reclaimSupersededAppImages g)"
    using assms unfolding reclaimSupersededAppImages_def agent_guard_def agentWantedAppImages_def
    by (simp only: option.case, intro calls.keeps_flow sparing_ext requested) (simp_all add: diskGrowingCalls_def)
qed

lemma sparing_runOnce:
  assumes "agent_guard g" and "\<not> gRegistryGC g"
  shows "keeps sparing (runOnce g)"
proof -
  have update: "keeps sparing (updateEmergency g' free)" for g' free
    unfolding updateEmergency_def by (cases "decide g' free") (auto intro!: calls.keeps_flow sparing_guard)
  have "triggerRegistryGC g = ret g" using assms(2) by (simp add: triggerRegistryGC_def)
  then have "keeps sparing (safeCleanup g)"
    unfolding safeCleanup_def
    by (auto intro!: calls.keeps_flow sparing_ext sparing_guard sparing_readers [OF assms(1)]; simp add: diskGrowingCalls_def)
  then show ?thesis
    unfolding runOnce_def by (intro calls.keeps_flow sparing_guard update)
qed

lemma dataRoot_spares: "''Container.DataRootDir'' \<notin> set diskGrowingCalls"
  by (simp add: diskGrowingCalls_def)

lemma newGuard_simps:
  "agent_guard (newGuard c b u rootDir)" "\<not> gRegistryGC (newGuard c b u rootDir)" "gEmergencyFreeBytes (newGuard c b u rootDir) = 2 ^ 30"
  by (simp_all add: agent_guard_def newGuard_def withDefaults_def gib_def)

lemma newGuard_readers: "readers_ok same_flag (newGuard c b u rootDir)"
  unfolding readers_ok_def newGuard_def withDefaults_def agentInstalledAppNames_def agentWantedAppImages_def GetRequestedStates_def
  by (auto intro!: flg.keeps_intros)

lemma check_full_disk:
  assumes "run_state (CheckNow (newGuard c b u rootDir)) w = (g, w')"
    and "\<And>g v. wExt v = wExt w \<Longrightarrow> fst (run_state (freeBytes g) v) < 2 ^ 30"
  shows "wEmergency w' \<and> sparing w w'"
proof -
  have run: "run_state (runOnce (newGuard c b u rootDir)) w = (g, w')" using assms(1) by (simp add: CheckNow_def)
  have "decide (newGuard c b u rootDir) f = actEmergency" if "f < 2 ^ 30" for f
    using that by (simp add: decide_def newGuard_simps)
  then have "wEmergency w'" using runOnce_flag [OF run newGuard_readers] assms(2) by (auto simp: Let_def)
  moreover have "sparing w w'" by (rule keepsD [OF sparing_runOnce [OF newGuard_simps(1,2)] run])
  ultimately show ?thesis by simp
qed



end
