(* ===== verification/SelfUpdate.thy ===== *)
theory SelfUpdate
  imports Effects
begin

text \<open>
  \<^verbatim>\<open>selfupdate/selfupdate.go\<close>: the state machine that swaps a downloaded agent binary into place on
  Windows, watches it through a probation and rolls it back, and the repair script of
  \<^verbatim>\<open>servicecmd.go\<close>. The state is the agent's directory, a map from file names to files. Each file
  operation may be refused, and a write may leave a torn file; the directory after every change
  is recorded, so that a property of the recorded directories is one of every moment at which
  the process may die. Renaming onto an existing file replaces it. Sleeping between the attempts
  of a rename is not modelled. Versions are file name components.
\<close>

section \<open>Data\<close>

datatype phase = phaseSwapping | phaseProbation | phaseRolledBack | OtherPhase string

record update_state =
  uPhase :: phase
  uNewVersion :: string
  uOldVersion :: string
  uAttempts :: int
  uUpdatedAt :: string

text \<open>An executable: what \<^verbatim>\<open>-version\<close> prints (when it runs) and its size. A marker file: its state, if it is one.\<close>

record exe =
  xVersion :: "string option"
  xSize :: nat

datatype entry = Binary exe | MarkerFile "update_state option"

type_synonym files = "string \<Rightarrow> entry option"

datatype outcome = Done | Refused | Torn

record disk =
  dFiles :: files
  dPast :: "files list"
  dOutcome :: "nat \<Rightarrow> outcome"
  dStep :: nat

record UpdateManager =
  mVerifySignature :: "(exe \<Rightarrow> err) option"
  mEnforceSignature :: bool
  mCurrentExe :: "go_error + string"
  mActivePath :: string
  mClean :: "string \<Rightarrow> string" \<comment> \<open>\<^verbatim>\<open>filepath.Clean\<close>\<close>
  mNow :: "nat \<Rightarrow> string"

definition activeName :: string where
  "activeName = ''reagent.exe''"

definition prevName :: string where
  "prevName = ''reagent-prev.exe''"

definition markerName :: string where
  "markerName = ''update-state.json''"

definition tmpName :: string where
  "tmpName = markerName @ ''.tmp''"

definition versionedPath :: "string \<Rightarrow> string" where
  "versionedPath version = ''reagent-v'' @ version @ ''.exe''"

definition failedPath :: "string \<Rightarrow> string" where
  "failedPath version = ''reagent-failed-v'' @ version @ ''.exe''"

definition maxProbationAttempts :: int where
  "maxProbationAttempts = 3"

definition renameRetries :: nat where
  "renameRetries = 5"

definition ErrVersionBlocked :: go_error where
  "ErrVersionBlocked = Msg ''this version previously failed on this device and is blocked''"

definition ErrNotExist :: go_error where
  "ErrNotExist = Msg ''file does not exist''"

definition ErrDenied :: go_error where
  "ErrDenied = Msg ''access is denied''"

section \<open>File operations\<close>

definition attempt :: "(disk, outcome) state" where
  "attempt = do {
     d \<leftarrow> State_Monad.get;
     _ \<leftarrow> State_Monad.set (d\<lparr>dStep := Suc (dStep d)\<rparr>);
     ret (dOutcome d (dStep d)) }"

definition change :: "(files \<Rightarrow> files) \<Rightarrow> (disk, unit) state" where
  "change f = modify (\<lambda>d. d\<lparr>dFiles := f (dFiles d), dPast := dPast d @ [f (dFiles d)]\<rparr>)"

definition rename :: "string \<Rightarrow> string \<Rightarrow> (disk, err) state" where
  "rename old new = do {
     outcome \<leftarrow> attempt;
     fs \<leftarrow> gets dFiles;
     if outcome \<noteq> Done then ret (Some ErrDenied)
     else case fs old of
       None \<Rightarrow> ret (Some ErrNotExist)
     | Some f \<Rightarrow> do { _ \<leftarrow> change (\<lambda>fs. fs(old := None, new := Some f)); ret None } }"

definition remove :: "string \<Rightarrow> (disk, err) state" where
  "remove path = do {
     outcome \<leftarrow> attempt;
     fs \<leftarrow> gets dFiles;
     if outcome \<noteq> Done then ret (Some ErrDenied)
     else case fs path of
       None \<Rightarrow> ret (Some ErrNotExist)
     | Some f \<Rightarrow> do { _ \<leftarrow> change (\<lambda>fs. fs(path := None)); ret None } }"

text \<open>Looking at a file; a directory entry that is no binary has no version.\<close>

definition stat :: "string \<Rightarrow> (disk, go_error + entry) state" where
  "stat path = do {
     outcome \<leftarrow> attempt;
     fs \<leftarrow> gets dFiles;
     ret (if outcome \<noteq> Done then Inl ErrDenied
          else case fs path of None \<Rightarrow> Inl ErrNotExist | Some f \<Rightarrow> Inr f) }"

definition sizeOf :: "entry \<Rightarrow> nat" where
  "sizeOf f = (case f of Binary x \<Rightarrow> xSize x | MarkerFile _ \<Rightarrow> 1)"

definition execVersion :: "string \<Rightarrow> (disk, go_error + string) state" where
  "execVersion path = do {
     outcome \<leftarrow> attempt;
     fs \<leftarrow> gets dFiles;
     ret (if outcome \<noteq> Done then Inl ErrDenied
          else case fs path of
            Some (Binary x) \<Rightarrow> (case xVersion x of None \<Rightarrow> Inl ErrDenied | Some v \<Rightarrow> Inr v)
          | _ \<Rightarrow> Inl ErrNotExist) }"

definition verify :: "UpdateManager \<Rightarrow> string \<Rightarrow> (disk, err) state" where
  "verify m path = (case mVerifySignature m of
     None \<Rightarrow> ret None
   | Some check \<Rightarrow> do {
       fs \<leftarrow> gets dFiles;
       ret (case fs path of Some (Binary x) \<Rightarrow> check x | _ \<Rightarrow> Some ErrNotExist) })"

fun renameLoop :: "nat \<Rightarrow> err \<Rightarrow> string \<Rightarrow> string \<Rightarrow> (disk, err) state" where
  "renameLoop 0 e old new = ret e"
| "renameLoop (Suc n) e old new = do {
     e' \<leftarrow> rename old new;
     if e' = None then ret None else renameLoop n e' old new }"

definition retryRename :: "string \<Rightarrow> string \<Rightarrow> (disk, err) state" where
  "retryRename old new = renameLoop renameRetries None old new"

section \<open>The marker\<close>

definition readMarker :: "(disk, go_error + update_state option) state" where
  "readMarker = do {
     outcome \<leftarrow> attempt;
     fs \<leftarrow> gets dFiles;
     ret (case fs markerName of
       None \<Rightarrow> Inr None
     | Some f \<Rightarrow> if outcome \<noteq> Done then Inl ErrDenied
                 else Inr (case f of MarkerFile s \<Rightarrow> s | Binary _ \<Rightarrow> None)) }"

definition writeTmp :: "update_state \<Rightarrow> (disk, err) state" where
  "writeTmp s = do {
     outcome \<leftarrow> attempt;
     case outcome of
       Done \<Rightarrow> do { _ \<leftarrow> change (\<lambda>fs. fs(tmpName := Some (MarkerFile (Some s)))); ret None }
     | Torn \<Rightarrow> do { _ \<leftarrow> change (\<lambda>fs. fs(tmpName := Some (MarkerFile None))); ret (Some ErrDenied) }
     | Refused \<Rightarrow> ret (Some ErrDenied) }"

definition writeMarker :: "UpdateManager \<Rightarrow> update_state \<Rightarrow> (disk, err) state" where
  "writeMarker m s = do {
     n \<leftarrow> gets dStep;
     e \<leftarrow> writeTmp (s\<lparr>uUpdatedAt := mNow m n\<rparr>);
     if e \<noteq> None then ret e else rename tmpName markerName }"

definition clearMarker :: "(disk, err) state" where
  "clearMarker = ignore (remove markerName)"

definition IsVersionBlocked :: "string \<Rightarrow> (disk, bool) state" where
  "IsVersionBlocked version = do {
     r \<leftarrow> readMarker;
     ret (case r of Inr (Some s) \<Rightarrow> uPhase s = phaseRolledBack \<and> uNewVersion s = version | _ \<Rightarrow> False) }"

definition newState :: "phase \<Rightarrow> string \<Rightarrow> string \<Rightarrow> update_state" where
  "newState ph newVersion oldVersion =
     \<lparr>uPhase = ph, uNewVersion = newVersion, uOldVersion = oldVersion, uAttempts = 0, uUpdatedAt = []\<rparr>"

section \<open>Activating an update\<close>

text \<open>The checks that come before anything is moved.\<close>

definition checkLocation :: "UpdateManager \<Rightarrow> err" where
  "checkLocation m = (case mCurrentExe m of
     Inl e \<Rightarrow> Some e
   | Inr runningExe \<Rightarrow>
       if \<not> EqualFold (mClean m runningExe) (mClean m (mActivePath m))
       then Some (Msg (''running from '' @ runningExe @ '' instead of '' @ mActivePath m @ ''; refusing to self-update''))
       else None)"

definition checkDownload :: "UpdateManager \<Rightarrow> string \<Rightarrow> (disk, err) state" where
  "checkDownload m newVersion = do {
     info \<leftarrow> stat (versionedPath newVersion);
     case info of
       Inl e \<Rightarrow> ret (Some (Wrap ''downloaded update not found'' e))
     | Inr f \<Rightarrow>
         if sizeOf f = 0 then ret (Some (Msg ''downloaded update is empty''))
         else do {
           r \<leftarrow> execVersion (versionedPath newVersion);
           case r of
             Inl e \<Rightarrow> ret (Some (Wrap ''downloaded update failed to execute'' e))
           | Inr reportedVersion \<Rightarrow>
               if reportedVersion \<noteq> newVersion then ret (Some (Msg ''downloaded update reports another version''))
               else do {
                 sigErr \<leftarrow> verify m (versionedPath newVersion);
                 ret (case sigErr of
                   None \<Rightarrow> None
                 | Some e \<Rightarrow> if mEnforceSignature m then Some (Wrap ''refusing to activate an improperly signed update'' e) else None) } } }"

definition restoreBinary :: "go_error \<Rightarrow> (disk, err) state" where
  "restoreBinary e = do {
     comp \<leftarrow> retryRename prevName activeName;
     case comp of
       Some compErr \<Rightarrow> ret (Some (Wrap ''swap failed and rollback failed'' compErr))
     | None \<Rightarrow> do { _ \<leftarrow> clearMarker; ret (Some (Wrap ''failed to move the update into place'' e)) } }"

definition placeBinary :: "UpdateManager \<Rightarrow> string \<Rightarrow> string \<Rightarrow> (disk, err) state" where
  "placeBinary m newVersion currentVersion = do {
     placed \<leftarrow> retryRename (versionedPath newVersion) activeName;
     case placed of
       Some e \<Rightarrow> restoreBinary e
     | None \<Rightarrow> ignore (writeMarker m (newState phaseProbation newVersion currentVersion)) }"

definition swapBinaries :: "UpdateManager \<Rightarrow> string \<Rightarrow> string \<Rightarrow> (disk, err) state" where
  "swapBinaries m newVersion currentVersion = do {
     aside \<leftarrow> retryRename activeName prevName;
     case aside of
       Some e \<Rightarrow> do { _ \<leftarrow> clearMarker; ret (Some (Wrap ''failed to move the running binary aside'' e)) }
     | None \<Rightarrow> placeBinary m newVersion currentVersion }"

definition Activate :: "UpdateManager \<Rightarrow> string \<Rightarrow> string \<Rightarrow> (disk, err) state" where
  "Activate m newVersion currentVersion = do {
     r \<leftarrow> readMarker;
     case r of
       Inl e \<Rightarrow> ret (Some e)
     | Inr marker \<Rightarrow>
         let rolledBack = (case marker of Some s \<Rightarrow> uPhase s = phaseRolledBack | None \<Rightarrow> False);
             blocked = (case marker of Some s \<Rightarrow> uNewVersion s = newVersion | None \<Rightarrow> False) in
         if rolledBack \<and> blocked then ret (Some ErrVersionBlocked)
         else steps [
           (if rolledBack then clearMarker else ret None),
           ret (checkLocation m),
           checkDownload m newVersion,
           do { e \<leftarrow> remove prevName;
                ret (if e \<noteq> None \<and> e \<noteq> Some ErrNotExist then map_option (Wrap ''failed to remove stale previous binary'') e else None) },
           writeMarker m (newState phaseSwapping newVersion currentVersion),
           swapBinaries m newVersion currentVersion] }"

section \<open>Starting the service\<close>

record StartResult =
  RollbackPerformed :: bool

definition rollBack :: "UpdateManager \<Rightarrow> update_state \<Rightarrow> (disk, StartResult) state" where
  "rollBack m marker = do {
     aside \<leftarrow> retryRename activeName (failedPath (uNewVersion marker));
     if aside \<noteq> None then do { _ \<leftarrow> writeMarker m marker; ret \<lparr>RollbackPerformed = False\<rparr> }
     else do {
       restored \<leftarrow> retryRename prevName activeName;
       if restored \<noteq> None then ret \<lparr>RollbackPerformed = True\<rparr>
       else do {
         _ \<leftarrow> writeMarker m (newState phaseRolledBack (uNewVersion marker) (uOldVersion marker));
         ret \<lparr>RollbackPerformed = True\<rparr> } } }"

definition onProbation :: "UpdateManager \<Rightarrow> string \<Rightarrow> update_state \<Rightarrow> (disk, StartResult) state" where
  "onProbation m runningVersion marker =
     (if runningVersion = uNewVersion marker then
        (let marker' = marker\<lparr>uAttempts := uAttempts marker + 1\<rparr> in
         if uAttempts marker' \<le> maxProbationAttempts
         then do { _ \<leftarrow> writeMarker m marker'; ret \<lparr>RollbackPerformed = False\<rparr> }
         else rollBack m marker')
      else if runningVersion = uOldVersion marker
      then do { _ \<leftarrow> writeMarker m (newState phaseRolledBack (uNewVersion marker) (uOldVersion marker));
                ret \<lparr>RollbackPerformed = False\<rparr> }
      else do { _ \<leftarrow> clearMarker; ret \<lparr>RollbackPerformed = False\<rparr> })"

definition OnServiceStart :: "UpdateManager \<Rightarrow> string \<Rightarrow> (disk, StartResult) state" where
  "OnServiceStart m runningVersion = do {
     r \<leftarrow> readMarker;
     case r of
       Inr (Some marker) \<Rightarrow> (case uPhase marker of
         phaseProbation \<Rightarrow> onProbation m runningVersion marker
       | phaseRolledBack \<Rightarrow> ret \<lparr>RollbackPerformed = False\<rparr>
       | _ \<Rightarrow> do { _ \<leftarrow> clearMarker; ret \<lparr>RollbackPerformed = False\<rparr> })
     | _ \<Rightarrow> ret \<lparr>RollbackPerformed = False\<rparr> }"

definition MarkHealthy :: "(disk, err) state" where
  "MarkHealthy = do {
     r \<leftarrow> readMarker;
     case r of
       Inr (Some marker) \<Rightarrow> if uPhase marker = phaseProbation then clearMarker else ret None
     | _ \<Rightarrow> ret None }"

text \<open>The repair script: \<open>downloads\<close> are the downloaded binaries, newest first.\<close>

definition repair :: "string list \<Rightarrow> (disk, err) state" where
  "repair downloads = do {
     fs \<leftarrow> gets dFiles;
     if fs activeName \<noteq> None then ret None
     else if fs prevName \<noteq> None then rename prevName activeName
     else case downloads of [] \<Rightarrow> ret None | f # _ \<Rightarrow> rename f activeName }"

section \<open>Rules for the operations\<close>

lemmas path_defs = activeName_def prevName_def markerName_def tmpName_def versionedPath_def failedPath_def

lemma paths_distinct [simp]:
  "activeName \<noteq> prevName" "activeName \<noteq> markerName" "activeName \<noteq> tmpName" "activeName \<noteq> versionedPath v" "activeName \<noteq> failedPath v"
  "prevName \<noteq> markerName" "prevName \<noteq> tmpName" "prevName \<noteq> versionedPath v" "prevName \<noteq> failedPath v"
  "markerName \<noteq> tmpName" "markerName \<noteq> versionedPath v" "markerName \<noteq> failedPath v"
  "tmpName \<noteq> versionedPath v" "tmpName \<noteq> failedPath v" "versionedPath v \<noteq> failedPath w"
  by (simp_all add: path_defs)

lemmas paths_distinct' [simp] = paths_distinct [symmetric]

lemma wp_attempt [wp_simps]: "wp attempt Q d = Q (dOutcome d (dStep d)) (d\<lparr>dStep := Suc (dStep d)\<rparr>)"
  by (simp add: attempt_def wp_simps)

definition changed :: "(files \<Rightarrow> files) \<Rightarrow> disk \<Rightarrow> disk" where
  "changed f d = d\<lparr>dFiles := f (dFiles d), dPast := dPast d @ [f (dFiles d)]\<rparr>"

lemma changed_simps [simp]:
  "dFiles (changed f d) = f (dFiles d)" "dPast (changed f d) = dPast d @ [f (dFiles d)]"
  "dOutcome (changed f d) = dOutcome d" "dStep (changed f d) = dStep d"
  by (simp_all add: changed_def)

lemma wp_change [wp_simps]: "wp (change f) Q d = Q () (changed f d)"
  by (simp add: change_def changed_def wp_simps)

text \<open>What the directory holds under the names \<open>N\<close> is the same at every moment in between.\<close>

definition untouched :: "string set \<Rightarrow> disk \<Rightarrow> disk \<Rightarrow> bool" where
  "untouched N d d' \<longleftrightarrow> dOutcome d' = dOutcome d
     \<and> (\<exists>t. dPast d' = dPast d @ t \<and> (\<forall>fs\<in>insert (dFiles d') (set t). \<forall>n\<in>N. fs n = dFiles d n))"

interpretation unt: state_relation "untouched N" for N
proof unfold_locales
  show "untouched N d d" for d by (simp add: untouched_def)
  show "untouched N u w" if "untouched N u v" and "untouched N v w" for u v w
  proof -
    from that obtain t t' where "dPast v = dPast u @ t" "dPast w = dPast v @ t'"
      "\<forall>fs\<in>insert (dFiles v) (set t). \<forall>n\<in>N. fs n = dFiles u n" "\<forall>fs\<in>insert (dFiles w) (set t'). \<forall>n\<in>N. fs n = dFiles v n"
      "dOutcome w = dOutcome u"
      by (auto simp: untouched_def)
    then show ?thesis unfolding untouched_def by (intro conjI exI [of _ "t @ t'"]) auto
  qed
qed

lemma untouched_step [simp]: "untouched N d (d\<lparr>dStep := k\<rparr>)"
  by (simp add: untouched_def)

lemma untouched_changed: "(\<And>n. n \<in> N \<Longrightarrow> f (dFiles d) n = dFiles d n) \<Longrightarrow> untouched N d (changed f d)"
  by (simp add: untouched_def)

lemma attempt_keeps: "keeps (untouched N) attempt"
  by (simp add: keeps_wp wp_simps)

lemma change_keeps: "(\<And>fs n. n \<in> N \<Longrightarrow> f fs n = fs n) \<Longrightarrow> keeps (untouched N) (change f)"
  by (simp add: keeps_wp wp_simps untouched_changed)

lemmas unt_intros = unt.keeps_basic attempt_keeps change_keeps

lemma looks_keep:
  "keeps (untouched N) (stat p)" "keeps (untouched N) (execVersion p)" "keeps (untouched N) (verify m p)" "keeps (untouched N) readMarker"
  unfolding stat_def execVersion_def verify_def readMarker_def by (intro unt_intros)+

lemma rename_keeps: "old \<notin> N \<Longrightarrow> new \<notin> N \<Longrightarrow> keeps (untouched N) (rename old new)"
  unfolding rename_def by (intro unt_intros) auto

lemma remove_keeps: "path \<notin> N \<Longrightarrow> keeps (untouched N) (remove path)"
  unfolding remove_def by (intro unt_intros) auto

lemma renameLoop_keeps: "old \<notin> N \<Longrightarrow> new \<notin> N \<Longrightarrow> keeps (untouched N) (renameLoop k e old new)"
  by (induction k arbitrary: e) (auto intro!: unt.keeps_basic rename_keeps)

lemma retryRename_keeps: "old \<notin> N \<Longrightarrow> new \<notin> N \<Longrightarrow> keeps (untouched N) (retryRename old new)"
  unfolding retryRename_def by (rule renameLoop_keeps)

lemma writeMarker_keeps: "markerName \<notin> N \<Longrightarrow> tmpName \<notin> N \<Longrightarrow> keeps (untouched N) (writeMarker m s)"
proof -
  assume names: "markerName \<notin> N" "tmpName \<notin> N"
  then have "keeps (untouched N) (writeTmp s')" for s'
    unfolding writeTmp_def
    by (intro unt.keeps_bind [OF attempt_keeps]) (auto split: outcome.split intro!: unt_intros)
  then show ?thesis unfolding writeMarker_def by (intro unt_intros rename_keeps names)
qed

lemma clearMarker_keeps: "markerName \<notin> N \<Longrightarrow> keeps (untouched N) clearMarker"
  unfolding clearMarker_def by (intro unt_intros remove_keeps)

lemma willing_keeps: "keeps (untouched {}) (Activate m v c)"
proof -
  have "keeps (untouched {}) (swapBinaries m v c)"
    unfolding swapBinaries_def placeBinary_def restoreBinary_def
    by (intro unt_intros retryRename_keeps clearMarker_keeps writeMarker_keeps) simp_all
  then show ?thesis
    unfolding Activate_def Let_def checkDownload_def
    by (intro unt_intros looks_keep clearMarker_keeps remove_keeps writeMarker_keeps) simp_all
qed

lemma checkDownload_keeps: "keeps (untouched N) (checkDownload m v)"
  unfolding checkDownload_def by (intro unt_intros looks_keep)

text \<open>A rename that is retried happens once or not at all, and says which.\<close>

definition moved :: "string \<Rightarrow> string \<Rightarrow> disk \<Rightarrow> disk" where
  "moved old new = changed (\<lambda>fs. fs(old := None, new := fs old))"

lemma run_rename:
  "run_state (rename old new) d =
     (let d' = d\<lparr>dStep := Suc (dStep d)\<rparr> in
      if dOutcome d (dStep d) \<noteq> Done then (Some ErrDenied, d')
      else if dFiles d old = None then (Some ErrNotExist, d') else (None, moved old new d'))"
  by (auto simp: rename_def run_bind attempt_def gets_def change_def modify_def moved_def changed_def State_Monad.get_def
      State_Monad.set_def State_Monad.return_def Let_def split: option.split)

lemma moved_simps [simp]:
  "dFiles (moved old new d) = (dFiles d)(old := None, new := dFiles d old)"
  "dPast (moved old new d) = dPast d @ [(dFiles d)(old := None, new := dFiles d old)]"
  "dOutcome (moved old new d) = dOutcome d" "dStep (moved old new d) = dStep d"
  by (auto simp: moved_def fun_eq_iff)

lemma moved_step: "moved old new (d\<lparr>dStep := k\<rparr>) = (moved old new d)\<lparr>dStep := k\<rparr>"
  by (simp add: moved_def changed_def)

lemma run_renameLoop:
  "run_state (renameLoop n e old new) d = (e', d') \<Longrightarrow> (n = 0 \<longrightarrow> e \<noteq> None) \<Longrightarrow>
     (\<exists>k. e' \<noteq> None \<and> d' = d\<lparr>dStep := k\<rparr>) \<or> (\<exists>k. e' = None \<and> dFiles d old \<noteq> None \<and> d' = (moved old new d)\<lparr>dStep := k\<rparr>)"
proof (induction n arbitrary: e d)
  case 0
  then show ?case by (auto simp: State_Monad.return_def intro!: exI [of _ "dStep d"])
next
  case (Suc n)
  show ?case
  proof (cases "dOutcome d (dStep d) = Done \<and> dFiles d old \<noteq> None")
    case True
    then show ?thesis using Suc.prems
      by (auto simp: run_bind run_rename Let_def State_Monad.return_def moved_step)
  next
    case False
    then obtain x where "run_state (renameLoop n (Some x) old new) (d\<lparr>dStep := Suc (dStep d)\<rparr>) = (e', d')"
      using Suc.prems by (auto simp: run_bind run_rename Let_def split: if_splits)
    from Suc.IH [OF this] show ?thesis by (auto simp: moved_step)
  qed
qed

lemma wp_retryRename:
  assumes "\<And>k. dFiles d old \<noteq> None \<Longrightarrow> Q None ((moved old new d)\<lparr>dStep := k\<rparr>)"
    and "\<And>e k. Q (Some e) (d\<lparr>dStep := k\<rparr>)"
  shows "wp (retryRename old new) Q d"
proof (rule wp_runI)
  fix e' d' assume "run_state (retryRename old new) d = (e', d')"
  from run_renameLoop [OF this [unfolded retryRename_def]] assms show "Q e' d'"
    by (auto simp: renameRetries_def)
qed

section \<open>Activation and the moments in between\<close>

text \<open>
  What a directory must offer at every moment: the binary \<open>b\<close> is in the active place, or it is
  the previous one while the active place holds the update, or is vacant under a marker that
  tells so.
\<close>

definition swapMarked :: "string \<Rightarrow> files \<Rightarrow> bool" where
  "swapMarked v fs \<longleftrightarrow> (\<exists>s. fs markerName = Some (MarkerFile (Some s)) \<and> uPhase s = phaseSwapping \<and> uNewVersion s = v)"

definition fallback :: "entry \<Rightarrow> entry \<Rightarrow> string \<Rightarrow> files \<Rightarrow> bool" where
  "fallback b new v fs \<longleftrightarrow> fs activeName = Some b
     \<or> (fs prevName = Some b \<and> (if fs activeName = None then swapMarked v fs else fs activeName = Some new))"

definition always :: "(files \<Rightarrow> bool) \<Rightarrow> disk \<Rightarrow> bool" where
  "always P d \<longleftrightarrow> P (dFiles d) \<and> (\<forall>fs\<in>set (dPast d). P fs)"

lemma always_step [simp]: "always P (d\<lparr>dStep := k\<rparr>) = always P d"
  by (simp add: always_def)

lemma always_moved [simp]:
  "always P d \<Longrightarrow> always P (moved old new d) = P ((dFiles d)(old := None, new := dFiles d old))"
  by (auto simp: always_def)

lemma fallback_simps [simp]:
  "fs activeName = Some b \<Longrightarrow> fallback b new v fs"
  "fs prevName = Some b \<Longrightarrow> fs activeName = Some new \<Longrightarrow> fallback b new v fs"
  "fs prevName = Some b \<Longrightarrow> fs activeName = None \<Longrightarrow> swapMarked v fs \<Longrightarrow> fallback b new v fs"
  by (simp_all add: fallback_def)

lemma untouched_always:
  "untouched N d d' \<Longrightarrow> always P d \<Longrightarrow> (\<And>fs. (\<forall>n\<in>N. fs n = dFiles d n) \<Longrightarrow> P fs) \<Longrightarrow> always P d'"
  unfolding untouched_def always_def by fastforce

lemma untouched_file: "untouched N d d' \<Longrightarrow> n \<in> N \<Longrightarrow> dFiles d' n = dFiles d n"
  by (auto simp: untouched_def)

text \<open>How an activation that got as far as the swap ends.\<close>

definition activated :: "entry \<Rightarrow> entry \<Rightarrow> string \<Rightarrow> err \<Rightarrow> disk \<Rightarrow> bool" where
  "activated b new v e d \<longleftrightarrow> always (fallback b new v) d \<and>
     (if e = None then dFiles d activeName = Some new \<and> dFiles d prevName = Some b
      else dFiles d activeName = Some b \<or> (dFiles d activeName = None \<and> dFiles d prevName = Some b \<and> swapMarked v (dFiles d)))"

lemma activated_clear:
  assumes "always (fallback b new v) d" and "dFiles d activeName = Some b"
  shows "wp clearMarker (\<lambda>_. activated b new v (Some x)) d"
proof (rule wp_runI)
  fix r d' assume "run_state clearMarker d = (r, d')"
  then have "untouched {activeName} d d'" by (rule keepsD [OF clearMarker_keeps, rotated]) simp
  with assms show "activated b new v (Some x) d'"
    by (auto simp: activated_def untouched_file intro: untouched_always)
qed

lemma activated_mark:
  assumes "always (fallback b new v) d" and "dFiles d activeName = Some new" and "dFiles d prevName = Some b"
  shows "wp (writeMarker m s) (\<lambda>_. activated b new v None) d"
proof (rule wp_runI)
  fix r d' assume "run_state (writeMarker m s) d = (r, d')"
  then have "untouched {activeName, prevName} d d'" by (rule keepsD [OF writeMarker_keeps, rotated 2]) simp_all
  with assms show "activated b new v None d'"
    by (auto simp: activated_def untouched_file intro: untouched_always)
qed

lemma swapMarked_upd [simp]: "n \<noteq> markerName \<Longrightarrow> swapMarked v (fs(n := x)) = swapMarked v fs"
  by (simp add: swapMarked_def)

text \<open>The active place is vacant.\<close>

definition vacant :: "entry \<Rightarrow> entry \<Rightarrow> string \<Rightarrow> disk \<Rightarrow> bool" where
  "vacant b new v d \<longleftrightarrow> always (fallback b new v) d \<and> dFiles d activeName = None \<and> dFiles d prevName = Some b
     \<and> swapMarked v (dFiles d)"

lemma vacant_step [simp]: "vacant b new v (d\<lparr>dStep := k\<rparr>) = vacant b new v d"
  by (simp add: vacant_def)

lemma restoreBinary_outcome: "vacant b new v d \<Longrightarrow> wp (restoreBinary e) (activated b new v) d"
  unfolding restoreBinary_def wp_bind
  by (rule wp_retryRename)
     (auto simp: wp_bind wp_return vacant_def activated_def intro!: wp_mono [OF activated_clear])

lemma placeBinary_outcome:
  "vacant b new v d \<Longrightarrow> dFiles d (versionedPath v) = Some new \<Longrightarrow> wp (placeBinary m v c) (activated b new v) d"
  unfolding placeBinary_def wp_bind
  by (rule wp_retryRename)
     (auto simp: wp_ignore restoreBinary_outcome vacant_def intro!: activated_mark)

lemma swapBinaries_outcome:
  assumes "dFiles d activeName = Some b" and "dFiles d (versionedPath v) = Some new" and "swapMarked v (dFiles d)"
    and "always (fallback b new v) d"
  shows "wp (swapBinaries m v c) (activated b new v) d"
  unfolding swapBinaries_def wp_bind
  by (rule wp_retryRename)
     (use assms in \<open>auto simp: wp_bind wp_return vacant_def intro!: placeBinary_outcome wp_mono [OF activated_clear]\<close>)

text \<open>The checks that passed.\<close>

definition accepted :: "UpdateManager \<Rightarrow> string \<Rightarrow> entry \<Rightarrow> bool" where
  "accepted m v f \<longleftrightarrow> (\<exists>x. f = Binary x \<and> xVersion x = Some v \<and> xSize x \<noteq> 0
     \<and> (\<forall>check. mEnforceSignature m \<and> mVerifySignature m = Some check \<longrightarrow> check x = None))"

lemma checkDownload_nil:
  "run_state (checkDownload m v) d = (None, d') \<Longrightarrow> \<exists>f. dFiles d (versionedPath v) = Some f \<and> accepted m v f"
  by (auto simp: checkDownload_def stat_def execVersion_def verify_def sizeOf_def accepted_def run_bind attempt_def gets_def
      State_Monad.get_def State_Monad.set_def State_Monad.return_def split: if_splits option.splits entry.splits sum.splits)

lemma writeMarker_nil:
  "run_state (writeMarker m s) d = (None, d') \<Longrightarrow>
     \<exists>now. dFiles d' markerName = Some (MarkerFile (Some (s\<lparr>uUpdatedAt := now\<rparr>)))"
  by (auto simp: writeMarker_def writeTmp_def run_bind run_rename attempt_def gets_def change_def modify_def Let_def
      State_Monad.get_def State_Monad.set_def State_Monad.return_def split: if_splits outcome.splits)

lemma activation_outcome:
  assumes "dFiles d activeName = Some b" and "dPast d = []"
  shows "wp (Activate m v c) (\<lambda>e d'. \<exists>new. activated b new v e d' \<and> (e = None \<longrightarrow> dFiles d (versionedPath v) = Some new \<and> accepted m v new)) d"
proof -
  let ?Q = "\<lambda>e d'. \<exists>new. activated b new v e d' \<and> (e = None \<longrightarrow> dFiles d (versionedPath v) = Some new \<and> accepted m v new)"
  let ?R = "untouched {activeName, versionedPath v}"
  have early: "activated b new v (Some x) d'" if "?R d d'" for x d' new
  proof -
    have "always (fallback b new v) d" using assms by (simp add: always_def)
    then have "always (fallback b new v) d'" by (rule untouched_always [OF that]) (simp add: assms)
    then show ?thesis using that assms by (simp add: activated_def untouched_file)
  qed
  note keepers = unt.keeps_basic looks_keep remove_keeps writeMarker_keeps clearMarker_keeps checkDownload_keeps
  have "wp (steps [
           (if rolledBack then clearMarker else ret None),
           ret (checkLocation m),
           checkDownload m v,
           do { e \<leftarrow> remove prevName;
                ret (if e \<noteq> None \<and> e \<noteq> Some ErrNotExist then map_option (Wrap ''failed to remove stale previous binary'') e else None) },
           writeMarker m (newState phaseSwapping v c),
           swapBinaries m v c]) ?Q d0" if d0: "?R d d0" for d0 rolledBack
  proof (rule unt.wp_steps_keeps [OF _ d0], (intro keepers; simp), use early in blast,
      rule unt.wp_steps_keeps, intro keepers, assumption, use early in blast,
      rule unt.wp_steps_keeps, intro keepers, assumption, use early in blast)
    fix d1 d2 assume d1: "?R d d1" and d2: "?R d d2" and checked: "run_state (checkDownload m v) d1 = (None, d2)"
    from checkDownload_nil [OF checked] obtain new where new: "dFiles d (versionedPath v) = Some new" "accepted m v new"
      using untouched_file [OF d1] by auto
    show "wp (steps [do { e \<leftarrow> remove prevName;
                ret (if e \<noteq> None \<and> e \<noteq> Some ErrNotExist then map_option (Wrap ''failed to remove stale previous binary'') e else None) },
           writeMarker m (newState phaseSwapping v c), swapBinaries m v c]) ?Q d2"
    proof (rule unt.wp_steps_keeps [OF _ d2], (intro keepers; simp), use early in blast,
        rule unt.wp_steps_keeps [where N = "{activeName, versionedPath v}" and u = d], (intro keepers; simp), assumption, use early in blast)
      fix d3 d4 assume d4: "?R d d4" and marked: "run_state (writeMarker m (newState phaseSwapping v c)) d3 = (None, d4)"
      from early [OF d4] have "always (fallback b new v) d4" by (simp add: activated_def)
      moreover have "swapMarked v (dFiles d4)"
        using writeMarker_nil [OF marked] by (auto simp: swapMarked_def newState_def)
      ultimately have "wp (swapBinaries m v c) (activated b new v) d4"
        using untouched_file [OF d4] assms new by (intro swapBinaries_outcome) simp_all
      then show "wp (steps [swapBinaries m v c]) ?Q d4"
        unfolding wp_steps_Cons wp_steps_Nil using new by (auto elim!: wp_mono split: option.split)
    qed
  qed
  note rest = this
  show ?thesis
    unfolding Activate_def Let_def
    by (rule unt.wp_bind_keeps [OF looks_keep(4) unt.R_refl], rule wp_sum, unfold wp_return, use early in blast,
        rule wp_if, unfold wp_return, use early in blast, rule rest)
qed

text \<open>
  C35: activating an update, whatever file operations are refused: at every moment, so whenever
  the process may die, the binary that ran is in the active place, or is kept as the previous
  one while the active place holds the accepted update or is vacant under a marker of the swap.
  When it returns nil the update that reported its version (and was properly signed, where
  signatures are enforced) is active and the old binary is kept; when it returns an error the
  old binary is active, or is kept under such a marker. From every such moment the repair script
  finds or restores a binary.
\<close>

theorem activate_crash_safe:
  assumes "run_state (Activate m v c) d = (e, d')" and "dFiles d activeName = Some b" and "dPast d = []"
  shows "\<exists>new. (\<forall>fs\<in>insert (dFiles d') (set (dPast d')). fallback b new v fs
       \<and> (\<forall>r. dFiles r = fs \<and> dOutcome r (dStep r) = Done \<longrightarrow>
            dFiles (snd (run_state (repair downloads) r)) activeName \<in> {Some b, Some new}))
     \<and> (e = None \<longrightarrow> dFiles d (versionedPath v) = Some new \<and> accepted m v new
          \<and> dFiles d' activeName = Some new \<and> dFiles d' prevName = Some b)
     \<and> (e \<noteq> None \<longrightarrow> dFiles d' activeName = Some b
          \<or> dFiles d' activeName = None \<and> dFiles d' prevName = Some b \<and> swapMarked v (dFiles d'))"
proof -
  from wp_runD [OF activation_outcome [OF assms(2,3)] assms(1)]
  obtain new where new: "activated b new v e d'" "e = None \<longrightarrow> dFiles d (versionedPath v) = Some new \<and> accepted m v new" by blast
  have "dFiles (snd (run_state (repair downloads) r)) activeName \<in> {Some b, Some new}"
    if "fallback b new v (dFiles r)" "dOutcome r (dStep r) = Done" for r
    using that by (auto simp: repair_def run_bind run_rename gets_def Let_def fallback_def State_Monad.get_def State_Monad.return_def split: if_splits)
  with new show ?thesis by (intro exI [of _ new]) (auto simp: activated_def always_def split: if_splits)
qed

text \<open>An update on a disk that refuses the first rename.\<close>

definition demo_exe :: "string \<Rightarrow> exe" where
  "demo_exe v = \<lparr>xVersion = Some v, xSize = 1\<rparr>"

definition demo_updater :: UpdateManager where
  "demo_updater = \<lparr>mVerifySignature = None, mEnforceSignature = True, mCurrentExe = Inr ''C:/Agent/Reagent.exe'',
     mActivePath = ''C:/agent/reagent.exe'', mClean = (\<lambda>p. p), mNow = (\<lambda>_. [])\<rparr>"

definition demo_disk :: "(nat \<Rightarrow> outcome) \<Rightarrow> disk" where
  "demo_disk out = \<lparr>dFiles = [activeName \<mapsto> Binary (demo_exe ''1''), versionedPath ''2'' \<mapsto> Binary (demo_exe ''2'')],
     dPast = [], dOutcome = out, dStep = 0\<rparr>"

theorem activate_crash_safe_witness:
  "let d = demo_disk (\<lambda>n. if n = 6 then Refused else Done); d' = snd (run_state (Activate demo_updater ''2'' ''1'') d) in
     dFiles d' activeName = Some (Binary (demo_exe ''2'')) \<and> dFiles d' prevName = Some (Binary (demo_exe ''1''))"
proof -
  let ?d = "demo_disk (\<lambda>n. if n = 6 then Refused else Done)"
  obtain e d' where run: "run_state (Activate demo_updater ''2'' ''1'') ?d = (e, d')" by force
  have "fst (run_state (Activate demo_updater ''2'' ''1'') ?d) = None" by code_simp
  then have "e = None" by (simp add: run)
  moreover have "dFiles ?d activeName = Some (Binary (demo_exe ''1''))" "dPast ?d = []"
    "dFiles ?d (versionedPath ''2'') = Some (Binary (demo_exe ''2''))" by (simp_all add: demo_disk_def)
  ultimately show ?thesis using activate_crash_safe [OF run, of "Binary (demo_exe ''1'')" "[]"] by (auto simp: run Let_def)
qed

section \<open>Probation\<close>

text \<open>The service starts \<open>n\<close> times with a version that never stays up.\<close>

fun starts :: "UpdateManager \<Rightarrow> string \<Rightarrow> nat \<Rightarrow> (disk, bool list) state" where
  "starts m v 0 = ret []"
| "starts m v (Suc n) = do { r \<leftarrow> OnServiceStart m v; rs \<leftarrow> starts m v n; ret (RollbackPerformed r # rs) }"

abbreviation willing :: "disk \<Rightarrow> bool" where
  "willing d \<equiv> \<forall>n. dOutcome d n = Done"

definition markerIs :: "phase \<Rightarrow> string \<Rightarrow> string \<Rightarrow> int \<Rightarrow> files \<Rightarrow> bool" where
  "markerIs ph new old k fs \<longleftrightarrow> (\<exists>now. fs markerName =
     Some (MarkerFile (Some \<lparr>uPhase = ph, uNewVersion = new, uOldVersion = old, uAttempts = k, uUpdatedAt = now\<rparr>)))"

lemmas exec_simps = run_bind attempt_def gets_def change_def modify_def Let_def ignore_def
  State_Monad.get_def State_Monad.set_def State_Monad.return_def

lemma run_readMarker:
  "willing d \<Longrightarrow> run_state readMarker d =
     (Inr (case dFiles d markerName of Some (MarkerFile s) \<Rightarrow> s | _ \<Rightarrow> None), d\<lparr>dStep := Suc (dStep d)\<rparr>)"
  by (simp add: readMarker_def exec_simps split: option.split entry.split)

lemma run_writeMarker:
  "willing d \<Longrightarrow> \<exists>d' now. run_state (writeMarker m s) d = (None, d') \<and> willing d'
     \<and> dFiles d' = (dFiles d)(markerName := Some (MarkerFile (Some (s\<lparr>uUpdatedAt := now\<rparr>))), tmpName := None)"
  by (auto simp: writeMarker_def writeTmp_def exec_simps run_rename fun_eq_iff)

lemma run_retryRename:
  "willing d \<Longrightarrow> dFiles d old \<noteq> None \<Longrightarrow>
     run_state (retryRename old new) d = (None, (moved old new d)\<lparr>dStep := Suc (dStep d)\<rparr>)"
  by (simp add: retryRename_def renameRetries_def numeral_eq_Suc run_bind run_rename Let_def moved_step State_Monad.return_def)

lemma start_counts:
  assumes "willing d" and "markerIs phaseProbation new old k (dFiles d)" and "k < maxProbationAttempts"
  shows "\<exists>d'. run_state (OnServiceStart m new) d = (\<lparr>RollbackPerformed = False\<rparr>, d') \<and> willing d'
    \<and> markerIs phaseProbation new old (k + 1) (dFiles d') \<and> (\<forall>n. n \<notin> {markerName, tmpName} \<longrightarrow> dFiles d' n = dFiles d n)"
proof -
  obtain now where marker: "dFiles d markerName =
      Some (MarkerFile (Some \<lparr>uPhase = phaseProbation, uNewVersion = new, uOldVersion = old, uAttempts = k, uUpdatedAt = now\<rparr>))"
    using assms(2) by (auto simp: markerIs_def)
  let ?s = "\<lparr>uPhase = phaseProbation, uNewVersion = new, uOldVersion = old, uAttempts = k + 1, uUpdatedAt = now\<rparr>"
  obtain d' now' where "run_state (writeMarker m ?s) (d\<lparr>dStep := Suc (dStep d)\<rparr>) = (None, d')" "willing d'"
    "dFiles d' = (dFiles d)(markerName := Some (MarkerFile (Some (?s\<lparr>uUpdatedAt := now'\<rparr>))), tmpName := None)"
    using run_writeMarker [of "d\<lparr>dStep := Suc (dStep d)\<rparr>" m ?s] assms(1) by auto
  then show ?thesis
    using assms marker by (simp add: OnServiceStart_def onProbation_def run_bind run_readMarker Let_def State_Monad.return_def markerIs_def)
qed

lemma start_rolls_back:
  assumes "willing d" and "markerIs phaseProbation new old k (dFiles d)" and "k \<ge> maxProbationAttempts"
    and "dFiles d activeName = Some nb" and "dFiles d prevName = Some b"
  shows "\<exists>d'. run_state (OnServiceStart m new) d = (\<lparr>RollbackPerformed = True\<rparr>, d') \<and> willing d'
    \<and> markerIs phaseRolledBack new old 0 (dFiles d') \<and> dFiles d' activeName = Some b \<and> dFiles d' (failedPath new) = Some nb"
proof -
  obtain now where marker: "dFiles d markerName =
      Some (MarkerFile (Some \<lparr>uPhase = phaseProbation, uNewVersion = new, uOldVersion = old, uAttempts = k, uUpdatedAt = now\<rparr>))"
    using assms(2) by (auto simp: markerIs_def)
  define d1 where "d1 = (moved activeName (failedPath new) d)\<lparr>dStep := Suc (Suc (dStep d))\<rparr>"
  define d2 where "d2 = (moved prevName activeName d1)\<lparr>dStep := Suc (dStep d1)\<rparr>"
  have 1: "run_state (retryRename activeName (failedPath new)) (d\<lparr>dStep := Suc (dStep d)\<rparr>) = (None, d1)"
    using assms by (simp add: run_retryRename d1_def moved_step)
  have 2: "run_state (retryRename prevName activeName) d1 = (None, d2)"
    using assms by (simp add: run_retryRename d1_def d2_def)
  have "willing d2" using assms(1) by (simp add: d1_def d2_def)
  from run_writeMarker [OF this, of m "newState phaseRolledBack new old"]
  obtain d' now' where 3: "run_state (writeMarker m (newState phaseRolledBack new old)) d2 = (None, d')" "willing d'"
    "dFiles d' = (dFiles d2)(markerName := Some (MarkerFile (Some ((newState phaseRolledBack new old)\<lparr>uUpdatedAt := now'\<rparr>))), tmpName := None)"
    by blast
  show ?thesis
    using assms marker 1 2 3
    by (auto simp: OnServiceStart_def onProbation_def rollBack_def run_bind run_readMarker Let_def State_Monad.return_def
        markerIs_def newState_def d1_def d2_def)
qed

lemma rolledBack_blocks:
  assumes "markerIs phaseRolledBack v old k (dFiles d)"
  shows "fst (run_state (Activate m v c) d) \<noteq> None" and "dFiles (snd (run_state (Activate m v c) d)) = dFiles d"
    and "willing d \<Longrightarrow> fst (run_state (IsVersionBlocked v) d)"
  using assms by (auto simp: Activate_def IsVersionBlocked_def readMarker_def markerIs_def exec_simps)

text \<open>
  C36: an update that never stays up is rolled back, when the file operations succeed: three
  starts count as attempts, the fourth restores the previous binary, quarantines the update and
  tells the service to restart. The version is blocked from then on: asking for it again fails and
  changes nothing.
\<close>

theorem failing_update_rolled_back:
  assumes "willing d" and "markerIs phaseProbation new old 0 (dFiles d)"
    and "dFiles d activeName = Some nb" and "dFiles d prevName = Some b"
    and "run_state (starts m new 4) d = (rs, d')"
  shows "rs = [False, False, False, True] \<and> dFiles d' activeName = Some b \<and> dFiles d' (failedPath new) = Some nb
    \<and> fst (run_state (IsVersionBlocked new) d') \<and> fst (run_state (Activate m new c) d') \<noteq> None
    \<and> dFiles (snd (run_state (Activate m new c) d')) = dFiles d'"
proof -
  let ?names = "{markerName, tmpName}"
  obtain d1 where d1: "run_state (OnServiceStart m new) d = (\<lparr>RollbackPerformed = False\<rparr>, d1)" "willing d1"
    "markerIs phaseProbation new old 1 (dFiles d1)" "\<forall>n. n \<notin> ?names \<longrightarrow> dFiles d1 n = dFiles d n"
    using start_counts [where m = m, OF assms(1,2)] by (auto simp: maxProbationAttempts_def)
  obtain d2 where d2: "run_state (OnServiceStart m new) d1 = (\<lparr>RollbackPerformed = False\<rparr>, d2)" "willing d2"
    "markerIs phaseProbation new old 2 (dFiles d2)" "\<forall>n. n \<notin> ?names \<longrightarrow> dFiles d2 n = dFiles d1 n"
    using start_counts [where m = m, OF d1(2,3)] by (auto simp: maxProbationAttempts_def)
  obtain d3 where d3: "run_state (OnServiceStart m new) d2 = (\<lparr>RollbackPerformed = False\<rparr>, d3)" "willing d3"
    "markerIs phaseProbation new old 3 (dFiles d3)" "\<forall>n. n \<notin> ?names \<longrightarrow> dFiles d3 n = dFiles d2 n"
    using start_counts [where m = m, OF d2(2,3)] by (auto simp: maxProbationAttempts_def)
  have "dFiles d3 activeName = Some nb" "dFiles d3 prevName = Some b"
    using assms(3,4) d1(4) d2(4) d3(4) by simp_all
  then obtain d4 where d4: "run_state (OnServiceStart m new) d3 = (\<lparr>RollbackPerformed = True\<rparr>, d4)" "willing d4"
    "markerIs phaseRolledBack new old 0 (dFiles d4)" "dFiles d4 activeName = Some b" "dFiles d4 (failedPath new) = Some nb"
    using start_rolls_back [where m = m and nb = nb and b = b, OF d3(2,3)] by (auto simp: maxProbationAttempts_def)
  have "rs = [False, False, False, True] \<and> d' = d4"
    using assms(5) by (simp add: numeral_eq_Suc run_bind d1(1) d2(1) d3(1) d4(1) State_Monad.return_def)
  then show ?thesis using d4 rolledBack_blocks [OF d4(3)] by simp
qed

theorem failing_update_rolled_back_witness:
  "let d = snd (run_state (Activate demo_updater ''2'' ''1'') (demo_disk (\<lambda>_. Done)));
       d' = snd (run_state (starts demo_updater ''2'' 4) d) in
     dFiles d' activeName = Some (Binary (demo_exe ''1'')) \<and> fst (run_state (IsVersionBlocked ''2'') d')"
proof -
  let ?d = "snd (run_state (Activate demo_updater ''2'' ''1'') (demo_disk (\<lambda>_. Done)))"
  obtain rs d' where run: "run_state (starts demo_updater ''2'' 4) ?d = (rs, d')" by force
  have files: "dFiles ?d activeName = Some (Binary (demo_exe ''2''))" "dFiles ?d prevName = Some (Binary (demo_exe ''1''))"
    "dFiles ?d markerName = Some (MarkerFile (Some (newState phaseProbation ''2'' ''1'')))" by code_simp+
  have "untouched {} (demo_disk (\<lambda>_. Done)) ?d"
    using keepsD [OF willing_keeps prod.collapse [symmetric]] by simp
  then have "willing ?d" by (simp add: untouched_def demo_disk_def)
  moreover have "markerIs phaseProbation ''2'' ''1'' 0 (dFiles ?d)" using files(3) by (simp add: markerIs_def newState_def)
  ultimately show ?thesis using failing_update_rolled_back [OF _ _ files(1,2) run] by (simp add: run Let_def)
qed

section \<open>Limits\<close>

text \<open>
  An update that is activated while its predecessor is still on probation drops the last binary
  that passed one: the previous binary is then the unproven one.
\<close>

lemma activation_on_probation_drops_proven:
  "let d = (demo_disk (\<lambda>_. Done))\<lparr>dFiles := [activeName \<mapsto> Binary (demo_exe ''2''), prevName \<mapsto> Binary (demo_exe ''1''),
         versionedPath ''3'' \<mapsto> Binary (demo_exe ''3''), markerName \<mapsto> MarkerFile (Some (newState phaseProbation ''2'' ''1''))]\<rparr>;
       d' = snd (run_state (Activate demo_updater ''3'' ''2'') d) in
     dFiles d' prevName = Some (Binary (demo_exe ''2''))
     \<and> list_all (\<lambda>n. dFiles d' n \<noteq> Some (Binary (demo_exe ''1''))) [activeName, prevName, versionedPath ''1'', failedPath ''1'']"
  by code_simp

text \<open>When the marker of the probation cannot be written, the next start forgets the swap: there is no probation.\<close>

lemma unmarked_swap_has_no_probation:
  "let d = snd (run_state (Activate demo_updater ''2'' ''1'') (demo_disk (\<lambda>n. if n = 8 then Refused else Done)));
       d' = snd (run_state (OnServiceStart demo_updater ''2'') d) in
     dFiles d activeName = Some (Binary (demo_exe ''2'')) \<and> dFiles d' markerName = None"
  by code_simp

end
