(* ===== verification/TunnelConfigs.thy ===== *)
theory TunnelConfigs
  imports EnvVars Prog
begin

text \<open>
  \<^verbatim>\<open>tunnel/frp.go\<close>: the configuration of the tunnel client \<^verbatim>\<open>frpc\<close>. A Go \<^verbatim>\<open>int\<close> is an \<open>int\<close> read
  from 64 bits with its sign. Parsing of URLs and addresses, the proof of identity and the proxy
  of the environment are functions of the library record; the platform is not Windows.
\<close>

section \<open>Decimal numbers, executably\<close>

function itoa_pos :: "int \<Rightarrow> string" where
  "itoa_pos i = (if i < 10 then [digit_char (nat i)] else itoa_pos (i div 10) @ [digit_char (nat (i mod 10))])"
  by pat_completeness auto
termination
  by (relation "measure nat") auto

declare itoa_pos.simps [simp del]

lemma itoa_pos_itoa: "0 \<le> i \<Longrightarrow> itoa_pos i = itoa (nat i)"
proof (induction i rule: itoa_pos.induct)
  case (1 i)
  show ?case
  proof (cases "i < 10")
    case True
    then show ?thesis using 1 by (subst itoa_pos.simps, subst itoa.simps) simp
  next
    case False
    then have "itoa_pos (i div 10) = itoa (nat i div 10)" using 1 by (simp add: nat_div_distrib)
    with False show ?thesis using 1
      by (subst itoa_pos.simps, subst itoa.simps) (simp add: nat_mod_distrib)
  qed
qed

lemma itoa_int_code [code]: "itoa_int i = (if i < 0 then CHR ''-'' # itoa_pos (- i) else itoa_pos i)"
  by (simp add: itoa_int_def itoa_pos_itoa)

section \<open>Data\<close>

record TunnelConfig =
  tcSubdomain :: string
  tcAppName :: string
  tcProtocol :: string
  tcLocalPort :: uint64
  tcLocalIP :: string
  tcRemotePort :: uint64
  tcDeclaredPort :: uint64
  tcName :: string

record ProxyConfig =
  pxName :: string
  pxType :: string
  pxLocalIP :: string
  pxLocalPort :: int
  pxRemotePort :: int
  pxSubDomain :: string

record FrpcYamlConfig =
  yServerAddr :: string
  yServerPort :: int
  yTransportProtocol :: string
  yProxyURL :: string
  yMetadatas :: "string option" \<comment> \<open>\<^verbatim>\<open>tunnel_proof\<close>\<close>
  yWebServerPort :: int
  yLogTo :: string
  yLoginFailExit :: bool
  yProxies :: "ProxyConfig list"

record TunnelLib =
  tlHostname :: "string \<Rightarrow> string option" \<comment> \<open>host of a URL, \<open>None\<close> when it does not parse\<close>
  tlIsIP :: "string \<Rightarrow> bool"
  tlProof :: "string \<Rightarrow> string \<Rightarrow> string" \<comment> \<open>base64url of HMAC-SHA256\<close>
  tlProxy :: "string \<Rightarrow> string option" \<comment> \<open>the proxy of the environment for a host\<close>

section \<open>The server\<close>

definition PROD_SERVER_ADDR :: string where
  "PROD_SERVER_ADDR = ''app.ironflock.com''"

definition TEST_SERVER_ADDR :: string where
  "TEST_SERVER_ADDR = ''app.ironflock.dev''"

definition tunnelAuthProof :: "TunnelLib \<Rightarrow> string \<Rightarrow> uint64 \<Rightarrow> string" where
  "tunnelAuthProof lib secret deviceKey = tlProof lib secret (''tunnel-authz:v1:'' @ itoa (unat deviceKey))"

definition appHost :: "string \<Rightarrow> string" where
  "appHost hostname = (let parts = Split (CHR ''.'') hostname in
     if length parts \<ge> 2 then Join (CHR ''.'') (''app'' # tl parts) else hostname)"

definition serverAddrOf :: "TunnelLib \<Rightarrow> Config \<Rightarrow> string" where
  "serverAddrOf lib cfg =
     (if cApplianceDomain cfg \<noteq> [] then cApplianceDomain cfg
      else if cDeviceEndpointURL cfg \<noteq> [] then
        (case tlHostname lib (cDeviceEndpointURL cfg) of
           None \<Rightarrow> PROD_SERVER_ADDR
         | Some hostname \<Rightarrow>
             if hostname = [] then PROD_SERVER_ADDR
             else if hostname = ''localhost'' \<or> hostname = ''127.0.0.1'' then hostname
             else if hostname = ''host.docker.internal'' then hostname
             else if tlIsIP lib hostname then hostname
             else appHost hostname)
      else case cEnvironment cfg of
        PRODUCTION \<Rightarrow> PROD_SERVER_ADDR | TEST \<Rightarrow> TEST_SERVER_ADDR | LOCAL \<Rightarrow> ''localhost'' | _ \<Rightarrow> PROD_SERVER_ADDR)"

definition wssMode :: "Config \<Rightarrow> bool" where
  "wssMode cfg \<longleftrightarrow> cApplianceDomain cfg \<noteq> [] \<and> HasPrefix (cDeviceEndpointURL cfg) ''wss://''"

definition initialConfig :: "TunnelLib \<Rightarrow> Config \<Rightarrow> int \<Rightarrow> FrpcYamlConfig" where
  "initialConfig lib cfg port =
     (let serverAddr = serverAddrOf lib cfg in
      \<lparr>yServerAddr = serverAddr,
       yServerPort = (if serverAddr \<in> {''localhost'', ''127.0.0.1'', ''host.docker.internal''} then 7400
                      else if wssMode cfg then 443 else 7000),
       yTransportProtocol = (if wssMode cfg then ''wss'' else []),
       yProxyURL = (if wssMode cfg then (case tlProxy lib serverAddr of Some u \<Rightarrow> u | None \<Rightarrow> []) else []),
       yMetadatas = (if cSecret cfg \<noteq> [] \<and> cDeviceKey cfg > 0 then Some (tunnelAuthProof lib (cSecret cfg) (cDeviceKey cfg)) else None),
       yWebServerPort = port, yLogTo = ''/var/log/frpc.log'', yLoginFailExit = False, yProxies = []\<rparr>)"

section \<open>Proxies\<close>

definition isWeb :: "string \<Rightarrow> bool" where
  "isWeb protocol \<longleftrightarrow> protocol = ''http'' \<or> protocol = ''https''"

definition proxyOf :: "TunnelConfig \<Rightarrow> ProxyConfig" where
  "proxyOf conf = \<lparr>pxName = CreateTunnelID (tcSubdomain conf) (tcProtocol conf), pxType = tcProtocol conf,
     pxLocalIP = tcLocalIP conf, pxLocalPort = sint (tcLocalPort conf),
     pxRemotePort = (if isWeb (tcProtocol conf) then 0 else sint (tcRemotePort conf)),
     pxSubDomain = (if isWeb (tcProtocol conf) then tcSubdomain conf else [])\<rparr>"

text \<open>The loop of \<^verbatim>\<open>AddTunnelConfig\<close>: the proxies afterwards, and whether they are saved.\<close>

fun upsertProxy :: "ProxyConfig \<Rightarrow> ProxyConfig list \<Rightarrow> ProxyConfig list \<times> bool" where
  "upsertProxy new [] = ([new], True)"
| "upsertProxy new (proxy # rest) =
     (if pxName proxy \<noteq> pxName new then (let (ps, b) = upsertProxy new rest in (proxy # ps, b))
      else if pxLocalPort proxy = pxLocalPort new \<and> pxLocalIP proxy = pxLocalIP new then (proxy # rest, False)
      else ((if pxRemotePort new = 0 then new\<lparr>pxRemotePort := pxRemotePort proxy\<rparr> else new) # rest, True))"

definition RemoveTunnelVariable :: "string \<Rightarrow> ProxyConfig list \<Rightarrow> ProxyConfig list" where
  "RemoveTunnelVariable tunnelID proxies = filter (\<lambda>proxy. pxName proxy \<noteq> tunnelID) proxies"

text \<open>
  \<^verbatim>\<open>subdomainRegex\<close>, which is \<^verbatim>\<open>\d+-(.*)-(\d+)\<close> and not anchored: the leftmost match; the first
  group is greedy and crosses no line end.
\<close>

definition isDigit :: "char \<Rightarrow> bool" where
  "isDigit c \<longleftrightarrow> char_digit c \<noteq> None"

fun lastDash :: "string \<Rightarrow> (string \<times> string) option" where
  "lastDash [] = None"
| "lastDash (c # cs) = (case (if c = CHR 0x0A then None else lastDash cs) of
     Some (name, port) \<Rightarrow> Some (c # name, port)
   | None \<Rightarrow> if c = CHR ''-'' \<and> cs \<noteq> [] \<and> isDigit (hd cs) then Some ([], takeWhile isDigit cs) else None)"

definition matchHere :: "string \<Rightarrow> (string \<times> string) option" where
  "matchHere s = (case dropWhile isDigit s of
     c # t \<Rightarrow> if takeWhile isDigit s \<noteq> [] \<and> c = CHR ''-'' then lastDash t else None
   | [] \<Rightarrow> None)"

fun subdomainMatch :: "string \<Rightarrow> (string \<times> string) option" where
  "subdomainMatch [] = None"
| "subdomainMatch (c # cs) = (case matchHere (c # cs) of Some m \<Rightarrow> Some m | None \<Rightarrow> subdomainMatch cs)"

definition configOf :: "ProxyConfig \<Rightarrow> TunnelConfig" where
  "configOf proxy =
     (let subdomain = (if pxSubDomain proxy = [] then TrimSuffix (pxName proxy) (CHR ''-'' # pxType proxy) else pxSubDomain proxy);
          found = subdomainMatch subdomain in
      \<lparr>tcSubdomain = subdomain, tcAppName = (case found of Some (name, _) \<Rightarrow> name | None \<Rightarrow> []),
       tcProtocol = pxType proxy, tcLocalPort = word_of_int (pxLocalPort proxy), tcLocalIP = pxLocalIP proxy,
       tcRemotePort = word_of_int (pxRemotePort proxy),
       tcDeclaredPort = (case found of
          Some (_, port) \<Rightarrow> (case ParseUint 64 port of Some n \<Rightarrow> of_nat n | None \<Rightarrow> word_of_int (pxLocalPort proxy))
        | None \<Rightarrow> word_of_int (pxLocalPort proxy)),
       tcName = pxName proxy\<rparr>)"

definition GetTunnelConfig :: "FrpcYamlConfig \<Rightarrow> TunnelConfig list" where
  "GetTunnelConfig yaml = map configOf (yProxies yaml)"

section \<open>Proxies as a map\<close>

text \<open>
  The specification: a finite map from tunnel ids to proxies. Adding a tunnel overrides what was
  there, unless it already leads to the same local address; a remote port that was granted stays
  when the new configuration has none. The list the code keeps stays free of duplicates, and
  keeps its order.
\<close>

definition proxyMap :: "ProxyConfig list \<Rightarrow> string \<rightharpoonup> ProxyConfig" where
  "proxyMap ps = map_of (map (\<lambda>p. (pxName p, p)) ps)"

definition names_ok :: "ProxyConfig list \<Rightarrow> bool" where
  "names_ok ps \<longleftrightarrow> distinct (map pxName ps)"

definition mergeProxy :: "ProxyConfig \<Rightarrow> ProxyConfig option \<Rightarrow> ProxyConfig" where
  "mergeProxy new old = (case old of
     None \<Rightarrow> new
   | Some proxy \<Rightarrow>
       if pxLocalPort proxy = pxLocalPort new \<and> pxLocalIP proxy = pxLocalIP new then proxy
       else if pxRemotePort new = 0 then new\<lparr>pxRemotePort := pxRemotePort proxy\<rparr> else new)"

lemma proxyMap_simps [simp]:
  "proxyMap [] = Map.empty" "proxyMap (p # ps) = (proxyMap ps)(pxName p \<mapsto> p)"
  by (simp_all add: proxyMap_def)

lemma proxyMap_None [simp]: "proxyMap ps n = None \<longleftrightarrow> n \<notin> pxName ` set ps"
  by (induction ps) auto

lemma upsertProxy_map:
  "proxyMap (fst (upsertProxy new ps)) = (proxyMap ps)(pxName new \<mapsto> mergeProxy new (proxyMap ps (pxName new)))"
proof (induction ps)
  case Nil
  then show ?case by (simp add: mergeProxy_def)
next
  case (Cons a ps)
  show ?case
  proof (cases "pxName a = pxName new")
    case True
    then show ?thesis by (auto simp: mergeProxy_def fun_eq_iff)
  next
    case False
    then have "fst (upsertProxy new (a # ps)) = a # fst (upsertProxy new ps)" by (simp add: Let_def split: prod.split)
    with False Cons.IH show ?thesis by (auto simp: fun_eq_iff)
  qed
qed

lemma upsertProxy_names:
  "map pxName (fst (upsertProxy new ps)) = (if pxName new \<in> set (map pxName ps) then map pxName ps else map pxName ps @ [pxName new])"
  by (induction ps) (auto simp: Let_def split: prod.split)

lemma upsertProxy_unchanged: "\<not> snd (upsertProxy new ps) \<Longrightarrow> fst (upsertProxy new ps) = ps"
  by (induction ps) (auto simp: Let_def split: prod.splits if_splits)

lemma RemoveTunnelVariable_map: "proxyMap (RemoveTunnelVariable n ps) = (proxyMap ps)(n := None)"
  by (induction ps) (auto simp: RemoveTunnelVariable_def fun_eq_iff)

lemma names_ok_upsert: "names_ok ps \<Longrightarrow> names_ok (fst (upsertProxy new ps))"
  by (simp add: names_ok_def upsertProxy_names)

lemma names_ok_remove: "names_ok ps \<Longrightarrow> names_ok (RemoveTunnelVariable n ps)"
  by (simp add: names_ok_def RemoveTunnelVariable_def distinct_map_filter)

section \<open>Reading a configuration back\<close>

lemma isDigit_itoa: "c \<in> set (itoa n) \<Longrightarrow> isDigit c"
  using itoa_chars [of c n] by (simp add: isDigit_def char_digit_def)

lemma isDigit_dash [simp]: "\<not> isDigit (CHR ''-'')"
  by (simp add: isDigit_def char_digit_def)

lemma lastDash_digits: "\<forall>c\<in>set d. isDigit c \<Longrightarrow> lastDash d = None"
  by (induction d) auto

lemma lastDash_found:
  "CHR 0x0A \<notin> set name \<Longrightarrow> d \<noteq> [] \<Longrightarrow> \<forall>c\<in>set d. isDigit c \<Longrightarrow> lastDash (name @ CHR ''-'' # d) = Some (name, d)"
  by (induction name) (auto simp: lastDash_digits takeWhile_eq_all_conv)

lemma subdomainMatch_skip: "\<not> isDigit c \<Longrightarrow> subdomainMatch (c # cs) = subdomainMatch cs"
  by (simp add: matchHere_def)

lemma itoa_nonempty: "itoa n \<noteq> []"
  by (subst itoa.simps) simp

lemma subdomainMatch_base:
  assumes "CHR 0x0A \<notin> set name"
  shows "subdomainMatch (itoa k @ CHR ''-'' # name @ CHR ''-'' # itoa n) = Some (name, itoa n)"
proof -
  have "lastDash (name @ CHR ''-'' # itoa n) = Some (name, itoa n)"
    using assms itoa_nonempty isDigit_itoa by (intro lastDash_found) auto
  then have "matchHere (itoa k @ CHR ''-'' # name @ CHR ''-'' # itoa n) = Some (name, itoa n)"
    using itoa_nonempty [of k] isDigit_itoa [of _ k] by (simp add: matchHere_def dropWhile_append takeWhile_append)
  then show ?thesis using itoa_nonempty [of k] by (cases "itoa k") (auto simp del: subdomainMatch.simps(2) simp: subdomainMatch.simps(2))
qed

lemma newline_ToLower: "CHR 0x0A \<in> set (ToLower s) \<Longrightarrow> CHR 0x0A \<in> set s"
proof -
  have "toLowerChar c \<noteq> CHR 0x0A" if "c \<noteq> CHR 0x0A" for c
    using that by (auto simp: toLowerChar_def Let_def dest: arg_cong [where f = "of_char :: char \<Rightarrow> nat"])
  then show "CHR 0x0A \<in> set (ToLower s) \<Longrightarrow> CHR 0x0A \<in> set s" by (force simp: ToLower_def)
qed

lemma subdomainMatch_CreateSubdomain:
  assumes "CHR 0x0A \<notin> set name"
  shows "subdomainMatch (CreateSubdomain protocol key name port) = Some (ToLower name, itoa (unat port))"
proof -
  have dash: "toLowerChar (CHR ''-'') = CHR ''-''" by code_simp
  have base: "ToLower (itoa (unat key) @ ''-'' @ name @ ''-'' @ itoa (unat port))
      = itoa (unat key) @ CHR ''-'' # ToLower name @ CHR ''-'' # itoa (unat port)"
    using ToLower_itoa by (simp add: ToLower_def dash)
  have "subdomainMatch (itoa (unat key) @ CHR ''-'' # ToLower name @ CHR ''-'' # itoa (unat port)) = Some (ToLower name, itoa (unat port))"
    using assms newline_ToLower by (intro subdomainMatch_base) blast
  then show ?thesis
    unfolding CreateSubdomain_def base
    by (simp add: Let_def subdomainMatch_skip isDigit_def char_digit_def del: subdomainMatch.simps)
qed

lemma HasPrefix_append: "HasPrefix (xs @ ys) xs"
  by (induction xs) simp_all

lemma TrimSuffix_append: "TrimSuffix (xs @ ys) ys = xs"
  using HasPrefix_append [of "rev ys" "rev xs"] by (simp add: TrimSuffix_def)

lemma configOf_proxyOf:
  assumes "tcSubdomain conf = CreateSubdomain (tcProtocol conf) key name port" and "CHR 0x0A \<notin> set name"
  shows "configOf (proxyOf conf) = conf\<lparr>tcAppName := ToLower name, tcDeclaredPort := port,
     tcName := CreateTunnelID (tcSubdomain conf) (tcProtocol conf),
     tcRemotePort := (if isWeb (tcProtocol conf) then 0 else tcRemotePort conf)\<rparr>"
proof -
  have "TrimSuffix (CreateTunnelID s p) (CHR ''-'' # p) = s" for s p
    using TrimSuffix_append [of s "CHR ''-'' # p"] by (simp add: CreateTunnelID_def)
  moreover have "CreateSubdomain p k n q \<noteq> []" for p k n q
    using itoa_nonempty by (simp add: CreateSubdomain_def Let_def)
  ultimately show ?thesis
    using assms by (simp add: configOf_def proxyOf_def subdomainMatch_CreateSubdomain Let_def)
qed

text \<open>
  A tunnel whose subdomain is made from the device, the app and its declared port is read back
  from the configuration as it was added, when its id is new: with the app's name in lower case
  and the declared port recovered from the subdomain, for every protocol, and once.
\<close>

theorem tunnel_config_roundtrip:
  fixes conf :: TunnelConfig and y :: FrpcYamlConfig
  defines "id' \<equiv> CreateTunnelID (tcSubdomain conf) (tcProtocol conf)"
  assumes "tcSubdomain conf = CreateSubdomain (tcProtocol conf) key name port" and "CHR 0x0A \<notin> set name"
    and "id' \<notin> set (map pxName (yProxies y))"
  shows "filter (\<lambda>c. tcName c = id') (GetTunnelConfig (y\<lparr>yProxies := fst (upsertProxy (proxyOf conf) (yProxies y))\<rparr>)) =
    [conf\<lparr>tcAppName := ToLower name, tcDeclaredPort := port, tcName := id',
       tcRemotePort := (if isWeb (tcProtocol conf) then 0 else tcRemotePort conf)\<rparr>]"
proof -
  have new: "pxName (proxyOf conf) = id'" by (simp add: proxyOf_def id'_def)
  have "fst (upsertProxy p ps) = ps @ [p]" if "pxName p \<notin> set (map pxName ps)" for p ps
    using that by (induction ps) (auto simp: Let_def split: prod.split)
  then have app: "fst (upsertProxy (proxyOf conf) (yProxies y)) = yProxies y @ [proxyOf conf]"
    using assms(4) new by simp
  have "tcName (configOf q) = pxName q" for q by (simp add: configOf_def Let_def)
  then have "filter (\<lambda>c. tcName c = id') (map configOf (yProxies y)) = []"
    using assms(4) by (auto simp: filter_empty_conv)
  then show ?thesis
    using configOf_proxyOf [OF assms(2,3)] by (simp add: GetTunnelConfig_def app id'_def)
qed

definition demo_tunnel :: "string \<Rightarrow> uint64 \<Rightarrow> TunnelConfig" where
  "demo_tunnel protocol port = \<lparr>tcSubdomain = CreateSubdomain protocol 7 ''Cam-2'' port, tcAppName = ''Cam-2'', tcProtocol = protocol,
     tcLocalPort = 40, tcLocalIP = ''127.0.0.1'', tcRemotePort = 31, tcDeclaredPort = port, tcName = []\<rparr>"

definition demo_tlib :: TunnelLib where
  "demo_tlib = \<lparr>tlHostname = (\<lambda>_. None), tlIsIP = (\<lambda>_. False), tlProof = (\<lambda>k m. k @ m), tlProxy = (\<lambda>_. None)\<rparr>"

theorem tunnel_config_roundtrip_witness:
  "let y = initialConfig demo_tlib demo_config 7411 in
     map (\<lambda>c. (tcAppName c, tcDeclaredPort c, tcRemotePort c))
       (GetTunnelConfig (y\<lparr>yProxies := fst (upsertProxy (proxyOf (demo_tunnel ''tcp'' 80)) (yProxies y))\<rparr>)) = [(''cam-2'', 80, 31)]"
proof -
  let ?y = "initialConfig demo_tlib demo_config 7411" and ?c = "demo_tunnel ''tcp'' 80"
  let ?id = "CreateTunnelID (tcSubdomain ?c) (tcProtocol ?c)"
  have "yProxies ?y = []" by (simp add: initialConfig_def Let_def)
  moreover from this have "filter (\<lambda>c. tcName c = ?id) (GetTunnelConfig (?y\<lparr>yProxies := fst (upsertProxy (proxyOf ?c) (yProxies ?y))\<rparr>))
      = GetTunnelConfig (?y\<lparr>yProxies := fst (upsertProxy (proxyOf ?c) (yProxies ?y))\<rparr>)"
    by (simp add: GetTunnelConfig_def configOf_def proxyOf_def Let_def)
  moreover have "ToLower ''Cam-2'' = ''cam-2''" by code_simp
  moreover have "\<not> isWeb ''tcp''" by code_simp
  ultimately show ?thesis
    using tunnel_config_roundtrip [of ?c 7 "''Cam-2''" 80 ?y] by (simp add: demo_tunnel_def)
qed

end
