(* ===== verification/Tunnels.thy ===== *)
theory Tunnels
  imports TunnelConfigs "HOL-Library.List_Lexorder" "HOL-Library.Char_ord" "HOL-Library.Multiset"
begin

text \<open>
  \<^verbatim>\<open>tunnel/tunnel.go\<close>: the manager of the tunnel client. Its state is a record of its own: the
  configuration in memory and in \<^verbatim>\<open>frpc.yaml\<close>, the active tunnels, what is known about the client
  process and about the capability of the device. Calls of the outside are recorded and answered
  as the app manager's are. Whether the client announces a login, ends, or stays silent until the
  deadline is an answer of the outside; a line the client writes and its end are operations.
  Goroutines that are started and not waited for are pending tasks.
\<close>

section \<open>State\<close>

datatype TunnelCapability = CapabilityUnknown | CapabilityStarting | CapabilityAvailable | CapabilityUnavailable

datatype tunnel_task = PublishTask | SuperviseTask | MonitorCapability | MonitorTunnelState string

record Tunnel =
  tError :: string
  tConfig :: TunnelConfig

record FrpTunnelManager =
  fYaml :: FrpcYamlConfig
  fFile :: "FrpcYamlConfig option" \<comment> \<open>what \<^verbatim>\<open>frpc.yaml\<close> holds, \<open>None\<close> when it cannot be read\<close>
  fActive :: "(string \<times> Tunnel) list"
  fClient :: bool \<comment> \<open>a client process is tracked\<close>
  fClientAlive :: bool
  fMonitors :: bool
  fSupervising :: bool
  fLoggedIn :: bool
  fCapability :: TunnelCapability
  fLastErr :: string
  fReacquire :: bool
  fConfig :: Config
  fLib :: TunnelLib
  fTasks :: "tunnel_task list"
  fTrace :: "ext_call list"
  fExt :: "ext_call list \<Rightarrow> ext_call \<Rightarrow> reply"

type_synonym 'a tprog = "(FrpTunnelManager, 'a) state"

definition call :: "string \<Rightarrow> string list \<Rightarrow> reply tprog" where
  "call name args = do {
     f \<leftarrow> State_Monad.get;
     _ \<leftarrow> State_Monad.set (f\<lparr>fTrace := fTrace f @ [Ext name args]\<rparr>);
     ret (fExt f (fTrace f) (Ext name args)) }"

definition callE :: "string \<Rightarrow> string list \<Rightarrow> err tprog" where
  "callE name args = do { r \<leftarrow> call name args; ret (rpErr r) }"

definition start :: "tunnel_task \<Rightarrow> unit tprog" where
  "start t = modify (\<lambda>f. f\<lparr>fTasks := fTasks f @ [t]\<rparr>)"

section \<open>The configuration file\<close>

definition SaveConfig :: "err tprog" where
  "SaveConfig = do {
     e \<leftarrow> callE ''os.WriteFile'' [''frpc.yaml''];
     ignore (modify (\<lambda>f. f\<lparr>fFile := (if e = None then Some (fYaml f) else None)\<rparr>)) }"

definition adminPortScanStart :: int where
  "adminPortScanStart = 7411"

definition pickAdminPort :: "int tprog" where
  "pickAdminPort = do {
     scan \<leftarrow> call ''GetFreePortFromStart'' [itoa_int adminPortScanStart];
     if rpErr scan = None then ret (rpNum scan)
     else do {
       random \<leftarrow> call ''GetRandomFreePort'' [];
       ret (if rpErr random = None then rpNum random else adminPortScanStart) } }"

definition SetAdminPort :: "err tprog" where
  "SetAdminPort = do {
     port \<leftarrow> pickAdminPort;
     _ \<leftarrow> modify (\<lambda>f. f\<lparr>fYaml := (fYaml f)\<lparr>yWebServerPort := port\<rparr>\<rparr>);
     SaveConfig }"

definition setProxies :: "ProxyConfig list \<Rightarrow> unit tprog" where
  "setProxies ps = modify (\<lambda>f. f\<lparr>fYaml := (fYaml f)\<lparr>yProxies := ps\<rparr>\<rparr>)"

definition AddTunnelConfig :: "TunnelConfig \<Rightarrow> err tprog" where
  "AddTunnelConfig conf = do {
     proxies \<leftarrow> gets (\<lambda>f. yProxies (fYaml f));
     let (ps, save) = upsertProxy (proxyOf conf) proxies;
     _ \<leftarrow> setProxies ps;
     if save then SaveConfig else ret None }"

definition RemoveTunnelConfig :: "TunnelConfig \<Rightarrow> err tprog" where
  "RemoveTunnelConfig conf = do {
     proxies \<leftarrow> gets (\<lambda>f. yProxies (fYaml f));
     _ \<leftarrow> setProxies (RemoveTunnelVariable (CreateTunnelID (tcSubdomain conf) (tcProtocol conf)) proxies);
     SaveConfig }"

definition initialize :: "err tprog" where
  "initialize = do {
     port \<leftarrow> pickAdminPort;
     _ \<leftarrow> modify (\<lambda>f. f\<lparr>fYaml := initialConfig (fLib f) (fConfig f) port\<rparr>);
     SaveConfig }"

section \<open>Capability\<close>

definition setCapability :: "TunnelCapability \<Rightarrow> err \<Rightarrow> err tprog" where
  "setCapability c e = do {
     prev \<leftarrow> gets fCapability;
     _ \<leftarrow> modify (\<lambda>f. f\<lparr>fCapability := c, fLastErr := (case e of Some x \<Rightarrow> Error x
                          | None \<Rightarrow> if c = CapabilityAvailable then [] else fLastErr f)\<rparr>);
     if prev \<noteq> c \<and> (c = CapabilityAvailable \<or> c = CapabilityUnavailable) then ignore (start PublishTask) else ret None }"

definition TunnelCapable :: "FrpTunnelManager \<Rightarrow> bool" where
  "TunnelCapable f \<longleftrightarrow> fCapability f \<noteq> CapabilityUnavailable"

definition MarkUnavailable :: "string \<Rightarrow> err tprog" where
  "MarkUnavailable reason = setCapability CapabilityUnavailable (Some (Msg reason))"

definition frpsReachable :: "err tprog" where
  "frpsReachable = do {
     yaml \<leftarrow> gets fYaml;
     e \<leftarrow> callE ''net.DialTimeout'' [yServerAddr yaml, itoa_int (yServerPort yaml)];
     if e \<noteq> None then ret e else callE ''conn.Close'' [] }"

definition probeCapability :: "err tprog" where
  "probeCapability = do {
     alive \<leftarrow> gets fClientAlive;
     if \<not> alive then ret None
     else do {
       e \<leftarrow> frpsReachable;
       case e of
         Some x \<Rightarrow> setCapability CapabilityUnavailable (Some (Wrap ''frps unreachable'' x))
       | None \<Rightarrow> setCapability CapabilityAvailable None } }"

definition IsNotExist :: "go_error \<Rightarrow> bool" where
  "IsNotExist e \<longleftrightarrow> e = Msg ''file does not exist''"

definition ensureFrpcBinary :: "err tprog" where
  "ensureFrpcBinary = do {
     e \<leftarrow> callE ''os.Stat'' [''frpc''];
     case e of
       None \<Rightarrow> ret None
     | Some x \<Rightarrow>
         if \<not> IsNotExist x then ret (Some x)
         else do {
           wired \<leftarrow> gets fReacquire;
           if \<not> wired then ret (Some (Msg ''frpc binary missing and no re-acquire available''))
           else do {
             re \<leftarrow> callE ''reacquireFrpc'' [];
             ret (map_option (Wrap ''frpc binary missing and re-acquire failed'') re) } } }"

section \<open>The client process\<close>

definition stopClientLocked :: "err tprog" where
  "stopClientLocked = do {
     client \<leftarrow> gets fClient;
     _ \<leftarrow> (if client then ignore (call ''Process.Kill'' []) else ret None);
     ignore (modify (\<lambda>f. f\<lparr>fClient := False\<rparr>)) }"

text \<open>
  The end of the client, and what it answers until the deadline: the acknowledgement of a login or
  of a failure, or nothing. It may have ended either way: its end is acknowledged as a failure,
  but an acknowledgement that is ready together with the deadline need not be the one chosen.
\<close>

definition clientExit :: "err tprog" where
  "clientExit = ignore (modify (\<lambda>f. f\<lparr>fClientAlive := False\<rparr>))"

definition awaitAck :: "err tprog" where
  "awaitAck = do {
     r \<leftarrow> call ''frpc ack'' [];
     _ \<leftarrow> (if rpStr r = ''exited'' then clientExit else ret None);
     if rpFlag r then
       (case rpErr r of
          Some x \<Rightarrow> do { _ \<leftarrow> setCapability CapabilityUnavailable (Some x); ret (Some x) }
        | None \<Rightarrow> setCapability CapabilityAvailable None)
     else probeCapability }"

definition startMonitors :: "err tprog" where
  "startMonitors = do {
     running \<leftarrow> gets fMonitors;
     if running then ret None
     else do {
       _ \<leftarrow> start MonitorCapability;
       _ \<leftarrow> start (MonitorTunnelState []);
       ignore (modify (\<lambda>f. f\<lparr>fMonitors := True\<rparr>)) } }"

definition failStart :: "go_error \<Rightarrow> err tprog" where
  "failStart x = do { _ \<leftarrow> setCapability CapabilityUnavailable (Some x); ret (Some x) }"

definition spawnClient :: "err tprog" where
  "spawnClient = do {
     pipe \<leftarrow> callE ''frpc StdoutPipe'' [];
     case pipe of Some x \<Rightarrow> failStart x
     | None \<Rightarrow> do {
         started \<leftarrow> callE ''frpc Start'' [''-c'', ''frpc.yaml''];
         case started of Some x \<Rightarrow> failStart x
         | None \<Rightarrow> do {
             _ \<leftarrow> modify (\<lambda>f. f\<lparr>fClient := True, fClientAlive := True\<rparr>);
             _ \<leftarrow> startMonitors;
             awaitAck } } }"

definition Start :: "err tprog" where
  "Start = do {
     _ \<leftarrow> stopClientLocked;
     _ \<leftarrow> modify (\<lambda>f. f\<lparr>fLoggedIn := False\<rparr>);
     binary \<leftarrow> ensureFrpcBinary;
     case binary of Some x \<Rightarrow> failStart x
     | None \<Rightarrow> do {
         _ \<leftarrow> setCapability CapabilityStarting None;
         spawnClient } }"

definition maxAttempts :: nat where
  "maxAttempts = 6"

text \<open>The attempts that are left; \<open>None\<close> when one of them started the client.\<close>

fun superviseLoop :: "nat \<Rightarrow> int \<Rightarrow> err tprog" where
  "superviseLoop 0 backoff = setCapability CapabilityUnavailable (Some (Msg ''tunnel client failed to start after repeated attempts''))"
| "superviseLoop (Suc n) backoff = do {
     e \<leftarrow> Start;
     if e = None then ret None
     else if n > 0 then do {
       _ \<leftarrow> SetAdminPort;
       _ \<leftarrow> call ''time.Sleep'' [itoa_int backoff];
       superviseLoop n (if backoff < 32 then 2 * backoff else backoff) }
     else superviseLoop n backoff }"

definition SuperviseStart :: "err tprog" where
  "SuperviseStart = do {
     busy \<leftarrow> gets fSupervising;
     if busy then ret None
     else do {
       _ \<leftarrow> modify (\<lambda>f. f\<lparr>fSupervising := True\<rparr>);
       _ \<leftarrow> superviseLoop maxAttempts 2;
       ignore (modify (\<lambda>f. f\<lparr>fSupervising := False\<rparr>)) } }"

definition Stop :: "err tprog" where
  "Stop = stopClientLocked"

definition Reload :: "err tprog" where
  "Reload = do {
     r \<leftarrow> call ''frpc reload'' [''-c'', ''frpc.yaml''];
     case rpErr r of
       None \<Rightarrow> ret None
     | Some x \<Rightarrow> do {
         _ \<leftarrow> (if Contains (rpStr r) ''connect: connection refused'' \<or> Contains (rpStr r) ''api status code''
              then ignore (start SuperviseTask) else ret None);
         ret (Some x) } }"

definition Reset :: "err tprog" where
  "Reset = do { _ \<leftarrow> initialize; Reload }"

section \<open>Tunnels\<close>

definition reserveRemotePort :: "uint64 \<Rightarrow> string \<Rightarrow> (go_error + uint64) tprog" where
  "reserveRemotePort port protocol = do {
     r \<leftarrow> call ''Messenger.Call ExposePort'' [itoa (unat port), protocol];
     ret (case rpErr r of
       Some x \<Rightarrow> if Contains (Error x) ''Duplicate value'' then Inr port else Inl x
     | None \<Rightarrow> (case rpJson r of
         JArr (payload # _) \<Rightarrow> (case payload of
           JObj m \<Rightarrow> (case obj_get payload ''remote_port'' of
             JNum n \<Rightarrow> if 0 \<le> n \<and> n < 2 ^ 64 then Inr (word_of_int n) else Inl (Msg ''failed to parse port'')
           | _ \<Rightarrow> Inl (Msg ''failed to parse port''))
         | _ \<Rightarrow> Inl (Msg ''failed to parse payload''))
       | _ \<Rightarrow> Inl (Msg ''arguments is empty''))) }"

definition registerTunnel :: "TunnelConfig \<Rightarrow> (go_error + TunnelConfig) tprog" where
  "registerTunnel config = do {
     let tunnelId = CreateTunnelID (tcSubdomain config) (tcProtocol config);
     active \<leftarrow> gets fActive;
     if map_of active tunnelId = None then do {
       _ \<leftarrow> modify (\<lambda>f. f\<lparr>fActive := map_put tunnelId \<lparr>tError = [], tConfig = config\<rparr> (fActive f)\<rparr>);
       ret (Inr config) }
     else ret (Inl (Msg ''tunnel already exists'')) }"

definition AddTunnel :: "TunnelConfig \<Rightarrow> (go_error + TunnelConfig) tprog" where
  "AddTunnel config0 = do {
     reserved \<leftarrow> (if isWeb (tcProtocol config0) then ret (Inr (tcRemotePort config0))
                  else reserveRemotePort (tcRemotePort config0) (tcProtocol config0));
     case reserved of
       Inl x \<Rightarrow> ret (Inl x)
     | Inr remotePort \<Rightarrow> do {
         let config = config0\<lparr>tcRemotePort := remotePort\<rparr>;
         _ \<leftarrow> AddTunnelConfig config;
         e \<leftarrow> Reload;
         case e of
           Some x \<Rightarrow> do { _ \<leftarrow> RemoveTunnelConfig config; ret (Inl x) }
         | None \<Rightarrow> registerTunnel config } }"

definition RemoveTunnel :: "TunnelConfig \<Rightarrow> err tprog" where
  "RemoveTunnel conf = do {
     _ \<leftarrow> modify (\<lambda>f. f\<lparr>fActive := map_del (CreateTunnelID (tcSubdomain conf) (tcProtocol conf)) (fActive f)\<rparr>);
     _ \<leftarrow> RemoveTunnelConfig conf;
     Reload }"

definition GetTunnel :: "string \<Rightarrow> Tunnel option tprog" where
  "GetTunnel tunnelID = gets (\<lambda>f. map_of (fActive f) tunnelID)"

definition SaveRemotePorts :: "TransitionPayload \<Rightarrow> err tprog" where
  "SaveRemotePorts payload = do {
     config \<leftarrow> gets fConfig;
     callE ''Messenger.Call SetActualAppOnDeviceState''
       [itoa (unat (pAppKey payload)), itoa (unat (cDeviceKey config)), itoa (unat (cSwarmKey config)), Stage_string (pStage payload)] }"

section \<open>The state of the tunnels\<close>

record FrpStatus =
  frName :: string
  frType :: string
  frStatus :: string
  frErr :: string
  frLocalAddr :: string
  frPlugin :: string
  frRemoteAddr :: string

record TunnelStatus =
  tsName :: string
  tsStatus :: string
  tsLocalAddr :: string
  tsPlugin :: string
  tsRemoteAddr :: string
  tsRemotePort :: uint64
  tsError :: string
  tsProtocol :: string

record TunnelState =
  stStatus :: TunnelStatus
  stAppName :: string
  stPort :: uint64
  stActive :: bool
  stError :: bool
  stErrorMessage :: string
  stURL :: string

definition decodeStatus :: "json \<Rightarrow> FrpStatus option" where
  "decodeStatus j = (case j of
     JObj _ \<Rightarrow>
       Option.bind (field_string j ''name'') (\<lambda>name.
       Option.bind (field_string j ''type'') (\<lambda>type.
       Option.bind (field_string j ''status'') (\<lambda>status.
       Option.bind (field_string j ''err'') (\<lambda>err.
       Option.bind (field_string j ''local_addr'') (\<lambda>local.
       Option.bind (field_string j ''plugin'') (\<lambda>plugin.
       Option.bind (field_string j ''remote_addr'') (\<lambda>remote.
         Some \<lparr>frName = name, frType = type, frStatus = status, frErr = err, frLocalAddr = local,
               frPlugin = plugin, frRemoteAddr = remote\<rparr>)))))))
   | JNull \<Rightarrow> Some \<lparr>frName = [], frType = [], frStatus = [], frErr = [], frLocalAddr = [], frPlugin = [], frRemoteAddr = []\<rparr>
   | _ \<Rightarrow> None)"

text \<open>The answer of the client's API: lists of statuses by type, flattened in the order the map is iterated in.\<close>

definition decodeStatuses :: "json \<Rightarrow> FrpStatus list option" where
  "decodeStatuses j = (case j of
     JNull \<Rightarrow> Some []
   | JObj m \<Rightarrow> map_option concat (those (map (\<lambda>(_, v). case v of
       JArr xs \<Rightarrow> those (map decodeStatus xs) | JNull \<Rightarrow> Some [] | _ \<Rightarrow> None) m))
   | _ \<Rightarrow> None)"

definition convertStatus :: "FrpStatus \<Rightarrow> TunnelStatus option" where
  "convertStatus r =
     (let status = \<lparr>tsName = frName r, tsStatus = frStatus r, tsLocalAddr = frLocalAddr r, tsPlugin = frPlugin r,
            tsRemoteAddr = frRemoteAddr r, tsRemotePort = 0, tsError = frErr r, tsProtocol = frType r\<rparr>;
          parts = Split (CHR '':'') (frRemoteAddr r) in
      if frRemoteAddr r = [] \<or> length parts \<le> 1 then Some status
      else case Atoi (parts ! 1) of
        None \<Rightarrow> None
      | Some port \<Rightarrow> Some (status\<lparr>tsRemotePort := word_of_int port\<rparr>))"

definition parseProxyStatus :: "json option \<Rightarrow> (go_error + TunnelStatus list)" where
  "parseProxyStatus body = (case Option.bind body decodeStatuses of
     None \<Rightarrow> Inl (Msg ''cannot decode'')
   | Some rs \<Rightarrow> (case those (map convertStatus rs) of None \<Rightarrow> Inl (Msg ''strconv.ParseInt'') | Some ts \<Rightarrow> Inr ts))"

definition AllStatus :: "(go_error + TunnelStatus list) tprog" where
  "AllStatus = do {
     capability \<leftarrow> gets fCapability;
     if capability \<noteq> CapabilityAvailable then ret (Inr [])
     else do {
       adminPort \<leftarrow> gets (\<lambda>f. yWebServerPort (fYaml f));
       resp \<leftarrow> call ''http.Get'' [''http://127.0.0.1:'' @ itoa_int adminPort @ ''/api/status''];
       case rpErr resp of
         Some x \<Rightarrow> do {
           _ \<leftarrow> (if Contains (Error x) ''connection refused'' then ignore (start SuperviseTask) else ret None);
           ret (Inr []) }
       | None \<Rightarrow>
           if rpNum resp \<noteq> 200 then ret (Inl (Msg (''API returned status code: '' @ itoa_int (rpNum resp))))
           else ret (parseProxyStatus (if rpFlag resp then Some (rpJson resp) else None)) } }"

definition buildURL :: "string \<Rightarrow> string \<Rightarrow> string \<Rightarrow> uint64 \<Rightarrow> string" where
  "buildURL base protocol subdomain remotePort =
     (if remotePort \<noteq> 0 \<and> \<not> isWeb protocol
      then protocol @ ''://'' @ subdomain @ ''.'' @ base @ '':'' @ itoa (unat remotePort)
      else (if protocol = ''http'' then ''https'' else protocol) @ ''://'' @ subdomain @ ''.'' @ base)"

definition tunnelIDOf :: "TunnelConfig \<Rightarrow> string" where
  "tunnelIDOf config = (if tcName config = [] then CreateTunnelID (tcSubdomain config) (tcProtocol config) else tcName config)"

definition stateOf :: "string \<Rightarrow> TunnelConfig \<Rightarrow> TunnelStatus \<Rightarrow> TunnelState" where
  "stateOf base config status =
     \<lparr>stStatus = status, stAppName = tcAppName config, stPort = tcDeclaredPort config, stActive = (tsStatus status = ''running''),
      stError = (tsError status \<noteq> []), stErrorMessage = tsError status,
      stURL = buildURL base (tcProtocol config) (tcSubdomain config) (tsRemotePort status)\<rparr>"

definition GetState :: "(go_error + TunnelState list) tprog" where
  "GetState = do {
     configs \<leftarrow> gets (\<lambda>f. GetTunnelConfig (fYaml f));
     base \<leftarrow> gets (\<lambda>f. yServerAddr (fYaml f));
     r \<leftarrow> AllStatus;
     ret (case r of
       Inl x \<Rightarrow> Inl x
     | Inr statuses \<Rightarrow> Inr (concat (map (\<lambda>config. map (stateOf base config)
         (filter (\<lambda>status. tunnelIDOf config = tsName status) statuses)) configs))) }"

definition GetStateById :: "string \<Rightarrow> (go_error + TunnelState) tprog" where
  "GetStateById tunnelID = do {
     r \<leftarrow> GetState;
     ret (case r of
       Inl x \<Rightarrow> Inl x
     | Inr states \<Rightarrow> (case find (\<lambda>st. tsName (stStatus st) = tunnelID) states of Some st \<Rightarrow> Inr st | None \<Rightarrow> Inl (Msg ''not found''))) }"

definition Status :: "string \<Rightarrow> (go_error + TunnelStatus) tprog" where
  "Status tunnelID = do {
     r \<leftarrow> AllStatus;
     ret (case r of
       Inl x \<Rightarrow> Inl x
     | Inr statuses \<Rightarrow> (case find (\<lambda>status. tsName status = tunnelID) statuses of Some s \<Rightarrow> Inr s | None \<Rightarrow> Inl (Msg ''not found''))) }"

definition PublishTunnelState :: "err tprog" where
  "PublishTunnelState = do {
     r \<leftarrow> GetState;
     case r of Inl x \<Rightarrow> ret (Some x) | Inr states \<Rightarrow> callE ''Messenger.Publish'' (map stURL states) }"

definition fingerprintOf :: "TunnelState \<Rightarrow> string" where
  "fingerprintOf st = tsName (stStatus st) @ ''|'' @ tsStatus (stStatus st) @ ''|'' @ itoa (unat (tsRemotePort (stStatus st))) @ ''|''
     @ (if stActive st then ''true'' else ''false'') @ ''|'' @ (if stError st then ''true'' else ''false'') @ ''|''
     @ stErrorMessage st @ ''|'' @ stURL st"

definition tunnelStateFingerprint :: "TunnelState list \<Rightarrow> string" where
  "tunnelStateFingerprint states = Join (CHR '';'') (sort (map fingerprintOf states))"

text \<open>One tick of the monitor of the tunnels: the fingerprint it remembers.\<close>

definition monitorTick :: "string \<Rightarrow> string tprog" where
  "monitorTick lastFingerprint = do {
     r \<leftarrow> GetState;
     case r of
       Inl _ \<Rightarrow> ret lastFingerprint
     | Inr states \<Rightarrow>
         if tunnelStateFingerprint states = lastFingerprint then ret lastFingerprint
         else do { e \<leftarrow> PublishTunnelState; ret (if e = None then tunnelStateFingerprint states else []) } }"

section \<open>What the client writes\<close>

text \<open>
  \<^verbatim>\<open>tunnelIdRegexp\<close>: the first bracket whose text up to the next closing one is a name, a dash and
  a protocol; \<^verbatim>\<open>errMessageRegexp\<close>: what follows the first \<^verbatim>\<open>error: \<close>.
\<close>

definition endsInProtocol :: "string \<Rightarrow> bool" where
  "endsInProtocol s \<longleftrightarrow> list_ex (\<lambda>p. HasSuffix s (CHR ''-'' # p) \<and> length s > length p + 1) [''http'', ''https'', ''tcp'', ''udp'']"

fun tunnelIdMatch :: "string \<Rightarrow> string option" where
  "tunnelIdMatch [] = None"
| "tunnelIdMatch (c # cs) =
     (let inner = takeWhile (\<lambda>x. x \<noteq> CHR '']'') cs in
      if c = CHR ''['' \<and> CHR '']'' \<in> set cs \<and> endsInProtocol inner then Some inner else tunnelIdMatch cs)"

fun errMessageMatch :: "string \<Rightarrow> string option" where
  "errMessageMatch [] = None"
| "errMessageMatch (c # cs) =
     (if HasPrefix (c # cs) ''error: '' then Some (takeWhile (\<lambda>x. x \<noteq> CHR 0x0A) (drop 7 (c # cs))) else errMessageMatch cs)"

definition noteError :: "string \<Rightarrow> err tprog" where
  "noteError line = (case (tunnelIdMatch line, errMessageMatch line) of
     (Some tunnelID, Some message) \<Rightarrow> do {
       active \<leftarrow> gets fActive;
       case map_of active tunnelID of
         None \<Rightarrow> ret None
       | Some tunnel \<Rightarrow> ignore (modify (\<lambda>f. f\<lparr>fActive := map_put tunnelID (tunnel\<lparr>tError := message\<rparr>) (fActive f)\<rparr>)) }
   | _ \<Rightarrow> ret None)"

text \<open>A line; the result says whether the reader goes on.\<close>

definition clientLine :: "string \<Rightarrow> bool tprog" where
  "clientLine line = do {
     _ \<leftarrow> (if Contains line ''login to server success''
          then do { _ \<leftarrow> modify (\<lambda>f. f\<lparr>fLoggedIn := True\<rparr>); setCapability CapabilityAvailable None } else ret None);
     if Contains line ''[E]'' then do { _ \<leftarrow> noteError line; ret True }
     else if Contains line ''run admin server error'' then do { _ \<leftarrow> SetAdminPort; _ \<leftarrow> clientExit; ret False }
     else do {
       _ \<leftarrow> (if Contains line ''start proxy success'' \<or> Contains line ''proxy removed'' then ignore (start PublishTask) else ret None);
       ret True } }"

section \<open>Goroutines\<close>

definition runTunnelTask :: "tunnel_task \<Rightarrow> err tprog" where
  "runTunnelTask t = (case t of
     PublishTask \<Rightarrow> ignore PublishTunnelState
   | SuperviseTask \<Rightarrow> SuperviseStart
   | MonitorCapability \<Rightarrow> do { _ \<leftarrow> probeCapability; ignore (start MonitorCapability) }
   | MonitorTunnelState seen \<Rightarrow> do { seen' \<leftarrow> monitorTick seen; ignore (start (MonitorTunnelState seen')) })"

section \<open>What every operation keeps\<close>

lemma wp_call [wp_simps]: "wp (call n as) Q f = Q (fExt f (fTrace f) (Ext n as)) (f\<lparr>fTrace := fTrace f @ [Ext n as]\<rparr>)"
  by (simp add: call_def wp_simps)

lemma wp_callE [wp_simps]: "wp (callE n as) Q f = Q (rpErr (fExt f (fTrace f) (Ext n as))) (f\<lparr>fTrace := fTrace f @ [Ext n as]\<rparr>)"
  by (simp add: callE_def wp_simps)

lemma wp_start [wp_simps]: "wp (start t) Q f = Q () (f\<lparr>fTasks := fTasks f @ [t]\<rparr>)"
  by (simp add: start_def wp_simps)

text \<open>A relation between states of the manager that is not about calls, tasks and the client.\<close>

locale tunnel_relation = state_relation R for R :: "FrpTunnelManager \<Rightarrow> FrpTunnelManager \<Rightarrow> bool" +
  assumes R_call: "R f (f\<lparr>fTrace := tr\<rparr>)"
    and R_task: "R f (f\<lparr>fTasks := ts\<rparr>)"
    and R_client: "R f (f\<lparr>fClient := b\<rparr>)" "R f (f\<lparr>fClientAlive := b\<rparr>)" "R f (f\<lparr>fMonitors := b\<rparr>)" "R f (f\<lparr>fSupervising := b\<rparr>)"
      "R f (f\<lparr>fLoggedIn := b\<rparr>)" "R f (f\<lparr>fCapability := c, fLastErr := g f\<rparr>)"
begin

lemma R_spawned: "R f (f\<lparr>fClient := b, fClientAlive := b'\<rparr>)"
  using R_trans [OF R_client(1) R_client(2)] by simp

lemma call_keeps: "keeps R (call n as)" "keeps R (callE n as)" "keeps R (start t)"
  by (simp_all add: keeps_wp wp_simps R_call R_task)

lemmas tunnel_intros = keeps_basic call_keeps

lemma pickAdminPort_keeps: "keeps R pickAdminPort"
  unfolding pickAdminPort_def by (intro tunnel_intros)

lemma setCapability_keeps: "keeps R (setCapability c e)"
  unfolding setCapability_def by (intro tunnel_intros keeps_modify R_client)

lemma probe_keeps: "keeps R probeCapability"
  unfolding probeCapability_def frpsReachable_def by (intro tunnel_intros setCapability_keeps)

lemma clientExit_keeps: "keeps R clientExit"
  unfolding clientExit_def by (intro tunnel_intros keeps_modify R_client)

lemma Start_keeps: "keeps R Start"
proof -
  have "keeps R (failStart x)" for x unfolding failStart_def by (intro tunnel_intros setCapability_keeps)
  moreover have "keeps R stopClientLocked" unfolding stopClientLocked_def by (intro tunnel_intros keeps_modify R_client)
  moreover have "keeps R ensureFrpcBinary" unfolding ensureFrpcBinary_def by (intro tunnel_intros)
  moreover have "keeps R startMonitors" unfolding startMonitors_def by (intro tunnel_intros keeps_modify R_client)
  moreover have "keeps R awaitAck" unfolding awaitAck_def by (intro tunnel_intros setCapability_keeps probe_keeps clientExit_keeps)
  ultimately show ?thesis
    unfolding Start_def spawnClient_def by (intro tunnel_intros keeps_modify setCapability_keeps R_client R_spawned)
qed

lemma Reload_keeps: "keeps R Reload"
  unfolding Reload_def by (intro tunnel_intros)

lemma AllStatus_keeps: "keeps R AllStatus"
  unfolding AllStatus_def by (intro tunnel_intros)

lemma GetState_keeps: "keeps R GetState"
  unfolding GetState_def by (intro tunnel_intros AllStatus_keeps)

lemma PublishTunnelState_keeps: "keeps R PublishTunnelState"
  unfolding PublishTunnelState_def by (intro tunnel_intros GetState_keeps)

lemma monitorTick_keeps: "keeps R (monitorTick s)"
  unfolding monitorTick_def by (intro tunnel_intros GetState_keeps PublishTunnelState_keeps)

end

text \<open>The configuration and the tunnels alone.\<close>

abbreviation same_config :: "FrpTunnelManager \<Rightarrow> FrpTunnelManager \<Rightarrow> bool" where
  "same_config f f' \<equiv> fYaml f' = fYaml f \<and> fFile f' = fFile f \<and> fActive f' = fActive f"

interpretation cfg: tunnel_relation same_config
  by unfold_locales simp_all

text \<open>
  The invariant: no two proxies with one name, no two active tunnels with one id, and the file
  holds what the manager has in memory unless writing it failed.
\<close>

definition tunnels_inv :: "FrpTunnelManager \<Rightarrow> bool" where
  "tunnels_inv f \<longleftrightarrow> names_ok (yProxies (fYaml f)) \<and> distinct (map fst (fActive f)) \<and> fFile f \<in> {None, Some (fYaml f)}"

abbreviation keeps_tunnels :: "FrpTunnelManager \<Rightarrow> FrpTunnelManager \<Rightarrow> bool" where
  "keeps_tunnels f f' \<equiv> tunnels_inv f \<longrightarrow> tunnels_inv f'"

interpretation tun: tunnel_relation keeps_tunnels
  by unfold_locales (simp_all add: tunnels_inv_def)

text \<open>Saving makes the file agree, whatever was changed before.\<close>

lemma saved_inv:
  assumes "\<And>f. tunnels_inv f \<Longrightarrow> names_ok (yProxies (g f))"
  shows "keeps keeps_tunnels (State_Monad.bind (modify (\<lambda>f. f\<lparr>fYaml := g f\<rparr>)) (\<lambda>_. SaveConfig))"
  using assms by (auto simp: keeps_wp SaveConfig_def wp_simps tunnels_inv_def)

lemma SetAdminPort_inv: "keeps keeps_tunnels SetAdminPort"
  unfolding SetAdminPort_def
  by (intro tun.keeps_bind [OF tun.pickAdminPort_keeps] saved_inv) (simp add: tunnels_inv_def)

lemma initialize_inv: "keeps keeps_tunnels initialize"
  unfolding initialize_def
  by (intro tun.keeps_bind [OF tun.pickAdminPort_keeps] saved_inv) (simp add: initialConfig_def names_ok_def Let_def)

lemma AddTunnelConfig_inv: "keeps keeps_tunnels (AddTunnelConfig conf)"
proof -
  have "wp (AddTunnelConfig conf) (\<lambda>_. tunnels_inv) f" if f: "tunnels_inv f" for f
  proof -
    let ?r = "upsertProxy (proxyOf conf) (yProxies (fYaml f))"
    obtain ps save where r: "?r = (ps, save)" by force
    have names: "names_ok ps" using names_ok_upsert [of "yProxies (fYaml f)" "proxyOf conf"] f r by (simp add: tunnels_inv_def)
    have "\<not> save \<Longrightarrow> ps = yProxies (fYaml f)" using upsertProxy_unchanged [of "proxyOf conf" "yProxies (fYaml f)"] r by simp
    with names f show ?thesis
      by (auto simp: AddTunnelConfig_def setProxies_def SaveConfig_def wp_simps r tunnels_inv_def Let_def)
  qed
  then show ?thesis by (fastforce simp: keeps_wp intro: wp_runI dest: wp_runD)
qed

lemma RemoveTunnelConfig_inv: "keeps keeps_tunnels (RemoveTunnelConfig conf)"
  by (auto simp: keeps_wp RemoveTunnelConfig_def setProxies_def SaveConfig_def wp_simps tunnels_inv_def names_ok_remove)

lemma superviseLoop_inv: "keeps keeps_tunnels (superviseLoop n b)"
  by (induction n arbitrary: b) (auto intro!: tun.tunnel_intros tun.Start_keeps SetAdminPort_inv tun.setCapability_keeps)

lemma SuperviseStart_inv: "keeps keeps_tunnels SuperviseStart"
  unfolding SuperviseStart_def by (intro tun.tunnel_intros tun.keeps_modify tun.R_client superviseLoop_inv)

lemma AddTunnel_inv: "keeps keeps_tunnels (AddTunnel conf)"
proof -
  have "keeps keeps_tunnels (reserveRemotePort p q)" for p q
    unfolding reserveRemotePort_def by (intro tun.tunnel_intros)
  moreover have "keeps keeps_tunnels (registerTunnel c)" for c
    unfolding registerTunnel_def Let_def
    by (auto simp: keeps_wp wp_simps tunnels_inv_def map_put_map_del map_of_eq_None_iff map_del_def intro: distinct_map_filter)
  ultimately show ?thesis
    unfolding AddTunnel_def Let_def
    by (intro tun.tunnel_intros tun.Reload_keeps AddTunnelConfig_inv RemoveTunnelConfig_inv)
qed

lemma RemoveTunnel_inv: "keeps keeps_tunnels (RemoveTunnel conf)"
  unfolding RemoveTunnel_def
  by (intro tun.keeps_bind tun.keeps_modify RemoveTunnelConfig_inv tun.Reload_keeps) (simp add: tunnels_inv_def)

lemma clientLine_inv: "keeps keeps_tunnels (clientLine line)"
proof -
  have "keeps keeps_tunnels (modify (\<lambda>f. f\<lparr>fActive := map_put k v (fActive f)\<rparr>))" for k v
    by (auto simp: keeps_wp wp_simps tunnels_inv_def map_put_map_del map_del_def intro: distinct_map_filter)
  then have "keeps keeps_tunnels (noteError line)"
    unfolding noteError_def by (auto split: option.split intro!: tun.tunnel_intros)
  then show ?thesis
    unfolding clientLine_def
    by (intro tun.tunnel_intros tun.keeps_modify tun.R_client tun.setCapability_keeps SetAdminPort_inv tun.clientExit_keeps)
qed

lemma runTunnelTask_inv: "keeps keeps_tunnels (runTunnelTask t)"
  by (cases t) (auto simp: runTunnelTask_def intro!: tun.tunnel_intros tun.PublishTunnelState_keeps SuperviseStart_inv
      tun.probe_keeps tun.monitorTick_keeps)

text \<open>The steps of the tunnel manager: what its clients call, what \<^verbatim>\<open>frpc\<close> does, and its goroutines.\<close>

inductive tunnel_step :: "FrpTunnelManager \<Rightarrow> FrpTunnelManager \<Rightarrow> bool" where
  add: "tunnel_step f (snd (run_state (AddTunnel conf) f))"
| remove: "tunnel_step f (snd (run_state (RemoveTunnel conf) f))"
| supervise: "tunnel_step f (snd (run_state SuperviseStart f))"
| stop: "tunnel_step f (snd (run_state Stop f))"
| reset: "tunnel_step f (snd (run_state Reset f))"
| unavailable: "tunnel_step f (snd (run_state (MarkUnavailable reason) f))"
| published: "tunnel_step f (snd (run_state PublishTunnelState f))"
| saved_ports: "tunnel_step f (snd (run_state (SaveRemotePorts payload) f))"
| line: "tunnel_step f (snd (run_state (clientLine l) f))"
| exited: "tunnel_step f (snd (run_state clientExit f))"
| goroutine: "fTasks f = before @ t # after \<Longrightarrow> tunnel_step f (snd (run_state (runTunnelTask t) (f\<lparr>fTasks := before @ after\<rparr>)))"

inductive tunnel_reachable :: "FrpTunnelManager \<Rightarrow> bool" where
  new: "fActive f = [] \<Longrightarrow> tunnel_reachable (snd (run_state initialize f))"
| step: "tunnel_reachable f \<Longrightarrow> tunnel_step f f' \<Longrightarrow> tunnel_reachable f'"

lemma tunnel_step_inv: "tunnel_step f f' \<Longrightarrow> tunnels_inv f \<Longrightarrow> tunnels_inv f'"
proof (induction rule: tunnel_step.induct)
  case (goroutine f before t after)
  then show ?case using runTunnelTask_inv [of t] tun.R_task [of f "before @ after"] by (simp add: keeps_def)
next
  case (reset f)
  have "keeps keeps_tunnels Reset" unfolding Reset_def by (intro tun.keeps_bind initialize_inv tun.Reload_keeps)
  with reset show ?case by (simp add: keeps_def)
next
  case (stop f)
  have "keeps keeps_tunnels Stop"
    unfolding Stop_def stopClientLocked_def by (intro tun.tunnel_intros tun.keeps_modify tun.R_client)
  with stop show ?case by (simp add: keeps_def)
next
  case (saved_ports f payload)
  have "keeps keeps_tunnels (SaveRemotePorts payload)" unfolding SaveRemotePorts_def by (intro tun.tunnel_intros)
  with saved_ports show ?case by (simp add: keeps_def)
qed (use AddTunnel_inv RemoveTunnel_inv SuperviseStart_inv tun.PublishTunnelState_keeps clientLine_inv tun.clientExit_keeps
       tun.setCapability_keeps in \<open>simp_all add: keeps_def MarkUnavailable_def\<close>)


section \<open>Adding and removing refine maps\<close>

lemma AddTunnelConfig_effect:
  "wp (AddTunnelConfig conf) (\<lambda>_ f'. yProxies (fYaml f') = fst (upsertProxy (proxyOf conf) (yProxies (fYaml f))) \<and> fActive f' = fActive f) f"
  by (simp add: AddTunnelConfig_def setProxies_def SaveConfig_def wp_simps Let_def split: prod.split)

lemma RemoveTunnelConfig_effect:
  "wp (RemoveTunnelConfig conf) (\<lambda>_ f'. yProxies (fYaml f') =
     RemoveTunnelVariable (CreateTunnelID (tcSubdomain conf) (tcProtocol conf)) (yProxies (fYaml f)) \<and> fActive f' = fActive f) f"
  by (simp add: RemoveTunnelConfig_def setProxies_def SaveConfig_def wp_simps)

abbreviation proxies :: "FrpTunnelManager \<Rightarrow> string \<rightharpoonup> ProxyConfig" where
  "proxies f \<equiv> proxyMap (yProxies (fYaml f))"

abbreviation tunnels :: "FrpTunnelManager \<Rightarrow> string \<rightharpoonup> Tunnel" where
  "tunnels f \<equiv> map_of (fActive f)"

lemma addReserved_effect:
  fixes conf :: TunnelConfig
  defines "i \<equiv> CreateTunnelID (tcSubdomain conf) (tcProtocol conf)"
  shows "wp (do {
      _ \<leftarrow> AddTunnelConfig conf;
      e \<leftarrow> Reload;
      case e of Some x \<Rightarrow> do { _ \<leftarrow> RemoveTunnelConfig conf; ret (Inl x) } | None \<Rightarrow> registerTunnel conf })
    (\<lambda>r f'. (isl r \<and> proxies f' = (proxies f)(i := None) \<and> tunnels f' = tunnels f)
       \<or> (proxies f' = (proxies f)(i \<mapsto> mergeProxy (proxyOf conf) (proxies f i))
          \<and> (if tunnels f i = None then r = Inr conf \<and> tunnels f' = (tunnels f)(i \<mapsto> \<lparr>tError = [], tConfig = conf\<rparr>)
             else isl r \<and> tunnels f' = tunnels f))) f"
  unfolding wp_bind
proof (rule wp_mono [OF AddTunnelConfig_effect], rule wp_runI)
  fix a :: err and f1 e f2
  assume f1: "yProxies (fYaml f1) = fst (upsertProxy (proxyOf conf) (yProxies (fYaml f))) \<and> fActive f1 = fActive f"
    and reload: "run_state Reload f1 = (e, f2)"
  have f2: "same_config f1 f2" by (rule keepsD [OF cfg.Reload_keeps reload])
  have name: "pxName (proxyOf conf) = i" by (simp add: proxyOf_def i_def)
  have map: "proxies f2 = (proxies f)(i \<mapsto> mergeProxy (proxyOf conf) (proxies f i))"
    using f1 f2 by (simp add: upsertProxy_map name)
  show "wp (case e of Some x \<Rightarrow> do { _ \<leftarrow> RemoveTunnelConfig conf; ret (Inl x) } | None \<Rightarrow> registerTunnel conf)
      (\<lambda>r f'. (isl r \<and> proxies f' = (proxies f)(i := None) \<and> tunnels f' = tunnels f)
       \<or> (proxies f' = (proxies f)(i \<mapsto> mergeProxy (proxyOf conf) (proxies f i))
          \<and> (if tunnels f i = None then r = Inr conf \<and> tunnels f' = (tunnels f)(i \<mapsto> \<lparr>tError = [], tConfig = conf\<rparr>)
             else isl r \<and> tunnels f' = tunnels f))) f2"
  proof (cases e)
    case (Some x)
    have "proxies f' = (proxies f)(i := None)"
      if "yProxies (fYaml f') = RemoveTunnelVariable i (yProxies (fYaml f2))" for f' :: FrpTunnelManager
      using map that by (auto simp: RemoveTunnelVariable_map fun_eq_iff)
    with f1 f2 Some show ?thesis
      by (auto simp: wp_bind wp_return i_def intro!: wp_mono [OF RemoveTunnelConfig_effect])
  next
    case None
    with f1 f2 map show ?thesis
      by (auto simp: registerTunnel_def wp_simps i_def [symmetric] Let_def)
  qed
qed

lemma tunnel_effects:
  fixes conf :: TunnelConfig
  defines "i \<equiv> CreateTunnelID (tcSubdomain conf) (tcProtocol conf)"
  shows "case run_state (AddTunnel conf) f of (r, f') \<Rightarrow>
      (isl r \<and> proxies f' \<in> {proxies f, (proxies f)(i := None)} \<and> tunnels f' = tunnels f)
      \<or> (\<exists>p. proxies f' = (proxies f)(i \<mapsto> mergeProxy (proxyOf (conf\<lparr>tcRemotePort := p\<rparr>)) (proxies f i))
           \<and> (if tunnels f i = None
              then r = Inr (conf\<lparr>tcRemotePort := p\<rparr>) \<and> tunnels f' = (tunnels f)(i \<mapsto> \<lparr>tError = [], tConfig = conf\<lparr>tcRemotePort := p\<rparr>\<rparr>)
              else isl r \<and> tunnels f' = tunnels f))" (is ?add)
    and "case run_state (RemoveTunnel conf) f of (e, f') \<Rightarrow>
      proxies f' = (proxies f)(i := None) \<and> tunnels f' = (tunnels f)(i := None)" (is ?remove)
proof -
  let ?reserve = "if isWeb (tcProtocol conf) then ret (Inr (tcRemotePort conf)) else reserveRemotePort (tcRemotePort conf) (tcProtocol conf)"
  obtain res f1 where res: "run_state ?reserve f = (res, f1)" by force
  have "keeps same_config ?reserve" unfolding reserveRemotePort_def by (intro cfg.tunnel_intros)
  from keepsD [OF this res] have f1: "same_config f f1" .
  show ?add
  proof (cases res)
    case (Inl x)
    then show ?thesis using res f1 by (simp add: AddTunnel_def run_bind State_Monad.return_def)
  next
    case (Inr p)
    let ?c = "conf\<lparr>tcRemotePort := p\<rparr>"
    obtain r f' where run: "run_state (do { _ \<leftarrow> AddTunnelConfig ?c; e \<leftarrow> Reload;
        case e of Some x \<Rightarrow> do { _ \<leftarrow> RemoveTunnelConfig ?c; ret (Inl x) } | None \<Rightarrow> registerTunnel ?c }) f1 = (r, f')" by force
    have "run_state (AddTunnel conf) f = (r, f')"
      unfolding AddTunnel_def Let_def run_bind [of ?reserve] res prod.case Inr sum.case run ..
    then show ?thesis
      using wp_runD [OF addReserved_effect run] f1 by (auto simp: i_def)
  qed
  have "wp (RemoveTunnel conf) (\<lambda>_ f'. proxies f' = (proxies f)(i := None) \<and> tunnels f' = (tunnels f)(i := None)) f"
    unfolding RemoveTunnel_def wp_bind wp_modify
    by (rule wp_mono [OF RemoveTunnelConfig_effect], rule wp_runI)
       (auto simp: i_def RemoveTunnelVariable_map dest!: keepsD [OF cfg.Reload_keeps])
  then show ?remove by (simp add: wp_def)
qed


section \<open>The supervisor settles\<close>

lemma setCapability_effect:
  "wp (setCapability c e) (\<lambda>r f'. r = None \<and> fCapability f' = c \<and> fClient f' = fClient f \<and> fClientAlive f' = fClientAlive f) f"
  by (simp add: setCapability_def wp_simps)

definition settled :: "FrpTunnelManager \<Rightarrow> bool" where
  "settled f \<longleftrightarrow> fCapability f \<in> {CapabilityAvailable, CapabilityUnavailable} \<or> (fCapability f = CapabilityStarting \<and> \<not> fClientAlive f)"

lemma failStart_effect: "wp (failStart x) (\<lambda>e f'. e \<noteq> None \<and> fCapability f' = CapabilityUnavailable) f"
  by (simp add: failStart_def setCapability_def wp_simps)

lemma awaitAck_effect:
  assumes "fCapability f = CapabilityStarting" and "fClient f"
  shows "wp awaitAck (\<lambda>e f'. settled f' \<and> fClient f' \<and> (e \<noteq> None \<longrightarrow> fCapability f' = CapabilityUnavailable)) f"
  using assms
  by (auto simp: awaitAck_def clientExit_def probeCapability_def frpsReachable_def setCapability_def wp_simps settled_def split: option.split)

definition start_result :: "err \<Rightarrow> FrpTunnelManager \<Rightarrow> bool" where
  "start_result e f \<longleftrightarrow> settled f \<and> (e = None \<longrightarrow> fClient f) \<and> (e \<noteq> None \<longrightarrow> fCapability f = CapabilityUnavailable)"

lemma Start_effect: "wp Start start_result f"
proof -
  have fail: "wp (failStart x) start_result g" for x g
    by (rule wp_mono [OF failStart_effect]) (auto simp: settled_def start_result_def)
  have "wp startMonitors (\<lambda>_. wp awaitAck start_result) g" if "fCapability g = CapabilityStarting" "fClient g" for g
    using that by (auto simp: startMonitors_def wp_simps start_result_def intro!: wp_mono [OF awaitAck_effect])
  then have spawn: "wp spawnClient start_result g" if "fCapability g = CapabilityStarting" for g
    using that by (auto simp: spawnClient_def wp_simps fail split: option.split)
  have "wp (do { _ \<leftarrow> setCapability CapabilityStarting None; spawnClient }) start_result g" for g
    unfolding wp_bind by (rule wp_mono [OF setCapability_effect]) (simp add: spawn)
  note go = this
  have "wp (case e of None \<Rightarrow> do { _ \<leftarrow> setCapability CapabilityStarting None; spawnClient } | Some x \<Rightarrow> failStart x) start_result g" for e g
    by (rule wp_option) (rule go fail)+
  then show ?thesis
    unfolding Start_def wp_bind wp_modify by (intro wp_runI [of stopClientLocked] wp_runI [of ensureFrpcBinary])
qed

text \<open>How often the client was looked for, which every start does once.\<close>

definition attempts :: "FrpTunnelManager \<Rightarrow> nat" where
  "attempts f = length (filter (\<lambda>c. c = Ext ''os.Stat'' [''frpc'']) (fTrace f))"

abbreviation same_attempts :: "FrpTunnelManager \<Rightarrow> FrpTunnelManager \<Rightarrow> bool" where
  "same_attempts f f' \<equiv> attempts f' = attempts f"

interpretation att: state_relation same_attempts
  by unfold_locales simp_all

lemma calls_attempts: "n \<noteq> ''os.Stat'' \<Longrightarrow> keeps same_attempts (call n as)" "n \<noteq> ''os.Stat'' \<Longrightarrow> keeps same_attempts (callE n as)"
  by (simp_all add: keeps_wp wp_simps attempts_def)

lemma modify_attempts: "(\<And>f. fTrace (g f) = fTrace f) \<Longrightarrow> keeps same_attempts (modify g)"
  by (simp add: keeps_wp wp_simps attempts_def)

lemmas att_intros = att.keeps_basic calls_attempts modify_attempts

lemma parts_attempts:
  "keeps same_attempts SetAdminPort" "keeps same_attempts (setCapability c e)" "keeps same_attempts spawnClient"
  "keeps same_attempts (failStart x)" "keeps same_attempts stopClientLocked"
proof -
  have go: "keeps same_attempts (start t)" for t unfolding start_def by (intro att_intros) simp
  show "keeps same_attempts SetAdminPort"
    unfolding SetAdminPort_def pickAdminPort_def SaveConfig_def by (intro att_intros) simp_all
  show cap: "keeps same_attempts (setCapability c e)" for c e
    unfolding setCapability_def by (intro att_intros go) simp_all
  show fail: "keeps same_attempts (failStart x)" for x unfolding failStart_def by (intro att_intros cap)
  show "keeps same_attempts spawnClient"
    unfolding spawnClient_def startMonitors_def awaitAck_def probeCapability_def frpsReachable_def clientExit_def
    by (intro att_intros go cap fail) simp_all
  show "keeps same_attempts stopClientLocked" unfolding stopClientLocked_def by (intro att_intros) simp_all
qed

lemma Start_attempts: "wp Start (\<lambda>_ f'. attempts f' = Suc (attempts f)) f"
proof -
  have "wp ensureFrpcBinary (\<lambda>_ f'. attempts f' = Suc (attempts g)) g" for g
    by (auto simp: ensureFrpcBinary_def wp_simps attempts_def split: option.split)
  note look = this
  have rest: "wp (case e of None \<Rightarrow> do { _ \<leftarrow> setCapability CapabilityStarting None; spawnClient } | Some x \<Rightarrow> failStart x)
      (\<lambda>_ f'. attempts f' = attempts g) g" for e g
    by (rule att.wp_keeps [OF _ refl]) (intro att_intros parts_attempts)
  show ?thesis
    unfolding Start_def wp_bind wp_modify
    by (rule wp_mono [OF att.wp_keeps [OF parts_attempts(5) refl]], rule wp_mono [OF look], rule wp_mono [OF rest])
       (simp add: attempts_def)
qed

lemma superviseLoop_effect:
  "wp (superviseLoop n b) (\<lambda>_ f'. settled f' \<and> (fClient f' \<or> fCapability f' = CapabilityUnavailable) \<and> attempts f' \<le> attempts f + n) f"
proof (induction n arbitrary: b f)
  case 0
  have "wp (setCapability CapabilityUnavailable e) (\<lambda>_ f'. fCapability f' = CapabilityUnavailable \<and> attempts f' = attempts f) f" for e
    by (rule wp_conj [OF wp_mono [OF setCapability_effect] att.wp_keeps [OF parts_attempts(2) refl]]) simp
  note given_up = this
  show ?case unfolding superviseLoop.simps by (rule wp_mono [OF given_up]) (auto simp: settled_def)
next
  case (Suc n)
  let ?Q = "\<lambda>_ f'. settled f' \<and> (fClient f' \<or> fCapability f' = CapabilityUnavailable) \<and> attempts f' \<le> attempts f + Suc n"
  have more: "wp (superviseLoop n b') ?Q g" if "attempts g = Suc (attempts f)" for b' g
    by (rule wp_mono [OF Suc.IH]) (use that in auto)
  have sleep: "wp (do { _ \<leftarrow> SetAdminPort; _ \<leftarrow> call ''time.Sleep'' [s]; superviseLoop n b' }) ?Q g"
    if "attempts g = Suc (attempts f)" for b' g s
    unfolding wp_bind wp_call
    by (rule wp_mono [OF att.wp_keeps [OF parts_attempts(1) refl]], rule more) (use that in \<open>simp add: attempts_def\<close>)
  show ?case
    unfolding superviseLoop.simps wp_bind
    by (rule wp_mono [OF wp_conj [OF Start_effect Start_attempts]])
       (elim conjE, rule wp_if, simp add: wp_return start_result_def, rule wp_if, rule sleep, assumption, rule more, assumption)
qed


text \<open>A manager whose client starts at the third attempt.\<close>

definition demo_manager :: "(ext_call list \<Rightarrow> ext_call \<Rightarrow> reply) \<Rightarrow> FrpTunnelManager" where
  "demo_manager answers = \<lparr>fYaml = initialConfig demo_tlib demo_config 7411, fFile = Some (initialConfig demo_tlib demo_config 7411),
     fActive = [], fClient = False, fClientAlive = False, fMonitors = False, fSupervising = False, fLoggedIn = False,
     fCapability = CapabilityUnknown, fLastErr = [], fReacquire = False, fConfig = demo_config, fLib = demo_tlib,
     fTasks = [], fTrace = [], fExt = answers\<rparr>"

definition third_time :: "ext_call list \<Rightarrow> ext_call \<Rightarrow> reply" where
  "third_time tr c = (if c = Ext ''frpc Start'' [''-c'', ''frpc.yaml''] \<and> length (filter (\<lambda>d. d = c) tr) < 2
     then ok_reply\<lparr>rpErr := Some (Msg ''exit'')\<rparr> else ok_reply)"



section \<open>The fingerprint\<close>

text \<open>
  The fingerprint by which a change of the tunnels is noticed does not depend on the order in
  which their states are listed, so a new order of the same states is never reported.
\<close>

theorem fingerprint_order_independent:
  assumes "mset states = mset states'"
  shows "tunnelStateFingerprint states = tunnelStateFingerprint states'"
proof -
  have "mset (map fingerprintOf states) = mset (map fingerprintOf states')" using assms by simp
  then have "sort (map fingerprintOf states) = sort (map fingerprintOf states')" by (metis sorted_list_of_multiset_mset)
  then show ?thesis by (simp add: tunnelStateFingerprint_def)
qed

definition demo_state :: "string \<Rightarrow> TunnelState" where
  "demo_state name = stateOf ''d'' (demo_tunnel ''http'' 80) \<lparr>tsName = name, tsStatus = ''running'', tsLocalAddr = [], tsPlugin = [],
     tsRemoteAddr = [], tsRemotePort = 0, tsError = [], tsProtocol = ''http''\<rparr>"

theorem fingerprint_order_independent_witness:
  "tunnelStateFingerprint [demo_state ''b'', demo_state ''a''] = tunnelStateFingerprint [demo_state ''a'', demo_state ''b'']"
  by (rule fingerprint_order_independent) simp

section \<open>Limits\<close>

text \<open>
  A tunnel that is added again with another remote port keeps the old one in the configuration,
  though the new one is reported: only the local address decides whether the proxy is replaced.
\<close>

lemma new_remote_port_not_configured:
  "let conf = demo_tunnel ''tcp'' 80; granted = (\<lambda>tr c. if c = Ext ''Messenger.Call ExposePort'' [''31'', ''tcp'']
           then ok_reply\<lparr>rpJson := JArr [JObj [(''remote_port'', JNum 37)]]\<rparr> else ok_reply);
       f = (demo_manager granted)\<lparr>fYaml := (initialConfig demo_tlib demo_config 7411)\<lparr>yProxies := [proxyOf conf]\<rparr>\<rparr>;
       (r, f') = run_state (AddTunnel conf) f in
     r = Inr (conf\<lparr>tcRemotePort := 37\<rparr>) \<and> map pxRemotePort (yProxies (fYaml f')) = [31]"
  by code_simp

text \<open>A reload that fails after a proxy was updated drops the proxy that was there before.\<close>

lemma failed_update_drops_proxy:
  "let conf = demo_tunnel ''http'' 80; refused = (\<lambda>tr c. if c = Ext ''frpc reload'' [''-c'', ''frpc.yaml'']
           then ok_reply\<lparr>rpErr := Some (Msg ''exit status 1'')\<rparr> else ok_reply);
       f = (demo_manager refused)\<lparr>fYaml := (initialConfig demo_tlib demo_config 7411)\<lparr>yProxies := [proxyOf conf]\<rparr>\<rparr>;
       f' = snd (run_state (AddTunnel (conf\<lparr>tcLocalPort := 41\<rparr>)) f) in
     yProxies (fYaml f') = []"
  by code_simp

text \<open>A client that ends together with the deadline leaves the capability at \<^verbatim>\<open>starting\<close>.\<close>

lemma silent_end_leaves_starting:
  "let answers = (\<lambda>tr c. if c = Ext ''frpc ack'' [] then ok_reply\<lparr>rpFlag := False, rpStr := ''exited''\<rparr> else ok_reply);
       (e, f') = run_state Start (demo_manager answers) in
     e = None \<and> fCapability f' = CapabilityStarting \<and> \<not> fClientAlive f'"
  by code_simp

end
