(* ===== verification/Outside.thy ===== *)
theory Outside
  imports World
begin

text \<open>
  The outside of a component that keeps a state of its own: a record that other records extend.
  A call is appended to \<open>oTrace\<close> and answered by \<open>oExt\<close>, a parameter that may depend on
  everything that was called before.
\<close>

record outside =
  oTrace :: "ext_call list"
  oExt :: "ext_call list \<Rightarrow> ext_call \<Rightarrow> reply"

definition ask :: "string \<Rightarrow> string list \<Rightarrow> ('z outside_scheme, reply) state" where
  "ask name args = do {
     s \<leftarrow> State_Monad.get;
     _ \<leftarrow> State_Monad.set (s\<lparr>oTrace := oTrace s @ [Ext name args]\<rparr>);
     ret (oExt s (oTrace s) (Ext name args)) }"

text \<open>A call of which only the error matters.\<close>

definition askE :: "string \<Rightarrow> string list \<Rightarrow> ('z outside_scheme, err) state" where
  "askE name args = do { r \<leftarrow> ask name args; ret (rpErr r) }"

text \<open>What a reader that was opened by a call delivers, line by line.\<close>

definition rpLines :: "reply \<Rightarrow> string list" where
  "rpLines r = (case rpStrs r of [] \<Rightarrow> [] | (_, ls) # _ \<Rightarrow> ls)"

lemma wp_ask [wp_simps]:
  "wp (ask name args) Q s = Q (oExt s (oTrace s) (Ext name args)) (s\<lparr>oTrace := oTrace s @ [Ext name args]\<rparr>)"
  by (simp add: ask_def wp_simps)

lemma wp_askE [wp_simps]:
  "wp (askE name args) Q s = Q (rpErr (oExt s (oTrace s) (Ext name args))) (s\<lparr>oTrace := oTrace s @ [Ext name args]\<rparr>)"
  by (simp add: askE_def wp_simps)

lemma run_ask:
  "run_state (ask name args) s = (oExt s (oTrace s) (Ext name args), s\<lparr>oTrace := oTrace s @ [Ext name args]\<rparr>)"
  by (simp add: ask_def run_bind State_Monad.get_def State_Monad.set_def State_Monad.return_def)

lemma run_askE:
  "run_state (askE name args) s = (rpErr (oExt s (oTrace s) (Ext name args)), s\<lparr>oTrace := oTrace s @ [Ext name args]\<rparr>)"
  by (simp add: askE_def run_bind run_ask State_Monad.return_def)

lemma run_gets: "run_state (gets f) s = (f s, s)"
  by (simp add: gets_def run_bind State_Monad.get_def State_Monad.return_def)

lemma run_modify: "run_state (modify f) s = ((), f s)"
  by (simp add: modify_def run_bind State_Monad.get_def State_Monad.set_def)

lemma run_ignore: "run_state (ignore m) s = (None, snd (run_state m s))"
  by (simp add: ignore_def run_bind State_Monad.return_def split: prod.split)

lemmas run_ops = run_bind run_gets run_modify run_ignore run_ask run_askE
  State_Monad.get_def State_Monad.set_def State_Monad.return_def

text \<open>A relation that calls of the outside keep.\<close>

locale asking_relation = state_relation R for R :: "'z outside_scheme \<Rightarrow> 'z outside_scheme \<Rightarrow> bool" +
  assumes R_trace: "R s (s\<lparr>oTrace := t\<rparr>)"
begin

lemma keeps_ask: "keeps R (ask name args)"
  by (simp add: keeps_wp wp_ask R_trace)

lemma keeps_askE: "keeps R (askE name args)"
  by (simp add: keeps_wp wp_askE R_trace)

lemmas asking = keeps_basic keeps_ask keeps_askE

end

end
