(* ===== verification/LogBatches.thy ===== *)
theory LogBatches
  imports Prelude "HOL-Library.Sublist"
begin

text \<open>
  The batcher of \<^verbatim>\<open>logging/applog.go\<close>: log lines of a container are collected in memory and
  published in batches of a bounded size. \<^verbatim>\<open>add\<close> and \<^verbatim>\<open>flush\<close> hold the batcher's mutex, so a run of the
  batcher is a sequence of the two. Strings are byte strings; the lengths Go counts in an \<^verbatim>\<open>int\<close> are
  integers, as no string comes near the range of a machine integer.
\<close>

section \<open>The batcher\<close>

definition maxFlushBytes :: int where
  "maxFlushBytes = 256 * 1024"

definition maxBufferBytes :: int where
  "maxBufferBytes = 1024 * 1024"

record logBatcher =
  bLines :: "string list"
  bBytes :: int
  bDropped :: nat

definition newLogBatcher :: logBatcher where
  "newLogBatcher = \<lparr>bLines = [], bBytes = 0, bDropped = 0\<rparr>"

abbreviation newline :: char where
  "newline \<equiv> CHR 0x0A"

abbreviation lineBytes :: "string \<Rightarrow> int" where
  "lineBytes line \<equiv> int (length line) + 1"

definition batcherAdd :: "string \<Rightarrow> logBatcher \<Rightarrow> logBatcher" where
  "batcherAdd line b =
     (if bBytes b + lineBytes line > maxBufferBytes then b\<lparr>bDropped := bDropped b + 1\<rparr>
      else b\<lparr>bLines := bLines b @ [line], bBytes := bBytes b + lineBytes line\<rparr>)"

text \<open>The loop over the lines: the text written so far and, when the batch is full, the lines left over.\<close>

fun flushLoop :: "string list \<Rightarrow> int \<Rightarrow> string \<Rightarrow> string \<times> nat" where
  "flushLoop [] used sb = (sb, 0)"
| "flushLoop (line # lines) used sb =
     (if used + lineBytes line > maxFlushBytes then (sb, length (line # lines))
      else flushLoop lines (used + lineBytes line) ((if sb \<noteq> [] then sb @ [newline] else sb) @ line))"

text \<open>\<^verbatim>\<open>fmt.Fprintf(&sb, "... %d log line(s) dropped (rate limit)", dropped)\<close>, whose first character is an ellipsis of three bytes.\<close>

definition droppedMarker :: "nat \<Rightarrow> string" where
  "droppedMarker n = [CHR 0xE2, CHR 0x80, CHR 0xA6] @ '' '' @ itoa n @ '' log line(s) dropped (rate limit)''"

definition flush :: "logBatcher \<Rightarrow> string option \<times> logBatcher" where
  "flush b =
     (if bLines b = [] \<and> bDropped b = 0 then (None, b)
      else let (sb, left) = flushLoop (bLines b) 0 [];
               dropped = bDropped b + left;
               text = (if dropped > 0 then (if sb \<noteq> [] then sb @ [newline] else sb) @ droppedMarker dropped else sb)
           in (if text \<noteq> [] then Some text else None, newLogBatcher))"

section \<open>Runs\<close>

datatype batch_event = Add string | Tick

fun batchRun :: "batch_event list \<Rightarrow> logBatcher \<Rightarrow> string list \<times> logBatcher" where
  "batchRun [] b = ([], b)"
| "batchRun (Add line # es) b = batchRun es (batcherAdd line b)"
| "batchRun (Tick # es) b =
     (case flush b of (m, b') \<Rightarrow> case batchRun es b' of (ms, b'') \<Rightarrow> ((case m of None \<Rightarrow> ms | Some t \<Rightarrow> t # ms), b''))"

fun addedLines :: "batch_event list \<Rightarrow> string list" where
  "addedLines [] = []"
| "addedLines (Add line # es) = line # addedLines es"
| "addedLines (Tick # es) = addedLines es"

section \<open>What a batch holds\<close>

text \<open>The lines a batch has room for, and the text it shows them as: blank lines at its start are lost.\<close>

fun fitting :: "int \<Rightarrow> string list \<Rightarrow> string list" where
  "fitting used [] = []"
| "fitting used (line # lines) =
     (if used + lineBytes line > maxFlushBytes then [] else line # fitting (used + lineBytes line) lines)"

definition batchText :: "string list \<Rightarrow> nat \<Rightarrow> string" where
  "batchText lines dropped =
     (let shown = Join newline (dropWhile (\<lambda>l. l = []) lines) in
      if dropped = 0 then shown else if shown = [] then droppedMarker dropped else shown @ newline # droppedMarker dropped)"

definition batchMessages :: "(string list \<times> nat) list \<Rightarrow> string list" where
  "batchMessages bs = filter (\<lambda>t. t \<noteq> []) (map (\<lambda>(lines, dropped). batchText lines dropped) bs)"

lemma fitting_prefix: "prefix (fitting used lines) lines"
  by (induction used lines rule: fitting.induct) auto

lemma fitting_length: "length (fitting used lines) \<le> length lines"
  using fitting_prefix [of used lines] by (auto simp: prefix_def dest: arg_cong [of _ _ length])

lemma fitting_bytes:
  "used \<le> maxFlushBytes \<Longrightarrow> used + sum_list (map lineBytes (fitting used lines)) \<le> maxFlushBytes"
  by (induction used lines rule: fitting.induct) (auto simp: algebra_simps)

text \<open>Once something is written every line is preceded by a line end.\<close>

lemma flushLoop_written:
  "sb \<noteq> [] \<Longrightarrow> flushLoop lines used sb =
     (sb @ concat (map ((#) newline) (fitting used lines)), length lines - length (fitting used lines))"
  by (induction lines used sb rule: flushLoop.induct) auto

lemma Join_concat: "Join sep (x # xs) = x @ concat (map ((#) sep) xs)"
  by (induction xs arbitrary: x) auto

lemma flushLoop_fitting:
  "flushLoop lines used [] =
     (Join newline (dropWhile (\<lambda>l. l = []) (fitting used lines)), length lines - length (fitting used lines))"
proof (induction lines arbitrary: used)
  case (Cons line lines)
  then show ?case by (cases "line = []") (auto simp: flushLoop_written Join_concat)
qed simp

lemma length_Join_le: "length (Join sep xs) \<le> sum_list (map (\<lambda>x. length x + 1) xs)"
  by (induction sep xs rule: Join.induct) auto

lemma sum_dropWhile_le: "sum_list (map f (dropWhile P xs)) \<le> sum_list (map f xs)" for f :: "'a \<Rightarrow> nat"
  by (induction xs) auto

lemma batchText_bound:
  "int (length (batchText lines dropped)) \<le> sum_list (map lineBytes lines) + int (if dropped = 0 then 0 else Suc (length (droppedMarker dropped)))"
proof -
  have sum: "sum_list (map lineBytes lines) = int (sum_list (map (\<lambda>x. length x + 1) lines))"
    by (induction lines) auto
  have "length (Join newline (dropWhile (\<lambda>l. l = []) lines)) \<le> sum_list (map (\<lambda>x. length x + 1) lines)"
    using length_Join_le sum_dropWhile_le order_trans by blast
  then show ?thesis unfolding sum by (simp add: batchText_def Let_def)
qed

text \<open>One flush: what it publishes and that nothing is left.\<close>

lemma droppedMarker_nonempty [simp]: "droppedMarker n \<noteq> []"
  by (simp add: droppedMarker_def)

lemma flush_effect:
  "flush b = (let lines = fitting 0 (bLines b); dropped = bDropped b + (length (bLines b) - length lines);
                  text = batchText lines dropped in
     (if text = [] then None else Some text, if bLines b = [] \<and> bDropped b = 0 then b else newLogBatcher))"
  by (auto simp: flush_def flushLoop_fitting batchText_def Let_def)

section \<open>Nothing is lost unnoticed\<close>

definition buffer_ok :: "logBatcher \<Rightarrow> bool" where
  "buffer_ok b \<longleftrightarrow> bBytes b = sum_list (map lineBytes (bLines b)) \<and> bBytes b \<le> maxBufferBytes"

lemma buffer_ok_new [simp]: "buffer_ok newLogBatcher"
  by (simp add: buffer_ok_def newLogBatcher_def maxBufferBytes_def)

lemma buffer_ok_add: "buffer_ok b \<Longrightarrow> buffer_ok (batcherAdd line b)"
  by (auto simp: buffer_ok_def batcherAdd_def)

lemma buffer_ok_flush: "buffer_ok b \<Longrightarrow> buffer_ok (snd (flush b))"
  by (simp add: flush_effect Let_def)

definition accounted :: "(string list \<times> nat) list \<Rightarrow> logBatcher \<Rightarrow> string list \<Rightarrow> bool" where
  "accounted bs b lines \<longleftrightarrow>
     subseq (concat (map fst bs) @ bLines b) lines
   \<and> sum_list (map (\<lambda>(ls, d). length ls + d) bs) + length (bLines b) + bDropped b = length lines
   \<and> (\<forall>(ls, d) \<in> set bs. sum_list (map lineBytes ls) \<le> maxFlushBytes)"

lemma accounted_add: "accounted bs b lines \<Longrightarrow> accounted bs (batcherAdd line b) (lines @ [line])"
  by (auto simp: accounted_def batcherAdd_def subseq_append_le_same_iff simp flip: append_assoc
      intro: subseq_append' list_emb_append2 list_emb_append_mono)

lemma accounted_flush:
  assumes "accounted bs b lines"
  defines "kept \<equiv> fitting 0 (bLines b)"
  defines "lost \<equiv> bDropped b + (length (bLines b) - length kept)"
  shows "accounted (bs @ [(kept, lost)]) (snd (flush b)) lines"
proof -
  obtain rest where rest: "bLines b = kept @ rest"
    using fitting_prefix [of 0 "bLines b"] by (auto simp: kept_def prefix_def)
  have "subseq (concat (map fst bs) @ kept) (concat (map fst bs) @ bLines b)"
    unfolding rest by (intro prefix_imp_subseq) simp
  with assms(1) have "subseq (concat (map fst bs) @ kept) lines"
    using subseq_order.order_trans by (auto simp: accounted_def)
  moreover have "sum_list (map lineBytes kept) \<le> maxFlushBytes"
    using fitting_bytes [of 0 "bLines b"] by (simp add: kept_def maxFlushBytes_def)
  moreover have "snd (flush b) = newLogBatcher \<or> bLines b = [] \<and> bDropped b = 0 \<and> snd (flush b) = b"
    by (simp add: flush_effect Let_def)
  moreover have "length (bLines b) - length kept + length kept = length (bLines b)"
    using fitting_length [of 0 "bLines b"] by (simp add: kept_def)
  ultimately show ?thesis
  proof (elim disjE)
    assume "snd (flush b) = newLogBatcher" and "subseq (concat (map fst bs) @ kept) lines"
      "sum_list (map lineBytes kept) \<le> maxFlushBytes" "length (bLines b) - length kept + length kept = length (bLines b)"
    then show ?thesis using assms(1) by (simp add: accounted_def lost_def newLogBatcher_def)
  next
    assume "bLines b = [] \<and> bDropped b = 0 \<and> snd (flush b) = b"
    then show ?thesis using assms(1) by (simp add: accounted_def lost_def kept_def maxFlushBytes_def)
  qed
qed

lemma batchRun_accounted:
  assumes "accounted bs b lines" and "buffer_ok b" and "batchRun es b = (ms, b')"
  shows "\<exists>bs'. batchMessages (bs @ bs') = batchMessages bs @ ms \<and> accounted (bs @ bs') b' (lines @ addedLines es) \<and> buffer_ok b'"
  using assms
proof (induction es b arbitrary: bs lines ms rule: batchRun.induct)
  case (1 b)
  then show ?case by (auto intro!: exI [of _ "[]"])
next
  case (2 line es b)
  have "batchRun es (batcherAdd line b) = (ms, b')" using "2.prems"(3) by simp
  from "2.IH" [OF accounted_add [OF "2.prems"(1)] buffer_ok_add [OF "2.prems"(2)] this]
  show ?case by simp
next
  case (3 es b)
  obtain m b1 where f: "flush b = (m, b1)" by force
  obtain ms1 where r: "batchRun es b1 = (ms1, b')" and ms: "ms = (case m of None \<Rightarrow> ms1 | Some t \<Rightarrow> t # ms1)"
    using "3.prems"(3) f by (auto split: prod.splits)
  let ?kept = "fitting 0 (bLines b)" and ?lost = "bDropped b + (length (bLines b) - length (fitting 0 (bLines b)))"
  have m: "m = (if batchText ?kept ?lost = [] then None else Some (batchText ?kept ?lost))"
    using f by (simp add: flush_effect Let_def)
  have "accounted (bs @ [(?kept, ?lost)]) b1 lines" and "buffer_ok b1"
    using accounted_flush [OF "3.prems"(1)] buffer_ok_flush [OF "3.prems"(2)] f by simp_all
  from "3.IH" [OF f [symmetric] this r]
  obtain bs' where "batchMessages ((bs @ [(?kept, ?lost)]) @ bs') = batchMessages (bs @ [(?kept, ?lost)]) @ ms1"
    and "accounted ((bs @ [(?kept, ?lost)]) @ bs') b' (lines @ addedLines es)" and "buffer_ok b'"
    by auto
  then show ?case
    by (intro exI [of _ "(?kept, ?lost) # bs'"]) (auto simp: ms m batchMessages_def)
qed

text \<open>
  Whatever lines are added and whenever the batcher flushes, the messages it publishes are
  those of a sequence of batches that hold the added lines in their order, such that every line is
  in a batch, counted by the marker of a batch, or still held by the batcher; a batch never
  holds more than \<^verbatim>\<open>maxFlushBytes\<close> and the batcher never more than \<^verbatim>\<open>maxBufferBytes\<close>.
\<close>

theorem log_lines_accounted:
  "let (ms, b) = batchRun es newLogBatcher in
     \<exists>bs. ms = batchMessages bs \<and> accounted bs b (addedLines es) \<and> buffer_ok b"
proof (cases "batchRun es newLogBatcher")
  case (Pair ms b)
  have "accounted [] newLogBatcher []" by (simp add: accounted_def newLogBatcher_def)
  from batchRun_accounted [OF this buffer_ok_new Pair] Pair show ?thesis
    by (auto simp: batchMessages_def)
qed

text \<open>The final flush of \<^verbatim>\<open>close\<close> leaves nothing behind.\<close>

lemma batchRun_append:
  "batchRun (es @ es') b = (case batchRun es b of (ms, b1) \<Rightarrow> case batchRun es' b1 of (ms', b2) \<Rightarrow> (ms @ ms', b2))"
  by (induction es b rule: batchRun.induct) (auto split: prod.split option.split)

lemma closed_batcher_empty: "batchRun (es @ [Tick]) newLogBatcher = (ms, b) \<Longrightarrow> bLines b = [] \<and> bDropped b = 0"
  by (auto simp: batchRun_append flush_effect newLogBatcher_def Let_def split: prod.splits if_splits)

text \<open>Blank lines at the start of a batch are not published, and a batch of blank lines is no message at all.\<close>

lemma leading_blank_lines_lost:
  "fst (batchRun [Add [], Add ''x'', Tick] newLogBatcher) = [''x'']" "fst (batchRun [Add [], Add [], Tick] newLogBatcher) = []"
  by code_simp+

end
