(* ===== verification/AppLogs.thy ===== *)
theory AppLogs
  imports EnvVars Outside LogBatches "HOL-Library.Multiset"
begin

text \<open>
  \<^verbatim>\<open>logging/applog.go\<close>: the log manager, with the log history of \<^verbatim>\<open>persistence/database.go\<close>. A log process is
  an index into the processes ever created, so that the map of active logs, the list of channel
  processes and the goroutines share it as the code's pointers do. A goroutine is a pending task;
  one that follows a stream (\<^verbatim>\<open>emitStream\<close>, \<^verbatim>\<open>emitChannelStream\<close>) is a task with its batcher, and what happens to
  it (a line, a tick of the batcher, the end of the stream) is a step. The sections under a
  process's mutex and the deletion of a subscription are steps of their own, so that all their
  interleavings are runs of the model. A stream is named by the number of the call that opened it.
\<close>

section \<open>State\<close>

datatype log_source = CONTAINER | AGENT

record LogEntry =
  leEntry :: string
  leType :: log_source

record LogProccess =
  lpSubscriptionID :: string
  lpContainerName :: string
  lpStream :: "nat option"
  lpChannelStream :: "nat option"
  lpHistory :: "LogEntry list"
  lpPublish :: bool
  lpActive :: bool

datatype source = ReaderSource | ChannelSource

datatype log_task =
    Follow nat source logBatcher string \<comment> \<open>inside the loop of \<^verbatim>\<open>emitStream\<close> or \<^verbatim>\<open>emitChannelStream\<close>, with its last chunk\<close>
  | Cleanup nat source \<comment> \<open>the deferred goroutine of a stream that ended\<close>
  | Republish nat source
  | EmitTask nat source
  | InitTask string nat
  | StreamTask string "nat option"
  | ClearTask string
  | CreateTask "json list"
  | DeleteTask "json list"
  | DeleteCheck nat string \<comment> \<open>the second half of a deletion: the process was found\<close>
  | ReviveTask "App list" "(string \<times> string list) list"

record LogRow =
  hAppName :: string
  hAppKey :: uint64
  hStage :: Stage
  hType :: LogType
  hLog :: "string list"

record LogManager = outside +
  lmProcs :: "LogProccess list"
  lmActiveLogs :: "(string \<times> nat) list"
  lmEntries :: "nat list" \<comment> \<open>\<^verbatim>\<open>logProcessEntries\<close>\<close>
  lmChannels :: "string list" \<comment> \<open>the keys of \<^verbatim>\<open>logProcessChannelMap\<close>\<close>
  lmRows :: "LogRow list" \<comment> \<open>the table \<^verbatim>\<open>LogHistory\<close>\<close>
  lmTasks :: "log_task list"
  lmSerial :: string
  lmErrorChunk :: "string \<Rightarrow> string" \<comment> \<open>the field \<^verbatim>\<open>error\<close> of \<^verbatim>\<open>json.Unmarshal\<close> into an \<^verbatim>\<open>ErrorChunk\<close>, empty when there is none\<close>

type_synonym 'a lprog = "(LogManager, 'a) state"

definition go :: "log_task \<Rightarrow> err lprog" where
  "go t = ignore (modify (\<lambda>l. l\<lparr>lmTasks := lmTasks l @ [t]\<rparr>))"

definition proc_at :: "nat \<Rightarrow> LogProccess lprog" where
  "proc_at p = gets (\<lambda>l. lmProcs l ! p)"

definition proc_upd :: "nat \<Rightarrow> (LogProccess \<Rightarrow> LogProccess) \<Rightarrow> err lprog" where
  "proc_upd p f = ignore (modify (\<lambda>l. l\<lparr>lmProcs := (lmProcs l)[p := f (lmProcs l ! p)]\<rparr>))"

definition new_proc :: "LogProccess \<Rightarrow> nat lprog" where
  "new_proc lp = do {
     n \<leftarrow> gets (\<lambda>l. length (lmProcs l));
     _ \<leftarrow> modify (\<lambda>l. l\<lparr>lmProcs := lmProcs l @ [lp]\<rparr>);
     ret n }"

definition put_active :: "string \<Rightarrow> nat \<Rightarrow> err lprog" where
  "put_active containerName p = ignore (modify (\<lambda>l. l\<lparr>lmActiveLogs := map_put containerName p (lmActiveLogs l)\<rparr>))"

text \<open>Opening a stream: its number, or the error.\<close>

definition openStream :: "string \<Rightarrow> string list \<Rightarrow> (go_error + nat) lprog" where
  "openStream name args = do {
     n \<leftarrow> gets (\<lambda>l. length (oTrace l));
     r \<leftarrow> ask name args;
     ret (case rpErr r of Some e \<Rightarrow> Inl e | None \<Rightarrow> Inr n) }"

definition buildTopic :: "string \<Rightarrow> string \<Rightarrow> string" where
  "buildTopic serial containerName = ''reswarm.logs.'' @ serial @ ''.'' @ containerName"

definition publishTo :: "string \<Rightarrow> string \<Rightarrow> err lprog" where
  "publishTo containerName text = do {
     serial \<leftarrow> gets lmSerial;
     askE ''Messenger.Publish'' [buildTopic serial containerName, text] }"

section \<open>The log history in the database\<close>

definition same_log :: "string \<Rightarrow> uint64 \<Rightarrow> Stage \<Rightarrow> LogRow \<Rightarrow> bool" where
  "same_log appName appKey stage r \<longleftrightarrow> hAppName r = appName \<and> hAppKey r = appKey \<and> hStage r = stage"

definition upsertLogRow :: "string \<Rightarrow> uint64 \<Rightarrow> Stage \<Rightarrow> string list \<Rightarrow> LogRow list \<Rightarrow> LogRow list" where
  "upsertLogRow appName appKey stage logs rows =
     (if \<exists>r \<in> set rows. same_log appName appKey stage r \<and> hType r = APP
      then map (\<lambda>r. if same_log appName appKey stage r \<and> hType r = APP then r\<lparr>hLog := logs\<rparr> else r) rows
      else rows @ [\<lparr>hAppName = appName, hAppKey = appKey, hStage = stage, hType = APP, hLog = logs\<rparr>])"

definition updateLogRows :: "string \<Rightarrow> uint64 \<Rightarrow> Stage \<Rightarrow> string list \<Rightarrow> LogRow list \<Rightarrow> LogRow list" where
  "updateLogRows appName appKey stage logs = map (\<lambda>r. if same_log appName appKey stage r then r\<lparr>hLog := logs\<rparr> else r)"

text \<open>One transaction; the stage is checked by the schema.\<close>

definition UpsertLogHistory :: "string \<Rightarrow> uint64 \<Rightarrow> Stage \<Rightarrow> string list \<Rightarrow> err lprog" where
  "UpsertLogHistory appName appKey stage logs = steps [
     askE ''sqlite'' [''UpsertLogHistory''],
     (if stage = DEV \<or> stage = PROD'
      then ignore (modify (\<lambda>l. l\<lparr>lmRows := updateLogRows appName appKey stage logs (upsertLogRow appName appKey stage logs (lmRows l))\<rparr>))
      else ret (Some (Msg ''CHECK constraint failed'')))]"

definition ClearAllLogHistory :: "string \<Rightarrow> uint64 \<Rightarrow> Stage \<Rightarrow> err lprog" where
  "ClearAllLogHistory appName appKey stage = steps [
     askE ''sqlite'' [''UpdateLogHistoryEntries''],
     ignore (modify (\<lambda>l. l\<lparr>lmRows := updateLogRows appName appKey stage [] (lmRows l)\<rparr>))]"

definition GetAppLogHistory :: "uint64 \<Rightarrow> Stage \<Rightarrow> (go_error + string list) lprog" where
  "GetAppLogHistory appKey stage = do {
     e \<leftarrow> askE ''sqlite'' [''SelectLogHistoryByAppKeyStageAndType''];
     case e of
       Some x \<Rightarrow> ret (Inl x)
     | None \<Rightarrow> gets (\<lambda>l. case find (\<lambda>r. hAppKey r = appKey \<and> hStage r = stage) (lmRows l) of
                            None \<Rightarrow> Inl (Msg ''no logs found'')
                          | Some r \<Rightarrow> Inr (hLog r)) }"

section \<open>Reading histories\<close>

text \<open>The first active log of that container with entries, in some order of the map.\<close>

definition memoryHistory :: "string \<Rightarrow> LogManager \<Rightarrow> LogEntry list" where
  "memoryHistory containerName l =
     (case find (\<lambda>(_, p). lpContainerName (lmProcs l ! p) = containerName \<and> lpHistory (lmProcs l ! p) \<noteq> []) (lmActiveLogs l) of
        None \<Rightarrow> [] | Some (_, p) \<Rightarrow> lpHistory (lmProcs l ! p))"

definition getPersistedLogHistory :: "string \<Rightarrow> (go_error + LogEntry list) lprog" where
  "getPersistedLogHistory containerName = do {
     inMemory \<leftarrow> gets (memoryHistory containerName);
     if inMemory \<noteq> [] then ret (Inr inMemory)
     else case ParseContainerName containerName of
       Inl e \<Rightarrow> ret (Inl e)
     | Inr (stage, appKey, appName) \<Rightarrow> do {
         app \<leftarrow> ask ''AppStore.GetApp'' [itoa (unat appKey), Stage_string stage];
         if rpErr app \<noteq> None \<or> \<not> rpFlag app then ret (Inr [])
         else do {
           logs \<leftarrow> GetAppLogHistory appKey stage;
           ret (Inr (case logs of Inl _ \<Rightarrow> [] | Inr ls \<Rightarrow> map (\<lambda>x. \<lparr>leEntry = x, leType = CONTAINER\<rparr>) ls)) } } }"

definition onlyAgentLogs :: "LogEntry list \<Rightarrow> bool" where
  "onlyAgentLogs history \<longleftrightarrow> (\<forall>e \<in> set history. leType e \<noteq> CONTAINER)"

definition containerTail :: "string \<Rightarrow> reply lprog" where
  "containerTail containerName = ask ''Container.Logs'' [containerName, ''tail=50'']"

definition composeTail :: "string \<Rightarrow> reply lprog" where
  "composeTail containerName = ask ''Compose.LogsByContainerName'' [containerName @ ''_compose'', ''tail=50'']"

text \<open>\<^verbatim>\<open>getNonAgentLogs\<close> and \<^verbatim>\<open>getNonAgentLogsCompose\<close> differ in where they read from.\<close>

definition nonAgentLogs :: "reply lprog \<Rightarrow> string \<Rightarrow> (go_error + string list) lprog" where
  "nonAgentLogs read containerName = do {
     h \<leftarrow> getPersistedLogHistory containerName;
     case h of
       Inl e \<Rightarrow> ret (Inl e)
     | Inr history \<Rightarrow>
         if onlyAgentLogs history \<or> history = [] then do {
           r \<leftarrow> read;
           ret (Inr (if rpErr r \<noteq> None then [] else rpLines r)) }
         else ret (Inr []) }"

definition getNonAgentLogs :: "string \<Rightarrow> (go_error + string list) lprog" where
  "getNonAgentLogs containerName = nonAgentLogs (containerTail containerName) containerName"

definition getNonAgentLogsCompose :: "string \<Rightarrow> (go_error + string list) lprog" where
  "getNonAgentLogsCompose containerName = nonAgentLogs (composeTail containerName) containerName"

definition GetLogHistory :: "string \<Rightarrow> (go_error + string list) lprog" where
  "GetLogHistory containerName = do {
     h \<leftarrow> getPersistedLogHistory containerName;
     case h of
       Inl e \<Rightarrow> ret (Inl e)
     | Inr history \<Rightarrow>
         if onlyAgentLogs history \<or> history = [] then do {
           r \<leftarrow> containerTail containerName;
           ret (Inr (map leEntry history @ (if rpErr r \<noteq> None then [] else rpLines r))) }
         else ret (Inr (map leEntry history)) }"

section \<open>Following a stream\<close>

definition historyStorageLimit :: nat where
  "historyStorageLimit = 100"

definition appendLog :: "LogEntry \<Rightarrow> LogProccess \<Rightarrow> LogProccess" where
  "appendLog e lp = lp\<lparr>lpHistory := lpHistory lp @ [e]\<rparr>"

definition pushLine :: "string \<Rightarrow> LogProccess \<Rightarrow> LogProccess" where
  "pushLine chunk lp =
     appendLog \<lparr>leEntry = chunk, leType = CONTAINER\<rparr>
       (if length (lpHistory lp) = historyStorageLimit then lp\<lparr>lpHistory := tl (lpHistory lp)\<rparr> else lp)"

definition flushOut :: "nat \<Rightarrow> logBatcher \<Rightarrow> logBatcher lprog" where
  "flushOut p b = do {
     lp \<leftarrow> proc_at p;
     let (text, b') = flush b;
     _ \<leftarrow> (case text of None \<Rightarrow> ret None | Some t \<Rightarrow> publishTo (lpContainerName lp) t);
     ret b' }"

text \<open>What \<^verbatim>\<open>emitStream\<close> and \<^verbatim>\<open>emitChannelStream\<close> do before their loop. \<open>False\<close>: they return nil at once.\<close>

definition beginFollow :: "nat \<Rightarrow> source \<Rightarrow> bool lprog" where
  "beginFollow p src = do {
     lp \<leftarrow> proc_at p;
     if lpActive lp then ret False
     else do {
       _ \<leftarrow> proc_upd p (\<lambda>lp. lp\<lparr>lpActive := True\<rparr>);
       _ \<leftarrow> go (Follow p src newLogBatcher []);
       ret True } }"

definition emitStream :: "nat \<Rightarrow> bool lprog" where
  "emitStream p = do {
     lp \<leftarrow> proc_at p;
     if lpStream lp = None then ret False else beginFollow p ReaderSource }"

definition emitChannelStream :: "nat \<Rightarrow> bool lprog" where
  "emitChannelStream p = do {
     lp \<leftarrow> proc_at p;
     if lpChannelStream lp = None then ret False else beginFollow p ChannelSource }"

definition followLine :: "nat \<Rightarrow> source \<Rightarrow> logBatcher \<Rightarrow> string \<Rightarrow> err lprog" where
  "followLine p src b chunk = do {
     _ \<leftarrow> proc_upd p (pushLine chunk);
     lp \<leftarrow> proc_at p;
     go (Follow p src (if lpPublish lp then batcherAdd chunk b else b) chunk) }"

definition followTick :: "nat \<Rightarrow> source \<Rightarrow> logBatcher \<Rightarrow> string \<Rightarrow> err lprog" where
  "followTick p src b lastChunk = do { b' \<leftarrow> flushOut p b; go (Follow p src b' lastChunk) }"

text \<open>
  The end of the stream with the scanner's error: the batcher is closed, the cleanup is started,
  and this is what the caller of a blocking stream gets.
\<close>

definition streamResult :: "LogManager \<Rightarrow> source \<Rightarrow> string \<Rightarrow> err \<Rightarrow> err" where
  "streamResult l src lastChunk scanErr = (case src of
     ChannelSource \<Rightarrow> None
   | ReaderSource \<Rightarrow> (case scanErr of
       Some e \<Rightarrow> if Contains (Error e) ''use of closed network connection'' then DockerStreamCanceled (Some e) else Some e
     | None \<Rightarrow> if lmErrorChunk l lastChunk \<noteq> [] then Some (Msg (lmErrorChunk l lastChunk)) else None))"

definition followEnd :: "nat \<Rightarrow> source \<Rightarrow> logBatcher \<Rightarrow> string \<Rightarrow> err \<Rightarrow> err lprog" where
  "followEnd p src b lastChunk scanErr = do {
     _ \<leftarrow> flushOut p b;
     _ \<leftarrow> go (Cleanup p src);
     gets (\<lambda>l. streamResult l src lastChunk scanErr) }"

definition cleanup :: "nat \<Rightarrow> source \<Rightarrow> err lprog" where
  "cleanup p src = do {
     _ \<leftarrow> proc_upd p (\<lambda>lp. lp\<lparr>lpActive := False\<rparr>);
     lp \<leftarrow> proc_at p;
     _ \<leftarrow> (case (src, lpStream lp) of
             (ReaderSource, Some s) \<Rightarrow> askE ''Stream.Close'' [itoa s]
           | _ \<Rightarrow> ret None);
     case ParseContainerName (lpContainerName lp) of
       Inl _ \<Rightarrow> ret None
     | Inr (stage, appKey, appName) \<Rightarrow> do {
         e \<leftarrow> UpsertLogHistory appName appKey stage (map leEntry (lpHistory lp));
         if e \<noteq> None then ret None else go (Republish p src) } }"

fun publishAll :: "string \<Rightarrow> string list \<Rightarrow> err lprog" where
  "publishAll containerName [] = ret None"
| "publishAll containerName (x # xs) = do { _ \<leftarrow> publishTo containerName x; publishAll containerName xs }"

definition republish :: "nat \<Rightarrow> source \<Rightarrow> err lprog" where
  "republish p src = do {
     lp \<leftarrow> proc_at p;
     logs \<leftarrow> (case src of ReaderSource \<Rightarrow> getNonAgentLogs (lpContainerName lp) | ChannelSource \<Rightarrow> getNonAgentLogsCompose (lpContainerName lp));
     case logs of Inl _ \<Rightarrow> ret None | Inr ls \<Rightarrow> publishAll (lpContainerName lp) ls }"

section \<open>Starting to follow\<close>

text \<open>What the router answers to \<^verbatim>\<open>wamp.subscription.match\<close>, as the identifier to compare with.\<close>

definition subscriptionIDOf :: "json \<Rightarrow> string" where
  "subscriptionIDOf arguments = (case arguments of
     JArr (JNull # _) \<Rightarrow> []
   | JArr (JArr [] # _) \<Rightarrow> []
   | JArr (JArr (i # _) # _) \<Rightarrow> Sprint i
   | JArr (i # _) \<Rightarrow> Sprint i
   | _ \<Rightarrow> [])"

definition getActiveSubscriptionID :: "string \<Rightarrow> (go_error + string) lprog" where
  "getActiveSubscriptionID containerName = do {
     serial \<leftarrow> gets lmSerial;
     r \<leftarrow> ask ''Messenger.Call'' [''wamp.subscription.match'', buildTopic serial containerName];
     ret (case rpErr r of Some e \<Rightarrow> Inl e | None \<Rightarrow> Inr (subscriptionIDOf (rpJson r))) }"

definition freshProcess :: "string \<Rightarrow> string \<Rightarrow> nat option \<Rightarrow> nat option \<Rightarrow> LogProccess" where
  "freshProcess containerName sid reader channel =
     \<lparr>lpSubscriptionID = sid, lpContainerName = containerName, lpStream = reader, lpChannelStream = channel,
      lpHistory = [], lpPublish = (sid \<noteq> []), lpActive = False\<rparr>"

definition initLogStream :: "string \<Rightarrow> nat \<Rightarrow> (go_error + bool) lprog" where
  "initLogStream containerName stream = do {
     active \<leftarrow> gets lmActiveLogs;
     case map_of active containerName of
       Some p \<Rightarrow> do {
         _ \<leftarrow> proc_upd p (\<lambda>lp. lp\<lparr>lpStream := Some stream\<rparr>);
         b \<leftarrow> emitStream p;
         ret (Inr b) }
     | None \<Rightarrow> do {
         i \<leftarrow> getActiveSubscriptionID containerName;
         case i of
           Inl e \<Rightarrow> do { _ \<leftarrow> ask ''Stream.Close'' [itoa stream]; ret (Inl e) }
         | Inr sid \<Rightarrow> do {
             p \<leftarrow> new_proc (freshProcess containerName sid (Some stream) None);
             _ \<leftarrow> put_active containerName p;
             b \<leftarrow> emitStream p;
             ret (Inr b) } } }"

definition StreamBlocking :: "string \<Rightarrow> nat option \<Rightarrow> (go_error + bool) lprog" where
  "StreamBlocking containerName reader = (case reader of None \<Rightarrow> ret (Inr False) | Some s \<Rightarrow> initLogStream containerName s)"

definition Stream :: "string \<Rightarrow> nat option \<Rightarrow> err lprog" where
  "Stream containerName otherReader = go (StreamTask containerName otherReader)"

definition getLogStream :: "string \<Rightarrow> (go_error + nat) lprog" where
  "getLogStream containerName = openStream ''Container.Logs'' [containerName, ''follow'']"

definition streamContainer :: "string \<Rightarrow> nat option \<Rightarrow> err lprog" where
  "streamContainer containerName otherReader = do {
     reader \<leftarrow> getLogStream containerName;
     case reader of
       Inr s \<Rightarrow> go (InitTask containerName s)
     | Inl e \<Rightarrow>
         if \<not> IsContainerNotFound (Some e) then ret None
         else (case otherReader of Some s \<Rightarrow> go (InitTask containerName s) | None \<Rightarrow> ret None) }"

text \<open>
  Every call starts a consumer of the container's channel, and the send meets one that waits: it
  emits the process.
\<close>

definition SetupLogConsumer :: "string \<Rightarrow> err lprog" where
  "SetupLogConsumer containerName = ignore (modify (\<lambda>l. l\<lparr>lmChannels := List.insert containerName (lmChannels l)\<rparr>))"

definition addLogProcess :: "nat \<Rightarrow> err lprog" where
  "addLogProcess p = do {
     l \<leftarrow> State_Monad.get;
     if \<exists>q \<in> set (lmEntries l). lpChannelStream (lmProcs l ! q) = lpChannelStream (lmProcs l ! p) then ret None
     else do {
       _ \<leftarrow> modify (\<lambda>l. l\<lparr>lmEntries := lmEntries l @ [p]\<rparr>);
       _ \<leftarrow> put_active (lpContainerName (lmProcs l ! p)) p;
       _ \<leftarrow> SetupLogConsumer (lpContainerName (lmProcs l ! p));
       go (EmitTask p ChannelSource) } }"

definition StreamLogsChannel :: "nat \<Rightarrow> string \<Rightarrow> (go_error + nat) lprog" where
  "StreamLogsChannel channel containerName = do {
     i \<leftarrow> getActiveSubscriptionID containerName;
     case i of
       Inl e \<Rightarrow> ret (Inl e)
     | Inr sid \<Rightarrow> do {
         p \<leftarrow> new_proc (freshProcess containerName sid None (Some channel));
         _ \<leftarrow> addLogProcess p;
         ret (Inr p) } }"

section \<open>Reviving after a connection\<close>

definition panic :: "string \<Rightarrow> go_error" where
  "panic what = Msg (''panic: '' @ what)"


text \<open>
  An error of the lookup is only logged; its result has no arguments then, and the index panics.
  The identifier is printed as it came: a list of identifiers stays in its brackets.
\<close>

definition reviveReader :: "string \<Rightarrow> json \<Rightarrow> err lprog" where
  "reviveReader containerName sid = do {
     reader \<leftarrow> getLogStream containerName;
     let stream = (case reader of Inl _ \<Rightarrow> None | Inr s \<Rightarrow> Some s);
     p \<leftarrow> new_proc ((freshProcess containerName (if sid = JNull then [] else Sprint sid) stream None)\<lparr>lpPublish := (sid \<noteq> JNull)\<rparr>);
     _ \<leftarrow> put_active containerName p;
     if stream \<noteq> None then go (EmitTask p ReaderSource) else ret None }"

definition reviveStream :: "(string \<times> string list) list \<Rightarrow> string \<Rightarrow> string \<Rightarrow> err lprog" where
  "reviveStream composeEntries containerName composeAppName = do {
     serial \<leftarrow> gets lmSerial;
     r \<leftarrow> ask ''Messenger.Call'' [''wamp.subscription.match'', buildTopic serial containerName];
     case (rpErr r, rpJson r) of
       (None, JArr (sid # _)) \<Rightarrow>
         (case map_of composeEntries composeAppName of
            Some configFiles \<Rightarrow> do {
              logStream \<leftarrow> openStream ''Compose.LogStream'' configFiles;
              case logStream of
                Inl _ \<Rightarrow> ret None
              | Inr s \<Rightarrow> ignore (StreamLogsChannel s containerName) }
          | None \<Rightarrow> reviveReader containerName sid)
     | _ \<Rightarrow> ret (Some (panic ''index out of range'')) }"

definition reviveApp :: "(string \<times> string list) list \<Rightarrow> App \<Rightarrow> err lprog" where
  "reviveApp composeEntries app = do {
     let containerName = BuildContainerName (aStage app) (aAppKey app) (aAppName app);
     l \<leftarrow> State_Monad.get;
     let followed = (case map_of (lmActiveLogs l) containerName of
           Some p \<Rightarrow> lpActive (lmProcs l ! p) \<and> lpStream (lmProcs l ! p) \<noteq> None | None \<Rightarrow> False);
     if followed then ret None
     else reviveStream composeEntries containerName (BuildComposeContainerName (aStage app) (aAppKey app) (aAppName app)) }"

text \<open>The apps are what the app store answers to \<^verbatim>\<open>GetAllApps\<close>. A panic ends the goroutine.\<close>

definition ReviveDeadLogs :: "go_error + App list \<Rightarrow> err lprog" where
  "ReviveDeadLogs appStates = (case appStates of
     Inl e \<Rightarrow> ret (Some e)
   | Inr apps \<Rightarrow> do {
       list \<leftarrow> ask ''Compose.List'' [];
       case rpErr list of Some e \<Rightarrow> ret (Some e) | None \<Rightarrow> go (ReviveTask apps (rpStrs list)) })"

section \<open>Subscriptions\<close>

definition regate :: "bool \<Rightarrow> string \<Rightarrow> LogProccess \<Rightarrow> LogProccess" where
  "regate state sid lp = lp\<lparr>lpPublish := state, lpSubscriptionID := sid\<rparr>"

definition setPublishStateByContainerName :: "string \<Rightarrow> string \<Rightarrow> bool \<Rightarrow> err lprog" where
  "setPublishStateByContainerName containerName subscriptionID state = ignore (modify (\<lambda>l. l\<lparr>lmProcs :=
     fold (\<lambda>p procs. if lpContainerName (procs ! p) = containerName
                      then procs[p := regate state subscriptionID (procs ! p)] else procs)
       (lmEntries l) (lmProcs l)\<rparr>))"

definition onSubscriptionCreated :: "json list \<Rightarrow> err lprog" where
  "onSubscriptionCreated arguments = (case arguments of
     _ # subscription # _ \<Rightarrow>
       let uri = Sprint (obj_get subscription ''uri''); sid = Sprint (obj_get subscription ''id'');
           topicSplit = Split (CHR ''.'') uri in
       if \<not> HasPrefix uri ''reswarm.logs.'' \<or> length topicSplit < 4 then ret None
       else do {
         let containerName = topicSplit ! 3;
         serial \<leftarrow> gets lmSerial;
         if topicSplit ! 2 \<noteq> serial then ret None
         else do {
           _ \<leftarrow> setPublishStateByContainerName containerName sid True;
           active \<leftarrow> gets lmActiveLogs;
           case map_of active containerName of
             Some p \<Rightarrow> proc_upd p (regate True sid)
           | None \<Rightarrow> do {
               p \<leftarrow> new_proc (regate True sid (freshProcess containerName sid None None));
               put_active containerName p } } }
   | _ \<Rightarrow> ret (Some (panic ''index out of range'')))"

definition GetLogTaskBySubscriptionID :: "LogManager \<Rightarrow> string \<Rightarrow> nat option" where
  "GetLogTaskBySubscriptionID l sid =
     map_option snd (find (\<lambda>(_, p). lpSubscriptionID (lmProcs l ! p) = sid) (lmActiveLogs l))"

definition onSubscriptionDeleted :: "json list \<Rightarrow> err lprog" where
  "onSubscriptionDeleted arguments = (case arguments of
     _ # i # _ \<Rightarrow> do {
       found \<leftarrow> gets (\<lambda>l. GetLogTaskBySubscriptionID l (Sprint i));
       case found of None \<Rightarrow> ret None | Some p \<Rightarrow> go (DeleteCheck p (Sprint i)) }
   | _ \<Rightarrow> ret (Some (panic ''index out of range'')))"

definition closeGate :: "nat \<Rightarrow> string \<Rightarrow> err lprog" where
  "closeGate p sid = proc_upd p (\<lambda>lp. if lpSubscriptionID lp = sid then lp\<lparr>lpPublish := False\<rparr> else lp)"

section \<open>Writing\<close>

definition Write :: "string \<Rightarrow> string \<Rightarrow> err lprog" where
  "Write containerName text = do {
     active \<leftarrow> gets lmActiveLogs;
     _ \<leftarrow> (case map_of active containerName of
             None \<Rightarrow> ret None
           | Some p \<Rightarrow> proc_upd p (appendLog \<lparr>leEntry = text, leType = AGENT\<rparr>));
     publishTo containerName text }"

definition Publish :: "string \<Rightarrow> string \<Rightarrow> err lprog" where
  "Publish containerName text = publishTo containerName text"

definition PublishProgress :: "string \<Rightarrow> string \<Rightarrow> string \<Rightarrow> string \<Rightarrow> err lprog" where
  "PublishProgress containerName sid status progress = do {
     serial \<leftarrow> gets lmSerial;
     askE ''Messenger.Publish'' [buildTopic serial containerName, sid, status, progress] }"

definition ClearRemote :: "string \<Rightarrow> err lprog" where
  "ClearRemote containerName = Publish containerName ''LOGGER_CLEAR''"

definition ClearLogHistory :: "string \<Rightarrow> err lprog" where
  "ClearLogHistory containerName = do {
     active \<leftarrow> gets lmActiveLogs;
     _ \<leftarrow> (case map_of active containerName of None \<Rightarrow> ret None | Some p \<Rightarrow> proc_upd p (\<lambda>lp. lp\<lparr>lpHistory := []\<rparr>));
     go (ClearTask containerName) }"

definition clearStored :: "string \<Rightarrow> err lprog" where
  "clearStored containerName = (case ParseContainerName containerName of
     Inl _ \<Rightarrow> ret None | Inr (stage, appKey, appName) \<Rightarrow> ClearAllLogHistory appName appKey stage)"

definition NewLogManager :: "LogManager \<Rightarrow> LogManager" where
  "NewLogManager l = l\<lparr>lmProcs := [], lmActiveLogs := [], lmEntries := [], lmChannels := [], lmTasks := []\<rparr>"

section \<open>Goroutines and steps\<close>

definition runLogTask :: "log_task \<Rightarrow> err lprog" where
  "runLogTask t = (case t of
     Cleanup p src \<Rightarrow> cleanup p src
   | Republish p src \<Rightarrow> republish p src
   | EmitTask p src \<Rightarrow> ignore (case src of ReaderSource \<Rightarrow> emitStream p | ChannelSource \<Rightarrow> emitChannelStream p)
   | InitTask containerName stream \<Rightarrow> ignore (initLogStream containerName stream)
   | StreamTask containerName other \<Rightarrow> streamContainer containerName other
   | ClearTask containerName \<Rightarrow> clearStored containerName
   | CreateTask arguments \<Rightarrow> onSubscriptionCreated arguments
   | DeleteTask arguments \<Rightarrow> onSubscriptionDeleted arguments
   | DeleteCheck p sid \<Rightarrow> closeGate p sid
   | ReviveTask apps composeEntries \<Rightarrow> steps (map (reviveApp composeEntries) apps)
   | Follow p src b lastChunk \<Rightarrow> followTick p src b lastChunk)"

inductive log_step :: "LogManager \<Rightarrow> LogManager \<Rightarrow> bool" where
  agent_line: "log_step l (snd (run_state (Write containerName text) l))"
| published: "log_step l (snd (run_state (Publish containerName text) l))"
| progress: "log_step l (snd (run_state (PublishProgress containerName sid status text) l))"
| clear: "log_step l (snd (run_state (ClearLogHistory containerName) l))"
| blocking: "log_step l (snd (run_state (StreamBlocking containerName reader) l))"
| stream: "log_step l (snd (run_state (Stream containerName reader) l))"
| channel: "log_step l (snd (run_state (StreamLogsChannel c containerName) l))"
| revive: "log_step l (snd (run_state (ReviveDeadLogs apps) l))"
| query: "log_step l (snd (run_state (GetLogHistory containerName) l))"
| created: "log_step l (snd (run_state (go (CreateTask arguments)) l))"
| deleted: "log_step l (snd (run_state (go (DeleteTask arguments)) l))"
| line: "lmTasks l = before @ Follow p src b lastChunk # after \<Longrightarrow>
    log_step l (snd (run_state (followLine p src b chunk) (l\<lparr>lmTasks := before @ after\<rparr>)))"
| ended: "lmTasks l = before @ Follow p src b lastChunk # after \<Longrightarrow>
    log_step l (snd (run_state (followEnd p src b lastChunk e) (l\<lparr>lmTasks := before @ after\<rparr>)))"
| goroutine: "lmTasks l = before @ t # after \<Longrightarrow> log_step l (snd (run_state (runLogTask t) (l\<lparr>lmTasks := before @ after\<rparr>)))"

inductive log_reachable :: "LogManager \<Rightarrow> bool" where
  new: "log_reachable (NewLogManager l)"
| step: "log_reachable l \<Longrightarrow> log_step l l' \<Longrightarrow> log_reachable l'"


section \<open>One reader per log process\<close>

text \<open>
  The tasks that read a process: it is being followed, or the goroutine that ends this is pending.
  \<open>E\<close> are the readers a running step has taken out of the tasks.
\<close>

fun reads :: "nat \<Rightarrow> log_task \<Rightarrow> bool" where
  "reads p (Follow q _ _ _) = (q = p)"
| "reads p (Cleanup q _) = (q = p)"
| "reads p _ = False"

fun task_procs :: "log_task \<Rightarrow> nat list" where
  "task_procs (Follow p _ _ _) = [p]"
| "task_procs (Cleanup p _) = [p]"
| "task_procs (Republish p _) = [p]"
| "task_procs (EmitTask p _) = [p]"
| "task_procs (DeleteCheck p _) = [p]"
| "task_procs _ = []"

definition readers :: "nat \<Rightarrow> LogManager \<Rightarrow> nat" where
  "readers p l = length (filter (reads p) (lmTasks l))"

definition maps_ok :: "LogManager \<Rightarrow> bool" where
  "maps_ok l \<longleftrightarrow>
     distinct (map fst (lmActiveLogs l))
   \<and> (\<forall>(c, p) \<in> set (lmActiveLogs l). p < length (lmProcs l) \<and> lpContainerName (lmProcs l ! p) = c)
   \<and> (\<forall>p \<in> set (lmEntries l). p < length (lmProcs l))
   \<and> distinct (map (\<lambda>p. lpChannelStream (lmProcs l ! p)) (lmEntries l))
   \<and> (\<forall>t \<in> set (lmTasks l). \<forall>p \<in> set (task_procs t). p < length (lmProcs l))"

definition log_ok :: "nat multiset \<Rightarrow> LogManager \<Rightarrow> bool" where
  "log_ok E l \<longleftrightarrow> maps_ok l \<and> (\<forall>p \<in># E. p < length (lmProcs l))
     \<and> (\<forall>p < length (lmProcs l). readers p l + count E p = (if lpActive (lmProcs l ! p) then 1 else 0))"

text \<open>Processes stay where they are and keep their container and their channel.\<close>

definition stable :: "LogManager \<Rightarrow> LogManager \<Rightarrow> bool" where
  "stable l l' \<longleftrightarrow> length (lmProcs l) \<le> length (lmProcs l')
     \<and> (\<forall>p < length (lmProcs l). lpContainerName (lmProcs l' ! p) = lpContainerName (lmProcs l ! p)
          \<and> lpChannelStream (lmProcs l' ! p) = lpChannelStream (lmProcs l ! p))"

definition named :: "(nat \<times> string) set \<Rightarrow> LogManager \<Rightarrow> bool" where
  "named N l \<longleftrightarrow> (\<forall>(p, c) \<in> N. p < length (lmProcs l) \<and> lpContainerName (lmProcs l ! p) = c)"

definition stays :: "(nat \<times> string) set \<Rightarrow> LogManager \<Rightarrow> LogManager \<Rightarrow> bool" where
  "stays N l l' \<longleftrightarrow> (\<forall>E. named N l \<longrightarrow> log_ok E l \<longrightarrow> stable l l' \<and> log_ok E l')"

lemma stable_named: "stable l l' \<Longrightarrow> named N l \<Longrightarrow> named N l'"
  by (fastforce simp: stable_def named_def)

lemma stable_trans: "stable u v \<Longrightarrow> stable v w \<Longrightarrow> stable u w"
  by (fastforce simp: stable_def)

lemma staysI: "(\<And>E. log_ok E l \<Longrightarrow> named N l \<Longrightarrow> stable l l') \<Longrightarrow> (\<And>E. log_ok E l \<Longrightarrow> named N l \<Longrightarrow> log_ok E l') \<Longrightarrow> stays N l l'"
  by (simp add: stays_def)

lemma readers_valid: "maps_ok l \<Longrightarrow> 0 < readers p l \<Longrightarrow> p < length (lmProcs l)"
proof -
  assume ok: "maps_ok l" and "0 < readers p l"
  then obtain t where "t \<in> set (lmTasks l)" "reads p t"
    by (auto simp: readers_def filter_empty_conv)
  with ok show ?thesis by (cases t) (auto simp: maps_ok_def)
qed

text \<open>A change of the fields the invariant does not read.\<close>

lemma stays_same:
  assumes "lmProcs l' = lmProcs l" "lmActiveLogs l' = lmActiveLogs l" "lmEntries l' = lmEntries l" "lmTasks l' = lmTasks l"
  shows "stays N l l'"
  using assms by (simp add: stays_def log_ok_def maps_ok_def readers_def stable_def)

interpretation stay: asking_relation "stays N" for N
proof
  show "stays N l l" for l by (simp add: stays_def stable_def)
  show "stays N u w" if "stays N u v" "stays N v w" for u v w
    using that stable_trans stable_named unfolding stays_def by blast
  show "stays N l (l\<lparr>oTrace := t\<rparr>)" for l t
    by (rule stays_same) simp_all
qed

lemma stays_weaken: "keeps (stays N) m \<Longrightarrow> N \<subseteq> N' \<Longrightarrow> keeps (stays N') m"
  by (fastforce simp: keeps_def stays_def named_def)

lemma stays_fields:
  assumes "\<And>l. lmProcs (f l) = lmProcs l" "\<And>l. lmActiveLogs (f l) = lmActiveLogs l" "\<And>l. lmEntries (f l) = lmEntries l" "\<And>l. lmTasks (f l) = lmTasks l"
  shows "keeps (stays N) (modify f)"
  by (rule stay.keeps_modify, rule stays_same) (simp_all add: assms)

text \<open>Updating a process in what the invariant does not read.\<close>

definition same_role :: "(LogProccess \<Rightarrow> LogProccess) \<Rightarrow> bool" where
  "same_role f \<longleftrightarrow> (\<forall>lp. lpContainerName (f lp) = lpContainerName lp \<and> lpChannelStream (f lp) = lpChannelStream lp \<and> lpActive (f lp) = lpActive lp)"

lemma nth_role:
  assumes "same_role f"
  shows "lpContainerName (xs[p := f (xs ! p)] ! q) = lpContainerName (xs ! q)"
    "lpChannelStream (xs[p := f (xs ! p)] ! q) = lpChannelStream (xs ! q)"
    "lpActive (xs[p := f (xs ! p)] ! q) = lpActive (xs ! q)"
proof -
  have "xs[p := f (xs ! p)] ! q = (if p < length xs \<and> q = p then f (xs ! q) else xs ! q)"
    by (cases "p < length xs"; cases "q = p") (simp_all add: list_update_beyond)
  then show "lpContainerName (xs[p := f (xs ! p)] ! q) = lpContainerName (xs ! q)"
    "lpChannelStream (xs[p := f (xs ! p)] ! q) = lpChannelStream (xs ! q)"
    "lpActive (xs[p := f (xs ! p)] ! q) = lpActive (xs ! q)"
    using assms by (auto simp: same_role_def)
qed

lemma proc_upd_stays: "same_role f \<Longrightarrow> keeps (stays N) (proc_upd p f)"
  unfolding proc_upd_def
  by (intro stay.keeps_ignore stay.keeps_modify staysI) (simp_all add: log_ok_def maps_ok_def readers_def stable_def nth_role)

lemma same_roles:
  "same_role (pushLine chunk)" "same_role (appendLog e)" "same_role (regate True sid)" "same_role (\<lambda>lp. lp\<lparr>lpStream := s\<rparr>)"
  "same_role (\<lambda>lp. lp\<lparr>lpHistory := h\<rparr>)" "same_role (\<lambda>lp. if lpSubscriptionID lp = sid then lp\<lparr>lpPublish := False\<rparr> else lp)"
  by (simp_all add: same_role_def pushLine_def appendLog_def regate_def)

lemma setPublish_stays: "keeps (stays N) (setPublishStateByContainerName c sid state)"
proof -
  let ?f = "\<lambda>p procs. if lpContainerName (procs ! p) = c then procs[p := regate state sid (procs ! p)] else procs"
  have role: "same_role (regate state sid)" by (simp add: same_role_def regate_def)
  note nth = nth_role [OF role]
  have same: "length (fold ?f ps procs) = length procs \<and> lpContainerName (fold ?f ps procs ! q) = lpContainerName (procs ! q)
      \<and> lpChannelStream (fold ?f ps procs ! q) = lpChannelStream (procs ! q) \<and> lpActive (fold ?f ps procs ! q) = lpActive (procs ! q)"
    for ps procs q
    by (induction ps arbitrary: procs) (simp_all add: nth)
  show ?thesis unfolding setPublishStateByContainerName_def
    by (intro stay.keeps_ignore stay.keeps_modify staysI) (simp_all add: log_ok_def maps_ok_def readers_def stable_def same)
qed

lemma go_stays:
  assumes "\<And>p. p \<in> set (task_procs t) \<Longrightarrow> p \<in> fst ` N" and "\<And>p. \<not> reads p t"
  shows "keeps (stays N) (go t)"
  unfolding go_def
proof (intro stay.keeps_ignore stay.keeps_modify staysI)
  fix l E assume ok: "log_ok E l" and "named N l"
  then have "p < length (lmProcs l)" if "p \<in> set (task_procs t)" for p
    using assms(1) [OF that] by (auto simp: named_def)
  with ok assms(2) show "log_ok E (l\<lparr>lmTasks := lmTasks l @ [t]\<rparr>)"
    by (auto simp: log_ok_def maps_ok_def readers_def)
qed (simp add: stable_def)

lemma put_active_stays: "(p, c) \<in> N \<Longrightarrow> keeps (stays N) (put_active c p)"
  unfolding put_active_def
proof (intro stay.keeps_ignore stay.keeps_modify staysI)
  fix l E assume "(p, c) \<in> N" "log_ok E l" "named N l"
  then show "log_ok E (l\<lparr>lmActiveLogs := map_put c p (lmActiveLogs l)\<rparr>)"
    by (auto simp: log_ok_def maps_ok_def readers_def named_def map_put_def distinct_map_filter)
qed (simp add: stable_def)

lemma bind_new_stays:
  assumes "\<not> lpActive lp" and "\<And>p. keeps (stays (insert (p, lpContainerName lp) N)) (f p)"
  shows "keeps (stays N) (State_Monad.bind (new_proc lp) f)"
  unfolding keeps_wp
proof
  fix l :: LogManager
  let ?p = "length (lmProcs l)" and ?l = "l\<lparr>lmProcs := lmProcs l @ [lp]\<rparr>"
  have stable: "stable l ?l" by (simp add: stable_def nth_append)
  have ok: "log_ok E ?l" if "log_ok E l" for E
  proof -
    have "readers ?p l = 0" using readers_valid [of l ?p] that by (auto simp: log_ok_def)
    moreover have "count E ?p = 0" using that by (metis log_ok_def less_irrefl count_eq_zero_iff)
    moreover have "readers q ?l = readers q l" for q by (simp add: readers_def)
    moreover have "maps_ok ?l"
    proof -
      have "map (\<lambda>p. lpChannelStream (lmProcs ?l ! p)) (lmEntries l) = map (\<lambda>p. lpChannelStream (lmProcs l ! p)) (lmEntries l)"
        using that by (intro map_cong) (auto simp: log_ok_def maps_ok_def nth_append)
      moreover have "p < length (lmProcs ?l) \<and> lpContainerName (lmProcs ?l ! p) = c" if "(c, p) \<in> set (lmActiveLogs l)" for c p
        using that \<open>log_ok E l\<close> by (auto simp: log_ok_def maps_ok_def nth_append)
      ultimately show ?thesis using that by (auto simp: log_ok_def maps_ok_def less_SucI simp del: map_eq_conv)
    qed
    ultimately show ?thesis
      using that assms(1) by (auto simp: log_ok_def nth_append less_Suc_eq)
  qed
  have "stays N l l'" if "stays (insert (?p, lpContainerName lp) N) ?l l'" for l'
  proof (rule staysI)
    fix E assume E: "log_ok E l" "named N l"
    then have "named (insert (?p, lpContainerName lp) N) ?l" using stable_named [OF stable] by (simp add: named_def)
    with that ok [OF E(1)] have "stable ?l l' \<and> log_ok E l'" unfolding stays_def by blast
    then show "stable l l'" "log_ok E l'" using stable stable_trans by blast+
  qed
  then have "wp (f ?p) (\<lambda>_. stays N l) ?l"
    using assms(2) [of ?p] unfolding keeps_wp by (blast intro: wp_mono)
  then show "wp (State_Monad.bind (new_proc lp) f) (\<lambda>_. stays N l) l"
    by (simp add: new_proc_def wp_simps)
qed

lemma bind_active_stays:
  assumes "keeps (stays N) m" and "\<And>p. keeps (stays (insert (p, c) N)) (f p)"
  shows "keeps (stays N) (State_Monad.bind (gets lmActiveLogs) (\<lambda>active. case map_of active c of None \<Rightarrow> m | Some p \<Rightarrow> f p))"
  unfolding keeps_wp wp_bind wp_gets
proof
  fix l :: LogManager
  show "wp (case map_of (lmActiveLogs l) c of None \<Rightarrow> m | Some p \<Rightarrow> f p) (\<lambda>_. stays N l) l"
  proof (cases "map_of (lmActiveLogs l) c")
    case None
    with assms(1) show ?thesis by (simp add: keeps_wp)
  next
    case (Some p)
    have "named (insert (p, c) N) l" if "log_ok E l" "named N l" for E
      using that map_of_SomeD [OF Some] by (auto simp: log_ok_def maps_ok_def named_def)
    then have "stays N l l'" if "stays (insert (p, c) N) l l'" for l'
      using that by (simp add: stays_def)
    then have "wp (f p) (\<lambda>_. stays N l) l"
      using assms(2) [of p] unfolding keeps_wp by (blast intro: wp_mono)
    with Some show ?thesis by simp
  qed
qed

lemma proc_at_stays: "keeps (stays N) (proc_at p)"
  unfolding proc_at_def by (rule stay.keeps_gets)

lemma beginFollow_stays:
  assumes "p \<in> fst ` N"
  shows "keeps (stays N) (beginFollow p src)"
  unfolding keeps_wp
proof
  fix l :: LogManager
  let ?t = "Follow p src newLogBatcher []"
  let ?l = "l\<lparr>lmProcs := (lmProcs l)[p := (lmProcs l ! p)\<lparr>lpActive := True\<rparr>], lmTasks := lmTasks l @ [?t]\<rparr>"
  have roles: "lpContainerName (lmProcs ?l ! q) = lpContainerName (lmProcs l ! q)"
    "lpChannelStream (lmProcs ?l ! q) = lpChannelStream (lmProcs l ! q)" if "q < length (lmProcs l)" for q
    using that by (cases "p < length (lmProcs l)"; cases "q = p"; simp add: list_update_beyond)+
  have "stays N l ?l" if inactive: "\<not> lpActive (lmProcs l ! p)"
  proof (rule staysI)
    show "stable l ?l" using roles by (simp add: stable_def)
    fix E assume ok: "log_ok E l" and "named N l"
    with assms have p: "p < length (lmProcs l)" by (auto simp: named_def)
    have "map (\<lambda>p. lpChannelStream (lmProcs ?l ! p)) (lmEntries l) = map (\<lambda>p. lpChannelStream (lmProcs l ! p)) (lmEntries l)"
      using ok roles by (intro map_cong) (auto simp: log_ok_def maps_ok_def)
    then have "maps_ok ?l" using ok roles p by (fastforce simp: log_ok_def maps_ok_def simp del: map_eq_conv)
    moreover have "readers q ?l = readers q l + (if q = p then 1 else 0)" for q by (simp add: readers_def)
    ultimately show "log_ok E ?l" using ok p inactive by (auto simp: log_ok_def nth_list_update)
  qed
  then show "wp (beginFollow p src) (\<lambda>_. stays N l) l"
    by (auto simp: beginFollow_def proc_at_def proc_upd_def go_def wp_simps stay.R_refl)
qed

lemma emit_stays:
  assumes "p \<in> fst ` N"
  shows "keeps (stays N) (emitStream p)" "keeps (stays N) (emitChannelStream p)"
  unfolding emitStream_def emitChannelStream_def
  by (intro stay.asking proc_at_stays beginFollow_stays assms)+

lemma publish_stays: "keeps (stays N) (publishTo c t)" "keeps (stays N) (publishAll c ts)"
  by (induction ts) (auto simp: publishTo_def intro!: stay.asking)

lemma rows_stays:
  "keeps (stays N) (UpsertLogHistory n k s logs)" "keeps (stays N) (ClearAllLogHistory n k s)" "keeps (stays N) (GetAppLogHistory k s)"
  unfolding UpsertLogHistory_def ClearAllLogHistory_def GetAppLogHistory_def
  by (intro stay.asking stays_fields; simp)+

lemma history_stays:
  "keeps (stays N) (getPersistedLogHistory c)" "keeps (stays N) (getNonAgentLogs c)" "keeps (stays N) (getNonAgentLogsCompose c)"
  "keeps (stays N) (GetLogHistory c)" "keeps (stays N) (clearStored c)"
  unfolding getPersistedLogHistory_def getNonAgentLogs_def getNonAgentLogsCompose_def nonAgentLogs_def GetLogHistory_def
    containerTail_def composeTail_def clearStored_def
  by (intro stay.asking rows_stays)+

lemma flushOut_stays: "keeps (stays N) (flushOut p b)"
  unfolding flushOut_def by (intro stay.asking proc_at_stays publish_stays)

lemma calls_stays: "keeps (stays N) (openStream name args)" "keeps (stays N) (getActiveSubscriptionID c)" "keeps (stays N) (getLogStream c)"
  unfolding openStream_def getActiveSubscriptionID_def getLogStream_def by (intro stay.asking)+

lemma consumer_stays: "keeps (stays N) (SetupLogConsumer c)"
  unfolding SetupLogConsumer_def by (intro stay.keeps_ignore stays_fields) simp_all

lemmas stay_rules = stay.asking proc_at_stays proc_upd_stays same_roles publish_stays rows_stays history_stays flushOut_stays
  calls_stays consumer_stays setPublish_stays

lemma fresh_simps [simp]:
  "lpActive (freshProcess c sid s ch) = False" "lpContainerName (freshProcess c sid s ch) = c" "lpChannelStream (freshProcess c sid s ch) = ch"
  "lpActive (regate st sid lp) = lpActive lp" "lpContainerName (regate st sid lp) = lpContainerName lp"
  by (simp_all add: freshProcess_def regate_def)

lemma initLogStream_stays: "keeps (stays N) (initLogStream c s)"
  unfolding initLogStream_def
  by (intro bind_active_stays stay_rules bind_new_stays emit_stays put_active_stays) simp_all

lemma addLogProcess_stays:
  assumes "(p, c) \<in> N"
  shows "keeps (stays N) (addLogProcess p)"
  unfolding keeps_wp
proof
  fix l :: LogManager
  let ?l = "l\<lparr>lmEntries := lmEntries l @ [p]\<rparr>" and ?new = "\<not> (\<exists>q \<in> set (lmEntries l). lpChannelStream (lmProcs l ! q) = lpChannelStream (lmProcs l ! p))"
  let ?rest = "\<lambda>c. do { _ \<leftarrow> put_active c p; _ \<leftarrow> SetupLogConsumer c; go (EmitTask p ChannelSource) }"
  have added: "stays N l ?l" if ?new
  proof (rule staysI)
    fix E assume "log_ok E l" "named N l"
    with assms that show "log_ok E ?l" by (auto simp: log_ok_def maps_ok_def readers_def named_def)
  qed (simp add: stable_def)
  have "keeps (stays N) (?rest c)"
    by (intro stay.keeps_bind put_active_stays consumer_stays go_stays) (use assms in force)+
  then have rest: "wp (?rest c) (\<lambda>_. stays N l) ?l" if ?new
    using added [OF that] by (rule stay.wp_keeps)
  show "wp (addLogProcess p) (\<lambda>_. stays N l) l"
  proof (cases "named N l")
    case True
    with assms have "lpContainerName (lmProcs l ! p) = c" by (auto simp: named_def)
    with rest show ?thesis by (auto simp: addLogProcess_def wp_simps stay.R_refl)
  next
    case False
    then show ?thesis by (simp add: stays_def wp_def split_beta)
  qed
qed

lemma channel_stays: "keeps (stays N) (StreamLogsChannel ch c)"
  unfolding StreamLogsChannel_def
  by (intro stay_rules bind_new_stays addLogProcess_stays [where c = c]) simp_all

lemma revive_stays: "keeps (stays N) (reviveApp entries app)"
proof -
  have "keeps (stays N) (reviveReader c sid)" for c sid
    unfolding reviveReader_def
    by (intro stay_rules bind_new_stays put_active_stays go_stays) simp_all
  then have "keeps (stays N) (reviveStream entries c cc)" for c cc
    unfolding reviveStream_def
    by (auto intro!: stay_rules channel_stays split: prod.split option.split json.split list.split)
  then show ?thesis unfolding reviveApp_def by (intro stay_rules)
qed

lemma created_stays: "keeps (stays N) (onSubscriptionCreated arguments)"
  unfolding onSubscriptionCreated_def
  by (auto intro!: stay_rules bind_active_stays bind_new_stays put_active_stays split: list.split)

lemma deleted_stays: "keeps (stays N) (onSubscriptionDeleted arguments)"
proof -
  have "keeps (stays N) (do { found \<leftarrow> gets (\<lambda>l. GetLogTaskBySubscriptionID l i);
      case found of None \<Rightarrow> ret None | Some p \<Rightarrow> go (DeleteCheck p i) })" for i
    unfolding keeps_wp wp_bind wp_gets
  proof
    fix l :: LogManager
    show "wp (case GetLogTaskBySubscriptionID l i of None \<Rightarrow> ret None | Some p \<Rightarrow> go (DeleteCheck p i)) (\<lambda>_. stays N l) l"
    proof (cases "GetLogTaskBySubscriptionID l i")
      case (Some p)
      then obtain c where "(c, p) \<in> set (lmActiveLogs l)"
        by (auto simp: GetLogTaskBySubscriptionID_def dest: find_Some_in)
      then have valid: "p < length (lmProcs l)" if "log_ok E l" for E
        using that by (auto simp: log_ok_def maps_ok_def)
      have "log_ok E (l\<lparr>lmTasks := lmTasks l @ [DeleteCheck p i]\<rparr>)" if "log_ok E l" for E
        using that valid [OF that] by (simp add: log_ok_def maps_ok_def readers_def)
      then have "stays N l (l\<lparr>lmTasks := lmTasks l @ [DeleteCheck p i]\<rparr>)"
        by (intro staysI) (simp add: stable_def)
      with Some show ?thesis by (simp add: go_def wp_simps)
    qed (simp add: wp_simps stay.R_refl)
  qed
  then show ?thesis
    unfolding onSubscriptionDeleted_def by (auto intro: stay.asking split: list.split)
qed

lemma write_stays: "keeps (stays N) (Write c t)" "keeps (stays N) (Publish c t)" "keeps (stays N) (PublishProgress c i s t)"
proof -
  have split: "Write c t = do { active \<leftarrow> gets lmActiveLogs;
      case map_of active c of None \<Rightarrow> publishTo c t
      | Some p \<Rightarrow> (do { _ \<leftarrow> proc_upd p (appendLog \<lparr>leEntry = t, leType = AGENT\<rparr>); publishTo c t }) }"
    unfolding Write_def by (intro arg_cong [of _ _ "State_Monad.bind _"] ext) (auto split: option.split)
  show "keeps (stays N) (Write c t)" unfolding split by (intro bind_active_stays stay_rules)
  show "keeps (stays N) (Publish c t)" "keeps (stays N) (PublishProgress c i s t)"
    unfolding Publish_def PublishProgress_def by (intro stay_rules)+
qed

lemma clear_stays: "keeps (stays N) (ClearLogHistory c)"
proof -
  have "ClearLogHistory c = do { active \<leftarrow> gets lmActiveLogs;
      case map_of active c of None \<Rightarrow> go (ClearTask c)
      | Some p \<Rightarrow> (do { _ \<leftarrow> proc_upd p (\<lambda>lp. lp\<lparr>lpHistory := []\<rparr>); go (ClearTask c) }) }"
    unfolding ClearLogHistory_def by (intro arg_cong [of _ _ "State_Monad.bind _"] ext) (auto split: option.split)
  moreover have "keeps (stays N) \<dots>" by (intro bind_active_stays stay_rules go_stays) simp_all
  ultimately show ?thesis by simp
qed

lemma stream_stays:
  "keeps (stays N) (StreamBlocking c r)" "keeps (stays N) (Stream c r)" "keeps (stays N) (streamContainer c r)" "keeps (stays N) (ReviveDeadLogs apps)"
  unfolding StreamBlocking_def Stream_def streamContainer_def ReviveDeadLogs_def
  by (intro stay_rules initLogStream_stays go_stays; simp)+

lemma republish_stays: "keeps (stays N) (republish p src)"
  unfolding republish_def by (cases src) (simp_all, (intro stay_rules)+)

section \<open>Steps of a reader\<close>

text \<open>A reader that is taken out of the tasks is put back, or ends as the process becomes inactive.\<close>

lemma put_back:
  assumes "log_ok (add_mset p E) l" and "task_procs t = [p]" and "\<And>q. reads q t = (q = p)"
  shows "log_ok E (l\<lparr>lmTasks := lmTasks l @ [t]\<rparr>)"
proof -
  have "readers q (l\<lparr>lmTasks := lmTasks l @ [t]\<rparr>) = readers q l + (if q = p then 1 else 0)" for q
    using assms(3) by (simp add: readers_def)
  moreover have "maps_ok (l\<lparr>lmTasks := lmTasks l @ [t]\<rparr>)" using assms(1,2) by (simp add: log_ok_def maps_ok_def)
  moreover have "readers q l + (if q = p then 1 else 0) + count E q = (if lpActive (lmProcs l ! q) then 1 else 0)"
    if "q < length (lmProcs l)" for q
  proof -
    have "readers q l + count (add_mset p E) q = (if lpActive (lmProcs l ! q) then 1 else 0)"
      using assms(1) that unfolding log_ok_def by blast
    then show ?thesis by (cases "q = p") simp_all
  qed
  ultimately show ?thesis using assms(1) by (simp add: log_ok_def)
qed

lemma wp_put_back:
  assumes "log_ok {#p#} l" and "\<And>N. keeps (stays N) m" and "\<And>a. task_procs (t a) = [p]" and "\<And>a q. reads q (t a) = (q = p)"
  shows "wp (State_Monad.bind m (\<lambda>a. go (t a))) (\<lambda>_. log_ok {#}) l"
  unfolding wp_bind
proof (rule wp_runI)
  fix a l' assume "run_state m l = (a, l')"
  then have "log_ok {#p#} l'"
    using assms(1) keepsD [OF assms(2) [of "{}"]] by (fastforce simp: stays_def named_def)
  then show "wp (go (t a)) (\<lambda>_. log_ok {#}) l'"
    using assms(3,4) by (simp add: go_def wp_simps put_back)
qed

lemma follow_ok:
  assumes "log_ok {#p#} l"
  shows "wp (followLine p src b chunk) (\<lambda>_. log_ok {#}) l" "wp (followTick p src b lc) (\<lambda>_. log_ok {#}) l"
    "wp (followEnd p src b lc e) (\<lambda>_. log_ok {#}) l"
proof -
  have split: "followLine p src b chunk = do { lp \<leftarrow> (do { _ \<leftarrow> proc_upd p (pushLine chunk); proc_at p });
      go (Follow p src (if lpPublish lp then batcherAdd chunk b else b) chunk) }"
    by (simp add: followLine_def State_Monad.bind_assoc)
  show "wp (followLine p src b chunk) (\<lambda>_. log_ok {#}) l"
    unfolding split by (rule wp_put_back [OF assms]) (intro stay_rules, auto)
  show "wp (followTick p src b lc) (\<lambda>_. log_ok {#}) l"
    unfolding followTick_def by (auto intro!: wp_put_back [OF assms] stay_rules)
  have "followEnd p src b lc e = do { _ \<leftarrow> (do { _ \<leftarrow> flushOut p b; go (Cleanup p src) }); gets (\<lambda>l. streamResult l src lc e) }"
    by (simp add: followEnd_def State_Monad.bind_assoc)
  moreover have "wp (do { _ \<leftarrow> flushOut p b; go (Cleanup p src) }) (\<lambda>_. log_ok {#}) l"
    by (auto intro!: wp_put_back [OF assms] stay_rules)
  ultimately show "wp (followEnd p src b lc e) (\<lambda>_. log_ok {#}) l"
    by (simp only: wp_bind [of "State_Monad.bind _ _"]) (erule wp_mono, simp add: wp_gets)
qed

lemma inactive_ok:
  assumes "log_ok {#p#} l"
  shows "log_ok {#} (l\<lparr>lmProcs := (lmProcs l)[p := (lmProcs l ! p)\<lparr>lpActive := False\<rparr>]\<rparr>)"
proof -
  let ?l = "l\<lparr>lmProcs := (lmProcs l)[p := (lmProcs l ! p)\<lparr>lpActive := False\<rparr>]\<rparr>"
  have p: "p < length (lmProcs l)" using assms by (simp add: log_ok_def)
  have roles: "lpContainerName (lmProcs ?l ! q) = lpContainerName (lmProcs l ! q)"
    "lpChannelStream (lmProcs ?l ! q) = lpChannelStream (lmProcs l ! q)" for q
    using p by (cases "q = p"; simp)+
  have "maps_ok ?l" using assms unfolding log_ok_def maps_ok_def roles by simp
  moreover have "readers p l = 0"
    using assms p by (auto simp: log_ok_def split: if_splits)
  ultimately show ?thesis
    using assms p by (auto simp: log_ok_def readers_def nth_list_update split: if_splits)
qed

lemma cleanup_ok:
  assumes "log_ok {#p#} l"
  shows "wp (cleanup p src) (\<lambda>_. log_ok {#}) l"
proof -
  let ?l = "l\<lparr>lmProcs := (lmProcs l)[p := (lmProcs l ! p)\<lparr>lpActive := False\<rparr>]\<rparr>"
  let ?N = "{(p, lpContainerName (lmProcs l ! p))}"
  let ?rest = "do { lp \<leftarrow> proc_at p;
     _ \<leftarrow> (case (src, lpStream lp) of (ReaderSource, Some s) \<Rightarrow> askE ''Stream.Close'' [itoa s] | _ \<Rightarrow> ret None);
     case ParseContainerName (lpContainerName lp) of
       Inl _ \<Rightarrow> ret None
     | Inr (stage, appKey, appName) \<Rightarrow> do {
         e \<leftarrow> UpsertLogHistory appName appKey stage (map leEntry (lpHistory lp));
         if e \<noteq> None then ret None else go (Republish p src) } }"
  have named: "named ?N ?l" using assms by (simp add: named_def log_ok_def)
  have "keeps (stays ?N) (case y of (ReaderSource, Some s) \<Rightarrow> askE ''Stream.Close'' [itoa s] | _ \<Rightarrow> ret None)" for y
    by (auto simp: stay.keeps_return stay.keeps_askE split: prod.split source.split option.split)
  note close = this
  have "keeps (stays ?N) ?rest" by (intro stay.keeps_bind close stay_rules go_stays) simp_all
  then have "wp ?rest (\<lambda>_. log_ok {#}) ?l"
    using inactive_ok [OF assms] named by (auto simp: keeps_wp stays_def elim!: allE [of _ ?l] wp_mono)
  then show ?thesis by (simp add: cleanup_def proc_upd_def wp_simps)
qed

section \<open>Reachable log managers\<close>

lemma taken:
  assumes "log_ok {#} l" and "lmTasks l = before @ t # after"
  shows "log_ok (case t of Follow p _ _ _ \<Rightarrow> {#p#} | Cleanup p _ \<Rightarrow> {#p#} | _ \<Rightarrow> {#}) (l\<lparr>lmTasks := before @ after\<rparr>)" (is "log_ok ?E ?l")
    and "named {(p, lpContainerName (lmProcs l ! p)) | p. p \<in> set (task_procs t)} (l\<lparr>lmTasks := before @ after\<rparr>)"
proof -
  have E: "readers q l = readers q ?l + count ?E q" for q
    using assms(2) by (cases t) (auto simp: readers_def)
  have maps: "maps_ok ?l" and valid: "\<forall>p \<in> set (task_procs t). p < length (lmProcs l)"
    using assms by (auto simp: log_ok_def maps_ok_def)
  have "\<forall>p \<in># ?E. p < length (lmProcs ?l)" using valid by (cases t) auto
  with E maps assms(1) show "log_ok ?E ?l" by (simp add: log_ok_def)
  show "named {(p, lpContainerName (lmProcs l ! p)) | p. p \<in> set (task_procs t)} ?l"
    using valid by (auto simp: named_def)
qed

lemma runLogTask_ok:
  assumes "log_ok {#} l" and "lmTasks l = before @ t # after"
  shows "wp (runLogTask t) (\<lambda>_. log_ok {#}) (l\<lparr>lmTasks := before @ after\<rparr>)"
proof -
  let ?N = "{(p, lpContainerName (lmProcs l ! p)) | p. p \<in> set (task_procs t)}" and ?l = "l\<lparr>lmTasks := before @ after\<rparr>"
  have by_stays: ?thesis if "keeps (stays ?N) (runLogTask t)" and "log_ok {#} ?l"
    using that taken(2) [OF assms] by (auto simp: keeps_wp stays_def elim!: allE [of _ ?l] wp_mono)
  have named: "p \<in> fst ` ?N" if "task_procs t = [p]" for p using that by force
  show ?thesis
  proof (cases t)
    case (Follow p src b lc)
    with taken(1) [OF assms] show ?thesis by (simp add: runLogTask_def follow_ok)
  next
    case (Cleanup p src)
    with taken(1) [OF assms] show ?thesis by (simp add: runLogTask_def cleanup_ok)
  next
    case (EmitTask p src)
    with named have "keeps (stays ?N) (runLogTask t)"
      by (cases src) (simp_all add: runLogTask_def stay.keeps_ignore emit_stays)
    with by_stays taken(1) [OF assms] EmitTask show ?thesis by simp
  next
    case (ReviveTask apps entries)
    have "keeps (stays ?N) (runLogTask t)"
      unfolding ReviveTask runLogTask_def log_task.case by (rule stay.keeps_steps) (auto simp: revive_stays)
    with by_stays taken(1) [OF assms] ReviveTask show ?thesis by simp
  qed (use by_stays taken(1) [OF assms] in \<open>simp_all add: runLogTask_def closeGate_def stay.keeps_ignore initLogStream_stays
      stream_stays history_stays created_stays deleted_stays republish_stays proc_upd_stays same_roles\<close>)
qed

lemma stays_ok: "keeps (stays {}) m \<Longrightarrow> log_ok {#} l \<Longrightarrow> log_ok {#} (snd (run_state m l))"
  by (auto simp: keeps_def stays_def named_def)

lemma wp_snd: "wp m (\<lambda>_. Q) l \<Longrightarrow> Q (snd (run_state m l))"
  by (simp add: wp_def split_beta)

lemma log_step_ok: "log_step l l' \<Longrightarrow> log_ok {#} l \<Longrightarrow> log_ok {#} l'"
proof (induction rule: log_step.induct)
  case (line l before p src b lc after chunk)
  from taken(1) [OF line(2,1)] show ?case by (auto intro!: wp_snd follow_ok)
next
  case (ended l before p src b lc after e)
  from taken(1) [OF ended(2,1)] show ?case by (auto intro!: wp_snd follow_ok)
next
  case (goroutine l before t after)
  from runLogTask_ok [OF goroutine(2,1)] show ?case by (rule wp_snd)
qed (auto intro!: stays_ok write_stays clear_stays stream_stays channel_stays history_stays go_stays)

lemma log_reachable_ok: "log_reachable l \<Longrightarrow> log_ok {#} l"
proof (induction rule: log_reachable.induct)
  case (new l)
  show ?case by (simp add: NewLogManager_def log_ok_def maps_ok_def)
qed (rule log_step_ok)


section \<open>A page that is refreshed\<close>

lemma Split_topic:
  assumes "CHR ''.'' \<notin> set serial" and "CHR ''.'' \<notin> set c"
  shows "Split (CHR ''.'') (buildTopic serial c) = [''reswarm'', ''logs'', serial, c]"
  using assms Split_no_sep [OF assms(2)] Split_Cons_sep [OF assms(1), of c]
  by (simp add: buildTopic_def Split_def)

definition createdEvent :: "string \<Rightarrow> string \<Rightarrow> json \<Rightarrow> json list" where
  "createdEvent serial c i = [JNull, JObj [(''uri'', JStr (buildTopic serial c)), (''id'', i)]]"

definition runAll :: "err lprog list \<Rightarrow> LogManager \<Rightarrow> LogManager" where
  "runAll ms l = foldl (\<lambda>l m. snd (run_state m l)) l ms"

lemma proc_upd_run: "run_state (proc_upd p f) l = (None, l\<lparr>lmProcs := (lmProcs l)[p := f (lmProcs l ! p)]\<rparr>)"
  by (simp add: proc_upd_def ignore_def modify_def run_bind State_Monad.get_def State_Monad.set_def State_Monad.return_def)

lemma setPublish_length:
  "run_state (setPublishStateByContainerName c sid st) l = (e, l') \<Longrightarrow>
     length (lmProcs l') = length (lmProcs l) \<and> lmActiveLogs l' = lmActiveLogs l \<and> lmSerial l' = lmSerial l"
proof -
  let ?f = "\<lambda>p procs. if lpContainerName (procs ! p) = c then procs[p := regate st sid (procs ! p)] else procs"
  have "length (fold ?f ps procs) = length procs" for ps procs by (induction ps arbitrary: procs) simp_all
  moreover assume "run_state (setPublishStateByContainerName c sid st) l = (e, l')"
  ultimately show ?thesis
    by (auto simp: setPublishStateByContainerName_def ignore_def modify_def run_bind State_Monad.get_def State_Monad.set_def State_Monad.return_def)
qed

lemma created_effect:
  assumes "CHR ''.'' \<notin> set (lmSerial l)" "CHR ''.'' \<notin> set c" and "map_of (lmActiveLogs l) c = Some p" "p < length (lmProcs l)"
    and l': "l' = snd (run_state (onSubscriptionCreated (createdEvent (lmSerial l) c i)) l)"
  shows "lpPublish (lmProcs l' ! p) \<and> lpSubscriptionID (lmProcs l' ! p) = Sprint i
    \<and> p < length (lmProcs l') \<and> lmActiveLogs l' = lmActiveLogs l"
proof -
  obtain e l1 where l1: "run_state (setPublishStateByContainerName c (Sprint i) True) l = (e, l1)" by force
  have uri: "HasPrefix (buildTopic (lmSerial l) c) ''reswarm.logs.''" by (simp add: buildTopic_def)
  have "obj_get (JObj [(''uri'', JStr u), (''id'', i)]) ''uri'' = JStr u" "obj_get (JObj [(''uri'', JStr u), (''id'', i)]) ''id'' = i" for u
    by (simp_all add: obj_get_def)
  then have "l' = snd (run_state (proc_upd p (regate True (Sprint i))) l1)"
    using l1 setPublish_length [OF l1] assms(3) uri
    by (simp add: l' Let_def onSubscriptionCreated_def createdEvent_def Split_topic [OF assms(1,2)] run_ops)
  then show ?thesis
    using setPublish_length [OF l1] assms(4) by (simp add: proc_upd_run regate_def)
qed

lemma deleted_procs:
  "lmProcs (snd (run_state (onSubscriptionDeleted arguments) l)) = lmProcs l
    \<and> lmActiveLogs (snd (run_state (onSubscriptionDeleted arguments) l)) = lmActiveLogs l
    \<and> lmSerial (snd (run_state (onSubscriptionDeleted arguments) l)) = lmSerial l"
  by (auto simp: onSubscriptionDeleted_def go_def ignore_def modify_def gets_def run_bind State_Monad.get_def State_Monad.set_def
      State_Monad.return_def split: list.split option.split)

lemma closeGate_run:
  "run_state (closeGate p sid) l = (None, l\<lparr>lmProcs := (lmProcs l)[p :=
     (if lpSubscriptionID (lmProcs l ! p) = sid then (lmProcs l ! p)\<lparr>lpPublish := False\<rparr> else lmProcs l ! p)]\<rparr>)"
  by (simp add: closeGate_def proc_upd_run)

text \<open>
  C17: a page that is refreshed deletes its subscription to the log of a container and creates a
  new one, and both events are handled concurrently: the deletion looks the process up and closes
  its gate in two steps. In whatever order these and the creation happen, the process publishes
  afterwards, for the new subscription.
\<close>

theorem refresh_keeps_publishing:
  assumes "map_of (lmActiveLogs l) c = Some p" and "p < length (lmProcs l)"
    and "CHR ''.'' \<notin> set (lmSerial l)" and "CHR ''.'' \<notin> set c" and "Sprint old \<noteq> Sprint new"
    and "ms \<in> shuffles [onSubscriptionCreated (createdEvent (lmSerial l) c new)]
                 [onSubscriptionDeleted [JNull, old], closeGate p (Sprint old)]"
  shows "lpPublish (lmProcs (runAll ms l) ! p) \<and> lpSubscriptionID (lmProcs (runAll ms l) ! p) = Sprint new"
proof -
  let ?create = "onSubscriptionCreated (createdEvent (lmSerial l) c new)"
  let ?delete = "onSubscriptionDeleted [JNull, old]" and ?gate = "closeGate p (Sprint old)"
  have created: "lpPublish (lmProcs l2 ! p) \<and> lpSubscriptionID (lmProcs l2 ! p) = Sprint new \<and> p < length (lmProcs l2)"
    if "lmActiveLogs l1 = lmActiveLogs l" "lmSerial l1 = lmSerial l" "p < length (lmProcs l1)" "l2 = snd (run_state ?create l1)" for l1 l2
    using created_effect [of l1 c p l2 new] that assms by simp
  have kept: "lmProcs (snd (run_state ?gate l2)) ! p = lmProcs l2 ! p"
    if "lpSubscriptionID (lmProcs l2 ! p) = Sprint new" for l2
    using that assms(5) by (simp add: closeGate_run)
  have gate: "lmActiveLogs (snd (run_state ?gate l1)) = lmActiveLogs l1 \<and> lmSerial (snd (run_state ?gate l1)) = lmSerial l1
      \<and> length (lmProcs (snd (run_state ?gate l1))) = length (lmProcs l1)" for l1
    by (simp add: closeGate_run)
  from assms(6) consider "ms = [?create, ?delete, ?gate]" | "ms = [?delete, ?create, ?gate]" | "ms = [?delete, ?gate, ?create]"
    by auto
  then show ?thesis
    by cases (use assms(1,2) created kept gate deleted_procs in \<open>simp_all add: runAll_def\<close>)
qed

section \<open>Examples, and what is not as intended\<close>

definition demo_reply :: reply where
  "demo_reply = \<lparr>rpErr = None, rpStr = [], rpNum = 0, rpFlag = False, rpStrs = [], rpPorts = [], rpJson = JArr [JArr [JNum 7]], rpContainers = []\<rparr>"

definition demo_logs :: LogManager where
  "demo_logs = NewLogManager \<lparr>oTrace = [], oExt = (\<lambda>_ _. demo_reply), lmProcs = [], lmActiveLogs = [], lmEntries = [], lmChannels = [],
     lmRows = [], lmTasks = [], lmSerial = ''s1'', lmErrorChunk = (\<lambda>_. [])\<rparr>"

lemma demo_simps:
  "lmSerial demo_logs = ''s1''" "lmProcs demo_logs = []" "lmActiveLogs demo_logs = []" "lmEntries demo_logs = []" "lmTasks demo_logs = []"
  "oExt demo_logs = (\<lambda>_ _. demo_reply)" "oTrace demo_logs = []"
  by (simp_all add: demo_logs_def NewLogManager_def)

definition followed_logs :: LogManager where
  "followed_logs = snd (run_state (StreamBlocking ''dev_6_x'' (Some 3)) demo_logs)"

lemmas run_simps = run_ops proc_upd_run go_def new_proc_def put_active_def proc_at_def

lemma followed_logs_simps:
  "lmActiveLogs followed_logs = [(''dev_6_x'', 0)]" "lmTasks followed_logs = [Follow 0 ReaderSource newLogBatcher []]"
  "lmProcs followed_logs = [(freshProcess ''dev_6_x'' ''7'' (Some 3) None)\<lparr>lpActive := True\<rparr>]" "lmSerial followed_logs = ''s1''"
proof -
  have "Sprint (JNum 7) = ''7''" by code_simp
  then show "lmActiveLogs followed_logs = [(''dev_6_x'', 0)]" "lmTasks followed_logs = [Follow 0 ReaderSource newLogBatcher []]"
    "lmProcs followed_logs = [(freshProcess ''dev_6_x'' ''7'' (Some 3) None)\<lparr>lpActive := True\<rparr>]" "lmSerial followed_logs = ''s1''"
    by (simp_all add: followed_logs_def StreamBlocking_def initLogStream_def getActiveSubscriptionID_def emitStream_def beginFollow_def
        run_simps demo_simps demo_reply_def subscriptionIDOf_def freshProcess_def map_put_def)
qed


theorem refresh_keeps_publishing_witness:
  "lpPublish (lmProcs (runAll [onSubscriptionDeleted [JNull, JNum 7], onSubscriptionCreated (createdEvent ''s1'' ''dev_6_x'' (JNum 8)),
     closeGate 0 (Sprint (JNum 7))] followed_logs) ! 0)"
proof -
  have "Sprint (JNum 7) \<noteq> Sprint (JNum 8)" by code_simp
  from refresh_keeps_publishing [of followed_logs "''dev_6_x''" 0 "JNum 7" "JNum 8"] this
  show ?thesis by (simp add: followed_logs_simps)
qed

text \<open>The history of a process is bounded as long as its stream alone writes to it.\<close>

lemma pushLine_bounded: "length (lpHistory lp) \<le> historyStorageLimit \<Longrightarrow> length (lpHistory (pushLine chunk lp)) \<le> historyStorageLimit"
  by (auto simp: pushLine_def appendLog_def historyStorageLimit_def)

text \<open>One line of the agent written at the limit passes it, and from there on every line makes it longer.\<close>

lemma history_unbounded:
  assumes "length (lpHistory lp) = historyStorageLimit"
  shows "length (lpHistory (fold pushLine chunks (appendLog e lp))) = Suc historyStorageLimit + length chunks"
proof -
  have "length (lpHistory (fold pushLine chunks lp')) = length (lpHistory lp') + length chunks"
    if "length (lpHistory lp') > historyStorageLimit" for lp'
    using that by (induction chunks arbitrary: lp') (auto simp: pushLine_def appendLog_def)
  with assms show ?thesis by (simp add: appendLog_def)
qed

text \<open>
  A blocking stream for a process that is still active returns at once and without error, though
  nothing follows it; this is also so after the stream before it ended and while its cleanup is
  pending, and that cleanup closes the new stream.
\<close>

lemma blocking_stream_skipped:
  assumes "map_of (lmActiveLogs l) c = Some p" and "p < length (lmProcs l)" and "lpActive (lmProcs l ! p)"
  shows "run_state (StreamBlocking c (Some s)) l = (Inr False, l\<lparr>lmProcs := (lmProcs l)[p := (lmProcs l ! p)\<lparr>lpStream := Some s\<rparr>]\<rparr>)"
  using assms by (simp add: StreamBlocking_def initLogStream_def emitStream_def beginFollow_def run_simps)

lemma cleanup_closes_next_stream:
  assumes "p < length (lmProcs l)" and "lpStream (lmProcs l ! p) = Some s" and "ParseContainerName (lpContainerName (lmProcs l ! p)) = Inl e"
  shows "oTrace (snd (run_state (cleanup p ReaderSource) l)) = oTrace l @ [Ext ''Stream.Close'' [itoa s]]"
  using assms by (simp add: cleanup_def run_simps)

text \<open>
  Two logs published for one subscription, as a prefix subscription has it: deleting it closes the
  gate of one of them only. And an identifier that was stored when logs were revived never matches.
\<close>

lemma shared_subscription_keeps_publishing:
  "let l = demo_logs\<lparr>lmProcs := [freshProcess ''a'' ''7'' None None, freshProcess ''b'' ''7'' None None], lmActiveLogs := [(''a'', 0), (''b'', 1)]\<rparr> in
     GetLogTaskBySubscriptionID l ''7'' = Some 0 \<and> map lpPublish (lmProcs (snd (run_state (closeGate 0 ''7'') l))) = [False, True]"
  by (simp add: GetLogTaskBySubscriptionID_def freshProcess_def closeGate_run demo_simps Let_def)

lemma revived_subscription_in_brackets: "Sprint (JArr [JNum 7]) = ''[7]''" "subscriptionIDOf (JArr [JArr [JNum 7]]) = ''7''"
  by code_simp+

end
