(* ===== verification/LogQueries.thy ===== *)
theory LogQueries
  imports AppLogs Requests
begin

text \<open>
  \<^verbatim>\<open>logging/query.go\<close> and \<^verbatim>\<open>logging/agentlog.go\<close>: bounded reads of the logs of a container and of the
  agent's own log, with the query of \<^verbatim>\<open>container/compose.go\<close> and its translation in
  \<^verbatim>\<open>container/docker.go\<close>. A time is the number of nanoseconds since the zero time of Go, and 0 is the
  zero time; parsing and printing of times and the decoding of a JSON line are parameters. What a
  reader delivers is the list of lines its scanner finds.
\<close>

section \<open>Queries\<close>

type_synonym Time = int

record TimeLib =
  tParse :: "string \<Rightarrow> Time option" \<comment> \<open>\<^verbatim>\<open>time.Parse(time.RFC3339, _)\<close>, which accepts what \<^verbatim>\<open>RFC3339Nano\<close> does\<close>
  tFormat :: "Time \<Rightarrow> string" \<comment> \<open>\<^verbatim>\<open>UTC().Format(time.RFC3339)\<close>\<close>
  tDuration :: "string \<Rightarrow> int option" \<comment> \<open>\<^verbatim>\<open>time.ParseDuration\<close>\<close>
  tUnix :: "int \<Rightarrow> Time" \<comment> \<open>\<^verbatim>\<open>time.Unix(_, 0)\<close>\<close>

record LogQuery =
  qTail :: uint64
  qSince :: string
  qUntil :: string
  qTimestamps :: bool

definition tailText :: "uint64 \<Rightarrow> string" where
  "tailText n = (if n > 0 then itoa (unat n) else ''all'')"

definition ComposeArgs :: "LogQuery \<Rightarrow> string list" where
  "ComposeArgs q = [''logs'', ''--no-color'', ''--tail'', tailText (qTail q)]
     @ (if qTimestamps q then [''--timestamps''] else [])
     @ (if qSince q \<noteq> [] then [''--since'', qSince q] else [])
     @ (if qUntil q \<noteq> [] then [''--until'', qUntil q] else [])"

definition DockerOptions :: "LogQuery \<Rightarrow> (string \<times> json) list" where
  "DockerOptions q = [(''follow'', JBool False), (''stdout'', JBool True), (''stderr'', JBool True), (''tail'', JStr (tailText (qTail q)))]
     @ (if qTimestamps q then [(''timestamps'', JBool True)] else [])
     @ (if qSince q \<noteq> [] then [(''since'', JStr (qSince q))] else [])
     @ (if qUntil q \<noteq> [] then [(''until'', JStr (qUntil q))] else [])"

text \<open>The options of the Docker client that are built from a dictionary; a value of another type is ignored.\<close>

record LogsOptions =
  oShowStdout :: bool
  oShowStderr :: bool
  oFollow :: bool
  oTimestamps :: bool
  oTail :: string
  oSince :: string
  oUntil :: string

definition asBool :: "json option \<Rightarrow> bool" where
  "asBool v = (case v of Some (JBool b) \<Rightarrow> b | _ \<Rightarrow> False)"

definition asString :: "json option \<Rightarrow> string" where
  "asString v = (case v of Some (JStr s) \<Rightarrow> s | _ \<Rightarrow> [])"

definition logsOptionsFromDict :: "(string \<times> json) list \<Rightarrow> LogsOptions" where
  "logsOptionsFromDict options = \<lparr>oShowStdout = asBool (map_of options ''stdout''), oShowStderr = asBool (map_of options ''stderr''),
     oFollow = asBool (map_of options ''follow''), oTimestamps = asBool (map_of options ''timestamps''),
     oTail = (case map_of options ''tail'' of
                Some (JStr s) \<Rightarrow> s
              | Some v \<Rightarrow> (case ToUint64 v of Some n \<Rightarrow> itoa (unat n) | None \<Rightarrow> [])
              | None \<Rightarrow> []),
     oSince = asString (map_of options ''since''), oUntil = asString (map_of options ''until'')\<rparr>"

text \<open>
  The options a query is rendered to are read back as the query by the Docker client: both
  streams without following, as many lines as asked for (all for 0), and the bounds and the
  timestamps as given.
\<close>

theorem query_options_roundtrip:
  "logsOptionsFromDict (DockerOptions q) = \<lparr>oShowStdout = True, oShowStderr = True, oFollow = False, oTimestamps = qTimestamps q,
     oTail = (if qTail q = 0 then ''all'' else itoa (unat (qTail q))), oSince = qSince q, oUntil = qUntil q\<rparr>"
proof -
  have "qTail q > 0 \<longleftrightarrow> qTail q \<noteq> 0" by (rule word_neq_0_conv [symmetric])
  then show ?thesis
    by (simp add: logsOptionsFromDict_def DockerOptions_def tailText_def asBool_def asString_def)
qed

section \<open>Reading a window\<close>

definition MaxQueryLines :: uint64 where "MaxQueryLines = 5000"
definition MaxQueryBytes :: int where "MaxQueryBytes = 4 * 2 ^ 20"
definition DefaultQueryLines :: uint64 where "DefaultQueryLines = 200"

record LogQueryRequest =
  rqContainerName :: string
  rqTail :: uint64
  rqOffset :: uint64
  rqSince :: Time
  rqUntil :: Time
  rqNoTimestamps :: bool

datatype log_store = Docker | Compose | History

record LogQueryResult =
  rsLines :: "string list"
  rsSource :: log_store
  rsTruncated :: bool
  rsOldestAvailable :: Time

definition formatBound :: "TimeLib \<Rightarrow> Time \<Rightarrow> string" where
  "formatBound lib bound = (if bound = 0 then [] else tFormat lib bound)"

definition stripStreamHeader :: "string \<Rightarrow> string" where
  "stripStreamHeader line =
     (if length line < 8 then line
      else if (of_char (line ! 0) :: nat) > 2 \<or> line ! 1 \<noteq> CHR 0x00 \<or> line ! 2 \<noteq> CHR 0x00 \<or> line ! 3 \<noteq> CHR 0x00 then line
      else drop 8 line)"

definition scanLines :: "reply \<Rightarrow> string list" where
  "scanLines r = map stripStreamHeader (rpLines r)"

fun trimLoop :: "int \<Rightarrow> int \<Rightarrow> string list \<Rightarrow> string list" where
  "trimLoop limit used [] = []"
| "trimLoop limit used (line # lines) =
     (if used > limit then trimLoop limit (used - lineBytes line) lines else line # lines)"

definition trimToBytes :: "string list \<Rightarrow> int \<Rightarrow> string list \<times> bool" where
  "trimToBytes lines limit =
     (let used = sum_list (map lineBytes lines) in
      if used \<le> limit then (lines, False) else (trimLoop limit used lines, True))"

definition parseLeadingTimestamp :: "TimeLib \<Rightarrow> string \<Rightarrow> Time" where
  "parseLeadingTimestamp lib line = (case Cut (CHR '' '') (stripStreamHeader line) of
     (field, _, found) \<Rightarrow> if \<not> found then 0 else case tParse lib field of None \<Rightarrow> 0 | Some t \<Rightarrow> t)"

definition containerLogs :: "string \<Rightarrow> LogQuery \<Rightarrow> reply lprog" where
  "containerLogs containerName query = (let opts = logsOptionsFromDict (DockerOptions query) in
     ask ''Container.Logs'' [containerName, oTail opts, oSince opts, oUntil opts, if oTimestamps opts then ''timestamps'' else []])"

definition oldestAvailable :: "TimeLib \<Rightarrow> string \<Rightarrow> Time lprog" where
  "oldestAvailable lib containerName = do {
     r \<leftarrow> containerLogs containerName \<lparr>qTail = 0, qSince = [], qUntil = [], qTimestamps = True\<rparr>;
     ret (if rpErr r \<noteq> None then 0 else case rpLines r of [] \<Rightarrow> 0 | line # _ \<Rightarrow> parseLeadingTimestamp lib line) }"

definition readWindow :: "string \<Rightarrow> LogQuery \<Rightarrow> (go_error + string list \<times> log_store) lprog" where
  "readWindow containerName query = do {
     r \<leftarrow> containerLogs containerName query;
     case rpErr r of
       None \<Rightarrow> ret (Inr (scanLines r, Docker))
     | Some e \<Rightarrow>
         if \<not> IsContainerNotFound (Some e) then ret (Inl e)
         else do {
           c \<leftarrow> ask ''Compose.LogsByContainerName'' ((containerName @ ''_compose'') # ComposeArgs query);
           if rpErr c = None then ret (Inr (scanLines c, Compose))
           else do {
             history \<leftarrow> GetLogHistory containerName;
             ret (case history of Inl _ \<Rightarrow> Inl e | Inr ls \<Rightarrow> Inr (ls, History)) } } }"

text \<open>\<^verbatim>\<open>uint64(len(lines))\<close> is compared with the offset and the tail: no list is that long.\<close>

definition dropNewest :: "uint64 \<Rightarrow> string list \<Rightarrow> string list" where
  "dropNewest offset lines = (if length lines \<le> unat offset then [] else take (length lines - unat offset) lines)"

definition newest :: "nat \<Rightarrow> 'a list \<Rightarrow> 'a list" where
  "newest n xs = drop (length xs - n) xs"

definition effectiveTail :: "uint64 \<Rightarrow> uint64" where
  "effectiveTail t = (let tail = (if t = 0 then DefaultQueryLines else t) in if tail > MaxQueryLines then MaxQueryLines else tail)"

definition fetchLines :: "uint64 \<Rightarrow> uint64 \<Rightarrow> uint64" where
  "fetchLines tail offset = (let fetch = tail + offset in if fetch > MaxQueryLines then MaxQueryLines else fetch)"

definition pageOf :: "uint64 \<Rightarrow> uint64 \<Rightarrow> string list \<Rightarrow> string list \<times> bool" where
  "pageOf tail offset fetched =
     (let lines = (if offset > 0 then dropNewest offset fetched else fetched);
          truncated = (length lines > unat tail);
          (kept, trimmed) = trimToBytes (if truncated then newest (unat tail) lines else lines) MaxQueryBytes
      in (kept, truncated \<or> trimmed))"

definition queryOf :: "TimeLib \<Rightarrow> LogQueryRequest \<Rightarrow> LogQuery" where
  "queryOf lib request = \<lparr>qTail = fetchLines (effectiveTail (rqTail request)) (rqOffset request), qSince = formatBound lib (rqSince request),
     qUntil = formatBound lib (rqUntil request), qTimestamps = \<not> rqNoTimestamps request\<rparr>"

definition QueryLogs :: "TimeLib \<Rightarrow> LogQueryRequest \<Rightarrow> (go_error + LogQueryResult) lprog" where
  "QueryLogs lib request =
     (if TrimSpace (rqContainerName request) = [] then ret (Inl (Msg ''container name is empty''))
      else do {
        w \<leftarrow> readWindow (rqContainerName request) (queryOf lib request);
        case w of
          Inl e \<Rightarrow> ret (Inl e)
        | Inr (fetched, source) \<Rightarrow> do {
            let (lines, truncated) = pageOf (effectiveTail (rqTail request)) (rqOffset request) fetched;
            oldest \<leftarrow> (if source = Docker then oldestAvailable lib (rqContainerName request) else ret 0);
            ret (Inr \<lparr>rsLines = lines, rsSource = source, rsTruncated = truncated, rsOldestAvailable = oldest\<rparr>) } })"

section \<open>What a page holds\<close>

abbreviation bytesOf :: "string list \<Rightarrow> int" where
  "bytesOf lines \<equiv> sum_list (map lineBytes lines)"

lemma trimLoop_suffix: "suffix (trimLoop limit used lines) lines"
  by (induction limit used lines rule: trimLoop.induct) (auto intro: suffix_ConsI)

lemma trimLoop_bytes: "0 \<le> limit \<Longrightarrow> bytesOf (trimLoop limit (bytesOf lines) lines) \<le> limit"
  by (induction lines) auto

lemma trimToBytes_spec:
  "suffix (fst (trimToBytes lines limit)) lines"
  "0 \<le> limit \<Longrightarrow> bytesOf (fst (trimToBytes lines limit)) \<le> limit"
  "bytesOf lines \<le> limit \<Longrightarrow> trimToBytes lines limit = (lines, False)"
  "snd (trimToBytes lines limit) \<longleftrightarrow> bytesOf lines > limit"
  using trimLoop_suffix trimLoop_bytes by (auto simp: trimToBytes_def Let_def)

lemma bytesOf_split: "bytesOf xs = bytesOf (take n xs) + bytesOf (drop n xs)"
  using sum_list_append [of "map lineBytes (take n xs)" "map lineBytes (drop n xs)"] by (simp only: map_append [symmetric] append_take_drop_id)

lemma bytesOf_nonneg: "0 \<le> bytesOf xs"
  by (induction xs) auto

lemma bytesOf_drop: "bytesOf (drop n xs) \<le> bytesOf xs" and bytesOf_take: "bytesOf (take n xs) \<le> bytesOf xs"
  using bytesOf_split [of xs n] bytesOf_nonneg [of "take n xs"] bytesOf_nonneg [of "drop n xs"] by linarith+

lemma length_newest: "length (newest n xs) = min n (length xs)"
  by (simp add: newest_def)

lemma newest_all: "length xs \<le> n \<Longrightarrow> newest n xs = xs"
  by (simp add: newest_def)

lemma pageOf_spec:
  defines "older \<equiv> \<lambda>offset fetched. take (length fetched - unat offset) fetched"
  shows "pageOf tail offset fetched =
    (let page = newest (unat tail) (older offset fetched) in
     (fst (trimToBytes page MaxQueryBytes), length (older offset fetched) > unat tail \<or> bytesOf page > MaxQueryBytes))"
proof -
  have "(if offset > 0 then dropNewest offset fetched else fetched) = older offset fetched"
    by (auto simp: dropNewest_def older_def word_gt_0)
  moreover have "trimToBytes page MaxQueryBytes = (fst (trimToBytes page MaxQueryBytes), bytesOf page > MaxQueryBytes)" for page
    by (simp add: prod_eq_iff trimToBytes_spec(4))
  ultimately show ?thesis
    by (auto simp: pageOf_def Let_def newest_all split: prod.split)
qed

lemma effectiveTail_bound: "unat (effectiveTail t) \<le> 5000" "0 < unat (effectiveTail t)"
proof -
  have "effectiveTail t \<le> 5000" "0 < effectiveTail t"
    by (auto simp: effectiveTail_def Let_def MaxQueryLines_def DefaultQueryLines_def word_gt_0)
  then show "unat (effectiveTail t) \<le> 5000" "0 < unat (effectiveTail t)"
    by (simp_all add: word_le_nat_alt word_less_nat_alt)
qed


text \<open>The successful runs of a query: what was read, and the page it makes.\<close>

lemma QueryLogs_run:
  assumes "run_state (QueryLogs lib request) l = (Inr res, l')"
  obtains fetched w1 where
    "run_state (readWindow (rqContainerName request) (queryOf lib request)) l = (Inr (fetched, rsSource res), w1)"
    "(rsLines res, rsTruncated res) = pageOf (effectiveTail (rqTail request)) (rqOffset request) fetched"
proof -
  let ?read = "readWindow (rqContainerName request) (queryOf lib request)"
  have "TrimSpace (rqContainerName request) \<noteq> []"
    using assms(1) by (auto simp: QueryLogs_def run_ops)
  then obtain fetched source w1 where w1: "run_state ?read l = (Inr (fetched, source), w1)"
    using assms(1) by (auto simp: QueryLogs_def run_ops split: prod.splits sum.splits)
  show thesis
  proof (rule that)
    show "run_state ?read l = (Inr (fetched, rsSource res), w1)"
      "(rsLines res, rsTruncated res) = pageOf (effectiveTail (rqTail request)) (rqOffset request) fetched"
      using assms(1) w1 \<open>TrimSpace _ \<noteq> []\<close> by (auto simp: QueryLogs_def run_ops split: prod.splits)
  qed
qed


text \<open>
  What Docker documents of the option \<^verbatim>\<open>tail\<close>: of the lines of the window it shows the newest, or
  all. \<open>windows\<close> is the log of a container between two bounds, its lines with or without timestamps.
\<close>

definition shows_tail :: "(string \<Rightarrow> string \<Rightarrow> string \<Rightarrow> string \<Rightarrow> string list) \<Rightarrow> string \<Rightarrow> LogManager \<Rightarrow> bool" where
  "shows_tail windows c l \<longleftrightarrow> (\<forall>tr tail lo hi stamps.
     let r = oExt l tr (Ext ''Container.Logs'' [c, tail, lo, hi, stamps]) in
       rpErr r = None \<and> rpLines r = (case ParseUint 64 tail of Some n \<Rightarrow> newest n (windows c lo hi stamps) | None \<Rightarrow> windows c lo hi stamps))"

lemma containerLogs_run:
  "run_state (containerLogs c q) l =
     (let call = Ext ''Container.Logs'' [c, tailText (qTail q), qSince q, qUntil q, if qTimestamps q then ''timestamps'' else []] in
      (oExt l (oTrace l) call, l\<lparr>oTrace := oTrace l @ [call]\<rparr>))"
proof -
  have "qTail q > 0 \<longleftrightarrow> qTail q \<noteq> 0" by (rule word_neq_0_conv [symmetric])
  then show ?thesis
    by (simp add: containerLogs_def logsOptionsFromDict_def DockerOptions_def asBool_def asString_def run_ask Let_def)
qed

lemma fetchLines_exact:
  assumes "unat tail + unat offset \<le> 5000"
  shows "unat (fetchLines tail offset) = unat tail + unat offset"
proof -
  have sum: "unat (tail + offset) = unat tail + unat offset"
    using assms by (subst unat_add_lem [THEN iffD1]) simp_all
  then have "\<not> tail + offset > MaxQueryLines"
    using assms by (simp add: word_less_nat_alt MaxQueryLines_def)
  with sum show ?thesis by (simp add: fetchLines_def Let_def)
qed

text \<open>
  With Docker showing the tail it was asked for, a page of a query is exactly that part of
  the container's log in the window which ends \<open>offset\<close> lines before its end and is as long as
  asked for, as long as tail and offset are at most 5000 lines together and the page is no larger
  than 4 MiB: paging back by offsets leaves no line out and shows none twice.
\<close>

theorem query_pages_window:
  assumes "w = windows c (formatBound lib (rqSince request)) (formatBound lib (rqUntil request)) (if rqNoTimestamps request then [] else ''timestamps'')"
    and "shows_tail windows c l" and "\<And>x. x \<in> set w \<Longrightarrow> stripStreamHeader x = x"
    and "TrimSpace c \<noteq> []" and "rqContainerName request = c"
    and "unat (rqTail request) + unat (rqOffset request) \<le> 5000" and "rqTail request \<noteq> 0"
    and "bytesOf w \<le> MaxQueryBytes"
  shows "\<exists>res l'. run_state (QueryLogs lib request) l = (Inr res, l') \<and> rsSource res = Docker \<and> \<not> rsTruncated res
    \<and> rsLines res = newest (unat (rqTail request)) (take (length w - unat (rqOffset request)) w)"
proof -
  let ?tail = "rqTail request" and ?off = "rqOffset request"
  have tail: "effectiveTail ?tail = ?tail"
    using assms(6,7) by (simp add: effectiveTail_def Let_def MaxQueryLines_def word_less_nat_alt)
  have fetch: "unat (fetchLines ?tail ?off) = unat ?tail + unat ?off" by (rule fetchLines_exact [OF assms(6)])
  then have "fetchLines ?tail ?off > 0" using assms(7) by (simp add: word_less_nat_alt unat_gt_0)
  then have shown: "ParseUint 64 (tailText (fetchLines ?tail ?off)) = Some (unat ?tail + unat ?off)"
    by (simp add: tailText_def fetch [symmetric])
  let ?fetched = "newest (unat ?tail + unat ?off) w"
  have strip: "map stripStreamHeader ?fetched = ?fetched"
    using assms(3) by (intro map_idI) (auto simp: newest_def dest: in_set_dropD)
  have "run_state (readWindow c (queryOf lib request)) l =
      (Inr (?fetched, Docker), snd (run_state (containerLogs c (queryOf lib request)) l))"
    using assms(2) strip unfolding shows_tail_def Let_def assms(1)
    by (simp add: readWindow_def run_bind containerLogs_run queryOf_def tail shown scanLines_def State_Monad.return_def Let_def split: if_splits)
  moreover obtain old w2 where "run_state (oldestAvailable lib c) (snd (run_state (containerLogs c (queryOf lib request)) l)) = (old, w2)"
    by force
  moreover have "pageOf ?tail ?off ?fetched = (newest (unat ?tail) (take (length w - unat ?off) w), False)"
  proof -
    let ?kept = "take (length ?fetched - unat ?off) ?fetched"
    have kept: "?kept = drop (length w - (unat ?tail + unat ?off)) (take (length w - unat ?off) w)"
      by (cases "length w \<le> unat ?tail + unat ?off") (simp_all add: newest_def take_drop)
    have short: "length ?kept \<le> unat ?tail" by (simp add: length_newest)
    have same: "newest (unat ?tail) (take (length w - unat ?off) w) = ?kept"
      by (rule trans [OF _ kept [symmetric]]) (simp add: newest_def add.commute)
    have "bytesOf ?kept \<le> bytesOf w" unfolding kept by (rule order_trans [OF bytesOf_drop bytesOf_take])
    then have "trimToBytes ?kept MaxQueryBytes = (?kept, False)"
      using assms(8) by (intro trimToBytes_spec(3)) simp
    with short same show ?thesis
      by (simp add: pageOf_spec Let_def newest_all trimToBytes_spec(4) [symmetric])
  qed
  ultimately show ?thesis
    by (simp add: QueryLogs_def run_bind assms(4,5) tail State_Monad.return_def)
qed

section \<open>Examples, and what is not as intended\<close>

definition demo_window :: "string list" where "demo_window = [''a'', ''b'', ''c'']"

definition demo_daemon :: LogManager where
  "demo_daemon = demo_logs\<lparr>oExt := (\<lambda>_ call. case call of
       Ext _ (_ # tail # _) \<Rightarrow> demo_reply\<lparr>rpStrs := [([], case ParseUint 64 tail of Some n \<Rightarrow> newest n demo_window | None \<Rightarrow> demo_window)]\<rparr>
     | _ \<Rightarrow> demo_reply)\<rparr>"

definition demo_times :: TimeLib where
  "demo_times = \<lparr>tParse = (\<lambda>s. if s = ''2024-01-01T00:00:00Z'' then Some 5 else None), tFormat = (\<lambda>_. ''2024-01-01T00:00:00Z''), tDuration = (\<lambda>_. None),
     tUnix = (\<lambda>n. n)\<rparr>"

definition demo_request :: LogQueryRequest where
  "demo_request = \<lparr>rqContainerName = ''dev_6_x'', rqTail = 1, rqOffset = 1, rqSince = 0, rqUntil = 0, rqNoTimestamps = False\<rparr>"


lemma demo_shows_tail: "shows_tail (\<lambda>_ _ _ _. demo_window) c demo_daemon"
  by (simp add: shows_tail_def demo_daemon_def demo_reply_def rpLines_def Let_def)

theorem query_pages_window_witness:
  "\<exists>res l'. run_state (QueryLogs demo_times demo_request) demo_daemon = (Inr res, l') \<and> rsSource res = Docker \<and> \<not> rsTruncated res
     \<and> rsLines res = [''b'']"
proof -
  have "TrimSpace ''dev_6_x'' \<noteq> []" by code_simp
  moreover have "x \<in> set demo_window \<Longrightarrow> stripStreamHeader x = x" for x
    by (auto simp: demo_window_def stripStreamHeader_def)
  ultimately show ?thesis
    using query_pages_window [of demo_window "\<lambda>_ _ _ _. demo_window" "''dev_6_x''" demo_times demo_request demo_daemon, OF refl demo_shows_tail]
    by (simp add: demo_window_def demo_request_def newest_def MaxQueryBytes_def)
qed

text \<open>
  The sum of tail and offset wraps around: for an offset of \<open>2 ^ 64 - tail\<close> it is 0, which asks
  Docker for all lines there are.
\<close>

lemma offset_wraps_to_all:
  assumes "rqOffset request = - effectiveTail (rqTail request)"
  shows "oTail (logsOptionsFromDict (DockerOptions (queryOf lib request))) = ''all''"
  using assms by (simp add: logsOptionsFromDict_def DockerOptions_def queryOf_def fetchLines_def tailText_def)

text \<open>
  Lines which Docker left out because of the tail are not reported: with an offset of 0 and no more
  lines fetched than asked for, the page of a longer log is never marked as truncated.
\<close>

lemma older_lines_unreported:
  assumes "length fetched \<le> unat tail" and "bytesOf fetched \<le> MaxQueryBytes"
  shows "pageOf tail 0 fetched = (fetched, False)"
  using assms by (simp add: pageOf_def trimToBytes_spec(3))

text \<open>
  Paging back over 5000 lines is not refused: the read is cut to 5000 lines, all of them are dropped,
  and an empty page that is not truncated looks like the end of the log.
\<close>

lemma deep_page_empty: "length fetched \<le> 5000 \<Longrightarrow> 5000 \<le> unat offset \<Longrightarrow> pageOf tail offset fetched = ([], False)"
  by (simp add: pageOf_spec Let_def newest_def trimToBytes_def MaxQueryBytes_def)

end
