(* ===== verification/AgentLog.thy ===== *)
theory AgentLog
  imports LogQueries
begin

text \<open>
  \<^verbatim>\<open>logging/agentlog.go\<close>: reading the agent's own log and its rotations, and \<^verbatim>\<open>ParseLogTime\<close> of
  \<^verbatim>\<open>common/utils.go\<close>. The file system answers \<^verbatim>\<open>os.ReadDir\<close> with the names of the entries, each with a
  non-empty list when it is a directory, and \<^verbatim>\<open>os.Open\<close> with the lines the scanner finds. The decoding
  of a line into the four fields is a parameter. Paths are those of Unix.
\<close>

section \<open>Paths\<close>

text \<open>The part of a path after its last separator, and with it what goes before.\<close>

definition afterLast :: "char \<Rightarrow> string \<Rightarrow> string" where
  "afterLast sep s = rev (takeWhile (\<lambda>c. c \<noteq> sep) (rev s))"

definition uptoLast :: "char \<Rightarrow> string \<Rightarrow> string" where
  "uptoLast sep s = rev (dropWhile (\<lambda>c. c \<noteq> sep) (rev s))"

fun cleanStep :: "bool \<Rightarrow> string list \<Rightarrow> string \<Rightarrow> string list" where
  "cleanStep rooted stack c =
     (if c = [] \<or> c = ''.'' then stack
      else if c = ''..'' then
        (case stack of
           upper # below \<Rightarrow> if upper \<noteq> ''..'' then below else c # stack
         | [] \<Rightarrow> if rooted then [] else [c])
      else c # stack)"

definition Clean :: "string \<Rightarrow> string" where
  "Clean path = (let rooted = HasPrefix path ''/'';
                     joined = Join (CHR ''/'') (rev (foldl (cleanStep rooted) [] (Split (CHR ''/'') path)))
                 in if rooted then CHR ''/'' # joined else if joined = [] then ''.'' else joined)"

definition Dir :: "string \<Rightarrow> string" where
  "Dir path = Clean (uptoLast (CHR ''/'') path)"

definition Base :: "string \<Rightarrow> string" where
  "Base path = (if path = [] then ''.''
     else let name = afterLast (CHR ''/'') (rev (dropWhile (\<lambda>c. c = CHR ''/'') (rev path))) in if name = [] then ''/'' else name)"

definition pathExt :: "string \<Rightarrow> string" where
  "pathExt path = (let name = afterLast (CHR ''/'') path in
     if CHR ''.'' \<in> set name then CHR ''.'' # afterLast (CHR ''.'') name else [])"

definition joinPath :: "string \<Rightarrow> string \<Rightarrow> string" where
  "joinPath dir name = (if dir = [] \<and> name = [] then [] else Clean (Join (CHR ''/'') (filter (\<lambda>s. s \<noteq> []) [dir, name])))"

section \<open>Times of a window\<close>

definition ParseLogTime :: "'z TimeLib_scheme \<Rightarrow> string \<Rightarrow> Time \<Rightarrow> go_error + Time" where
  "ParseLogTime lib value now =
     (let trimmed = TrimSpace value in
      if trimmed = [] then Inl (Msg ''empty log time'')
      else case tParse lib trimmed of
        Some parsed \<Rightarrow> Inr parsed
      | None \<Rightarrow> (case tDuration lib (TrimPrefix trimmed ''-'') of
          Some duration \<Rightarrow> Inr (now - \<bar>duration\<bar>)
        | None \<Rightarrow> (case Atoi trimmed of
            Some seconds \<Rightarrow> Inr (tUnix lib seconds)
          | None \<Rightarrow> Inl (Msg (trimmed @ '' is not an RFC3339 time, a Unix timestamp, or a duration'')))))"

section \<open>Lines of the agent's log\<close>

definition DefaultAgentLogLines :: uint64 where "DefaultAgentLogLines = 300"
definition MaxAgentLogLines :: uint64 where "MaxAgentLogLines = 5000"

definition levelRank :: "(string \<times> nat) list" where
  "levelRank = [(''trace'', 0), (''debug'', 1), (''info'', 2), (''warn'', 3), (''error'', 4), (''fatal'', 5), (''panic'', 6)]"

definition defaultLevelRank :: nat where "defaultLevelRank = 2"

definition rankOf :: "string \<Rightarrow> nat" where
  "rankOf level = (case map_of levelRank level of Some r \<Rightarrow> r | None \<Rightarrow> defaultLevelRank)"

record AgentLogQuery =
  alPath :: string
  alTail :: uint64
  alSince :: Time
  alUntil :: Time
  alMinLevel :: string

record AgentLogResult =
  arLines :: "string list"
  arTruncated :: bool
  arOldestAvailable :: Time
  arFilesScanned :: nat

record agentLogLine =
  enLevel :: string
  enTime :: string
  enMessage :: string
  enError :: string

record LineLib = TimeLib +
  tDecode :: "string \<Rightarrow> agentLogLine option" \<comment> \<open>\<^verbatim>\<open>json.Unmarshal\<close> into an \<^verbatim>\<open>agentLogLine\<close>\<close>

definition toUpperChar :: "char \<Rightarrow> char" where
  "toUpperChar c = (let n = of_char c :: nat in if 97 \<le> n \<and> n \<le> 122 then char_of (n - 32) else c)"

definition renderAgentLogLine :: "LineLib \<Rightarrow> string \<Rightarrow> string \<times> Time \<times> nat \<times> bool" where
  "renderAgentLogLine lib raw = (case tDecode lib raw of
     None \<Rightarrow> (raw, 0, defaultLevelRank, False)
   | Some entry \<Rightarrow>
       if enTime entry = [] \<and> enLevel entry = [] \<and> enMessage entry = [] then (raw, 0, defaultLevelRank, False)
       else let stamp = (case tParse lib (enTime entry) of Some t \<Rightarrow> t | None \<Rightarrow> 0);
                level = ToLower (enLevel entry)
            in ((if stamp \<noteq> 0 then tFormat lib stamp @ '' '' else [])
                @ (if level \<noteq> [] then map toUpperChar level @ '' '' else [])
                @ enMessage entry
                @ (if enError entry \<noteq> [] then '': '' @ enError entry else []),
                stamp, rankOf level, True))"

section \<open>The files\<close>

definition isBackup :: "string \<Rightarrow> string \<times> string list \<Rightarrow> bool" where
  "isBackup base entry = (let ext = pathExt base; prefix = TrimSuffix base ext in
     snd entry = [] \<and> fst entry \<noteq> base \<and> HasPrefix (fst entry) (prefix @ ''-'') \<and> HasSuffix (fst entry) ext)"

definition agentLogFiles :: "string \<Rightarrow> ('z outside_scheme, go_error + string list) state" where
  "agentLogFiles path =
     (if TrimSpace path = [] then ret (Inl (Msg ''no agent log path configured''))
      else do {
        entries \<leftarrow> ask ''os.ReadDir'' [Dir path];
        case rpErr entries of
          Some err \<Rightarrow> do {
            statErr \<leftarrow> askE ''os.Stat'' [path];
            ret (if statErr = None then Inr [path] else Inl err) }
        | None \<Rightarrow> do {
            let backups = sort (map (\<lambda>entry. joinPath (Dir path) (fst entry)) (filter (isBackup (Base path)) (rpStrs entries)));
            statErr \<leftarrow> askE ''os.Stat'' [path];
            ret (case statErr of
                   Some e \<Rightarrow> if backups = [] then Inl e else Inr backups
                 | None \<Rightarrow> Inr (backups @ [path])) } })"

section \<open>The scan\<close>

record AgentScan =
  scStamp :: Time
  scRank :: nat
  scOldest :: Time
  scKept :: "string list"
  scTruncated :: bool
  scFiles :: nat

definition newScan :: AgentScan where
  "newScan = \<lparr>scStamp = 0, scRank = defaultLevelRank, scOldest = 0, scKept = [], scTruncated = False, scFiles = 0\<rparr>"

definition wantedLine :: "AgentLogQuery \<Rightarrow> nat \<Rightarrow> Time \<Rightarrow> nat \<Rightarrow> bool" where
  "wantedLine query minRank stamp rank \<longleftrightarrow>
     \<not> (rank < minRank) \<and> \<not> (alSince query \<noteq> 0 \<and> stamp \<noteq> 0 \<and> stamp < alSince query)
     \<and> \<not> (alUntil query \<noteq> 0 \<and> stamp \<noteq> 0 \<and> stamp > alUntil query)"

definition scanLine :: "LineLib \<Rightarrow> AgentLogQuery \<Rightarrow> nat \<Rightarrow> nat \<Rightarrow> string \<Rightarrow> AgentScan \<Rightarrow> AgentScan" where
  "scanLine lib query tail minRank raw sc =
     (if TrimSpace raw = [] then sc
      else case renderAgentLogLine lib raw of (rendered, stamp0, rank0, parsed) \<Rightarrow>
        let sc1 = (if parsed then sc\<lparr>scStamp := stamp0, scRank := rank0\<rparr> else sc);
            stamp = scStamp sc1; rank = scRank sc1;
            sc2 = (if stamp \<noteq> 0 \<and> scOldest sc1 = 0 then sc1\<lparr>scOldest := stamp\<rparr> else sc1)
        in if \<not> wantedLine query minRank stamp rank then sc2
           else let sc3 = (if length (scKept sc2) = tail then sc2\<lparr>scKept := tl (scKept sc2), scTruncated := True\<rparr> else sc2)
                in sc3\<lparr>scKept := scKept sc3 @ [rendered]\<rparr>)"

fun scanFiles :: "LineLib \<Rightarrow> AgentLogQuery \<Rightarrow> nat \<Rightarrow> nat \<Rightarrow> string list \<Rightarrow> AgentScan \<Rightarrow> ('z outside_scheme, AgentScan) state" where
  "scanFiles lib query tail minRank [] sc = ret sc"
| "scanFiles lib query tail minRank (path # files) sc = do {
     r \<leftarrow> ask ''os.Open'' [path];
     if rpErr r \<noteq> None then scanFiles lib query tail minRank files sc
     else scanFiles lib query tail minRank files
            (fold (scanLine lib query tail minRank) (rpLines r) (sc\<lparr>scFiles := scFiles sc + 1\<rparr>)) }"

definition agentTail :: "uint64 \<Rightarrow> uint64" where
  "agentTail t = (let tail = (if t = 0 then DefaultAgentLogLines else t) in if tail > MaxAgentLogLines then MaxAgentLogLines else tail)"

definition QueryAgentLog :: "LineLib \<Rightarrow> AgentLogQuery \<Rightarrow> ('z outside_scheme, go_error + AgentLogResult) state" where
  "QueryAgentLog lib query = do {
     let tail = unat (agentTail (alTail query));
     let minRank = rankOf (ToLower (TrimSpace (alMinLevel query)));
     files \<leftarrow> agentLogFiles (alPath query);
     case files of
       Inl err \<Rightarrow> ret (Inl err)
     | Inr paths \<Rightarrow> do {
         sc \<leftarrow> scanFiles lib query tail minRank paths newScan;
         let (lines, trimmed) = trimToBytes (scKept sc) MaxQueryBytes;
         ret (Inr \<lparr>arLines = lines, arTruncated = (scTruncated sc \<or> trimmed), arOldestAvailable = scOldest sc, arFilesScanned = scFiles sc\<rparr>) } }"

section \<open>What the scan finds\<close>

text \<open>
  The reference: time and severity of a line are those of the last line up to it that is a record of
  the log, and a line is found when these are in the window.
\<close>

definition nonblank :: "string \<Rightarrow> bool" where
  "nonblank raw \<longleftrightarrow> TrimSpace raw \<noteq> []"

definition carried :: "LineLib \<Rightarrow> string list \<Rightarrow> Time \<times> nat" where
  "carried lib raws =
     (case rev (filter (\<lambda>(_, _, _, parsed). parsed) (map (renderAgentLogLine lib) raws)) of
        [] \<Rightarrow> (0, defaultLevelRank)
      | (_, stamp, rank, _) # _ \<Rightarrow> (stamp, rank))"

definition annotated :: "LineLib \<Rightarrow> string list \<Rightarrow> (string \<times> Time \<times> nat) list" where
  "annotated lib raws = map (\<lambda>i. (fst (renderAgentLogLine lib (raws ! i)), carried lib (take (Suc i) raws))) [0..<length raws]"

definition foundLines :: "LineLib \<Rightarrow> AgentLogQuery \<Rightarrow> nat \<Rightarrow> string list \<Rightarrow> string list" where
  "foundLines lib query minRank raws = map fst (filter (\<lambda>(_, stamp, rank). wantedLine query minRank stamp rank) (annotated lib raws))"

definition oldestStamp :: "LineLib \<Rightarrow> string list \<Rightarrow> Time" where
  "oldestStamp lib raws = (case filter (\<lambda>(_, stamp, _). stamp \<noteq> 0) (annotated lib raws) of [] \<Rightarrow> 0 | (_, stamp, _) # _ \<Rightarrow> stamp)"

fun openedFiles :: "string list \<Rightarrow> 'z outside_scheme \<Rightarrow> string list list" where
  "openedFiles [] s = []"
| "openedFiles (path # files) s =
     (let r = oExt s (oTrace s) (Ext ''os.Open'' [path]); s' = s\<lparr>oTrace := oTrace s @ [Ext ''os.Open'' [path]]\<rparr>
      in if rpErr r \<noteq> None then openedFiles files s' else rpLines r # openedFiles files s')"

lemma annotated_snoc:
  "annotated lib (raws @ [raw]) = annotated lib raws @ [(fst (renderAgentLogLine lib raw), carried lib (raws @ [raw]))]"
  by (auto simp: annotated_def nth_append)

lemma carried_snoc:
  "carried lib (raws @ [raw]) =
     (case renderAgentLogLine lib raw of (_, stamp, rank, parsed) \<Rightarrow> if parsed then (stamp, rank) else carried lib raws)"
  by (cases "renderAgentLogLine lib raw") (simp add: carried_def)

lemma oldestStamp_snoc:
  "oldestStamp lib (raws @ [raw]) = (if oldestStamp lib raws = 0 then fst (carried lib (raws @ [raw])) else oldestStamp lib raws)"
proof (cases "filter (\<lambda>(_, stamp, _). stamp \<noteq> 0) (annotated lib raws)")
  case Nil
  then show ?thesis by (cases "carried lib (raws @ [raw])") (simp add: oldestStamp_def annotated_snoc)
next
  case (Cons e es)
  obtain rendered stamp rank where e: "e = (rendered, stamp, rank)" by (cases e)
  have "e \<in> set (filter (\<lambda>(_, stamp, _). stamp \<noteq> 0) (annotated lib raws))" by (simp add: Cons)
  then have "stamp \<noteq> 0" by (simp add: e)
  then show ?thesis by (simp add: oldestStamp_def annotated_snoc Cons e)
qed

lemma newest_snoc: "newest n (xs @ [x]) = (if n = 0 then [] else (if length (newest n xs) = n then tl (newest n xs) else newest n xs) @ [x])"
proof (cases "n \<le> length xs")
  case True
  then show ?thesis by (auto simp: newest_def tl_drop drop_Suc [symmetric] Suc_diff_le)
next
  case False
  then show ?thesis by (simp add: newest_def)
qed

lemma scan_spec:
  assumes "0 < tail" and "list_all nonblank raws"
  shows "fold (scanLine lib query tail minRank) raws newScan =
    \<lparr>scStamp = fst (carried lib raws), scRank = snd (carried lib raws), scOldest = oldestStamp lib raws,
     scKept = newest tail (foundLines lib query minRank raws), scTruncated = (length (foundLines lib query minRank raws) > tail), scFiles = 0\<rparr>"
  using assms(2)
proof (induction raws rule: rev_induct)
  case Nil
  then show ?case by (simp add: newScan_def carried_def oldestStamp_def foundLines_def annotated_def newest_def)
next
  case (snoc raw raws)
  obtain rendered stamp rank parsed where r: "renderAgentLogLine lib raw = (rendered, stamp, rank, parsed)" by (cases "renderAgentLogLine lib raw")
  from snoc.prems have raw: "TrimSpace raw \<noteq> []" and raws: "list_all nonblank raws" by (auto simp: nonblank_def list_all_iff)
  from snoc.IH [OF raws] raw assms(1) show ?case
    by (cases parsed; cases "carried lib raws")
       (simp_all add: scanLine_def r carried_snoc oldestStamp_snoc annotated_snoc foundLines_def newest_snoc Let_def length_newest min_def)
qed

lemma scan_blank: "fold (scanLine lib query tail minRank) raws sc = fold (scanLine lib query tail minRank) (filter nonblank raws) sc"
  by (induction raws arbitrary: sc) (simp_all add: scanLine_def nonblank_def)

lemma scanLine_files: "scanLine lib query tail minRank raw (sc\<lparr>scFiles := n\<rparr>) = (scanLine lib query tail minRank raw sc)\<lparr>scFiles := n\<rparr>"
  by (simp add: scanLine_def Let_def split: prod.split)

lemma scan_files: "fold (scanLine lib query tail minRank) raws (sc\<lparr>scFiles := n\<rparr>) = (fold (scanLine lib query tail minRank) raws sc)\<lparr>scFiles := n\<rparr>"
  by (induction raws arbitrary: sc) (simp_all add: scanLine_files)

lemma scanFiles_run:
  "fst (run_state (scanFiles lib query tail minRank files sc) s) =
     (fold (scanLine lib query tail minRank) (concat (openedFiles files s)) sc)\<lparr>scFiles := scFiles sc + length (openedFiles files s)\<rparr>"
proof (induction files arbitrary: sc s)
  case Nil
  then show ?case by (simp add: State_Monad.return_def)
next
  case (Cons path files)
  have files: "scFiles (fold (scanLine lib query tail minRank) raws sc) = scFiles sc" for raws sc
    by (metis AgentScan.select_convs(6) AgentScan.surjective AgentScan.update_convs(6) scan_files)
  show ?case by (simp add: run_bind run_ask Cons Let_def scan_files files)
qed

text \<open>
  C19: a query of the agent's log that finds its files returns the newest lines, as many as asked
  for, of those that are found by the reference in all files that could be opened, in their order
  and without blank lines, trimmed to 4 MiB; it says whether any found line was left out, the oldest
  time there is and how many files were read.
\<close>

theorem agent_log_reference:
  assumes "run_state (agentLogFiles (alPath query)) s = (Inr files, s1)"
    and "raws = filter nonblank (concat (openedFiles files s1))"
    and "found = foundLines lib query (rankOf (ToLower (TrimSpace (alMinLevel query)))) raws"
    and "page = newest (unat (agentTail (alTail query))) found"
  shows "fst (run_state (QueryAgentLog lib query) s) = Inr
    \<lparr>arLines = fst (trimToBytes page MaxQueryBytes), arTruncated = (page \<noteq> found \<or> bytesOf page > MaxQueryBytes),
     arOldestAvailable = oldestStamp lib raws, arFilesScanned = length (openedFiles files s1)\<rparr>"
proof -
  let ?tail = "unat (agentTail (alTail query))" and ?min = "rankOf (ToLower (TrimSpace (alMinLevel query)))"
  have tail: "0 < ?tail"
    by (auto simp: agentTail_def Let_def DefaultAgentLogLines_def MaxAgentLogLines_def unat_gt_0)
  have "list_all nonblank raws" by (simp add: assms(2) list_all_iff)
  note scan = scan_spec [OF tail this, of lib query ?min]
  have "fst (run_state (scanFiles lib query ?tail ?min files newScan) s1) =
      \<lparr>scStamp = fst (carried lib raws), scRank = snd (carried lib raws), scOldest = oldestStamp lib raws,
       scKept = page, scTruncated = (length found > ?tail), scFiles = length (openedFiles files s1)\<rparr>"
    unfolding scanFiles_run scan_blank [of _ _ _ _ "concat _"] assms(2) [symmetric] scan by (simp add: newScan_def assms(3,4))
  then obtain sc s2 where run: "run_state (scanFiles lib query ?tail ?min files newScan) s1 = (sc, s2)"
    and sc: "scKept sc = page" "scTruncated sc = (length found > ?tail)" "scOldest sc = oldestStamp lib raws"
      "scFiles sc = length (openedFiles files s1)"
    by (cases "run_state (scanFiles lib query ?tail ?min files newScan) s1") auto
  have "page \<noteq> found \<longleftrightarrow> length found > ?tail"
  proof
    assume "page \<noteq> found" then show "length found > ?tail" unfolding assms(4) by (rule contrapos_np) (simp add: newest_all)
  next
    assume "length found > ?tail" then have "length page < length found" by (simp add: assms(4) length_newest)
    then show "page \<noteq> found" by auto
  qed
  then show ?thesis
    using trimToBytes_spec(4) [of page MaxQueryBytes]
    by (cases "trimToBytes page MaxQueryBytes") (simp add: QueryAgentLog_def run_bind assms(1) run sc Let_def State_Monad.return_def)
qed

text \<open>The files are read in the order of their names, the active one last.\<close>

lemma agentLogFiles_spec:
  assumes "run_state (agentLogFiles path) s = (Inr files, s')" and "rpErr (oExt s (oTrace s) (Ext ''os.ReadDir'' [Dir path])) = None"
  shows "\<exists>backups. sorted backups \<and> (files = backups \<and> backups \<noteq> [] \<or> files = backups @ [path])
    \<and> (\<forall>b \<in> set backups. \<exists>entry \<in> set (rpStrs (oExt s (oTrace s) (Ext ''os.ReadDir'' [Dir path]))). isBackup (Base path) entry \<and> b = joinPath (Dir path) (fst entry))"
proof -
  let ?r = "oExt s (oTrace s) (Ext ''os.ReadDir'' [Dir path])"
  let ?backups = "sort (map (\<lambda>entry. joinPath (Dir path) (fst entry)) (filter (isBackup (Base path)) (rpStrs ?r)))"
  have "TrimSpace path \<noteq> []" using assms(1) by (auto simp: agentLogFiles_def State_Monad.return_def)
  then have "files = ?backups \<and> ?backups \<noteq> [] \<or> files = ?backups @ [path]"
    using assms by (auto simp: agentLogFiles_def askE_def run_ask run_bind State_Monad.return_def Let_def split: option.splits if_splits)
  then show ?thesis by (intro exI [of _ ?backups]) auto
qed

section \<open>Examples, and what is not as intended\<close>

definition demo_lines :: LineLib where
  "demo_lines = TimeLib.extend demo_times \<lparr>tDecode = (\<lambda>raw. if raw = ''w'' then Some \<lparr>enLevel = ''warn'', enTime = ''2024-01-01T00:00:00Z'', enMessage = ''m'', enError = []\<rparr>
     else if raw = ''i'' then Some \<lparr>enLevel = ''info'', enTime = [], enMessage = ''n'', enError = []\<rparr> else None)\<rparr>"

definition demo_files :: outside where
  "demo_files = \<lparr>oTrace = [], oExt = (\<lambda>_ call. case call of Ext name _ \<Rightarrow>
     if name = ''os.Open'' then demo_reply\<lparr>rpStrs := [([], [''i'', ''w'', ''trace of w'', '' ''])]\<rparr> else demo_reply)\<rparr>"

definition demo_agent_query :: AgentLogQuery where
  "demo_agent_query = \<lparr>alPath = ''/var/reagent.log'', alTail = 1, alSince = 0, alUntil = 0, alMinLevel = ''warn''\<rparr>"

theorem agent_log_reference_witness:
  "fst (run_state (QueryAgentLog demo_lines demo_agent_query) demo_files) =
     Inr \<lparr>arLines = [''trace of w''], arTruncated = True, arOldestAvailable = 5, arFilesScanned = 1\<rparr>"
proof -
  let ?run = "run_state (agentLogFiles (alPath demo_agent_query)) demo_files"
  have "fst ?run = Inr [''/var/reagent.log'']" by code_simp
  then have files: "?run = (Inr [''/var/reagent.log''], snd ?run)" by (metis prod.collapse)
  have opened: "openedFiles [''/var/reagent.log''] (snd ?run) = [[''i'', ''w'', ''trace of w'', '' '']]" by code_simp
  have raws: "[''i'', ''w'', ''trace of w''] = filter nonblank (concat (openedFiles [''/var/reagent.log''] (snd ?run)))"
    unfolding opened by code_simp
  have found: "[''2024-01-01T00:00:00Z WARN m'', ''trace of w''] =
      foundLines demo_lines demo_agent_query (rankOf (ToLower (TrimSpace (alMinLevel demo_agent_query)))) [''i'', ''w'', ''trace of w'']"
    by code_simp
  have "newest (unat (agentTail (alTail demo_agent_query))) [''2024-01-01T00:00:00Z WARN m'', ''trace of w''] = [''trace of w'']"
    by (simp add: newest_def agentTail_def demo_agent_query_def MaxAgentLogLines_def)
  note agent_log_reference [OF files raws found this [symmetric]]
  moreover have "oldestStamp demo_lines [''i'', ''w'', ''trace of w''] = 5" by code_simp
  ultimately show ?thesis unfolding opened by (simp add: MaxQueryBytes_def trimToBytes_def)
qed

text \<open>A duration goes before a number of seconds: a bare 0 is the present, not the start of the epoch.\<close>

lemma zero_is_now:
  assumes "tParse lib ''0'' = None" and "tDuration lib ''0'' = Some 0"
  shows "ParseLogTime lib ''0'' now = Inr now"
proof -
  have "TrimSpace ''0'' = ''0''" "TrimPrefix ''0'' ''-'' = ''0''" by code_simp+
  with assms show ?thesis by (simp add: ParseLogTime_def)
qed

end
