(* ===== verification/Transfers.thy ===== *)
theory Transfers
  imports Outside
begin

text \<open>
  \<^verbatim>\<open>filesystem/transfer.go\<close>: the transfer of a build archive in hexadecimal chunks. The table of active
  transfers is the component's state; an open file is the number of its opening, which every call on
  it names, and the operating system answers the calls. The sections under the table's lock and the
  calls between them are one step. Unpacking is done by the build.
\<close>

section \<open>Data\<close>

record ActiveFileTransfer =
  ftID :: string
  ftCurrent :: uint64
  ftTotal :: uint64
  ftCanceled :: bool
  ftFile :: "nat option"

record FileChunk =
  chID :: string
  chFileName :: string
  chFilePath :: string
  chData :: string
  chContainerName :: string
  chTotal :: uint64

record Filesystem = outside +
  fsActive :: "(string \<times> ActiveFileTransfer) list"
  fsOpened :: "string list" \<comment> \<open>the paths of the files that were opened\<close>

definition newFilesystem :: "(ext_call list \<Rightarrow> ext_call \<Rightarrow> reply) \<Rightarrow> Filesystem" where
  "newFilesystem ext = \<lparr>oTrace = [], oExt = ext, fsActive = [], fsOpened = []\<rparr>"

text \<open>\<^verbatim>\<open>hex.DecodeString\<close>: pairs of digits of either case.\<close>

definition hexDigit :: "char \<Rightarrow> nat option" where
  "hexDigit c = (let n = of_char c :: nat in
     if 48 \<le> n \<and> n \<le> 57 then Some (n - 48)
     else if 97 \<le> n \<and> n \<le> 102 then Some (n - 87)
     else if 65 \<le> n \<and> n \<le> 70 then Some (n - 55) else None)"

fun DecodeString :: "string \<Rightarrow> string option" where
  "DecodeString [] = Some []"
| "DecodeString [c] = None"
| "DecodeString (c # d # s) =
     (case (hexDigit c, hexDigit d, DecodeString s) of
        (Some h, Some l, Some rest) \<Rightarrow> Some (char_of (16 * h + l) # rest)
      | _ \<Rightarrow> None)"

section \<open>Operations\<close>

type_synonym ('z, 'a) fprog = "('z Filesystem_scheme, 'a) state"

definition fileCall :: "string \<Rightarrow> nat \<Rightarrow> string list \<Rightarrow> ('z, reply) fprog" where
  "fileCall name h args = ask name (itoa h # args)"

definition closeFile :: "nat option \<Rightarrow> ('z, err) fprog" where
  "closeFile f = (case f of None \<Rightarrow> ret None | Some h \<Rightarrow> do { r \<leftarrow> fileCall ''File.Close'' h []; ret (rpErr r) })"

definition put_transfer :: "string \<Rightarrow> ActiveFileTransfer \<Rightarrow> ('z, err) fprog" where
  "put_transfer c t = ignore (modify (\<lambda>s. s\<lparr>fsActive := map_put c t (fsActive s)\<rparr>))"

definition del_transfer :: "string \<Rightarrow> ('z, err) fprog" where
  "del_transfer c = ignore (modify (\<lambda>s. s\<lparr>fsActive := map_del c (fsActive s)\<rparr>))"

definition GetActiveTransfer :: "string \<Rightarrow> ('z, ActiveFileTransfer option) fprog" where
  "GetActiveTransfer containerName = gets (\<lambda>s. map_of (fsActive s) containerName)"

definition CancelFileTransfer :: "string \<Rightarrow> ('z, err) fprog" where
  "CancelFileTransfer containerName = do {
     t \<leftarrow> GetActiveTransfer containerName;
     case t of
       None \<Rightarrow> ret None
     | Some fileTransfer \<Rightarrow> do {
         _ \<leftarrow> put_transfer containerName (fileTransfer\<lparr>ftCanceled := True\<rparr>);
         ignore (closeFile (ftFile fileTransfer)) } }"

definition CleanupFailedTransfer :: "string \<Rightarrow> ('z, err) fprog" where
  "CleanupFailedTransfer containerName = do {
     t \<leftarrow> GetActiveTransfer containerName;
     _ \<leftarrow> (case t of None \<Rightarrow> ret None | Some transfer \<Rightarrow> closeFile (ftFile transfer));
     del_transfer containerName }"

definition beginTransfer :: "FileChunk \<Rightarrow> ('z, err) fprog" where
  "beginTransfer chunk = do {
     prev \<leftarrow> GetActiveTransfer (chContainerName chunk);
     _ \<leftarrow> (case prev of None \<Rightarrow> ret None | Some t \<Rightarrow> closeFile (ftFile t));
     let filePath = chFilePath chunk @ ''/'' @ chFileName chunk;
     r \<leftarrow> ask ''os.OpenFile'' [filePath];
     case rpErr r of
       Some e \<Rightarrow> do { _ \<leftarrow> del_transfer (chContainerName chunk); ret (Some e) }
     | None \<Rightarrow> do {
         h \<leftarrow> gets (\<lambda>s. length (fsOpened s));
         _ \<leftarrow> modify (\<lambda>s. s\<lparr>fsOpened := fsOpened s @ [filePath]\<rparr>);
         put_transfer (chContainerName chunk)
           \<lparr>ftID = chID chunk, ftCurrent = 0, ftTotal = chTotal chunk, ftCanceled = False, ftFile = Some h\<rparr> } }"

definition endTransfer :: "FileChunk \<Rightarrow> ActiveFileTransfer \<Rightarrow> ('z, err) fprog" where
  "endTransfer chunk activeTransfer =
     (if ftID activeTransfer \<noteq> chID chunk then ret None
      else do {
        err \<leftarrow> (case ftFile activeTransfer of
                  None \<Rightarrow> ret None
                | Some h \<Rightarrow> do {
                    s \<leftarrow> fileCall ''File.Sync'' h [];
                    c \<leftarrow> fileCall ''File.Close'' h [];
                    ret (if rpErr s = None then rpErr c else rpErr s) });
        _ \<leftarrow> del_transfer (chContainerName chunk);
        ret err })"

definition dataChunk :: "FileChunk \<Rightarrow> ActiveFileTransfer \<Rightarrow> ('z, err) fprog" where
  "dataChunk chunk activeTransfer =
     (if ftCanceled activeTransfer then ret (Some (Msg ''canceled''))
      else if ftID activeTransfer \<noteq> chID chunk then ret None
      else case ftFile activeTransfer of
        None \<Rightarrow> ret (Some (Msg ''active transfer has no open file handle''))
      | Some h \<Rightarrow> (case DecodeString (chData chunk) of
          None \<Rightarrow> ret (Some (Msg ''encoding/hex''))
        | Some bytes \<Rightarrow> do {
            r \<leftarrow> fileCall ''File.Write'' h [bytes];
            if rpErr r \<noteq> None then ret (rpErr r)
            else put_transfer (chContainerName chunk)
                   (activeTransfer\<lparr>ftCurrent := ftCurrent activeTransfer + word_of_int (rpNum r)\<rparr>) }))"

definition WriteChunk :: "FileChunk \<Rightarrow> ('z, err) fprog" where
  "WriteChunk chunk =
     (if chData chunk = ''BEGIN'' then beginTransfer chunk
      else do {
        active \<leftarrow> GetActiveTransfer (chContainerName chunk);
        case active of
          None \<Rightarrow> ret (Some (Msg ''We received a chunk without an active transfer''))
        | Some activeTransfer \<Rightarrow>
            if chData chunk = ''END'' then endTransfer chunk activeTransfer else dataChunk chunk activeTransfer })"

fun writeChunks :: "FileChunk list \<Rightarrow> ('z, err list) fprog" where
  "writeChunks [] = ret []"
| "writeChunks (chunk # chunks) = do { e \<leftarrow> WriteChunk chunk; es \<leftarrow> writeChunks chunks; ret (e # es) }"

section \<open>Every open file has one transfer\<close>

definition fileOf :: "'z Filesystem_scheme \<Rightarrow> string \<Rightarrow> nat option" where
  "fileOf s c = Option.bind (map_of (fsActive s) c) ftFile"

definition written :: "nat \<Rightarrow> ext_call list \<Rightarrow> string" where
  "written h tr = concat (map (\<lambda>call. case call of Ext name [f, bytes] \<Rightarrow> if name = ''File.Write'' \<and> f = itoa h then bytes else [] | _ \<Rightarrow> []) tr)"

definition transfers_ok :: "'z Filesystem_scheme \<Rightarrow> bool" where
  "transfers_ok s \<longleftrightarrow> (\<forall>c h. fileOf s c = Some h \<longrightarrow> h < length (fsOpened s)) \<and> (\<forall>c c' h. fileOf s c = Some h \<and> fileOf s c' = Some h \<longrightarrow> c = c')
     \<and> (\<forall>h \<ge> length (fsOpened s). written h (oTrace s) = [])"

inductive fs_reachable :: "Filesystem \<Rightarrow> bool" where
  new: "fs_reachable (newFilesystem ext)"
| chunk: "fs_reachable s \<Longrightarrow> fs_reachable (snd (run_state (WriteChunk chunk) s))"
| cancel: "fs_reachable s \<Longrightarrow> fs_reachable (snd (run_state (CancelFileTransfer c) s))"
| cleanup: "fs_reachable s \<Longrightarrow> fs_reachable (snd (run_state (CleanupFailedTransfer c) s))"

lemma written_append [simp]: "written h (tr @ tr') = written h tr @ written h tr'"
  by (simp add: written_def)

lemma written_calls [simp]:
  "written h [] = []" "written h (Ext name [] # tr) = written h tr" "written h (Ext name [f] # tr) = written h tr"
  "written h (Ext ''File.Write'' [itoa h', bytes] # tr) = (if h' = h then bytes else []) @ written h tr"
  by (simp_all add: written_def itoa_inject)

lemmas fs_ops = run_ops fileCall_def closeFile_def put_transfer_def del_transfer_def GetActiveTransfer_def

lemma run_closeFile: "run_state (closeFile f) s = (case f of None \<Rightarrow> (None, s)
    | Some h \<Rightarrow> (rpErr (oExt s (oTrace s) (Ext ''File.Close'' [itoa h])), s\<lparr>oTrace := oTrace s @ [Ext ''File.Close'' [itoa h]]\<rparr>))"
  by (simp add: fs_ops split: option.split)

text \<open>A call changes the file of one container: to none, to the same, or to the one that was opened last.\<close>

lemma transfers_ok_step:
  assumes "transfers_ok s" and "fileOf s' = (fileOf s)(c := f)" and "\<forall>h \<ge> length (fsOpened s). written h (oTrace s') = []"
    and "f = None \<and> length (fsOpened s) \<le> length (fsOpened s') \<or> f = fileOf s c \<and> length (fsOpened s) \<le> length (fsOpened s') \<or> f = Some (length (fsOpened s)) \<and> length (fsOpened s') = Suc (length (fsOpened s))"
  shows "transfers_ok s'"
proof -
  have lt: "\<And>x h. fileOf s x = Some h \<Longrightarrow> h < length (fsOpened s)" and inj: "\<And>x y h. fileOf s x = Some h \<Longrightarrow> fileOf s y = Some h \<Longrightarrow> x = y"
    using assms(1) by (auto simp: transfers_ok_def)
  have le: "length (fsOpened s) \<le> length (fsOpened s')" using assms(4) by auto
  have f: "f = None \<or> f = fileOf s c \<or> f = Some (length (fsOpened s)) \<and> length (fsOpened s') = Suc (length (fsOpened s))" using assms(4) by auto
  have "h < length (fsOpened s')" if "fileOf s' x = Some h" for x h
    using that f le lt [of x h] lt [of c h] by (auto simp: assms(2) split: if_splits)
  moreover have "x = y" if "fileOf s' x = Some h" "fileOf s' y = Some h" for x y h
    using that f lt [of x h] lt [of y h] inj [of x h y] inj [of x h c] inj [of c h y] by (auto simp: assms(2) split: if_splits)
  ultimately show ?thesis using assms(3) le by (auto simp: transfers_ok_def)
qed

lemma fileOf_simps [simp]:
  "fileOf (s\<lparr>oTrace := tr\<rparr>) = fileOf s" "fileOf (s\<lparr>fsOpened := n\<rparr>) = fileOf s"
  "fileOf (s\<lparr>fsActive := map_put c t (fsActive s')\<rparr>) = (fileOf s')(c := ftFile t)"
  "fileOf (s\<lparr>fsActive := map_del c (fsActive s')\<rparr>) = (fileOf s')(c := None)"
  "map_of (fsActive s) c = Some t \<Longrightarrow> fileOf s c = ftFile t"
  by (simp_all add: fileOf_def fun_eq_iff)

lemma CancelFileTransfer_ok: "transfers_ok s \<Longrightarrow> transfers_ok (snd (run_state (CancelFileTransfer c) s))"
  by (rule transfers_ok_step [where c = c and f = "fileOf s c"])
     (auto simp: CancelFileTransfer_def fs_ops run_closeFile transfers_ok_def fun_eq_iff split: option.splits)

lemma CleanupFailedTransfer_ok: "transfers_ok s \<Longrightarrow> transfers_ok (snd (run_state (CleanupFailedTransfer c) s))"
  by (rule transfers_ok_step [where c = c and f = None])
     (auto simp: CleanupFailedTransfer_def fs_ops run_closeFile transfers_ok_def split: option.splits)

lemma WriteChunk_begin:
  assumes "chData k = ''BEGIN''" and "run_state (WriteChunk k) s = (err, s')"
  shows "fileOf s' = (fileOf s)(chContainerName k := if err = None then Some (length (fsOpened s)) else None)"
    and "written h (oTrace s') = written h (oTrace s)" and "fsOpened s' = fsOpened s @ (if err = None then [chFilePath k @ ''/'' @ chFileName k] else [])"
    and "err = None \<Longrightarrow> map_of (fsActive s') = (map_of (fsActive s))(chContainerName k \<mapsto>
      \<lparr>ftID = chID k, ftCurrent = 0, ftTotal = chTotal k, ftCanceled = False, ftFile = Some (length (fsOpened s))\<rparr>)"
    and "c \<noteq> chContainerName k \<Longrightarrow> map_of (fsActive s') c = map_of (fsActive s) c"
  using assms by (auto simp: WriteChunk_def beginTransfer_def Let_def fs_ops run_closeFile split: option.splits if_splits)

lemma WriteChunk_other:
  assumes "chData k \<noteq> ''BEGIN''" and "run_state (WriteChunk k) s = (err, s')"
  shows "fileOf s' = (fileOf s)(chContainerName k := fileOf s' (chContainerName k))" and "fsOpened s' = fsOpened s"
    and "fileOf s' (chContainerName k) = None \<or> fileOf s' (chContainerName k) = fileOf s (chContainerName k)"
    and "fileOf s (chContainerName k) \<noteq> Some h \<Longrightarrow> written h (oTrace s') = written h (oTrace s)"
    and "c \<noteq> chContainerName k \<Longrightarrow> map_of (fsActive s') c = map_of (fsActive s) c"
  using assms
  by (auto simp: WriteChunk_def endTransfer_def dataChunk_def fs_ops fun_eq_iff split: option.splits if_splits)

lemma WriteChunk_ok:
  assumes "transfers_ok s" and "run_state (WriteChunk k) s = (err, s')"
  shows "transfers_ok s'"
proof (cases "chData k = ''BEGIN''")
  case True
  note b = WriteChunk_begin [OF True assms(2)]
  show ?thesis by (rule transfers_ok_step [OF assms(1) b(1)]) (use assms(1) b(2,3) in \<open>auto simp: transfers_ok_def\<close>)
next
  case False
  note b = WriteChunk_other [OF False assms(2)]
  have "written h (oTrace s') = []" if "h \<ge> length (fsOpened s)" for h
    using b(4) [of h] that assms(1) by (force simp: transfers_ok_def)
  then show ?thesis by (intro transfers_ok_step [OF assms(1) b(1)]) (use b(2,3) in auto)
qed

lemma reachable_ok: "fs_reachable s \<Longrightarrow> transfers_ok s"
proof (induction rule: fs_reachable.induct)
  case (new ext)
  then show ?case by (simp add: transfers_ok_def newFilesystem_def fileOf_def)
next
  case (chunk s k)
  then show ?case using WriteChunk_ok by (metis prod.collapse)
qed (simp_all add: CancelFileTransfer_ok CleanupFailedTransfer_ok)

section \<open>The archive is what was sent\<close>

definition bytesOfChunk :: "FileChunk \<Rightarrow> string" where
  "bytesOfChunk k = (case DecodeString (chData k) of Some bytes \<Rightarrow> bytes | None \<Rightarrow> [])"

definition sent :: "string \<Rightarrow> string \<Rightarrow> FileChunk list \<Rightarrow> string" where
  "sent c i ks = concat (map bytesOfChunk (filter (\<lambda>k. chContainerName k = c \<and> chID k = i) ks))"

text \<open>Chunks that belong into the middle of the transfer \<open>i\<close> of the container \<open>c\<close>: those of other transfers may begin and end.\<close>

definition during :: "string \<Rightarrow> string \<Rightarrow> FileChunk \<Rightarrow> bool" where
  "during c i k \<longleftrightarrow> (chContainerName k = c \<longrightarrow> chData k \<noteq> ''BEGIN'' \<and> (chID k = i \<longrightarrow> chData k \<noteq> ''END''))"

definition transferring :: "string \<Rightarrow> string \<Rightarrow> nat \<Rightarrow> string \<Rightarrow> 'z Filesystem_scheme \<Rightarrow> bool" where
  "transferring c i h path s \<longleftrightarrow> (\<exists>t. map_of (fsActive s) c = Some t \<and> ftID t = i \<and> \<not> ftCanceled t \<and> ftFile t = Some h) \<and> h < length (fsOpened s) \<and> fsOpened s ! h = path"

lemma transfer_step:
  assumes "transfers_ok s" and "transferring c i h path s" and "during c i k" and "run_state (WriteChunk k) s = (err, s')"
    and "chContainerName k = c \<longrightarrow> err = None"
  shows "transferring c i h path s' \<and> written h (oTrace s') = written h (oTrace s) @ sent c i [k]"
proof (cases "chContainerName k = c")
  case True
  then show ?thesis using assms(2-5)
    by (auto simp: during_def transferring_def WriteChunk_def endTransfer_def dataChunk_def fs_ops sent_def bytesOfChunk_def
        split: option.splits if_splits)
next
  case False
  have "fileOf s c = Some h" using assms(2) by (auto simp: transferring_def)
  then have "fileOf s (chContainerName k) \<noteq> Some h" using assms(1) False by (auto simp: transfers_ok_def)
  with False have "written h (oTrace s') = written h (oTrace s)" "map_of (fsActive s') c = map_of (fsActive s) c"
    and "\<exists>new. fsOpened s' = fsOpened s @ new"
    using WriteChunk_begin(2,3,5) [OF _ assms(4)] WriteChunk_other(2,4,5) [OF _ assms(4)] by (metis append_Nil2)+
  with False assms(2) show ?thesis by (auto simp: transferring_def sent_def nth_append)
qed

lemma transfer_steps:
  assumes "transfers_ok s" and "transferring c i h path s" and "list_all (during c i) ks" and "run_state (writeChunks ks) s = (errs, s')"
    and "\<forall>(k, err) \<in> set (zip ks errs). chContainerName k = c \<longrightarrow> err = None"
  shows "transfers_ok s' \<and> transferring c i h path s' \<and> written h (oTrace s') = written h (oTrace s) @ sent c i ks"
  using assms
proof (induction ks arbitrary: s errs)
  case Nil
  then show ?case by (simp add: State_Monad.return_def sent_def)
next
  case (Cons k ks)
  obtain err s1 where one: "run_state (WriteChunk k) s = (err, s1)" by force
  obtain errs' where rest: "run_state (writeChunks ks) s1 = (errs', s')" and errs: "errs = err # errs'"
    using Cons.prems(4) by (auto simp: run_bind one State_Monad.return_def split: prod.splits)
  have "chContainerName k = c \<longrightarrow> err = None" using Cons.prems(5) errs by simp
  then have s1: "transferring c i h path s1 \<and> written h (oTrace s1) = written h (oTrace s) @ sent c i [k]"
    using Cons.prems(3) by (intro transfer_step [OF Cons.prems(1,2) _ one]) simp_all
  have "transfers_ok s' \<and> transferring c i h path s' \<and> written h (oTrace s') = written h (oTrace s1) @ sent c i ks"
    by (rule Cons.IH [OF WriteChunk_ok [OF Cons.prems(1) one] _ _ rest]) (use s1 Cons.prems(3,5) errs in auto)
  with s1 show ?case by (simp add: sent_def)
qed

lemma writeChunks_append:
  "run_state (writeChunks (ks @ ks')) s = (case run_state (writeChunks ks) s of (es, s1) \<Rightarrow>
     case run_state (writeChunks ks') s1 of (es', s2) \<Rightarrow> (es @ es', s2))"
  by (induction ks arbitrary: s) (simp_all add: run_bind State_Monad.return_def split: prod.splits)

lemma writeChunks_length: "run_state (writeChunks ks) s = (es, s') \<Longrightarrow> length es = length ks"
  by (induction ks arbitrary: s es) (auto simp: run_bind State_Monad.return_def split: prod.splits)


definition demo_chunk :: "string \<Rightarrow> string \<Rightarrow> FileChunk" where
  "demo_chunk i data = \<lparr>chID = i, chFileName = ''x.tgz'', chFilePath = ''/build'', chData = data, chContainerName = ''dev_6_x'', chTotal = 2\<rparr>"

definition demo_fs :: Filesystem where
  "demo_fs = newFilesystem (\<lambda>_ _. \<lparr>rpErr = None, rpStr = [], rpNum = 2, rpFlag = False, rpStrs = [], rpPorts = [], rpJson = JNull, rpContainers = []\<rparr>)"


text \<open>A chunk that arrives when its container has no transfer is an error, also one of a transfer that was replaced.\<close>

lemma late_chunk_rejected:
  assumes "map_of (fsActive s) (chContainerName k) = None" and "chData k \<noteq> ''BEGIN''"
  shows "run_state (WriteChunk k) s = (Some (Msg ''We received a chunk without an active transfer''), s)"
  using assms by (simp add: WriteChunk_def GetActiveTransfer_def run_ops)

end
