(* ===== verification/Handlers.thy ===== *)
theory Handlers
  imports AgentLog Transfers
begin

text \<open>
  \<^verbatim>\<open>privilege/privilege.go\<close> and the handlers of \<^verbatim>\<open>api/\<close> that are registered for the backend: the check
  of privileges, the reading of arguments, and what each handler asks of the other components. The
  log manager and the file transfers are part of the state and are called as they are modelled;
  calls of the network, the terminals, the tunnels, the system and the container engine go to the
  outside. A goroutine that is started with \<^verbatim>\<open>safe.Go\<close> is appended to \<open>exSpawned\<close>. A result that is
  returned beside an error is not used by the messenger and not represented.
\<close>

section \<open>Data\<close>

text \<open>A positional argument: a decoded value, or a value of the defined type \<^verbatim>\<open>common.Dict\<close>.\<close>

datatype argument = Plain json | CommonDict "(string \<times> json) list"

record Result =
  rArguments :: "argument list option" \<comment> \<open>\<open>None\<close> is the nil slice\<close>
  rArgumentsKw :: "(string \<times> json) list"
  rDetails :: "(string \<times> json) list"

record InvokeResult =
  irArguments :: "json list"
  irArgumentsKw :: "(string \<times> json) list"

datatype spawned =
    SpawnReboot
  | SpawnPoweroff
  | SpawnRestartAgent
  | SpawnTransferFailure string go_error
  | SpawnClearLogHistory string
  | SpawnWrite string string
  | SpawnProgress string string \<comment> \<open>container and file: the percentage of the transfer, as it is when the goroutine runs\<close>
  | SpawnOutput uint64 "string list" \<comment> \<open>delay in milliseconds and the command whose output is published\<close>

record External = Filesystem +
  exConfig :: Config
  exLogFileLocation :: string
  exTunnels :: bool \<comment> \<open>the tunnel manager is not nil\<close>
  exLogs :: LogManager
  exSpawned :: "spawned list"

type_synonym 'a xprog = "(External, 'a) state"
type_synonym handler = "Result \<Rightarrow> (go_error + InvokeResult) xprog"

abbreviation fails :: "string \<Rightarrow> (go_error + 'a) xprog" where
  "fails msg \<equiv> ret (Inl (Msg msg))"

definition returns :: "json list \<Rightarrow> (go_error + InvokeResult) xprog" where
  "returns args = ret (Inr \<lparr>irArguments = args, irArgumentsKw = []\<rparr>)"

text \<open>A call whose error is the result of the handler, and whose reply is used otherwise.\<close>

definition calling :: "string \<Rightarrow> string list \<Rightarrow> (reply \<Rightarrow> (go_error + 'a) xprog) \<Rightarrow> (go_error + 'a) xprog" where
  "calling name args f = do { r \<leftarrow> ask name args; case rpErr r of Some e \<Rightarrow> ret (Inl e) | None \<Rightarrow> f r }"

definition andDo :: "go_error + 'a \<Rightarrow> ('a \<Rightarrow> (go_error + 'b) xprog) \<Rightarrow> (go_error + 'b) xprog" where
  "andDo r f = (case r of Inl e \<Rightarrow> ret (Inl e) | Inr x \<Rightarrow> f x)"

definition spawnTask :: "spawned \<Rightarrow> err xprog" where
  "spawnTask t = ignore (modify (\<lambda>s. s\<lparr>exSpawned := exSpawned s @ [t]\<rparr>))"

text \<open>The log manager works on its own state and the calls of the agent.\<close>

definition inLogs :: "'a lprog \<Rightarrow> 'a xprog" where
  "inLogs m = do {
     s \<leftarrow> State_Monad.get;
     let (a, l) = run_state m ((exLogs s)\<lparr>oTrace := oTrace s, oExt := oExt s\<rparr>);
     _ \<leftarrow> State_Monad.set (s\<lparr>exLogs := l, oTrace := oTrace l\<rparr>);
     ret a }"

section \<open>Privileges\<close>

definition details_get :: "(string \<times> json) list \<Rightarrow> string \<Rightarrow> json" where
  "details_get details key = obj_get (JObj details) key"

definition privilegeCall :: "Config \<Rightarrow> string \<Rightarrow> int \<Rightarrow> ext_call" where
  "privilegeCall config privilege requestor =
     Ext ''Messenger.Call'' [''reswarm.devices.check_privilege'', privilege, ''DEVICE'', itoa (unat (cDeviceKey config)), itoa_int requestor, itoa (unat (cSwarmKey config))]"

definition Check :: "string \<Rightarrow> (string \<times> json) list \<Rightarrow> (go_error + bool) xprog" where
  "Check privilege details = do {
     config \<leftarrow> gets exConfig;
     let caller_authid = Sprint (details_get details ''caller_authid'');
     if caller_authid = ''system'' then ret (Inr True)
     else case Atoi caller_authid of
       None \<Rightarrow> fails (''strconv.Atoi: parsing '' @ caller_authid)
     | Some requestorAccountKey \<Rightarrow> do {
         r \<leftarrow> (case privilegeCall config privilege requestorAccountKey of Ext name args \<Rightarrow> ask name args);
         case rpErr r of
           Some e \<Rightarrow> ret (Inl e)
         | None \<Rightarrow> (case rpJson r of
             JArr (JBool isPrivileged # _) \<Rightarrow> ret (Inr isPrivileged)
           | JArr (_ # _) \<Rightarrow> fails ''type of argument is not bool''
           | _ \<Rightarrow> ret (Inl (panic ''index out of range''))) } }"

definition guarded :: "string \<Rightarrow> string \<Rightarrow> Result \<Rightarrow> (go_error + 'a) xprog \<Rightarrow> (go_error + 'a) xprog" where
  "guarded privilege denial response body = do {
     privileged \<leftarrow> Check privilege (rDetails response);
     case privileged of
       Inl err \<Rightarrow> ret (Inl err)
     | Inr False \<Rightarrow> ret (Inl (ErrInsufficientPrivileges (Msg denial)))
     | Inr True \<Rightarrow> body }"

text \<open>The two queries of logs say which error it was.\<close>

definition guardedQuery :: "string \<Rightarrow> Result \<Rightarrow> (go_error + 'a) xprog \<Rightarrow> (go_error + 'a) xprog" where
  "guardedQuery denial response body = do {
     privileged \<leftarrow> Check ''READ'' (rDetails response);
     case privileged of
       Inl err \<Rightarrow> ret (Inl (Wrap ''could not verify privileges'' err))
     | Inr False \<Rightarrow> ret (Inl (ErrInsufficientPrivileges (Msg denial)))
     | Inr True \<Rightarrow> body }"

section \<open>Arguments\<close>

definition asMap :: "argument \<Rightarrow> (string \<times> json) list option" where
  "asMap a = (case a of Plain (JObj m) \<Rightarrow> Some m | _ \<Rightarrow> None)"

definition asDict :: "argument \<Rightarrow> (string \<times> json) list option" where
  "asDict a = (case a of CommonDict m \<Rightarrow> Some m | _ \<Rightarrow> None)"

text \<open>\<^verbatim>\<open>args[i]\<close>: out of range of the slice, nil included, it panics.\<close>

definition argAt :: "argument list option \<Rightarrow> nat \<Rightarrow> go_error + argument" where
  "argAt args i = (case args of
     None \<Rightarrow> Inl (panic ''index out of range'')
   | Some xs \<Rightarrow> if i < length xs then Inr (xs ! i) else Inl (panic ''index out of range''))"

text \<open>\<^verbatim>\<open>args == nil || args[0] == nil\<close>, and then the assertion of a map.\<close>

definition checkedDict :: "argument list option \<Rightarrow> string \<Rightarrow> string \<Rightarrow> go_error + (string \<times> json) list" where
  "checkedDict args missing noDict =
     (if args = None then Inl (Msg missing)
      else case argAt args 0 of
        Inl e \<Rightarrow> Inl e
      | Inr a \<Rightarrow> if a = Plain JNull then Inl (Msg missing)
                 else case asMap a of None \<Rightarrow> Inl (Msg noDict) | Some m \<Rightarrow> Inr m)"

text \<open>\<^verbatim>\<open>args == nil\<close> only.\<close>

definition payloadDict :: "argument list option \<Rightarrow> string \<Rightarrow> go_error + (string \<times> json) list" where
  "payloadDict args missing =
     (if args = None then Inl (Msg missing)
      else case argAt args 0 of
        Inl e \<Rightarrow> Inl e
      | Inr a \<Rightarrow> (case asMap a of None \<Rightarrow> Inl (Msg ''failed to parse payload'') | Some m \<Rightarrow> Inr m))"

text \<open>\<^verbatim>\<open>len(args) == 0\<close>.\<close>

definition wifiDict :: "argument list option \<Rightarrow> go_error + (string \<times> json) list" where
  "wifiDict args = (case args of
     Some (a # _) \<Rightarrow> (case asMap a of None \<Rightarrow> Inl (Msg ''argument 1 of args is not a dictionary type'') | Some m \<Rightarrow> Inr m)
   | _ \<Rightarrow> Inl (Msg ''args for add wifi config is empty''))"

definition firstArgDict :: "argument list option \<Rightarrow> go_error + (string \<times> json) list" where
  "firstArgDict args = (case args of
     Some (a # _) \<Rightarrow> if a = Plain JNull then Inl (Msg ''arguments are missing'')
       else (case asMap a of None \<Rightarrow> Inl (Msg ''first param should be a dict'') | Some m \<Rightarrow> Inr m)
   | _ \<Rightarrow> Inl (Msg ''arguments are missing''))"

definition stringAt :: "(string \<times> json) list \<Rightarrow> string \<Rightarrow> string \<Rightarrow> go_error + string" where
  "stringAt m key msg = (case details_get m key of JStr s \<Rightarrow> Inr s | _ \<Rightarrow> Inl (Msg msg))"

definition boolAt :: "(string \<times> json) list \<Rightarrow> string \<Rightarrow> string \<Rightarrow> go_error + bool" where
  "boolAt m key msg = (case details_get m key of JBool b \<Rightarrow> Inr b | _ \<Rightarrow> Inl (Msg msg))"

definition uint64At :: "(string \<times> json) list \<Rightarrow> string \<Rightarrow> string \<Rightarrow> go_error + uint64" where
  "uint64At m key msg = (case asUint64 (details_get m key) of Some n \<Rightarrow> Inr n | None \<Rightarrow> Inl (Msg msg))"

definition optionalUint64 :: "(string \<times> json) list \<Rightarrow> string \<Rightarrow> go_error + uint64" where
  "optionalUint64 argsDict key = (let raw = details_get argsDict key in
     if raw = JNull then Inr 0
     else case ToUint64 raw of None \<Rightarrow> Inl (Msg (''the '' @ key @ '' param should be a non-negative whole number'')) | Some n \<Rightarrow> Inr n)"

definition optionalLogTime :: "'z TimeLib_scheme \<Rightarrow> (string \<times> json) list \<Rightarrow> string \<Rightarrow> Time \<Rightarrow> go_error + Time" where
  "optionalLogTime lib argsDict key now = (case details_get argsDict key of
     JNull \<Rightarrow> Inr 0
   | JStr value \<Rightarrow> if value = [] then Inr 0
       else (case ParseLogTime lib value now of Inl e \<Rightarrow> Inl (Wrap (''invalid '' @ key) e) | Inr t \<Rightarrow> Inr t)
   | _ \<Rightarrow> Inl (Msg (''the '' @ key @ '' param should be a string'')))"

section \<open>Handlers of the container engine and the system\<close>

definition jsonList :: "json \<Rightarrow> json list" where
  "jsonList j = (case j of JArr xs \<Rightarrow> xs | _ \<Rightarrow> [])"

definition deviceHandshakeHandler :: handler where
  "deviceHandshakeHandler response = do {
     now \<leftarrow> ask ''time.Now'' [];
     config \<leftarrow> gets exConfig;
     ret (Inr \<lparr>irArguments = [], irArgumentsKw = [(''utp'', JStr (rpStr now)), (''id'', JStr (cSerialNumber config))]\<rparr>) }"

definition getImagesHandler :: handler where
  "getImagesHandler response = guarded ''READ'' ''insufficient privileges to read docker images'' response (
     calling ''Container.ListImages'' [] (\<lambda>r. returns (jsonList (rpJson r))))"

definition listContainersHandler :: handler where
  "listContainersHandler response = guarded ''READ'' ''insufficient privileges to list containers'' response (
     calling ''Container.GetContainers'' [] (\<lambda>r. returns [rpJson r]))"

text \<open>The condition is \<^verbatim>\<open>args != nil || args[0] != nil\<close>: nil is indexed too.\<close>

definition pruneImageHandler :: handler where
  "pruneImageHandler response = guarded ''MAINTAIN'' ''insufficient privileges to prune images'' response (
     andDo (argAt (rArguments response) 0) (\<lambda>a.
     andDo (case asMap a of None \<Rightarrow> Inl (Msg ''first param should be a dict'') | Some m \<Rightarrow> Inr m) (\<lambda>options.
     andDo (if details_get options ''all'' = JNull then Inr False else boolAt options ''all'' ''all value for container prune is not a boolean'') (\<lambda>everything.
       if everything then calling ''Container.PruneSystem'' [] (\<lambda>r. returns [JStr (rpStr r)])
       else calling ''Container.PruneDanglingImages'' [] (\<lambda>_. returns [])))))"

definition getNetworkDataHandler :: handler where
  "getNetworkDataHandler response = do { r \<leftarrow> ask ''net.Interfaces'' []; returns (jsonList (rpJson r)) }"

definition statsFields :: "(string \<times> string) list" where
  "statsFields = [(''cpu_count'', ''CPUCount''), (''cpu_usage'', ''CPUUsagePercent''), (''memory_total'', ''MemoryTotal''), (''memory_used'', ''MemoryUsed''),
     (''memory_available'', ''MemoryAvailable''), (''storage_total'', ''StorageTotal''), (''storage_used'', ''StorageUsed''), (''storage_free'', ''StorageFree''),
     (''docker_apps_total'', ''DockerAppsTotal''), (''docker_apps_used'', ''DockerAppsUsed''), (''docker_apps_free'', ''DockerAppsFree''),
     (''docker_apps_mounted'', ''DockerAppsMounted'')]"

definition fieldsOf :: "(string \<times> string) list \<Rightarrow> json \<Rightarrow> json" where
  "fieldsOf names j = JObj (map (\<lambda>(key, field). (key, obj_get j field)) names)"

definition getStorageDataHandler :: handler where
  "getStorageDataHandler response = guarded ''READ'' ''insufficient privileges to get storage data'' response (do {
     r \<leftarrow> ask ''common.GetStats'' [];
     returns [fieldsOf statsFields (rpJson r)] })"

definition getTunnelStateHandler :: handler where
  "getTunnelStateHandler response = calling ''TunnelManager.GetState'' [] (\<lambda>r. returns [rpJson r])"

definition systemRebootHandler :: handler where
  "systemRebootHandler response = guarded ''MAINTAIN'' ''insufficient privileges to reboot device'' response (do {
     _ \<leftarrow> spawnTask SpawnReboot; returns [] })"

definition systemShutdownHandler :: handler where
  "systemShutdownHandler response = guarded ''MAINTAIN'' ''insufficient privileges to power off device'' response (do {
     _ \<leftarrow> spawnTask SpawnPoweroff; returns [] })"

definition systemRestartAgentHandler :: handler where
  "systemRestartAgentHandler response = guarded ''MAINTAIN'' ''insufficient privileges to restart agent'' response (do {
     _ \<leftarrow> spawnTask SpawnRestartAgent; returns [] })"

definition updateReagentHandler :: handler where
  "updateReagentHandler response = guarded ''MAINTAIN'' ''insufficient privileges to update reagent'' response (do {
     r \<leftarrow> ask ''System.UpdateSystem'' [];
     case rpErr r of
       Some err \<Rightarrow> if \<not> IsInProgress (Some err) then ret (Inl err) else returns [rpJson r]
     | None \<Rightarrow> returns [rpJson r] })"

definition getAgentMetadataHandler :: handler where
  "getAgentMetadataHandler response = guarded ''READ'' ''insufficient privileges to get agent metadata'' response (do {
     version \<leftarrow> ask ''release.GetVersion'' [];
     config \<leftarrow> gets exConfig;
     info \<leftarrow> ask ''release.GetSystemInfo'' [];
     tunnels \<leftarrow> gets exTunnels;
     capable \<leftarrow> (if tunnels then do { r \<leftarrow> ask ''TunnelManager.TunnelCapable'' []; ret [(''tunnelCapable'', JBool (rpFlag r))] } else ret []);
     latest \<leftarrow> ask ''System.GetLatestVersion'' [''re-agent''];
     frp \<leftarrow> ask ''embedded.FRP_VERSION'' [];
     returns [JObj ([(''os'', obj_get (rpJson info) ''DetailedOS''), (''arch'', obj_get (rpJson info) ''Arch''), (''variant'', obj_get (rpJson info) ''Variant''),
         (''version'', JStr (rpStr version)), (''serialNumber'', JStr (cSerialNumber config)), (''canUpdate'', JBool True),
         (''OSVersion'', obj_get (rpJson info) ''DetailedOS'')]
       @ capable
       @ (if rpErr latest = None
          then [(''latestVersion'', JStr (rpStr latest)), (''latestTunnelVersion'', JStr (rpStr frp)), (''latestAgentVersion'', JStr (rpStr latest)),
                (''hasLatest'', JBool (rpStr latest = rpStr version))]
          else []))] })"

text \<open>\<open>rpFlag\<close> of a failed read is \<^verbatim>\<open>os.IsNotExist\<close> of its error.\<close>

definition TrimBoth :: "string \<Rightarrow> string \<Rightarrow> string" where
  "TrimBoth s cutset = rev (TrimLeft (rev (TrimLeft s cutset)) cutset)"

definition OSReleaseDict :: "string \<Rightarrow> string \<Rightarrow> string \<Rightarrow> json" where
  "OSReleaseDict name version buildTime = JObj [(''Name'', JStr name), (''Version'', JStr version), (''BuildTime'', JStr buildTime)]"

definition getOSReleaseHandler :: handler where
  "getOSReleaseHandler response = guarded ''READ'' ''insufficient privileges to get os release data'' response (do {
     current \<leftarrow> ask ''system.GetOSReleaseCurrent'' [];
     case rpErr current of
       Some err \<Rightarrow> if rpFlag current then returns [] else ret (Inl err)
     | None \<Rightarrow> do {
         let field = (\<lambda>k. case obj_get (rpJson current) k of JStr s \<Rightarrow> s | _ \<Rightarrow> []);
         let parts = Split (CHR ''-'') (field ''VERSION'');
         let (version, buildTime) = (if length parts = 3 then (TrimBoth (parts ! 0) ''v'', parts ! 2) else ([], []));
         latest \<leftarrow> ask ''system.GetOSReleaseLatest'' [];
         case rpErr latest of
           Some err \<Rightarrow> if rpFlag latest then returns [] else ret (Inl err)
         | None \<Rightarrow> returns [JObj [(''currentRelease'', OSReleaseDict (field ''Name'') version buildTime),
             (''latestRelease'', OSReleaseDict (Sprint (obj_get (rpJson latest) [])) (Sprint (obj_get (rpJson latest) ''version''))
                (Sprint (obj_get (rpJson latest) ''buildtime'')))]] } })"

definition downloadOSUpdateHandler :: handler where
  "downloadOSUpdateHandler response = guarded ''MAINTAIN'' ''insufficient privileges to update reswarmos'' response (
     calling ''system.GetOSUpdate'' [] (\<lambda>_. returns []))"

definition installOSUpdateHandler :: handler where
  "installOSUpdateHandler response = guarded ''MAINTAIN'' ''insufficient privileges to update reswarmos'' response (
     calling ''system.InstallOSUpdate'' [] (\<lambda>_. returns []))"

definition codeExecutionHandler :: handler where
  "codeExecutionHandler response =
     andDo (checkedDict (rArguments response) ''args array should not be empty'' ''first param should be a dict'') (\<lambda>argsDict.
     andDo (stringAt argsDict ''cmd'' ''cmd param should be a string'') (\<lambda>cmdName.
     andDo (boolAt argsDict ''blocking'' ''blocking param should be a boolean'') (\<lambda>blocking.
     andDo (case details_get argsDict ''args'' of
              JNull \<Rightarrow> Inr [] | JArr xs \<Rightarrow> Inr (map Sprint xs) | _ \<Rightarrow> Inl (Msg ''args param should be an array of primitive values'')) (\<lambda>cmdArgs.
     andDo (if details_get argsDict ''timeout'' = JNull then Inr 1000
            else uint64At argsDict ''timeout'' ''the timeout param should be an uint64'') (\<lambda>commandTimeout.
       if blocking then calling ''cmd.Output'' (cmdName # cmdArgs) (\<lambda>r. returns [JStr (rpStr r)])
       else calling ''cmd.StdoutPipe'' (cmdName # cmdArgs) (\<lambda>_. do {
         _ \<leftarrow> spawnTask (SpawnOutput commandTimeout (cmdName # cmdArgs));
         r \<leftarrow> ask ''cmd.Start'' (cmdName # cmdArgs);
         case rpErr r of
           Some err \<Rightarrow> fails (''command failed to run: '' @ Error err)
         | None \<Rightarrow> returns [JObj [(''pid'', JNum (rpNum r))]] }))))))"

section \<open>Handlers of terminals, the network and files\<close>

definition terminalFields :: "(string \<times> string) list" where
  "terminalFields = [(''dataTopic'', ''DataTopic''), (''writeTopic'', ''WriteTopic''), (''resizeTopic'', ''ResizeTopic''), (''sessionID'', ''SessionID'')]"

definition initDeviceTerm :: handler where
  "initDeviceTerm response = (let callerID = Sprint (details_get (rDetails response) ''caller_authid'') in
     calling ''terminal.GetOrCreatePseudoTerminal'' [callerID] (\<lambda>t.
       if rpFlag t then do { r \<leftarrow> ask ''PseudoTerminal.Setup'' [callerID]; returns [rpJson r] }
       else returns [fieldsOf [(''sessionID'', ''SessionID''), (''writeTopic'', ''WriteTopic''), (''dataTopic'', ''DataTopic''), (''resizeTopic'', ''ResizeTopic'')]
                       (rpJson t)]))"

definition startTerminalSessHandler :: handler where
  "startTerminalSessHandler response = guarded ''DEVELOP'' ''insufficient privileges to start a terminal session'' response (
     andDo (payloadDict (rArguments response) ''failed to parse args, payload is missing'') (\<lambda>payload.
     andDo (stringAt payload ''sessionID'' ''failed to parse sessionID'') (\<lambda>sessionID.
     andDo (uint64At payload ''registrationID'' ''failed to parse registrationID'') (\<lambda>registrationID.
       calling ''TerminalManager.StartTerminalSession'' [sessionID, itoa (unat registrationID)] (\<lambda>_. returns [])))))"

definition stopTerminalSession :: handler where
  "stopTerminalSession response = guarded ''DEVELOP'' ''insufficient privileges to start a terminal session'' response (
     andDo (payloadDict (rArguments response) ''failed to parse args, payload is missing'') (\<lambda>payload.
     andDo (stringAt payload ''sessionID'' ''failed to parse sessionID'') (\<lambda>sessionID.
       calling ''TerminalManager.StopTerminalSession'' [sessionID] (\<lambda>_. returns []))))"

definition requestTerminalSessHandler :: handler where
  "requestTerminalSessHandler response = guarded ''DEVELOP'' ''insufficient privileges to start a terminal session'' response (
     andDo (payloadDict (rArguments response) ''no args found'') (\<lambda>payload.
     andDo (stringAt payload ''containerName'' ''failed to parse containerName'') (\<lambda>containerName.
       calling ''TerminalManager.RequestTerminalSession'' [containerName] (\<lambda>t. returns [fieldsOf terminalFields (rpJson t)]))))"

definition listEthernetDevices :: handler where
  "listEthernetDevices response = guarded ''READ'' ''insufficient privileges to list ethernet devices'' response (
     calling ''Network.ListEthernetDevices'' [] (\<lambda>r.
       returns (map (fieldsOf [(''interfaceName'', ''InterfaceName''), (''mac'', ''MAC''), (''ipv4'', ''IPv4AddressData''), (''ipv6'', ''IPv6AddressData''), (''method'', ''Method'')])
                  (jsonList (rpJson r)))))"

text \<open>The prefix and the priority of a network are cut to 32 bits.\<close>

definition uint32Text :: "uint64 \<Rightarrow> string" where
  "uint32Text n = itoa (unat (ucast n :: 32 word))"

definition updateIPConfigHandler :: handler where
  "updateIPConfigHandler response = guarded ''NETWORK'' ''insufficient privileges to update ip config'' response (
     andDo (payloadDict (rArguments response) ''failed to parse args, payload is missing'') (\<lambda>payload.
     andDo (stringAt payload ''method'' ''failed to parse method parameter'') (\<lambda>method.
     andDo (stringAt payload ''mac'' ''failed to parse mac parameter'') (\<lambda>mac.
     andDo (stringAt payload ''interfaceName'' ''failed to parse interface parameter'') (\<lambda>interfaceName.
       if method = ''auto'' then calling ''Network.EnableDHCP'' [mac, interfaceName] (\<lambda>_. returns [])
       else
         andDo (stringAt payload ''ipv4'' ''failed to parse ipv4 parameter'') (\<lambda>ipv4.
         andDo (uint64At payload ''prefix'' ''failed to parse prefix parameter'') (\<lambda>prefix.
           calling ''Network.SetIPv4Address'' [mac, interfaceName, ipv4, uint32Text prefix] (\<lambda>_. returns []))))))))"

definition listWiFiNetworksHandler :: handler where
  "listWiFiNetworksHandler response = guarded ''READ'' ''insufficient privileges to list wifi networks'' response (
     calling ''Network.ListWifiNetworks'' [] (\<lambda>wifis.
     calling ''Network.GetActiveWirelessDeviceConfig'' [] (\<lambda>device.
       ret (Inr \<lparr>irArguments = map (fieldsOf [(''mac'', ''MAC''), (''ssid'', ''SSID''), (''channel'', ''Channel''), (''signal'', ''Signal''),
              (''security'', ''SecurityType''), (''frequency'', ''Frequency''), (''known'', ''Known''), (''current'', ''Current'')]) (jsonList (rpJson wifis)),
            irArgumentsKw = [(''ipv4'', obj_get (rpJson device) ''ipv4''), (''ipv6'', obj_get (rpJson device) ''ipv6'')]\<rparr>))))"

definition getCurrentIPAddresses :: handler where
  "getCurrentIPAddresses response = calling ''network.GetIPv4Addresses'' [] (\<lambda>r. returns [rpJson r])"

definition removeWifiHandler :: handler where
  "removeWifiHandler response = guarded ''NETWORK'' ''insufficient privileges to remove wifi config'' response (
     andDo (wifiDict (rArguments response)) (\<lambda>payload.
     andDo (stringAt payload ''ssid'' ''failed to parse ssid, invalid type'') (\<lambda>ssidToRemove.
       calling ''Network.RemoveWifi'' [ssidToRemove] (\<lambda>_. returns []))))"

definition wifiScanHandler :: handler where
  "wifiScanHandler response = calling ''Network.Scan'' [] (\<lambda>_. returns [])"

definition wifiRebootHandler :: handler where
  "wifiRebootHandler response = guarded ''NETWORK'' ''insufficient privileges to restart wifi'' response (
     calling ''Network.Reload'' [] (\<lambda>_. returns []))"

definition optionalString :: "(string \<times> json) list \<Rightarrow> string \<Rightarrow> string \<Rightarrow> go_error + string" where
  "optionalString m key msg = (if details_get m key = JNull then Inr [] else stringAt m key msg)"

definition addWiFiConfigurationHandler :: handler where
  "addWiFiConfigurationHandler response = guarded ''NETWORK'' ''insufficient privileges to add wifi config'' response (
     andDo (wifiDict (rArguments response)) (\<lambda>m.
     andDo (optionalString m ''mac'' ''failed to parse mac, invalid type'') (\<lambda>mac.
     andDo (optionalString m ''security'' ''failed to parse securityType, invalid type'') (\<lambda>securityType.
     andDo (stringAt m ''ssid'' ''failed to parse ssid, invalid type'') (\<lambda>ssid.
     andDo (stringAt m ''password'' ''failed to parse password, invalid type'') (\<lambda>password.
     andDo (uint64At m ''priority'' ''failed to parse priority, invalid type'') (\<lambda>priority.
       calling ''Network.AddWiFi'' [mac, ssid, password, uint32Text priority, securityType] (\<lambda>_. returns []))))))))"

definition selectWiFiNetworkHandler :: handler where
  "selectWiFiNetworkHandler response = guarded ''NETWORK'' ''insufficient privileges to select wifi network'' response (
     andDo (wifiDict (rArguments response)) (\<lambda>m.
     andDo (stringAt m ''ssid'' ''failed to parse ssid, invalid type'') (\<lambda>ssid.
     andDo (stringAt m ''mac'' ''failed to parse mac, invalid type'') (\<lambda>mac.
       calling ''Network.ActivateWiFi'' [mac, ssid] (\<lambda>_. returns [])))))"

definition stringArg :: "argument \<Rightarrow> string \<Rightarrow> go_error + string" where
  "stringArg a msg = (case a of Plain (JStr s) \<Rightarrow> Inr s | _ \<Rightarrow> Inl (Msg msg))"

definition uint64Arg :: "argument \<Rightarrow> string \<Rightarrow> go_error + uint64" where
  "uint64Arg a msg = (case a of Plain j \<Rightarrow> (case asUint64 j of Some n \<Rightarrow> Inr n | None \<Rightarrow> Inl (Msg msg)) | _ \<Rightarrow> Inl (Msg msg))"

definition transferChunk :: "FileChunk \<Rightarrow> (go_error + InvokeResult) xprog" where
  "transferChunk k = do {
     err \<leftarrow> WriteChunk k;
     case err of
       Some e \<Rightarrow> do {
         _ \<leftarrow> CleanupFailedTransfer (chContainerName k);
         _ \<leftarrow> spawnTask (SpawnTransferFailure (chContainerName k) e);
         ret (Inl e) }
     | None \<Rightarrow>
         if chData k = ''BEGIN'' then do {
           _ \<leftarrow> spawnTask (SpawnClearLogHistory (chContainerName k));
           _ \<leftarrow> spawnTask (SpawnWrite (chContainerName k) ''Received first package on device!'');
           returns [] }
         else if chData k = ''END'' then do {
           _ \<leftarrow> spawnTask (SpawnWrite (chContainerName k) ''File transfer has finished, starting build...'');
           returns [] }
         else do {
           active \<leftarrow> GetActiveTransfer (chContainerName k);
           case active of
             None \<Rightarrow> returns []
           | Some t \<Rightarrow> do {
               _ \<leftarrow> spawnTask (SpawnProgress (chContainerName k) (chFileName k));
               returns [] } } }"

definition writeToFileHandler :: handler where
  "writeToFileHandler response = guarded ''DEVELOP'' ''insufficient privileges write data to device'' response (do {
     dir \<leftarrow> gets (\<lambda>s. cAppsBuildDir (exConfig s));
     let arg = argAt (rArguments response);
     andDo (arg 0) (\<lambda>chunkArg. andDo (arg 1) (\<lambda>fileNameArg. andDo (arg 2) (\<lambda>containerNameArg. andDo (arg 3) (\<lambda>totalArg. andDo (arg 4) (\<lambda>idArg.
     andDo (stringArg fileNameArg ''failed to parse name argument'') (\<lambda>fileName.
     andDo (stringArg chunkArg ''failed to parse chunk argument'') (\<lambda>chunk.
     andDo (stringArg containerNameArg ''failed to parse containerName argument'') (\<lambda>containerName.
     andDo (uint64Arg totalArg ''failed to parse total argument'') (\<lambda>size.
     andDo (stringArg idArg ''failed to parse id argument'') (\<lambda>i.
       transferChunk \<lparr>chID = i, chFileName = fileName, chFilePath = dir, chData = chunk, chContainerName = containerName, chTotal = size\<rparr>)))))))))) })"

section \<open>Handlers of logs\<close>

definition getAppLogHistoryHandler :: handler where
  "getAppLogHistoryHandler response = guarded ''READ'' ''insufficient privileges to get app log history'' response (
     andDo (checkedDict (rArguments response) ''arguments are missing'' ''first param should be a dict'') (\<lambda>argsDict.
     andDo (stringAt argsDict ''containerName'' ''invalid value for containerName'') (\<lambda>containerName. do {
       history \<leftarrow> inLogs (GetLogHistory containerName);
       andDo history (\<lambda>lines. returns [JArr (map JStr lines)]) })))"

definition storeName :: "log_store \<Rightarrow> string" where
  "storeName st = (case st of Docker \<Rightarrow> ''docker'' | Compose \<Rightarrow> ''compose'' | History \<Rightarrow> ''history'')"

definition oldestField :: "LineLib \<Rightarrow> Time \<Rightarrow> (string \<times> json) list" where
  "oldestField lib t = (if t = 0 then [] else [(''oldest_available'', JStr (tFormat lib t))])"

definition queryAppLogsHandler :: "LineLib \<Rightarrow> handler" where
  "queryAppLogsHandler lib response = guardedQuery ''insufficient privileges to query app logs'' response (
     andDo (firstArgDict (rArguments response)) (\<lambda>argsDict.
     andDo (stringAt argsDict ''containerName'' ''invalid value for containerName'') (\<lambda>containerName. do {
       clock \<leftarrow> ask ''time.Now'' [];
       let now = rpNum clock;
       andDo (optionalUint64 argsDict ''tail'') (\<lambda>tail.
       andDo (optionalUint64 argsDict ''offset'') (\<lambda>offset.
       andDo (optionalLogTime lib argsDict ''since'' now) (\<lambda>since.
       andDo (optionalLogTime lib argsDict ''until'' now) (\<lambda>hi.
       andDo (if details_get argsDict ''timestamps'' = JNull then Inr True
              else boolAt argsDict ''timestamps'' ''the timestamps param should be a boolean'') (\<lambda>timestamps. do {
         res \<leftarrow> inLogs (QueryLogs (TimeLib.truncate lib)
                  \<lparr>rqContainerName = containerName, rqTail = tail, rqOffset = offset, rqSince = since, rqUntil = hi, rqNoTimestamps = \<not> timestamps\<rparr>);
         andDo res (\<lambda>r.
           returns [JObj ([(''lines'', JArr (map JStr (rsLines r))), (''source'', JStr (storeName (rsSource r))),
               (''returned'', JNum (int (length (rsLines r)))), (''truncated'', JBool (rsTruncated r)), (''device_time'', JStr (tFormat lib now))]
             @ oldestField lib (rsOldestAvailable r))]) }))))) })))"

definition optionalDict :: "argument list option \<Rightarrow> go_error + (string \<times> json) list" where
  "optionalDict args = (case args of
     Some (a # _) \<Rightarrow> if a = Plain JNull then Inr []
       else (case asMap a of Some m \<Rightarrow> Inr m | None \<Rightarrow> Inl (Msg ''first param should be a dict''))
   | _ \<Rightarrow> Inr [])"

definition queryDeviceLogsHandler :: "LineLib \<Rightarrow> handler" where
  "queryDeviceLogsHandler lib response = guardedQuery ''insufficient privileges to query device logs'' response (
     andDo (optionalDict (rArguments response)) (\<lambda>argsDict. do {
       clock \<leftarrow> ask ''time.Now'' [];
       path \<leftarrow> gets exLogFileLocation;
       let now = rpNum clock;
       andDo (optionalUint64 argsDict ''tail'') (\<lambda>tail.
       andDo (optionalLogTime lib argsDict ''since'' now) (\<lambda>since.
       andDo (optionalLogTime lib argsDict ''until'' now) (\<lambda>hi.
       andDo (optionalString argsDict ''level'' ''the level param should be a string'') (\<lambda>level. do {
         res \<leftarrow> QueryAgentLog lib \<lparr>alPath = path, alTail = tail, alSince = since, alUntil = hi, alMinLevel = level\<rparr>;
         andDo res (\<lambda>r.
           returns [JObj ([(''lines'', JArr (map JStr (arLines r))), (''returned'', JNum (int (length (arLines r)))), (''truncated'', JBool (arTruncated r)),
               (''files_scanned'', JNum (int (arFilesScanned r))), (''device_time'', JStr (tFormat lib now))]
             @ oldestField lib (arOldestAvailable r))]) })))) }))"

section \<open>Registration\<close>

text \<open>\<^verbatim>\<open>request_app_state\<close> is the handler of the theory of requests, on the state of the app manager.\<close>

definition requestAppState :: handler where
  "requestAppState response = calling ''requestAppStateHandler'' [] (\<lambda>_. returns [])"

definition getTopicHandlerMap :: "LineLib \<Rightarrow> (string \<times> handler) list" where
  "getTopicHandlerMap lib =
     [(''request_app_state'', requestAppState), (''write_data'', writeToFileHandler), (''device_handshake'', deviceHandshakeHandler),
      (''get_images'', getImagesHandler), (''request_terminal_session'', requestTerminalSessHandler),
      (''start_terminal_session'', startTerminalSessHandler), (''stop_terminal_session'', stopTerminalSession),
      (''list_wifi_networks'', listWiFiNetworksHandler), (''add_wifi_configuration'', addWiFiConfigurationHandler),
      (''scan_wifi_networks'', wifiScanHandler), (''remove_wifi_configuration'', removeWifiHandler),
      (''select_wifi_network'', selectWiFiNetworkHandler), (''list_ethernet_devices'', listEthernetDevices),
      (''update_ipv4_config'', updateIPConfigHandler), (''system_reboot'', systemRebootHandler), (''system_shutdown'', systemShutdownHandler),
      (''system_restart_agent'', systemRestartAgentHandler), (''restart_wifi'', wifiRebootHandler), (''update_agent'', updateReagentHandler),
      (''prune_images'', pruneImageHandler), (''get_agent_metadata'', getAgentMetadataHandler), (''list_containers'', listContainersHandler),
      (''get_network_metadata'', getNetworkDataHandler), (''get_app_log_history'', getAppLogHistoryHandler),
      (''query_app_logs'', queryAppLogsHandler lib), (''query_device_logs'', queryDeviceLogsHandler lib), (''get_tunnel_state'', getTunnelStateHandler),
      (''get_os_release'', getOSReleaseHandler), (''download_os_update'', downloadOSUpdateHandler), (''install_os_update'', installOSUpdateHandler),
      (''execute_cmd'', codeExecutionHandler), (''init_device_terminal'', initDeviceTerm), (''get_ipv4_addresses'', getCurrentIPAddresses),
      (''get_storage_data'', getStorageDataHandler)]"

definition requestorOf :: "Result \<Rightarrow> json" where
  "requestorOf response =
     (let kw = details_get (rArgumentsKw response) ''requestor_account_key'' in
      if kw \<noteq> JNull then kw
      else case rArguments response of
        Some (a # _) \<Rightarrow> (case asDict a of Some m \<Rightarrow> details_get m ''requestor_account_key'' | None \<Rightarrow> JNull)
      | _ \<Rightarrow> JNull)"

definition withCaller :: "Result \<Rightarrow> Result" where
  "withCaller response =
     (if details_get (rDetails response) ''caller_authid'' \<noteq> JStr ''system'' \<or> requestorOf response = JNull then response
      else case Atoi (Sprint (requestorOf response)) of
        None \<Rightarrow> response
      | Some n \<Rightarrow> response\<lparr>rDetails := map_put ''caller_authid'' (JNum (uint (word_of_int n :: uint64))) (rDetails response)\<rparr>)"

definition wrapDetails :: "handler \<Rightarrow> handler" where
  "wrapDetails h response = h (withCaller response)"

definition BuildExternalApiTopic :: "string \<Rightarrow> string \<Rightarrow> string" where
  "BuildExternalApiTopic serialNumber topic = ''re.mgmt.'' @ serialNumber @ ''.'' @ topic"

text \<open>The topics in the order in which Go's map delivers them, any order.\<close>

fun registerTopics :: "string \<Rightarrow> string list \<Rightarrow> err xprog" where
  "registerTopics serial [] = ret None"
| "registerTopics serial (topic # topics) = do {
     err \<leftarrow> askE ''Messenger.Register'' [BuildExternalApiTopic serial topic];
     case err of
       Some e \<Rightarrow> if Contains (Error e) ''wamp.error.procedure_already_exists'' then registerTopics serial topics else ret (Some e)
     | None \<Rightarrow> registerTopics serial topics }"

definition RegisterAll :: "string list \<Rightarrow> err xprog" where
  "RegisterAll order = do { config \<leftarrow> gets exConfig; registerTopics (cSerialNumber config) order }"

section \<open>Nothing without the privilege\<close>

definition requiredPrivilege :: "string \<Rightarrow> string option" where
  "requiredPrivilege = map_of (
     map (\<lambda>t. (t, ''READ'')) [''get_images'', ''list_wifi_networks'', ''list_ethernet_devices'', ''get_agent_metadata'', ''list_containers'',
       ''get_app_log_history'', ''query_app_logs'', ''query_device_logs'', ''get_os_release'', ''get_storage_data'']
   @ map (\<lambda>t. (t, ''DEVELOP'')) [''write_data'', ''request_terminal_session'', ''start_terminal_session'', ''stop_terminal_session'']
   @ map (\<lambda>t. (t, ''NETWORK'')) [''add_wifi_configuration'', ''remove_wifi_configuration'', ''select_wifi_network'', ''update_ipv4_config'', ''restart_wifi'']
   @ map (\<lambda>t. (t, ''MAINTAIN'')) [''system_reboot'', ''system_shutdown'', ''system_restart_agent'', ''update_agent'', ''prune_images'',
       ''download_os_update'', ''install_os_update''])"

text \<open>Who calls, and what the backend has to answer.\<close>

definition callerOf :: "Result \<Rightarrow> string" where
  "callerOf response = Sprint (details_get (rDetails response) ''caller_authid'')"

definition granted :: "External \<Rightarrow> string \<Rightarrow> string \<Rightarrow> bool" where
  "granted s p caller \<longleftrightarrow> caller = ''system'' \<or> (case Atoi caller of
     None \<Rightarrow> False
   | Some k \<Rightarrow> (let r = oExt s (oTrace s) (privilegeCall (exConfig s) p k) in
       rpErr r = None \<and> (case rpJson r of JArr (JBool b # _) \<Rightarrow> b | _ \<Rightarrow> False)))"

text \<open>The state after the check: at most the call that asks the backend was made.\<close>

definition checked :: "External \<Rightarrow> string \<Rightarrow> string \<Rightarrow> External" where
  "checked s p caller = (if caller = ''system'' then s else case Atoi caller of
     None \<Rightarrow> s | Some k \<Rightarrow> s\<lparr>oTrace := oTrace s @ [privilegeCall (exConfig s) p k]\<rparr>)"

lemma Check_run:
  "snd (run_state (Check p (rDetails response)) s) = checked s p (callerOf response)"
  "fst (run_state (Check p (rDetails response)) s) = Inr True \<longleftrightarrow> granted s p (callerOf response)"
  by (auto simp: Check_def run_ops checked_def granted_def callerOf_def privilegeCall_def panic_def Let_def
      split: option.split json.split list.split)

lemma guarded_run:
  "run_state (guarded p denial response body) s =
     (if granted s p (callerOf response) then run_state body (checked s p (callerOf response))
      else (fst (run_state (guarded p denial response body) s), checked s p (callerOf response)))"
  "\<not> granted s p (callerOf response) \<Longrightarrow> isl (fst (run_state (guarded p denial response body) s))"
  using Check_run [of p response s]
  by (cases "run_state (Check p (rDetails response)) s"; auto simp: guarded_def run_ops split: sum.splits bool.splits)+

lemma guardedQuery_run:
  "run_state (guardedQuery denial response body) s =
     (if granted s ''READ'' (callerOf response) then run_state body (checked s ''READ'' (callerOf response))
      else (fst (run_state (guardedQuery denial response body) s), checked s ''READ'' (callerOf response)))"
  "\<not> granted s ''READ'' (callerOf response) \<Longrightarrow> isl (fst (run_state (guardedQuery denial response body) s))"
  using Check_run [of "''READ''" response s]
  by (cases "run_state (Check ''READ'' (rDetails response)) s"; auto simp: guardedQuery_def run_ops split: sum.splits bool.splits)+

definition denies :: "string \<Rightarrow> handler \<Rightarrow> bool" where
  "denies p h \<longleftrightarrow> (\<forall>response s. \<not> granted s p (callerOf response) \<longrightarrow>
     isl (fst (run_state (h response) s)) \<and> snd (run_state (h response) s) = checked s p (callerOf response))"

lemma guarded_denies: "(\<And>response. h response = guarded p denial response (body response)) \<Longrightarrow> denies p h"
  by (simp add: denies_def guarded_run(2)) (metis guarded_run(1) snd_conv)

lemma guardedQuery_denies: "(\<And>response. h response = guardedQuery denial response (body response)) \<Longrightarrow> denies ''READ'' h"
  by (simp add: denies_def guardedQuery_run(2)) (metis guardedQuery_run(1) snd_conv)

lemma handlers_deny:
  "denies ''DEVELOP'' writeToFileHandler" "denies ''DEVELOP'' requestTerminalSessHandler" "denies ''DEVELOP'' startTerminalSessHandler"
  "denies ''DEVELOP'' stopTerminalSession" "denies ''NETWORK'' addWiFiConfigurationHandler" "denies ''NETWORK'' removeWifiHandler"
  "denies ''NETWORK'' selectWiFiNetworkHandler" "denies ''NETWORK'' updateIPConfigHandler" "denies ''NETWORK'' wifiRebootHandler"
  "denies ''MAINTAIN'' systemRebootHandler" "denies ''MAINTAIN'' systemShutdownHandler" "denies ''MAINTAIN'' systemRestartAgentHandler"
  "denies ''MAINTAIN'' updateReagentHandler" "denies ''MAINTAIN'' pruneImageHandler" "denies ''MAINTAIN'' downloadOSUpdateHandler"
  "denies ''MAINTAIN'' installOSUpdateHandler" "denies ''READ'' getImagesHandler" "denies ''READ'' listWiFiNetworksHandler"
  "denies ''READ'' listEthernetDevices" "denies ''READ'' getAgentMetadataHandler" "denies ''READ'' listContainersHandler"
  "denies ''READ'' getAppLogHistoryHandler" "denies ''READ'' getOSReleaseHandler" "denies ''READ'' getStorageDataHandler"
  "denies ''READ'' (queryAppLogsHandler lib)" "denies ''READ'' (queryDeviceLogsHandler lib)"
  by (rule guarded_denies guardedQuery_denies,
     rule writeToFileHandler_def requestTerminalSessHandler_def startTerminalSessHandler_def stopTerminalSession_def
     addWiFiConfigurationHandler_def removeWifiHandler_def selectWiFiNetworkHandler_def updateIPConfigHandler_def
     wifiRebootHandler_def systemRebootHandler_def systemShutdownHandler_def systemRestartAgentHandler_def
     updateReagentHandler_def pruneImageHandler_def downloadOSUpdateHandler_def installOSUpdateHandler_def
     getImagesHandler_def listWiFiNetworksHandler_def listEthernetDevices_def getAgentMetadataHandler_def
     listContainersHandler_def getAppLogHistoryHandler_def getOSReleaseHandler_def getStorageDataHandler_def
     queryAppLogsHandler_def queryDeviceLogsHandler_def)+

lemma table_denies: "list_all (\<lambda>(t, h). case requiredPrivilege t of None \<Rightarrow> True | Some p \<Rightarrow> denies p h) (getTopicHandlerMap lib)"
  by (simp add: getTopicHandlerMap_def requiredPrivilege_def handlers_deny)

text \<open>
  C11: a procedure of the agent for which a privilege is required does nothing but ask the backend
  once for that privilege on this device, and returns an error, unless the caller is the system or
  the backend answered that the caller has the privilege. An answer that is an error or no truth
  value grants nothing.
\<close>

theorem unprivileged_no_effect:
  assumes "(t, h) \<in> set (getTopicHandlerMap lib)" and "requiredPrivilege t = Some p" and "\<not> granted s p (callerOf (withCaller response))"
  shows "isl (fst (run_state (wrapDetails h response) s)) \<and> snd (run_state (wrapDetails h response) s) = checked s p (callerOf (withCaller response))"
  using table_denies [of lib] assms by (force simp: list_all_iff wrapDetails_def denies_def)

lemma Atoi_itoa_int: "0 \<le> k \<Longrightarrow> k < 2 ^ 63 \<Longrightarrow> Atoi (itoa_int k) = Some k"
proof -
  assume k: "0 \<le> k" "k < 2 ^ 63"
  have "hd (itoa n) \<noteq> CHR ''-''" "hd (itoa n) \<noteq> CHR ''+''" for n
    using itoa_chars [of "hd (itoa n)" n] by (auto simp: hd_in_set)
  then show "Atoi (itoa_int k) = Some k" using k by (simp add: Atoi_def itoa_int_def parse_digits_itoa Let_def)
qed

lemma Atoi_bound: "Atoi s = Some k \<Longrightarrow> k < 2 ^ 63"
  by (auto simp: Atoi_def Let_def split: if_splits option.splits)

lemma withCaller_account:
  assumes "details_get (rDetails response) ''caller_authid'' = JStr ''system''"
    and "Atoi (Sprint (details_get (rArgumentsKw response) ''requestor_account_key'')) = Some k" and "0 \<le> k"
  shows "callerOf (withCaller response) = itoa_int k"
proof -
  have "Atoi (Sprint JNull) = None" by code_simp
  with assms(2) have "details_get (rArgumentsKw response) ''requestor_account_key'' \<noteq> JNull" by auto
  moreover have "uint (word_of_int k :: uint64) = k"
    using Atoi_bound [OF assms(2)] assms(3) by (simp add: uint_word_of_int)
  ultimately show ?thesis
    using assms(1,2) by (simp add: withCaller_def requestorOf_def callerOf_def details_get_def obj_get_def)
qed


section \<open>Failed transfers\<close>

definition isReset :: "spawned \<Rightarrow> bool" where
  "isReset t = (case t of SpawnTransferFailure _ _ \<Rightarrow> True | _ \<Rightarrow> False)"

text \<open>
  When the write of a chunk fails, the handler returns the error, forgets the transfer of the
  container and starts the reset of the app once; when it does not fail, no reset is started.
\<close>

theorem failed_chunk_resets:
  "case run_state (transferChunk k) s of (res, s') \<Rightarrow>
     (case fst (run_state (WriteChunk k) s) of
        Some e \<Rightarrow> res = Inl e \<and> map_of (fsActive s') (chContainerName k) = None
          \<and> exSpawned s' = exSpawned s @ [SpawnTransferFailure (chContainerName k) e]
      | None \<Rightarrow> \<not> isl res \<and> filter isReset (exSpawned s') = filter isReset (exSpawned s))"
proof -
  obtain err s1 where w: "run_state (WriteChunk k) s = (err, s1)" by force
  have "exSpawned s1 = exSpawned s"
    using w by (auto simp: WriteChunk_def beginTransfer_def endTransfer_def dataChunk_def fs_ops Let_def split: option.splits if_splits)
  then show ?thesis
    by (auto simp: isReset_def transferChunk_def CleanupFailedTransfer_def spawnTask_def returns_def fs_ops run_closeFile w
        split: option.splits prod.splits)
qed

section \<open>Examples, and what is not as intended\<close>

definition demo_external :: External where
  "demo_external = \<lparr>oTrace = [], oExt = (\<lambda>_ _. demo_reply\<lparr>rpJson := JArr [JBool False]\<rparr>), fsActive = [], fsOpened = [], exConfig = demo_config,
     exLogFileLocation = ''/var/reagent.log'', exTunnels = True, exLogs = demo_logs, exSpawned = []\<rparr>"

definition demo_call :: "string \<Rightarrow> (string \<times> json) list \<Rightarrow> argument list option \<Rightarrow> Result" where
  "demo_call authid kwargs args = \<lparr>rArguments = args, rArgumentsKw = kwargs, rDetails = [(''caller_authid'', JStr authid)]\<rparr>"

theorem unprivileged_no_effect_witness:
  "exSpawned (snd (run_state (wrapDetails systemRebootHandler (demo_call ''7'' [] None)) demo_external)) = []"
proof -
  have "(''system_reboot'', systemRebootHandler) \<in> set (getTopicHandlerMap demo_lines)" by (simp add: getTopicHandlerMap_def)
  moreover have "requiredPrivilege ''system_reboot'' = Some ''MAINTAIN''" by code_simp
  moreover have "\<not> granted demo_external ''MAINTAIN'' (callerOf (withCaller (demo_call ''7'' [] None)))" by code_simp
  moreover have "exSpawned (checked demo_external ''MAINTAIN'' (callerOf (withCaller (demo_call ''7'' [] None)))) = []" by code_simp
  ultimately show ?thesis using unprivileged_no_effect by metis
qed


text \<open>
  The account of a call in the positional argument is only found when the argument has the type
  \<^verbatim>\<open>common.Dict\<close>, and then the handlers do not take it for a map; a decoded map is never searched, and
  such a call has all the privileges of the system.
\<close>

lemma positional_account_ignored:
  assumes "rArgumentsKw response = []" and "rArguments response = Some (Plain j # args)"
  shows "withCaller response = response"
  using assms by (simp add: withCaller_def requestorOf_def details_get_def obj_get_def asDict_def)

lemma dict_is_no_map: "asDict a = Some m \<Longrightarrow> asMap a = None"
  by (simp add: asDict_def asMap_def split: argument.splits)

text \<open>An account that is no number leaves the call with the privileges of the system.\<close>

lemma unreadable_account_is_system:
  assumes "callerOf response = ''system''" and "Atoi (Sprint (requestorOf response)) = None"
  shows "granted s p (callerOf (withCaller response))"
  using assms by (auto simp: withCaller_def granted_def)

text \<open>A command is run for every caller.\<close>

lemma command_unchecked:
  assumes "rArguments response = Some [Plain (JObj [(''cmd'', JStr cmd), (''blocking'', JBool True)])]"
  shows "Ext ''cmd.Output'' [cmd] \<in> set (oTrace (snd (run_state (codeExecutionHandler response) s)))"
  using assms
  by (simp add: codeExecutionHandler_def andDo_def checkedDict_def argAt_def asMap_def stringAt_def boolAt_def details_get_def obj_get_def
      calling_def returns_def run_ops split: option.split)

text \<open>Without arguments the pruning of images panics, as do the handlers that index an empty list.\<close>

lemma prune_nil_panics:
  assumes "rArguments response = None" and "granted s ''MAINTAIN'' (callerOf response)"
  shows "fst (run_state (pruneImageHandler response) s) = Inl (panic ''index out of range'')"
  unfolding pruneImageHandler_def by (subst guarded_run(1)) (simp add: assms andDo_def argAt_def run_ops)

lemma empty_arguments_panic: "checkedDict (Some []) missing noDict = Inl (panic ''index out of range'')" "payloadDict (Some []) missing = Inl (panic ''index out of range'')"
  by (simp_all add: checkedDict_def payloadDict_def argAt_def)

text \<open>A prefix of \<open>2 ^ 32 + 24\<close> is one of 24.\<close>

lemma prefix_wraps: "uint32Text (2 ^ 32 + 24) = ''24''"
  by code_simp

end
