(* ===== verification/Messenger.thy ===== *)
theory Messenger
  imports Handlers
begin

text \<open>
  \<^verbatim>\<open>messenger/wamp.go\<close>: the session with the message router. A client is the number of the connection it
  was made for, a heartbeat channel the number of its creation. A goroutine is a task: the one that
  dials or watches the connection, the heartbeat of each connection, and the callback after a
  reconnection. One attempt to connect, one tick of a heartbeat and the call it makes are steps, so
  that all interleavings of them with \<^verbatim>\<open>Close\<close>, \<^verbatim>\<open>Reconnect\<close> and a loss of the connection are runs. A wait
  that ends because the session was closed is covered by the test at the next step. Timeouts are
  errors of the calls they bound. \<^verbatim>\<open>os.Exit\<close> sets \<open>wsExited\<close>, after which nothing happens.
\<close>

section \<open>Data\<close>

datatype DeviceStatus = CONNECTED | DISCONNECTED | CONFIGURING | EMERGENCY

definition DeviceStatus_string :: "DeviceStatus \<Rightarrow> string" where
  "DeviceStatus_string s = (case s of CONNECTED \<Rightarrow> ''CONNECTED'' | DISCONNECTED \<Rightarrow> ''DISCONNECTED''
     | CONFIGURING \<Rightarrow> ''CONFIGURING'' | EMERGENCY \<Rightarrow> ''EMERGENCY'')"

record SocketConfig =
  sPingPongTimeout :: int
  sResponseTimeout :: int
  sConnectionTimeout :: int
  sSetupTestament :: bool

datatype session_task =
    Dial bool nat \<comment> \<open>\<^verbatim>\<open>connect(isReconnect)\<close> in the loop of \<^verbatim>\<open>dial\<close>, with \<^verbatim>\<open>dupRegisterFailures\<close>\<close>
  | Installing bool nat \<comment> \<open>\<^verbatim>\<open>connect\<close> after \<^verbatim>\<open>dial\<close> returned a client\<close>
  | Watch nat nat \<comment> \<open>\<^verbatim>\<open>watchDisconnect(c, hbDone)\<close>\<close>
  | Heartbeat nat nat \<comment> \<open>waiting for the next tick, with the channel and the consecutive failures\<close>
  | Beat nat nat \<comment> \<open>about to send the status\<close>
  | Callback \<comment> \<open>\<^verbatim>\<open>onConnect(true)\<close>\<close>

record WampSession = outside +
  wsClient :: "nat option"
  wsClients :: nat \<comment> \<open>how many clients were connected\<close>
  wsLost :: "nat set" \<comment> \<open>clients whose \<^verbatim>\<open>Done\<close> channel is closed\<close>
  wsHeartbeatDone :: "nat option"
  wsChannels :: nat \<comment> \<open>how many heartbeat channels were made\<close>
  wsSignalled :: "nat set" \<comment> \<open>heartbeat channels that are closed\<close>
  wsClosed :: bool \<comment> \<open>the context is cancelled\<close>
  wsExited :: bool
  wsOnConnect :: bool
  wsTunnelCapable :: bool \<comment> \<open>\<^verbatim>\<open>tunnelCapableFn\<close> is set\<close>
  wsOffline :: bool
  wsSocket :: SocketConfig
  wsConfig :: Config
  wsCertificate :: string
  wsTasks :: "session_task list"

type_synonym 'a wprog = "(WampSession, 'a) state"

definition maxDuplicateSerialAttempts :: nat where "maxDuplicateSerialAttempts = 8"
definition maxConsecutiveFailures :: nat where "maxConsecutiveFailures = 2"

definition ErrNotConnected :: go_error where "ErrNotConnected = Msg ''not connected''"

definition exit :: "err wprog" where
  "exit = ignore (modify (\<lambda>s. s\<lparr>wsExited := True\<rparr>))"

definition goTask :: "session_task \<Rightarrow> err wprog" where
  "goTask t = ignore (modify (\<lambda>s. s\<lparr>wsTasks := wsTasks s @ [t]\<rparr>))"

section \<open>The configuration of a connection\<close>

text \<open>\<^verbatim>\<open>devices.*\.(com|io):8080\<close> somewhere in the text, which is one line.\<close>

fun legacyEndpoint :: "string \<Rightarrow> bool" where
  "legacyEndpoint [] = False"
| "legacyEndpoint (c # url) =
     (HasPrefix (c # url) ''devices'' \<and> (Contains (drop 7 (c # url)) ''.com:8080'' \<or> Contains (drop 7 (c # url)) ''.io:8080'')
      \<or> legacyEndpoint url)"

record ClientConfig =
  ccRealm :: string
  ccAuthID :: string
  ccSecret :: string
  ccTls :: bool
  ccKeepAlive :: int
  ccResponseTimeout :: int

definition createConnectConfig :: "(go_error + ClientConfig) wprog" where
  "createConnectConfig = do {
     s \<leftarrow> State_Monad.get;
     let cfg = wsConfig s;
     let sock = wsSocket s;
     let clientCfg = \<lparr>ccRealm = ''realm1'', ccAuthID = itoa (unat (cSwarmKey cfg)) @ ''-'' @ itoa (unat (cDeviceKey cfg)), ccSecret = cSecret cfg,
           ccTls = False, ccKeepAlive = sPingPongTimeout sock, ccResponseTimeout = sResponseTimeout sock\<rparr>;
     if \<not> legacyEndpoint (cDeviceEndpointURL cfg) then ret (Inr clientCfg)
     else do {
       err \<leftarrow> askE ''tls.X509KeyPair'' [wsCertificate s];
       ret (case err of Some e \<Rightarrow> Inl e | None \<Rightarrow> Inr (clientCfg\<lparr>ccTls := True\<rparr>)) } }"

section \<open>Calls on the current client\<close>

definition currentClient :: "nat option wprog" where
  "currentClient = gets wsClient"

definition onClient :: "string \<Rightarrow> string list \<Rightarrow> (go_error + reply) wprog" where
  "onClient name args = do {
     c \<leftarrow> currentClient;
     case c of
       None \<Rightarrow> ret (Inl ErrNotConnected)
     | Some n \<Rightarrow> do {
         r \<leftarrow> ask name (itoa n # args);
         ret (case rpErr r of Some e \<Rightarrow> Inl e | None \<Rightarrow> Inr r) } }"

definition errorOf :: "go_error + 'a \<Rightarrow> err" where
  "errorOf r = (case r of Inl e \<Rightarrow> Some e | Inr _ \<Rightarrow> None)"

definition PublishTopic :: "string \<Rightarrow> string list \<Rightarrow> err wprog" where
  "PublishTopic topic args = do { r \<leftarrow> onClient ''Client.Publish'' (topic # args); ret (errorOf r) }"

definition SubscribeTopic :: "string \<Rightarrow> err wprog" where
  "SubscribeTopic topic = do { r \<leftarrow> onClient ''Client.Subscribe'' [topic]; ret (errorOf r) }"

definition CallTopic :: "string \<Rightarrow> string list \<Rightarrow> (go_error + reply) wprog" where
  "CallTopic topic args = onClient ''Client.Call'' (topic # args)"

definition RegisterTopic :: "string \<Rightarrow> err wprog" where
  "RegisterTopic topic = do { r \<leftarrow> onClient ''Client.Register'' [topic, ''force_reregister'']; ret (errorOf r) }"

definition UnregisterTopic :: "string \<Rightarrow> err wprog" where
  "UnregisterTopic topic = do { r \<leftarrow> onClient ''Client.Unregister'' [topic]; ret (errorOf r) }"

definition UnsubscribeTopic :: "string \<Rightarrow> err wprog" where
  "UnsubscribeTopic topic = do { r \<leftarrow> onClient ''Client.Unsubscribe'' [topic]; ret (errorOf r) }"

definition idOf :: "string \<Rightarrow> string \<Rightarrow> uint64 option wprog" where
  "idOf name topic = do {
     c \<leftarrow> currentClient;
     case c of None \<Rightarrow> ret None
     | Some n \<Rightarrow> do { r \<leftarrow> ask name [itoa n, topic]; ret (if rpFlag r then Some (word_of_int (rpNum r)) else None) } }"

definition SubscriptionID :: "string \<Rightarrow> uint64 option wprog" where
  "SubscriptionID topic = idOf ''Client.SubscriptionID'' topic"

definition RegistrationID :: "string \<Rightarrow> uint64 option wprog" where
  "RegistrationID topic = idOf ''Client.RegistrationID'' topic"

definition GetSessionID :: "uint64 wprog" where
  "GetSessionID = do {
     c \<leftarrow> currentClient;
     case c of None \<Rightarrow> ret 0 | Some n \<Rightarrow> do { r \<leftarrow> ask ''Client.ID'' [itoa n]; ret (word_of_int (rpNum r)) } }"

definition Connected :: "bool wprog" where
  "Connected = do {
     c \<leftarrow> currentClient;
     case c of None \<Rightarrow> ret False | Some n \<Rightarrow> do { r \<leftarrow> ask ''Client.Connected'' [itoa n]; ret (rpFlag r) } }"

text \<open>What the router gets back from a registered procedure: the result, or one error for all.\<close>

datatype invocation_reply = Yield "json list" "(string \<times> json) list" | Failure string "json list"

definition invocationReply :: "go_error + InvokeResult \<Rightarrow> invocation_reply" where
  "invocationReply r = (case r of
     Inl e \<Rightarrow> Failure ''wamp.error.canceled'' [JObj [(''error'', JStr (Error e))]]
   | Inr res \<Rightarrow> Yield (irArguments res) (irArgumentsKw res))"

section \<open>The status of the device\<close>

definition reportedStatus :: "DeviceStatus \<Rightarrow> bool \<Rightarrow> DeviceStatus" where
  "reportedStatus status emergency = (if status = CONNECTED \<and> emergency then EMERGENCY else status)"

definition UpdateRemoteDeviceStatus :: "DeviceStatus \<Rightarrow> err wprog" where
  "UpdateRemoteDeviceStatus status = do {
     s \<leftarrow> State_Monad.get;
     emergency \<leftarrow> ask ''diskguard.IsEmergency'' [];
     stats \<leftarrow> ask ''common.GetStats'' [];
     sid \<leftarrow> GetSessionID;
     capable \<leftarrow> (if wsTunnelCapable s then do { r \<leftarrow> ask ''tunnelCapable'' []; ret [if rpFlag r then ''true'' else ''false''] } else ret []);
     res \<leftarrow> CallTopic ''reswarm.devices.update_device_status''
       ([itoa (unat (cSwarmKey (wsConfig s))), itoa (unat (cDeviceKey (wsConfig s))), DeviceStatus_string (reportedStatus status (rpFlag emergency)),
         itoa (unat sid), Sprint (fieldsOf statsFields (rpJson stats))] @ capable);
     case res of
       Inl e \<Rightarrow> ret (Some e)
     | Inr r \<Rightarrow> (case rpJson r of
         JArr (JObj args # _) \<Rightarrow> do {
           let url = Sprint (details_get args ''reswarmBaseURL'');
           if url = [] then ret None
           else ignore (modify (\<lambda>s. s\<lparr>wsConfig := (wsConfig s)\<lparr>cReswarmBaseURL := url\<rparr>\<rparr>)) }
       | JArr [] \<Rightarrow> ret (Some (panic ''index out of range''))
       | _ \<Rightarrow> ret None) }"

definition SetupTestament :: "err wprog" where
  "SetupTestament = do {
     cfg \<leftarrow> gets wsConfig;
     sid \<leftarrow> GetSessionID;
     r \<leftarrow> CallTopic ''wamp.session.add_testament'' [''reswarm.api.testament_device'', itoa (unat (cSwarmKey cfg)), itoa (unat (cDeviceKey cfg)), cSerialNumber cfg,
           itoa (unat sid)];
     ret (errorOf r) }"

section \<open>Connecting\<close>

text \<open>The rest of \<^verbatim>\<open>connect\<close> once a client is there.\<close>

definition closeClient :: "nat \<Rightarrow> err wprog" where
  "closeClient c = do {
     _ \<leftarrow> ask ''Client.Close'' [itoa c];
     ignore (modify (\<lambda>s. s\<lparr>wsLost := insert c (wsLost s)\<rparr>)) }"

definition guardConnection :: "bool \<Rightarrow> bool \<Rightarrow> nat \<Rightarrow> nat \<Rightarrow> err wprog" where
  "guardConnection isReconnect cb c hbDone = do {
     _ \<leftarrow> goTask (Watch c hbDone);
     _ \<leftarrow> goTask (Heartbeat hbDone 0);
     if isReconnect \<and> cb then goTask Callback else ret None }"

definition install :: "bool \<Rightarrow> nat \<Rightarrow> err wprog" where
  "install isReconnect c = do {
     s \<leftarrow> State_Monad.get;
     let hbDone = wsChannels s;
     let cb = wsOnConnect s;
     _ \<leftarrow> modify (\<lambda>s. s\<lparr>wsClient := Some c, wsHeartbeatDone := Some hbDone, wsChannels := Suc hbDone\<rparr>);
     testErr \<leftarrow> (if sSetupTestament (wsSocket s) then SetupTestament else ret None);
     if testErr \<noteq> None \<and> \<not> isReconnect then do {
       _ \<leftarrow> closeClient c;
       _ \<leftarrow> modify (\<lambda>s. s\<lparr>wsClient := None, wsClosed := True\<rparr>);
       ret testErr }
     else guardConnection isReconnect cb c hbDone }"

definition connectedTopic :: "string \<Rightarrow> string" where
  "connectedTopic serial = BuildExternalApiTopic serial ''wamp_connection_established''"

definition onDestroyTopic :: string where
  "onDestroyTopic = ''reswarm.device.%d.list/ondestroy''"

text \<open>One attempt of \<^verbatim>\<open>dial\<close>: it gives up, goes on dialling, or has a client.\<close>

definition announce :: "bool \<Rightarrow> nat \<Rightarrow> nat \<Rightarrow> err wprog" where
  "announce isReconnect dup c = do {
     cfg \<leftarrow> gets wsConfig;
     regErr \<leftarrow> askE ''Router.Register'' [itoa c, connectedTopic (cSerialNumber cfg)];
     case regErr of
       Some e \<Rightarrow>
         if Contains (Error e) ''wamp.error.procedure_already_exists'' then
           (if Suc dup \<ge> maxDuplicateSerialAttempts then exit
            else do { _ \<leftarrow> closeClient c; goTask (Dial isReconnect (Suc dup)) })
         else do { _ \<leftarrow> askE ''Router.Subscribe'' [itoa c, onDestroyTopic]; goTask (Installing isReconnect c) }
     | None \<Rightarrow> do { _ \<leftarrow> askE ''Router.Subscribe'' [itoa c, onDestroyTopic]; goTask (Installing isReconnect c) } }"

definition attempt :: "bool \<Rightarrow> nat \<Rightarrow> err wprog" where
  "attempt isReconnect dup = do {
     s \<leftarrow> State_Monad.get;
     if wsClosed s then ret None
     else if wsOffline s then goTask (Dial isReconnect dup)
     else do {
       connectionConfig \<leftarrow> createConnectConfig;
       case connectionConfig of
         Inl _ \<Rightarrow> goTask (Dial isReconnect dup)
       | Inr cc \<Rightarrow> do {
           err \<leftarrow> askE ''client.ConnectNet'' [cDeviceEndpointURL (wsConfig s), ccAuthID cc];
           case err of
             Some e \<Rightarrow> if Contains (Error e) ''WAMP-CRA client signature is invalid'' then exit else goTask (Dial isReconnect dup)
           | None \<Rightarrow> do {
               let c = wsClients s;
               _ \<leftarrow> modify (\<lambda>s. s\<lparr>wsClients := Suc c\<rparr>);
               announce isReconnect dup c } } } }"

section \<open>Watching\<close>

definition cancelContainerStreams :: "err wprog" where
  "cancelContainerStreams = ignore (ask ''Container.CancelAllStreams'' [])"

definition watchDisconnect :: "err wprog" where
  "watchDisconnect = do { _ \<leftarrow> cancelContainerStreams; goTask (Dial True 0) }"

text \<open>A tick of the heartbeat of a channel, and what it sends. A panic ends the heartbeat.\<close>

definition tick :: "nat \<Rightarrow> nat \<Rightarrow> err wprog" where
  "tick hbDone failures = do {
     s \<leftarrow> State_Monad.get;
     if wsClosed s \<or> wsHeartbeatDone s \<noteq> Some hbDone then ret None
     else do {
       c \<leftarrow> Connected;
       if \<not> c then goTask (Heartbeat hbDone 0) else goTask (Beat hbDone failures) } }"

definition beat :: "nat \<Rightarrow> nat \<Rightarrow> err wprog" where
  "beat hbDone failures = do {
     err \<leftarrow> UpdateRemoteDeviceStatus CONNECTED;
     case err of
       None \<Rightarrow> goTask (Heartbeat hbDone 0)
     | Some e \<Rightarrow>
         if e = panic ''index out of range'' then ret None
         else if Suc failures \<ge> maxConsecutiveFailures then ignore (modify (\<lambda>s. s\<lparr>wsSignalled := insert hbDone (wsSignalled s)\<rparr>))
         else goTask (Heartbeat hbDone (Suc failures)) }"

section \<open>Operations\<close>

definition SetOnConnect :: "err wprog" where
  "SetOnConnect = ignore (modify (\<lambda>s. s\<lparr>wsOnConnect := True\<rparr>))"

definition SetTunnelCapableFunc :: "err wprog" where
  "SetTunnelCapableFunc = ignore (modify (\<lambda>s. s\<lparr>wsTunnelCapable := True\<rparr>))"

definition Reconnect :: "err wprog" where
  "Reconnect = do { c \<leftarrow> currentClient; case c of None \<Rightarrow> ret None | Some n \<Rightarrow> closeClient n }"

definition Close :: "err wprog" where
  "Close = do {
     _ \<leftarrow> modify (\<lambda>s. s\<lparr>wsClosed := True\<rparr>);
     c \<leftarrow> currentClient;
     _ \<leftarrow> modify (\<lambda>s. s\<lparr>wsClient := None\<rparr>);
     case c of None \<Rightarrow> ret None | Some n \<Rightarrow> closeClient n }"

definition onDestroy :: "err wprog" where
  "onDestroy = do { _ \<leftarrow> ask ''Container.PruneSystem'' []; exit }"

section \<open>Runs\<close>

definition newSession :: "(ext_call list \<Rightarrow> ext_call \<Rightarrow> reply) \<Rightarrow> Config \<Rightarrow> SocketConfig \<Rightarrow> string \<Rightarrow> bool \<Rightarrow> WampSession" where
  "newSession outer cfg sock cert offline = \<lparr>oTrace = [], oExt = outer, wsClient = None, wsClients = 0, wsLost = {}, wsHeartbeatDone = None, wsChannels = 0,
     wsSignalled = {}, wsClosed = False, wsExited = False, wsOnConnect = False, wsTunnelCapable = False, wsOffline = offline, wsSocket = sock,
     wsConfig = cfg, wsCertificate = cert, wsTasks = [Dial False 0]\<rparr>"

abbreviation after :: "'a wprog \<Rightarrow> WampSession \<Rightarrow> WampSession" where
  "after m s \<equiv> snd (run_state m s)"

definition taken :: "session_task \<Rightarrow> WampSession \<Rightarrow> WampSession \<Rightarrow> bool" where
  "taken t s s0 \<longleftrightarrow> \<not> wsExited s \<and> (\<exists>xs ys. wsTasks s = xs @ t # ys \<and> s0 = s\<lparr>wsTasks := xs @ ys\<rparr>)"

inductive session_step :: "WampSession \<Rightarrow> WampSession \<Rightarrow> bool" where
  dialling: "taken (Dial r d) s s0 \<Longrightarrow> session_step s (after (attempt r d) s0)"
| installing: "taken (Installing r c) s s0 \<Longrightarrow> session_step s (after (install r c) s0)"
| watch_lost: "taken (Watch c hb) s s0 \<Longrightarrow> c \<in> wsLost s \<or> hb \<in> wsSignalled s \<Longrightarrow> session_step s (after watchDisconnect s0)"
| watch_closed: "taken (Watch c hb) s s0 \<Longrightarrow> wsClosed s \<Longrightarrow> session_step s s0"
| watch_panic: "taken (Watch c hb) s s0 \<Longrightarrow> session_step s (if wsClosed s then s0 else after (goTask (Dial True 0)) s0)"
| ticking: "taken (Heartbeat hb n) s s0 \<Longrightarrow> session_step s (after (tick hb n) s0)"
| beating: "taken (Beat hb n) s s0 \<Longrightarrow> session_step s (after (beat hb n) s0)"
| called_back: "taken Callback s s0 \<Longrightarrow> session_step s s0"
| lost: "\<not> wsExited s \<Longrightarrow> c < wsClients s \<Longrightarrow> session_step s (s\<lparr>wsLost := insert c (wsLost s)\<rparr>)"
| close: "\<not> wsExited s \<Longrightarrow> session_step s (after Close s)"
| reconnect: "\<not> wsExited s \<Longrightarrow> session_step s (after Reconnect s)"
| set_callback: "\<not> wsExited s \<Longrightarrow> session_step s (after SetOnConnect s)"
| set_capable: "\<not> wsExited s \<Longrightarrow> session_step s (after SetTunnelCapableFunc s)"
| report: "\<not> wsExited s \<Longrightarrow> session_step s (after (UpdateRemoteDeviceStatus st) s)"
| used: "\<not> wsExited s \<Longrightarrow> HasPrefix name ''Client.'' \<Longrightarrow> session_step s (after (onClient name args) s)"
| destroyed: "\<not> wsExited s \<Longrightarrow> session_step s (after onDestroy s)"

inductive session_reachable :: "WampSession \<Rightarrow> bool" where
  new: "session_reachable (newSession outer cfg sock cert offline)"
| step: "session_reachable s \<Longrightarrow> session_step s s' \<Longrightarrow> session_reachable s'"

section \<open>Calls that only talk\<close>

text \<open>Calls other than those of \<^verbatim>\<open>dial\<close> and of the destruction of the device.\<close>

definition quiet :: "ext_call \<Rightarrow> bool" where
  "quiet call = (case call of Ext name _ \<Rightarrow> name \<notin> {''Router.Register'', ''Router.Subscribe'', ''client.ConnectNet'', ''Container.PruneSystem''})"

definition talk :: "WampSession \<Rightarrow> WampSession \<Rightarrow> bool" where
  "talk s s' \<longleftrightarrow> (\<exists>tr cfg. s' = s\<lparr>oTrace := oTrace s @ tr, wsConfig := cfg\<rparr> \<and> list_all quiet tr)"

lemma talk_trans:
  assumes "talk u v" and "talk v w"
  shows "talk u w"
proof -
  obtain tr cfg where v: "v = u\<lparr>oTrace := oTrace u @ tr, wsConfig := cfg\<rparr>" "list_all quiet tr" using assms(1) by (auto simp: talk_def)
  obtain tr' cfg' where w: "w = v\<lparr>oTrace := oTrace v @ tr', wsConfig := cfg'\<rparr>" "list_all quiet tr'" using assms(2) by (auto simp: talk_def)
  have "w = u\<lparr>oTrace := oTrace u @ tr @ tr', wsConfig := cfg'\<rparr> \<and> list_all quiet (tr @ tr')" using v w by simp
  then show ?thesis unfolding talk_def by blast
qed

interpretation tlk: state_relation talk
proof
  show "talk w w" for w unfolding talk_def by (rule exI [of _ "[]"], rule exI [of _ "wsConfig w"]) simp
qed (rule talk_trans)

lemma talk_ask: "quiet (Ext name args) \<Longrightarrow> keeps talk (ask name args)"
  unfolding keeps_def talk_def run_ask
  by (intro allI exI [of _ "[Ext name args]"], rule_tac x = "wsConfig w" in exI) simp

lemma talk_askE: "quiet (Ext name args) \<Longrightarrow> keeps talk (askE name args)"
  unfolding askE_def by (intro tlk.keeps_bind tlk.keeps_return talk_ask)

lemma talk_config: "keeps talk (modify (\<lambda>s. s\<lparr>wsConfig := f s\<rparr>))"
  unfolding keeps_def talk_def run_modify by (intro allI exI [of _ "[]"], rule_tac x = "f w" in exI) simp

lemma talk_onClient: "quiet (Ext name []) \<Longrightarrow> keeps talk (onClient name args)"
  unfolding onClient_def currentClient_def by (intro tlk.keeps_basic talk_ask) (simp add: quiet_def)

lemma talk_GetSessionID: "keeps talk GetSessionID"
  unfolding GetSessionID_def currentClient_def by (intro tlk.keeps_basic talk_ask) (simp add: quiet_def)

lemma talk_CallTopic: "keeps talk (CallTopic topic args)"
  unfolding CallTopic_def by (rule talk_onClient) (simp add: quiet_def)

lemma talk_Connected: "keeps talk Connected"
  unfolding Connected_def currentClient_def by (intro tlk.keeps_basic talk_ask) (simp add: quiet_def)

lemma talk_UpdateRemoteDeviceStatus: "keeps talk (UpdateRemoteDeviceStatus st)"
proof -
  have ignored: "keeps talk (case j of JArr (JObj args # xs) \<Rightarrow> f args | JArr [] \<Rightarrow> ret a | _ \<Rightarrow> ret b)"
    if "\<And>args. keeps talk (f args)" for j f and a b :: err
    using that by (auto split: json.split list.split intro: tlk.keeps_return)
  show ?thesis
    unfolding UpdateRemoteDeviceStatus_def Let_def
    by (intro tlk.keeps_basic talk_ask talk_GetSessionID talk_CallTopic ignored talk_config) (simp_all add: quiet_def)
qed

lemma talk_SetupTestament: "keeps talk SetupTestament"
  unfolding SetupTestament_def by (intro tlk.keeps_basic talk_GetSessionID talk_CallTopic)

lemma talk_createConnectConfig: "keeps talk createConnectConfig"
  unfolding createConnectConfig_def Let_def by (intro tlk.keeps_basic talk_askE) (simp add: quiet_def)

lemma talkE:
  assumes "keeps talk m"
  obtains a tr cfg where "run_state m s = (a, s\<lparr>oTrace := oTrace s @ tr, wsConfig := cfg\<rparr>)" and "list_all quiet tr"
proof -
  obtain a s' where run: "run_state m s = (a, s')" by force
  with keepsD [OF assms run] show thesis by (auto simp: talk_def intro: that)
qed

section \<open>One goroutine guards the connection\<close>

definition guardian :: "session_task \<Rightarrow> bool" where
  "guardian t = (case t of Dial _ _ \<Rightarrow> True | Installing _ _ \<Rightarrow> True | Watch _ _ \<Rightarrow> True | _ \<Rightarrow> False)"

definition beats :: "nat \<Rightarrow> session_task \<Rightarrow> bool" where
  "beats hb t = (case t of Heartbeat h _ \<Rightarrow> h = hb | Beat h _ \<Rightarrow> h = hb | _ \<Rightarrow> False)"

abbreviation guards :: "WampSession \<Rightarrow> nat" where
  "guards s \<equiv> length (filter guardian (wsTasks s))"

abbreviation beating_on :: "nat \<Rightarrow> WampSession \<Rightarrow> session_task list" where
  "beating_on hb s \<equiv> filter (beats hb) (wsTasks s)"

definition hb_ok :: "WampSession \<Rightarrow> nat \<Rightarrow> bool" where
  "hb_ok s hb \<longleftrightarrow> length (beating_on hb s) + (if hb \<in> wsSignalled s then 1 else 0) \<le> (if hb < wsChannels s then 1 else 0)"

definition sound :: "WampSession \<Rightarrow> bool" where
  "sound s \<longleftrightarrow> (\<forall>hb. hb_ok s hb)
     \<and> (\<forall>c hb. Watch c hb \<in> set (wsTasks s) \<longrightarrow> wsClosed s \<or> wsClient s = Some c \<and> wsHeartbeatDone s = Some hb)"

definition session_ok :: "WampSession \<Rightarrow> bool" where
  "session_ok s \<longleftrightarrow> sound s \<and> guards s \<le> 1 \<and> (wsClosed s \<or> wsExited s \<or> guards s = 1)"

lemma task_kinds [simp]:
  "guardian (Dial r d)" "guardian (Installing r c)" "guardian (Watch c hb)" "\<not> guardian (Heartbeat hb n)" "\<not> guardian (Beat hb n)" "\<not> guardian Callback"
  "beats hb (Heartbeat h n) = (h = hb)" "beats hb (Beat h n) = (h = hb)" "\<not> beats hb (Dial r d)" "\<not> beats hb (Installing r c)" "\<not> beats hb (Watch c h)"
  "\<not> beats hb Callback"
  by (simp_all add: guardian_def beats_def)

lemma no_guard_no_watch: "guards s = 0 \<Longrightarrow> Watch c hb \<notin> set (wsTasks s)"
  by (auto simp: filter_empty_conv)

lemma taken_guardian:
  assumes "taken t s s0" and "guardian t" and "session_ok s"
  shows "sound s0 \<and> guards s0 = 0"
proof -
  obtain xs ys where t: "wsTasks s = xs @ t # ys" and s0: "s0 = s\<lparr>wsTasks := xs @ ys\<rparr>" using assms(1) by (auto simp: taken_def)
  have "\<not> beats hb t" for hb using assms(2) by (cases t) simp_all
  then have "hb_ok s0 hb = hb_ok s hb" for hb by (simp add: hb_ok_def t s0)
  then show ?thesis using assms(2,3) by (auto simp: session_ok_def sound_def t s0)
qed

lemma taken_beat:
  assumes "taken t s s0" and "beats hb t" and "session_ok s"
  shows "session_ok s0 \<and> beating_on hb s0 = [] \<and> hb \<notin> wsSignalled s0 \<and> hb < wsChannels s0"
proof -
  obtain xs ys where t: "wsTasks s = xs @ t # ys" and s0: "s0 = s\<lparr>wsTasks := xs @ ys\<rparr>" using assms(1) by (auto simp: taken_def)
  have g: "\<not> guardian t" using assms(2) by (cases t) simp_all
  have hb: "length (beating_on h s) + (if h \<in> wsSignalled s then 1 else 0) \<le> (if h < wsChannels s then 1 else 0)" for h
    using assms(3) by (simp add: session_ok_def sound_def hb_ok_def)
  have "length (beating_on h s0) \<le> length (beating_on h s)" for h by (simp add: t s0)
  with hb have "length (beating_on h s0) + (if h \<in> wsSignalled s then 1 else 0) \<le> (if h < wsChannels s then 1 else 0)" for h
    by (meson add_le_mono1 order_trans)
  then have "hb_ok s0 h" for h by (simp add: hb_ok_def s0)
  then have "session_ok s0" using assms(3) g by (auto simp: session_ok_def sound_def t s0)
  then show ?thesis using hb [of hb] assms(2) by (auto simp: t s0 split: if_splits)
qed

lemmas session_ops = run_ops goTask_def closeClient_def exit_def

text \<open>What the soundness of a session depends on.\<close>

lemma sound_cong:
  assumes "sound s" and "wsTasks s' = wsTasks s @ ts" and "\<And>t. t \<in> set ts \<Longrightarrow> (\<exists>r d. t = Dial r d) \<or> (\<exists>r c. t = Installing r c) \<or> t = Callback"
    and "wsSignalled s' = wsSignalled s" and "wsChannels s' = wsChannels s" and "wsClosed s' = wsClosed s" and "wsClient s' = wsClient s"
    and "wsHeartbeatDone s' = wsHeartbeatDone s"
  shows "sound s'"
proof -
  have "filter (beats hb) ts = []" for hb using assms(3) by (fastforce simp: filter_empty_conv)
  moreover have "Watch c hb \<notin> set ts" for c hb using assms(3) by blast
  ultimately show ?thesis using assms(1) unfolding sound_def hb_ok_def assms(2,4-8) by simp
qed

lemma session_okI:
  assumes "sound s" and "guards s = 0" and "wsTasks s' = wsTasks s @ ts" and "\<And>t. t \<in> set ts \<Longrightarrow> (\<exists>r d. t = Dial r d) \<or> (\<exists>r c. t = Installing r c) \<or> t = Callback"
    and "wsSignalled s' = wsSignalled s" and "wsChannels s' = wsChannels s" and "wsClosed s' = wsClosed s" and "wsClient s' = wsClient s"
    and "wsHeartbeatDone s' = wsHeartbeatDone s" and "length (filter guardian ts) = 1 \<or> ts = [] \<and> (wsClosed s \<or> wsExited s')"
  shows "session_ok s'"
  unfolding session_ok_def using sound_cong [OF assms(1,3-9)] assms(2,3,7,10) by auto

lemma attempt_ok:
  assumes "sound s" and "guards s = 0"
  shows "session_ok (after (attempt r d) s)"
proof -
  obtain a tr cfg where cc: "run_state createConnectConfig s = (a, s\<lparr>oTrace := oTrace s @ tr, wsConfig := cfg\<rparr>)"
    by (rule talkE [OF talk_createConnectConfig])
  let ?s' = "after (attempt r d) s"
  have same: "wsSignalled ?s' = wsSignalled s" "wsChannels ?s' = wsChannels s" "wsClosed ?s' = wsClosed s" "wsClient ?s' = wsClient s"
    "wsHeartbeatDone ?s' = wsHeartbeatDone s"
    by (simp_all add: attempt_def announce_def session_ops cc Let_def split: sum.split option.split)
  have "\<exists>ts. wsTasks ?s' = wsTasks s @ ts \<and> (ts = [] \<and> (wsClosed s \<or> wsExited ?s') \<or> (\<exists>r d. ts = [Dial r d]) \<or> (\<exists>r c. ts = [Installing r c]))"
    by (auto simp: attempt_def announce_def session_ops cc Let_def split: sum.split option.split)
  then obtain ts where ts: "wsTasks ?s' = wsTasks s @ ts" "ts = [] \<and> (wsClosed s \<or> wsExited ?s') \<or> (\<exists>r d. ts = [Dial r d]) \<or> (\<exists>r c. ts = [Installing r c])"
    by blast
  show ?thesis by (rule session_okI [OF assms ts(1) _ same]) (use ts(2) in auto)
qed

lemma install_run:
  obtains e :: err and tr cfg where "list_all quiet tr"
    and "after (install r c) s = (if e \<noteq> None \<and> \<not> r
      then s\<lparr>oTrace := oTrace s @ tr @ [Ext ''Client.Close'' [itoa c]], wsClient := None, wsHeartbeatDone := Some (wsChannels s), wsChannels := Suc (wsChannels s),
             wsConfig := cfg, wsLost := insert c (wsLost s), wsClosed := True\<rparr>
      else s\<lparr>oTrace := oTrace s @ tr, wsClient := Some c, wsHeartbeatDone := Some (wsChannels s), wsChannels := Suc (wsChannels s), wsConfig := cfg,
             wsTasks := wsTasks s @ [Watch c (wsChannels s), Heartbeat (wsChannels s) 0] @ (if r \<and> wsOnConnect s then [Callback] else [])\<rparr>)"
    and "e \<noteq> None \<Longrightarrow> \<exists>tr call. rpErr (oExt s tr call) \<noteq> None"
proof -
  let ?s1 = "s\<lparr>wsClient := Some c, wsHeartbeatDone := Some (wsChannels s), wsChannels := Suc (wsChannels s)\<rparr>"
  let ?test = "if sSetupTestament (wsSocket s) then SetupTestament else ret None"
  have "keeps talk ?test" by (intro tlk.keeps_if talk_SetupTestament tlk.keeps_return)
  then obtain e tr cfg where test: "run_state ?test ?s1 = (e, ?s1\<lparr>oTrace := oTrace ?s1 @ tr, wsConfig := cfg\<rparr>)" and tr: "list_all quiet tr"
    by (rule talkE)
  have "\<exists>tr call. rpErr (oExt s tr call) \<noteq> None" if "e \<noteq> None"
    using test that
    by (auto simp: SetupTestament_def GetSessionID_def CallTopic_def onClient_def currentClient_def errorOf_def run_ops split: if_splits sum.splits option.splits)
  with tr test show thesis
    by (intro that [of tr e cfg]) (auto simp: install_def guardConnection_def Let_def session_ops)
qed

lemma install_ok:
  assumes "sound s" and "guards s = 0"
  shows "session_ok (after (install r c) s)"
proof -
  let ?hb = "wsChannels s"
  obtain e :: err and tr cfg where run: "after (install r c) s = (if e \<noteq> None \<and> \<not> r
      then s\<lparr>oTrace := oTrace s @ tr @ [Ext ''Client.Close'' [itoa c]], wsClient := None, wsHeartbeatDone := Some ?hb, wsChannels := Suc ?hb,
             wsConfig := cfg, wsLost := insert c (wsLost s), wsClosed := True\<rparr>
      else s\<lparr>oTrace := oTrace s @ tr, wsClient := Some c, wsHeartbeatDone := Some ?hb, wsChannels := Suc ?hb, wsConfig := cfg,
             wsTasks := wsTasks s @ [Watch c ?hb, Heartbeat ?hb 0] @ (if r \<and> wsOnConnect s then [Callback] else [])\<rparr>)"
    by (rule install_run)
  have hb: "length (beating_on h s) + (if h \<in> wsSignalled s then 1 else 0) \<le> (if h < ?hb then 1 else 0)" for h
    using assms(1) by (simp add: sound_def hb_ok_def)
  have fresh: "beating_on ?hb s = []" "?hb \<notin> wsSignalled s" using hb [of ?hb] by (auto split: if_splits)
  have watch: "Watch c' h \<notin> set (wsTasks s)" for c' h by (rule no_guard_no_watch [OF assms(2)])
  have "length (beating_on h s) + (if h = ?hb then 1 else 0) + (if h \<in> wsSignalled s then 1 else 0) \<le> (if h < Suc ?hb then 1 else 0)" for h
    using hb [of h] fresh by (auto split: if_splits)
  then have "hb_ok (after (install r c) s) h" for h
    using hb [of h] unfolding run by (auto simp: hb_ok_def intro: order_trans [rotated] split: if_splits)
  then show ?thesis using watch assms(2) by (auto simp: session_ok_def sound_def run)
qed

lemma watchDisconnect_ok: "sound s \<Longrightarrow> guards s = 0 \<Longrightarrow> session_ok (after watchDisconnect s)"
  by (rule session_okI [where ts = "[Dial True 0]"]) (auto simp: watchDisconnect_def cancelContainerStreams_def session_ops)

lemma session_ok_frame:
  assumes "session_ok s" and "wsTasks s' = wsTasks s" and "wsSignalled s' = wsSignalled s" and "wsChannels s' = wsChannels s" and "wsClosed s' = wsClosed s"
    and "wsClient s' = wsClient s" and "wsHeartbeatDone s' = wsHeartbeatDone s" and "wsExited s \<Longrightarrow> wsExited s'"
  shows "session_ok s'"
  using assms unfolding session_ok_def sound_def hb_ok_def by auto

lemma session_ok_beat:
  assumes "session_ok s" and "beating_on hb s = []" and "hb \<notin> wsSignalled s" and "hb < wsChannels s" and "beats hb t" and "\<not> guardian t"
  shows "session_ok (s\<lparr>wsTasks := wsTasks s @ [t]\<rparr>)"
proof -
  have only: "beats h t \<longleftrightarrow> h = hb" for h using assms(5) by (cases t) auto
  have "hb_ok s h" for h using assms(1) by (simp add: session_ok_def sound_def)
  then have "hb_ok (s\<lparr>wsTasks := wsTasks s @ [t]\<rparr>) h" for h
    using assms(2-4) by (cases "h = hb") (simp_all add: hb_ok_def only)
  moreover have "Watch c h \<noteq> t" for c h using assms(6) by auto
  ultimately show ?thesis using assms(1-4,6) by (auto simp: session_ok_def sound_def)
qed

lemma tick_ok:
  assumes "session_ok s" and "beating_on hb s = []" and "hb \<notin> wsSignalled s" and "hb < wsChannels s"
  shows "session_ok (after (tick hb n) s)"
proof -
  obtain a tr cfg where c: "run_state Connected s = (a, s\<lparr>oTrace := oTrace s @ tr, wsConfig := cfg\<rparr>)"
    by (rule talkE [OF talk_Connected])
  have "session_ok (s\<lparr>oTrace := oTrace s @ tr, wsConfig := cfg\<rparr>)" by (rule session_ok_frame [OF assms(1)]) simp_all
  then show ?thesis
    using assms session_ok_beat [of "s\<lparr>oTrace := oTrace s @ tr, wsConfig := cfg\<rparr>" hb]
    by (simp add: tick_def session_ops c)
qed

lemma beat_ok:
  assumes "session_ok s" and "beating_on hb s = []" and "hb \<notin> wsSignalled s" and "hb < wsChannels s"
  shows "session_ok (after (beat hb n) s)"
proof -
  obtain a tr cfg where c: "run_state (UpdateRemoteDeviceStatus CONNECTED) s = (a, s\<lparr>oTrace := oTrace s @ tr, wsConfig := cfg\<rparr>)"
    by (rule talkE [OF talk_UpdateRemoteDeviceStatus])
  let ?u = "s\<lparr>oTrace := oTrace s @ tr, wsConfig := cfg\<rparr>"
  have u: "session_ok ?u" by (rule session_ok_frame [OF assms(1)]) simp_all
  have signalled: "session_ok (?u\<lparr>wsSignalled := insert hb (wsSignalled s)\<rparr>)"
  proof -
    have "hb_ok s h" for h using assms(1) by (simp add: session_ok_def sound_def)
    then have "hb_ok (?u\<lparr>wsSignalled := insert hb (wsSignalled s)\<rparr>) h" for h
      using assms(2-4) by (cases "h = hb") (simp_all add: hb_ok_def)
    then show ?thesis using u by (auto simp: session_ok_def sound_def)
  qed
  show ?thesis
    using assms u signalled session_ok_beat [of ?u hb]
    by (simp add: beat_def session_ops c split: option.split)
qed

lemma talk_ok:
  assumes "keeps talk m" and "session_ok s"
  shows "session_ok (after m s)"
proof -
  obtain a tr cfg where "run_state m s = (a, s\<lparr>oTrace := oTrace s @ tr, wsConfig := cfg\<rparr>)" by (rule talkE [OF assms(1)])
  then show ?thesis by (simp add: session_ok_frame [OF assms(2)])
qed

lemma Close_ok:
  assumes "session_ok s"
  shows "session_ok (after Close s)"
proof -
  have same: "wsTasks (after Close s) = wsTasks s" "wsSignalled (after Close s) = wsSignalled s" "wsChannels (after Close s) = wsChannels s"
    and closed: "wsClosed (after Close s)"
    by (simp_all add: Close_def currentClient_def session_ops split: option.split)
  have "hb_ok (after Close s) hb = hb_ok s hb" for hb by (simp add: hb_ok_def same)
  then show ?thesis using assms same closed by (simp add: session_ok_def sound_def)
qed

lemma Reconnect_ok: "session_ok s \<Longrightarrow> session_ok (after Reconnect s)"
  by (erule session_ok_frame) (simp_all add: Reconnect_def currentClient_def session_ops split: option.split)

lemma taken_callback:
  assumes "taken Callback s s0" and "session_ok s"
  shows "session_ok s0"
proof -
  obtain xs ys where t: "wsTasks s = xs @ Callback # ys" and s0: "s0 = s\<lparr>wsTasks := xs @ ys\<rparr>" using assms(1) by (auto simp: taken_def)
  have "hb_ok s0 hb = hb_ok s hb" for hb by (simp add: hb_ok_def t s0)
  then show ?thesis using assms(2) by (auto simp: session_ok_def sound_def t s0)
qed

lemma taken_same: "taken t s s0 \<Longrightarrow> wsClosed s0 = wsClosed s \<and> wsExited s0 = wsExited s \<and> wsLost s0 = wsLost s \<and> oTrace s0 = oTrace s \<and> oExt s0 = oExt s"
  by (auto simp: taken_def)

lemma step_ok: "session_step s s' \<Longrightarrow> session_ok s \<Longrightarrow> session_ok s'"
proof (induction rule: session_step.induct)
  case (dialling r d s s0)
  then show ?case using taken_guardian [OF dialling(1)] attempt_ok by simp
next
  case (installing r c s s0)
  then show ?case using taken_guardian [OF installing(1)] install_ok by simp
next
  case (watch_lost c hb s s0)
  then show ?case using taken_guardian [OF watch_lost(1)] watchDisconnect_ok by simp
next
  case (watch_closed c hb s s0)
  then show ?case using taken_guardian [OF watch_closed(1)] taken_same [OF watch_closed(1)] by (simp add: session_ok_def)
next
  case (watch_panic c hb s s0)
  note free = taken_guardian [OF watch_panic(1) _ watch_panic(2), simplified]
  have "session_ok (after (goTask (Dial True 0)) s0)"
    by (rule session_okI [of s0 _ "[Dial True 0]"]) (use free in \<open>auto simp: session_ops\<close>)
  then show ?case using free taken_same [OF watch_panic(1)] by (simp add: session_ok_def)
next
  case (ticking hb n s s0)
  then show ?case using taken_beat [OF ticking(1), of hb] tick_ok by simp
next
  case (beating hb n s s0)
  then show ?case using taken_beat [OF beating(1), of hb] beat_ok by simp
next
  case (called_back s s0)
  then show ?case by (rule taken_callback)
next
  case (report s st)
  then show ?case by (intro talk_ok talk_UpdateRemoteDeviceStatus)
next
  case (used s name args)
  then have "quiet (Ext name [])" by (auto simp: quiet_def)
  with used show ?case by (intro talk_ok talk_onClient)
next
  case (destroyed s)
  then show ?case by (intro session_ok_frame [OF destroyed(2)]) (simp_all add: onDestroy_def session_ops)
next
  case (lost s c)
  then show ?case by (intro session_ok_frame [OF lost(3)]) simp_all
next
  case (set_callback s)
  then show ?case by (intro session_ok_frame [OF set_callback(2)]) (simp_all add: SetOnConnect_def session_ops)
next
  case (set_capable s)
  then show ?case by (intro session_ok_frame [OF set_capable(2)]) (simp_all add: SetTunnelCapableFunc_def session_ops)
qed (simp_all add: Close_ok Reconnect_ok)

lemma reachable_session_ok: "session_reachable s \<Longrightarrow> session_ok s"
proof (induction rule: session_reachable.induct)
  case (new outer cfg sock cert offline)
  then show ?case by (simp add: newSession_def session_ok_def sound_def hb_ok_def)
qed (rule step_ok)

text \<open>
  C13: in every reachable state of the session at most one goroutine dials, installs or watches a
  connection, and exactly one as long as the session is neither closed nor the agent ended: the
  connection is never left without a guardian and never has two. What is watched is the current
  client with its own heartbeat channel; every channel has at most one heartbeat, and none once the
  channel was closed, so that it is never closed twice.
\<close>

theorem session_guarded:
  assumes "session_reachable s"
  shows "guards s \<le> 1 \<and> (wsClosed s \<or> wsExited s \<or> guards s = 1)
    \<and> (wsClosed s \<or> (\<forall>c hb. Watch c hb \<in> set (wsTasks s) \<longrightarrow> wsClient s = Some c \<and> wsHeartbeatDone s = Some hb))
    \<and> length (beating_on hb s) \<le> 1 \<and> (hb \<in> wsSignalled s \<longrightarrow> beating_on hb s = [])"
proof -
  have ok: "session_ok s" by (rule reachable_session_ok [OF assms])
  then have "hb_ok s hb" by (simp add: session_ok_def sound_def)
  then have "length (beating_on hb s) \<le> 1 \<and> (hb \<in> wsSignalled s \<longrightarrow> beating_on hb s = [])" by (auto simp: hb_ok_def split: if_splits)
  then show ?thesis using ok by (auto simp: session_ok_def sound_def)
qed

section \<open>Why the agent ends\<close>

text \<open>
  How often in a row the router found the procedure of this device registered already, since the
  last connection that was taken.
\<close>

fun dupRun :: "(ext_call list \<Rightarrow> ext_call \<Rightarrow> reply) \<Rightarrow> ext_call list \<Rightarrow> ext_call list \<Rightarrow> nat \<Rightarrow> nat" where
  "dupRun outer past [] n = n"
| "dupRun outer past (Ext name args # calls) n = dupRun outer (past @ [Ext name args]) calls
     (if name = ''Router.Subscribe'' then 0
      else if name = ''Router.Register'' \<and> (case rpErr (outer past (Ext name args)) of
                Some e \<Rightarrow> Contains (Error e) ''wamp.error.procedure_already_exists'' | None \<Rightarrow> False) then Suc n
      else n)"

definition duplicates :: "WampSession \<Rightarrow> nat" where
  "duplicates s = dupRun (oExt s) [] (oTrace s) 0"

definition signatureRefused :: "WampSession \<Rightarrow> bool" where
  "signatureRefused s \<longleftrightarrow> (\<exists>xs args ys e. oTrace s = xs @ Ext ''client.ConnectNet'' args # ys
     \<and> rpErr (oExt s xs (Ext ''client.ConnectNet'' args)) = Some e \<and> Contains (Error e) ''WAMP-CRA client signature is invalid'')"

definition exit_cause :: "WampSession \<Rightarrow> bool" where
  "exit_cause s \<longleftrightarrow> signatureRefused s \<or> Ext ''Container.PruneSystem'' [] \<in> set (oTrace s) \<or> maxDuplicateSerialAttempts \<le> duplicates s"

definition counted :: "WampSession \<Rightarrow> bool" where
  "counted s \<longleftrightarrow> (\<forall>r d. Dial r d \<in> set (wsTasks s) \<longrightarrow> d \<le> duplicates s) \<and> (wsExited s \<longrightarrow> exit_cause s)"

lemma dupRun_append: "dupRun outer past (xs @ ys) n = dupRun outer (past @ xs) ys (dupRun outer past xs n)"
  by (induction outer past xs n rule: dupRun.induct) simp_all

lemma dupRun_quiet: "list_all quiet xs \<Longrightarrow> dupRun outer past xs n = n"
  by (induction outer past xs n rule: dupRun.induct) (auto simp: quiet_def)

text \<open>A step that makes only quiet calls and starts no dialling but afresh.\<close>

definition calm :: "WampSession \<Rightarrow> WampSession \<Rightarrow> bool" where
  "calm s s' \<longleftrightarrow> oExt s' = oExt s \<and> (\<exists>tr. oTrace s' = oTrace s @ tr \<and> list_all quiet tr) \<and> wsExited s' = wsExited s
     \<and> (\<forall>r d. Dial r d \<in> set (wsTasks s') \<longrightarrow> d = 0 \<or> Dial r d \<in> set (wsTasks s))"

lemma calm_counted: "calm s s' \<Longrightarrow> \<not> wsExited s \<Longrightarrow> counted s \<Longrightarrow> counted s'"
  by (auto simp: calm_def counted_def duplicates_def dupRun_append dupRun_quiet) (metis le0)

lemma calmI:
  assumes "oExt s' = oExt s" and "oTrace s' = oTrace s @ tr" and "list_all quiet tr" and "wsExited s' = wsExited s"
    and "\<And>r d. Dial r d \<in> set (wsTasks s') \<Longrightarrow> d = 0 \<or> Dial r d \<in> set (wsTasks s)"
  shows "calm s s'"
  using assms unfolding calm_def by blast

lemma calm_talk:
  assumes "keeps talk m"
  shows "calm s (after m s)"
proof -
  obtain a tr cfg where "run_state m s = (a, s\<lparr>oTrace := oTrace s @ tr, wsConfig := cfg\<rparr>)" "list_all quiet tr" by (rule talkE [OF assms])
  then show ?thesis by (intro calmI [where tr = tr]) simp_all
qed

lemma calm_taken:
  assumes "taken t s s0" and "calm s0 s'"
  shows "calm s s'"
proof -
  have "set (wsTasks s0) \<subseteq> set (wsTasks s)" using assms(1) by (auto simp: taken_def)
  then show ?thesis using assms(2) taken_same [OF assms(1)] unfolding calm_def by (metis subsetD)
qed

lemma quiet_simps [simp]:
  "quiet (Ext ''Client.Close'' args)" "quiet (Ext ''Container.CancelAllStreams'' args)"
  by (simp_all add: quiet_def)

lemma install_calm: "calm s (after (install r c) s)"
proof (rule install_run [of r c s])
  fix e :: err and tr cfg
  assume tr: "list_all quiet tr" and run: "after (install r c) s = (if e \<noteq> None \<and> \<not> r
      then s\<lparr>oTrace := oTrace s @ tr @ [Ext ''Client.Close'' [itoa c]], wsClient := None, wsHeartbeatDone := Some (wsChannels s), wsChannels := Suc (wsChannels s),
             wsConfig := cfg, wsLost := insert c (wsLost s), wsClosed := True\<rparr>
      else s\<lparr>oTrace := oTrace s @ tr, wsClient := Some c, wsHeartbeatDone := Some (wsChannels s), wsChannels := Suc (wsChannels s), wsConfig := cfg,
             wsTasks := wsTasks s @ [Watch c (wsChannels s), Heartbeat (wsChannels s) 0] @ (if r \<and> wsOnConnect s then [Callback] else [])\<rparr>)"
  show ?thesis
    unfolding run by (rule calmI [where tr = "tr @ (if e \<noteq> None \<and> \<not> r then [Ext ''Client.Close'' [itoa c]] else [])"]) (use tr in \<open>auto split: if_splits\<close>)
qed

lemma tick_calm: "calm s (after (tick hb n) s)"
proof -
  obtain a tr cfg where "run_state Connected s = (a, s\<lparr>oTrace := oTrace s @ tr, wsConfig := cfg\<rparr>)" and "list_all quiet tr"
    by (rule talkE [OF talk_Connected])
  then show ?thesis
    by (intro calmI [where tr = "if wsClosed s \<or> wsHeartbeatDone s \<noteq> Some hb then [] else tr"]) (auto simp: tick_def session_ops split: if_splits)
qed

lemma beat_calm: "calm s (after (beat hb n) s)"
proof -
  obtain a tr cfg where "run_state (UpdateRemoteDeviceStatus CONNECTED) s = (a, s\<lparr>oTrace := oTrace s @ tr, wsConfig := cfg\<rparr>)" and "list_all quiet tr"
    by (rule talkE [OF talk_UpdateRemoteDeviceStatus])
  then show ?thesis by (intro calmI [where tr = tr]) (auto simp: beat_def session_ops split: option.splits if_splits)
qed

lemma attempt_counted:
  assumes "guards s = 0" and "d \<le> duplicates s" and "\<not> wsExited s"
  shows "counted (after (attempt r d) s)"
proof -
  obtain a tr cfg where cc: "run_state createConnectConfig s = (a, s\<lparr>oTrace := oTrace s @ tr, wsConfig := cfg\<rparr>)" and tr: "list_all quiet tr"
    by (rule talkE [OF talk_createConnectConfig])
  have none: "Dial r' d' \<notin> set (wsTasks s)" for r' d' using assms(1) by (auto simp: filter_empty_conv)
  define n where "n = duplicates s"
  have runs: "dupRun (oExt s) [] (oTrace s) 0 = n" "dupRun (oExt s) [] (oTrace s @ tr) 0 = n"
    "dupRun (oExt s) [] (oTrace s @ tr @ ys) 0 = dupRun (oExt s) (oTrace s @ tr) ys n" for ys
    using tr by (simp_all add: dupRun_append dupRun_quiet duplicates_def n_def)
  have le: "d \<le> n" using assms(2) by (simp add: n_def)
  have "signatureRefused (s\<lparr>wsConfig := cfg, oTrace := oTrace s @ tr @ [Ext ''client.ConnectNet'' args], wsExited := True\<rparr>)"
    if "rpErr (oExt s (oTrace s @ tr) (Ext ''client.ConnectNet'' args)) = Some e" "Contains (Error e) ''WAMP-CRA client signature is invalid''" for args e
    using that unfolding signatureRefused_def by (auto intro!: exI [of _ "oTrace s @ tr"])
  then show ?thesis
    using none le assms(3)
    by (auto simp: attempt_def announce_def session_ops cc Let_def counted_def exit_cause_def duplicates_def runs split: sum.split option.split)
qed

lemma step_counted: "session_step s s' \<Longrightarrow> session_ok s \<Longrightarrow> counted s \<Longrightarrow> counted s'"
proof (induction rule: session_step.induct)
  case (dialling r d s s0)
  have "d \<le> duplicates s" using dialling(1,3) by (force simp: taken_def counted_def)
  then have "d \<le> duplicates s0" "\<not> wsExited s0" using dialling(1) by (auto simp: taken_def duplicates_def)
  then show ?case using taken_guardian [OF dialling(1) _ dialling(2)] by (intro attempt_counted) simp_all
next
  case (installing r c s s0)
  show ?case by (rule calm_counted [OF calm_taken [OF installing(1) install_calm] _ installing(3)]) (use installing(1) in \<open>simp add: taken_def\<close>)
next
  case (watch_lost c hb s s0)
  have "calm s0 (after watchDisconnect s0)"
    by (rule calmI [where tr = "[Ext ''Container.CancelAllStreams'' []]"]) (auto simp: watchDisconnect_def cancelContainerStreams_def session_ops)
  from calm_taken [OF watch_lost(1) this] show ?case by (rule calm_counted) (use watch_lost in \<open>simp_all add: taken_def\<close>)
next
  case (watch_closed c hb s s0)
  have "calm s0 s0" by (rule calmI [where tr = "[]"]) simp_all
  from calm_taken [OF watch_closed(1) this] show ?case by (rule calm_counted) (use watch_closed in \<open>simp_all add: taken_def\<close>)
next
  case (watch_panic c hb s s0)
  have "calm s0 (if wsClosed s then s0 else after (goTask (Dial True 0)) s0)"
    by (rule calmI [where tr = "[]"]) (auto simp: session_ops split: if_splits)
  from calm_taken [OF watch_panic(1) this] show ?case by (rule calm_counted) (use watch_panic in \<open>simp_all add: taken_def\<close>)
next
  case (ticking hb n s s0)
  from calm_taken [OF ticking(1) tick_calm] show ?case by (rule calm_counted) (use ticking in \<open>simp_all add: taken_def\<close>)
next
  case (beating hb n s s0)
  from calm_taken [OF beating(1) beat_calm] show ?case by (rule calm_counted) (use beating in \<open>simp_all add: taken_def\<close>)
next
  case (called_back s s0)
  have "calm s0 s0" by (rule calmI [where tr = "[]"]) simp_all
  from calm_taken [OF called_back(1) this] show ?case by (rule calm_counted) (use called_back in \<open>simp_all add: taken_def\<close>)
next
  case (lost s c)
  have "calm s (s\<lparr>wsLost := insert c (wsLost s)\<rparr>)" by (rule calmI [where tr = "[]"]) simp_all
  then show ?case using lost by (rule_tac calm_counted)
next
  case (close s)
  have "calm s (after Close s)"
    by (rule calmI [where tr = "case wsClient s of None \<Rightarrow> [] | Some n \<Rightarrow> [Ext ''Client.Close'' [itoa n]]"])
       (auto simp: Close_def currentClient_def session_ops split: option.splits)
  then show ?case using close by (rule_tac calm_counted)
next
  case (reconnect s)
  have "calm s (after Reconnect s)"
    by (rule calmI [where tr = "case wsClient s of None \<Rightarrow> [] | Some n \<Rightarrow> [Ext ''Client.Close'' [itoa n]]"])
       (auto simp: Reconnect_def currentClient_def session_ops split: option.splits)
  then show ?case using reconnect by (rule_tac calm_counted)
next
  case (set_callback s)
  have "calm s (after SetOnConnect s)" by (rule calmI [where tr = "[]"]) (simp_all add: SetOnConnect_def session_ops)
  then show ?case using set_callback by (rule_tac calm_counted)
next
  case (set_capable s)
  have "calm s (after SetTunnelCapableFunc s)" by (rule calmI [where tr = "[]"]) (simp_all add: SetTunnelCapableFunc_def session_ops)
  then show ?case using set_capable by (rule_tac calm_counted)
next
  case (report s st)
  then show ?case by (intro calm_counted [OF calm_talk [OF talk_UpdateRemoteDeviceStatus]])
next
  case (used s name args)
  then have "quiet (Ext name [])" by (auto simp: quiet_def)
  with used show ?case by (intro calm_counted [OF calm_talk [OF talk_onClient]])
next
  case (destroyed s)
  then show ?case
    by (auto simp: onDestroy_def session_ops counted_def exit_cause_def duplicates_def dupRun_append)
qed

text \<open>
  C14: the agent never ends itself because of its session but for one of three causes: the router
  refused the signature of the device, the device was destroyed, or the router found the procedure
  of this device registered already in at least 8 attempts since the last connection that was
  taken. A single race with the router's removal of the previous session ends nothing.
\<close>

theorem session_exit_causes:
  assumes "session_reachable s" and "wsExited s"
  shows "signatureRefused s \<or> Ext ''Container.PruneSystem'' [] \<in> set (oTrace s) \<or> 8 \<le> duplicates s"
proof -
  have "session_reachable s \<Longrightarrow> counted s"
  proof (induction rule: session_reachable.induct)
    case (new outer cfg sock cert offline)
    then show ?case by (simp add: newSession_def counted_def)
  next
    case (step s s')
    then show ?case using step_counted reachable_session_ok by blast
  qed
  with assms show ?thesis by (auto simp: counted_def exit_cause_def maxDuplicateSerialAttempts_def)
qed

section \<open>A lost connection is replaced\<close>

lemma taken_last: "\<not> wsExited s \<Longrightarrow> wsTasks s = ts @ [t] \<Longrightarrow> taken t s (s\<lparr>wsTasks := ts\<rparr>)"
  unfolding taken_def by (metis append_Nil2)


section \<open>Examples, and what is not as intended\<close>

definition demo_socket :: SocketConfig where
  "demo_socket = \<lparr>sPingPongTimeout = 0, sResponseTimeout = 0, sConnectionTimeout = 0, sSetupTestament = True\<rparr>"

definition demo_session :: WampSession where
  "demo_session = newSession (\<lambda>_ _. demo_reply) demo_config demo_socket [] False"

definition dialled_session :: WampSession where
  "dialled_session = after (attempt False 0) (demo_session\<lparr>wsTasks := []\<rparr>)"

definition online_session :: WampSession where
  "online_session = after (install False 0) (dialled_session\<lparr>wsTasks := []\<rparr>)"

definition dropped_session :: WampSession where
  "dropped_session = online_session\<lparr>wsLost := insert 0 (wsLost online_session)\<rparr>"

lemma demo_endpoint: "\<not> legacyEndpoint (cDeviceEndpointURL demo_config)" by code_simp

lemma dialled_session_simps:
  "wsTasks dialled_session = [Installing False 0]" "\<not> wsExited dialled_session" "\<not> wsClosed dialled_session" "wsClients dialled_session = 1"
  by (simp_all add: dialled_session_def demo_session_def newSession_def attempt_def announce_def createConnectConfig_def demo_endpoint demo_reply_def session_ops Let_def)

lemma online_session_simps:
  "wsTasks online_session = [Watch 0 0, Heartbeat 0 0]" "\<not> wsExited online_session" "\<not> wsClosed online_session" "wsClients online_session = 1"
  "wsClient online_session = Some 0" "\<not> wsOffline online_session" "wsChannels online_session = 1" "oExt online_session = (\<lambda>_ _. demo_reply)"
  by (simp_all add: online_session_def install_def guardConnection_def SetupTestament_def GetSessionID_def CallTopic_def onClient_def currentClient_def errorOf_def
      dialled_session_def demo_session_def newSession_def attempt_def announce_def createConnectConfig_def demo_endpoint demo_reply_def session_ops Let_def)

lemma online_reachable: "session_reachable online_session"
proof -
  have start: "session_reachable demo_session" unfolding demo_session_def by (rule session_reachable.new)
  have tasks: "wsTasks demo_session = [] @ [Dial False 0]" "\<not> wsExited demo_session" by (simp_all add: demo_session_def newSession_def)
  have dialled: "session_reachable dialled_session"
    unfolding dialled_session_def by (rule session_reachable.step [OF start session_step.dialling [OF taken_last [OF tasks(2,1)]]])
  have "taken (Installing False 0) dialled_session (dialled_session\<lparr>wsTasks := []\<rparr>)"
    by (rule taken_last) (simp_all add: dialled_session_simps)
  then show ?thesis unfolding online_session_def by (intro session_reachable.step [OF dialled session_step.installing])
qed

lemma dropped_reachable: "session_reachable dropped_session"
  unfolding dropped_session_def by (rule session_reachable.step [OF online_reachable session_step.lost]) (simp_all add: online_session_simps)

theorem session_guarded_witness: "guards online_session = 1 \<and> length (beating_on 0 online_session) \<le> 1"
  using session_guarded [OF online_reachable, of 0] by (simp add: online_session_simps)


text \<open>A router that knows the procedure already.\<close>

definition duplicate_reply :: reply where
  "duplicate_reply = demo_reply\<lparr>rpErr := Some (Msg ''wamp.error.procedure_already_exists'')\<rparr>"

definition taken_session :: WampSession where
  "taken_session = newSession (\<lambda>_ call. case call of Ext name _ \<Rightarrow> if name = ''Router.Register'' then duplicate_reply else demo_reply) demo_config demo_socket [] False"

fun attempts :: "nat \<Rightarrow> WampSession \<Rightarrow> WampSession" where
  "attempts 0 s = s"
| "attempts (Suc n) s = (case wsTasks s of Dial r d # ts \<Rightarrow> attempts n (after (attempt r d) (s\<lparr>wsTasks := ts\<rparr>)) | _ \<Rightarrow> s)"

text \<open>Seven attempts that find it end nothing, the eighth does.\<close>

lemma eighth_duplicate_exits: "\<not> wsExited (attempts 7 taken_session)" "wsExited (attempts 8 taken_session)"
  by code_simp+

definition refused_session :: WampSession where
  "refused_session = newSession (\<lambda>_ _. demo_reply\<lparr>rpErr := Some (Msg ''WAMP-CRA client signature is invalid'')\<rparr>) demo_config demo_socket [] False"

theorem session_exit_causes_witness:
  "wsExited (after (attempt False 0) (refused_session\<lparr>wsTasks := []\<rparr>))
   \<and> (signatureRefused (after (attempt False 0) (refused_session\<lparr>wsTasks := []\<rparr>))
      \<or> Ext ''Container.PruneSystem'' [] \<in> set (oTrace (after (attempt False 0) (refused_session\<lparr>wsTasks := []\<rparr>)))
      \<or> 8 \<le> duplicates (after (attempt False 0) (refused_session\<lparr>wsTasks := []\<rparr>)))"
proof -
  let ?s = "after (attempt False 0) (refused_session\<lparr>wsTasks := []\<rparr>)"
  have start: "session_reachable refused_session" unfolding refused_session_def by (rule session_reachable.new)
  have "\<not> wsExited refused_session" "wsTasks refused_session = [] @ [Dial False 0]" by (simp_all add: refused_session_def newSession_def)
  then have "session_reachable ?s" by (rule session_reachable.step [OF start session_step.dialling [OF taken_last]])
  moreover have "wsExited ?s" by code_simp
  ultimately show ?thesis using session_exit_causes by blast
qed

text \<open>
  A session that is closed while \<^verbatim>\<open>connect\<close> holds a new client gets this client nevertheless: it is
  installed after \<^verbatim>\<open>Close\<close> returned, nobody closes it, and its watcher ends at once.
\<close>

lemma closed_session_keeps_client:
  assumes "wsTasks s = [Installing True c]" and "wsClient s = None" and "\<not> sSetupTestament (wsSocket s)" and "c \<notin> wsLost s"
  shows "wsClosed (after (install True c) ((after Close s)\<lparr>wsTasks := []\<rparr>)) \<and> wsClient (after (install True c) ((after Close s)\<lparr>wsTasks := []\<rparr>)) = Some c
    \<and> c \<notin> wsLost (after (install True c) ((after Close s)\<lparr>wsTasks := []\<rparr>))"
  using assms by (simp add: Close_def currentClient_def install_def guardConnection_def session_ops Let_def)

text \<open>An answer without the address of the backend sets it to the text of nil.\<close>

lemma missing_base_url_stored:
  assumes "wsClient s = Some c" and "\<not> wsTunnelCapable s" and "\<And>tr call. oExt s tr call = demo_reply\<lparr>rpJson := JArr [JObj []]\<rparr>"
  shows "cReswarmBaseURL (wsConfig (after (UpdateRemoteDeviceStatus st) s)) = ''<nil>''"
  using assms
  by (simp add: UpdateRemoteDeviceStatus_def GetSessionID_def CallTopic_def onClient_def currentClient_def session_ops details_get_def obj_get_def demo_reply_def Let_def)

text \<open>An answer with an empty list of arguments ends the heartbeat of the connection, and nothing probes it any more.\<close>

lemma empty_answer_ends_heartbeat:
  assumes "wsClient s = Some c" and "\<not> wsTunnelCapable s" and "\<And>tr call. oExt s tr call = demo_reply\<lparr>rpJson := JArr []\<rparr>"
  shows "wsTasks (after (beat hb n) s) = wsTasks s"
  using assms
  by (simp add: beat_def UpdateRemoteDeviceStatus_def GetSessionID_def CallTopic_def onClient_def currentClient_def session_ops demo_reply_def Let_def)

end
