(* ===== verification/Engine.thy ===== *)
theory Engine
  imports LogQueries
begin

text \<open>
  \<^verbatim>\<open>container/docker.go\<close>: the client of the Docker daemon. The daemon and the commands of the Docker
  CLI are the outside: a call is answered by an error or by what the client library decoded from the
  answer, a JSON value in which an absent field is the zero value of its type. Of an error,
  \<open>rpFlag\<close> tells whether \<^verbatim>\<open>client.IsErrNotFound\<close> holds. The body of a pull, a push or a build is a stream,
  the number of its opening. A loop that polls is given by its round and by how many rounds are
  taken; a context is not represented beyond the errors it causes.
\<close>

section \<open>Data\<close>

record DockerClient = outside +
  dcActiveStreams :: "(string \<times> nat) list"
  dcOpened :: nat \<comment> \<open>how many streams were opened\<close>

type_synonym 'a dprog = "(DockerClient, 'a) state"

text \<open>What the code finds in an option dictionary, by the dynamic type of the value.\<close>

datatype option_value = OptBool bool | OptStr string | OptInt int | OptFilters "(string \<times> string) list" | OptOther

type_synonym options = "(string \<times> option_value) list"

definition optBool :: "options \<Rightarrow> string \<Rightarrow> bool" where
  "optBool options k = (case map_of options k of Some (OptBool b) \<Rightarrow> b | _ \<Rightarrow> False)"

definition optStr :: "options \<Rightarrow> string \<Rightarrow> string" where
  "optStr options k = (case map_of options k of Some (OptStr s) \<Rightarrow> s | _ \<Rightarrow> [])"

definition optInt :: "options \<Rightarrow> string \<Rightarrow> int" where
  "optInt options k = (case map_of options k of Some (OptInt n) \<Rightarrow> n | _ \<Rightarrow> 0)"

definition optFilters :: "options \<Rightarrow> string \<Rightarrow> (string \<times> string) list" where
  "optFilters options k = (case map_of options k of Some (OptFilters f) \<Rightarrow> f | _ \<Rightarrow> [])"

text \<open>An option that must be a bool when it is there.\<close>

definition strictBool :: "options \<Rightarrow> string \<Rightarrow> string \<Rightarrow> go_error + bool" where
  "strictBool options k msg = (case map_of options k of
     None \<Rightarrow> Inr False
   | Some (OptBool b) \<Rightarrow> Inr b
   | Some _ \<Rightarrow> Inl (Msg msg))"

definition jStr :: "json \<Rightarrow> string \<Rightarrow> string" where
  "jStr j k = (case obj_get j k of JStr s \<Rightarrow> s | _ \<Rightarrow> [])"

definition jNum :: "json \<Rightarrow> string \<Rightarrow> int" where
  "jNum j k = (case obj_get j k of JNum n \<Rightarrow> n | _ \<Rightarrow> 0)"

definition jBool :: "json \<Rightarrow> string \<Rightarrow> bool" where
  "jBool j k = (case obj_get j k of JBool b \<Rightarrow> b | _ \<Rightarrow> False)"

definition jElems :: "json \<Rightarrow> json list" where
  "jElems j = (case j of JArr xs \<Rightarrow> xs | _ \<Rightarrow> [])"

definition jStrs :: "json \<Rightarrow> string \<Rightarrow> string list" where
  "jStrs j k = map (\<lambda>x. case x of JStr s \<Rightarrow> s | _ \<Rightarrow> []) (jElems (obj_get j k))"

definition jLabels :: "json \<Rightarrow> (string \<times> string) list" where
  "jLabels j = (case obj_get j ''Labels'' of JObj kvs \<Rightarrow> map (\<lambda>(k, v). (k, case v of JStr s \<Rightarrow> s | _ \<Rightarrow> [])) kvs | _ \<Rightarrow> [])"

definition boolText :: "bool \<Rightarrow> string" where
  "boolText b = (if b then ''true'' else ''false'')"

definition intText :: "int \<Rightarrow> string" where
  "intText n = (if n < 0 then ''-'' @ itoa (nat (- n)) else itoa (nat n))"

definition filterText :: "(string \<times> string) list \<Rightarrow> string list" where
  "filterText f = map (\<lambda>(k, v). k @ ''='' @ v) f"

text \<open>A call whose answer is needed, and one of which only the error matters.\<close>

definition answer :: "string \<Rightarrow> string list \<Rightarrow> (go_error + reply) dprog" where
  "answer name args = do { r \<leftarrow> ask name args; ret (case rpErr r of Some e \<Rightarrow> Inl e | None \<Rightarrow> Inr r) }"

definition mapAnswer :: "(go_error \<Rightarrow> go_error) \<Rightarrow> (reply \<Rightarrow> 'a) \<Rightarrow> go_error + reply \<Rightarrow> go_error + 'a" where
  "mapAnswer f g r = (case r of Inl e \<Rightarrow> Inl (f e) | Inr x \<Rightarrow> Inr (g x))"

section \<open>Containers\<close>

record ContainerResult =
  crID :: string
  crNames :: "string list"
  crImageID :: string
  crCommand :: string
  crLabels :: "(string \<times> string) list"
  crState :: string
  crStatus :: string
  crExitCode :: int

text \<open>
  \<^verbatim>\<open>common.ParseExitCodeFromContainerStatus\<close>: the first parenthesis with the shortest text behind it up
  to a closing one, of which all outer parentheses are trimmed.
\<close>

fun parenthesised :: "string \<Rightarrow> string" where
  "parenthesised [] = []"
| "parenthesised (c # cs) =
     (if c = CHR ''('' \<and> CHR '')'' \<in> set cs then c # takeWhile (\<lambda>x. x \<noteq> CHR '')'') cs @ '')'' else parenthesised cs)"

definition TrimRight :: "string \<Rightarrow> string \<Rightarrow> string" where
  "TrimRight s cutset = rev (dropWhile (\<lambda>c. c \<in> set cutset) (rev s))"

definition ParseExitCodeFromContainerStatus :: "string \<Rightarrow> go_error + int" where
  "ParseExitCodeFromContainerStatus status =
     (case Atoi (TrimRight (TrimLeft (parenthesised status) ''('') '')'') of
        None \<Rightarrow> Inl (Msg ''strconv.ParseInt'')
      | Some n \<Rightarrow> Inr n)"

definition containerResult :: "json \<Rightarrow> go_error + ContainerResult" where
  "containerResult cont =
     (case (if jStr cont ''State'' = ''exited'' then ParseExitCodeFromContainerStatus (jStr cont ''Status'') else Inr (- 1)) of
        Inl e \<Rightarrow> Inl e
      | Inr exitCode \<Rightarrow> Inr \<lparr>crID = jStr cont ''Id'', crNames = jStrs cont ''Names'', crImageID = jStr cont ''ImageID'',
          crCommand = jStr cont ''Command'', crLabels = jLabels cont, crState = jStr cont ''State'', crStatus = jStr cont ''Status'',
          crExitCode = (if exitCode \<noteq> - 1 then exitCode else 0)\<rparr>)"

fun containerResults :: "json list \<Rightarrow> go_error + ContainerResult list" where
  "containerResults [] = Inr []"
| "containerResults (cont # rest) =
     (case containerResult cont of
        Inl e \<Rightarrow> Inl e
      | Inr d \<Rightarrow> (case containerResults rest of Inl e \<Rightarrow> Inl e | Inr ds \<Rightarrow> Inr (d # ds)))"

definition ListContainers :: "options \<Rightarrow> (go_error + ContainerResult list) dprog" where
  "ListContainers options = do {
     r \<leftarrow> answer ''client.ContainerList'' ([boolText (optBool options ''all''), boolText (optBool options ''size''), boolText (optBool options ''latest''),
           optStr options ''since'', optStr options ''before'', intText (optInt options ''limit'')] @ filterText (optFilters options ''filters''));
     ret (case r of Inl e \<Rightarrow> Inl e | Inr cList \<Rightarrow> containerResults (jElems (rpJson cList))) }"

definition listAll :: "(string \<times> string) list \<Rightarrow> (go_error + json list) dprog" where
  "listAll filters = do {
     r \<leftarrow> answer ''client.ContainerList'' (''true'' # filterText filters);
     ret (mapAnswer (\<lambda>e. e) (\<lambda>x. jElems (rpJson x)) r) }"

definition GetContainers :: "(go_error + json list) dprog" where
  "GetContainers = listAll []"

text \<open>The ports of one container that are live, put into the map over what is there.\<close>

definition publishPort :: "string \<Rightarrow> (string \<times> uint64) list \<Rightarrow> json \<Rightarrow> (string \<times> uint64) list" where
  "publishPort service published port =
     (if jNum port ''PublicPort'' = 0 then published
      else map_put (PublishedPortKey service (word_of_int (jNum port ''PrivatePort'')) (jStr port ''Type'')) (word_of_int (jNum port ''PublicPort'')) published)"

definition publishContainer :: "(string \<times> uint64) list \<Rightarrow> json \<Rightarrow> (string \<times> uint64) list" where
  "publishContainer published cont =
     (let service = (case map_of (jLabels cont) ''com.docker.compose.service'' of Some s \<Rightarrow> s | None \<Rightarrow> [])
      in foldl (publishPort service) published (jElems (obj_get cont ''Ports'')))"

definition GetComposePublishedPorts :: "string \<Rightarrow> (go_error + (string \<times> uint64) list) dprog" where
  "GetComposePublishedPorts projectName = do {
     r \<leftarrow> listAll [(''label'', ''com.docker.compose.project='' @ NormalizeComposeProjectName projectName)];
     ret (case r of Inl e \<Rightarrow> Inl e | Inr cList \<Rightarrow> Inr (foldl publishContainer [] cList)) }"

definition GetContainer :: "string \<Rightarrow> (go_error + json) dprog" where
  "GetContainer containerName = do {
     r \<leftarrow> listAll [(''name'', containerName)];
     ret (case r of
       Inl e \<Rightarrow> Inl e
     | Inr (c # _) \<Rightarrow> Inr c
     | Inr [] \<Rightarrow> Inl (ErrContainerNotFound (Msg ''container not found''))) }"

definition removalError :: "go_error \<Rightarrow> go_error" where
  "removalError e =
     (if Contains (Error e) ''No such container'' then ErrContainerNotFound e
      else if Contains (Error e) ''is already in progress'' then ErrContainerRemovalAlreadyInProgress e
      else e)"

definition RemoveContainerByID :: "string \<Rightarrow> options \<Rightarrow> err dprog" where
  "RemoveContainerByID containerID options = do {
     e \<leftarrow> askE ''client.ContainerRemove'' [containerID, boolText (optBool options ''removeVolumes''), boolText (optBool options ''removeLinks''),
           boolText (optBool options ''force'')];
     ret (map_option removalError e) }"

definition withContainer :: "string \<Rightarrow> (string \<Rightarrow> (go_error + 'a) dprog) \<Rightarrow> (go_error + 'a) dprog" where
  "withContainer containerName f = do {
     c \<leftarrow> GetContainer containerName;
     case c of Inl e \<Rightarrow> ret (Inl e) | Inr cont \<Rightarrow> f (jStr cont ''Id'') }"

definition RemoveContainerByName :: "string \<Rightarrow> options \<Rightarrow> err dprog" where
  "RemoveContainerByName containerName options = do {
     c \<leftarrow> GetContainer containerName;
     case c of Inl e \<Rightarrow> ret (Some e) | Inr cont \<Rightarrow> RemoveContainerByID (jStr cont ''Id'') options }"

text \<open>\<^verbatim>\<open>int(timeout.Seconds())\<close> of nanoseconds.\<close>

definition seconds :: "int \<Rightarrow> int" where
  "seconds timeout = (if timeout < 0 then - (- timeout div 1000000000) else timeout div 1000000000)"

definition StopContainerByID :: "string \<Rightarrow> int \<Rightarrow> err dprog" where
  "StopContainerByID containerID timeout = askE ''client.ContainerStop'' [containerID, intText (seconds timeout)]"

definition StopContainerByName :: "string \<Rightarrow> int \<Rightarrow> err dprog" where
  "StopContainerByName containerName timeout = do {
     c \<leftarrow> GetContainer containerName;
     case c of Inl e \<Rightarrow> ret (Some e) | Inr cont \<Rightarrow> StopContainerByID (jStr cont ''Id'') timeout }"

definition creationError :: "go_error \<Rightarrow> go_error" where
  "creationError e =
     (if Contains (Error e) ''is already in use by container'' then ErrContainerNameAlreadyInUse e
      else if Contains (Error e) ''No such image'' then ErrImageNotFound e
      else e)"

definition CreateContainer :: "string list \<Rightarrow> string \<Rightarrow> (go_error + string) dprog" where
  "CreateContainer configs containerName = do {
     r \<leftarrow> answer ''client.ContainerCreate'' (containerName # configs);
     ret (mapAnswer creationError (\<lambda>x. jStr (rpJson x) ''Id'') r) }"

definition StartContainer :: "string \<Rightarrow> err dprog" where
  "StartContainer containerID = askE ''client.ContainerStart'' [containerID]"

section \<open>State and ports of a container\<close>

record ContainerState =
  csStatus :: string
  csRunning :: bool
  csPaused :: bool
  csRestarting :: bool
  csOOMKilled :: bool
  csDead :: bool
  csPid :: int
  csExitCode :: int
  csError :: string
  csStartedAt :: string
  csFinishedAt :: string

definition inspect :: "string \<Rightarrow> (go_error + json) dprog" where
  "inspect containerName = do {
     r \<leftarrow> ask ''client.ContainerInspect'' [containerName];
     ret (case rpErr r of
       Some e \<Rightarrow> Inl (if rpFlag r then ErrContainerNotFound e else e)
     | None \<Rightarrow> Inr (rpJson r)) }"

definition stateFrom :: "json \<Rightarrow> ContainerState" where
  "stateFrom st = \<lparr>csStatus = jStr st ''Status'', csRunning = jBool st ''Running'', csPaused = jBool st ''Paused'', csRestarting = jBool st ''Restarting'',
     csOOMKilled = jBool st ''OOMKilled'', csDead = jBool st ''Dead'', csPid = jNum st ''Pid'', csExitCode = jNum st ''ExitCode'', csError = jStr st ''Error'',
     csStartedAt = jStr st ''StartedAt'', csFinishedAt = jStr st ''FinishedAt''\<rparr>"

definition GetContainerState :: "string \<Rightarrow> (go_error + ContainerState) dprog" where
  "GetContainerState containerName = do {
     res \<leftarrow> inspect containerName;
     ret (case res of Inl e \<Rightarrow> Inl e | Inr j \<Rightarrow> Inr (stateFrom (obj_get j ''State''))) }"

text \<open>A host binding: its address and its port.\<close>

type_synonym PortBinding = "string \<times> string"

definition hostBinding :: "json \<Rightarrow> PortBinding" where
  "hostBinding j = (jStr j ''HostIp'', jStr j ''HostPort'')"

definition allInterfaces :: "string \<Rightarrow> bool" where
  "allInterfaces ip \<longleftrightarrow> ip = [] \<or> ip = ''0.0.0.0''"

definition bindPort :: "string \<Rightarrow> (string \<times> uint64) list \<Rightarrow> PortBinding \<Rightarrow> (string \<times> uint64) list" where
  "bindPort containerPort bindings b =
     (case ParseUint 64 (snd b) of
        None \<Rightarrow> bindings
      | Some hostPort \<Rightarrow>
          if hostPort = 0 then bindings
          else if map_of bindings containerPort = None \<or> allInterfaces (fst b) then map_put containerPort (of_nat hostPort) bindings
          else bindings)"

definition portBindings :: "(string \<times> PortBinding list) list \<Rightarrow> (string \<times> uint64) list" where
  "portBindings pb = foldl (\<lambda>bindings (containerPort, hostBindings). foldl (bindPort containerPort) bindings hostBindings) [] pb"

definition bindingsFrom :: "json \<Rightarrow> (string \<times> PortBinding list) list" where
  "bindingsFrom hostConfig = (case obj_get hostConfig ''PortBindings'' of
     JObj kvs \<Rightarrow> map (\<lambda>(port, bs). (port, map hostBinding (jElems bs))) kvs
   | _ \<Rightarrow> [])"

definition GetContainerPortBindings :: "string \<Rightarrow> (go_error + (string \<times> uint64) list) dprog" where
  "GetContainerPortBindings containerName = do {
     res \<leftarrow> inspect containerName;
     ret (case res of Inl e \<Rightarrow> Inl e | Inr j \<Rightarrow> Inr (portBindings (bindingsFrom (obj_get j ''HostConfig'')))) }"

definition GetContainerNetworkMode :: "string \<Rightarrow> (go_error + string) dprog" where
  "GetContainerNetworkMode containerName = do {
     res \<leftarrow> inspect containerName;
     ret (case res of Inl e \<Rightarrow> Inl e | Inr j \<Rightarrow> Inr (jStr (obj_get j ''HostConfig'') ''NetworkMode'')) }"

section \<open>Waiting\<close>

text \<open>A loop that polls: \<open>None\<close> after \<open>n\<close> rounds without a verdict.\<close>

primrec poll :: "nat \<Rightarrow> ('s, 'r option) state \<Rightarrow> ('s, 'r option) state" where
  "poll 0 body = ret None"
| "poll (Suc n) body = do { v \<leftarrow> body; case v of Some x \<Rightarrow> ret (Some x) | None \<Rightarrow> poll n body }"

datatype wait_result = WaitRunning | WaitError go_error

definition runningVerdict :: "go_error + ContainerState \<Rightarrow> wait_result option" where
  "runningVerdict r = (case r of
     Inl e \<Rightarrow> Some (WaitError e)
   | Inr st \<Rightarrow>
       if csRunning st then Some WaitRunning
       else if csStatus st = ''exited'' \<or> csStatus st = ''dead'' then Some (WaitError (Msg ''the container has exited''))
       else if csError st \<noteq> [] then Some (WaitError (Msg (csError st)))
       else None)"

definition runningRound :: "string \<Rightarrow> wait_result option dprog" where
  "runningRound containerID = do { r \<leftarrow> GetContainerState containerID; ret (runningVerdict r) }"

definition WaitForRunning :: "nat \<Rightarrow> string \<Rightarrow> wait_result option dprog" where
  "WaitForRunning n containerID = poll n (runningRound containerID)"

text \<open>One round of \<^verbatim>\<open>PollContainerState\<close>: the state it sends, or the error it ends with.\<close>

definition PollContainerState :: "string \<Rightarrow> (go_error + ContainerState) dprog" where
  "PollContainerState containerID = do {
     r \<leftarrow> GetContainerState containerID;
     ret (case r of
       Inl e \<Rightarrow> Inl (if Contains (Error e) ''no such container'' then ErrContainerNotFound e else e)
     | Inr st \<Rightarrow> Inr st) }"

definition waitError :: "go_error \<Rightarrow> go_error" where
  "waitError e = (if Contains (Error e) ''No such container'' then ErrContainerNotFound e else e)"

definition WaitForContainerByID :: "string \<Rightarrow> string \<Rightarrow> (go_error + int) dprog" where
  "WaitForContainerByID containerID condition = do {
     r \<leftarrow> answer ''client.ContainerWait'' [containerID, condition];
     ret (mapAnswer waitError rpNum r) }"

definition WaitForContainerByName :: "string \<Rightarrow> string \<Rightarrow> (go_error + int) dprog" where
  "WaitForContainerByName containerName condition = withContainer containerName (\<lambda>containerID. WaitForContainerByID containerID condition)"

definition Ping :: "(go_error + json) dprog" where
  "Ping = do { r \<leftarrow> answer ''client.Ping'' []; ret (mapAnswer (\<lambda>e. e) rpJson r) }"

definition daemonRound :: "int \<Rightarrow> err option dprog" where
  "daemonRound retryTimeout = do {
     r \<leftarrow> Ping;
     case r of
       Inr _ \<Rightarrow> ret (Some None)
     | Inl _ \<Rightarrow> do {
         elapsed \<leftarrow> ask ''time.Since'' [];
         ret (if rpNum elapsed > retryTimeout then Some (Some (Msg ''maxium retry timeout for docker daemon ping was exceeded'')) else None) } }"

definition WaitForDaemon :: "nat \<Rightarrow> int option \<Rightarrow> err option dprog" where
  "WaitForDaemon n retryTimeoutParam = poll n (daemonRound (case retryTimeoutParam of None \<Rightarrow> 5000000000 | Some t \<Rightarrow> t))"

section \<open>Images and volumes\<close>

record ImageResult =
  irCreated :: int
  irContainers :: int
  irSharedSize :: int
  irVirtualSize :: int
  irID :: string
  irLabels :: "(string \<times> string) list"
  irSize :: int
  irRepoTags :: "string list"

definition imageResult :: "json \<Rightarrow> ImageResult" where
  "imageResult i = \<lparr>irCreated = jNum i ''Created'', irContainers = jNum i ''Containers'', irSharedSize = jNum i ''SharedSize'', irVirtualSize = jNum i ''VirtualSize'',
     irID = jStr i ''Id'', irLabels = jLabels i, irSize = jNum i ''Size'', irRepoTags = jStrs i ''RepoTags''\<rparr>"

definition imageError :: "go_error \<Rightarrow> go_error" where
  "imageError e = (if Contains (Error e) ''No such image'' then ErrImageNotFound e else e)"

definition imageList :: "bool \<Rightarrow> (string \<times> string) list \<Rightarrow> (go_error + ImageResult list) dprog" where
  "imageList every filters = do {
     r \<leftarrow> answer ''client.ImageList'' (boolText every # filterText filters);
     ret (mapAnswer (\<lambda>e. e) (\<lambda>x. map imageResult (jElems (rpJson x))) r) }"

definition GetImages :: "string \<Rightarrow> (go_error + ImageResult list) dprog" where
  "GetImages fullImageName = do {
     r \<leftarrow> (if fullImageName \<noteq> [] then imageList False [(''reference'', fullImageName)] else imageList True []);
     ret (case r of Inl e \<Rightarrow> Inl (imageError e) | Inr images \<Rightarrow> Inr images) }"

definition GetImage :: "string \<Rightarrow> string \<Rightarrow> (go_error + ImageResult) dprog" where
  "GetImage fullImageName tag = do {
     r \<leftarrow> imageList False [(''reference'', fullImageName @ '':'' @ tag)];
     ret (case r of
       Inl e \<Rightarrow> Inl (imageError e)
     | Inr [] \<Rightarrow> Inl (ErrImageNotFound (Msg (''no image found with name: '' @ fullImageName @ '':'' @ tag)))
     | Inr (img # _) \<Rightarrow> Inr img) }"

definition ListImages :: "options \<Rightarrow> (go_error + ImageResult list) dprog" where
  "ListImages options = (case strictBool options ''all'' ''Invalid type for 'all' option'' of
     Inl e \<Rightarrow> ret (Inl e)
   | Inr every \<Rightarrow> imageList every [])"

definition RemoveImage :: "string \<Rightarrow> options \<Rightarrow> err dprog" where
  "RemoveImage imageID options =
     (case strictBool options ''force'' ''Invalid type for 'force' option'' of
        Inl e \<Rightarrow> ret (Some e)
      | Inr force \<Rightarrow>
          (case strictBool options ''pruneChildren'' ''Invalid type for 'pruneChilderen' option'' of
             Inl e \<Rightarrow> ret (Some e)
           | Inr pruneChildren \<Rightarrow> askE ''client.ImageRemove'' [imageID, boolText force, boolText pruneChildren]))"

fun removeTags :: "string list \<Rightarrow> options \<Rightarrow> err dprog" where
  "removeTags [] options = ret None"
| "removeTags (repoTag # rest) options =
     (if repoTag = [] then removeTags rest options
      else do {
        e \<leftarrow> RemoveImage repoTag options;
        case e of Some x \<Rightarrow> ret (Some x) | None \<Rightarrow> removeTags rest options })"

definition RemoveImagesByName :: "string \<Rightarrow> options \<Rightarrow> err dprog" where
  "RemoveImagesByName imageName options = do {
     r \<leftarrow> imageList False [(''reference'', imageName)];
     case r of
       Inl e \<Rightarrow> ret (Some e)
     | Inr images \<Rightarrow> removeTags (concat (map irRepoTags images)) options }"

definition RemoveImageByName :: "string \<Rightarrow> string \<Rightarrow> options \<Rightarrow> err dprog" where
  "RemoveImageByName imageName tag options = do {
     r \<leftarrow> imageList False [(''reference'', imageName @ '':'' @ tag)];
     case r of
       Inl e \<Rightarrow> ret (Some e)
     | Inr [] \<Rightarrow> ret (Some (Msg (''no image was found with name: '' @ imageName @ '':'' @ tag)))
     | Inr [img] \<Rightarrow> RemoveImage (irID img) options
     | Inr (_ # _ # _) \<Rightarrow> ret (Some (Msg (''multiple images were found with name: '' @ imageName @ '':'' @ tag))) }"

definition Tag :: "string \<Rightarrow> string \<Rightarrow> err dprog" where
  "Tag source target = askE ''client.ImageTag'' [source, target]"

definition PruneImages :: "options \<Rightarrow> err dprog" where
  "PruneImages options = (case strictBool options ''all'' ''all value for container prune is not a boolean'' of
     Inl e \<Rightarrow> ret (Some e)
   | Inr every \<Rightarrow> askE ''client.ImagesPrune'' (if every then [''dangling=false''] else []))"

text \<open>A command of the CLI and its output, which is empty when it fails.\<close>

definition command :: "string list \<Rightarrow> (go_error + string) dprog" where
  "command args = do { r \<leftarrow> answer ''docker'' args; ret (mapAnswer (\<lambda>e. e) rpStr r) }"

definition PruneSystem :: "(go_error + string) dprog" where
  "PruneSystem = command [''system'', ''prune'', ''-af'', ''--volumes'']"

definition PruneAllImages :: "(go_error + string) dprog" where
  "PruneAllImages = command [''image'', ''prune'', ''-af'']"

definition PruneDanglingImages :: "(go_error + string) dprog" where
  "PruneDanglingImages = command [''image'', ''prune'', ''-f'']"

definition PruneBuildCache :: "(go_error + string) dprog" where
  "PruneBuildCache = command [''builder'', ''prune'', ''-f'']"

text \<open>The name and the labels of a volume; the answer may contain nil.\<close>

type_synonym VolumeResult = "string \<times> (string \<times> string) list"

definition ListDanglingVolumes :: "(go_error + VolumeResult list) dprog" where
  "ListDanglingVolumes = do {
     r \<leftarrow> answer ''client.VolumeList'' [''dangling=true''];
     ret (mapAnswer (\<lambda>e. e) (\<lambda>x. map (\<lambda>v. (jStr v ''Name'', jLabels v)) (filter (\<lambda>v. v \<noteq> JNull) (jElems (obj_get (rpJson x) ''Volumes'')))) r) }"

definition RemoveVolume :: "string \<Rightarrow> err dprog" where
  "RemoveVolume name = askE ''client.VolumeRemove'' [name, ''false'']"

definition DataRootDir :: "(go_error + string) dprog" where
  "DataRootDir = do { r \<leftarrow> answer ''client.Info'' []; ret (mapAnswer (\<lambda>e. e) (\<lambda>x. jStr (rpJson x) ''DockerRootDir'') r) }"

section \<open>Registries\<close>

definition Login :: "string \<Rightarrow> string \<Rightarrow> string \<Rightarrow> reply dprog" where
  "Login dockerRegistryURL username password = ask ''docker'' [''login'', dockerRegistryURL, ''-u'', username, ''-p'', password]"

text \<open>
  Of a login that failed: \<open>rpFlag\<close> tells whether its deadline had passed, \<open>rpLines\<close> are the lines it
  printed.
\<close>

definition loginError :: "string \<Rightarrow> reply \<Rightarrow> go_error \<Rightarrow> go_error" where
  "loginError registryURL r e =
     (if rpFlag r then Msg (''registry login to '' @ registryURL @ '' timed out after 10s: the registry is not responding (check that the registry is reachable and, on proxied hosts, that NO_PROXY covers it)'')
      else case List.find (\<lambda>line. Contains line ''Error'') (rpLines r) of Some line \<Rightarrow> Msg line | None \<Rightarrow> e)"

fun HandleRegistryLogins :: "(string \<times> string \<times> string) list \<Rightarrow> err dprog" where
  "HandleRegistryLogins [] = ret None"
| "HandleRegistryLogins ((registryURL, username, password) # credentials) = do {
     r \<leftarrow> Login registryURL username password;
     case rpErr r of
       Some e \<Rightarrow> ret (Some (loginError registryURL r e))
     | None \<Rightarrow> HandleRegistryLogins credentials }"

section \<open>Streams\<close>

text \<open>The reader of a call that succeeded, registered under its identifier when that is not empty.\<close>

definition registerStream :: "string \<Rightarrow> nat dprog" where
  "registerStream streamID = do {
     n \<leftarrow> gets dcOpened;
     _ \<leftarrow> modify (\<lambda>s. s\<lparr>dcOpened := Suc n,
           dcActiveStreams := (if streamID = [] then dcActiveStreams s else map_put streamID n (dcActiveStreams s))\<rparr>);
     ret n }"

definition openStream :: "string \<Rightarrow> string list \<Rightarrow> (go_error \<Rightarrow> go_error) \<Rightarrow> string \<Rightarrow> (go_error + nat) dprog" where
  "openStream name args classify streamID = do {
     e \<leftarrow> askE name args;
     case e of
       Some x \<Rightarrow> ret (Inl (classify x))
     | None \<Rightarrow> do { n \<leftarrow> registerStream streamID; ret (Inr n) } }"

definition Pull :: "string \<Rightarrow> string \<times> string \<Rightarrow> string \<Rightarrow> (go_error + nat) dprog" where
  "Pull imageName auth pullID = openStream ''client.ImagePull'' [imageName, fst auth, snd auth] (\<lambda>e. e) pullID"

definition Push :: "string \<Rightarrow> string \<times> string \<Rightarrow> string \<Rightarrow> (go_error + nat) dprog" where
  "Push imageName auth pushID = openStream ''client.ImagePush'' [imageName, fst auth, snd auth] (\<lambda>e. e) pushID"

definition buildError :: "go_error \<Rightarrow> go_error" where
  "buildError e =
     (if Contains (Error e) ''the Dockerfile (Dockerfile) cannot be empty'' then ErrDockerfileCannotBeEmpty e
      else if Contains (Error e) ''Cannot locate specified Dockerfile: Dockerfile'' then ErrDockerfileIsMissing e
      else e)"

text \<open>Of the error of \<^verbatim>\<open>os.Open\<close>, \<open>rpFlag\<close> tells whether \<^verbatim>\<open>os.IsNotExist\<close> holds.\<close>

definition Build :: "string \<Rightarrow> string list \<Rightarrow> string \<Rightarrow> (go_error + nat) dprog" where
  "Build compressedBuildFilesPath options buildID = do {
     r \<leftarrow> ask ''os.Open'' [compressedBuildFilesPath];
     case rpErr r of
       Some e \<Rightarrow> ret (Inl (if rpFlag r then ErrDockerBuildFilesNotFound e else e))
     | None \<Rightarrow> openStream ''client.ImageBuild'' (compressedBuildFilesPath # options) buildError buildID }"

definition closeStream :: "nat \<Rightarrow> err dprog" where
  "closeStream n = askE ''Stream.Close'' [itoa n]"

definition CancelStream :: "string \<Rightarrow> err dprog" where
  "CancelStream streamID = do {
     streams \<leftarrow> gets dcActiveStreams;
     case map_of streams streamID of
       None \<Rightarrow> ret (Some (Msg ''no active stream was found''))
     | Some n \<Rightarrow> closeStream n }"

fun closeStreams :: "(string \<times> nat) list \<Rightarrow> err dprog" where
  "closeStreams [] = ret None"
| "closeStreams ((streamID, n) # rest) = do {
     e \<leftarrow> closeStream n;
     case e of Some x \<Rightarrow> ret (Some x) | None \<Rightarrow> closeStreams rest }"

definition CancelAllStreams :: "err dprog" where
  "CancelAllStreams = do { streams \<leftarrow> gets dcActiveStreams; closeStreams streams }"

definition logsError :: "go_error \<Rightarrow> go_error" where
  "logsError e =
     (if Contains (Error e) ''No such container'' then ErrContainerNotFound e
      else if Contains (Error e) ''container which is dead or marked for removal'' then ErrContainerNotFound e
      else e)"

text \<open>The reader of the logs is not registered: what it delivers is the answer.\<close>

definition Logs :: "string \<Rightarrow> (string \<times> json) list \<Rightarrow> (go_error + string list) dprog" where
  "Logs containerName options = do {
     let o' = logsOptionsFromDict options;
     r \<leftarrow> answer ''client.ContainerLogs'' [containerName, boolText (oShowStdout o'), boolText (oShowStderr o'), boolText (oFollow o'), boolText (oTimestamps o'),
           oTail o', oSince o', oUntil o'];
     ret (mapAnswer logsError rpLines r) }"

section \<open>Commands in containers\<close>

definition Attach :: "string \<Rightarrow> (go_error + json) dprog" where
  "Attach containerName = do { r \<leftarrow> answer ''client.ContainerAttach'' [containerName]; ret (mapAnswer (\<lambda>e. e) rpJson r) }"

definition ResizeExecContainer :: "string \<Rightarrow> uint64 \<Rightarrow> uint64 \<Rightarrow> err dprog" where
  "ResizeExecContainer execID height width = askE ''client.ContainerExecResize'' [execID, itoa (unat height), itoa (unat width)]"

text \<open>Both variants of a command create it and attach to it; the result is its identifier.\<close>

definition execIn :: "bool \<Rightarrow> string list \<Rightarrow> string \<Rightarrow> (go_error + string) dprog" where
  "execIn tty cmd containerID = do {
     r \<leftarrow> answer ''client.ContainerExecCreate'' (containerID # boolText tty # cmd);
     case r of
       Inl e \<Rightarrow> ret (Inl e)
     | Inr x \<Rightarrow> do {
         let execID = jStr (rpJson x) ''Id'';
         a \<leftarrow> answer ''client.ContainerExecAttach'' [execID, boolText tty];
         ret (mapAnswer (\<lambda>e. e) (\<lambda>_. execID) a) } }"

definition ExecAttach :: "string \<Rightarrow> string \<Rightarrow> (go_error + string) dprog" where
  "ExecAttach containerName shell = withContainer containerName (execIn True [shell])"

definition ExecCommand :: "string \<Rightarrow> string list \<Rightarrow> (go_error + string) dprog" where
  "ExecCommand containerName cmd = withContainer containerName (execIn False cmd)"

section \<open>Polling\<close>

text \<open>A verdict does not depend on how many rounds the model allows.\<close>

lemma poll_enough:
  "run_state (poll n body) s = (Some x, s') \<Longrightarrow> n \<le> m \<Longrightarrow> run_state (poll m body) s = (Some x, s')"
proof (induction n arbitrary: s m)
  case 0
  then show ?case by (simp add: run_ops)
next
  case (Suc n)
  then obtain m' where "m = Suc m'" by (cases m) auto
  with Suc show ?case by (auto simp: run_ops split: prod.splits option.splits)
qed

fun firstSome :: "'a option list \<Rightarrow> 'a option" where
  "firstSome [] = None"
| "firstSome (Some x # rest) = Some x"
| "firstSome (None # rest) = firstSome rest"

definition inspectCall :: "string \<Rightarrow> ext_call" where
  "inspectCall containerID = Ext ''client.ContainerInspect'' [containerID]"

text \<open>What the daemon tells about a container after it was asked \<open>k\<close> times.\<close>

definition polledState :: "DockerClient \<Rightarrow> string \<Rightarrow> nat \<Rightarrow> go_error + ContainerState" where
  "polledState s containerID k =
     (let r = oExt s (oTrace s @ replicate k (inspectCall containerID)) (inspectCall containerID)
      in case rpErr r of
           Some e \<Rightarrow> Inl (if rpFlag r then ErrContainerNotFound e else e)
         | None \<Rightarrow> Inr (stateFrom (obj_get (rpJson r) ''State'')))"

lemma run_GetContainerState:
  "run_state (Engine.GetContainerState containerID) s = (polledState s containerID 0, s\<lparr>oTrace := oTrace s @ [inspectCall containerID]\<rparr>)"
  by (auto simp: Engine.GetContainerState_def inspect_def run_ops polledState_def inspectCall_def Let_def split: option.split)

lemma polledState_Suc: "polledState (s\<lparr>oTrace := oTrace s @ [inspectCall containerID]\<rparr>) containerID k = polledState s containerID (Suc k)"
  by (simp add: polledState_def)

text \<open>
  What \<^verbatim>\<open>WaitForRunning\<close> signals is decided by the first of the polled states that decides anything:
  running when the container runs, an error when it has exited or is dead, when the daemon reports
  an error of the container or when it cannot be asked, and nothing as long as no state decided.
\<close>

theorem wait_for_running_spec:
  "fst (run_state (Engine.WaitForRunning n containerID) s) = firstSome (map (\<lambda>k. runningVerdict (polledState s containerID k)) [0..<n])"
proof (induction n arbitrary: s)
  case 0
  then show ?case by (simp add: Engine.WaitForRunning_def run_ops)
next
  case (Suc n)
  let ?s = "s\<lparr>oTrace := oTrace s @ [inspectCall containerID]\<rparr>"
  have tail: "map (\<lambda>k. runningVerdict (polledState s containerID k)) [0..<Suc n]
      = runningVerdict (polledState s containerID 0) # map (\<lambda>k. runningVerdict (polledState ?s containerID k)) [0..<n]"
    by (simp add: map_upt_Suc polledState_Suc del: upt_Suc)
  have "fst (run_state (Engine.WaitForRunning (Suc n) containerID) s) = (case runningVerdict (polledState s containerID 0) of
      Some x \<Rightarrow> Some x | None \<Rightarrow> fst (run_state (Engine.WaitForRunning n containerID) ?s))"
    by (simp add: Engine.WaitForRunning_def runningRound_def run_bind run_GetContainerState State_Monad.return_def split: option.split)
  then show ?case unfolding tail Suc by (simp split: option.split)
qed

section \<open>Port bindings\<close>

text \<open>The bindings of a port that name a host port, and the one to be reported.\<close>

definition usable :: "PortBinding list \<Rightarrow> (string \<times> uint64) list" where
  "usable hs = concat (map (\<lambda>(ip, port). case ParseUint 64 port of
     None \<Rightarrow> [] | Some n \<Rightarrow> if n = 0 then [] else [(ip, of_nat n)]) hs)"

definition everywhere :: "(string \<times> uint64) list \<Rightarrow> uint64 list" where
  "everywhere us = map snd (filter (\<lambda>u. allInterfaces (fst u)) us)"

definition reported :: "uint64 option \<Rightarrow> (string \<times> uint64) list \<Rightarrow> uint64 option" where
  "reported known us =
     (if everywhere us \<noteq> [] then Some (last (everywhere us))
      else if known \<noteq> None \<or> us = [] then known
      else Some (snd (hd us)))"

lemma bindPort_other: "q \<noteq> p \<Longrightarrow> map_of (bindPort p bindings b) q = map_of bindings q"
  by (auto simp: bindPort_def map_of_map_put split: option.split)

lemma bindPorts_other: "q \<noteq> p \<Longrightarrow> map_of (foldl (bindPort p) bindings hs) q = map_of bindings q"
  by (induction hs arbitrary: bindings) (simp_all add: bindPort_other)

lemma usable_Nil [simp]: "usable [] = []"
  by (simp add: usable_def)

lemma usable_Cons: "usable (h # hs) = usable [h] @ usable hs"
  by (simp add: usable_def)

lemma reported_append: "reported (reported known us) vs = reported known (us @ vs)"
proof (cases "everywhere vs = []")
  case True
  then show ?thesis by (cases us) (auto simp: reported_def everywhere_def)
next
  case False
  then show ?thesis by (simp add: reported_def everywhere_def)
qed

lemma bindPort_same: "map_of (bindPort p bindings h) p = reported (map_of bindings p) (usable [h])"
proof (cases "ParseUint 64 (snd h)")
  case None
  then show ?thesis by (cases h) (simp add: bindPort_def usable_def reported_def everywhere_def)
next
  case (Some n)
  then show ?thesis
    by (cases h) (simp add: bindPort_def usable_def reported_def everywhere_def map_of_map_put)
qed

lemma bindPorts_same: "map_of (foldl (bindPort p) bindings hs) p = reported (map_of bindings p) (usable hs)"
proof (induction hs arbitrary: bindings)
  case Nil
  then show ?case by (simp add: reported_def everywhere_def)
next
  case (Cons h hs)
  have "map_of (foldl (bindPort p) bindings (h # hs)) p = reported (reported (map_of bindings p) (usable [h])) (usable hs)"
    by (simp add: Cons bindPort_same)
  also have "\<dots> = reported (map_of bindings p) (usable (h # hs))" by (subst (2) usable_Cons) (rule reported_append)
  finally show ?case .
qed

lemma portBindings_outside:
  "p \<notin> fst ` set pb \<Longrightarrow> map_of (foldl (\<lambda>bindings (q, hs). foldl (bindPort q) bindings hs) bindings pb) p = map_of bindings p"
  by (induction pb arbitrary: bindings) (auto simp: bindPorts_other)

lemma portBindings_from:
  "distinct (map fst pb) \<Longrightarrow> map_of bindings p = None \<or> p \<notin> fst ` set pb \<Longrightarrow>
   map_of (foldl (\<lambda>bindings (q, hs). foldl (bindPort q) bindings hs) bindings pb) p
     = (case map_of pb p of None \<Rightarrow> map_of bindings p | Some hs \<Rightarrow> reported None (usable hs))"
proof (induction pb arbitrary: bindings)
  case (Cons x pb)
  obtain q hs where x: "x = (q, hs)" by (cases x)
  show ?case
  proof (cases "q = p")
    case True
    then show ?thesis using Cons.prems x by (auto simp: portBindings_outside bindPorts_same)
  next
    case False
    then have "p \<noteq> q" by simp
    then show ?thesis using Cons.prems x False by (simp add: Cons.IH bindPorts_other split: option.split)
  qed
qed simp

text \<open>
  The host port reported for a port of a container is the one of its last binding on all
  interfaces; without such a binding it is that of the first binding that names a port, and ports
  without any are left out.
\<close>

theorem port_bindings_spec:
  assumes "distinct (map fst pb)"
  shows "map_of (portBindings pb) p = Option.bind (map_of pb p) (\<lambda>hs.
    if usable hs = [] then None
    else if everywhere (usable hs) = [] then Some (snd (hd (usable hs)))
    else Some (last (everywhere (usable hs))))"
  using portBindings_from [OF assms, of "[]" p]
  by (simp add: portBindings_def reported_def everywhere_def split: option.split)

theorem port_bindings_spec_witness:
  "map_of (portBindings [(''80/tcp'', [(''127.0.0.1'', ''7''), (''0.0.0.0'', ''9'')]), (''81/tcp'', [(''::'', '''')])]) ''80/tcp'' = Some 9"
proof -
  let ?pb = "[(''80/tcp'', [(''127.0.0.1'', ''7''), (''0.0.0.0'', ''9'')]), (''81/tcp'', [(''::'', '''')])]"
  have "distinct (map fst ?pb)" by simp
  moreover have "usable [(''127.0.0.1'', ''7''), (''0.0.0.0'', ''9'')] = [(''127.0.0.1'', 7), (''0.0.0.0'', 9)]"
    by (simp add: usable_def ParseUint_def char_digit_def Let_def)
  ultimately show ?thesis by (simp add: port_bindings_spec everywhere_def allInterfaces_def)
qed

section \<open>Streams that can be cancelled\<close>

text \<open>
  What the operations that open a stream share: a success makes a new stream and registers it under
  its identifier, a failure registers nothing.
\<close>

definition registered :: "string \<Rightarrow> DockerClient \<Rightarrow> DockerClient \<Rightarrow> bool" where
  "registered streamID s s' \<longleftrightarrow> dcOpened s' = Suc (dcOpened s) \<and>
     dcActiveStreams s' = (if streamID = [] then dcActiveStreams s else map_put streamID (dcOpened s) (dcActiveStreams s))"

definition streams_ok :: "DockerClient \<Rightarrow> bool" where
  "streams_ok s \<longleftrightarrow> distinct (map fst (dcActiveStreams s)) \<and> distinct (map snd (dcActiveStreams s)) \<and> (\<forall>n \<in> snd ` set (dcActiveStreams s). n < dcOpened s)"

definition same_streams :: "DockerClient \<Rightarrow> DockerClient \<Rightarrow> bool" where
  "same_streams s s' \<longleftrightarrow> dcOpened s' = dcOpened s \<and> dcActiveStreams s' = dcActiveStreams s"

lemma distinct_map_snd_filter: "distinct (map snd xs) \<Longrightarrow> distinct (map snd (filter P xs))"
  by (simp add: distinct_map_filter)

lemma registered_ok: "registered streamID s s' \<Longrightarrow> streams_ok s \<Longrightarrow> streams_ok s'"
  by (auto simp: registered_def streams_ok_def map_put_def distinct_map_filter)

locale stream_opener =
  fixes start_stream :: "'a \<Rightarrow> (go_error + nat) dprog" and streamIDOf :: "'a \<Rightarrow> string"
  assumes opened: "run_state (start_stream x) s = (Inr n, s') \<Longrightarrow> n = dcOpened s \<and> registered (streamIDOf x) s s'"
    and refused: "run_state (start_stream x) s = (Inl e, s') \<Longrightarrow> same_streams s s'"
begin

lemma opening_ok: "streams_ok s \<Longrightarrow> streams_ok (snd (run_state (start_stream x) s))"
proof -
  assume ok: "streams_ok s"
  obtain r s' where run: "run_state (start_stream x) s = (r, s')" by force
  show ?thesis
  proof (cases r)
    case (Inl e)
    then show ?thesis using refused ok run by (auto simp: same_streams_def streams_ok_def)
  next
    case (Inr n)
    then have "registered (streamIDOf x) s s'" using opened run by blast
    then show ?thesis using registered_ok ok run by simp
  qed
qed

lemma opening_registers:
  "run_state (start_stream x) s = (Inr n, s') \<Longrightarrow> streamIDOf x \<noteq> [] \<Longrightarrow> map_of (dcActiveStreams s') (streamIDOf x) = Some n"
  using opened [of x s n s'] by (simp add: registered_def map_of_map_put)

lemma opening_keeps_others:
  assumes "streamIDOf x \<noteq> i"
  shows "map_of (dcActiveStreams (snd (run_state (start_stream x) s))) i = map_of (dcActiveStreams s) i"
proof -
  obtain r s' where run: "run_state (start_stream x) s = (r, s')" by force
  show ?thesis
  proof (cases r)
    case (Inl e)
    then show ?thesis using refused run by (auto simp: same_streams_def)
  next
    case (Inr n)
    then have "registered (streamIDOf x) s s'" using opened run by blast
    then show ?thesis using assms run by (auto simp: registered_def map_of_map_put)
  qed
qed

end

lemma openStream_run:
  "run_state (openStream name args classify streamID) s = (case rpErr (oExt s (oTrace s) (Ext name args)) of
     Some e \<Rightarrow> (Inl (classify e), s\<lparr>oTrace := oTrace s @ [Ext name args]\<rparr>)
   | None \<Rightarrow> (Inr (dcOpened s), s\<lparr>oTrace := oTrace s @ [Ext name args], dcOpened := Suc (dcOpened s),
       dcActiveStreams := (if streamID = [] then dcActiveStreams s else map_put streamID (dcOpened s) (dcActiveStreams s))\<rparr>))"
  by (simp add: openStream_def registerStream_def run_ops split: option.split)

lemmas stream_defs = openStream_run registered_def same_streams_def

interpretation pulls: stream_opener "\<lambda>(img, auth, i). Pull img auth i" "\<lambda>(img, auth, i). i"
  by unfold_locales (auto simp: Pull_def stream_defs split: option.splits if_splits)

interpretation pushes: stream_opener "\<lambda>(img, auth, i). Push img auth i" "\<lambda>(img, auth, i). i"
  by unfold_locales (auto simp: Push_def stream_defs split: option.splits if_splits)

interpretation builds: stream_opener "\<lambda>(path, opts, i). Build path opts i" "\<lambda>(path, opts, i). i"
  by unfold_locales (auto simp: Build_def run_ops stream_defs split: option.splits if_splits)

text \<open>What happens to the client between two moments, as far as streams go.\<close>

datatype stream_op = DoPull string "string \<times> string" string | DoPush string "string \<times> string" string | DoBuild string "string list" string
  | DoCancel string | DoCancelAll | DoCall string "string list"

fun runOp :: "stream_op \<Rightarrow> DockerClient \<Rightarrow> DockerClient" where
  "runOp (DoPull img auth i) s = snd (run_state (Pull img auth i) s)"
| "runOp (DoPush img auth i) s = snd (run_state (Push img auth i) s)"
| "runOp (DoBuild path opts i) s = snd (run_state (Build path opts i) s)"
| "runOp (DoCancel i) s = snd (run_state (CancelStream i) s)"
| "runOp DoCancelAll s = snd (run_state CancelAllStreams s)"
| "runOp (DoCall name args) s = snd (run_state (ask name args) s)"

fun opensUnder :: "string \<Rightarrow> stream_op \<Rightarrow> bool" where
  "opensUnder i (DoPull img auth j) = (i = j)"
| "opensUnder i (DoPush img auth j) = (i = j)"
| "opensUnder i (DoBuild path opts j) = (i = j)"
| "opensUnder i _ = False"

definition closeCall :: "nat \<Rightarrow> ext_call" where
  "closeCall n = Ext ''Stream.Close'' [itoa n]"

text \<open>The streams are closed in turn, all of them when no close fails.\<close>

definition closes :: "(string \<times> nat) list \<Rightarrow> err \<Rightarrow> nat \<Rightarrow> DockerClient \<Rightarrow> DockerClient \<Rightarrow> bool" where
  "closes streams e k s s' \<longleftrightarrow> k \<le> length streams \<and> (e = None \<longrightarrow> k = length streams)
     \<and> s' = s\<lparr>oTrace := oTrace s @ map (\<lambda>x. closeCall (snd x)) (take k streams)\<rparr>"

lemma run_closeStreams: "run_state (closeStreams streams) s = (e, s') \<Longrightarrow> \<exists>k. closes streams e k s s'"
proof (induction streams arbitrary: s)
  case Nil
  then show ?case by (simp add: run_ops closes_def)
next
  case (Cons x streams)
  obtain i n where x: "x = (i, n)" by (cases x)
  let ?s = "s\<lparr>oTrace := oTrace s @ [closeCall n]\<rparr>"
  show ?case
  proof (cases "rpErr (oExt s (oTrace s) (closeCall n))")
    case (Some y)
    then have "closes (x # streams) e 1 s s'"
      using Cons.prems by (simp add: x closes_def closeStream_def run_ops closeCall_def) blast
    then show ?thesis ..
  next
    case None
    then have "run_state (closeStreams streams) ?s = (e, s')"
      using Cons.prems by (simp add: x closeStream_def run_ops closeCall_def)
    then obtain k where "closes streams e k ?s s'" using Cons.IH by blast
    then have "closes (x # streams) e (Suc k) s s'" by (simp add: closes_def x)
    then show ?thesis ..
  qed
qed

lemma cancel_same: "same_streams s (snd (run_state (CancelStream i) s))" "same_streams s (snd (run_state CancelAllStreams s))"
  "same_streams s (snd (run_state (ask name args) s))"
proof -
  show "same_streams s (snd (run_state CancelAllStreams s))"
    using run_closeStreams [of "dcActiveStreams s" s] by (cases "run_state (closeStreams (dcActiveStreams s)) s") (auto simp: CancelAllStreams_def run_ops same_streams_def closes_def)
qed (auto simp: CancelStream_def closeStream_def run_ops same_streams_def split: option.split)

lemma runOp_keeps:
  assumes "\<not> opensUnder i opr"
  shows "map_of (dcActiveStreams (runOp opr s)) i = map_of (dcActiveStreams s) i"
proof (cases opr)
  case (DoPull img auth j)
  then show ?thesis using assms pulls.opening_keeps_others [of "(img, auth, j)" i s] by simp
next
  case (DoPush img auth j)
  then show ?thesis using assms pushes.opening_keeps_others [of "(img, auth, j)" i s] by simp
next
  case (DoBuild path opts j)
  then show ?thesis using assms builds.opening_keeps_others [of "(path, opts, j)" i s] by simp
qed (use cancel_same [of s] in \<open>simp_all add: same_streams_def\<close>)

lemma runOp_ok:
  assumes "streams_ok s"
  shows "streams_ok (runOp opr s)"
proof (cases opr)
  case (DoPull img auth j)
  then show ?thesis using pulls.opening_ok [OF assms, of "(img, auth, j)"] by simp
next
  case (DoPush img auth j)
  then show ?thesis using pushes.opening_ok [OF assms, of "(img, auth, j)"] by simp
next
  case (DoBuild path opts j)
  then show ?thesis using builds.opening_ok [OF assms, of "(path, opts, j)"] by simp
qed (use cancel_same [of s] assms in \<open>simp_all add: same_streams_def streams_ok_def\<close>)

lemma fold_runOp_keeps: "list_all (\<lambda>opr. \<not> opensUnder i opr) ops \<Longrightarrow> map_of (dcActiveStreams (fold runOp ops s)) i = map_of (dcActiveStreams s) i"
  by (induction ops arbitrary: s) (auto simp: runOp_keeps)

text \<open>
  C21: once a pull, a push or a build was started under an identifier, cancelling that identifier
  closes exactly this stream and no other, whatever other streams were opened or cancelled in
  between, until another one is started under the same identifier.
\<close>

theorem cancel_reaches_newest:
  assumes "run_state (Pull img auth i) s = (Inr n, s1) \<or> run_state (Push img auth i) s = (Inr n, s1) \<or> run_state (Build path opts i) s = (Inr n, s1)"
    and "i \<noteq> []" and "list_all (\<lambda>opr. \<not> opensUnder i opr) ops"
  shows "run_state (CancelStream i) (fold runOp ops s1) = (let s2 = fold runOp ops s1 in
    (rpErr (oExt s2 (oTrace s2) (closeCall n)), s2\<lparr>oTrace := oTrace s2 @ [closeCall n]\<rparr>))"
proof -
  have "map_of (dcActiveStreams s1) i = Some n"
    using assms(1,2) pulls.opening_registers [of "(img, auth, i)" s n s1] pushes.opening_registers [of "(img, auth, i)" s n s1]
      builds.opening_registers [of "(path, opts, i)" s n s1] by auto
  then have "map_of (dcActiveStreams (fold runOp ops s1)) i = Some n" by (simp add: fold_runOp_keeps [OF assms(3)])
  then show ?thesis by (simp add: CancelStream_def closeStream_def run_ops closeCall_def Let_def)
qed

text \<open>When \<^verbatim>\<open>CancelAllStreams\<close> returns nil, every registered stream was closed.\<close>

lemma cancel_all_closes:
  assumes "run_state CancelAllStreams s = (None, s')"
  shows "oTrace s' = oTrace s @ map (\<lambda>x. closeCall (snd x)) (dcActiveStreams s)"
proof -
  have "run_state (closeStreams (dcActiveStreams s)) s = (None, s')" using assms by (simp add: CancelAllStreams_def run_ops)
  from run_closeStreams [OF this] show ?thesis by (auto simp: closes_def)
qed

section \<open>Exit codes\<close>

text \<open>The status Docker prints for an exited container is read back as its exit code.\<close>

lemma Atoi_itoa: "n < 2 ^ 63 \<Longrightarrow> Atoi (itoa n) = Some (int n)"
proof -
  assume n: "n < 2 ^ 63"
  have "hd (itoa n) \<in> set (itoa n)" by simp
  then have "hd (itoa n) \<noteq> CHR ''-''" "hd (itoa n) \<noteq> CHR ''+''" using itoa_chars by fastforce+
  moreover have "int n < 2 ^ 63" using n by (metis of_nat_less_numeral_power_cancel_iff)
  ultimately show ?thesis by (simp add: Atoi_def parse_digits_itoa Let_def)
qed

lemma exited_status_roundtrip:
  assumes "n < 2 ^ 63"
  shows "ParseExitCodeFromContainerStatus (''Exited ('' @ itoa n @ '') '' @ ago) = Inr (int n)"
proof -
  have digits: "c \<noteq> CHR '')'' \<and> c \<noteq> CHR ''(''" if "c \<in> set (itoa n)" for c
    using itoa_chars [OF that] by auto
  have "takeWhile (\<lambda>x. x \<noteq> CHR '')'') (itoa n @ '') '' @ ago) = itoa n"
    using digits by (simp add: takeWhile_append)
  then have "parenthesised (''Exited ('' @ itoa n @ '') '' @ ago) = ''('' @ itoa n @ '')''" by simp
  moreover have "TrimLeft (''('' @ itoa n @ '')'') ''('' = itoa n @ '')''"
    using digits by (cases "itoa n") (auto simp: TrimLeft_def dropWhile_append)
  moreover have "TrimRight (itoa n @ '')'') '')'' = itoa n"
  proof -
    have "last (itoa n) \<in> set (itoa n)" by simp
    then have "last (itoa n) \<noteq> CHR '')''" using digits by blast
    then show ?thesis by (cases "itoa n" rule: rev_cases) (simp_all add: TrimRight_def)
  qed
  ultimately show ?thesis by (simp add: ParseExitCodeFromContainerStatus_def Atoi_itoa [OF assms])
qed

section \<open>Examples, and what is not as intended\<close>

definition NoAnswer :: reply where
  "NoAnswer = \<lparr>rpErr = None, rpStr = [], rpNum = 0, rpFlag = False, rpStrs = [], rpPorts = [], rpJson = JNull, rpContainers = []\<rparr>"

definition demo_client :: DockerClient where
  "demo_client = \<lparr>oTrace = [], oExt = (\<lambda>_ _. NoAnswer), dcActiveStreams = [], dcOpened = 0\<rparr>"

theorem cancel_reaches_newest_witness:
  "oTrace (snd (run_state (CancelStream ''p'') (fold runOp [DoPush ''b'' ('''', '''') ''q'', DoCancel ''q''] (snd (run_state (Pull ''a'' ('''', '''') ''p'') demo_client)))))
    = oTrace (fold runOp [DoPush ''b'' ('''', '''') ''q'', DoCancel ''q''] (snd (run_state (Pull ''a'' ('''', '''') ''p'') demo_client))) @ [closeCall 0]"
proof -
  let ?s1 = "snd (run_state (Pull ''a'' ('''', '''') ''p'') demo_client)"
  have "run_state (Pull ''a'' ('''', '''') ''p'') demo_client = (Inr 0, ?s1)"
    by (simp add: Pull_def openStream_run demo_client_def NoAnswer_def)
  then have "run_state (CancelStream ''p'') (fold runOp [DoPush ''b'' ('''', '''') ''q'', DoCancel ''q''] ?s1) = (let s2 = fold runOp [DoPush ''b'' ('''', '''') ''q'', DoCancel ''q''] ?s1 in
      (rpErr (oExt s2 (oTrace s2) (closeCall 0)), s2\<lparr>oTrace := oTrace s2 @ [closeCall 0]\<rparr>))"
    by (intro cancel_reaches_newest [where img = "''a''" and auth = "('''', '''')" and s = demo_client] disjI1) simp_all
  then show ?thesis by (simp add: Let_def)
qed

text \<open>
  A stream is never removed from the map, so that \<^verbatim>\<open>CancelAllStreams\<close> closes streams that ended long
  ago, and its first error leaves the rest open.
\<close>

definition failing_client :: DockerClient where
  "failing_client = demo_client\<lparr>dcActiveStreams := [(''a'', 0), (''b'', 1)], dcOpened := 2,
     oExt := (\<lambda>_ c. if c = closeCall 0 then NoAnswer\<lparr>rpErr := Some (Msg ''close'')\<rparr> else NoAnswer)\<rparr>"

lemma first_error_leaves_rest:
  "run_state CancelAllStreams failing_client = (Some (Msg ''close''), failing_client\<lparr>oTrace := [closeCall 0]\<rparr>)"
  by (simp add: CancelAllStreams_def closeStream_def run_ops failing_client_def demo_client_def closeCall_def)

text \<open>
  The daemon's filter for names selects by a part of the name; the first match is taken without
  comparing its name.
\<close>

definition listing_client :: DockerClient where
  "listing_client = demo_client\<lparr>oExt := (\<lambda>_ c. case c of Ext name args \<Rightarrow>
     if name = ''client.ContainerList'' then NoAnswer\<lparr>rpJson := JArr [JObj [(''Id'', JStr ''c2''), (''Names'', JArr [JStr ''/prod_1_app2''])],
       JObj [(''Id'', JStr ''c1''), (''Names'', JArr [JStr ''/prod_1_app''])]]\<rparr> else NoAnswer)\<rparr>"

lemma first_match_is_stopped:
  "oTrace (snd (run_state (StopContainerByName ''prod_1_app'' 0) listing_client))
     = [Ext ''client.ContainerList'' [''true'', ''name=prod_1_app''], Ext ''client.ContainerStop'' [''c2'', ''0'']]"
  by code_simp

text \<open>One exited container whose status has no number hides all containers.\<close>

lemma odd_status_hides_all:
  "containerResults [JObj [(''Id'', JStr ''a''), (''State'', JStr ''running'')], JObj [(''Id'', JStr ''b''), (''State'', JStr ''exited''), (''Status'', JStr ''Exited'')]]
     = Inl (Msg ''strconv.ParseInt'')"
  by code_simp

end
