(* ===== verification/ComposeCli.thy ===== *)
theory ComposeCli
  imports Engine "HOL-Library.Sublist"
begin

text \<open>
  \<^verbatim>\<open>container/compose.go\<close>: the client of the compose command line. A started command is a record; what
  it prints is a list of lines, which a reader takes up one by one while the consumer of the stream
  empties the channel, in any interleaving. The output of \<^verbatim>\<open>compose ps\<close> is the list of JSON values the
  decoder finds in it and the error that ends them, if any.
\<close>

section \<open>The output of a command\<close>

definition composeTailLines :: nat where "composeTailLines = 25"
definition composeStreamBuffer :: nat where "composeStreamBuffer = 4096"
definition maxComposeLineBytes :: int where "maxComposeLineBytes = 1024 * 1024"

record composeOutputTail =
  tLines :: "string list"
  tDropped :: nat

definition tailAdd :: "string \<Rightarrow> composeOutputTail \<Rightarrow> composeOutputTail" where
  "tailAdd line t = t\<lparr>tLines := (if length (tLines t) = composeTailLines then tl (tLines t) else tLines t) @ [line]\<rparr>"

definition recordDropped :: "composeOutputTail \<Rightarrow> composeOutputTail" where
  "recordDropped t = t\<lparr>tDropped := Suc (tDropped t)\<rparr>"

fun joinWith :: "string \<Rightarrow> string list \<Rightarrow> string" where
  "joinWith sep [] = []"
| "joinWith sep [x] = x"
| "joinWith sep (x # y # ys) = x @ sep @ joinWith sep (y # ys)"

definition tailString :: "composeOutputTail \<Rightarrow> string" where
  "tailString t = joinWith ''; '' ((if tDropped t > 0 then [''('' @ itoa (tDropped t) @ '' output line(s) dropped)''] else [])
     @ filter (\<lambda>line. line \<noteq> []) (map TrimSpace (tLines t)))"

record ComposeError =
  ceSubcommand :: string
  ceOutput :: string
  ceErr :: go_error

definition ComposeError_text :: "ComposeError \<Rightarrow> string" where
  "ComposeError_text e =
     (if ceOutput e = [] then ''docker compose '' @ ceSubcommand e @ '' failed: '' @ Error (ceErr e)
      else ''docker compose '' @ ceSubcommand e @ '' failed: '' @ Error (ceErr e) @ '': '' @ ceOutput e)"

text \<open>The goroutine that reads the pipe, with the channel it fills and what the consumer has taken.\<close>

record composeReader =
  rdTail :: composeOutputTail
  rdChannel :: "string list"
  rdTaken :: "string list"
  rdEnded :: bool \<comment> \<open>a line was too long for the scanner\<close>

definition newReader :: composeReader where
  "newReader = \<lparr>rdTail = \<lparr>tLines = [], tDropped = 0\<rparr>, rdChannel = [], rdTaken = [], rdEnded = False\<rparr>"

definition fitsScanner :: "string \<Rightarrow> bool" where
  "fitsScanner line \<longleftrightarrow> int (length line) < maxComposeLineBytes"

definition readLine :: "bool \<Rightarrow> string \<Rightarrow> composeReader \<Rightarrow> composeReader" where
  "readLine streaming line rd =
     (if rdEnded rd then rd
      else if \<not> fitsScanner line then rd\<lparr>rdEnded := True\<rparr>
      else if \<not> streaming then rd\<lparr>rdTail := tailAdd line (rdTail rd)\<rparr>
      else if length (rdChannel rd) < composeStreamBuffer
           then rd\<lparr>rdTail := tailAdd line (rdTail rd), rdChannel := rdChannel rd @ [line]\<rparr>
      else rd\<lparr>rdTail := recordDropped (tailAdd line (rdTail rd))\<rparr>)"

definition takeLine :: "composeReader \<Rightarrow> composeReader" where
  "takeLine rd = (case rdChannel rd of [] \<Rightarrow> rd | line # rest \<Rightarrow> rd\<lparr>rdChannel := rest, rdTaken := rdTaken rd @ [line]\<rparr>)"

datatype output_event = Printed string | Consumed

fun outputStep :: "bool \<Rightarrow> output_event \<Rightarrow> composeReader \<Rightarrow> composeReader" where
  "outputStep streaming (Printed line) rd = readLine streaming line rd"
| "outputStep streaming Consumed rd = takeLine rd"

section \<open>Commands\<close>

record ComposeClient = outside +
  cmSupported :: bool
  cmBinary :: string
  cmBuildDir :: string
  cmComposeDir :: string
  cmProcesses :: "(string \<times> nat) list" \<comment> \<open>\<^verbatim>\<open>composeProcessesMap\<close>: the context a cancel function ends\<close>
  cmCancelled :: "nat list" \<comment> \<open>contexts that were cancelled\<close>

type_synonym 'a cprog = "(ComposeClient, 'a) state"

record ComposeCmd =
  ccSubcommand :: string
  ccStreaming :: bool

definition binaryOf :: "ComposeClient \<Rightarrow> string" where
  "binaryOf s = (if cmBinary s = [] then ''docker'' else cmBinary s)"

definition startComposeCommand :: "string \<Rightarrow> bool \<Rightarrow> string list \<Rightarrow> (go_error + ComposeCmd) cprog" where
  "startComposeCommand dockerComposePath streaming providedArgs = do {
     binary \<leftarrow> gets binaryOf;
     e \<leftarrow> askE ''exec.Start'' ([binary, ''compose'', ''-f'', dockerComposePath] @ providedArgs);
     ret (case e of
       Some x \<Rightarrow> Inl x
     | None \<Rightarrow> Inr \<lparr>ccSubcommand = (case providedArgs of [] \<Rightarrow> ''compose'' | a # _ \<Rightarrow> a), ccStreaming = streaming\<rparr>) }"

text \<open>\<^verbatim>\<open>Wait\<close>, once the reader has drained the pipe.\<close>

definition exitError :: "string \<Rightarrow> composeReader \<Rightarrow> err \<Rightarrow> err" where
  "exitError subcommand rd e = map_option (\<lambda>x. Msg (ComposeError_text \<lparr>ceSubcommand = subcommand, ceOutput = tailString (rdTail rd), ceErr = x\<rparr>)) e"

definition WaitCmd :: "ComposeCmd \<Rightarrow> composeReader \<Rightarrow> err cprog" where
  "WaitCmd cmd rd = do { e \<leftarrow> askE ''exec.Wait'' [ccSubcommand cmd]; ret (exitError (ccSubcommand cmd) rd e) }"

definition composeRun :: "string \<Rightarrow> string list \<Rightarrow> err cprog" where
  "composeRun dockerComposePath providedArgs = do {
     c \<leftarrow> startComposeCommand dockerComposePath False providedArgs;
     case c of
       Inl e \<Rightarrow> ret (Some e)
     | Inr cmd \<Rightarrow> do {
         out \<leftarrow> ask ''exec.Output'' [ccSubcommand cmd];
         WaitCmd cmd (fold (readLine False) (rpLines out) newReader) } }"

definition composeCommand :: "string \<Rightarrow> string list \<Rightarrow> (go_error + ComposeCmd) cprog" where
  "composeCommand dockerComposePath providedArgs = startComposeCommand dockerComposePath True providedArgs"

definition composeBuild :: "string \<Rightarrow> (go_error + ComposeCmd) cprog" where
  "composeBuild path = composeCommand path [''build'']"

definition composePush :: "string \<Rightarrow> (go_error + ComposeCmd) cprog" where
  "composePush path = composeCommand path [''push'']"

definition composePull :: "string \<Rightarrow> (go_error + ComposeCmd) cprog" where
  "composePull path = composeCommand path [''pull'']"

definition PullContext :: "string \<Rightarrow> string list \<Rightarrow> (go_error + ComposeCmd) cprog" where
  "PullContext path services = composeCommand path (''pull'' # services)"

definition PullIgnoreBuildable :: "string \<Rightarrow> (go_error + ComposeCmd) cprog" where
  "PullIgnoreBuildable path = composeCommand path [''pull'', ''--ignore-buildable'']"

definition Up :: "string \<Rightarrow> (go_error + ComposeCmd) cprog" where
  "Up path = composeCommand path [''up'', ''--remove-orphans'', ''-d'']"

definition UpNoBuild :: "string \<Rightarrow> (go_error + ComposeCmd) cprog" where
  "UpNoBuild path = composeCommand path [''up'', ''--remove-orphans'', ''-d'', ''--no-build'']"

definition composeStop :: "string \<Rightarrow> err cprog" where "composeStop path = composeRun path [''stop'']"

definition composeRemove :: "string \<Rightarrow> err cprog" where "composeRemove path = composeRun path [''rm'', ''-f'']"

definition Down :: "string \<Rightarrow> err cprog" where "Down path = composeRun path [''down'', ''-v'']"

definition DownRemoveOrphans :: "string \<Rightarrow> err cprog" where "DownRemoveOrphans path = composeRun path [''down'', ''--remove-orphans'']"

section \<open>Builds that can be cancelled\<close>

definition RegisterBuildCancel :: "string \<Rightarrow> nat \<Rightarrow> err cprog" where
  "RegisterBuildCancel buildID ctx = ignore (modify (\<lambda>s. s\<lparr>cmProcesses := map_put buildID ctx (cmProcesses s)\<rparr>))"

definition UnregisterBuildCancel :: "string \<Rightarrow> err cprog" where
  "UnregisterBuildCancel buildID = ignore (modify (\<lambda>s. s\<lparr>cmProcesses := map_del buildID (cmProcesses s)\<rparr>))"

definition CancelBuild :: "string \<Rightarrow> err cprog" where
  "CancelBuild buildID = do {
     m \<leftarrow> gets cmProcesses;
     case map_of m buildID of
       None \<Rightarrow> ret (Some (Msg ''no active compose build process found''))
     | Some ctx \<Rightarrow> ignore (modify (\<lambda>s. s\<lparr>cmCancelled := ctx # cmCancelled s\<rparr>)) }"

section \<open>Projects\<close>

record Publisher =
  puURL :: string
  puTargetPort :: int
  puPublishedPort :: int
  puProtocol :: string

record ComposeStatus =
  csvCommand :: string
  csvCreatedAt :: string
  csvExitCode :: int
  csvHealth :: string
  csvID :: string
  csvImage :: string
  csvLabels :: string
  csvLocalVolumes :: string
  csvMounts :: string
  csvName :: string
  csvNames :: string
  csvNetworks :: string
  csvPorts :: string
  csvProject :: string
  csvPublishers :: "Publisher list"
  csvRunningFor :: string
  csvService :: string
  csvSize :: string
  csvState :: string
  csvStatus :: string

definition field_int :: "json \<Rightarrow> string \<Rightarrow> int option" where
  "field_int j k = (case obj_get j k of
     JNull \<Rightarrow> Some 0
   | JNum n \<Rightarrow> if - (2 ^ 63) \<le> n \<and> n < 2 ^ 63 then Some n else None
   | _ \<Rightarrow> None)"

definition isObject :: "json \<Rightarrow> bool" where
  "isObject j \<longleftrightarrow> (case j of JObj _ \<Rightarrow> True | JNull \<Rightarrow> True | _ \<Rightarrow> False)"

definition decodePublisher :: "json \<Rightarrow> Publisher option" where
  "decodePublisher j = (if \<not> isObject j then None else do {
     url \<leftarrow> field_string j ''URL'';
     target \<leftarrow> field_int j ''TargetPort'';
     published \<leftarrow> field_int j ''PublishedPort'';
     protocol \<leftarrow> field_string j ''Protocol'';
     Some \<lparr>puURL = url, puTargetPort = target, puPublishedPort = published, puProtocol = protocol\<rparr> })"

fun decodeAll :: "(json \<Rightarrow> 'a option) \<Rightarrow> json list \<Rightarrow> 'a list option" where
  "decodeAll decode [] = Some []"
| "decodeAll decode (j # js) = (case decode j of None \<Rightarrow> None | Some x \<Rightarrow> map_option ((#) x) (decodeAll decode js))"

definition field_publishers :: "json \<Rightarrow> Publisher list option" where
  "field_publishers j = (case obj_get j ''Publishers'' of JNull \<Rightarrow> Some [] | JArr xs \<Rightarrow> decodeAll decodePublisher xs | _ \<Rightarrow> None)"

definition decodeComposeStatus :: "json \<Rightarrow> ComposeStatus option" where
  "decodeComposeStatus j = (if \<not> isObject j then None else do {
     cmd \<leftarrow> field_string j ''Command'';
     created \<leftarrow> field_string j ''CreatedAt'';
     code \<leftarrow> field_int j ''ExitCode'';
     health \<leftarrow> field_string j ''Health'';
     cid \<leftarrow> field_string j ''ID'';
     img \<leftarrow> field_string j ''Image'';
     labels \<leftarrow> field_string j ''Labels'';
     volumes \<leftarrow> field_string j ''LocalVolumes'';
     mounts \<leftarrow> field_string j ''Mounts'';
     name \<leftarrow> field_string j ''Name'';
     names \<leftarrow> field_string j ''Names'';
     networks \<leftarrow> field_string j ''Networks'';
     ports \<leftarrow> field_string j ''Ports'';
     project \<leftarrow> field_string j ''Project'';
     publishers \<leftarrow> field_publishers j;
     runningFor \<leftarrow> field_string j ''RunningFor'';
     service \<leftarrow> field_string j ''Service'';
     sz \<leftarrow> field_string j ''Size'';
     st \<leftarrow> field_string j ''State'';
     status \<leftarrow> field_string j ''Status'';
     Some \<lparr>csvCommand = cmd, csvCreatedAt = created, csvExitCode = code, csvHealth = health, csvID = cid, csvImage = img, csvLabels = labels,
       csvLocalVolumes = volumes, csvMounts = mounts, csvName = name, csvNames = names, csvNetworks = networks, csvPorts = ports, csvProject = project,
       csvPublishers = publishers, csvRunningFor = runningFor, csvService = service, csvSize = sz, csvState = st, csvStatus = status\<rparr> })"

definition unmarshalError :: go_error where
  "unmarshalError = Msg ''json: cannot unmarshal''"

definition decodeValue :: "json \<Rightarrow> ComposeStatus list option" where
  "decodeValue value = (case value of
     JArr batch \<Rightarrow> decodeAll decodeComposeStatus batch
   | _ \<Rightarrow> map_option (\<lambda>x. [x]) (decodeComposeStatus value))"

fun parseComposePSOutput :: "json list \<Rightarrow> err \<Rightarrow> go_error + ComposeStatus list" where
  "parseComposePSOutput [] e = (case e of Some x \<Rightarrow> Inl x | None \<Rightarrow> Inr [])"
| "parseComposePSOutput (value # values) e =
     (case decodeValue value of
        None \<Rightarrow> Inl unmarshalError
      | Some xs \<Rightarrow> (case parseComposePSOutput values e of Inl x \<Rightarrow> Inl x | Inr ys \<Rightarrow> Inr (xs @ ys)))"

text \<open>Of an error of the command, \<open>rpFlag\<close> tells whether it is an exit of the process with another status than 0.\<close>

definition statusFrom :: "reply \<Rightarrow> go_error + ComposeStatus list" where
  "statusFrom r = (case rpErr r of
     Some e \<Rightarrow> if rpFlag r then Inr [] else Inl e
   | None \<Rightarrow> parseComposePSOutput (jElems (rpJson r)) (if rpStr r = [] then None else Some (Msg (rpStr r))))"

definition psCall :: "string \<Rightarrow> ext_call" where
  "psCall dockerComposePath = Ext ''docker'' [''compose'', ''-f'', dockerComposePath, ''ps'', ''-a'', ''--format'', ''json'']"

definition composeStatus :: "string \<Rightarrow> (go_error + ComposeStatus list) cprog" where
  "composeStatus dockerComposePath = do {
     supported \<leftarrow> gets cmSupported;
     if \<not> supported then ret (Inr [])
     else do {
       r \<leftarrow> ask ''docker'' [''compose'', ''-f'', dockerComposePath, ''ps'', ''-a'', ''--format'', ''json''];
       ret (statusFrom r) } }"

definition allRunning :: "ComposeStatus list \<Rightarrow> bool" where
  "allRunning statuses = list_all (\<lambda>st. csvState st = ''running'') statuses"

definition IsRunning :: "string \<Rightarrow> (go_error + bool) cprog" where
  "IsRunning dockerComposePath = do {
     r \<leftarrow> composeStatus dockerComposePath;
     ret (case r of Inl e \<Rightarrow> Inl e | Inr statuses \<Rightarrow> Inr (allRunning statuses)) }"

definition hasExited :: "ComposeStatus list \<Rightarrow> bool" where
  "hasExited statuses = list_ex (\<lambda>st. csvState st = ''exited'' \<or> csvState st = ''dead'') statuses"

definition composeRound :: "string \<Rightarrow> wait_result option cprog" where
  "composeRound dockerComposePath = do {
     ctx \<leftarrow> ask ''ctx.Done'' [];
     if rpFlag ctx then ret (Some (WaitError (Msg ''waiting for running canceled'')))
     else do {
       r \<leftarrow> composeStatus dockerComposePath;
       case r of
         Inl e \<Rightarrow> ret (Some (WaitError e))
       | Inr statuses \<Rightarrow>
           if statuses = [] then ret None
           else do {
             running \<leftarrow> IsRunning dockerComposePath;
             ret (case running of
               Inl e \<Rightarrow> Some (WaitError e)
             | Inr True \<Rightarrow> Some WaitRunning
             | Inr False \<Rightarrow> if hasExited statuses then Some (WaitError (Msg ''the container has exited'')) else None) } } }"

definition composeWaitForRunning :: "nat \<Rightarrow> string \<Rightarrow> wait_result option cprog" where
  "composeWaitForRunning n dockerComposePath = poll n (composeRound dockerComposePath)"

definition publishOne :: "string \<Rightarrow> (string \<times> uint64) list \<Rightarrow> Publisher \<Rightarrow> (string \<times> uint64) list" where
  "publishOne service published publisher =
     (if puPublishedPort publisher = 0 then published
      else map_put (PublishedPortKey service (word_of_int (puTargetPort publisher)) (puProtocol publisher)) (word_of_int (puPublishedPort publisher)) published)"

definition GetPublishedPorts :: "string \<Rightarrow> (go_error + (string \<times> uint64) list) cprog" where
  "GetPublishedPorts dockerComposePath = do {
     r \<leftarrow> composeStatus dockerComposePath;
     ret (case r of
       Inl e \<Rightarrow> Inl e
     | Inr statuses \<Rightarrow> Inr (foldl (\<lambda>published st. foldl (publishOne (csvService st)) published (csvPublishers st)) [] statuses)) }"

section \<open>Other queries\<close>

definition IsComposeSupported :: "bool cprog" where
  "IsComposeSupported = do { e \<leftarrow> askE ''docker'' [''compose'']; ret (e = None) }"

definition RefreshSupport :: "err cprog" where
  "RefreshSupport = do { b \<leftarrow> IsComposeSupported; ignore (modify (\<lambda>s. s\<lparr>cmSupported := b\<rparr>)) }"

record ComposeListEntry =
  leName :: string
  leStatus :: string
  leConfigFiles :: string

definition decodeListEntry :: "json \<Rightarrow> ComposeListEntry option" where
  "decodeListEntry j = (if \<not> isObject j then None else do {
     name \<leftarrow> field_string j ''Name'';
     status \<leftarrow> field_string j ''Status'';
     files \<leftarrow> field_string j ''ConfigFiles'';
     Some \<lparr>leName = name, leStatus = status, leConfigFiles = files\<rparr> })"

definition composeList :: "(go_error + ComposeListEntry list) cprog" where
  "composeList = do {
     supported \<leftarrow> gets cmSupported;
     if \<not> supported then ret (Inr [])
     else do {
       r \<leftarrow> ask ''docker'' [''compose'', ''ls'', ''-a'', ''--format'', ''json''];
       ret (case rpErr r of
         Some e \<Rightarrow> Inl e
       | None \<Rightarrow> (case rpJson r of
           JNull \<Rightarrow> Inr []
         | JArr xs \<Rightarrow> (case decodeAll decodeListEntry xs of None \<Rightarrow> Inl unmarshalError | Some es \<Rightarrow> Inr es)
         | _ \<Rightarrow> Inl unmarshalError)) } }"

definition composeLogs :: "string \<Rightarrow> LogQuery \<Rightarrow> (go_error + string list) cprog" where
  "composeLogs dockerComposePath query = do {
     binary \<leftarrow> gets binaryOf;
     r \<leftarrow> ask ''exec.CombinedOutput'' ([binary, ''compose'', ''-f'', dockerComposePath] @ ComposeArgs query);
     ret (case rpErr r of Some e \<Rightarrow> Inl e | None \<Rightarrow> Inr (rpLines r)) }"

definition LogsByContainerName :: "string \<Rightarrow> LogQuery \<Rightarrow> (go_error + string list) cprog" where
  "LogsByContainerName containerName query = do {
     r \<leftarrow> composeList;
     case r of
       Inl e \<Rightarrow> ret (Inl e)
     | Inr entries \<Rightarrow> (case rev (filter (\<lambda>e. leName e = containerName) entries) of
         [] \<Rightarrow> ret (Inl (Msg ''compose entry not found''))
       | entry # _ \<Rightarrow> composeLogs (leConfigFiles entry) query) }"

definition LogStream :: "string \<Rightarrow> (go_error + reply) cprog" where
  "LogStream dockerComposePath = do {
     r \<leftarrow> ask ''docker'' [''compose'', ''-f'', dockerComposePath, ''logs'', ''-f''];
     ret (case rpErr r of Some e \<Rightarrow> Inl e | None \<Rightarrow> Inr r) }"

definition HasComposeDir :: "string \<Rightarrow> Stage \<Rightarrow> bool cprog" where
  "HasComposeDir appName stage = do {
     s \<leftarrow> State_Monad.get;
     e \<leftarrow> askE ''os.Stat'' [(if stage = DEV then cmBuildDir s else cmComposeDir s) @ ''/'' @ appName];
     ret (e = None) }"

fun imagesOf :: "(string \<times> json) list \<Rightarrow> go_error + string list" where
  "imagesOf [] = Inr []"
| "imagesOf ((_, JObj service) # rest) =
     (case imagesOf rest of
        Inl e \<Rightarrow> Inl e
      | Inr images \<Rightarrow> (case obj_get (JObj service) ''image'' of JNull \<Rightarrow> Inr images | v \<Rightarrow> Inr (Sprint v # images)))"
| "imagesOf ((_, _) # rest) = Inl (Msg ''failed to infer service'')"

definition composeListImages :: "jmap \<Rightarrow> go_error + string list" where
  "composeListImages dockerCompose = (case jmap_get dockerCompose ''services'' of
     JObj services \<Rightarrow> imagesOf services
   | _ \<Rightarrow> Inl (Msg ''failed to infer services''))"

section \<open>What becomes of the output\<close>

fun printedLines :: "output_event list \<Rightarrow> string list" where
  "printedLines [] = []"
| "printedLines (Printed line # es) = line # printedLines es"
| "printedLines (Consumed # es) = printedLines es"

lemma printedLines_append: "printedLines (es @ es') = printedLines es @ printedLines es'"
  by (induction es rule: printedLines.induct) simp_all

text \<open>The lines that were read, \<open>ls\<close>, are in the tail, the channel and the hands of the consumer.\<close>

definition accounted :: "bool \<Rightarrow> string list \<Rightarrow> composeReader \<Rightarrow> bool" where
  "accounted streaming ls rd \<longleftrightarrow> tLines (rdTail rd) = drop (length ls - composeTailLines) ls
     \<and> subseq (rdTaken rd @ rdChannel rd) ls
     \<and> length (rdTaken rd) + length (rdChannel rd) + tDropped (rdTail rd) = (if streaming then length ls else 0)
     \<and> length (rdChannel rd) \<le> composeStreamBuffer"

lemma tailAdd_last:
  assumes "tLines t = drop (length ls - composeTailLines) ls"
  shows "tLines (tailAdd line t) = drop (length (ls @ [line]) - composeTailLines) (ls @ [line])"
proof (cases "length ls < composeTailLines")
  case True
  with assms show ?thesis by (simp add: tailAdd_def)
next
  case False
  then have "length (tLines t) = composeTailLines" using assms by simp
  moreover have "tl (drop (length ls - composeTailLines) ls) = drop (Suc (length ls) - composeTailLines) ls"
    using False by (simp add: drop_Suc tl_drop Suc_diff_le)
  ultimately show ?thesis using False assms by (simp add: tailAdd_def composeTailLines_def)
qed

lemma accounted_take: "accounted streaming ls rd \<Longrightarrow> accounted streaming ls (takeLine rd)"
  by (cases "rdChannel rd") (simp_all add: accounted_def takeLine_def)

lemma tail_dropped [simp]: "tDropped (tailAdd line t) = tDropped t" "tLines (recordDropped t) = tLines t" "tDropped (recordDropped t) = Suc (tDropped t)"
  by (simp_all add: tailAdd_def recordDropped_def)

lemma accounted_read:
  assumes "accounted streaming ls rd" and "\<not> rdEnded rd" and "fitsScanner line"
  shows "accounted streaming (ls @ [line]) (readLine streaming line rd) \<and> \<not> rdEnded (readLine streaming line rd)"
proof -
  have tail: "tLines (tailAdd line (rdTail rd)) = drop (length (ls @ [line]) - composeTailLines) (ls @ [line])"
    using assms(1) by (intro tailAdd_last) (simp add: accounted_def)
  have sub: "subseq (rdTaken rd @ rdChannel rd) ls" using assms(1) by (simp add: accounted_def)
  then have "subseq (rdTaken rd @ rdChannel rd @ [line]) (ls @ [line])" using list_emb_append_mono [of "(=)" "rdTaken rd @ rdChannel rd" ls "[line]" "[line]"] by simp
  moreover have "subseq (rdTaken rd @ rdChannel rd) (ls @ [line])" using list_emb_prefix [OF sub] by simp
  ultimately show ?thesis using assms tail by (auto simp: accounted_def readLine_def)
qed

lemma reader_accounted:
  "let rd = fold (outputStep streaming) es newReader in
     rdEnded rd = (\<not> list_all fitsScanner (printedLines es)) \<and> accounted streaming (takeWhile fitsScanner (printedLines es)) rd"
proof (induction es rule: rev_induct)
  case Nil
  then show ?case by (simp add: accounted_def newReader_def)
next
  case (snoc e es)
  let ?rd = "fold (outputStep streaming) es newReader"
  let ?ps = "printedLines es"
  have ended: "rdEnded ?rd = (\<not> list_all fitsScanner ?ps)" and acc: "accounted streaming (takeWhile fitsScanner ?ps) ?rd"
    using snoc by (simp_all add: Let_def)
  show ?case
  proof (cases e)
    case Consumed
    moreover have "rdEnded (takeLine ?rd) = rdEnded ?rd" by (simp add: takeLine_def split: list.split)
    ultimately show ?thesis using ended accounted_take [OF acc] by (simp add: printedLines_append Let_def)
  next
    case (Printed line)
    show ?thesis
    proof (cases "list_all fitsScanner ?ps")
      case False
      then have "takeWhile fitsScanner (?ps @ [line]) = takeWhile fitsScanner ?ps" by (auto simp: takeWhile_append list_all_iff)
      then show ?thesis using False ended acc Printed by (simp add: printedLines_append Let_def readLine_def)
    next
      case True
      then have all: "takeWhile fitsScanner ?ps = ?ps" "takeWhile fitsScanner (?ps @ [line]) = ?ps @ takeWhile fitsScanner [line]"
        by (simp_all add: takeWhile_append list_all_iff)
      show ?thesis
      proof (cases "fitsScanner line")
        case True
        then show ?thesis using accounted_read [OF acc _ True] ended \<open>list_all fitsScanner ?ps\<close> all Printed
          by (simp add: printedLines_append Let_def)
      next
        case False
        then show ?thesis using acc ended True all Printed by (simp add: printedLines_append Let_def readLine_def accounted_def)
      qed
    qed
  qed
qed

text \<open>
  However the reading of a command's output and the consumer of its stream interleave, the tail
  that explains a failure holds the last 25 lines read; the consumer gets lines of the output in
  their order, and every line read was delivered, is waiting in the channel or is counted as
  dropped. Only a line that the scanner cannot hold ends the reading.
\<close>

theorem compose_output_accounted:
  "let rd = fold (outputStep streaming) es newReader;
       ls = takeWhile fitsScanner (printedLines es) in
     tLines (rdTail rd) = drop (length ls - 25) ls
     \<and> subseq (rdTaken rd @ rdChannel rd) ls
     \<and> length (rdTaken rd) + length (rdChannel rd) + tDropped (rdTail rd) = (if streaming then length ls else 0)
     \<and> length (rdChannel rd) \<le> 4096"
  using reader_accounted [of streaming es] by (simp add: Let_def accounted_def composeTailLines_def composeStreamBuffer_def)

section \<open>The formats of the status\<close>

lemma decodeValue_single: "(\<And>xs. v \<noteq> JArr xs) \<Longrightarrow> decodeValue v = map_option (\<lambda>x. [x]) (decodeComposeStatus v)"
  by (cases v) (auto simp: decodeValue_def)

text \<open>
  The array that older versions of compose print and the objects, one per line, that newer ones
  print for the same containers are read alike, to the same statuses or to the same error.
\<close>

theorem ps_formats_agree:
  assumes "list_all (\<lambda>v. case v of JArr _ \<Rightarrow> False | _ \<Rightarrow> True) objects"
  shows "parseComposePSOutput [JArr objects] None = parseComposePSOutput objects None"
proof -
  have "parseComposePSOutput objects None = (case decodeAll decodeComposeStatus objects of None \<Rightarrow> Inl unmarshalError | Some xs \<Rightarrow> Inr xs)"
    using assms
  proof (induction objects)
    case (Cons v vs)
    then have "decodeValue v = map_option (\<lambda>x. [x]) (decodeComposeStatus v)" by (intro decodeValue_single) auto
    then show ?case using Cons by (auto split: option.splits sum.splits)
  qed simp
  then show ?thesis by (simp add: decodeValue_def split: option.split)
qed

section \<open>Waiting for a project\<close>

text \<open>What the queries of one round answer, at the calls made so far.\<close>

definition statusAt :: "ComposeClient \<Rightarrow> string \<Rightarrow> ext_call list \<Rightarrow> go_error + ComposeStatus list" where
  "statusAt s path tr = statusFrom (oExt s tr (psCall path))"

lemma run_composeStatus:
  "cmSupported s \<Longrightarrow> run_state (composeStatus path) s = (statusAt s path (oTrace s), s\<lparr>oTrace := oTrace s @ [psCall path]\<rparr>)"
  by (simp add: composeStatus_def run_ops statusAt_def psCall_def)

lemma run_IsRunning:
  "cmSupported s \<Longrightarrow> run_state (IsRunning path) s = (map_sum id allRunning (statusAt s path (oTrace s)), s\<lparr>oTrace := oTrace s @ [psCall path]\<rparr>)"
  by (simp add: IsRunning_def run_bind run_composeStatus State_Monad.return_def split: sum.split)

definition ctxCall :: ext_call where "ctxCall = Ext ''ctx.Done'' []"

text \<open>The round that makes its first query after \<open>tr\<close>, and what it concludes.\<close>

definition sawRunning :: "ComposeClient \<Rightarrow> string \<Rightarrow> ext_call list \<Rightarrow> bool" where
  "sawRunning s path tr \<longleftrightarrow> (\<exists>st sts sts'. statusAt s path tr = Inr (st # sts) \<and> statusAt s path (tr @ [psCall path]) = Inr sts' \<and> allRunning sts')"

lemma composeRound_run:
  assumes "cmSupported s" and "run_state (composeRound path) s = (v, s')"
  shows "oExt s' = oExt s \<and> cmSupported s' \<and> (v = Some WaitRunning \<longrightarrow> sawRunning s path (oTrace s @ [ctxCall]))"
proof (cases "rpFlag (oExt s (oTrace s) ctxCall)")
  case True
  then show ?thesis using assms by (auto simp: composeRound_def run_ops ctxCall_def)
next
  case False
  let ?s1 = "s\<lparr>oTrace := oTrace s @ [ctxCall]\<rparr>"
  have sup: "cmSupported ?s1" "cmSupported (?s1\<lparr>oTrace := oTrace ?s1 @ [psCall path]\<rparr>)" using assms(1) by simp_all
  show ?thesis
    using assms(2) False sup
    by (auto simp: composeRound_def run_bind run_ask run_composeStatus run_IsRunning State_Monad.return_def ctxCall_def [symmetric]
        sawRunning_def statusAt_def map_sum_def neq_Nil_conv split: sum.splits if_splits bool.splits)
qed

text \<open>
  Waiting for a project that compose supports reports it as running only when one query found
  containers of it and the next one found none of them in another state than running.
\<close>

theorem compose_wait_sound:
  assumes "cmSupported s" and "fst (run_state (composeWaitForRunning n path) s) = Some WaitRunning"
  shows "\<exists>tr. sawRunning s path tr"
  using assms
proof (induction n arbitrary: s)
  case 0
  then show ?case by (simp add: composeWaitForRunning_def run_ops)
next
  case (Suc n)
  obtain v s1 where round1: "run_state (composeRound path) s = (v, s1)" by force
  note one = composeRound_run [OF Suc.prems(1) round1]
  show ?case
  proof (cases v)
    case None
    then have "fst (run_state (composeWaitForRunning n path) s1) = Some WaitRunning"
      using Suc.prems(2) round1 by (simp add: composeWaitForRunning_def run_bind)
    then have "\<exists>tr. sawRunning s1 path tr" using Suc.IH one by blast
    then show ?thesis using one by (simp add: sawRunning_def statusAt_def)
  next
    case (Some w)
    then have "w = WaitRunning" using Suc.prems(2) round1 by (simp add: composeWaitForRunning_def run_bind State_Monad.return_def)
    then show ?thesis using one Some by blast
  qed
qed

section \<open>Examples, and what is not as intended\<close>

definition demo_object :: json where
  "demo_object = JObj [(''Service'', JStr ''web''), (''State'', JStr ''running'')]"

theorem ps_formats_agree_witness:
  "parseComposePSOutput [JArr [demo_object, demo_object]] None = parseComposePSOutput [demo_object, demo_object] None"
  by (rule ps_formats_agree) (simp add: demo_object_def)

definition demo_compose :: ComposeClient where
  "demo_compose = \<lparr>oTrace = [], oExt = (\<lambda>_ _. NoAnswer\<lparr>rpJson := JArr [demo_object]\<rparr>), cmSupported = True, cmBinary = [], cmBuildDir = ''/b'', cmComposeDir = ''/c'',
     cmProcesses = [], cmCancelled = []\<rparr>"

theorem compose_wait_sound_witness: "\<exists>tr. sawRunning demo_compose ''f'' tr"
proof (rule compose_wait_sound)
  show "cmSupported demo_compose" by (simp add: demo_compose_def)
  show "fst (run_state (composeWaitForRunning 1 ''f'') demo_compose) = Some WaitRunning" by code_simp
qed

text \<open>The second query of a round may find nothing, and nothing is taken for running.\<close>

definition vanishing_compose :: ComposeClient where
  "vanishing_compose = demo_compose\<lparr>oExt := (\<lambda>tr _. if length tr \<le> 1 then NoAnswer\<lparr>rpJson := JArr [JObj [(''State'', JStr ''exited'')]]\<rparr> else NoAnswer)\<rparr>"

lemma vanished_is_running: "fst (run_state (composeWaitForRunning 1 ''f'') vanishing_compose) = Some WaitRunning"
  by code_simp

text \<open>On a device without compose a wait asks nothing and goes on, without a pause, until its context ends.\<close>

lemma unsupported_waits:
  assumes "\<not> cmSupported s" and "\<And>tr. \<not> rpFlag (oExt s tr ctxCall)"
  shows "fst (run_state (composeWaitForRunning n path) s) = None"
  using assms
proof (induction n arbitrary: s)
  case 0
  then show ?case by (simp add: composeWaitForRunning_def run_ops)
next
  case (Suc n)
  have "run_state (composeRound path) s = (None, s\<lparr>oTrace := oTrace s @ [ctxCall]\<rparr>)"
    using Suc.prems by (simp add: composeRound_def composeStatus_def run_ops ctxCall_def)
  then show ?case using Suc.IH [of "s\<lparr>oTrace := oTrace s @ [ctxCall]\<rparr>"] Suc.prems by (simp add: composeWaitForRunning_def run_bind)
qed

text \<open>A line the scanner cannot hold still ends the reading, as the raised limit was to avoid.\<close>

lemma long_line_ends_reading:
  assumes "\<not> fitsScanner line"
  shows "fold (outputStep streaming) (Printed line # map Printed rest) newReader = newReader\<lparr>rdEnded := True\<rparr>"
proof -
  have "fold (outputStep streaming) (map Printed rest) rd = rd" if "rdEnded rd" for rd
    using that by (induction rest) (simp_all add: readLine_def)
  then show ?thesis using assms by (simp add: readLine_def newReader_def)
qed

end
