(* ===== verification/Terminals.thy ===== *)
theory Terminals
  imports Handlers
begin

text \<open>
  \<^verbatim>\<open>terminal/pty.go\<close>: the terminals of the device. The bytes a shell prints are cut at rune boundaries
  before they are published; the goroutines of a terminal (its read loop, the publisher of its
  output and its teardown) are phases of a record, and every interleaving of their steps with the
  shell, the router and the timeouts is a run. A send on the unbuffered output channel is the step
  in which both sides meet; a send on a closed channel would set \<open>ptPanicked\<close>.
\<close>

unbundle bit_operations_syntax

section \<open>Runes that are split across reads\<close>

type_synonym byte = "8 word"

text \<open>\<^verbatim>\<open>utf8.RuneStart\<close>.\<close>

definition RuneStart :: "byte \<Rightarrow> bool" where
  "RuneStart b \<longleftrightarrow> b AND 0xC0 \<noteq> 0x80"

definition runeLen :: "byte \<Rightarrow> nat" where
  "runeLen c =
     (if c AND 0x80 = 0 then 1
      else if c AND 0xE0 = 0xC0 then 2
      else if c AND 0xF0 = 0xE0 then 3
      else if c AND 0xF8 = 0xF0 then 4
      else 1)"

definition UTFMax :: nat where "UTFMax = 4"

function splitScan :: "nat \<Rightarrow> byte list \<Rightarrow> byte list \<times> byte list" where
  "splitScan i b =
     (if i < UTFMax \<and> i < length b then
        let idx = length b - 1 - i in
        if \<not> RuneStart (b ! idx) then splitScan (Suc i) b
        else if runeLen (b ! idx) > i + 1 then (take idx b, drop idx b)
        else (b, [])
      else (b, []))"
  by pat_completeness auto
termination by (relation "measure (\<lambda>(i, b). UTFMax - i)") auto

declare splitScan.simps [simp del]

definition splitTrailingPartialRune :: "byte list \<Rightarrow> byte list \<times> byte list" where
  "splitTrailingPartialRune b = splitScan 0 b"

text \<open>The read loop: the bytes it holds back, in an array of four, and what it has sent.\<close>

record read_loop =
  rlCarry :: "byte list"
  rlSent :: "byte list list"

definition newReadLoop :: read_loop where
  "newReadLoop = \<lparr>rlCarry = [], rlSent = []\<rparr>"

definition emit :: "byte list \<Rightarrow> read_loop \<Rightarrow> read_loop" where
  "emit out rl = (if out = [] then rl else rl\<lparr>rlSent := rlSent rl @ [out]\<rparr>)"

definition readChunk :: "byte list \<Rightarrow> read_loop \<Rightarrow> read_loop" where
  "readChunk buffer rl =
     (if buffer = [] then rl
      else let (complete, partial) = splitTrailingPartialRune (rlCarry rl @ buffer)
           in emit complete (rl\<lparr>rlCarry := take UTFMax partial\<rparr>))"

definition readEnd :: "read_loop \<Rightarrow> read_loop" where
  "readEnd rl = emit (rlCarry rl) rl"

section \<open>Sizes\<close>

text \<open>A value of a payload by its dynamic type; a float is given by its integral part.\<close>

datatype dim_value = DimUint64 uint64 | DimInt64 uint64 | DimInt uint64 | DimUint32 "32 word" | DimInt32 "32 word" | DimFloat64 int | DimOther

definition maxTerminalDimension :: int where "maxTerminalDimension = 32767"

definition asInt64 :: "dim_value \<Rightarrow> int option" where
  "asInt64 v = (case v of
     DimUint64 n \<Rightarrow> Some (sint n) | DimInt64 n \<Rightarrow> Some (sint n) | DimInt n \<Rightarrow> Some (sint n)
   | DimUint32 n \<Rightarrow> Some (uint n) | DimInt32 n \<Rightarrow> Some (sint n)
   | DimFloat64 n \<Rightarrow> Some (sint (word_of_int n :: uint64))
   | DimOther \<Rightarrow> None)"

definition parseDimension :: "dim_value \<Rightarrow> go_error + 16 word" where
  "parseDimension value = (case asInt64 value of
     None \<Rightarrow> Inl (Msg ''unexpected type'')
   | Some n \<Rightarrow> if n < 0 \<or> n > maxTerminalDimension then Inl (Msg ''out of range'') else Inr (word_of_int n))"

record TerminalSize =
  tsRows :: "16 word"
  tsCols :: "16 word"

definition clampTerminalSize :: "TerminalSize \<Rightarrow> (16 word \<times> 16 word) option" where
  "clampTerminalSize sz =
     (if tsRows sz = 0 \<or> tsCols sz = 0 then None
      else if uint (tsRows sz) > maxTerminalDimension \<or> uint (tsCols sz) > maxTerminalDimension then None
      else Some (tsRows sz, tsCols sz))"

text \<open>The handlers of the two control topics, up to the send on their channel.\<close>

definition writeHandler :: "json list \<Rightarrow> go_error + string" where
  "writeHandler args = (case args of
     [] \<Rightarrow> Inl (Msg ''failed to parse args, payload is missing'')
   | JStr data # _ \<Rightarrow> Inr data
   | _ \<Rightarrow> Inl (Msg ''failed to parse args''))"

definition dimAt :: "string \<Rightarrow> (string \<times> dim_value) list \<Rightarrow> go_error + 16 word" where
  "dimAt k payload = (case parseDimension (case map_of payload k of Some v \<Rightarrow> v | None \<Rightarrow> DimOther) of
     Inl e \<Rightarrow> Inl (Wrap (''failed to parse '' @ k) e)
   | Inr d \<Rightarrow> Inr d)"

text \<open>The payload is \<open>None\<close> when it is no map; no argument at all is the outer \<open>None\<close>.\<close>

definition resizeHandler :: "(string \<times> dim_value) list option option \<Rightarrow> go_error + TerminalSize" where
  "resizeHandler arg = (case arg of
     None \<Rightarrow> Inl (Msg ''failed to parse args, payload is missing'')
   | Some None \<Rightarrow> Inl (Msg ''failed to parse args'')
   | Some (Some payload) \<Rightarrow>
       (case dimAt ''height'' payload of
          Inl e \<Rightarrow> Inl e
        | Inr height \<Rightarrow>
            (case dimAt ''width'' payload of
               Inl e \<Rightarrow> Inl e
             | Inr width \<Rightarrow> Inr \<lparr>tsRows = height, tsCols = width\<rparr>)))"

section \<open>Nothing is lost and no rune is cut\<close>

lemma splitScan_append: "fst (splitScan i b) @ snd (splitScan i b) = b"
proof (induction i b rule: splitScan.induct)
  case (1 i b)
  then show ?case by (subst (1 2) splitScan.simps) (auto simp: Let_def)
qed

lemma runeLen_le: "runeLen c \<le> 4"
  by (simp add: runeLen_def)

lemma splitScan_short: "length (snd (splitScan i b)) < UTFMax"
proof (induction i b rule: splitScan.induct)
  case (1 i b)
  show ?case
  proof (cases "i < UTFMax \<and> i < length b \<and> \<not> RuneStart (b ! (length b - 1 - i))")
    case True
    then show ?thesis using 1 by (subst splitScan.simps) (simp add: Let_def)
  next
    case False
    have "length b - (length b - 1 - i) < UTFMax" if "i < length b" "runeLen (b ! (length b - 1 - i)) > i + 1"
      using that runeLen_le [of "b ! (length b - 1 - i)"] by (simp add: UTFMax_def)
    then show ?thesis using False by (subst splitScan.simps) (auto simp: Let_def UTFMax_def)
  qed
qed

lemma concat_emit: "concat (rlSent (emit out rl)) = concat (rlSent rl) @ out" "rlCarry (emit out rl) = rlCarry rl"
  by (simp_all add: emit_def)

lemma readChunk_lossless: "concat (rlSent (readChunk buffer rl)) @ rlCarry (readChunk buffer rl) = concat (rlSent rl) @ rlCarry rl @ buffer"
proof -
  obtain complete partial where split: "splitTrailingPartialRune (rlCarry rl @ buffer) = (complete, partial)" by force
  then have "complete @ partial = rlCarry rl @ buffer" "take UTFMax partial = partial"
    using splitScan_append [of 0 "rlCarry rl @ buffer"] splitScan_short [of 0 "rlCarry rl @ buffer"] by (simp_all add: splitTrailingPartialRune_def)
  then show ?thesis using split by (simp add: readChunk_def concat_emit)
qed

lemma read_lossless: "concat (rlSent (fold readChunk chunks rl)) @ rlCarry (fold readChunk chunks rl) = concat (rlSent rl) @ rlCarry rl @ concat chunks"
proof (induction chunks arbitrary: rl)
  case (Cons buffer chunks)
  then show ?case using readChunk_lossless [of buffer rl] by simp
qed simp

text \<open>
  The shape of an encoded rune: a start byte that announces its length and continuation bytes.
  Every rune that UTF-8 encodes has it.
\<close>

definition isRune :: "byte list \<Rightarrow> bool" where
  "isRune r \<longleftrightarrow> (case r of [] \<Rightarrow> False | c # conts \<Rightarrow> RuneStart c \<and> runeLen c = length r \<and> list_all (\<lambda>x. \<not> RuneStart x) conts)"

lemma splitScan_conts:
  assumes "RuneStart c" and "list_all (\<lambda>x. \<not> RuneStart x) conts" and "length conts < UTFMax" and "i \<le> length conts"
  shows "splitScan i (pre @ c # conts) = (if runeLen c > Suc (length conts) then (pre, c # conts) else (pre @ c # conts, []))"
  using assms(4)
proof (induction "length conts - i" arbitrary: i)
  case 0
  then have "i = length conts" by simp
  then show ?case using assms(1,3) by (subst splitScan.simps) (simp add: Let_def)
next
  case (Suc k)
  then have i: "i < length conts" by simp
  then have "length pre + length conts - i = length pre + Suc (length conts - Suc i)" by simp
  then have "(pre @ c # conts) ! (length pre + length conts - i) = conts ! (length conts - Suc i)"
    by (simp only: nth_append_length_plus nth_Cons_Suc)
  then have "\<not> RuneStart ((pre @ c # conts) ! (length (pre @ c # conts) - 1 - i))"
    using assms(2) i by (simp add: list_all_length)
  then have "splitScan i (pre @ c # conts) = splitScan (Suc i) (pre @ c # conts)"
    using i assms(3) by (subst splitScan.simps) (simp add: Let_def)
  then show ?case using Suc i by simp
qed

lemma isRune_cases:
  assumes "isRune r"
  obtains c conts where "r = c # conts" "RuneStart c" "runeLen c = Suc (length conts)" "list_all (\<lambda>x. \<not> RuneStart x) conts" "length conts < UTFMax"
proof (cases r)
  case Nil
  then show ?thesis using assms by (simp add: isRune_def)
next
  case (Cons c conts)
  then show ?thesis using assms that runeLen_le [of c] by (simp add: isRune_def UTFMax_def)
qed

lemma split_partial:
  assumes "isRune (p @ q)" and "p \<noteq> []" and "q \<noteq> []"
  shows "splitTrailingPartialRune (pre @ p) = (pre, p)"
proof -
  obtain c conts where r: "p @ q = c # conts" "RuneStart c" "runeLen c = Suc (length conts)" "list_all (\<lambda>x. \<not> RuneStart x) conts" "length conts < UTFMax"
    using isRune_cases [OF assms(1)] .
  then obtain conts1 where p: "p = c # conts1" "conts = conts1 @ q" using assms(2) by (cases p) auto
  then show ?thesis using r assms(3) splitScan_conts [of c conts1 0 pre] by (simp add: splitTrailingPartialRune_def)
qed

lemma split_complete:
  assumes "list_all isRune rs"
  shows "splitTrailingPartialRune (concat rs) = (concat rs, [])"
proof (cases rs rule: rev_cases)
  case Nil
  then show ?thesis by (simp add: splitTrailingPartialRune_def splitScan.simps)
next
  case (snoc rs' r)
  then obtain c conts where "r = c # conts" "RuneStart c" "runeLen c = Suc (length conts)" "list_all (\<lambda>x. \<not> RuneStart x) conts" "length conts < UTFMax"
    using assms isRune_cases [of r] by auto
  then show ?thesis using splitScan_conts [of c conts 0 "concat rs'"] snoc by (simp add: splitTrailingPartialRune_def)
qed

text \<open>A prefix of encoded runes is some of them and a proper part of the next.\<close>

definition partOf :: "byte list \<Rightarrow> byte list list \<Rightarrow> bool" where
  "partOf p rs \<longleftrightarrow> p = [] \<or> (\<exists>q rs'. rs = (p @ q) # rs' \<and> q \<noteq> [])"

lemma rune_prefix: "x @ y = concat rs \<Longrightarrow> \<exists>full rest p. rs = full @ rest \<and> x = concat full @ p \<and> partOf p rest"
proof (induction rs arbitrary: x)
  case Nil
  then show ?case by (auto simp: partOf_def)
next
  case (Cons r rs)
  then consider z where "x = r @ z" "z @ y = concat rs" | z where "r = x @ z" "z \<noteq> []"
    by (auto simp: append_eq_append_conv2) (metis append_Nil2)
  then show ?case
  proof cases
    case 1
    then obtain full rest p where "rs = full @ rest" "z = concat full @ p" "partOf p rest" using Cons.IH by blast
    then show ?thesis using 1 by (intro exI [of _ "r # full"] exI [of _ rest] exI [of _ p]) simp
  next
    case 2
    then show ?thesis by (intro exI [of _ "[]"] exI [of _ "r # rs"] exI [of _ x]) (auto simp: partOf_def)
  qed
qed

lemma split_runes:
  assumes "list_all isRune rs" and "rs = full @ rest" and "partOf p rest"
  shows "splitTrailingPartialRune (concat full @ p) = (concat full, p)"
proof (cases "p = []")
  case True
  then show ?thesis using split_complete [of full] assms by simp
next
  case False
  then obtain q rs' where "rest = (p @ q) # rs'" "q \<noteq> []" using assms(3) by (auto simp: partOf_def)
  then show ?thesis using split_partial [of p q "concat full"] False assms(1,2) by simp
qed

definition cut_at_runes :: "byte list list \<Rightarrow> byte list \<Rightarrow> read_loop \<Rightarrow> bool" where
  "cut_at_runes rs ahead rl \<longleftrightarrow> (\<exists>rss rest. rs = concat rss @ rest \<and> rlSent rl = map concat rss \<and> rlCarry rl @ ahead = concat rest \<and> partOf (rlCarry rl) rest)"

lemma readChunk_cut:
  assumes "list_all isRune rs" and "cut_at_runes rs (buffer @ ahead) rl"
  shows "cut_at_runes rs ahead (readChunk buffer rl)"
proof (cases "buffer = []")
  case True
  then show ?thesis using assms(2) by (simp add: readChunk_def)
next
  case False
  obtain rss rest where rest: "rs = concat rss @ rest" "rlSent rl = map concat rss" "rlCarry rl @ buffer @ ahead = concat rest"
    using assms(2) by (auto simp: cut_at_runes_def)
  then obtain full rest' p where part: "rest = full @ rest'" "rlCarry rl @ buffer = concat full @ p" "partOf p rest'"
    using rune_prefix [of "rlCarry rl @ buffer" ahead rest] by auto
  have runes: "list_all isRune full" "list_all isRune rest" using assms(1) rest(1) part(1) by simp_all
  have split: "splitTrailingPartialRune (rlCarry rl @ buffer) = (concat full, p)"
    unfolding part(2) by (rule split_runes [OF runes(2) part(1,3)])
  then have "length p < UTFMax" using splitScan_short [of 0 "rlCarry rl @ buffer"] by (simp add: splitTrailingPartialRune_def)
  moreover have "p @ ahead = concat rest'" using rest(3) part by (metis append_assoc concat_append same_append_eq)
  moreover have "full = [] \<longleftrightarrow> concat full = []" using runes(1) by (cases full) (auto simp: isRune_def)
  ultimately have "cut_at_runes rs ahead (emit (concat full) (rl\<lparr>rlCarry := take UTFMax p\<rparr>))"
    unfolding cut_at_runes_def using rest part
    by (intro exI [of _ "if full = [] then rss else rss @ [full]"] exI [of _ rest']) (auto simp: emit_def)
  then show ?thesis using split False by (simp add: readChunk_def)
qed

lemma reads_cut:
  "list_all isRune rs \<Longrightarrow> cut_at_runes rs (concat chunks @ ahead) rl \<Longrightarrow> cut_at_runes rs ahead (fold readChunk chunks rl)"
proof (induction chunks arbitrary: rl)
  case (Cons buffer chunks)
  then show ?case using readChunk_cut [of rs buffer "concat chunks @ ahead" rl] by simp
qed simp


section \<open>The goroutines of a terminal\<close>

datatype reader_phase =
    Reading
  | Sending bool \<comment> \<open>offers a chunk; the read that gave it returned an error as well\<close>
  | ReadErr \<comment> \<open>a read returned an error\<close>
  | Flushing \<comment> \<open>offers the bytes held back\<close>
  | ReaderDone

datatype cleaner_phase =
    NoCleaner \<comment> \<open>before \<^verbatim>\<open>Setup\<close>\<close>
  | AwaitCleanup
  | AwaitReader
  | SendEOF bool \<comment> \<open>\<^verbatim>\<open>readFinished\<close>\<close>
  | Leaving bool
  | CleanerDone

record PseudoTerminal =
  ptId :: string
  ptSessionID :: string
  ptWriteTopic :: string
  ptDataTopic :: string
  ptResizeTopic :: string
  ptReader :: reader_phase
  ptCleaner :: cleaner_phase
  ptPublishing :: bool \<comment> \<open>the publisher waits for the router and does not receive\<close>
  ptCleanup :: bool \<comment> \<open>the channel \<^verbatim>\<open>Cleanup\<close> is closed\<close>
  ptOutputClosed :: bool
  ptPanicked :: bool

definition newPseudoTerminal :: "string \<Rightarrow> PseudoTerminal" where
  "newPseudoTerminal i = \<lparr>ptId = i, ptSessionID = [], ptWriteTopic = [], ptDataTopic = [], ptResizeTopic = [], ptReader = Reading, ptCleaner = NoCleaner,
     ptPublishing = False, ptCleanup = False, ptOutputClosed = False, ptPanicked = False\<rparr>"

definition signalCleanup :: "PseudoTerminal \<Rightarrow> PseudoTerminal" where
  "signalCleanup pT = pT\<lparr>ptCleanup := True\<rparr>"

text \<open>The publisher, which \<^verbatim>\<open>Setup\<close> starts, is ready to receive.\<close>

definition receives :: "PseudoTerminal \<Rightarrow> bool" where
  "receives pT \<longleftrightarrow> ptCleaner pT \<noteq> NoCleaner \<and> \<not> ptPublishing pT \<and> \<not> ptOutputClosed pT"

inductive goroutine_step :: "PseudoTerminal \<Rightarrow> PseudoTerminal \<Rightarrow> bool" where
  read_data: "ptReader pT = Reading \<Longrightarrow> goroutine_step pT (pT\<lparr>ptReader := Sending er\<rparr>)"
| read_error: "ptReader pT = Reading \<Longrightarrow> goroutine_step pT (pT\<lparr>ptReader := ReadErr\<rparr>)"
| sent: "ptReader pT = Sending er \<Longrightarrow> receives pT \<Longrightarrow> goroutine_step pT (pT\<lparr>ptReader := (if er then ReadErr else Reading), ptPublishing := True\<rparr>)"
| sent_closed: "ptReader pT = Sending er \<Longrightarrow> ptOutputClosed pT \<Longrightarrow> goroutine_step pT (pT\<lparr>ptPanicked := True\<rparr>)"
| send_abandoned: "ptReader pT = Sending er \<Longrightarrow> ptCleanup pT \<Longrightarrow> goroutine_step pT (pT\<lparr>ptReader := ReaderDone\<rparr>)"
| carry_left: "ptReader pT = ReadErr \<Longrightarrow> goroutine_step pT (pT\<lparr>ptReader := Flushing\<rparr>)"
| no_carry: "ptReader pT = ReadErr \<Longrightarrow> goroutine_step pT ((signalCleanup pT)\<lparr>ptReader := ReaderDone\<rparr>)"
| flushed: "ptReader pT = Flushing \<Longrightarrow> receives pT \<Longrightarrow> goroutine_step pT ((signalCleanup pT)\<lparr>ptReader := ReaderDone, ptPublishing := True\<rparr>)"
| flush_closed: "ptReader pT = Flushing \<Longrightarrow> ptOutputClosed pT \<Longrightarrow> goroutine_step pT (pT\<lparr>ptPanicked := True\<rparr>)"
| flush_abandoned: "ptReader pT = Flushing \<Longrightarrow> ptCleanup pT \<Longrightarrow> goroutine_step pT ((signalCleanup pT)\<lparr>ptReader := ReaderDone\<rparr>)"
| published: "ptPublishing pT \<Longrightarrow> goroutine_step pT (pT\<lparr>ptPublishing := False\<rparr>)"
| exited: "goroutine_step pT (signalCleanup pT)" \<comment> \<open>the shell is gone and the read loop had its time\<close>
| cleanup_begins: "ptCleaner pT = AwaitCleanup \<Longrightarrow> ptCleanup pT \<Longrightarrow> goroutine_step pT (pT\<lparr>ptCleaner := AwaitReader\<rparr>)"
| drained: "ptCleaner pT = AwaitReader \<Longrightarrow> ptReader pT = ReaderDone \<Longrightarrow> goroutine_step pT (pT\<lparr>ptCleaner := SendEOF True\<rparr>)"
| drain_timeout: "ptCleaner pT = AwaitReader \<Longrightarrow> goroutine_step pT (pT\<lparr>ptCleaner := SendEOF False\<rparr>)"
| eof_sent: "ptCleaner pT = SendEOF rf \<Longrightarrow> receives pT \<Longrightarrow> goroutine_step pT (pT\<lparr>ptCleaner := Leaving rf, ptPublishing := True\<rparr>)"
| eof_closed: "ptCleaner pT = SendEOF rf \<Longrightarrow> ptOutputClosed pT \<Longrightarrow> goroutine_step pT (pT\<lparr>ptPanicked := True\<rparr>)"
| eof_timeout: "ptCleaner pT = SendEOF rf \<Longrightarrow> goroutine_step pT (pT\<lparr>ptCleaner := Leaving rf\<rparr>)"

section \<open>The terminals of the device\<close>

record TerminalHost = outside +
  thTerminals :: "PseudoTerminal list"
  thCache :: "(string \<times> nat) list" \<comment> \<open>\<^verbatim>\<open>pseudoTerminals\<close>; an entry that is nil is absent\<close>
  thSerialNumber :: string

type_synonym 'a tprog = "(TerminalHost, 'a) state"

definition GetPseudoTerminal :: "string \<Rightarrow> nat option tprog" where
  "GetPseudoTerminal i = gets (\<lambda>s. map_of (thCache s) i)"

definition GetOrCreatePseudoTerminal :: "string \<Rightarrow> (go_error + nat \<times> bool) tprog" where
  "GetOrCreatePseudoTerminal i = do {
     existing \<leftarrow> GetPseudoTerminal i;
     case existing of
       Some n \<Rightarrow> ret (Inr (n, False))
     | None \<Rightarrow> do {
         e \<leftarrow> askE ''startHostShell'' [];
         case e of
           Some x \<Rightarrow> ret (Inl x)
         | None \<Rightarrow> do {
             n \<leftarrow> gets (\<lambda>s. length (thTerminals s));
             _ \<leftarrow> modify (\<lambda>s. s\<lparr>thTerminals := thTerminals s @ [newPseudoTerminal i], thCache := map_put i n (thCache s)\<rparr>);
             ret (Inr (n, True)) } } }"

definition registerControlTopics :: "PseudoTerminal \<Rightarrow> err tprog" where
  "registerControlTopics pT = do {
     _ \<leftarrow> askE ''Messenger.Subscribe'' [ptWriteTopic pT];
     _ \<leftarrow> askE ''Messenger.Register'' [ptResizeTopic pT];
     ret None }"

definition prepared :: "string \<Rightarrow> string \<Rightarrow> PseudoTerminal \<Rightarrow> PseudoTerminal" where
  "prepared serial sessionID pT = pT\<lparr>ptSessionID := sessionID,
     ptWriteTopic := BuildExternalApiTopic serial (''term_write.'' @ sessionID),
     ptDataTopic := BuildExternalApiTopic serial (''data.'' @ sessionID),
     ptResizeTopic := BuildExternalApiTopic serial (''term_resize.'' @ sessionID)\<rparr>"

definition update_terminal :: "nat \<Rightarrow> (PseudoTerminal \<Rightarrow> PseudoTerminal) \<Rightarrow> err tprog" where
  "update_terminal n f = ignore (modify (\<lambda>s. s\<lparr>thTerminals := (thTerminals s)[n := f (thTerminals s ! n)]\<rparr>))"

definition SetupTerminal :: "nat \<Rightarrow> err tprog" where
  "SetupTerminal n = do {
     uuid \<leftarrow> ask ''uuid.NewString'' [];
     serial \<leftarrow> gets thSerialNumber;
     _ \<leftarrow> update_terminal n (prepared serial (rpStr uuid));
     pT \<leftarrow> gets (\<lambda>s. thTerminals s ! n);
     _ \<leftarrow> registerControlTopics pT;
     update_terminal n (\<lambda>pT. pT\<lparr>ptCleaner := AwaitCleanup\<rparr>) }"

text \<open>The end of the teardown: the topics go, the channel is closed, the terminal leaves the cache.\<close>

definition leave :: "nat \<Rightarrow> bool \<Rightarrow> err tprog" where
  "leave n readFinished = do {
     pT \<leftarrow> gets (\<lambda>s. thTerminals s ! n);
     _ \<leftarrow> askE ''Messenger.Unsubscribe'' [ptWriteTopic pT];
     _ \<leftarrow> askE ''Messenger.Unregister'' [ptResizeTopic pT];
     _ \<leftarrow> update_terminal n (\<lambda>pT. pT\<lparr>ptCleaner := CleanerDone, ptPanicked := ptPanicked pT \<or> (readFinished \<and> ptOutputClosed pT),
           ptOutputClosed := ptOutputClosed pT \<or> readFinished\<rparr>);
     ignore (modify (\<lambda>s. if map_of (thCache s) (ptId pT) = Some n then s\<lparr>thCache := map_del (ptId pT) (thCache s)\<rparr> else s)) }"

fun reregister :: "(string \<times> nat) list \<Rightarrow> err tprog" where
  "reregister [] = ret None"
| "reregister ((i, n) # rest) = do {
     pT \<leftarrow> gets (\<lambda>s. thTerminals s ! n);
     _ \<leftarrow> registerControlTopics pT;
     reregister rest }"

definition ReregisterControlTopics :: "err tprog" where
  "ReregisterControlTopics = do { terms \<leftarrow> gets thCache; reregister terms }"

abbreviation post :: "'a tprog \<Rightarrow> TerminalHost \<Rightarrow> TerminalHost" where
  "post m s \<equiv> snd (run_state m s)"

inductive host_step :: "TerminalHost \<Rightarrow> TerminalHost \<Rightarrow> bool" where
  goroutine: "n < length (thTerminals s) \<Longrightarrow> goroutine_step (thTerminals s ! n) pT \<Longrightarrow> host_step s (s\<lparr>thTerminals := (thTerminals s)[n := pT]\<rparr>)"
| called: "host_step s (post (GetOrCreatePseudoTerminal i) s)"
| set_up: "n < length (thTerminals s) \<Longrightarrow> ptCleaner (thTerminals s ! n) = NoCleaner \<Longrightarrow> host_step s (post (SetupTerminal n) s)"
| leaving: "n < length (thTerminals s) \<Longrightarrow> ptCleaner (thTerminals s ! n) = Leaving rf \<Longrightarrow> host_step s (post (leave n rf) s)"
| reconnected: "host_step s (post ReregisterControlTopics s)"

inductive host_reachable :: "TerminalHost \<Rightarrow> bool" where
  start: "host_reachable \<lparr>oTrace = [], oExt = outer, thTerminals = [], thCache = [], thSerialNumber = serial\<rparr>"
| step: "host_reachable s \<Longrightarrow> host_step s s' \<Longrightarrow> host_reachable s'"

section \<open>Invariants\<close>

definition terminal_ok :: "PseudoTerminal \<Rightarrow> bool" where
  "terminal_ok pT \<longleftrightarrow> \<not> ptPanicked pT
     \<and> (ptOutputClosed pT \<longrightarrow> ptReader pT = ReaderDone \<and> ptCleaner pT = CleanerDone)
     \<and> (ptCleaner pT = SendEOF True \<or> ptCleaner pT = Leaving True \<longrightarrow> ptReader pT = ReaderDone)
     \<and> (ptReader pT = ReaderDone \<longrightarrow> ptCleanup pT)"

definition host_ok :: "TerminalHost \<Rightarrow> bool" where
  "host_ok s \<longleftrightarrow> list_all terminal_ok (thTerminals s) \<and> distinct (map fst (thCache s))
     \<and> (\<forall>i n. map_of (thCache s) i = Some n \<longleftrightarrow> n < length (thTerminals s) \<and> ptId (thTerminals s ! n) = i \<and> ptCleaner (thTerminals s ! n) \<noteq> CleanerDone)"

inductive_cases goroutine_stepE: "goroutine_step pT pT'"

lemma goroutine_keeps:
  assumes "goroutine_step pT pT'" and "terminal_ok pT"
  shows "terminal_ok pT' \<and> ptId pT' = ptId pT \<and> (ptCleaner pT' = CleanerDone \<longleftrightarrow> ptCleaner pT = CleanerDone)"
  using assms by (cases rule: goroutine_step.cases) (auto simp: terminal_ok_def signalCleanup_def)

lemma host_ok_update:
  assumes "host_ok s" and "n < length (thTerminals s)" and "terminal_ok pT" and "ptId pT = ptId (thTerminals s ! n)"
    and "ptCleaner pT = CleanerDone \<longleftrightarrow> ptCleaner (thTerminals s ! n) = CleanerDone"
  shows "host_ok (s\<lparr>oTrace := tr, thTerminals := (thTerminals s)[n := pT]\<rparr>)"
proof -
  have "list_all terminal_ok ((thTerminals s)[n := pT])"
    using assms(1,3) by (auto simp: host_ok_def list_all_iff dest: set_update_subset_insert [THEN subsetD])
  moreover have "ptId ((thTerminals s)[n := pT] ! m) = ptId (thTerminals s ! m)"
    "ptCleaner ((thTerminals s)[n := pT] ! m) = CleanerDone \<longleftrightarrow> ptCleaner (thTerminals s ! m) = CleanerDone" for m
    using assms(2,4,5) by (cases "m = n", simp_all)+
  ultimately show ?thesis using assms(1) by (simp add: host_ok_def)
qed

lemma host_ok_trace: "host_ok s \<Longrightarrow> host_ok (s\<lparr>oTrace := tr\<rparr>)"
  by (simp add: host_ok_def)

lemma run_registerControlTopics:
  "run_state (registerControlTopics pT) s = (None, s\<lparr>oTrace := oTrace s @ [Ext ''Messenger.Subscribe'' [ptWriteTopic pT], Ext ''Messenger.Register'' [ptResizeTopic pT]]\<rparr>)"
  by (simp add: registerControlTopics_def run_ops)

lemma create_ok:
  assumes "host_ok s" and "map_of (thCache s) i = None"
  shows "host_ok (s\<lparr>oTrace := tr, thTerminals := thTerminals s @ [newPseudoTerminal i], thCache := map_put i (length (thTerminals s)) (thCache s)\<rparr>)"
proof -
  let ?ts = "thTerminals s" and ?n = "length (thTerminals s)"
  have old: "map_of (thCache s) j = Some m \<longleftrightarrow> m < ?n \<and> ptId (?ts ! m) = j \<and> ptCleaner (?ts ! m) \<noteq> CleanerDone" for j m
    using assms(1) by (simp add: host_ok_def)
  have "map_of (map_put i ?n (thCache s)) j = Some m \<longleftrightarrow> m < Suc ?n \<and> ptId ((?ts @ [newPseudoTerminal i]) ! m) = j \<and> ptCleaner ((?ts @ [newPseudoTerminal i]) ! m) \<noteq> CleanerDone" for j m
    using old [of j m] assms(2) by (cases "m < ?n"; cases "m = ?n") (auto simp: map_of_map_put nth_append newPseudoTerminal_def)
  then show ?thesis using assms(1) distinct_map_put [of "thCache s" i ?n] by (simp add: host_ok_def terminal_ok_def newPseudoTerminal_def)
qed

lemma GetOrCreate_ok: "host_ok s \<Longrightarrow> host_ok (post (GetOrCreatePseudoTerminal i) s)"
  using create_ok [of s i] by (auto simp: GetOrCreatePseudoTerminal_def GetPseudoTerminal_def run_ops host_ok_trace split: option.split)

lemma Setup_run:
  assumes "n < length (thTerminals s)"
  shows "post (SetupTerminal n) s = (let sid = rpStr (oExt s (oTrace s) (Ext ''uuid.NewString'' [])); pT = prepared (thSerialNumber s) sid (thTerminals s ! n) in
     s\<lparr>oTrace := oTrace s @ [Ext ''uuid.NewString'' [], Ext ''Messenger.Subscribe'' [ptWriteTopic pT], Ext ''Messenger.Register'' [ptResizeTopic pT]],
       thTerminals := (thTerminals s)[n := pT\<lparr>ptCleaner := AwaitCleanup\<rparr>]\<rparr>)"
  using assms by (simp add: SetupTerminal_def update_terminal_def run_registerControlTopics run_ops Let_def)

lemma Setup_ok:
  assumes "host_ok s" and "n < length (thTerminals s)" and "ptCleaner (thTerminals s ! n) = NoCleaner"
  shows "host_ok (post (SetupTerminal n) s)"
proof -
  let ?pT = "(prepared (thSerialNumber s) (rpStr (oExt s (oTrace s) (Ext ''uuid.NewString'' []))) (thTerminals s ! n))\<lparr>ptCleaner := AwaitCleanup\<rparr>"
  have "terminal_ok (thTerminals s ! n)" using assms(1,2) by (simp add: host_ok_def list_all_length)
  then have "terminal_ok ?pT" "ptId ?pT = ptId (thTerminals s ! n)" using assms(3) by (auto simp: terminal_ok_def prepared_def)
  then show ?thesis using host_ok_update [OF assms(1,2), of ?pT] assms(3) by (simp add: Setup_run [OF assms(2)] Let_def)
qed

lemma leave_run:
  assumes "n < length (thTerminals s)"
  shows "post (leave n rf) s = (let pT = thTerminals s ! n; s1 = s\<lparr>oTrace := oTrace s @ [Ext ''Messenger.Unsubscribe'' [ptWriteTopic pT], Ext ''Messenger.Unregister'' [ptResizeTopic pT]],
      thTerminals := (thTerminals s)[n := pT\<lparr>ptCleaner := CleanerDone, ptPanicked := ptPanicked pT \<or> (rf \<and> ptOutputClosed pT), ptOutputClosed := ptOutputClosed pT \<or> rf\<rparr>]\<rparr>
    in if map_of (thCache s) (ptId pT) = Some n then s1\<lparr>thCache := map_del (ptId pT) (thCache s)\<rparr> else s1)"
  using assms by (simp add: leave_def update_terminal_def run_ops Let_def)

lemma leave_ok:
  assumes "host_ok s" and "n < length (thTerminals s)" and "ptCleaner (thTerminals s ! n) = Leaving rf"
  shows "host_ok (post (leave n rf) s) \<and> map_of (thCache (post (leave n rf) s)) (ptId (thTerminals s ! n)) = None"
proof -
  let ?ts = "thTerminals s" and ?pT = "thTerminals s ! n"
  let ?pT' = "?pT\<lparr>ptCleaner := CleanerDone, ptPanicked := ptPanicked ?pT \<or> (rf \<and> ptOutputClosed ?pT), ptOutputClosed := ptOutputClosed ?pT \<or> rf\<rparr>"
  have old: "map_of (thCache s) j = Some m \<longleftrightarrow> m < length ?ts \<and> ptId (?ts ! m) = j \<and> ptCleaner (?ts ! m) \<noteq> CleanerDone" for j m
    using assms(1) by (simp add: host_ok_def)
  then have cached: "map_of (thCache s) (ptId ?pT) = Some n" using assms(2,3) by simp
  have "terminal_ok ?pT" using assms(1,2) by (simp add: host_ok_def list_all_length)
  then have "terminal_ok ?pT'" using assms(3) by (cases rf) (auto simp: terminal_ok_def)
  then have terms: "list_all terminal_ok (?ts[n := ?pT'])"
    using assms(1) by (auto simp: host_ok_def list_all_iff dest: set_update_subset_insert [THEN subsetD])
  have "map_of (map_del (ptId ?pT) (thCache s)) j = Some m \<longleftrightarrow> m < length ?ts \<and> ptId (?ts[n := ?pT'] ! m) = j \<and> ptCleaner (?ts[n := ?pT'] ! m) \<noteq> CleanerDone" for j m
    using old [of j m] cached assms(2) by (cases "m = n") (auto simp: map_of_map_del)
  then show ?thesis using terms assms(1) cached distinct_map_del [of "thCache s" "ptId ?pT"]
    by (simp add: leave_run [OF assms(2)] host_ok_def Let_def map_of_map_del)
qed

lemma run_reregister: "\<exists>tr. run_state (reregister ts) s = (None, s\<lparr>oTrace := tr\<rparr>)"
proof (induction ts arbitrary: s rule: list.induct)
  case Nil
  then show ?case by (auto simp: run_ops intro: exI [of _ "oTrace s"])
next
  case (Cons x ts)
  obtain i n where x: "x = (i, n)" by (cases x)
  obtain s1 tr where first: "run_state (registerControlTopics (thTerminals s ! n)) s = (None, s1)" and s1: "s1 = s\<lparr>oTrace := tr\<rparr>"
    by (simp add: run_registerControlTopics)
  obtain tr' where "run_state (reregister ts) s1 = (None, s1\<lparr>oTrace := tr'\<rparr>)" using Cons by blast
  then show ?case using first s1 x by (auto simp: run_bind run_gets)
qed

lemma host_step_ok: "host_step s s' \<Longrightarrow> host_ok s \<Longrightarrow> host_ok s'"
proof (induction rule: host_step.induct)
  case (goroutine n s pT)
  then have "terminal_ok (thTerminals s ! n)" by (simp add: host_ok_def list_all_length)
  then show ?case using goroutine_keeps [OF goroutine(2)] host_ok_update [OF goroutine(3,1), of pT "oTrace s"] by simp
next
  case (called s i)
  then show ?case by (rule GetOrCreate_ok)
next
  case (set_up n s)
  then show ?case by (intro Setup_ok)
next
  case (leaving n s rf)
  then show ?case using leave_ok by blast
next
  case (reconnected s)
  then show ?case using run_reregister [of "thCache s" s] by (auto simp: ReregisterControlTopics_def run_bind run_gets host_ok_trace)
qed

lemma host_reachable_ok: "host_reachable s \<Longrightarrow> host_ok s"
proof (induction rule: host_reachable.induct)
  case (start outer serial)
  then show ?case by (simp add: host_ok_def)
qed (rule host_step_ok)

text \<open>
  C23: in every reachable state of the device's terminals no goroutine has sent on a closed channel
  or closed one twice; the output of a terminal is closed only after its read loop has returned; a
  read loop that has returned has asked for the teardown; and the cached terminals are exactly those
  that are not torn down, so that a caller has at most one live shell.
\<close>

theorem terminals_safe:
  assumes "host_reachable s" and "n < length (thTerminals s)"
  shows "\<not> ptPanicked (thTerminals s ! n)
    \<and> (ptOutputClosed (thTerminals s ! n) \<longrightarrow> ptReader (thTerminals s ! n) = ReaderDone)
    \<and> (ptReader (thTerminals s ! n) = ReaderDone \<longrightarrow> ptCleanup (thTerminals s ! n))
    \<and> (ptCleaner (thTerminals s ! n) \<noteq> CleanerDone \<longleftrightarrow> map_of (thCache s) (ptId (thTerminals s ! n)) = Some n)"
proof -
  have ok: "host_ok s" by (rule host_reachable_ok [OF assms(1)])
  then have "terminal_ok (thTerminals s ! n)" using assms(2) by (simp add: host_ok_def list_all_length)
  then show ?thesis using ok assms(2) by (auto simp: terminal_ok_def host_ok_def)
qed

section \<open>A teardown comes to its end\<close>

definition phase_of :: "TerminalHost \<Rightarrow> nat \<Rightarrow> cleaner_phase" where
  "phase_of s n = ptCleaner (thTerminals s ! n)"

text \<open>The teardown goes on without the read loop, the shell or the router.\<close>

lemma cleaner_advances:
  assumes "n < length (thTerminals s)" and "ptCleanup (thTerminals s ! n)" and "phase_of s n \<in> {AwaitCleanup, AwaitReader} \<or> (\<exists>rf. phase_of s n = SendEOF rf)"
  defines "nxt \<equiv> (case phase_of s n of AwaitCleanup \<Rightarrow> AwaitReader | AwaitReader \<Rightarrow> SendEOF False | SendEOF rf \<Rightarrow> Leaving rf | ph \<Rightarrow> ph)"
  shows "host_step s (s\<lparr>thTerminals := (thTerminals s)[n := (thTerminals s ! n)\<lparr>ptCleaner := nxt\<rparr>]\<rparr>)"
proof (rule host_step.goroutine [OF assms(1)])
  show "goroutine_step (thTerminals s ! n) ((thTerminals s ! n)\<lparr>ptCleaner := nxt\<rparr>)"
    using assms(2,3) by (auto simp: phase_of_def nxt_def intro: goroutine_step.intros)
qed

definition settled :: "TerminalHost \<Rightarrow> nat \<Rightarrow> TerminalHost \<Rightarrow> bool" where
  "settled s n s' \<longleftrightarrow> host_step\<^sup>*\<^sup>* s s' \<and> map_of (thCache s') (ptId (thTerminals s ! n)) = None"

lemma settled_step:
  assumes "host_step s s1" and "settled s1 n s'" and "ptId (thTerminals s1 ! n) = ptId (thTerminals s ! n)"
  shows "settled s n s'"
  using assms by (auto simp: settled_def intro: converse_rtranclp_into_rtranclp)

lemma settles_from:
  assumes "host_ok s" and "n < length (thTerminals s)" and "ptCleanup (thTerminals s ! n)"
    and "phase_of s n \<noteq> NoCleaner" and "phase_of s n \<noteq> CleanerDone"
  shows "\<exists>s'. settled s n s'"
  using assms
proof (induction "case phase_of s n of AwaitCleanup \<Rightarrow> 3 | AwaitReader \<Rightarrow> 2 | SendEOF _ \<Rightarrow> Suc 0 | _ \<Rightarrow> 0" arbitrary: s rule: less_induct)
  case less
  show ?case
  proof (cases "\<exists>rf. phase_of s n = Leaving rf")
    case True
    then obtain rf where rf: "ptCleaner (thTerminals s ! n) = Leaving rf" by (auto simp: phase_of_def)
    have "settled s n (post (leave n rf) s)"
      using leave_ok [OF less.prems(1,2) rf] host_step.leaving [OF less.prems(2) rf] by (simp add: settled_def r_into_rtranclp)
    then show ?thesis ..
  next
    case False
    define nxt where "nxt = (case phase_of s n of AwaitCleanup \<Rightarrow> AwaitReader | AwaitReader \<Rightarrow> SendEOF False | SendEOF rf \<Rightarrow> Leaving rf | ph \<Rightarrow> ph)"
    define s1 where "s1 = s\<lparr>thTerminals := (thTerminals s)[n := (thTerminals s ! n)\<lparr>ptCleaner := nxt\<rparr>]\<rparr>"
    have "phase_of s n \<in> {AwaitCleanup, AwaitReader} \<or> (\<exists>rf. phase_of s n = SendEOF rf)"
      using less.prems(4,5) False by (cases "phase_of s n") auto
    from cleaner_advances [OF less.prems(2,3) this] have step1: "host_step s s1" by (simp add: s1_def nxt_def)
    have s1n: "thTerminals s1 ! n = (thTerminals s ! n)\<lparr>ptCleaner := nxt\<rparr>" "length (thTerminals s1) = length (thTerminals s)"
      using less.prems(2) by (simp_all add: s1_def)
    have "\<exists>s'. settled s1 n s'"
    proof (rule less.hyps)
      show "(case phase_of s1 n of AwaitCleanup \<Rightarrow> 3 | AwaitReader \<Rightarrow> 2 | SendEOF _ \<Rightarrow> Suc 0 | _ \<Rightarrow> 0) < (case phase_of s n of AwaitCleanup \<Rightarrow> 3 | AwaitReader \<Rightarrow> 2 | SendEOF _ \<Rightarrow> Suc 0 | _ \<Rightarrow> 0)"
        using False less.prems(4,5) by (cases "phase_of s n") (auto simp: phase_of_def s1n nxt_def)
      show "host_ok s1" by (rule host_step_ok [OF step1 less.prems(1)])
      show "n < length (thTerminals s1)" "ptCleanup (thTerminals s1 ! n)" using less.prems(2,3) s1n by simp_all
      show "phase_of s1 n \<noteq> NoCleaner" "phase_of s1 n \<noteq> CleanerDone"
        using less.prems(4,5) by (cases "phase_of s n"; simp add: phase_of_def s1n nxt_def)+
    qed
    then obtain s' where "settled s1 n s'" ..
    then have "settled s n s'" using settled_step [OF step1] s1n by simp
    then show ?thesis ..
  qed
qed


section \<open>Sizes are taken as they are\<close>

text \<open>The number a value stands for, at its own width and sign.\<close>

definition numberOf :: "dim_value \<Rightarrow> int option" where
  "numberOf v = (case v of
     DimUint64 n \<Rightarrow> Some (uint n) | DimInt64 n \<Rightarrow> Some (sint n) | DimInt n \<Rightarrow> Some (sint n)
   | DimUint32 n \<Rightarrow> Some (uint n) | DimInt32 n \<Rightarrow> Some (sint n)
   | DimFloat64 n \<Rightarrow> Some (sint (word_of_int n :: uint64))
   | DimOther \<Rightarrow> None)"

lemma sint_uint64: "0 \<le> sint (n :: uint64) \<Longrightarrow> sint n \<le> 32767 \<Longrightarrow> uint n = sint n"
  using uint_sint [of n] by (simp add: take_bit_int_eq_self)

lemma uint_sint64: "uint (n :: uint64) \<le> 32767 \<Longrightarrow> sint n = uint n"
proof -
  assume "uint n \<le> 32767"
  moreover have "- (2 ^ 63) \<le> uint n" by (rule order_trans [OF _ uint_ge_0]) simp
  ultimately show ?thesis by (simp add: sint_uint signed_take_bit_int_eq_self_iff)
qed

text \<open>
  A dimension of a payload is accepted exactly when the number it stands for is between 0 and 32767,
  and is then that number: no value wraps into the range.
\<close>

theorem dimension_exact:
  "parseDimension v = Inr d \<longleftrightarrow> (\<exists>n. numberOf v = Some n \<and> 0 \<le> n \<and> n \<le> 32767 \<and> uint d = n)"
proof -
  have u16: "uint (word_of_int n :: 16 word) = n" if "0 \<le> n" "n \<le> 32767" for n :: int
    using that by (simp add: unsigned_of_int take_bit_int_eq_self)
  have parse: "parseDimension v = Inr d \<longleftrightarrow> (\<exists>n. asInt64 v = Some n \<and> 0 \<le> n \<and> n \<le> 32767 \<and> uint d = n)"
    using u16 by (auto simp: parseDimension_def maxTerminalDimension_def split: option.split)
  show ?thesis
  proof (cases v)
    case (DimUint64 n)
    then have v: "asInt64 v = Some (sint n)" "numberOf v = Some (uint n)" by (simp_all add: asInt64_def numberOf_def)
    show ?thesis
    proof (cases "uint n \<le> 32767")
      case True
      then show ?thesis using uint_ge_0 [of n] unfolding parse v uint_sint64 [OF True] by simp
    next
      case False
      then have "\<not> (0 \<le> sint n \<and> sint n \<le> 32767)" using sint_uint64 [of n] by metis
      then show ?thesis using False unfolding parse v by auto
    qed
  qed (unfold parse, simp_all add: asInt64_def numberOf_def)
qed

section \<open>Examples, and what is not as intended\<close>


definition demo_host :: TerminalHost where
  "demo_host = \<lparr>oTrace = [], oExt = (\<lambda>_ _. \<lparr>rpErr = None, rpStr = ''u'', rpNum = 0, rpFlag = False, rpStrs = [], rpPorts = [], rpJson = JNull, rpContainers = []\<rparr>),
     thTerminals = [], thCache = [], thSerialNumber = ''s''\<rparr>"

definition opened_host :: TerminalHost where
  "opened_host = post (GetOrCreatePseudoTerminal ''me'') demo_host"

definition ended_host :: TerminalHost where
  "ended_host = (post (SetupTerminal 0) opened_host)\<lparr>thTerminals := (thTerminals (post (SetupTerminal 0) opened_host))[0 := signalCleanup (thTerminals (post (SetupTerminal 0) opened_host) ! 0)]\<rparr>"

lemma opened_host_simps [simp]:
  "thTerminals opened_host = [newPseudoTerminal ''me'']" "thCache opened_host = [(''me'', 0)]" "thSerialNumber opened_host = ''s''"
  by (simp_all add: opened_host_def GetOrCreatePseudoTerminal_def GetPseudoTerminal_def run_ops demo_host_def map_put_def)

lemma ended_host_reachable: "host_reachable ended_host"
proof -
  have "host_reachable demo_host" unfolding demo_host_def by (rule host_reachable.start)
  then have "host_reachable opened_host" unfolding opened_host_def by (rule host_reachable.step) (rule host_step.called)
  then have "host_reachable (post (SetupTerminal 0) opened_host)"
    by (rule host_reachable.step) (rule host_step.set_up, simp_all add: newPseudoTerminal_def)
  then show ?thesis unfolding ended_host_def
    by (rule host_reachable.step) (rule host_step.goroutine, simp add: Setup_run Let_def, rule goroutine_step.exited)
qed

lemma ended_host_simps [simp]:
  "thCache ended_host = [(''me'', 0)]" "length (thTerminals ended_host) = 1" "ptCleanup (thTerminals ended_host ! 0)" "ptCleaner (thTerminals ended_host ! 0) = AwaitCleanup"
  by (simp_all add: ended_host_def Setup_run Let_def signalCleanup_def)

theorem terminals_safe_witness: "\<not> ptPanicked (thTerminals ended_host ! 0)"
  using terminals_safe [OF ended_host_reachable, of 0] by simp


text \<open>
  A second call of the same caller that comes before the first one has run \<^verbatim>\<open>Setup\<close> gets the terminal
  and its topics, which are empty.
\<close>

lemma early_call_gets_no_topics:
  "fst (run_state (GetOrCreatePseudoTerminal ''me'') opened_host) = Inr (0, False) \<and> ptWriteTopic (thTerminals opened_host ! 0) = [] \<and> ptSessionID (thTerminals opened_host ! 0) = []"
  by (simp add: GetOrCreatePseudoTerminal_def GetPseudoTerminal_def run_ops newPseudoTerminal_def)

text \<open>A rune that is cut by a stray byte is published with the byte, not held back.\<close>

lemma stray_byte_passes: "splitTrailingPartialRune [0xE2, 0x41] = ([0xE2, 0x41], [])"
  by (simp add: splitTrailingPartialRune_def splitScan.simps RuneStart_def runeLen_def UTFMax_def Let_def)

end
