(* ===== verification/ContainerTerminals.thy ===== *)
theory ContainerTerminals
  imports Terminals
begin

text \<open>
  \<^verbatim>\<open>terminal/docker_term.go\<close>: terminals inside containers. A session is an index into the list of all
  sessions that were made, so that the handlers and goroutines which hold one see its channels being
  closed; the goroutines that read from and write to its connection are tasks. \<^verbatim>\<open>safe.Go\<close> recovers a
  panic of a goroutine; a handler of the router has no such protection.
\<close>

section \<open>Data\<close>

record TerminalSession =
  seContainerName :: string
  seSessionID :: string
  seExecID :: string
  seRegistrationID :: uint64
  seDataTopic :: string
  seWriteTopic :: string
  seResizeTopic :: string
  seInput :: "string list" \<comment> \<open>the buffer of \<^verbatim>\<open>inputChan\<close>\<close>
  seErrors :: "go_error list" \<comment> \<open>the buffer of \<^verbatim>\<open>errorChan\<close>, which nothing reads\<close>
  seClosed :: bool \<comment> \<open>\<^verbatim>\<open>Close\<close> was called: both channels are closed\<close>

datatype term_task = Writer nat | Reader nat | PublishEOF nat | CleanupTask nat

record TerminalManager = outside +
  tmSessions :: "TerminalSession list"
  tmActive :: "(string \<times> nat) list"
  tmSerial :: string
  tmTasks :: "term_task list"

type_synonym 'a mprog = "(TerminalManager, 'a) state"

definition spawnTerm :: "term_task \<Rightarrow> err mprog" where
  "spawnTerm t = ignore (modify (\<lambda>s. s\<lparr>tmTasks := tmTasks s @ [t]\<rparr>))"

definition sessionAt :: "nat \<Rightarrow> TerminalSession mprog" where
  "sessionAt n = gets (\<lambda>s. tmSessions s ! n)"

definition session_upd :: "nat \<Rightarrow> (TerminalSession \<Rightarrow> TerminalSession) \<Rightarrow> err mprog" where
  "session_upd n f = ignore (modify (\<lambda>s. s\<lparr>tmSessions := (tmSessions s)[n := f (tmSessions s ! n)]\<rparr>))"

definition newSessionFor :: "string \<Rightarrow> string \<Rightarrow> string \<Rightarrow> string \<Rightarrow> TerminalSession" where
  "newSessionFor containerName serial sessionID execID =
     (let topic = (\<lambda>kind. BuildExternalApiTopic serial (kind @ ''.'' @ containerName @ ''.'' @ sessionID))
      in \<lparr>seContainerName = containerName, seSessionID = sessionID, seExecID = execID, seRegistrationID = 0, seDataTopic = topic ''term_data'',
          seWriteTopic = topic ''term_write'', seResizeTopic = topic ''term_resize'', seInput = [], seErrors = [], seClosed = False\<rparr>)"

section \<open>Opening\<close>

definition supportedShells :: "string list" where "supportedShells = [''/bin/zsh'', ''/bin/bash'']"
definition defaultShell :: string where "defaultShell = ''/bin/sh''"

definition chooseShell :: "string list \<Rightarrow> string" where
  "chooseShell etcShells = (case List.find (\<lambda>foundShell. foundShell \<in> set supportedShells) etcShells of Some sh \<Rightarrow> sh | None \<Rightarrow> defaultShell)"

text \<open>The lines of \<^verbatim>\<open>/etc/shells\<close> in the container.\<close>

definition getShell :: "string \<Rightarrow> (go_error + string) mprog" where
  "getShell containerName = do {
     r \<leftarrow> ask ''Container.ExecCommand'' [containerName, ''cat'', ''/etc/shells''];
     case rpErr r of
       Some e \<Rightarrow> ret (Inl e)
     | None \<Rightarrow> do {
         out \<leftarrow> ask ''ReadAll'' [containerName];
         ret (case rpErr out of Some e \<Rightarrow> Inl e | None \<Rightarrow> Inr (chooseShell (rpLines out))) } }"

definition createTerminalSession :: "string \<Rightarrow> string \<Rightarrow> (go_error + nat) mprog" where
  "createTerminalSession containerName shell = do {
     r \<leftarrow> ask ''Container.ExecAttach'' [containerName, shell];
     case rpErr r of
       Some e \<Rightarrow> ret (Inl e)
     | None \<Rightarrow> do {
         uuid \<leftarrow> ask ''uuid.NewString'' [];
         s \<leftarrow> State_Monad.get;
         let n = length (tmSessions s);
         let sess = newSessionFor containerName (tmSerial s) (rpStr uuid) (rpStr r);
         _ \<leftarrow> modify (\<lambda>s. s\<lparr>tmSessions := tmSessions s @ [sess], tmActive := map_put (rpStr uuid) n (tmActive s)\<rparr>);
         ret (Inr n) } }"

definition RequestTerminalSession :: "string \<Rightarrow> (go_error + nat) mprog" where
  "RequestTerminalSession containerName = do {
     sh \<leftarrow> getShell containerName;
     case sh of Inl e \<Rightarrow> ret (Inl e) | Inr shell \<Rightarrow> createTerminalSession containerName shell }"

definition getSession :: "string \<Rightarrow> (go_error + nat) mprog" where
  "getSession sessionID = do {
     m \<leftarrow> gets tmActive;
     ret (case map_of m sessionID of None \<Rightarrow> Inl (Msg ''session was not found'') | Some n \<Rightarrow> Inr n) }"

section \<open>Messages\<close>

definition ResizeTerminal :: "string \<Rightarrow> uint64 \<Rightarrow> uint64 \<Rightarrow> err mprog" where
  "ResizeTerminal sessionID height width = do {
     r \<leftarrow> getSession sessionID;
     case r of
       Inl e \<Rightarrow> ret (Some e)
     | Inr n \<Rightarrow> do { sess \<leftarrow> sessionAt n; askE ''Container.ResizeExecContainer'' [seExecID sess, itoa (unat height), itoa (unat width)] } }"

definition onlyUint64 :: "string \<Rightarrow> (string \<times> dim_value) list \<Rightarrow> go_error + uint64" where
  "onlyUint64 k payload = (case map_of payload k of Some (DimUint64 n) \<Rightarrow> Inr n | _ \<Rightarrow> Inl (Msg (''failed to parse '' @ k)))"

text \<open>The procedure of the resize topic: no argument at all is out of range.\<close>

definition resizeInvoked :: "nat \<Rightarrow> (string \<times> dim_value) list option option \<Rightarrow> err mprog" where
  "resizeInvoked n arg = (case arg of
     None \<Rightarrow> ret (Some (panic ''index out of range''))
   | Some None \<Rightarrow> ret (Some (Msg ''failed to parse args''))
   | Some (Some payload) \<Rightarrow>
       (case onlyUint64 ''height'' payload of
          Inl e \<Rightarrow> ret (Some e)
        | Inr height \<Rightarrow>
            (case onlyUint64 ''width'' payload of
               Inl e \<Rightarrow> ret (Some e)
             | Inr width \<Rightarrow> do { sess \<leftarrow> sessionAt n; ResizeTerminal (seSessionID sess) height width })))"

text \<open>An event of the write topic; a send on the closed channel panics.\<close>

definition writeReceived :: "nat \<Rightarrow> json list \<Rightarrow> err mprog" where
  "writeReceived n args = (case args of
     [] \<Rightarrow> ret (Some (panic ''index out of range''))
   | JStr data # _ \<Rightarrow> do {
       sess \<leftarrow> sessionAt n;
       if seClosed sess then ret (Some (panic ''send on closed channel''))
       else session_upd n (\<lambda>x. x\<lparr>seInput := seInput x @ [data]\<rparr>) }
   | _ \<Rightarrow> ret (Some (Msg ''failed to parse args'')))"

definition initTerminalMessagingChannels :: "nat \<Rightarrow> err mprog" where
  "initTerminalMessagingChannels n = do {
     sess \<leftarrow> sessionAt n;
     e1 \<leftarrow> askE ''Messenger.Subscribe'' [seWriteTopic sess];
     case e1 of
       Some x \<Rightarrow> ret (Some x)
     | None \<Rightarrow> do {
         e2 \<leftarrow> askE ''Messenger.Register'' [seResizeTopic sess];
         case e2 of
           Some x \<Rightarrow> ret (Some x)
         | None \<Rightarrow> do { _ \<leftarrow> spawnTerm (Writer n); spawnTerm (Reader n) } } }"

definition StartTerminalSession :: "string \<Rightarrow> uint64 \<Rightarrow> err mprog" where
  "StartTerminalSession sessionID registrationID = do {
     r \<leftarrow> getSession sessionID;
     case r of
       Inl e \<Rightarrow> ret (Some e)
     | Inr n \<Rightarrow> do {
         _ \<leftarrow> session_upd n (\<lambda>x. x\<lparr>seRegistrationID := registrationID\<rparr>);
         initTerminalMessagingChannels n } }"

section \<open>Closing\<close>

definition closeSession :: "nat \<Rightarrow> err mprog" where
  "closeSession n = session_upd n (\<lambda>x. x\<lparr>seClosed := True\<rparr>)"

text \<open>A topic is given back when the client still has it.\<close>

definition giveBack :: "string \<Rightarrow> string \<Rightarrow> string \<Rightarrow> err mprog" where
  "giveBack lookup release topic = do {
     r \<leftarrow> ask lookup [topic];
     if rpFlag r then askE release [topic] else ret None }"

definition cleanupSession :: "nat \<Rightarrow> err mprog" where
  "cleanupSession n = do {
     sess \<leftarrow> sessionAt n;
     active \<leftarrow> gets (\<lambda>s. map_of (tmActive s) (seSessionID sess));
     if active = None then ret None
     else do {
       _ \<leftarrow> closeSession n;
       _ \<leftarrow> spawnTerm (PublishEOF n);
       e1 \<leftarrow> giveBack ''Messenger.RegistrationID'' ''Messenger.Unregister'' (seResizeTopic sess);
       case e1 of
         Some x \<Rightarrow> ret (Some x)
       | None \<Rightarrow> do {
           e2 \<leftarrow> giveBack ''Messenger.SubscriptionID'' ''Messenger.Unsubscribe'' (seWriteTopic sess);
           case e2 of
             Some x \<Rightarrow> ret (Some x)
           | None \<Rightarrow> ignore (modify (\<lambda>s. s\<lparr>tmActive := map_del (seSessionID sess) (tmActive s)\<rparr>)) } } }"

definition StopTerminalSession :: "string \<Rightarrow> err mprog" where
  "StopTerminalSession sessionID = do {
     r \<leftarrow> getSession sessionID;
     case r of Inl e \<Rightarrow> ret (Some e) | Inr n \<Rightarrow> cleanupSession n }"

text \<open>The event that a procedure was unregistered; the first active session with its identifier goes.\<close>

definition onUnregister :: "dim_value \<Rightarrow> err mprog" where
  "onUnregister metaRegistrationID = do {
     s \<leftarrow> State_Monad.get;
     case List.find (\<lambda>(i, n). metaRegistrationID = DimUint64 (seRegistrationID (tmSessions s ! n))) (tmActive s) of
       None \<Rightarrow> ret None
     | Some (i, n) \<Rightarrow> spawnTerm (CleanupTask n) }"

section \<open>Goroutines\<close>

text \<open>
  One round each. The writer takes what was received and ends when the channel is closed or the
  connection fails; the reader publishes what it reads. A full error channel, of two places, blocks.
\<close>

definition noteError :: "nat \<Rightarrow> go_error \<Rightarrow> err mprog" where
  "noteError n e = do {
     sess \<leftarrow> sessionAt n;
     if seClosed sess then ret (Some (panic ''send on closed channel''))
     else session_upd n (\<lambda>x. x\<lparr>seErrors := seErrors x @ [e]\<rparr>) }"

definition writerRound :: "nat \<Rightarrow> err mprog" where
  "writerRound n = do {
     sess \<leftarrow> sessionAt n;
     case seInput sess of
       [] \<Rightarrow> if seClosed sess then ignore (ask ''Conn.Close'' [seExecID sess]) else spawnTerm (Writer n)
     | data # rest \<Rightarrow> do {
         _ \<leftarrow> session_upd n (\<lambda>x. x\<lparr>seInput := rest\<rparr>);
         e \<leftarrow> askE ''Conn.Write'' [seExecID sess, data];
         case e of
           None \<Rightarrow> spawnTerm (Writer n)
         | Some x \<Rightarrow> do { _ \<leftarrow> noteError n x; ignore (ask ''Conn.Close'' [seExecID sess]) } } }"

definition readerFails :: "nat \<Rightarrow> go_error \<Rightarrow> err mprog" where
  "readerFails n e =
     (if Error e = ''EOF'' then cleanupSession n
      else if Contains (Error e) ''use of closed network connection'' then ret None
      else noteError n e)"

definition readerRound :: "nat \<Rightarrow> err mprog" where
  "readerRound n = do {
     sess \<leftarrow> sessionAt n;
     r \<leftarrow> ask ''Conn.Read'' [seExecID sess];
     case rpErr r of
       Some e \<Rightarrow> readerFails n e
     | None \<Rightarrow>
         if rpStr r = [] then spawnTerm (Reader n)
         else do {
           e \<leftarrow> askE ''Messenger.Publish'' [seDataTopic sess, rpStr r];
           case e of Some x \<Rightarrow> readerFails n x | None \<Rightarrow> spawnTerm (Reader n) } }"

fun runTermTask :: "term_task \<Rightarrow> err mprog" where
  "runTermTask (Writer n) = writerRound n"
| "runTermTask (Reader n) = readerRound n"
| "runTermTask (PublishEOF n) = do { sess \<leftarrow> sessionAt n; ignore (ask ''Messenger.Publish'' [seDataTopic sess, ''TERMINAL_EOF'']) }"
| "runTermTask (CleanupTask n) = cleanupSession n"

section \<open>Runs\<close>

inductive term_step :: "TerminalManager \<Rightarrow> TerminalManager \<Rightarrow> bool" where
  request: "term_step s (snd (run_state (RequestTerminalSession c) s))"
| start: "term_step s (snd (run_state (StartTerminalSession i reg) s))"
| stop: "term_step s (snd (run_state (StopTerminalSession i) s))"
| unregistered: "term_step s (snd (run_state (onUnregister v) s))"
| received: "n < length (tmSessions s) \<Longrightarrow> term_step s (snd (run_state (writeReceived n args) s))"
| invoked: "n < length (tmSessions s) \<Longrightarrow> term_step s (snd (run_state (resizeInvoked n arg) s))"
| task: "tmTasks s = xs @ t # ys \<Longrightarrow> term_step s (snd (run_state (runTermTask t) (s\<lparr>tmTasks := xs @ ys\<rparr>)))"

fun taskSession :: "term_task \<Rightarrow> nat" where
  "taskSession (Writer n) = n" | "taskSession (Reader n) = n" | "taskSession (PublishEOF n) = n" | "taskSession (CleanupTask n) = n"

text \<open>
  The map names sessions by their own identifier, and the goroutines work on sessions that exist.
\<close>

definition sessions_ok :: "TerminalManager \<Rightarrow> bool" where
  "sessions_ok s \<longleftrightarrow> (\<forall>i n. (i, n) \<in> set (tmActive s) \<longrightarrow> n < length (tmSessions s) \<and> seSessionID (tmSessions s ! n) = i)
     \<and> (\<forall>t \<in> set (tmTasks s). taskSession t < length (tmSessions s))"

text \<open>
  How the operations but the opening of a session change the state: sessions stay, with their names;
  a closed one stays closed; nothing becomes active; new goroutines work on known sessions.
\<close>

definition tended :: "TerminalManager \<Rightarrow> TerminalManager \<Rightarrow> bool" where
  "tended s s' \<longleftrightarrow> length (tmSessions s') = length (tmSessions s)
     \<and> (\<forall>m < length (tmSessions s). seSessionID (tmSessions s' ! m) = seSessionID (tmSessions s ! m) \<and> (seClosed (tmSessions s ! m) \<longrightarrow> seClosed (tmSessions s' ! m)))
     \<and> set (tmActive s') \<subseteq> set (tmActive s)
     \<and> (\<forall>t \<in> set (tmTasks s'). t \<in> set (tmTasks s) \<or> taskSession t < length (tmSessions s))"

lemma tended_trans: "tended a b \<Longrightarrow> tended b c \<Longrightarrow> tended a c"
  by (auto simp: tended_def)

text \<open>The same for an operation on the session \<open>n\<close>.\<close>

definition tends :: "nat \<Rightarrow> TerminalManager \<Rightarrow> TerminalManager \<Rightarrow> bool" where
  "tends n s s' \<longleftrightarrow> (n < length (tmSessions s) \<longrightarrow> tended s s')"

interpretation tnd: asking_relation "tends n" for n
proof unfold_locales
  show "tends n a c" if "tends n a b" "tends n b c" for a b c
    using that tended_trans [of a b c] by (auto simp: tends_def tended_def [of a b])
qed (simp_all add: tends_def tended_def)

lemma tended_sessions_ok:
  assumes "tended s s'" and "sessions_ok s"
  shows "sessions_ok s'"
proof -
  have "n < length (tmSessions s') \<and> seSessionID (tmSessions s' ! n) = i" if "(i, n) \<in> set (tmActive s')" for i n
  proof -
    have "(i, n) \<in> set (tmActive s)" using that assms(1) by (auto simp: tended_def)
    then have "n < length (tmSessions s)" "seSessionID (tmSessions s ! n) = i" using assms(2) by (auto simp: sessions_ok_def)
    then show ?thesis using assms(1) by (simp add: tended_def)
  qed
  moreover have "\<forall>t \<in> set (tmTasks s'). taskSession t < length (tmSessions s')"
    using assms by (auto simp: tended_def sessions_ok_def)
  ultimately show ?thesis by (simp add: sessions_ok_def)
qed

lemma spawnTerm_tends: "taskSession t = n \<Longrightarrow> keeps (tends n) (spawnTerm t)"
  unfolding spawnTerm_def by (intro tnd.keeps_ignore tnd.keeps_modify) (auto simp: tends_def tended_def)

lemma session_upd_tends:
  assumes "\<And>x. seSessionID (f x) = seSessionID x" and "\<And>x. seClosed x \<Longrightarrow> seClosed (f x)"
  shows "keeps (tends n) (session_upd n f)"
  unfolding session_upd_def
proof (intro tnd.keeps_ignore tnd.keeps_modify)
  fix w :: TerminalManager
  have "seSessionID ((tmSessions w)[n := f (tmSessions w ! n)] ! m) = seSessionID (tmSessions w ! m)
      \<and> (seClosed (tmSessions w ! m) \<longrightarrow> seClosed ((tmSessions w)[n := f (tmSessions w ! n)] ! m))" if "m < length (tmSessions w)" for m
    using assms that by (cases "m = n") simp_all
  then show "tends n w (w\<lparr>tmSessions := (tmSessions w)[n := f (tmSessions w ! n)]\<rparr>)" by (simp add: tends_def tended_def)
qed

lemma forget_tends: "keeps (tends n) (modify (\<lambda>s. s\<lparr>tmActive := map_del i (tmActive s)\<rparr>))"
  by (intro tnd.keeps_modify) (auto simp: tends_def tended_def map_del_def)

lemma sessionAt_tends: "keeps (tends n) (sessionAt m)"
  unfolding sessionAt_def by (rule tnd.keeps_gets)

lemma getSession_tends: "keeps (tends n) (getSession i)"
  unfolding getSession_def by (intro tnd.asking)

lemmas tending = tnd.asking sessionAt_tends getSession_tends forget_tends spawnTerm_tends session_upd_tends

lemma giveBack_tends: "keeps (tends n) (giveBack l r t)"
  unfolding giveBack_def by (intro tending)

lemma cleanupSession_tends: "keeps (tends n) (cleanupSession n)"
  unfolding cleanupSession_def closeSession_def by (intro tending giveBack_tends) simp_all

lemma noteError_tends: "keeps (tends n) (noteError n e)"
  unfolding noteError_def by (intro tending) simp_all

lemma ResizeTerminal_tends: "keeps (tends n) (ResizeTerminal i h w)"
  unfolding ResizeTerminal_def by (intro tending)

lemma init_tends: "keeps (tends n) (initTerminalMessagingChannels n)"
  unfolding initTerminalMessagingChannels_def by (intro tending) simp_all

lemma writeReceived_tends: "keeps (tends n) (writeReceived n args)"
proof (cases args)
  case (Cons a as)
  then show ?thesis by (cases a) (auto simp: writeReceived_def intro!: tending)
qed (simp add: writeReceived_def tnd.keeps_return)

lemma resizeInvoked_tends: "keeps (tends n) (resizeInvoked n arg)"
  unfolding resizeInvoked_def by (intro tending ResizeTerminal_tends)

lemma readerFails_tends: "keeps (tends n) (readerFails n e)"
  unfolding readerFails_def by (intro tending cleanupSession_tends noteError_tends)

lemma task_tends: "keeps (tends (taskSession t)) (runTermTask t)"
proof (cases t)
  case (Writer n)
  then show ?thesis by (simp add: writerRound_def) (intro tending noteError_tends, simp_all)
next
  case (Reader n)
  then show ?thesis by (simp add: readerRound_def) (intro tending readerFails_tends, simp_all)
next
  case (PublishEOF n)
  then show ?thesis by simp (intro tending)
qed (simp add: cleanupSession_tends)

lemma tendsD: "keeps (tends n) m \<Longrightarrow> n < length (tmSessions s) \<Longrightarrow> tended s (snd (run_state m s))"
  by (simp add: keeps_def tends_def)

lemma run_getSession: "run_state (getSession i) s = (case map_of (tmActive s) i of None \<Rightarrow> Inl (Msg ''session was not found'') | Some n \<Rightarrow> Inr n, s)"
  by (simp add: getSession_def run_ops)

text \<open>An operation that looks a session up and goes on with it.\<close>

lemma lookup_tended:
  assumes "sessions_ok s" and "\<And>n. keeps (tends n) (f n)"
  shows "tended s (snd (run_state (do { r \<leftarrow> getSession i; case r of Inl e \<Rightarrow> ret (Some e) | Inr n \<Rightarrow> f n }) s))"
proof (cases "map_of (tmActive s) i")
  case None
  then show ?thesis by (simp add: run_bind run_getSession State_Monad.return_def tended_def)
next
  case (Some n)
  then have "n < length (tmSessions s)" using assms(1) by (auto simp: sessions_ok_def dest: map_of_SomeD)
  then show ?thesis using Some tendsD [OF assms(2)] by (simp add: run_bind run_getSession)
qed

lemma create_sessions_ok:
  assumes "sessions_ok s"
  shows "sessions_ok (s\<lparr>oTrace := tr, tmSessions := tmSessions s @ [newSessionFor c (tmSerial s) i x], tmActive := map_put i (length (tmSessions s)) (tmActive s)\<rparr>)"
proof -
  have new: "seSessionID (newSessionFor c (tmSerial s) i x) = i" by (simp add: newSessionFor_def Let_def)
  have "n < Suc (length (tmSessions s)) \<and> seSessionID ((tmSessions s @ [newSessionFor c (tmSerial s) i x]) ! n) = j"
    if "(j, n) \<in> set (map_put i (length (tmSessions s)) (tmActive s))" for j n
    using that new assms by (auto simp: map_put_def sessions_ok_def nth_append)
  then show ?thesis using assms by (auto simp: sessions_ok_def)
qed

lemma request_sessions_ok: "sessions_ok s \<Longrightarrow> sessions_ok (snd (run_state (RequestTerminalSession c) s))"
proof -
  assume ok: "sessions_ok s"
  have trace: "sessions_ok (s\<lparr>oTrace := tr\<rparr>)" for tr using ok by (simp add: sessions_ok_def)
  show ?thesis using create_sessions_ok [OF ok] trace
    by (simp add: RequestTerminalSession_def getShell_def createTerminalSession_def run_ops Let_def split: option.split)
qed

lemma term_step_ok: "term_step s s' \<Longrightarrow> sessions_ok s \<Longrightarrow> sessions_ok s'"
proof (induction rule: term_step.induct)
  case (request s c)
  then show ?case by (rule request_sessions_ok)
next
  case (start s i reg)
  have "tended s (snd (run_state (StartTerminalSession i reg) s))"
    unfolding StartTerminalSession_def by (rule lookup_tended [OF start]) (intro tending init_tends, simp_all)
  then show ?case using tended_sessions_ok start by blast
next
  case (stop s i)
  have "tended s (snd (run_state (StopTerminalSession i) s))"
    unfolding StopTerminalSession_def by (rule lookup_tended [OF stop cleanupSession_tends])
  then show ?case using tended_sessions_ok stop by blast
next
  case (unregistered s v)
  have "n < length (tmSessions s)" if "List.find P (tmActive s) = Some (i, n)" for P i n
    using that unregistered by (metis find_Some_in sessions_ok_def)
  then have "tended s (snd (run_state (onUnregister v) s))"
    using tendsD [OF spawnTerm_tends [OF refl]]
    by (auto simp: onUnregister_def run_bind State_Monad.get_def State_Monad.return_def tended_def split: option.split prod.split) (force simp: tended_def)+
  then show ?case using tended_sessions_ok unregistered by blast
next
  case (received n s args)
  then show ?case using tended_sessions_ok tendsD [OF writeReceived_tends] by blast
next
  case (invoked n s arg)
  then show ?case using tended_sessions_ok tendsD [OF resizeInvoked_tends] by blast
next
  case (task s xs t ys)
  let ?s = "s\<lparr>tmTasks := xs @ ys\<rparr>"
  have "sessions_ok ?s" "taskSession t < length (tmSessions ?s)" using task by (auto simp: sessions_ok_def)
  then show ?case using tended_sessions_ok tendsD [OF task_tends] by blast
qed

section \<open>The end of a session\<close>

text \<open>
  A session whose stop returned nil is no longer active, its channels are closed, the end of the
  session will be published, and no topic it still had is kept.
\<close>

lemma giveBack_run:
  "run_state (giveBack l r t) s = (let q = oExt s (oTrace s) (Ext l [t]) in
     if rpFlag q then (rpErr (oExt s (oTrace s @ [Ext l [t]]) (Ext r [t])), s\<lparr>oTrace := oTrace s @ [Ext l [t], Ext r [t]]\<rparr>)
     else (None, s\<lparr>oTrace := oTrace s @ [Ext l [t]]\<rparr>))"
  by (simp add: giveBack_def run_ops Let_def)

lemma stop_ends_session:
  assumes "sessions_ok s" and "map_of (tmActive s) i = Some n" and "run_state (StopTerminalSession i) s = (None, s')"
  shows "map_of (tmActive s') i = None \<and> seClosed (tmSessions s' ! n) \<and> PublishEOF n \<in> set (tmTasks s')"
proof -
  have n: "n < length (tmSessions s)" "seSessionID (tmSessions s ! n) = i"
    using assms(1) map_of_SomeD [OF assms(2)] by (auto simp: sessions_ok_def)
  have "run_state (cleanupSession n) s = (None, s')"
    using assms(2,3) by (simp add: StopTerminalSession_def run_bind run_getSession)
  then show ?thesis using n assms(2)
    by (auto simp: cleanupSession_def sessionAt_def closeSession_def session_upd_def spawnTerm_def giveBack_run run_bind run_gets run_ignore run_modify
        State_Monad.return_def Let_def map_of_map_del split: if_splits option.splits)
qed

section \<open>What is not as intended\<close>

text \<open>An event that arrives after the session was closed, or one without arguments, panics in the router's goroutine.\<close>

lemma late_write_panics:
  "seClosed (tmSessions s ! n) \<Longrightarrow> fst (run_state (writeReceived n (JStr d # args)) s) = Some (panic ''send on closed channel'')"
  "fst (run_state (writeReceived n []) s) = Some (panic ''index out of range'')"
  by (simp_all add: writeReceived_def sessionAt_def run_ops)

text \<open>Only an end of file cleans up: after any other error the reader is gone and the session stays active.\<close>

lemma failed_reader_keeps_session:
  assumes "Error e \<noteq> ''EOF''"
  shows "tmActive (snd (run_state (readerFails n e) s)) = tmActive s \<and> tmTasks (snd (run_state (readerFails n e) s)) = tmTasks s"
  using assms by (simp add: readerFails_def noteError_def sessionAt_def session_upd_def run_ops)

text \<open>A resize is refused unless the serializer made the number a \<^verbatim>\<open>uint64\<close>, although it is in range.\<close>

lemma other_numbers_refused: "onlyUint64 ''height'' [(''height'', DimInt64 24)] = Inl (Msg ''failed to parse height'')"
  by (simp add: onlyUint64_def)

text \<open>A second start of a session gives it a second writer and a second reader.\<close>

lemma started_twice:
  assumes "\<And>tr c. rpErr (oExt s tr c) = None" and "n < length (tmSessions s)"
  shows "tmTasks (snd (run_state (initTerminalMessagingChannels n) (snd (run_state (initTerminalMessagingChannels n) s)))) = tmTasks s @ [Writer n, Reader n, Writer n, Reader n]"
  using assms by (simp add: initTerminalMessagingChannels_def sessionAt_def spawnTerm_def run_ops)

end
