(* ===== verification/NetManager.thy ===== *)
theory NetManager
  imports Outside
begin

unbundle bit_operations_syntax

text \<open>
  \<^verbatim>\<open>networkmanager/\<close>: the bindings to NetworkManager over D-Bus, as far as the agent uses them. A value on
  the bus is a \<open>variant\<close>; the bus is the outside: it answers a call or the reading of a property by an
  error or by one value, and its answer may depend on everything that was asked before. A
  reply of another type than the code stores it in, or a property of another type, is an error. An object is
  its path; a device has the kind the factory gave it. The names of methods and properties are written
  without the prefix \<^verbatim>\<open>org.freedesktop.NetworkManager\<close>.
\<close>

section \<open>The bus\<close>

datatype variant =
    VStr string
  | VBool bool
  | VByte "8 word"
  | VInt32 "32 word"
  | VUint32 "32 word"
  | VInt64 "64 word"
  | VInt int \<comment> \<open>\<^verbatim>\<open>int\<close>\<close>
  | VPath string
  | VPaths "string list"
  | VBytes string \<comment> \<open>\<^verbatim>\<open>[]byte\<close>, as the characters of the string it is converted to\<close>
  | VStrs "string list"
  | VUint32s "32 word list"
  | VUint32ss "32 word list list"
  | VDicts "(string \<times> variant) list list" \<comment> \<open>\<^verbatim>\<open>[]map[string]dbus.Variant\<close>\<close>
  | VSettings "(string \<times> (string \<times> variant) list) list"
  | VOther string \<comment> \<open>a value of any other type, with its rendering\<close>

type_synonym group = "(string \<times> variant) list"
type_synonym ConnectionSettings = "(string \<times> group) list"

datatype bus_call =
    SystemBus
  | Call string string "variant list" \<comment> \<open>object, method, arguments\<close>
  | GetProperty string string

datatype bus_task = Activate_task string string \<comment> \<open>connection and device\<close>

record Bus =
  busTrace :: "bus_call list"
  busReply :: "bus_call list \<Rightarrow> bus_call \<Rightarrow> go_error + variant"
  busRender :: "variant \<Rightarrow> string" \<comment> \<open>how a value that holds maps is printed\<close>
  busTasks :: "bus_task list" \<comment> \<open>the goroutines that were started\<close>

type_synonym 'a nprog = "(Bus, 'a) state"
type_synonym 'a fallible = "(Bus, go_error + 'a) state"

definition busAsk :: "bus_call \<Rightarrow> variant fallible" where
  "busAsk c = do {
     s \<leftarrow> State_Monad.get;
     _ \<leftarrow> State_Monad.set (s\<lparr>busTrace := busTrace s @ [c]\<rparr>);
     ret (busReply s (busTrace s) c) }"

text \<open>The error return of Go: the rest runs unless there is an error.\<close>

definition tried :: "'a fallible \<Rightarrow> ('a \<Rightarrow> 'b fallible) \<Rightarrow> 'b fallible" where
  "tried m f = do { r \<leftarrow> m; case r of Inl e \<Rightarrow> ret (Inl e) | Inr x \<Rightarrow> f x }"

text \<open>A loop that collects one result per element and returns at the first error.\<close>

fun each :: "('a \<Rightarrow> 'b fallible) \<Rightarrow> 'a list \<Rightarrow> 'b list fallible" where
  "each f [] = ret (Inr [])"
| "each f (x # xs) = tried (f x) (\<lambda>y. tried (each f xs) (\<lambda>ys. ret (Inr (y # ys))))"

text \<open>A loop that returns the first element that passes the test.\<close>

fun firstWhere :: "('a \<Rightarrow> bool fallible) \<Rightarrow> 'a list \<Rightarrow> 'a option fallible" where
  "firstWhere f [] = ret (Inr None)"
| "firstWhere f (x # xs) = tried (f x) (\<lambda>b. if b then ret (Inr (Some x)) else firstWhere f xs)"

definition failE :: "go_error \<Rightarrow> 'a fallible" where
  "failE e = ret (Inl e)"

definition okE :: "'a \<Rightarrow> 'a fallible" where
  "okE x = ret (Inr x)"

definition errOf :: "'a fallible \<Rightarrow> err nprog" where
  "errOf m = do { r \<leftarrow> m; ret (case r of Inl e \<Rightarrow> Some e | Inr _ \<Rightarrow> None) }"

section \<open>Typed access\<close>

definition initObject :: "string \<Rightarrow> string fallible" where
  "initObject objectPath = tried (busAsk SystemBus) (\<lambda>_. okE objectPath)"

definition makeErrVariantType :: "string \<Rightarrow> go_error" where
  "makeErrVariantType iface = Msg (''unexpected variant type for '' @ [CHR 0x27] @ iface @ [CHR 0x27])"

definition typedProperty :: "(variant \<Rightarrow> 'a option) \<Rightarrow> string \<Rightarrow> string \<Rightarrow> 'a fallible" where
  "typedProperty proj path iface = tried (busAsk (GetProperty path iface)) (\<lambda>v.
     case proj v of Some x \<Rightarrow> okE x | None \<Rightarrow> failE (makeErrVariantType iface))"

definition call :: "string \<Rightarrow> string \<Rightarrow> variant list \<Rightarrow> unit fallible" where
  "call path meth args = tried (busAsk (Call path meth args)) (\<lambda>_. okE ())"

definition callWithReturn :: "(variant \<Rightarrow> 'a option) \<Rightarrow> string \<Rightarrow> string \<Rightarrow> variant list \<Rightarrow> 'a fallible" where
  "callWithReturn proj path meth args = tried (busAsk (Call path meth args)) (\<lambda>v.
     case proj v of Some x \<Rightarrow> okE x | None \<Rightarrow> failE (Msg ''dbus.Store: type mismatch''))"

definition getObjectProperty :: "string \<Rightarrow> string \<Rightarrow> string fallible" where
  "getObjectProperty = typedProperty (\<lambda>v. case v of VPath p \<Rightarrow> Some p | _ \<Rightarrow> None)"

definition getSliceObjectProperty :: "string \<Rightarrow> string \<Rightarrow> string list fallible" where
  "getSliceObjectProperty = typedProperty (\<lambda>v. case v of VPaths ps \<Rightarrow> Some ps | _ \<Rightarrow> None)"

definition getStringProperty :: "string \<Rightarrow> string \<Rightarrow> string fallible" where
  "getStringProperty = typedProperty (\<lambda>v. case v of VStr s \<Rightarrow> Some s | _ \<Rightarrow> None)"

definition getSliceByteProperty :: "string \<Rightarrow> string \<Rightarrow> string fallible" where
  "getSliceByteProperty = typedProperty (\<lambda>v. case v of VBytes s \<Rightarrow> Some s | _ \<Rightarrow> None)"

definition getUint8Property :: "string \<Rightarrow> string \<Rightarrow> 8 word fallible" where
  "getUint8Property = typedProperty (\<lambda>v. case v of VByte b \<Rightarrow> Some b | _ \<Rightarrow> None)"

definition getUint32Property :: "string \<Rightarrow> string \<Rightarrow> 32 word fallible" where
  "getUint32Property = typedProperty (\<lambda>v. case v of VUint32 n \<Rightarrow> Some n | _ \<Rightarrow> None)"

definition getInt64Property :: "string \<Rightarrow> string \<Rightarrow> 64 word fallible" where
  "getInt64Property = typedProperty (\<lambda>v. case v of VInt64 n \<Rightarrow> Some n | _ \<Rightarrow> None)"

definition getSliceUint32Property :: "string \<Rightarrow> string \<Rightarrow> 32 word list fallible" where
  "getSliceUint32Property = typedProperty (\<lambda>v. case v of VUint32s ns \<Rightarrow> Some ns | _ \<Rightarrow> None)"

definition getSliceSliceUint32Property :: "string \<Rightarrow> string \<Rightarrow> 32 word list list fallible" where
  "getSliceSliceUint32Property = typedProperty (\<lambda>v. case v of VUint32ss ns \<Rightarrow> Some ns | _ \<Rightarrow> None)"

definition getSliceMapStringVariantProperty :: "string \<Rightarrow> string \<Rightarrow> group list fallible" where
  "getSliceMapStringVariantProperty = typedProperty (\<lambda>v. case v of VDicts ds \<Rightarrow> Some ds | _ \<Rightarrow> None)"

text \<open>An object of which the path \<^verbatim>\<open>/\<close> stands for none.\<close>

definition optionalObject :: "string \<Rightarrow> string \<Rightarrow> string option fallible" where
  "optionalObject path iface = tried (getObjectProperty path iface) (\<lambda>p.
     if p = ''/'' then okE None else tried (initObject p) (\<lambda>obj. okE (Some obj)))"

section \<open>Addresses\<close>

definition octets :: "32 word \<Rightarrow> nat list" where
  "octets ip = [unat (ip AND 0xFF), unat (drop_bit 8 ip AND 0xFF), unat (drop_bit 16 ip AND 0xFF), unat (drop_bit 24 ip AND 0xFF)]"

definition dotted :: "nat list \<Rightarrow> string" where
  "dotted ns = Join (CHR ''.'') (map itoa ns)"

text \<open>The address as it lies in memory, least significant byte first.\<close>

definition ip4ToString :: "32 word \<Rightarrow> string" where
  "ip4ToString ip = dotted (octets ip)"

lemma length_itoa: "n < 1000 \<Longrightarrow> length (itoa n) \<le> 3"
  by (subst itoa.simps, simp, subst itoa.simps, simp, subst itoa.simps) simp

lemma hd_itoa: "0 < n \<Longrightarrow> hd (itoa n) \<noteq> CHR ''0''"
proof (induction n rule: itoa.induct)
  case (1 n)
  have "digit_char n \<noteq> CHR ''0''" if "n < 10"
    using that 1(2) char_digit_digit_char [of n] by (auto simp: char_digit_def)
  then show ?case using 1 by (subst itoa.simps) auto
qed

lemma dot_not_in_itoa [simp]: "CHR ''.'' \<notin> set (itoa n)"
  using itoa_chars [of "CHR ''.''" n] by auto

lemma low_octet: "unat (w AND 0xFF) \<le> 255" for w :: "32 word"
  using word_and_le1 [of w "0xFF"] by (simp add: word_le_nat_alt)

section \<open>Connections and settings\<close>

definition pathsReply :: "variant \<Rightarrow> string list option" where
  "pathsReply v = (case v of VPaths ps \<Rightarrow> Some ps | _ \<Rightarrow> None)"

definition pathReply :: "variant \<Rightarrow> string option" where
  "pathReply v = (case v of VPath p \<Rightarrow> Some p | _ \<Rightarrow> None)"

definition settingsReply :: "variant \<Rightarrow> ConnectionSettings option" where
  "settingsReply v = (case v of VSettings s \<Rightarrow> Some s | _ \<Rightarrow> None)"

abbreviation settingsPath :: string where "settingsPath \<equiv> ''/org/freedesktop/NetworkManager/Settings''"
abbreviation managerPath :: string where "managerPath \<equiv> ''/org/freedesktop/NetworkManager''"

definition GetSettings :: "string \<Rightarrow> ConnectionSettings fallible" where
  "GetSettings connection = callWithReturn settingsReply connection ''Settings.Connection.GetSettings'' []"

definition Update :: "string \<Rightarrow> ConnectionSettings \<Rightarrow> unit fallible" where
  "Update connection settings = call connection ''Settings.Connection.Update'' [VSettings settings]"

definition Delete :: "string \<Rightarrow> unit fallible" where
  "Delete connection = call connection ''Settings.Connection.Delete'' []"

definition ListConnections :: "string list fallible" where
  "ListConnections = tried (callWithReturn pathsReply settingsPath ''Settings.ListConnections'' []) (each initObject)"

definition AddConnection :: "ConnectionSettings \<Rightarrow> string fallible" where
  "AddConnection settings = tried (callWithReturn pathReply settingsPath ''Settings.AddConnection'' [VSettings settings]) initObject"

section \<open>Devices\<close>

datatype device_kind = PlainDevice | DummyDevice | GenericDevice | IpTunnelDevice | WiredDevice | WirelessDevice

record Device =
  dvKind :: device_kind
  dvPath :: string

definition GetPropertyDeviceType :: "string \<Rightarrow> 32 word fallible" where
  "GetPropertyDeviceType path = getUint32Property path ''Device.DeviceType''"

definition kindOf :: "32 word \<Rightarrow> device_kind" where
  "kindOf t = (if t = 22 then DummyDevice else if t = 14 then GenericDevice else if t = 17 then IpTunnelDevice
     else if t = 1 then WiredDevice else if t = 2 then WirelessDevice else PlainDevice)"

definition newDevice :: "device_kind \<Rightarrow> string \<Rightarrow> Device fallible" where
  "newDevice kind objectPath = tried (initObject objectPath) (\<lambda>p. okE \<lparr>dvKind = kind, dvPath = p\<rparr>)"

definition DeviceFactory :: "string \<Rightarrow> Device fallible" where
  "DeviceFactory objectPath = tried (newDevice PlainDevice objectPath) (\<lambda>d.
     tried (GetPropertyDeviceType (dvPath d)) (\<lambda>t.
       if kindOf t = PlainDevice then okE d else newDevice (kindOf t) objectPath))"

definition NewDeviceWired :: "string \<Rightarrow> Device fallible" where
  "NewDeviceWired = newDevice WiredDevice"

definition NewDeviceWireless :: "string \<Rightarrow> Device fallible" where
  "NewDeviceWireless = newDevice WirelessDevice"

definition GetPropertyHwAddress :: "Device \<Rightarrow> string fallible" where
  "GetPropertyHwAddress d = getStringProperty (dvPath d) (case dvKind d of
     WiredDevice \<Rightarrow> ''Device.Wired.HwAddress''
   | DummyDevice \<Rightarrow> ''Device.Dummy.HwAddress''
   | GenericDevice \<Rightarrow> ''Device.Generic.HwAddress''
   | _ \<Rightarrow> ''Device.HwAddress'')"

definition GetPropertyPermHwAddress :: "Device \<Rightarrow> string fallible" where
  "GetPropertyPermHwAddress d = getStringProperty (dvPath d) ''Device.Wired.PermHwAddress''"

definition GetPropertyInterface :: "Device \<Rightarrow> string fallible" where
  "GetPropertyInterface d = getStringProperty (dvPath d) ''Device.Interface''"

definition GetPropertyIpInterface :: "Device \<Rightarrow> string fallible" where
  "GetPropertyIpInterface d = getStringProperty (dvPath d) ''Device.IpInterface''"

definition GetPropertyState :: "Device \<Rightarrow> 32 word fallible" where
  "GetPropertyState d = getUint32Property (dvPath d) ''Device.State''"

definition GetPropertyActiveConnection :: "Device \<Rightarrow> string option fallible" where
  "GetPropertyActiveConnection d = optionalObject (dvPath d) ''Device.ActiveConnection''"

definition GetPropertyIP4Config :: "Device \<Rightarrow> string option fallible" where
  "GetPropertyIP4Config d = optionalObject (dvPath d) ''Device.Ip4Config''"

definition GetPropertyIP6Config :: "Device \<Rightarrow> string option fallible" where
  "GetPropertyIP6Config d = optionalObject (dvPath d) ''Device.Ip6Config''"

definition GetAllAccessPoints :: "Device \<Rightarrow> string list fallible" where
  "GetAllAccessPoints d = tried (callWithReturn pathsReply (dvPath d) ''Device.Wireless.GetAllAccessPoints'' []) (each initObject)"

definition GetPropertyLastScan :: "Device \<Rightarrow> 64 word fallible" where
  "GetPropertyLastScan d = getInt64Property (dvPath d) ''Device.Wireless.LastScan''"

definition ErrorFollowingPreviousScan :: go_error where
  "ErrorFollowingPreviousScan = Msg ''scanning not allowed immediately following previous scan''"

text \<open>Every other error is dropped.\<close>

definition RequestScan :: "Device \<Rightarrow> err nprog" where
  "RequestScan d = do {
     r \<leftarrow> busAsk (Call (dvPath d) ''Device.Wireless.RequestScan'' []);
     ret (case r of
            Inl e \<Rightarrow> if Contains (Error e) ''not allowed immediately following previous scan'' then Some ErrorFollowingPreviousScan else None
          | Inr _ \<Rightarrow> None) }"

section \<open>The manager and its active connections\<close>

definition GetAllDevices :: "Device list fallible" where
  "GetAllDevices = tried (callWithReturn pathsReply managerPath ''GetAllDevices'' []) (each DeviceFactory)"

definition GetPropertyActiveConnections :: "string list fallible" where
  "GetPropertyActiveConnections = tried (getSliceObjectProperty managerPath ''ActiveConnections'') (each initObject)"

definition GetPropertyDevices :: "string \<Rightarrow> Device list fallible" where
  "GetPropertyDevices ac = tried (getSliceObjectProperty ac ''Connection.Active.Devices'') (each DeviceFactory)"

definition GetPropertyConnection :: "string \<Rightarrow> string fallible" where
  "GetPropertyConnection ac = tried (getObjectProperty ac ''Connection.Active.Connection'') initObject"

definition ActivateConnection :: "string \<Rightarrow> string \<Rightarrow> string \<Rightarrow> string fallible" where
  "ActivateConnection connection device specific =
     tried (callWithReturn pathReply managerPath ''ActivateConnection'' [VPath connection, VPath device, VPath specific]) initObject"

definition ActivateWirelessConnection :: "string \<Rightarrow> Device \<Rightarrow> string \<Rightarrow> string fallible" where
  "ActivateWirelessConnection c d ap = ActivateConnection c (dvPath d) ap"

definition ReloadManager :: "32 word \<Rightarrow> unit fallible" where
  "ReloadManager flags = call managerPath ''Reload'' [VUint32 flags]"

section \<open>Access points\<close>

definition GetPropertyFlags :: "string \<Rightarrow> 32 word fallible" where
  "GetPropertyFlags ap = getUint32Property ap ''AccessPoint.Flags''"

definition GetPropertyWPAFlags :: "string \<Rightarrow> 32 word fallible" where
  "GetPropertyWPAFlags ap = getUint32Property ap ''AccessPoint.WpaFlags''"

definition GetPropertyRSNFlags :: "string \<Rightarrow> 32 word fallible" where
  "GetPropertyRSNFlags ap = getUint32Property ap ''AccessPoint.RsnFlags''"

definition GetPropertySSID :: "string \<Rightarrow> string fallible" where
  "GetPropertySSID ap = getSliceByteProperty ap ''AccessPoint.Ssid''"

definition GetPropertyFrequency :: "string \<Rightarrow> 32 word fallible" where
  "GetPropertyFrequency ap = getUint32Property ap ''AccessPoint.Frequency''"

definition GetPropertyHWAddress :: "string \<Rightarrow> string fallible" where
  "GetPropertyHWAddress ap = getStringProperty ap ''AccessPoint.HwAddress''"

definition GetPropertyStrength :: "string \<Rightarrow> 8 word fallible" where
  "GetPropertyStrength ap = getUint8Property ap ''AccessPoint.Strength''"

definition freqToChannel :: "32 word \<Rightarrow> 32 word" where
  "freqToChannel freq =
     (if freq = 2484 then 14
      else if freq < 2484 then (freq - 2407) div 5
      else if freq \<ge> 4910 \<and> freq \<le> 4980 then (freq - 4000) div 5
      else if freq < 5925 then (freq - 5000) div 5
      else if freq = 5935 then 2
      else if freq \<le> 45000 then (freq - 5950) div 5
      else if freq \<ge> 58320 \<and> freq \<le> 70200 then (freq - 56160) div 2160
      else 0)"

definition GetChannel :: "string \<Rightarrow> 32 word fallible" where
  "GetChannel ap = tried (GetPropertyFrequency ap) (\<lambda>freq. okE (freqToChannel freq))"

definition hasFlag :: "32 word \<Rightarrow> 32 word \<Rightarrow> bool" where
  "hasFlag flags bits = (flags AND bits \<noteq> 0)"

definition wepType :: "32 word \<Rightarrow> string" where
  "wepType flags = (if hasFlag flags 0x200 then ''ieee8021x'' else ''wep'')"

definition securityType :: "32 word \<Rightarrow> string" where
  "securityType flags =
     (if flags = 0 then ''none''
      else if hasFlag flags 0x1 then wepType flags
      else if hasFlag flags 0x2 then wepType flags
      else if hasFlag flags 0x10 then wepType flags
      else if hasFlag flags 0x20 then wepType flags
      else if hasFlag flags 0x2000 then ''wpa-eap''
      else if hasFlag flags 0x100 then ''wpa-psk''
      else ''unknown'')"

definition GetSecurityType :: "string \<Rightarrow> string fallible" where
  "GetSecurityType ap = tried (GetPropertyRSNFlags ap) (\<lambda>rsn.
     if rsn = 0 then tried (GetPropertyWPAFlags ap) (\<lambda>wpa. okE (securityType wpa)) else okE (securityType rsn))"

section \<open>Configurations\<close>

record IPAddressData =
  adAddress :: string
  adPrefix :: "8 word"

definition decodeAddress :: "string \<Rightarrow> group \<Rightarrow> go_error + IPAddressData" where
  "decodeAddress what address = (case map_of address ''prefix'' of
     Some (VUint32 prefix) \<Rightarrow>
       (case map_of address ''address'' of
          Some (VStr a) \<Rightarrow> Inr \<lparr>adAddress = a, adPrefix = ucast prefix\<rparr>
        | _ \<Rightarrow> Inl (Msg ''unexpected variant type for address''))
   | _ \<Rightarrow> Inl (Msg (''unexpected variant type for '' @ what)))"

fun decodeAddresses :: "string \<Rightarrow> group list \<Rightarrow> go_error + IPAddressData list" where
  "decodeAddresses what [] = Inr []"
| "decodeAddresses what (a # as) = (case decodeAddress what a of
     Inl e \<Rightarrow> Inl e
   | Inr d \<Rightarrow> (case decodeAddresses what as of Inl e \<Rightarrow> Inl e | Inr ds \<Rightarrow> Inr (d # ds)))"

definition GetIP4AddressData :: "string \<Rightarrow> IPAddressData list fallible" where
  "GetIP4AddressData c = tried (getSliceMapStringVariantProperty c ''IP4Config.AddressData'') (\<lambda>as. ret (decodeAddresses ''address prefix'' as))"

definition GetIP6AddressData :: "string \<Rightarrow> IPAddressData list fallible" where
  "GetIP6AddressData c = tried (getSliceMapStringVariantProperty c ''IP6Config.AddressData'') (\<lambda>as. ret (decodeAddresses ''prefix'' as))"

definition GetPropertyGateway :: "string \<Rightarrow> string fallible" where
  "GetPropertyGateway c = getStringProperty c ''IP4Config.Gateway''"

definition GetPropertyNameservers :: "string \<Rightarrow> string list fallible" where
  "GetPropertyNameservers c = tried (getSliceUint32Property c ''IP4Config.Nameservers'') (\<lambda>ns. okE (map ip4ToString ns))"

text \<open>
  Frequencies between the bands give a channel that wrapped around; an access point of WPA2 with 802.1X
  has an unknown type; a prefix is cut to a byte.
\<close>

lemma channel_wraps: "freqToChannel 4990 = 858993457" "freqToChannel 5930 = 858993455" "freqToChannel 2400 = 858993457"
  by (simp_all add: freqToChannel_def)

lemma enterprise_unknown: "securityType 0x288 = ''unknown''"
  by (simp add: securityType_def hasFlag_def)

lemma long_prefix_wraps: "decodeAddress w [(''prefix'', VUint32 280), (''address'', VStr a)] = Inr \<lparr>adAddress = a, adPrefix = 24\<rparr>"
  by (simp add: decodeAddress_def)

end
