(* ===== verification/Network.thy ===== *)
theory Network
  imports NetManager
begin

text \<open>
  \<^verbatim>\<open>network/\<close>: the networks of the device. The connections are NetworkManager's; the functions read its
  devices, access points and profiles over the bus and write profiles back. A profile is a map of
  groups of settings; a group that is absent reads as empty. A panic is an error like the others. The
  interfaces of the machine and their addresses are an argument.
\<close>

section \<open>Data\<close>

record WiFi =
  wfSSID :: string
  wfMAC :: string
  wfSecurityType :: string
  wfSignal :: "8 word"
  wfWPAFlags :: "32 word"
  wfRSNFlags :: "32 word"
  wfFlags :: "32 word"
  wfFrequency :: "32 word"
  wfChannel :: "32 word"
  wfCurrent :: bool
  wfKnown :: bool

record EthernetDevice =
  edInterfaceName :: string
  edMAC :: string
  edIPv4 :: "IPAddressData list"
  edIPv6 :: "IPAddressData list"
  edMethod :: string

record WiFiCredentials =
  crSsid :: string
  crPasswd :: string
  crSecurityType :: string
  crPriority :: "32 word"

definition ErrDeviceNotFound :: go_error where "ErrDeviceNotFound = Msg ''device not found''"
definition ErrInvalidWiFiPassword :: go_error where "ErrInvalidWiFiPassword = Msg ''the wifi password is invalid''"
definition ErrNotConnected :: go_error where "ErrNotConnected = Msg ''not connected''"
definition ErrNotFound :: go_error where "ErrNotFound = Msg ''not found''"
definition ErrNilDevice :: go_error where "ErrNilDevice = Msg ''panic: nil pointer dereference''"
definition ErrAssertion :: go_error where "ErrAssertion = Msg ''panic: interface conversion''"

abbreviation wirelessGroup :: string where "wirelessGroup \<equiv> ''802-11-wireless''"
abbreviation securityGroup :: string where "securityGroup \<equiv> ''802-11-wireless-security''"

definition groupOf :: "ConnectionSettings \<Rightarrow> string \<Rightarrow> group" where
  "groupOf settings g = (case map_of settings g of Some kvs \<Rightarrow> kvs | None \<Rightarrow> [])"

definition setting :: "ConnectionSettings \<Rightarrow> string \<Rightarrow> string \<Rightarrow> variant option" where
  "setting settings g k = map_of (groupOf settings g) k"

text \<open>\<^verbatim>\<open>fmt.Sprint\<close>; a missing entry is nil.\<close>

definition bracketed :: "string list \<Rightarrow> string" where
  "bracketed xs = ''['' @ Join (CHR '' '') xs @ '']''"

fun sprintValue :: "(variant \<Rightarrow> string) \<Rightarrow> variant \<Rightarrow> string" where
  "sprintValue render (VStr s) = s"
| "sprintValue render (VPath s) = s"
| "sprintValue render (VBool b) = (if b then ''true'' else ''false'')"
| "sprintValue render (VByte n) = itoa (unat n)"
| "sprintValue render (VInt32 n) = itoa_int (sint n)"
| "sprintValue render (VUint32 n) = itoa (unat n)"
| "sprintValue render (VInt64 n) = itoa_int (sint n)"
| "sprintValue render (VInt n) = itoa_int n"
| "sprintValue render (VPaths ps) = bracketed ps"
| "sprintValue render (VStrs ss) = bracketed ss"
| "sprintValue render (VBytes s) = bracketed (map (\<lambda>c. itoa (of_char c)) s)"
| "sprintValue render (VUint32s ns) = bracketed (map (\<lambda>n. itoa (unat n)) ns)"
| "sprintValue render (VUint32ss nss) = bracketed (map (\<lambda>ns. bracketed (map (\<lambda>n. itoa (unat n)) ns)) nss)"
| "sprintValue render (VOther s) = s"
| "sprintValue render (VDicts ds) = render (VDicts ds)"
| "sprintValue render (VSettings s) = render (VSettings s)"

definition Sprint :: "(variant \<Rightarrow> string) \<Rightarrow> variant option \<Rightarrow> string" where
  "Sprint render v = (case v of None \<Rightarrow> ''<nil>'' | Some x \<Rightarrow> sprintValue render x)"

section \<open>Devices and access points\<close>

definition isWifi :: "Device \<Rightarrow> bool fallible" where
  "isWifi device = tried (GetPropertyDeviceType (dvPath device)) (\<lambda>devType. okE (devType = 2))"

fun activeWifi :: "string list \<Rightarrow> Device fallible" where
  "activeWifi [] = failE ErrDeviceNotFound"
| "activeWifi (connection # rest) = tried (GetPropertyDevices connection) (\<lambda>devices.
     tried (firstWhere isWifi devices) (\<lambda>found.
       case found of Some device \<Rightarrow> NewDeviceWireless (dvPath device) | None \<Rightarrow> activeWifi rest))"

definition getActiveWirelessDevice :: "Device fallible" where
  "getActiveWirelessDevice = tried GetPropertyActiveConnections activeWifi"

definition getWirelessDevice :: "Device fallible" where
  "getWirelessDevice = do {
     r \<leftarrow> getActiveWirelessDevice;
     case r of
       Inr device \<Rightarrow> okE device
     | Inl _ \<Rightarrow> tried GetAllDevices (\<lambda>devices.
         tried (firstWhere isWifi devices) (\<lambda>found.
           case found of Some device \<Rightarrow> NewDeviceWireless (dvPath device) | None \<Rightarrow> failE ErrDeviceNotFound)) }"

definition accessPointWith :: "(string \<Rightarrow> string fallible) \<Rightarrow> string \<Rightarrow> string fallible" where
  "accessPointWith prop wanted = tried getWirelessDevice (\<lambda>device.
     tried (GetAllAccessPoints device) (\<lambda>accessPoints.
       tried (firstWhere (\<lambda>ap. tried (prop ap) (\<lambda>found. okE (found = wanted))) accessPoints) (\<lambda>found.
         case found of Some ap \<Rightarrow> okE ap | None \<Rightarrow> failE ErrNotFound)))"

definition getAccessPointBySSID :: "string \<Rightarrow> string fallible" where
  "getAccessPointBySSID ssid = accessPointWith GetPropertySSID ssid"

definition getAccessPointByMAC :: "string \<Rightarrow> string fallible" where
  "getAccessPointByMAC mac = accessPointWith GetPropertyHWAddress mac"

definition Reload :: "err nprog" where
  "Reload = errOf (ReloadManager 0)"

section \<open>Profiles\<close>

text \<open>The profile with the retries made infinite, when there is something to change.\<close>

definition withInfiniteRetries :: "(variant \<Rightarrow> string) \<Rightarrow> ConnectionSettings \<Rightarrow> ConnectionSettings option" where
  "withInfiniteRetries render settings = (case map_of settings ''connection'' of
     None \<Rightarrow> None
   | Some connSettings \<Rightarrow>
       (let connType = Sprint render (map_of connSettings ''type'') in
        if connType \<noteq> ''802-3-ethernet'' \<and> connType \<noteq> ''802-11-wireless'' then None
        else if map_of connSettings ''autoconnect-retries'' = Some (VInt32 0) then None
        else Some (map_put ''connection'' (map_put ''autoconnect-retries'' (VInt32 0) connSettings) settings)))"

definition setRetries :: "string \<Rightarrow> unit nprog" where
  "setRetries connection = do {
     render \<leftarrow> gets busRender;
     r \<leftarrow> GetSettings connection;
     case r of
       Inl _ \<Rightarrow> ret ()
     | Inr settings \<Rightarrow>
         (case withInfiniteRetries render settings of
            None \<Rightarrow> ret ()
          | Some changed \<Rightarrow> do { _ \<leftarrow> Update connection changed; ret () }) }"

fun setAllRetries :: "string list \<Rightarrow> unit nprog" where
  "setAllRetries [] = ret ()"
| "setAllRetries (connection # rest) = do { _ \<leftarrow> setRetries connection; setAllRetries rest }"

definition SetInfiniteAutoconnectRetries :: "err nprog" where
  "SetInfiniteAutoconnectRetries = do {
     r \<leftarrow> ListConnections;
     case r of Inl e \<Rightarrow> ret (Some e) | Inr connections \<Rightarrow> do { _ \<leftarrow> setAllRetries connections; ret None } }"

definition hasSSID :: "string \<Rightarrow> string \<Rightarrow> bool fallible" where
  "hasSSID ssid connection = tried (GetSettings connection) (\<lambda>settingsMap.
     case setting settingsMap wirelessGroup ''ssid'' of
       None \<Rightarrow> okE False
     | Some (VBytes foundSSID) \<Rightarrow> okE (ssid = foundSSID)
     | Some _ \<Rightarrow> failE (Msg ''failed to parse ssid''))"

definition getConnectionBySSID :: "string \<Rightarrow> string fallible" where
  "getConnectionBySSID ssid = tried ListConnections (\<lambda>saved.
     tried (firstWhere (hasSSID ssid) saved) (\<lambda>found. case found of Some c \<Rightarrow> okE c | None \<Rightarrow> failE ErrNotFound))"

definition RemoveWifi :: "string \<Rightarrow> err nprog" where
  "RemoveWifi ssid = errOf (tried (getConnectionBySSID ssid) Delete)"

definition ActivateWiFi :: "string \<Rightarrow> string \<Rightarrow> err nprog" where
  "ActivateWiFi mac ssid = errOf (tried getWirelessDevice (\<lambda>device.
     tried (getAccessPointByMAC mac) (\<lambda>accessPoint.
       tried (getConnectionBySSID ssid) (\<lambda>connection.
         ActivateWirelessConnection connection device accessPoint))))"

text \<open>The name and the security of the network: given, or read from the access point.\<close>

definition wifiIdentity :: "string \<Rightarrow> WiFiCredentials \<Rightarrow> (string \<times> string) fallible" where
  "wifiIdentity mac credentials =
     (if mac = [] then okE (crSsid credentials, crSecurityType credentials)
      else tried (getAccessPointByMAC mac) (\<lambda>ap.
        tried (GetPropertySSID ap) (\<lambda>ssid.
          tried (GetSecurityType ap) (\<lambda>secType. okE (ssid, secType)))))"

definition wifiSettings :: "WiFiCredentials \<Rightarrow> string \<Rightarrow> string \<Rightarrow> ConnectionSettings" where
  "wifiSettings credentials ssid secType =
     [(''connection'', [(''id'', VStr ssid), (''autoconnect-priority'', VUint32 (crPriority credentials)), (''autoconnect-retries'', VInt32 0)]),
      (wirelessGroup, [(''ssid'', VBytes ssid), (''security'', VStr securityGroup)]),
      (securityGroup, (''key-mgmt'', VStr secType) #
        (if secType = ''wpa-psk'' \<or> secType = ''wpa-eap'' then [(''psk-flags'', VInt 0), (''psk'', VStr (crPasswd credentials))]
         else if secType = ''wep'' then [(''wep-key-type'', VInt 1), (''wep-key0'', VStr (crPasswd credentials))]
         else []))]"

definition addError :: "go_error \<Rightarrow> go_error" where
  "addError e =
     (if Contains (Error e) ''802-11-wireless-security.psk: property is invalid'' then ErrInvalidWiFiPassword
      else if Contains (Error e) ''802-11-wireless-security.wep-key0: property is invalid'' then ErrInvalidWiFiPassword
      else e)"

definition AddWiFi :: "string \<Rightarrow> WiFiCredentials \<Rightarrow> err nprog" where
  "AddWiFi mac credentials = errOf (tried (wifiIdentity mac credentials) (\<lambda>(ssid, secType). do {
     r \<leftarrow> AddConnection (wifiSettings credentials ssid secType);
     ret (case r of Inl e \<Rightarrow> Inl (addError e) | Inr c \<Rightarrow> Inr c) }))"

section \<open>Scanning\<close>

text \<open>
  The rounds that are polled before the deadline are an argument; the deadline is the error after
  them. A scan that was refused because it follows another one is started again with a new deadline,
  so there is one number of rounds per attempt; None means that the attempts given were all refused.
\<close>

definition scanRound :: "Device \<Rightarrow> 64 word \<Rightarrow> err option nprog" where
  "scanRound device lastScanBefore = do {
     r \<leftarrow> GetPropertyLastScan device;
     case r of
       Inl e \<Rightarrow> ret (Some (Some e))
     | Inr lastScan \<Rightarrow>
         if lastScanBefore \<noteq> lastScan then ret (Some None)
         else do {
           st \<leftarrow> GetPropertyState device;
           ret (case st of
                  Inl e \<Rightarrow> Some (Some e)
                | Inr devState \<Rightarrow> if devState \<le> 30 then Some (Some ErrNotConnected) else None) } }"

fun pollScan :: "nat \<Rightarrow> Device \<Rightarrow> 64 word \<Rightarrow> err nprog" where
  "pollScan 0 device lastScanBefore = ret (Some (Msg ''context deadline exceeded''))"
| "pollScan (Suc n) device lastScanBefore = do {
     r \<leftarrow> scanRound device lastScanBefore;
     case r of Some e \<Rightarrow> ret e | None \<Rightarrow> pollScan n device lastScanBefore }"

text \<open>None: rate limited.\<close>

definition scanAttempt :: "nat \<Rightarrow> err option nprog" where
  "scanAttempt rounds = do {
     d \<leftarrow> getWirelessDevice;
     case d of
       Inl e \<Rightarrow> ret (Some (Some e))
     | Inr device \<Rightarrow> do {
         l \<leftarrow> GetPropertyLastScan device;
         case l of
           Inl e \<Rightarrow> ret (Some (Some e))
         | Inr lastScanBefore \<Rightarrow> do {
             e \<leftarrow> RequestScan device;
             if e = Some ErrorFollowingPreviousScan then ret None
             else do { r \<leftarrow> pollScan rounds device lastScanBefore; ret (Some r) } } } }"

fun Scan :: "nat list \<Rightarrow> err option nprog" where
  "Scan [] = ret None"
| "Scan (rounds # later) = do {
     r \<leftarrow> scanAttempt rounds;
     case r of Some e \<Rightarrow> ret (Some e) | None \<Rightarrow> Scan later }"

section \<open>Known networks\<close>

text \<open>The access points and names of the profiles; None: a list of access points is of another type.\<close>

fun savedNetworks :: "string list \<Rightarrow> string list \<Rightarrow> string list \<Rightarrow> (string list \<times> string list) option fallible" where
  "savedNetworks [] allBSSIDs allSSIDs = okE (Some (allBSSIDs, allSSIDs))"
| "savedNetworks (connection # rest) allBSSIDs allSSIDs = tried (GetSettings connection) (\<lambda>settingsMap.
     tried (case setting settingsMap wirelessGroup ''ssid'' of
              None \<Rightarrow> okE allSSIDs
            | Some (VBytes ssid) \<Rightarrow> okE (allSSIDs @ [ssid])
            | Some _ \<Rightarrow> failE (Msg ''failed to parse ssid''))
       (\<lambda>ssids. case setting settingsMap wirelessGroup ''seen-bssids'' of
            None \<Rightarrow> savedNetworks rest allBSSIDs ssids
          | Some (VStrs bssids) \<Rightarrow> savedNetworks rest (allBSSIDs @ bssids) ssids
          | Some _ \<Rightarrow> okE None))"

definition isKnown :: "string \<Rightarrow> string \<Rightarrow> bool fallible" where
  "isKnown ssid bssid = tried ListConnections (\<lambda>saved.
     tried (savedNetworks saved [] []) (\<lambda>r. okE (case r of
        None \<Rightarrow> False
      | Some (allBSSIDs, allSSIDs) \<Rightarrow> bssid \<in> set allBSSIDs \<or> ssid \<in> set allSSIDs)))"

definition isCurrent :: "string \<Rightarrow> bool fallible" where
  "isCurrent bssid = tried getWirelessDevice (\<lambda>device.
     tried (GetPropertyActiveConnection device) (\<lambda>ac.
       case ac of
         None \<Rightarrow> okE False
       | Some a \<Rightarrow> tried (GetPropertyConnection a) (\<lambda>connection.
           tried (GetSettings connection) (\<lambda>settingsMap. okE (case setting settingsMap wirelessGroup ''seen-bssids'' of
              Some (VStrs bssids) \<Rightarrow> bssid \<in> set bssids
            | _ \<Rightarrow> False)))))"

fun readableSettings :: "string list \<Rightarrow> ConnectionSettings list nprog" where
  "readableSettings [] = ret []"
| "readableSettings (connection # rest) = do {
     r \<leftarrow> GetSettings connection;
     later \<leftarrow> readableSettings rest;
     ret (case r of Inl _ \<Rightarrow> later | Inr settings \<Rightarrow> settings # later) }"

definition getAllConnectionSettings :: "ConnectionSettings list fallible" where
  "getAllConnectionSettings = tried ListConnections (\<lambda>cs. do { all \<leftarrow> readableSettings cs; okE all })"

text \<open>An access point that does not tell its name has none.\<close>

definition accessPointToWiFi :: "string \<Rightarrow> WiFi fallible" where
  "accessPointToWiFi ap = do {
     name \<leftarrow> GetPropertySSID ap;
     let ssid = (case name of Inl _ \<Rightarrow> [] | Inr s \<Rightarrow> s);
     tried (GetPropertyHWAddress ap) (\<lambda>mac.
     tried (isKnown ssid mac) (\<lambda>known.
     tried (isCurrent mac) (\<lambda>current.
     tried (GetPropertyWPAFlags ap) (\<lambda>wpaFlags.
     tried (GetPropertyStrength ap) (\<lambda>signal.
     tried (GetPropertyFlags ap) (\<lambda>flags.
     tried (GetPropertyFrequency ap) (\<lambda>freq.
     tried (GetChannel ap) (\<lambda>channel.
     tried (GetPropertyRSNFlags ap) (\<lambda>rsnFlags.
     tried (GetSecurityType ap) (\<lambda>secType.
       okE \<lparr>wfSSID = ssid, wfMAC = mac, wfSecurityType = secType, wfSignal = signal, wfWPAFlags = wpaFlags, wfRSNFlags = rsnFlags,
             wfFlags = flags, wfFrequency = freq, wfChannel = channel, wfCurrent = current, wfKnown = known\<rparr>)))))))))) }"

definition accessPointsToWiFi :: "string list \<Rightarrow> WiFi list fallible" where
  "accessPointsToWiFi = each accessPointToWiFi"

definition connectionSettingsToWifi :: "(variant \<Rightarrow> string) \<Rightarrow> ConnectionSettings \<Rightarrow> WiFi" where
  "connectionSettingsToWifi render settings =
     \<lparr>wfSSID = (case setting settings wirelessGroup ''ssid'' of Some (VBytes s) \<Rightarrow> s | _ \<Rightarrow> []), wfMAC = [],
      wfSecurityType = Sprint render (setting settings securityGroup ''key-mgmt''), wfSignal = 0, wfWPAFlags = 0, wfRSNFlags = 0,
      wfFlags = 0, wfFrequency = 0, wfChannel = 0, wfCurrent = False, wfKnown = True\<rparr>"

definition addSaved :: "(variant \<Rightarrow> string) \<Rightarrow> ConnectionSettings \<Rightarrow> WiFi list \<Rightarrow> WiFi list" where
  "addSaved render settings wifis = (case setting settings wirelessGroup ''ssid'' of
     Some (VBytes ssid) \<Rightarrow>
       if list_ex (\<lambda>wifi. wfSSID wifi = ssid) wifis then wifis else wifis @ [connectionSettingsToWifi render settings]
   | _ \<Rightarrow> wifis)"

definition ListWifiNetworks :: "WiFi list fallible" where
  "ListWifiNetworks = do {
     render \<leftarrow> gets busRender;
     tried getWirelessDevice (\<lambda>device.
     tried (GetAllAccessPoints device) (\<lambda>accessPoints.
     tried (accessPointsToWiFi accessPoints) (\<lambda>wifis.
     tried getAllConnectionSettings (\<lambda>saved. okE (fold (addSaved render) saved wifis))))) }"

section \<open>Addresses\<close>

definition configAddresses :: "(string \<Rightarrow> IPAddressData list fallible) \<Rightarrow> string option \<Rightarrow> IPAddressData list fallible" where
  "configAddresses read_config config = (case config of None \<Rightarrow> okE [] | Some c \<Rightarrow> read_config c)"

definition GetActiveWirelessDeviceConfig :: "(IPAddressData list \<times> IPAddressData list) fallible" where
  "GetActiveWirelessDeviceConfig = tried getWirelessDevice (\<lambda>device.
     tried (GetPropertyIP4Config device) (\<lambda>ip4Config.
     tried (GetPropertyIP6Config device) (\<lambda>ip6Config.
     tried (configAddresses GetIP4AddressData ip4Config) (\<lambda>ipv4.
     tried (configAddresses GetIP6AddressData ip6Config) (\<lambda>ipv6. okE (ipv4, ipv6))))))"

definition swapUint32 :: "32 word \<Rightarrow> 32 word" where
  "swapUint32 n = push_bit 24 (n AND 0x000000FF) OR push_bit 8 (n AND 0x0000FF00)
     OR drop_bit 8 (n AND 0x00FF0000) OR drop_bit 24 (n AND 0xFF000000)"

text \<open>
  \<^verbatim>\<open>net.ParseIP\<close> for the dotted form, which is what the caller gives: four decimal numbers of at most
  three digits up to 255 without leading zeros; the first is the most significant byte.
\<close>

definition parseOctet :: "string \<Rightarrow> nat option" where
  "parseOctet s = (case parse_digits 0 s of
     Some n \<Rightarrow> if s \<noteq> [] \<and> length s \<le> 3 \<and> n \<le> 255 \<and> (length s > 1 \<longrightarrow> hd s \<noteq> CHR ''0'') then Some n else None
   | None \<Rightarrow> None)"

definition parseIPv4 :: "string \<Rightarrow> 32 word option" where
  "parseIPv4 s = (case map parseOctet (Split (CHR ''.'') s) of
     [Some a, Some b, Some c, Some d] \<Rightarrow> Some (push_bit 24 (of_nat a) OR push_bit 16 (of_nat b) OR push_bit 8 (of_nat c) OR of_nat d)
   | _ \<Rightarrow> None)"

definition ip2Long :: "string \<Rightarrow> 32 word" where
  "ip2Long ip = swapUint32 (case parseIPv4 ip of Some long \<Rightarrow> long | None \<Rightarrow> 0)"

section \<open>Static addresses and DHCP\<close>

definition dropKeys :: "string list \<Rightarrow> group \<Rightarrow> group" where
  "dropKeys ks g = fold map_del ks g"

definition withoutIPv6Addresses :: "ConnectionSettings \<Rightarrow> ConnectionSettings" where
  "withoutIPv6Addresses settings = (case map_of settings ''ipv6'' of
     None \<Rightarrow> settings
   | Some g \<Rightarrow> map_put ''ipv6'' (dropKeys [''addresses'', ''routes''] g) settings)"

text \<open>The gateway and the name servers of the device, when it has a configuration.\<close>

definition currentGateway :: "string option \<Rightarrow> (string \<times> 32 word list) option fallible" where
  "currentGateway devSettings = (case devSettings of
     None \<Rightarrow> okE None
   | Some c \<Rightarrow> tried (GetPropertyGateway c) (\<lambda>gateway.
       tried (GetPropertyNameservers c) (\<lambda>dnsStrings. okE (Some (gateway, map ip2Long dnsStrings)))))"

definition staticSettings :: "ConnectionSettings \<Rightarrow> (string \<times> 32 word list) option \<Rightarrow> string \<Rightarrow> 32 word \<Rightarrow> ConnectionSettings" where
  "staticSettings settings net ipAddress prefix =
     (let cleared = withoutIPv6Addresses settings;
          ipv4 = dropKeys [''addresses'', ''address-data'', ''gateway'', ''dns''] (groupOf cleared ''ipv4'');
          routed = (case net of None \<Rightarrow> ipv4 | Some (gateway, dns) \<Rightarrow> map_put ''dns'' (VUint32s dns) (map_put ''gateway'' (VStr gateway) ipv4));
          manual = map_put ''method'' (VStr ''manual'') routed
      in map_put ''ipv4'' (map_put ''address-data'' (VDicts [[(''address'', VStr ipAddress), (''prefix'', VUint32 prefix)]]) manual) cleared)"

definition dhcpSettings :: "ConnectionSettings \<Rightarrow> ConnectionSettings" where
  "dhcpSettings settings =
     (let cleared = withoutIPv6Addresses settings;
          ipv4 = dropKeys [''addresses'', ''address-data'', ''gateway''] (groupOf cleared ''ipv4'')
      in map_put ''ipv4'' (map_put ''method'' (VStr ''auto'') ipv4) cleared)"

definition activateLater :: "string \<Rightarrow> Device option \<Rightarrow> unit fallible" where
  "activateLater connection device = (case device of
     None \<Rightarrow> okE ()
   | Some d \<Rightarrow> do { _ \<leftarrow> modify (\<lambda>s. s\<lparr>busTasks := busTasks s @ [Activate_task connection (dvPath d)]\<rparr>); okE () })"

fun runBusTask :: "bus_task \<Rightarrow> err nprog" where
  "runBusTask (Activate_task connection device) = errOf (ActivateConnection connection device ''/'')"

definition updateIPv4Address :: "Device option \<Rightarrow> string \<Rightarrow> string \<Rightarrow> 32 word \<Rightarrow> unit fallible" where
  "updateIPv4Address device connection ipAddress prefix = tried (GetSettings connection) (\<lambda>settings.
     tried (case device of None \<Rightarrow> failE ErrNilDevice | Some d \<Rightarrow> GetPropertyIP4Config d) (\<lambda>devSettings.
       tried (currentGateway devSettings) (\<lambda>net.
         tried (Update connection (staticSettings settings net ipAddress prefix)) (\<lambda>_. activateLater connection device))))"

definition enableDHCP :: "Device option \<Rightarrow> string \<Rightarrow> unit fallible" where
  "enableDHCP device connection = tried (GetSettings connection) (\<lambda>settings.
     tried (Update connection (dhcpSettings settings)) (\<lambda>_. activateLater connection device))"

definition hasInterface :: "string \<Rightarrow> string \<Rightarrow> bool fallible" where
  "hasInterface interfaceName connection = do {
     render \<leftarrow> gets busRender;
     tried (GetSettings connection) (\<lambda>cSettings. okE (interfaceName = Sprint render (setting cSettings ''connection'' ''interface-name''))) }"

definition getConnectionByInterfaceName :: "string \<Rightarrow> string fallible" where
  "getConnectionByInterfaceName interfaceName = tried ListConnections (\<lambda>connections.
     tried (firstWhere (hasInterface interfaceName) connections) (\<lambda>found. case found of Some c \<Rightarrow> okE c | None \<Rightarrow> failE ErrNotFound))"

fun deviceByMac :: "string \<Rightarrow> Device list \<Rightarrow> (Device \<times> string option) option fallible" where
  "deviceByMac mac [] = okE None"
| "deviceByMac mac (device # rest) = tried (GetPropertyHwAddress device) (\<lambda>foundMac.
     if foundMac = mac then tried (GetPropertyActiveConnection device) (\<lambda>ac. okE (Some (device, ac)))
     else deviceByMac mac rest)"

definition targetConnection :: "string \<Rightarrow> string \<Rightarrow> (Device option \<times> string) fallible" where
  "targetConnection mac interfaceName = tried GetAllDevices (\<lambda>devices.
     tried (deviceByMac mac devices) (\<lambda>found.
       tried (case found of
                Some (device, Some ac) \<Rightarrow> GetPropertyConnection ac
              | _ \<Rightarrow> getConnectionByInterfaceName interfaceName)
         (\<lambda>connection. okE (map_option fst found, connection))))"

definition EnableDHCP :: "string \<Rightarrow> string \<Rightarrow> err nprog" where
  "EnableDHCP mac interfaceName = errOf (tried (targetConnection mac interfaceName) (\<lambda>(device, connection). enableDHCP device connection))"

definition SetIPv4Address :: "string \<Rightarrow> string \<Rightarrow> string \<Rightarrow> 32 word \<Rightarrow> err nprog" where
  "SetIPv4Address mac interfaceName ip prefix =
     errOf (tried (targetConnection mac interfaceName) (\<lambda>(device, connection). updateIPv4Address device connection ip prefix))"

section \<open>Ethernet devices\<close>

fun wiredDevices :: "Device list \<Rightarrow> Device list fallible" where
  "wiredDevices [] = okE []"
| "wiredDevices (device # rest) = tried (GetPropertyDeviceType (dvPath device)) (\<lambda>devType.
     if devType = 1
     then tried (NewDeviceWired (dvPath device)) (\<lambda>d. tried (wiredDevices rest) (\<lambda>ds. okE (d # ds)))
     else wiredDevices rest)"

definition getEthernetDevices :: "Device list fallible" where
  "getEthernetDevices = tried GetAllDevices wiredDevices"

text \<open>An address of a profile: the type of its prefix is asserted.\<close>

definition savedAddress :: "(variant \<Rightarrow> string) \<Rightarrow> group \<Rightarrow> go_error + IPAddressData" where
  "savedAddress render addressData = (case map_of addressData ''prefix'' of
     Some (VUint32 prefix) \<Rightarrow> Inr \<lparr>adAddress = Sprint render (map_of addressData ''address''), adPrefix = ucast prefix\<rparr>
   | _ \<Rightarrow> Inl ErrAssertion)"

definition savedAddresses :: "(variant \<Rightarrow> string) \<Rightarrow> ConnectionSettings \<Rightarrow> IPAddressData list fallible" where
  "savedAddresses render settings = (case setting settings ''ipv4'' ''address-data'' of
     None \<Rightarrow> okE []
   | Some (VDicts ds) \<Rightarrow> each (\<lambda>d. ret (savedAddress render d)) ds
   | Some _ \<Rightarrow> failE ErrAssertion)"

text \<open>A profile that is looked up by the interface's name; an error of the lookup counts as no profile.\<close>

definition withProfileOf :: "string \<Rightarrow> 'a \<Rightarrow> (ConnectionSettings \<Rightarrow> 'a fallible) \<Rightarrow> 'a fallible" where
  "withProfileOf name none f = do {
     r \<leftarrow> getConnectionByInterfaceName name;
     case r of Inl _ \<Rightarrow> okE none | Inr connection \<Rightarrow> tried (GetSettings connection) f }"

definition ipv4Of :: "(variant \<Rightarrow> string) \<Rightarrow> string \<Rightarrow> string option \<Rightarrow> IPAddressData list fallible" where
  "ipv4Of render name ipv4Config = (case ipv4Config of
     Some c \<Rightarrow> GetIP4AddressData c
   | None \<Rightarrow> withProfileOf name [] (savedAddresses render))"

definition methodIn :: "(variant \<Rightarrow> string) \<Rightarrow> ConnectionSettings \<Rightarrow> string" where
  "methodIn render settings = (case setting settings ''ipv4'' ''method'' of None \<Rightarrow> [] | Some m \<Rightarrow> sprintValue render m)"

text \<open>None: an inactive device without a name is left out.\<close>

definition methodOf :: "(variant \<Rightarrow> string) \<Rightarrow> string \<Rightarrow> string option \<Rightarrow> string option fallible" where
  "methodOf render name ac = (case ac of
     Some a \<Rightarrow> tried (GetPropertyConnection a) (\<lambda>conn. tried (GetSettings conn) (\<lambda>settings. okE (Some (methodIn render settings))))
   | None \<Rightarrow>
       if name = [] then okE None
       else withProfileOf name (Some []) (\<lambda>settings. okE (Some (methodIn render settings))))"

definition interfaceNameOf :: "Device \<Rightarrow> string fallible" where
  "interfaceNameOf device = tried (GetPropertyIpInterface device) (\<lambda>name.
     if name = [] then GetPropertyInterface device else okE name)"

definition ethernetDevice :: "Device \<Rightarrow> EthernetDevice option fallible" where
  "ethernetDevice device = do {
     render \<leftarrow> gets busRender;
     tried (interfaceNameOf device) (\<lambda>name.
     tried (GetPropertyIP4Config device) (\<lambda>ipv4Config.
     tried (ipv4Of render name ipv4Config) (\<lambda>ipv4.
     tried (GetPropertyIP6Config device) (\<lambda>ipv6Config.
     tried (configAddresses GetIP6AddressData ipv6Config) (\<lambda>ipv6.
     tried (GetPropertyPermHwAddress device) (\<lambda>mac.
     tried (GetPropertyActiveConnection device) (\<lambda>ac.
     tried (methodOf render name ac) (\<lambda>meth.
       okE (map_option (\<lambda>m. \<lparr>edInterfaceName = name, edMAC = mac, edIPv4 = ipv4, edIPv6 = ipv6, edMethod = m\<rparr>) meth))))))))) }"

definition ListEthernetDevices :: "EthernetDevice list fallible" where
  "ListEthernetDevices = tried getEthernetDevices (\<lambda>devices.
     tried (each ethernetDevice devices) (\<lambda>ds. okE (List.map_filter id ds)))"

section \<open>Reading the bus\<close>

lemma wp_busAsk [wp_simps]: "wp (busAsk c) Q s = Q (busReply s (busTrace s) c) (s\<lparr>busTrace := busTrace s @ [c]\<rparr>)"
  by (simp add: busAsk_def wp_simps)

lemma wp_okE [wp_simps]: "wp (okE x) Q s = Q (Inr x) s"
  by (simp add: okE_def wp_simps)

lemma wp_failE [wp_simps]: "wp (failE e) Q s = Q (Inl e) s"
  by (simp add: failE_def wp_simps)

lemma wp_tried: "wp (tried m f) Q s = wp m (\<lambda>r s'. case r of Inl e \<Rightarrow> Q (Inl e) s' | Inr x \<Rightarrow> wp (f x) Q s') s"
  unfolding tried_def wp_bind by (auto simp: wp_return intro!: arg_cong [of _ _ "\<lambda>Q. wp m Q s"] split: sum.split)

lemma wp_errOf [wp_simps]: "wp (errOf m) Q s = wp m (\<lambda>r. Q (case r of Inl e \<Rightarrow> Some e | Inr _ \<Rightarrow> None)) s"
  by (simp add: errOf_def wp_simps)

lemma run_tried: "run_state (tried m f) s = (case run_state m s of (Inl e, s') \<Rightarrow> (Inl e, s') | (Inr x, s') \<Rightarrow> run_state (f x) s')"
  by (auto simp: tried_def run_bind State_Monad.return_def split: prod.splits sum.splits)

lemma tried_okD: "run_state (tried m f) s = (Inr y, s') \<Longrightarrow> \<exists>x s1. run_state m s = (Inr x, s1) \<and> run_state (f x) s1 = (Inr y, s')"
  by (auto simp: run_tried split: prod.splits sum.splits)

text \<open>The calls that change nothing.\<close>

definition isRead :: "bus_call \<Rightarrow> bool" where
  "isRead c = (case c of
     Call _ meth _ \<Rightarrow> meth \<in> {''Settings.Connection.GetSettings'', ''Settings.ListConnections'', ''GetAllDevices'', ''Device.Wireless.GetAllAccessPoints''}
   | _ \<Rightarrow> True)"

definition reading :: "Bus \<Rightarrow> Bus \<Rightarrow> bool" where
  "reading s s' \<longleftrightarrow> (\<exists>tr. list_all isRead tr \<and> s' = s\<lparr>busTrace := busTrace s @ tr\<rparr>)"

interpretation rd: state_relation reading
proof
  show "reading s s" for s by (auto simp: reading_def intro: exI [of _ "[]"])
  show "reading s u" if "reading s t" "reading t u" for s t u
  proof -
    from that obtain tr tr' where "list_all isRead (tr @ tr')" "u = s\<lparr>busTrace := busTrace s @ tr @ tr'\<rparr>"
      by (auto simp: reading_def)
    then show ?thesis unfolding reading_def by blast
  qed
qed

lemma busAsk_reading: "isRead c \<Longrightarrow> keeps reading (busAsk c)"
  unfolding keeps_wp reading_def by (auto simp: wp_busAsk intro: exI [of _ "[c]"])

lemma tried_reading: "keeps reading m \<Longrightarrow> (\<And>x. keeps reading (f x)) \<Longrightarrow> keeps reading (tried m f)"
  unfolding tried_def by (intro rd.keeps_basic)

lemma simple_reading: "keeps reading (okE x)" "keeps reading (failE e)"
  by (simp_all add: okE_def failE_def rd.keeps_return)

lemma each_reading: "(\<And>x. keeps reading (f x)) \<Longrightarrow> keeps reading (each f xs)"
  by (induction xs) (simp_all add: rd.keeps_return tried_reading)

lemma firstWhere_reading: "(\<And>x. keeps reading (f x)) \<Longrightarrow> keeps reading (firstWhere f xs)"
  by (induction xs) (simp_all add: rd.keeps_return tried_reading rd.keeps_if)

lemma errOf_reading: "keeps reading m \<Longrightarrow> keeps reading (errOf m)"
  unfolding errOf_def by (intro rd.keeps_basic)

lemma typedProperty_reading: "keeps reading (typedProperty proj path iface)"
  unfolding typedProperty_def by (intro tried_reading busAsk_reading rd.keeps_case_option simple_reading) (simp add: isRead_def)

lemma callWithReturn_reading: "isRead (Call path meth args) \<Longrightarrow> keeps reading (callWithReturn proj path meth args)"
  unfolding callWithReturn_def by (intro tried_reading busAsk_reading rd.keeps_case_option simple_reading)

lemma initObject_reading: "keeps reading (initObject p)"
  unfolding initObject_def by (intro tried_reading busAsk_reading simple_reading) (simp add: isRead_def)

lemmas reads_basic = tried_reading simple_reading each_reading firstWhere_reading typedProperty_reading initObject_reading
  rd.keeps_return rd.keeps_bind rd.keeps_gets rd.keeps_if rd.keeps_case_option rd.keeps_case_sum rd.keeps_case_prod

lemma optionalObject_reading: "keeps reading (optionalObject path iface)"
  unfolding optionalObject_def getObjectProperty_def by (intro reads_basic)

lemma newDevice_reading: "keeps reading (newDevice kind p)"
  unfolding newDevice_def by (intro reads_basic)

lemma DeviceFactory_reading: "keeps reading (DeviceFactory p)"
  unfolding DeviceFactory_def GetPropertyDeviceType_def getUint32Property_def by (intro reads_basic newDevice_reading)

lemma GetSettings_reading: "keeps reading (GetSettings c)"
  unfolding GetSettings_def by (rule callWithReturn_reading) (simp add: isRead_def)

lemma ListConnections_reading: "keeps reading ListConnections"
  unfolding ListConnections_def by (intro tried_reading callWithReturn_reading each_reading initObject_reading) (simp add: isRead_def)

lemma GetAllDevices_reading: "keeps reading GetAllDevices"
  unfolding GetAllDevices_def by (intro tried_reading callWithReturn_reading each_reading DeviceFactory_reading) (simp add: isRead_def)

lemma GetAllAccessPoints_reading: "keeps reading (GetAllAccessPoints d)"
  unfolding GetAllAccessPoints_def by (intro tried_reading callWithReturn_reading each_reading initObject_reading) (simp add: isRead_def)

lemmas getters = getObjectProperty_def getSliceObjectProperty_def getStringProperty_def getSliceByteProperty_def getUint8Property_def
  getUint32Property_def getInt64Property_def getSliceUint32Property_def getSliceMapStringVariantProperty_def
  GetPropertyDeviceType_def GetPropertyHwAddress_def GetPropertyPermHwAddress_def GetPropertyInterface_def GetPropertyIpInterface_def
  GetPropertyState_def GetPropertyActiveConnection_def GetPropertyIP4Config_def GetPropertyIP6Config_def GetPropertyLastScan_def
  GetPropertyActiveConnections_def GetPropertyDevices_def GetPropertyConnection_def GetPropertyFlags_def GetPropertyWPAFlags_def
  GetPropertyRSNFlags_def GetPropertySSID_def GetPropertyFrequency_def GetPropertyHWAddress_def GetPropertyStrength_def GetChannel_def
  GetSecurityType_def GetIP4AddressData_def GetIP6AddressData_def GetPropertyGateway_def GetPropertyNameservers_def
  NewDeviceWired_def NewDeviceWireless_def

lemmas reads_bus = reads_basic optionalObject_reading newDevice_reading DeviceFactory_reading GetSettings_reading ListConnections_reading
  GetAllDevices_reading GetAllAccessPoints_reading

lemma hasInterface_reading: "keeps reading (hasInterface i c)"
  unfolding hasInterface_def by (intro reads_bus)

lemma getConnectionByInterfaceName_reading: "keeps reading (getConnectionByInterfaceName i)"
  unfolding getConnectionByInterfaceName_def by (intro reads_bus hasInterface_reading)

lemma deviceByMac_reading: "keeps reading (deviceByMac mac ds)"
  by (induction ds) (simp_all add: getters simple_reading tried_reading typedProperty_reading optionalObject_reading rd.keeps_if)

lemma targetConnection_reading: "keeps reading (targetConnection mac i)"
  unfolding targetConnection_def getters by (intro reads_bus deviceByMac_reading getConnectionByInterfaceName_reading)

lemma currentGateway_reading: "keeps reading (currentGateway c)"
  unfolding currentGateway_def getters by (intro reads_bus)

section \<open>Settings that are written\<close>

lemma setting_put: "setting (map_put g kvs s) g' k = (if g' = g then map_of kvs k else setting s g' k)"
  by (simp add: setting_def groupOf_def)

lemma map_of_dropKeys: "map_of (dropKeys ks g) k = (if k \<in> set ks then None else map_of g k)"
  unfolding dropKeys_def by (induction ks arbitrary: g) simp_all

lemma setting_withoutIPv6:
  "setting (withoutIPv6Addresses s) g k = (if g = ''ipv6'' \<and> k \<in> {''addresses'', ''routes''} then None else setting s g k)"
  by (auto simp: withoutIPv6Addresses_def setting_put map_of_dropKeys setting_def groupOf_def split: option.splits)

lemma setting_static:
  "setting (staticSettings s net ip prefix) g k =
     (if g = ''ipv6'' \<and> k \<in> {''addresses'', ''routes''} then None
      else if g = ''ipv4'' \<and> k = ''method'' then Some (VStr ''manual'')
      else if g = ''ipv4'' \<and> k = ''address-data'' then Some (VDicts [[(''address'', VStr ip), (''prefix'', VUint32 prefix)]])
      else if g = ''ipv4'' \<and> k = ''gateway'' then map_option (\<lambda>(gateway, _). VStr gateway) net
      else if g = ''ipv4'' \<and> k = ''dns'' then map_option (\<lambda>(_, dns). VUint32s dns) net
      else if g = ''ipv4'' \<and> k = ''addresses'' then None
      else setting s g k)"
  using setting_withoutIPv6 [of s "''ipv4''" k]
  by (auto simp: staticSettings_def Let_def setting_put map_of_dropKeys setting_withoutIPv6 simp flip: setting_def split: option.splits)

lemma setting_dhcp:
  "setting (dhcpSettings s) g k =
     (if g = ''ipv6'' \<and> k \<in> {''addresses'', ''routes''} then None
      else if g = ''ipv4'' \<and> k = ''method'' then Some (VStr ''auto'')
      else if g = ''ipv4'' \<and> k \<in> {''addresses'', ''address-data'', ''gateway''} then None
      else setting s g k)"
  using setting_withoutIPv6 [of s "''ipv4''" k]
  by (auto simp: dhcpSettings_def Let_def setting_put map_of_dropKeys setting_withoutIPv6 simp flip: setting_def)

lemma setting_retries:
  assumes "withInfiniteRetries render s = Some s'"
  shows "setting s' g k = (if g = ''connection'' \<and> k = ''autoconnect-retries'' then Some (VInt32 0) else setting s g k)"
  using assms by (auto simp: withInfiniteRetries_def Let_def setting_put setting_def groupOf_def split: option.splits if_splits)

section \<open>Addresses as numbers\<close>

lemma parseOctet_itoa: "n \<le> 255 \<Longrightarrow> parseOctet (itoa n) = Some n"
  using length_itoa [of n] hd_itoa [of n] itoa.simps [of 0] by (cases "n = 0") (simp_all add: parseOctet_def parse_digits_itoa)

lemma Split_dotted: "Split (CHR ''.'') (dotted [a, b, c, d]) = map itoa [a, b, c, d]"
  by (simp add: dotted_def Split_Cons_sep Split_no_sep)

text \<open>The bytes in reverse order, and where a bit goes.\<close>

definition reversed :: "32 word \<Rightarrow> 32 word" where
  "reversed n = push_bit 24 (take_bit 8 n) OR push_bit 16 (take_bit 8 (drop_bit 8 n)) OR push_bit 8 (take_bit 8 (drop_bit 16 n)) OR take_bit 8 (drop_bit 24 n)"

lemma bit_reversed:
  "i < 8 \<Longrightarrow> bit (reversed n) i = bit n (i + 24)"
  "8 \<le> i \<Longrightarrow> i < 16 \<Longrightarrow> bit (reversed n) i = bit n (i + 8)"
  "16 \<le> i \<Longrightarrow> i < 24 \<Longrightarrow> bit (reversed n) i = bit n (i - 8)"
  "24 \<le> i \<Longrightarrow> i < 32 \<Longrightarrow> bit (reversed n) i = bit n (i - 24)"
  by (auto simp: reversed_def bit_simps ac_simps)

lemma byte_masks:
  "(0xFF :: 32 word) = mask 8" "(0xFF00 :: 32 word) = push_bit 8 (mask 8)" "(0xFF0000 :: 32 word) = push_bit 16 (mask 8)"
  "(0xFF000000 :: 32 word) = push_bit 24 (mask 8)"
  by (simp_all add: mask_eq_exp_minus_1)

lemma four_bytes:
  assumes "\<And>i. i < 8 \<Longrightarrow> bit (v :: 32 word) i = bit w i" "\<And>i. 8 \<le> i \<Longrightarrow> i < 16 \<Longrightarrow> bit v i = bit w i"
    "\<And>i. 16 \<le> i \<Longrightarrow> i < 24 \<Longrightarrow> bit v i = bit w i" "\<And>i. 24 \<le> i \<Longrightarrow> i < 32 \<Longrightarrow> bit v i = bit w i"
  shows "v = w"
proof (rule bit_word_eqI)
  fix i :: nat
  assume "i < LENGTH(32)"
  then consider "i < 8" | "8 \<le> i" "i < 16" | "16 \<le> i" "i < 24" | "24 \<le> i" "i < 32" by fastforce
  then show "bit v i = bit w i" by cases (use assms in simp_all)
qed

lemma swapUint32_reversed: "swapUint32 n = reversed n"
  by (rule four_bytes) (auto simp: bit_reversed swapUint32_def byte_masks bit_simps ac_simps)

lemma swapUint32_involutive: "swapUint32 (swapUint32 n) = n"
  unfolding swapUint32_reversed by (rule four_bytes) (simp_all add: bit_reversed)

lemma ip2Long_ip4ToString: "ip2Long (ip4ToString n) = n"
proof -
  have "parseIPv4 (ip4ToString n) = Some (reversed n)"
    unfolding parseIPv4_def ip4ToString_def octets_def Split_dotted
    by (simp add: parseOctet_itoa low_octet reversed_def take_bit_eq_mask flip: byte_masks(1))
  then show ?thesis by (simp add: ip2Long_def swapUint32_involutive flip: swapUint32_reversed)
qed

section \<open>A static address\<close>

lemma GetSettings_okD:
  assumes "run_state (GetSettings c) s = (Inr settings, s')"
  shows "s' = s\<lparr>busTrace := busTrace s @ [Call c ''Settings.Connection.GetSettings'' []]\<rparr>"
    and "busReply s (busTrace s) (Call c ''Settings.Connection.GetSettings'' []) = Inr (VSettings settings)"
proof -
  have "wp (GetSettings c) (\<lambda>r s'. s' = s\<lparr>busTrace := busTrace s @ [Call c ''Settings.Connection.GetSettings'' []]\<rparr>
      \<and> (\<forall>settings. r = Inr settings \<longrightarrow> busReply s (busTrace s) (Call c ''Settings.Connection.GetSettings'' []) = Inr (VSettings settings))) s"
    by (auto simp: GetSettings_def callWithReturn_def wp_tried wp_simps settingsReply_def split: sum.splits option.splits variant.splits)
  from wp_runD [OF this assms] show "s' = s\<lparr>busTrace := busTrace s @ [Call c ''Settings.Connection.GetSettings'' []]\<rparr>"
    and "busReply s (busTrace s) (Call c ''Settings.Connection.GetSettings'' []) = Inr (VSettings settings)" by simp_all
qed

lemma Update_okD:
  "run_state (Update c settings) s = (r, s') \<Longrightarrow> s' = s\<lparr>busTrace := busTrace s @ [Call c ''Settings.Connection.Update'' [VSettings settings]]\<rparr>"
  by (erule wp_runD [rotated]) (auto simp: Update_def call_def wp_tried wp_simps split: sum.splits)

text \<open>Among the calls made from a state on, one was answered with a value.\<close>

definition answered :: "Bus \<Rightarrow> bus_call list \<Rightarrow> bus_call \<Rightarrow> variant \<Rightarrow> bool" where
  "answered s calls c v \<longleftrightarrow> (\<exists>before after. calls = before @ c # after \<and> busReply s (busTrace s @ before) c = Inr v)"

lemma answered_append: "answered s calls c v \<Longrightarrow> answered s (calls @ later) c v"
  unfolding answered_def by (metis append_Cons append_assoc)

lemma answered_earlier: "answered (s\<lparr>busTrace := busTrace s @ tr\<rparr>) calls c v \<Longrightarrow> answered s (tr @ calls) c v"
  unfolding answered_def by (simp, metis append_assoc)

lemma answered_now: "busReply s (busTrace s) c = Inr v \<Longrightarrow> answered s [c] c v"
  unfolding answered_def by (intro exI [of _ "[]"]) simp

lemma reads_okD: "keeps reading m \<Longrightarrow> run_state m s = (r, s') \<Longrightarrow> \<exists>tr. list_all isRead tr \<and> s' = s\<lparr>busTrace := busTrace s @ tr\<rparr>"
  by (drule (1) keepsD) (simp add: reading_def)

lemma config_reading: "keeps reading (GetPropertyIP4Config d)" "keeps reading (GetPropertyGateway c)"
  unfolding getters by (intro reads_bus)+

lemma Nameservers_okD:
  assumes "run_state (GetPropertyNameservers c) s = (Inr names, s')"
  shows "\<exists>ns. s' = s\<lparr>busTrace := busTrace s @ [GetProperty c ''IP4Config.Nameservers'']\<rparr>
    \<and> busReply s (busTrace s) (GetProperty c ''IP4Config.Nameservers'') = Inr (VUint32s ns) \<and> names = map ip4ToString ns"
proof -
  have "wp (GetPropertyNameservers c) (\<lambda>r s'. \<forall>names. r = Inr names \<longrightarrow>
      (\<exists>ns. s' = s\<lparr>busTrace := busTrace s @ [GetProperty c ''IP4Config.Nameservers'']\<rparr>
        \<and> busReply s (busTrace s) (GetProperty c ''IP4Config.Nameservers'') = Inr (VUint32s ns) \<and> names = map ip4ToString ns)) s"
    by (auto simp: GetPropertyNameservers_def getSliceUint32Property_def typedProperty_def wp_tried wp_simps split: sum.splits option.splits variant.splits)
  from wp_runD [OF this assms] show ?thesis by simp
qed

lemma currentGateway_okD:
  assumes "run_state (currentGateway devSettings) s = (Inr (Some (gateway, dns)), s')"
  shows "\<exists>calls cfg. s' = s\<lparr>busTrace := busTrace s @ calls\<rparr> \<and> list_all isRead calls \<and> answered s calls (GetProperty cfg ''IP4Config.Nameservers'') (VUint32s dns)"
proof -
  obtain c where c: "devSettings = Some c" using assms by (cases devSettings) (simp_all add: currentGateway_def okE_def State_Monad.return_def)
  obtain s1 names where gw: "run_state (GetPropertyGateway c) s = (Inr gateway, s1)"
      and ns: "run_state (GetPropertyNameservers c) s1 = (Inr names, s')" and dns: "dns = map ip2Long names"
    using assms by (auto simp: c currentGateway_def okE_def State_Monad.return_def dest!: tried_okD)
  obtain tr where tr: "list_all isRead tr" "s1 = s\<lparr>busTrace := busTrace s @ tr\<rparr>" using reads_okD [OF config_reading(2) gw] by blast
  from Nameservers_okD [OF ns] dns have s': "s' = s1\<lparr>busTrace := busTrace s1 @ [GetProperty c ''IP4Config.Nameservers'']\<rparr>"
    and "busReply s1 (busTrace s1) (GetProperty c ''IP4Config.Nameservers'') = Inr (VUint32s dns)"
    by (auto simp: o_def ip2Long_ip4ToString)
  then have "answered s (tr @ [GetProperty c ''IP4Config.Nameservers'']) (GetProperty c ''IP4Config.Nameservers'') (VUint32s dns)"
    using tr(2) by (metis answered_earlier answered_now)
  then show ?thesis using tr s' by (intro exI [of _ "tr @ [GetProperty c ''IP4Config.Nameservers'']"] exI [of _ c]) (simp add: isRead_def)
qed

text \<open>What an address change that succeeds has read and written.\<close>

definition addressChanged :: "Device option \<Rightarrow> string \<Rightarrow> string \<Rightarrow> 32 word \<Rightarrow> Bus \<Rightarrow> Bus \<Rightarrow> bool" where
  "addressChanged device c ip prefix s s' \<longleftrightarrow> (\<exists>d settings net reads. device = Some d \<and> list_all isRead reads
    \<and> s' = s\<lparr>busTrace := busTrace s @ reads @ [Call c ''Settings.Connection.Update'' [VSettings (staticSettings settings net ip prefix)]],
           busTasks := busTasks s @ [Activate_task c (dvPath d)]\<rparr>
    \<and> answered s reads (Call c ''Settings.Connection.GetSettings'' []) (VSettings settings)
    \<and> (\<forall>gateway dns. net = Some (gateway, dns) \<longrightarrow> (\<exists>cfg. answered s reads (GetProperty cfg ''IP4Config.Nameservers'') (VUint32s dns))))"

lemma addressChanged_earlier:
  assumes "list_all isRead tr" "addressChanged device c ip prefix (s\<lparr>busTrace := busTrace s @ tr\<rparr>) s'"
  shows "addressChanged device c ip prefix s s'"
proof -
  obtain d settings net reads where "device = Some d" "list_all isRead reads"
    "s' = s\<lparr>busTrace := busTrace s @ (tr @ reads) @ [Call c ''Settings.Connection.Update'' [VSettings (staticSettings settings net ip prefix)]], busTasks := busTasks s @ [Activate_task c (dvPath d)]\<rparr>"
    "answered (s\<lparr>busTrace := busTrace s @ tr\<rparr>) reads (Call c ''Settings.Connection.GetSettings'' []) (VSettings settings)"
    "\<forall>gateway dns. net = Some (gateway, dns) \<longrightarrow> (\<exists>cfg. answered (s\<lparr>busTrace := busTrace s @ tr\<rparr>) reads (GetProperty cfg ''IP4Config.Nameservers'') (VUint32s dns))"
    using assms(2) by (auto simp: addressChanged_def)
  then show ?thesis
    unfolding addressChanged_def using assms(1) answered_earlier
    by (intro exI [of _ d] exI [of _ settings] exI [of _ net] exI [of _ "tr @ reads"]) (auto, blast)
qed

lemma updateIPv4_okD:
  assumes "run_state (updateIPv4Address device c ip prefix) s = (Inr u, s')"
  shows "addressChanged device c ip prefix s s'"
proof -
  obtain settings s1 where st: "run_state (GetSettings c) s = (Inr settings, s1)"
    and r1: "run_state (tried (case device of None \<Rightarrow> failE ErrNilDevice | Some d \<Rightarrow> GetPropertyIP4Config d) (\<lambda>devSettings.
       tried (currentGateway devSettings) (\<lambda>net.
         tried (Update c (staticSettings settings net ip prefix)) (\<lambda>_. activateLater c device)))) s1 = (Inr u, s')"
    using assms unfolding updateIPv4Address_def by (blast dest: tried_okD)
  obtain d where d: "device = Some d"
    using r1 by (cases device) (simp_all add: run_tried failE_def State_Monad.return_def)
  obtain cfg s2 where ip: "run_state (GetPropertyIP4Config d) s1 = (Inr cfg, s2)"
    and r2: "run_state (tried (currentGateway cfg) (\<lambda>net. tried (Update c (staticSettings settings net ip prefix)) (\<lambda>_. activateLater c device))) s2 = (Inr u, s')"
    using tried_okD [OF r1] by (auto simp: d)
  obtain net s3 y s4 where net: "run_state (currentGateway cfg) s2 = (Inr net, s3)"
    and up: "run_state (Update c (staticSettings settings net ip prefix)) s3 = (Inr y, s4)"
    and r4: "run_state (activateLater c device) s4 = (Inr u, s')"
    using tried_okD [OF r2] tried_okD by metis
  obtain t2 where t2: "list_all isRead t2" "s2 = s1\<lparr>busTrace := busTrace s1 @ t2\<rparr>" using reads_okD [OF config_reading(1) ip] by blast
  obtain t3 where t3: "list_all isRead t3" "s3 = s2\<lparr>busTrace := busTrace s2 @ t3\<rparr>"
      "\<forall>gateway dns. net = Some (gateway, dns) \<longrightarrow> (\<exists>cfg. answered s2 t3 (GetProperty cfg ''IP4Config.Nameservers'') (VUint32s dns))"
  proof (cases net)
    case None
    then show ?thesis using reads_okD [OF currentGateway_reading net] that by auto
  next
    case (Some gd)
    obtain gateway dns where gd: "gd = (gateway, dns)" by force
    show ?thesis using currentGateway_okD [of cfg s2 gateway dns s3] net Some that by (auto simp: gd)
  qed
  let ?q = "Call c ''Settings.Connection.GetSettings'' []"
  have s1: "s1 = s\<lparr>busTrace := busTrace s @ [?q]\<rparr>" by (rule GetSettings_okD [OF st])
  have s2: "s2 = s\<lparr>busTrace := busTrace s @ ?q # t2\<rparr>" using t2 s1 by simp
  have "s' = s4\<lparr>busTasks := busTasks s4 @ [Activate_task c (dvPath d)]\<rparr>"
    using r4 by (auto simp: activateLater_def d run_ops okE_def)
  with Update_okD [OF up] t3(2) s2 have "s' = s\<lparr>busTrace := busTrace s @ (?q # t2 @ t3)
      @ [Call c ''Settings.Connection.Update'' [VSettings (staticSettings settings net ip prefix)]], busTasks := busTasks s @ [Activate_task c (dvPath d)]\<rparr>"
    by simp
  moreover have "answered s (?q # t2 @ t3) ?q (VSettings settings)"
    using answered_append [OF answered_now [OF GetSettings_okD(2) [OF st]], of "t2 @ t3"] by simp
  moreover have "\<forall>gateway dns. net = Some (gateway, dns) \<longrightarrow> (\<exists>cfg. answered s (?q # t2 @ t3) (GetProperty cfg ''IP4Config.Nameservers'') (VUint32s dns))"
    using t3(3) answered_earlier [of s "?q # t2" t3] by (auto simp: s2) blast
  moreover have "list_all isRead (?q # t2 @ t3)" using t2(1) t3(1) by (simp add: isRead_def)
  ultimately show ?thesis unfolding addressChanged_def using d by blast
qed

text \<open>The settings that a static address changes.\<close>

definition addressSettings :: "(string \<times> string) set" where
  "addressSettings = {(''ipv6'', ''addresses''), (''ipv6'', ''routes''), (''ipv4'', ''method''), (''ipv4'', ''addresses''), (''ipv4'', ''address-data''), (''ipv4'', ''gateway''), (''ipv4'', ''dns'')}"


section \<open>Retries without end\<close>

text \<open>A profile of an ethernet or wireless connection whose retries are limited.\<close>

definition limited :: "(variant \<Rightarrow> string) \<Rightarrow> ConnectionSettings \<Rightarrow> bool" where
  "limited render settings \<longleftrightarrow> map_of settings ''connection'' \<noteq> None
     \<and> Sprint render (setting settings ''connection'' ''type'') \<in> {''802-3-ethernet'', ''802-11-wireless''}
     \<and> setting settings ''connection'' ''autoconnect-retries'' \<noteq> Some (VInt32 0)"

lemma withInfiniteRetries_limited: "(withInfiniteRetries render s \<noteq> None) \<longleftrightarrow> limited render s"
  by (auto simp: withInfiniteRetries_def limited_def setting_def groupOf_def Let_def split: option.splits)

text \<open>The calls for one profile, by the answer to the first of them.\<close>

definition profileCalls :: "(variant \<Rightarrow> string) \<Rightarrow> string \<Rightarrow> go_error + variant \<Rightarrow> bus_call list \<Rightarrow> bool" where
  "profileCalls render c answer calls \<longleftrightarrow>
     (\<exists>settings new. answer = Inr (VSettings settings) \<and> limited render settings
        \<and> calls = [Call c ''Settings.Connection.GetSettings'' [], Call c ''Settings.Connection.Update'' [VSettings new]]
        \<and> (\<forall>g k. setting new g k = (if g = ''connection'' \<and> k = ''autoconnect-retries'' then Some (VInt32 0) else setting settings g k)))
   \<or> (\<not> (\<exists>settings. answer = Inr (VSettings settings) \<and> limited render settings) \<and> calls = [Call c ''Settings.Connection.GetSettings'' []])"

lemma run_GetSettings:
  "run_state (GetSettings c) s =
     (case busReply s (busTrace s) (Call c ''Settings.Connection.GetSettings'' []) of
        Inl e \<Rightarrow> Inl e
      | Inr v \<Rightarrow> (case settingsReply v of Some x \<Rightarrow> Inr x | None \<Rightarrow> Inl (Msg ''dbus.Store: type mismatch'')),
      s\<lparr>busTrace := busTrace s @ [Call c ''Settings.Connection.GetSettings'' []]\<rparr>)"
  by (simp add: GetSettings_def callWithReturn_def run_tried busAsk_def run_ops okE_def failE_def split: sum.splits option.splits)

lemma setRetries_calls:
  "\<exists>calls. run_state (setRetries c) s = ((), s\<lparr>busTrace := busTrace s @ calls\<rparr>)
     \<and> profileCalls (busRender s) c (busReply s (busTrace s) (Call c ''Settings.Connection.GetSettings'' [])) calls"
proof (cases "\<exists>settings. busReply s (busTrace s) (Call c ''Settings.Connection.GetSettings'' []) = Inr (VSettings settings) \<and> limited (busRender s) settings")
  case True
  then obtain settings where "busReply s (busTrace s) (Call c ''Settings.Connection.GetSettings'' []) = Inr (VSettings settings)" "limited (busRender s) settings" by blast
  moreover from this obtain new where "withInfiniteRetries (busRender s) settings = Some new" using withInfiniteRetries_limited by blast
  ultimately show ?thesis
    by (intro exI [of _ "[Call c ''Settings.Connection.GetSettings'' [], Call c ''Settings.Connection.Update'' [VSettings new]]"])
      (auto simp: setRetries_def run_ops run_GetSettings settingsReply_def profileCalls_def setting_retries Update_def call_def run_tried busAsk_def okE_def split: sum.splits)
next
  case False
  then show ?thesis
    by (intro exI [of _ "[Call c ''Settings.Connection.GetSettings'' []]"])
      (use withInfiniteRetries_limited in \<open>fastforce simp: setRetries_def run_ops run_GetSettings settingsReply_def profileCalls_def split: sum.splits option.splits variant.splits\<close>)
qed

lemma setAllRetries_calls:
  "\<exists>segments. run_state (setAllRetries cs) s = ((), s\<lparr>busTrace := busTrace s @ concat segments\<rparr>) \<and> length segments = length cs
     \<and> (\<forall>i < length cs. profileCalls (busRender s) (cs ! i)
          (busReply s (busTrace s @ concat (take i segments)) (Call (cs ! i) ''Settings.Connection.GetSettings'' [])) (segments ! i))"
proof (induction cs arbitrary: s)
  case Nil
  then show ?case by (simp add: State_Monad.return_def)
next
  case (Cons c cs)
  obtain calls where first: "run_state (setRetries c) s = ((), s\<lparr>busTrace := busTrace s @ calls\<rparr>)"
    "profileCalls (busRender s) c (busReply s (busTrace s) (Call c ''Settings.Connection.GetSettings'' [])) calls"
    using setRetries_calls by blast
  obtain segments where rest: "run_state (setAllRetries cs) (s\<lparr>busTrace := busTrace s @ calls\<rparr>) = ((), s\<lparr>busTrace := busTrace s @ calls @ concat segments\<rparr>)"
    "length segments = length cs"
    "\<forall>i < length cs. profileCalls (busRender s) (cs ! i)
          (busReply s (busTrace s @ calls @ concat (take i segments)) (Call (cs ! i) ''Settings.Connection.GetSettings'' [])) (segments ! i)"
    using Cons [of "s\<lparr>busTrace := busTrace s @ calls\<rparr>"] by auto
  have "profileCalls (busRender s) ((c # cs) ! i)
          (busReply s (busTrace s @ concat (take i (calls # segments))) (Call ((c # cs) ! i) ''Settings.Connection.GetSettings'' [])) ((calls # segments) ! i)"
    if "i < length (c # cs)" for i
    using that first(2) rest(3) by (cases i) simp_all
  then show ?case using first(1) rest(1,2) by (intro exI [of _ "calls # segments"]) (simp add: run_ops)
qed

lemma initObject_ok: "run_state (initObject p) s = (Inr q, s') \<Longrightarrow> q = p"
  by (auto simp: run_tried initObject_def busAsk_def run_ops okE_def split: sum.splits)

lemma each_initObject_ok: "run_state (each initObject ps) s = (Inr qs, s') \<Longrightarrow> qs = ps"
proof (induction ps arbitrary: s qs)
  case Nil
  then show ?case by (simp add: State_Monad.return_def)
next
  case (Cons p ps)
  then obtain q s1 rest s2 where "run_state (initObject p) s = (Inr q, s1)" "run_state (each initObject ps) s1 = (Inr rest, s')" "qs = q # rest"
    by (auto dest!: tried_okD simp: State_Monad.return_def)
  with Cons.IH initObject_ok show ?case by blast
qed

lemma ListConnections_okD:
  assumes "run_state ListConnections s = (Inr cs, s')"
  shows "answered s [Call settingsPath ''Settings.ListConnections'' []] (Call settingsPath ''Settings.ListConnections'' []) (VPaths cs)"
proof -
  obtain ps s1 where list: "run_state (callWithReturn pathsReply settingsPath ''Settings.ListConnections'' []) s = (Inr ps, s1)"
    and "run_state (each initObject ps) s1 = (Inr cs, s')"
    using tried_okD [OF assms [unfolded ListConnections_def]] by blast
  then have "ps = cs" using each_initObject_ok by blast
  then show ?thesis using list
    by (intro answered_now) (auto simp: callWithReturn_def run_tried busAsk_def run_ops okE_def failE_def pathsReply_def split: prod.splits sum.splits option.splits variant.splits)
qed

text \<open>
  C28: Making the retries infinite fails only when the profiles cannot be listed, and changes nothing
  then. Otherwise every listed profile is read, in order, and the calls that write are exactly one per
  readable profile of an ethernet or wireless connection whose retries are limited: that profile with only
  this setting changed. A profile that cannot be read or written does not keep the others from being changed.
\<close>

theorem retries_exact:
  assumes "run_state SetInfiniteAutoconnectRetries s = (e, s')"
  shows "(e \<noteq> None \<and> (\<exists>reads. busTrace s' = busTrace s @ reads \<and> list_all isRead reads))
    \<or> (e = None \<and> (\<exists>cs reads segments. busTrace s' = busTrace s @ reads @ concat segments \<and> list_all isRead reads
        \<and> busReply s (busTrace s) (Call settingsPath ''Settings.ListConnections'' []) = Inr (VPaths cs) \<and> length segments = length cs
        \<and> (\<forall>i < length cs. profileCalls (busRender s) (cs ! i)
             (busReply s (busTrace s @ reads @ concat (take i segments)) (Call (cs ! i) ''Settings.Connection.GetSettings'' [])) (segments ! i))))"
proof -
  obtain r s1 where list: "run_state ListConnections s = (r, s1)" by force
  obtain reads where reads: "list_all isRead reads" "s1 = s\<lparr>busTrace := busTrace s @ reads\<rparr>"
    using reads_okD [OF ListConnections_reading list] by blast
  show ?thesis
  proof (cases r)
    case (Inl x)
    then show ?thesis using assms list reads by (auto simp: SetInfiniteAutoconnectRetries_def run_ops)
  next
    case (Inr cs)
    obtain segments where "run_state (setAllRetries cs) s1 = ((), s1\<lparr>busTrace := busTrace s1 @ concat segments\<rparr>)" "length segments = length cs"
      "\<forall>i < length cs. profileCalls (busRender s1) (cs ! i)
          (busReply s1 (busTrace s1 @ concat (take i segments)) (Call (cs ! i) ''Settings.Connection.GetSettings'' [])) (segments ! i)"
      using setAllRetries_calls by blast
    moreover have "busReply s (busTrace s) (Call settingsPath ''Settings.ListConnections'' []) = Inr (VPaths cs)"
      using ListConnections_okD [of s cs s1] list Inr by (auto simp: answered_def Cons_eq_append_conv)
    ultimately have "e = None \<and> (\<exists>cs reads segments. busTrace s' = busTrace s @ reads @ concat segments \<and> list_all isRead reads
        \<and> busReply s (busTrace s) (Call settingsPath ''Settings.ListConnections'' []) = Inr (VPaths cs) \<and> length segments = length cs
        \<and> (\<forall>i < length cs. profileCalls (busRender s) (cs ! i)
             (busReply s (busTrace s @ reads @ concat (take i segments)) (Call (cs ! i) ''Settings.Connection.GetSettings'' [])) (segments ! i)))"
      using assms list reads Inr
      by (intro conjI exI [of _ cs] exI [of _ reads] exI [of _ segments]) (auto simp: SetInfiniteAutoconnectRetries_def run_ops)
    then show ?thesis by blast
  qed
qed

section \<open>Other profiles\<close>

text \<open>Switching to DHCP keeps every setting but the addresses, the gateway, the routes of IPv6 and the method; static name servers stay.\<close>

lemma dhcp_keeps_dns: "setting (dhcpSettings s) ''ipv4'' ''dns'' = setting s ''ipv4'' ''dns''"
  by (simp add: setting_dhcp)

lemma dhcp_after_static: "setting (dhcpSettings (staticSettings s (Some (gateway, dns)) ip prefix)) ''ipv4'' ''dns'' = Some (VUint32s dns)"
  by (simp add: setting_dhcp setting_static)

text \<open>A device that is not found, with a known interface name: the panic comes after the profile was read.\<close>

lemma unknown_mac_panics:
  "run_state (GetSettings c) s = (Inr settings, s1) \<Longrightarrow> run_state (updateIPv4Address None c ip prefix) s = (Inl ErrNilDevice, s1)"
  by (simp add: updateIPv4Address_def run_tried failE_def State_Monad.return_def)

lemma unknown_mac_dhcp:
  assumes "run_state (GetSettings c) s = (Inr settings, s1)" "run_state (Update c (dhcpSettings settings)) s1 = (Inr u, s2)"
  shows "run_state (enableDHCP None c) s = (Inr (), s2)"
  using assms by (simp add: enableDHCP_def run_tried activateLater_def okE_def State_Monad.return_def)

text \<open>A profile without an interface name is found under the text that stands for nil.\<close>

lemma nil_interface: "Sprint render (setting [] ''connection'' ''interface-name'') = ''<nil>''"
  by (simp add: Sprint_def setting_def groupOf_def)

section \<open>The list of networks\<close>

definition savedSSID :: "ConnectionSettings \<Rightarrow> string option" where
  "savedSSID settings = (case setting settings wirelessGroup ''ssid'' of Some (VBytes s) \<Rightarrow> Some s | _ \<Rightarrow> None)"

lemma addSaved_cases:
  "addSaved render settings wifis = (case savedSSID settings of
     Some s \<Rightarrow> if s \<in> wfSSID ` set wifis then wifis else wifis @ [connectionSettingsToWifi render settings]
   | None \<Rightarrow> wifis)"
  by (auto simp: addSaved_def savedSSID_def list_ex_iff split: option.splits variant.splits)

lemma addSaved_SSID: "savedSSID settings = Some s \<Longrightarrow> wfSSID (connectionSettingsToWifi render settings) = s"
  by (auto simp: savedSSID_def connectionSettingsToWifi_def split: option.splits variant.splits)

text \<open>
  Behind the networks in reach, each name of a saved profile that is not in reach is listed once, as known.
\<close>

lemma listed_networks:
  "\<exists>extra. fold (addSaved render) saved wifis = wifis @ extra \<and> distinct (map wfSSID extra) \<and> list_all wfKnown extra
     \<and> wfSSID ` set extra = {s. Some s \<in> savedSSID ` set saved} - wfSSID ` set wifis"
proof (induction saved rule: rev_induct)
  case Nil
  then show ?case by simp
next
  case (snoc settings saved)
  then obtain extra where extra: "fold (addSaved render) saved wifis = wifis @ extra" "distinct (map wfSSID extra)" "list_all wfKnown extra"
    "wfSSID ` set extra = {s. Some s \<in> savedSSID ` set saved} - wfSSID ` set wifis" by blast
  note added = addSaved_cases [of render settings "wifis @ extra"]
  have known: "wfKnown (connectionSettingsToWifi render settings)" by (simp add: connectionSettingsToWifi_def)
  show ?case
  proof (cases "savedSSID settings")
    case None
    then show ?thesis using extra by (intro exI [of _ extra]) (auto simp: added image_iff)
  next
    case (Some s)
    show ?thesis
    proof (cases "s \<in> wfSSID ` set (wifis @ extra)")
      case True
      then show ?thesis using extra Some by (intro exI [of _ extra]) (auto simp: added image_iff)
    next
      case False
      then show ?thesis using extra Some known addSaved_SSID [OF Some, of render]
        by (intro exI [of _ "extra @ [connectionSettingsToWifi render settings]"]) (auto simp: added image_iff)
    qed
  qed
qed

section \<open>Examples\<close>

definition demo_reply :: "bus_call list \<Rightarrow> bus_call \<Rightarrow> go_error + variant" where
  "demo_reply tr c = (case c of
     SystemBus \<Rightarrow> Inr (VBool True)
   | Call path meth args \<Rightarrow>
       Inr (if meth = ''GetAllDevices'' then VPaths [''/d'']
            else if meth = ''Settings.ListConnections'' then VPaths [''/c'']
            else if meth = ''Settings.Connection.GetSettings'' then VSettings [(''connection'', [(''type'', VStr ''802-3-ethernet'')])]
            else VBool True)
   | GetProperty path name \<Rightarrow>
       Inr (if name = ''Device.DeviceType'' then VUint32 1
            else if name = ''Device.Wired.HwAddress'' then VStr ''aa''
            else if name = ''Device.ActiveConnection'' then VPath ''/ac''
            else if name = ''Connection.Active.Connection'' then VPath ''/c''
            else VPath ''/''))"

definition demo_bus :: Bus where
  "demo_bus = \<lparr>busTrace = [], busReply = demo_reply, busRender = (\<lambda>_. []), busTasks = []\<rparr>"

lemma demo_bus_simps [simp]: "busReply demo_bus = demo_reply" "busTrace demo_bus = []" "busRender demo_bus = (\<lambda>_. [])" "busTasks demo_bus = []"
  by (simp_all add: demo_bus_def)

lemmas bus_eval = errOf_def run_tried run_ops busAsk_def okE_def failE_def callWithReturn_def call_def typedProperty_def getters initObject_def
  optionalObject_def newDevice_def DeviceFactory_def kindOf_def pathsReply_def pathReply_def settingsReply_def GetSettings_def Update_def
  GetAllDevices_def ListConnections_def demo_reply_def

lemma demo_static: "\<exists>s'. run_state (SetIPv4Address ''aa'' ''eth0'' ''10.0.0.2'' 24) demo_bus = (None, s')"
  by (simp add: bus_eval SetIPv4Address_def targetConnection_def updateIPv4Address_def currentGateway_def activateLater_def)


lemma demo_retries: "\<exists>s'. run_state SetInfiniteAutoconnectRetries demo_bus = (None, s')"
  by (simp add: bus_eval SetInfiniteAutoconnectRetries_def setRetries_def withInfiniteRetries_def Sprint_def Let_def)

theorem retries_exact_witness:
  "\<exists>cs reads segments. busTrace (snd (run_state SetInfiniteAutoconnectRetries demo_bus)) = reads @ concat segments \<and> list_all isRead reads
     \<and> demo_reply [] (Call settingsPath ''Settings.ListConnections'' []) = Inr (VPaths cs) \<and> length segments = length cs"
proof -
  obtain s' where run: "run_state SetInfiniteAutoconnectRetries demo_bus = (None, s')" using demo_retries by blast
  then show ?thesis using retries_exact [OF run] by auto
qed

end
