(* ===== verification/LanAddresses.thy ===== *)
theory LanAddresses
  imports NetManager
begin

text \<open>
  \<^verbatim>\<open>network/network.go\<close>: the IPv4 addresses of the device. What the operating system reports is an
  argument: the interfaces with their addresses as the standard library prints them, and the source
  address of the default route. The pattern for addresses is written as a regular expression and
  matched by following every alternative.
\<close>

section \<open>Regular expressions\<close>

datatype regex = Cls string | Cat regex regex | Alt regex regex | Opt regex | Rep nat regex

text \<open>What may remain of a text after a match at its start.\<close>

primrec rests :: "regex \<Rightarrow> string \<Rightarrow> string list" where
  "rests (Cls cs) = (\<lambda>s. case s of [] \<Rightarrow> [] | c # t \<Rightarrow> if c \<in> set cs then [t] else [])"
| "rests (Cat a b) = (\<lambda>s. concat (map (rests b) (rests a s)))"
| "rests (Alt a b) = (\<lambda>s. rests a s @ rests b s)"
| "rests (Opt a) = (\<lambda>s. rests a s @ [s])"
| "rests (Rep n a) = (\<lambda>s. ((\<lambda>ss. concat (map (rests a) ss)) ^^ n) [s])"

definition MatchString :: "regex \<Rightarrow> string \<Rightarrow> bool" where
  "MatchString r s \<longleftrightarrow> list_ex (\<lambda>t. t = []) (rests r s)"

definition octetRegex :: regex where
  "octetRegex = Alt (Cat (Cls ''2'') (Cat (Cls ''5'') (Cls ''012345'')))
     (Alt (Cat (Cls ''2'') (Cat (Cls ''01234'') (Cls ''0123456789'')))
          (Cat (Opt (Cls ''01'')) (Cat (Cls ''0123456789'') (Opt (Cls ''0123456789'')))))"

definition ipv4regex :: regex where
  "ipv4regex = Cat (Rep 3 (Cat octetRegex (Cls ''.''))) octetRegex"

section \<open>The addresses of the device\<close>

record Ipv4Address =
  iaInterfaceName :: string
  iaIp :: string

type_synonym net_interface = "string \<times> (go_error + string list)"

definition reported :: "string \<Rightarrow> string \<Rightarrow> bool" where
  "reported name ipString \<longleftrightarrow> MatchString ipv4regex ipString \<and> \<not> (ipString = ''127.0.0.1'' \<or> ipString = ''0.0.0.0'') \<and> \<not> Contains name ''docker''"

fun ipv4Addresses :: "net_interface list \<Rightarrow> go_error + Ipv4Address list" where
  "ipv4Addresses [] = Inr []"
| "ipv4Addresses ((name, addrs) # rest) = (case addrs of
     Inl e \<Rightarrow> Inl e
   | Inr ips \<Rightarrow> (case ipv4Addresses rest of
        Inl e \<Rightarrow> Inl e
      | Inr later \<Rightarrow> Inr (map (\<lambda>ip. \<lparr>iaInterfaceName = name, iaIp = ip\<rparr>) (filter (reported name) ips) @ later)))"

definition GetIPv4Addresses :: "go_error + net_interface list \<Rightarrow> go_error + Ipv4Address list" where
  "GetIPv4Addresses ifaces = (case ifaces of Inl e \<Rightarrow> Inl e | Inr is \<Rightarrow> ipv4Addresses is)"

definition GetPrimaryLANIP :: "string option \<Rightarrow> go_error + net_interface list \<Rightarrow> string" where
  "GetPrimaryLANIP routed ifaces = (case routed of
     Some ip \<Rightarrow> ip
   | None \<Rightarrow> (case GetIPv4Addresses ifaces of
       Inl _ \<Rightarrow> []
     | Inr addresses \<Rightarrow>
         (case List.find (\<lambda>a. \<not> (HasPrefix (iaInterfaceName a) ''veth'' \<or> HasPrefix (iaInterfaceName a) ''br-'')) addresses of
            None \<Rightarrow> [] | Some a \<Rightarrow> iaIp a)))"

section \<open>What the pattern accepts\<close>

primrec lang :: "regex \<Rightarrow> string set" where
  "lang (Cls cs) = {[c] |c. c \<in> set cs}"
| "lang (Cat a b) = {u @ v |u v. u \<in> lang a \<and> v \<in> lang b}"
| "lang (Alt a b) = lang a \<union> lang b"
| "lang (Opt a) = insert [] (lang a)"
| "lang (Rep n a) = {concat us |us. length us = n \<and> set us \<subseteq> lang a}"

lemma rests_repeat:
  assumes "\<And>s t. t \<in> set (rests a s) \<longleftrightarrow> (\<exists>u \<in> lang a. s = u @ t)"
  shows "t \<in> set (((\<lambda>ss. concat (map (rests a) ss)) ^^ n) ss) \<longleftrightarrow> (\<exists>us. length us = n \<and> set us \<subseteq> lang a \<and> concat us @ t \<in> set ss)"
proof (induction n arbitrary: t)
  case 0
  then show ?case by simp
next
  case (Suc n)
  have "t \<in> set (((\<lambda>ss. concat (map (rests a) ss)) ^^ Suc n) ss)
      \<longleftrightarrow> (\<exists>s \<in> set (((\<lambda>ss. concat (map (rests a) ss)) ^^ n) ss). \<exists>u \<in> lang a. s = u @ t)"
    by (simp add: assms)
  also have "\<dots> \<longleftrightarrow> (\<exists>us u. length us = n \<and> set us \<subseteq> lang a \<and> u \<in> lang a \<and> concat us @ u @ t \<in> set ss)"
    unfolding Bex_def Suc.IH by blast
  also have "\<dots> \<longleftrightarrow> (\<exists>us u. length us = n \<and> set (us @ [u]) \<subseteq> lang a \<and> concat (us @ [u]) @ t \<in> set ss)" by auto
  also have "\<dots> \<longleftrightarrow> (\<exists>us. length us = Suc n \<and> set us \<subseteq> lang a \<and> concat us @ t \<in> set ss)"
    by (metis length_append_singleton length_Suc_conv_rev)
  finally show ?case .
qed

lemma rests_lang: "t \<in> set (rests r s) \<longleftrightarrow> (\<exists>u \<in> lang r. s = u @ t)"
proof (induction r arbitrary: s t)
  case (Cat a b)
  then show ?case by auto (metis append.assoc)
next
  case (Rep n a)
  show ?case using rests_repeat [OF Rep, of t n "[s]"] by auto
qed (auto split: list.splits)

lemma MatchString_lang: "MatchString r s \<longleftrightarrow> s \<in> lang r"
  using rests_lang [of "[]" r s] by (auto simp: MatchString_def list_ex_iff)

text \<open>A decimal number of one to three digits, with or without leading zeros, up to 255.\<close>

definition isOctet :: "string \<Rightarrow> bool" where
  "isOctet u \<longleftrightarrow> u \<noteq> [] \<and> length u \<le> 3 \<and> (\<exists>n \<le> 255. parse_digits 0 u = Some n)"

lemma char_digit_iff: "char_digit c = Some d \<longleftrightarrow> d < 10 \<and> c = char_of (d + 48)"
  by (auto simp: char_digit_def Let_def of_char_of split: if_splits)

lemma upto_nine: "(\<exists>d < 10. P (d :: nat)) \<longleftrightarrow> P 0 \<or> P 1 \<or> P 2 \<or> P 3 \<or> P 4 \<or> P 5 \<or> P 6 \<or> P 7 \<or> P 8 \<or> P 9"
  by (auto simp: less_Suc_eq numeral_eq_Suc)

lemma some_digit: "(\<exists>d. char_digit c = Some d \<and> Q d) \<longleftrightarrow> (\<exists>d < 10. c = char_of (d + 48) \<and> Q d)"
  by (auto simp: char_digit_iff)

lemma digit_class:
  "c \<in> set ''0123456789'' \<longleftrightarrow> (\<exists>d. char_digit c = Some d \<and> True)"
  "c \<in> set ''012345'' \<longleftrightarrow> (\<exists>d. char_digit c = Some d \<and> d \<le> 5)"
  "c \<in> set ''01234'' \<longleftrightarrow> (\<exists>d. char_digit c = Some d \<and> d \<le> 4)"
  "c \<in> set ''01'' \<longleftrightarrow> (\<exists>d. char_digit c = Some d \<and> d \<le> 1)"
  "c \<in> set ''2'' \<longleftrightarrow> (\<exists>d. char_digit c = Some d \<and> d = 2)"
  "c \<in> set ''5'' \<longleftrightarrow> (\<exists>d. char_digit c = Some d \<and> d = 5)"
  unfolding some_digit upto_nine by (simp_all add: char_of_def bit_0)

lemma lang_Cat_Opt: "u \<in> lang (Cat (Opt q) r) \<longleftrightarrow> u \<in> lang r \<or> u \<in> lang (Cat q r)"
proof
  assume "u \<in> lang (Cat (Opt q) r)"
  then obtain v w where "u = v @ w" "v = [] \<or> v \<in> lang q" "w \<in> lang r" by auto
  then show "u \<in> lang r \<or> u \<in> lang (Cat q r)" by auto
next
  assume "u \<in> lang r \<or> u \<in> lang (Cat q r)"
  moreover have "u = [] @ u" by simp
  ultimately show "u \<in> lang (Cat (Opt q) r)" unfolding lang.simps by blast
qed

lemma lang_Cat_Cls: "u \<in> lang (Cat (Cls cs) r) \<longleftrightarrow> (\<exists>x v. u = x # v \<and> x \<in> set cs \<and> v \<in> lang r)"
proof
  assume "u \<in> lang (Cat (Cls cs) r)"
  then obtain x v where "u = [x] @ v" "x \<in> set cs" "v \<in> lang r" by auto
  then show "\<exists>x v. u = x # v \<and> x \<in> set cs \<and> v \<in> lang r" by auto
next
  assume "\<exists>x v. u = x # v \<and> x \<in> set cs \<and> v \<in> lang r"
  then obtain x v where "u = [x] @ v" "[x] \<in> lang (Cls cs)" "v \<in> lang r" by auto
  then show "u \<in> lang (Cat (Cls cs) r)" unfolding lang.simps(2) by blast
qed

lemma word_lang:
  "u \<in> lang (Cls cs) \<longleftrightarrow> (\<exists>x. u = [x] \<and> x \<in> set cs)"
  "u \<in> lang (Alt q r) \<longleftrightarrow> u \<in> lang q \<or> u \<in> lang r"
  "u \<in> lang (Opt r) \<longleftrightarrow> u = [] \<or> u \<in> lang r"
  by auto

lemma char_digit_le: "char_digit x = Some d \<Longrightarrow> d \<le> 9"
  by (simp add: char_digit_iff)

lemma octet_lang: "u \<in> lang octetRegex \<longleftrightarrow> isOctet u"
proof -
  consider (none) "u = []" | (one) x where "u = [x]" | (two) x y where "u = [x, y]" | (three) x y z where "u = [x, y, z]" | (many) w x y z v where "u = w # x # y # z # v"
    by (metis neq_Nil_conv)
  then show ?thesis
  proof cases
    case none
    then show ?thesis unfolding octetRegex_def lang_Cat_Opt lang_Cat_Cls word_lang by (simp add: isOctet_def)
  next
    case (one x)
    then show ?thesis unfolding octetRegex_def lang_Cat_Opt lang_Cat_Cls word_lang digit_class by (auto simp: isOctet_def split: option.splits dest!: char_digit_le)
  next
    case (two x y)
    then show ?thesis unfolding octetRegex_def lang_Cat_Opt lang_Cat_Cls word_lang digit_class by (auto simp: isOctet_def split: option.splits dest!: char_digit_le)
  next
    case (three x y z)
    then show ?thesis unfolding octetRegex_def lang_Cat_Opt lang_Cat_Cls word_lang digit_class by (auto simp: isOctet_def split: option.splits dest!: char_digit_le)
  next
    case many
    then show ?thesis unfolding octetRegex_def lang_Cat_Opt lang_Cat_Cls word_lang by (simp add: isOctet_def)
  qed
qed

text \<open>Four such numbers separated by dots.\<close>

definition isIPv4 :: "string \<Rightarrow> bool" where
  "isIPv4 s \<longleftrightarrow> (\<exists>a b c d. s = a @ ''.'' @ b @ ''.'' @ c @ ''.'' @ d \<and> isOctet a \<and> isOctet b \<and> isOctet c \<and> isOctet d)"

lemma ipv4_pattern: "MatchString ipv4regex s \<longleftrightarrow> isIPv4 s"
proof -
  have three: "x \<in> lang (Rep 3 r) \<longleftrightarrow> (\<exists>u v w. x = u @ v @ w \<and> u \<in> lang r \<and> v \<in> lang r \<and> w \<in> lang r)" for x r
  proof
    assume "x \<in> lang (Rep 3 r)"
    then show "\<exists>u v w. x = u @ v @ w \<and> u \<in> lang r \<and> v \<in> lang r \<and> w \<in> lang r" by (auto simp: numeral_3_eq_3 length_Suc_conv) blast
  next
    assume "\<exists>u v w. x = u @ v @ w \<and> u \<in> lang r \<and> v \<in> lang r \<and> w \<in> lang r"
    then obtain u v w where "x = concat [u, v, w]" "length [u, v, w] = 3" "set [u, v, w] \<subseteq> lang r" by auto
    then show "x \<in> lang (Rep 3 r)" unfolding lang.simps(5) by blast
  qed
  have dot: "x \<in> lang (Cat octetRegex (Cls ''.'')) \<longleftrightarrow> (\<exists>a. x = a @ ''.'' \<and> isOctet a)" for x
    by (auto simp: octet_lang)
  have "s \<in> lang ipv4regex \<longleftrightarrow> (\<exists>x d. s = x @ d \<and> x \<in> lang (Rep 3 (Cat octetRegex (Cls ''.''))) \<and> isOctet d)"
    by (simp add: ipv4regex_def octet_lang del: lang.simps(5))
  also have "\<dots> \<longleftrightarrow> (\<exists>a b c d. s = ((a @ ''.'') @ (b @ ''.'') @ (c @ ''.'')) @ d \<and> isOctet a \<and> isOctet b \<and> isOctet c \<and> isOctet d)"
    unfolding three dot by blast
  finally show ?thesis by (simp add: MatchString_lang isIPv4_def)
qed

text \<open>Every IPv4 address in the form the standard library prints it is accepted.\<close>

lemma isOctet_itoa: "n \<le> 255 \<Longrightarrow> isOctet (itoa n)"
  using length_itoa [of n] by (simp add: isOctet_def parse_digits_itoa)

lemma printed_address_accepted: "MatchString ipv4regex (ip4ToString ip)"
  unfolding ipv4_pattern isIPv4_def ip4ToString_def dotted_def octets_def
  using low_octet [of ip] low_octet [of "drop_bit 8 ip"] low_octet [of "drop_bit 16 ip"] low_octet [of "drop_bit 24 ip"]
  by (intro exI conjI) (auto intro: isOctet_itoa)

text \<open>
  C29: The addresses that are reported are exactly those of the interfaces, other than Docker's, that
  are written as four decimal numbers of one to three digits up to 255 with dots between them, the loopback
  address and the unspecified one excepted; an error of one interface is the only way to fail.
\<close>

theorem ipv4_addresses_exact:
  "case GetIPv4Addresses (Inr ifaces) of
     Inl e \<Rightarrow> \<exists>name. (name, Inl e) \<in> set ifaces
   | Inr found \<Rightarrow> \<forall>a. \<lparr>iaInterfaceName = name, iaIp = a\<rparr> \<in> set found \<longleftrightarrow>
       (\<exists>ips. (name, Inr ips) \<in> set ifaces \<and> a \<in> set ips) \<and> \<not> Contains name ''docker'' \<and> a \<notin> {''127.0.0.1'', ''0.0.0.0''}
       \<and> (\<exists>p q r t. a = p @ ''.'' @ q @ ''.'' @ r @ ''.'' @ t \<and> isOctet p \<and> isOctet q \<and> isOctet r \<and> isOctet t)"
  unfolding isIPv4_def [symmetric]
proof (induction ifaces)
  case Nil
  then show ?case by (simp add: GetIPv4Addresses_def)
next
  case (Cons i ifaces)
  then show ?case
    by (cases i) (auto simp: GetIPv4Addresses_def reported_def ipv4_pattern split: sum.splits)
qed

end
