(* ===== verification/Updates.thy ===== *)
theory Updates
  imports Outside Requests
begin

text \<open>
  \<^verbatim>\<open>system/system.go\<close>, \<^verbatim>\<open>system/rauc.go\<close> and the downloads of \<^verbatim>\<open>filesystem/utils.go\<close>: the updates of the agent,
  of the tunnel client and of the operating system, and the refresh of the device's identity. Files, HTTP,
  the signature check, the comparison of versions and the installer are the outside. The reply to the
  copying of a body holds the chunks that were read before it ended; the reply to hashing a file
  is its SHA-256 in hexadecimal form.
\<close>

section \<open>Data\<close>

record UpdateResult =
  urCurrentVersion :: string
  urLatestVersion :: string
  urMessage :: string
  urDidAgentUpdate :: bool
  urDidTunnelUpdate :: bool
  urDidUpdate :: bool
  urInProgress :: bool
  urTotalFileSize :: uint64

definition noUpdate :: UpdateResult where
  "noUpdate = \<lparr>urCurrentVersion = [], urLatestVersion = [], urMessage = [], urDidAgentUpdate = False, urDidTunnelUpdate = False,
     urDidUpdate = False, urInProgress = False, urTotalFileSize = 0\<rparr>"

record DownloadProgress =
  dpFilePath :: string
  dpIncrement :: uint64
  dpCurrentBytes :: uint64
  dpTotalFileSize :: uint64

record System = outside +
  syUpdateURL :: string \<comment> \<open>of the \<^verbatim>\<open>.flock\<close> file\<close>
  syRemoteUpdateURL :: string
  syAgentDir :: string
  syDownloadDir :: string
  syConfigFile :: string
  syGOOS :: string
  syArch :: string
  syVersion :: string
  syFrpVersion :: string
  syEmbedded :: bool
  syEnforcing :: bool
  syEnvironment :: string
  syEndpoint :: string
  syDeviceKey :: int
  syName :: string
  sySwarmName :: string
  sySwarmOwnerName :: string
  sySwarmKey :: int
  syDownloadLocks :: "string list" \<comment> \<open>the files being downloaded\<close>

type_synonym 'a sprog = "(System, 'a) state"

section \<open>Addresses\<close>

definition updateBaseURL :: "System \<Rightarrow> string" where
  "updateBaseURL s = (if syUpdateURL s \<noteq> [] then syUpdateURL s else syRemoteUpdateURL s)"

definition buildBinaryDownloadURL :: "string \<Rightarrow> string \<Rightarrow> string \<Rightarrow> string \<Rightarrow> string \<Rightarrow> string \<Rightarrow> string" where
  "buildBinaryDownloadURL base bucketName goos arch versionString fileName =
     (let url = Join (CHR ''/'') [base, bucketName, goos, arch, versionString, fileName]
      in if goos = ''windows'' then url @ ''.exe'' else url)"

definition binaryDestination :: "System \<Rightarrow> string \<Rightarrow> string \<Rightarrow> bool \<Rightarrow> string" where
  "binaryDestination s fileName versionString includeVersion =
     syAgentDir s @ ''/'' @ fileName @ (if includeVersion then ''-v'' @ versionString else []) @ (if syGOOS s = ''windows'' then ''.exe'' else [])"

definition downloadTarget :: "System \<Rightarrow> string \<Rightarrow> string \<Rightarrow> string" where
  "downloadTarget s fileName versionString = syDownloadDir s @ ''/'' @ fileName @ ''-v'' @ versionString"

section \<open>Downloading\<close>

text \<open>The events that the counter sends while the body is copied, chunk by chunk.\<close>

fun counterEvents :: "string \<Rightarrow> uint64 \<Rightarrow> uint64 \<Rightarrow> string list \<Rightarrow> DownloadProgress list" where
  "counterEvents path contentLength sofar [] = []"
| "counterEvents path contentLength sofar (p # ps) =
     (let n = of_nat (length p); sofar' = sofar + n
      in \<lparr>dpFilePath = path, dpIncrement = n, dpCurrentBytes = sofar', dpTotalFileSize = contentLength\<rparr> # counterEvents path contentLength sofar' ps)"

definition fetchBody :: "string \<Rightarrow> string \<Rightarrow> (err \<times> DownloadProgress list) sprog" where
  "fetchBody filePath url = do {
     created \<leftarrow> askE ''os.Create'' [filePath];
     case created of
       Some e \<Rightarrow> ret (Some e, [])
     | None \<Rightarrow> do {
         resp \<leftarrow> ask ''http.Get'' [url];
         case rpErr resp of
           Some e \<Rightarrow> ret (Some e, [])
         | None \<Rightarrow>
             (case Atoi (rpStr resp) of
                None \<Rightarrow> ret (Some (Msg ''strconv.Atoi: Content-Length''), [])
              | Some contentLength \<Rightarrow> do {
                  copied \<leftarrow> ask ''io.Copy'' [filePath];
                  ret (rpErr copied, counterEvents filePath (word_of_int contentLength) 0 (rpLines copied)) }) } }"

definition DownloadURL :: "string \<Rightarrow> string \<Rightarrow> (err \<times> DownloadProgress list) sprog" where
  "DownloadURL filePath url = do {
     locks \<leftarrow> gets syDownloadLocks;
     if filePath \<in> set locks then ret (Some (ErrInProgress (Msg ''download already in progress'')), [])
     else do {
       _ \<leftarrow> modify (\<lambda>s. s\<lparr>syDownloadLocks := filePath # syDownloadLocks s\<rparr>);
       r \<leftarrow> fetchBody filePath url;
       _ \<leftarrow> modify (\<lambda>s. s\<lparr>syDownloadLocks := removeAll filePath (syDownloadLocks s)\<rparr>);
       ret r } }"

section \<open>Verification\<close>

text \<open>The words of a text: separated by white space.\<close>

definition isSpace :: "char \<Rightarrow> bool" where
  "isSpace c \<longleftrightarrow> (of_char c :: nat) \<in> {9, 10, 11, 12, 13, 32}"

definition firstField :: "string \<Rightarrow> string option" where
  "firstField s = (case dropWhile isSpace s of [] \<Rightarrow> None | t \<Rightarrow> Some (takeWhile (\<lambda>c. \<not> isSpace c) t))"

text \<open>A panic is an error that is passed on; it reaches the goroutine, which recovers it.\<close>

definition indexPanic :: go_error where
  "indexPanic = Msg ''panic: index out of range''"

text \<open>The checksum that a manifest publishes; None: the index is out of range.\<close>

definition expectedChecksum :: "string \<Rightarrow> string option" where
  "expectedChecksum manifest = map_option ToLower (firstField (take 1024 manifest))"

definition compareChecksum :: "string \<Rightarrow> string \<Rightarrow> string \<Rightarrow> err sprog" where
  "compareChecksum filePath binaryURL expected = do {
     opened \<leftarrow> askE ''os.Open'' [filePath];
     case opened of
       Some e \<Rightarrow> ret (Some e)
     | None \<Rightarrow> do {
         h \<leftarrow> ask ''sha256'' [filePath];
         ret (case rpErr h of
                Some e \<Rightarrow> Some e
              | None \<Rightarrow> if rpStr h \<noteq> expected then Some (Msg (''checksum mismatch for '' @ binaryURL @ '': got '' @ rpStr h @ '', manifest says '' @ expected))
                        else None) } }"

definition verifyRemoteChecksum :: "string \<Rightarrow> string \<Rightarrow> err sprog" where
  "verifyRemoteChecksum filePath binaryURL = do {
     r \<leftarrow> ask ''GetRemoteFileWithStatus'' [binaryURL @ ''.sha256''];
     if rpErr r \<noteq> None \<or> rpNum r \<noteq> 200 then ret None
     else do {
       m \<leftarrow> ask ''io.ReadAll'' [binaryURL @ ''.sha256''];
       if rpErr m \<noteq> None then ret None
       else case expectedChecksum (rpStr m) of
              None \<Rightarrow> ret (Some indexPanic)
            | Some expected \<Rightarrow> if length expected \<noteq> 64 then ret None else compareChecksum filePath binaryURL expected } }"

definition installBinary :: "string \<Rightarrow> string \<Rightarrow> err sprog" where
  "installBinary tmpFilePath destination = steps [askE ''os.Chmod'' [tmpFilePath], askE ''os.Rename'' [tmpFilePath, destination]]"

text \<open>A signature that does not verify is only logged until enforcement is on.\<close>

definition signAndInstall :: "string \<Rightarrow> string \<Rightarrow> string \<Rightarrow> err sprog" where
  "signAndInstall tmpFilePath destination agentURL = do {
     sig \<leftarrow> askE ''codesign.Verify'' [tmpFilePath];
     enforcing \<leftarrow> gets syEnforcing;
     if sig \<noteq> None \<and> enforcing
     then do {
       _ \<leftarrow> askE ''os.Remove'' [tmpFilePath];
       ret (Some (Wrap (''refusing to install an improperly signed binary from '' @ agentURL) (the sig))) }
     else installBinary tmpFilePath destination }"

definition downloadBinary :: "string \<Rightarrow> string \<Rightarrow> string \<Rightarrow> bool \<Rightarrow> (err \<times> DownloadProgress list) sprog" where
  "downloadBinary fileName bucketName versionString includeVersionString = do {
     s \<leftarrow> State_Monad.get;
     let agentURL = buildBinaryDownloadURL (updateBaseURL s) bucketName (syGOOS s) (syArch s) versionString fileName;
     let tmpFilePath = downloadTarget s fileName versionString;
     let destination = binaryDestination s fileName versionString includeVersionString;
     r \<leftarrow> DownloadURL tmpFilePath agentURL;
     case r of (e, events) \<Rightarrow>
       (case e of
          Some x \<Rightarrow> ret (Some x, events)
        | None \<Rightarrow> do {
            bad \<leftarrow> verifyRemoteChecksum tmpFilePath agentURL;
            case bad of
              Some x \<Rightarrow> if x = indexPanic then ret (Some x, events) else do { _ \<leftarrow> askE ''os.Remove'' [tmpFilePath]; ret (Some x, events) }
            | None \<Rightarrow> do { res \<leftarrow> signAndInstall tmpFilePath destination agentURL; ret (res, events) } }) }"

section \<open>The tunnel client\<close>

definition tunnelBinaryPath :: "System \<Rightarrow> string" where
  "tunnelBinaryPath s = syAgentDir s @ ''/frpc'' @ (if syGOOS s = ''windows'' then ''.exe'' else [])"

definition PathExists :: "string \<Rightarrow> (go_error + bool) sprog" where
  "PathExists path = do {
     r \<leftarrow> ask ''os.Stat'' [path];
     ret (case rpErr r of None \<Rightarrow> Inr True | Some e \<Rightarrow> if rpFlag r then Inr False else Inl e) }" \<comment> \<open>\<open>rpFlag\<close>: \<^verbatim>\<open>os.IsNotExist\<close>\<close>

definition GetFrpCurrentVersion :: "(go_error + string) sprog" where
  "GetFrpCurrentVersion = do {
     path \<leftarrow> gets tunnelBinaryPath;
     ex \<leftarrow> PathExists path;
     case ex of
       Inl e \<Rightarrow> ret (Inl e)
     | Inr False \<Rightarrow> ret (Inl (Msg ''not found''))
     | Inr True \<Rightarrow> do {
         r \<leftarrow> ask ''exec'' [path, ''--version''];
         ret (case rpErr r of Some e \<Rightarrow> Inl e | None \<Rightarrow> Inr (TrimSpace (rpStr r))) } }"

definition acquireFrp :: "err sprog" where
  "acquireFrp = do {
     s \<leftarrow> State_Monad.get;
     if syEmbedded s
     then do {
       e \<leftarrow> askE ''embedded.ExtractFrpc'' [tunnelBinaryPath s];
       ret (map_option (Wrap ''failed to extract embedded frpc'') e) }
     else do {
       r \<leftarrow> downloadBinary ''frpc'' ''re-agent/frpc'' (syFrpVersion s) False;
       ret (map_option (Wrap ''failed to download frpc'') (fst r)) } }"

definition DownloadFrpIfNotExists :: "err sprog" where
  "DownloadFrpIfNotExists = do {
     s \<leftarrow> State_Monad.get;
     ex \<leftarrow> PathExists (tunnelBinaryPath s);
     case ex of
       Inl e \<Rightarrow> ret (Some e)
     | Inr False \<Rightarrow> acquireFrp
     | Inr True \<Rightarrow> do {
         v \<leftarrow> GetFrpCurrentVersion;
         case v of
           Inl _ \<Rightarrow> acquireFrp
         | Inr currentVersion \<Rightarrow> if currentVersion = syFrpVersion s then ret None else acquireFrp } }"

definition updateFrpIfRequired :: "(go_error + UpdateResult) sprog" where
  "updateFrpIfRequired = do {
     e \<leftarrow> DownloadFrpIfNotExists;
     s \<leftarrow> State_Monad.get;
     ret (case e of
            Some x \<Rightarrow> Inl x
          | None \<Rightarrow> Inr (noUpdate\<lparr>urCurrentVersion := syFrpVersion s, urLatestVersion := syFrpVersion s,
              urMessage := (if syEmbedded s then ''frpc is embedded in binary'' else ''frpc is downloaded on this platform'')\<rparr>)) }"

section \<open>The agent\<close>

definition GetEnvironment :: "System \<Rightarrow> string" where
  "GetEnvironment s =
     (if syEnvironment s \<noteq> [] then syEnvironment s
      else if Contains (syEndpoint s) ''datapods'' then ''test''
      else if Contains (syEndpoint s) ''record-evolution'' then ''production''
      else ''local'')"

text \<open>An answer that is no map of texts reads as an empty one.\<close>

definition versionFor :: "(string \<times> string) list \<Rightarrow> string \<Rightarrow> string" where
  "versionFor versions env = (let v = (case map_of versions env of Some v \<Rightarrow> v | None \<Rightarrow> []) in
     if v = [] then (case map_of versions ''all'' of Some v \<Rightarrow> v | None \<Rightarrow> []) else v)"

definition versionMap :: "json \<Rightarrow> (string \<times> string) list" where
  "versionMap j = (case j of JObj kvs \<Rightarrow> List.map_filter (\<lambda>(k, v). case v of JStr x \<Rightarrow> Some (k, x) | _ \<Rightarrow> None) kvs | _ \<Rightarrow> [])"

definition GetLatestVersion :: "string \<Rightarrow> (go_error + string) sprog" where
  "GetLatestVersion bucketName = do {
     s \<leftarrow> State_Monad.get;
     r \<leftarrow> ask ''GetRemoteFile'' [updateBaseURL s @ ''/'' @ bucketName @ ''/availableVersions.json''];
     ret (case rpErr r of Some e \<Rightarrow> Inl e | None \<Rightarrow> Inr (versionFor (versionMap (rpJson r)) (GetEnvironment s))) }"

text \<open>The versions are compared by the library; the reasons against an update are its message.\<close>

definition compareVersion :: "string \<Rightarrow> string \<Rightarrow> (go_error + bool \<times> string) sprog" where
  "compareVersion currentVersion latestVersion = do {
     r \<leftarrow> ask ''semver.Validate'' [currentVersion, latestVersion];
     ret (case rpErr r of Some e \<Rightarrow> Inl e | None \<Rightarrow> Inr (rpFlag r, rpStr r)) }"

text \<open>The result, the error and the events of the download.\<close>

definition downloadAgent :: "string \<Rightarrow> string \<Rightarrow> (UpdateResult \<times> err \<times> DownloadProgress list) sprog" where
  "downloadAgent currentVersion latestVersion = do {
     r \<leftarrow> downloadBinary ''reagent'' ''re-agent'' latestVersion True;
     let versions = noUpdate\<lparr>urCurrentVersion := currentVersion, urLatestVersion := latestVersion\<rparr>;
     case r of (e, events) \<Rightarrow> ret (case e of
        None \<Rightarrow> (versions\<lparr>urDidUpdate := True\<rparr>, None, events)
      | Some x \<Rightarrow> if IsInProgress e then (versions\<lparr>urInProgress := True\<rparr>, e, events) else (noUpdate, e, events)) }"

definition updateAgentIfRequired :: "(UpdateResult \<times> err \<times> DownloadProgress list) sprog" where
  "updateAgentIfRequired = do {
     l \<leftarrow> GetLatestVersion ''re-agent'';
     case l of
       Inl e \<Rightarrow> ret (noUpdate, Some e, [])
     | Inr latestVersion \<Rightarrow> do {
         currentVersion \<leftarrow> gets syVersion;
         c \<leftarrow> compareVersion currentVersion latestVersion;
         case c of
           Inl e \<Rightarrow> ret (noUpdate, Some e, [])
         | Inr (False, reasons) \<Rightarrow>
             ret (noUpdate\<lparr>urCurrentVersion := currentVersion, urLatestVersion := latestVersion, urMessage := reasons\<rparr>, None, [])
         | Inr (True, _) \<Rightarrow> downloadAgent currentVersion latestVersion } }"

text \<open>
  The loop that receives the events of the downloads: the stored progress of each file is summed up,
  reported, and the loop ends when the sums agree. It returns what was reported and the events that
  nobody receives any more; the increment is that of the last file visited.
\<close>

definition storeProgress :: "DownloadProgress \<Rightarrow> (string \<times> DownloadProgress) list \<Rightarrow> (string \<times> DownloadProgress) list" where
  "storeProgress p m = (case map_of m (dpFilePath p) of
     None \<Rightarrow> m @ [(dpFilePath p, p)]
   | Some old \<Rightarrow> map (\<lambda>(k, q). (k, if k = dpFilePath p then q\<lparr>dpIncrement := dpIncrement p, dpCurrentBytes := dpCurrentBytes p\<rparr> else q)) m)"

definition sumProgress :: "(string \<times> DownloadProgress) list \<Rightarrow> DownloadProgress" where
  "sumProgress m = \<lparr>dpFilePath = [], dpIncrement = (if m = [] then 0 else dpIncrement (snd (last m))),
     dpCurrentBytes = sum_list (map (dpCurrentBytes \<circ> snd) m), dpTotalFileSize = sum_list (map (dpTotalFileSize \<circ> snd) m)\<rparr>"

fun progressLoop :: "(string \<times> DownloadProgress) list \<Rightarrow> DownloadProgress list \<Rightarrow> DownloadProgress list \<times> DownloadProgress list" where
  "progressLoop m [] = ([], [])"
| "progressLoop m (p # ps) =
     (let m' = storeProgress p m; buffer = sumProgress m'
      in if dpCurrentBytes buffer = dpTotalFileSize buffer then ([buffer], ps)
         else (case progressLoop m' ps of (reported, unread) \<Rightarrow> (buffer # reported, unread)))"

text \<open>
  The updates of the client and of the agent run side by side and the function waits for both. The client's download
  reports no progress. None: a download waits for ever to hand over an event.
\<close>

definition UpdateSystem :: "bool \<Rightarrow> (UpdateResult \<times> DownloadProgress list) option sprog" where
  "UpdateSystem updateAgent = do {
     frp \<leftarrow> updateFrpIfRequired;
     let didTunnelUpdate = (case frp of Inl _ \<Rightarrow> False | Inr r \<Rightarrow> urDidUpdate r);
     agent \<leftarrow> (if updateAgent then updateAgentIfRequired else ret (noUpdate, None, []));
     case agent of (agentResult, _, events) \<Rightarrow>
       (case progressLoop [] events of (reported, unread) \<Rightarrow>
          if unread \<noteq> [] then ret None
          else do {
            let didAgentUpdate = urDidUpdate agentResult;
            _ \<leftarrow> (if didAgentUpdate then askE ''maybeActivateAgentUpdate'' [urLatestVersion agentResult] else ret None);
            ret (Some (noUpdate\<lparr>urDidAgentUpdate := didAgentUpdate, urDidTunnelUpdate := didTunnelUpdate,
              urDidUpdate := didTunnelUpdate \<or> didAgentUpdate\<rparr>, reported)) }) }"

section \<open>The identity of the device\<close>

text \<open>The answer's first argument; None: there is none and the index is out of range.\<close>

definition metadataFrom :: "json list \<Rightarrow> go_error + (string \<times> json) list" where
  "metadataFrom args = (case args of
     [] \<Rightarrow> Inl indexPanic
   | JObj kvs # _ \<Rightarrow> Inr kvs
   | _ \<Rightarrow> Inl (Msg ''invalid payload''))"

definition asInt :: "uint64 \<Rightarrow> int" where
  "asInt n = sint n"

definition UpdateDeviceMetadata :: "(go_error + bool) sprog" where
  "UpdateDeviceMetadata = do {
     s \<leftarrow> State_Monad.get;
     res \<leftarrow> ask ''Messenger.Call'' [''reswarm.devices.get_device_metadata'', itoa_int (syDeviceKey s)];
     case rpErr res of
       Some e \<Rightarrow> ret (Inl e)
     | None \<Rightarrow>
         (case metadataFrom (case rpJson res of JArr args \<Rightarrow> args | _ \<Rightarrow> []) of
            Inl e \<Rightarrow> ret (Inl e)
          | Inr payload \<Rightarrow>
              (case ToUint64 (obj_get (JObj payload) ''swarm_key'') of
                 None \<Rightarrow> ret (Inl (Msg ''swarm_key has invalid type''))
               | Some swarmKey \<Rightarrow> do {
                   let swarmChanged = (sySwarmKey s \<noteq> asInt swarmKey);
                   _ \<leftarrow> modify (\<lambda>s. s\<lparr>syName := Sprint (obj_get (JObj payload) ''device_name''),
                         sySwarmName := Sprint (obj_get (JObj payload) ''swarm_name''),
                         sySwarmOwnerName := Sprint (obj_get (JObj payload) ''ownername''), sySwarmKey := asInt swarmKey\<rparr>);
                   e \<leftarrow> askE ''config.SaveReswarmConfig'' [syConfigFile s];
                   ret (case e of Some x \<Rightarrow> Inl x | None \<Rightarrow> Inr swarmChanged) })) }"

section \<open>The operating system\<close>

definition releaseLine :: "string \<Rightarrow> (string \<times> string) option" where
  "releaseLine line = (case Split (CHR ''='') line of
     [key, rest] \<Rightarrow>
       (let valueSplit = Split (CHR 0x22) rest
        in Some (key, if length valueSplit = 3 then valueSplit ! 1 else hd valueSplit))
   | _ \<Rightarrow> None)"

definition parseOSRelease :: "string \<Rightarrow> (string \<times> string) list" where
  "parseOSRelease content = fold (\<lambda>(k, v) m. map_put k v m) (List.map_filter releaseLine (Split (CHR 0x0A) content)) []"

definition GetOSReleaseCurrent :: "(go_error + (string \<times> string) list) sprog" where
  "GetOSReleaseCurrent = do {
     r \<leftarrow> ask ''os.ReadFile'' [''/etc/os-release''];
     ret (case rpErr r of Some e \<Rightarrow> Inl e | None \<Rightarrow> Inr (parseOSRelease (rpStr r))) }"

definition GetOSReleaseLatest :: "(go_error + (string \<times> json) list) sprog" where
  "GetOSReleaseLatest = do {
     r \<leftarrow> ask ''os.ReadFile'' [''/etc/os-release-latest.json''];
     ret (case rpErr r of
            Some e \<Rightarrow> Inl e
          | None \<Rightarrow> (case rpJson r of JObj kvs \<Rightarrow> Inr kvs | JNull \<Rightarrow> Inr [] | _ \<Rightarrow> Inl (Msg ''json: cannot unmarshal into map''))) }"

text \<open>The third field of the first line is the address; its last segment is the file. None: there is no third field.\<close>

definition parseUpdateTags :: "string \<Rightarrow> (string \<times> string) option" where
  "parseUpdateTags content =
     (let parts = Split (CHR '','') (hd (Split (CHR 0x0A) content)) in
      if length parts < 3 then None
      else let updateURL = parts ! 2 in Some (updateURL, last (Split (CHR ''/'') updateURL)))"

text \<open>None: a panic. The callers log an error and go on with the empty texts.\<close>

definition getOSUpdateTags :: "(err \<times> string \<times> string) option sprog" where
  "getOSUpdateTags = do {
     r \<leftarrow> ask ''os.ReadFile'' [''/etc/reswarmos-update''];
     ret (case rpErr r of
            Some e \<Rightarrow> Some (Some e, [], [])
          | None \<Rightarrow> map_option (\<lambda>(updateURL, updateFile). (None, updateURL, updateFile)) (parseUpdateTags (rpStr r))) }"

definition GetOSUpdate :: "(err \<times> DownloadProgress list) sprog" where
  "GetOSUpdate = do {
     t \<leftarrow> getOSUpdateTags;
     case t of
       None \<Rightarrow> ret (Some indexPanic, [])
     | Some (_, updateURL, updateFile) \<Rightarrow> DownloadURL (''/tmp/'' @ updateFile) updateURL }"

text \<open>
  The signals of the installer, in order: its name and its code, or None for one that carries no code. The channel
  is closed behind them. A code other than 0 ends the installation with the last error.
\<close>

fun awaitCompleted :: "(string \<times> int option) list \<Rightarrow> err sprog" where
  "awaitCompleted [] = ret (Some (Msg ''could not retrieve channel from RAUC DBus''))"
| "awaitCompleted ((name, code) # rest) = (case code of
     None \<Rightarrow> ret (Some (Msg ''dbus.Store: type mismatch''))
   | Some c \<Rightarrow>
       if c \<noteq> 0 then do {
         r \<leftarrow> ask ''rauc.LastError'' [];
         ret (Some (case rpErr r of Some e \<Rightarrow> e | None \<Rightarrow> Msg (rpStr r))) }
       else if name = ''de.pengutronix.rauc.Installer.Completed'' then ret None
       else awaitCompleted rest)"

definition raucInstallBundle :: "string \<Rightarrow> (string \<times> int option) list \<Rightarrow> err sprog" where
  "raucInstallBundle bundlePath signals = do {
     e \<leftarrow> askE ''dbus.SystemBus'' [];
     case e of
       Some _ \<Rightarrow> ret (Some (Msg ''failed to set up new RAUC DBus instance''))
     | None \<Rightarrow> do {
         c \<leftarrow> ask ''rauc.InstallBundle'' [bundlePath];
         case rpErr c of
           Some x \<Rightarrow> ret (Some (Msg (''D-Bus call to de.pengutronix.rauc.Installer.InstallBundle failed: '' @ Error x)))
         | None \<Rightarrow> awaitCompleted signals } }"

definition InstallOSUpdate :: "(string \<times> int option) list \<Rightarrow> err sprog" where
  "InstallOSUpdate signals = do {
     t \<leftarrow> getOSUpdateTags;
     case t of
       None \<Rightarrow> ret (Some indexPanic)
     | Some (_, _, updateFile) \<Rightarrow> do { _ \<leftarrow> raucInstallBundle (''/tmp/'' @ updateFile) signals; ret None } }"

section \<open>What is installed\<close>

text \<open>Among the calls made from a state on, one was answered with a reply.\<close>

fun replied :: "(ext_call list \<Rightarrow> ext_call \<Rightarrow> reply) \<Rightarrow> ext_call list \<Rightarrow> ext_call list \<Rightarrow> string \<Rightarrow> string list \<Rightarrow> reply \<Rightarrow> bool" where
  "replied outer tr [] name args r = False"
| "replied outer tr (c # cs) name args r \<longleftrightarrow> (c = Ext name args \<and> outer tr c = r) \<or> replied outer (tr @ [c]) cs name args r"

lemma replied_append [simp]: "replied outer tr (cs @ ds) name args r \<longleftrightarrow> replied outer tr cs name args r \<or> replied outer (tr @ cs) ds name args r"
  by (induction cs arbitrary: tr) auto

text \<open>No usable manifest was found, or the file has the checksum it publishes.\<close>

definition noManifest :: "(ext_call list \<Rightarrow> ext_call \<Rightarrow> reply) \<Rightarrow> ext_call list \<Rightarrow> ext_call list \<Rightarrow> string \<Rightarrow> bool" where
  "noManifest outer tr calls url \<longleftrightarrow>
     (\<exists>r. replied outer tr calls ''GetRemoteFileWithStatus'' [url @ ''.sha256''] r \<and> (rpErr r \<noteq> None \<or> rpNum r \<noteq> 200))
   \<or> (\<exists>m. replied outer tr calls ''io.ReadAll'' [url @ ''.sha256''] m
        \<and> (rpErr m \<noteq> None \<or> (\<exists>expected. expectedChecksum (rpStr m) = Some expected \<and> length expected \<noteq> 64)))"

definition checksumMatches :: "(ext_call list \<Rightarrow> ext_call \<Rightarrow> reply) \<Rightarrow> ext_call list \<Rightarrow> ext_call list \<Rightarrow> string \<Rightarrow> string \<Rightarrow> bool" where
  "checksumMatches outer tr calls path url \<longleftrightarrow>
     (\<exists>m h. replied outer tr calls ''io.ReadAll'' [url @ ''.sha256''] m \<and> rpErr m = None
        \<and> replied outer tr calls ''sha256'' [path] h \<and> rpErr h = None \<and> expectedChecksum (rpStr m) = Some (rpStr h))"

lemma compare_calls:
  "wp (compareChecksum f url expected) (\<lambda>e s'. syEnforcing s' = syEnforcing s \<and> (\<exists>calls. oTrace s' = oTrace s @ calls \<and> oExt s' = oExt s \<and> list_all (\<lambda>c. c \<noteq> Ext ''os.Rename'' args) calls
     \<and> (e = None \<longrightarrow> (\<exists>h. replied (oExt s) (oTrace s) calls ''sha256'' [f] h \<and> rpErr h = None \<and> rpStr h = expected)))) s"
  unfolding compareChecksum_def wp_simps by (auto simp: wp_simps split: option.split)

definition checked :: "string list \<Rightarrow> string \<Rightarrow> string \<Rightarrow> System \<Rightarrow> err \<Rightarrow> System \<Rightarrow> bool" where
  "checked args f url s e s' \<longleftrightarrow> syEnforcing s' = syEnforcing s \<and> (\<exists>calls. oTrace s' = oTrace s @ calls \<and> oExt s' = oExt s \<and> list_all (\<lambda>c. c \<noteq> Ext ''os.Rename'' args) calls
     \<and> (e = None \<longrightarrow> noManifest (oExt s) (oTrace s) calls url \<or> checksumMatches (oExt s) (oTrace s) calls f url))"

lemma verify_calls: "wp (verifyRemoteChecksum f url) (checked args f url s) s"
proof -
  let ?q = "Ext ''GetRemoteFileWithStatus'' [url @ ''.sha256'']" and ?a = "Ext ''io.ReadAll'' [url @ ''.sha256'']"
  define r where "r = oExt s (oTrace s) ?q"
  define m where "m = oExt s (oTrace s @ [?q]) ?a"
  consider (no) "rpErr r \<noteq> None \<or> rpNum r \<noteq> 200" | (unread) "rpErr r = None" "rpNum r = 200" "rpErr m \<noteq> None"
    | (panic) "rpErr r = None" "rpNum r = 200" "rpErr m = None" "expectedChecksum (rpStr m) = None"
    | (odd) expected where "rpErr r = None" "rpNum r = 200" "rpErr m = None" "expectedChecksum (rpStr m) = Some expected" "length expected \<noteq> 64"
    | (compare) expected where "rpErr r = None" "rpNum r = 200" "rpErr m = None" "expectedChecksum (rpStr m) = Some expected" "length expected = 64"
    by blast
  then show ?thesis
  proof cases
    case no
    then show ?thesis unfolding verifyRemoteChecksum_def checked_def
      by (auto simp: wp_simps noManifest_def simp flip: r_def)
  next
    case unread
    then show ?thesis unfolding verifyRemoteChecksum_def checked_def
      by (auto simp: wp_simps noManifest_def simp flip: r_def m_def)
  next
    case panic
    then show ?thesis unfolding verifyRemoteChecksum_def checked_def
      by (auto simp: wp_simps simp flip: r_def m_def)
  next
    case odd
    then show ?thesis unfolding verifyRemoteChecksum_def checked_def
      by (auto simp: wp_simps noManifest_def simp flip: r_def m_def)
  next
    case (compare expected)
    let ?s = "s\<lparr>oTrace := oTrace s @ [?q, ?a]\<rparr>"
    have "wp (compareChecksum f url expected) (checked args f url s) ?s"
    proof (rule wp_mono [OF compare_calls [where f = f and url = url and expected = expected and args = args and s = ?s]], elim exE conjE)
      fix e :: err and s' :: System and calls
      assume "syEnforcing s' = syEnforcing ?s" "oTrace s' = oTrace ?s @ calls" "oExt s' = oExt ?s" "list_all (\<lambda>c. c \<noteq> Ext ''os.Rename'' args) calls"
        "e = None \<longrightarrow> (\<exists>h. replied (oExt ?s) (oTrace ?s) calls ''sha256'' [f] h \<and> rpErr h = None \<and> rpStr h = expected)"
      then show "checked args f url s e s'" unfolding checked_def using compare
        by (intro conjI [OF _ exI [of _ "?q # ?a # calls"]]) (auto simp: checksumMatches_def simp flip: m_def)
    qed
    with compare show ?thesis unfolding verifyRemoteChecksum_def by (simp add: wp_simps flip: r_def m_def)
  qed
qed

lemma accepted_within:
  "noManifest outer (tr @ pre) calls url \<Longrightarrow> noManifest outer tr (pre @ calls @ post) url"
  "checksumMatches outer (tr @ pre) calls f url \<Longrightarrow> checksumMatches outer tr (pre @ calls @ post) f url"
  unfolding noManifest_def checksumMatches_def by fastforce+

definition downloaded :: "string list \<Rightarrow> System \<Rightarrow> System \<Rightarrow> bool" where
  "downloaded args s s' \<longleftrightarrow> (\<exists>calls. oTrace s' = oTrace s @ calls \<and> list_all (\<lambda>c. c \<noteq> Ext ''os.Rename'' args) calls) \<and> oExt s' = oExt s
     \<and> set (syDownloadLocks s') = set (syDownloadLocks s) \<and> syEnforcing s' = syEnforcing s"

lemma download_calls: "wp (DownloadURL p url) (\<lambda>_. downloaded args s) s"
proof (cases "p \<in> set (syDownloadLocks s)")
  case True
  then show ?thesis by (simp add: DownloadURL_def wp_simps downloaded_def)
next
  case False
  then have "set (removeAll p (p # syDownloadLocks s)) = set (syDownloadLocks s)" by auto
  with False show ?thesis unfolding DownloadURL_def fetchBody_def wp_simps
    by (auto simp: wp_simps downloaded_def split: option.split)
qed

definition binaryURL :: "System \<Rightarrow> string \<Rightarrow> string \<Rightarrow> string \<Rightarrow> string" where
  "binaryURL s fileName bucketName versionString = buildBinaryDownloadURL (updateBaseURL s) bucketName (syGOOS s) (syArch s) versionString fileName"

definition installation :: "string \<Rightarrow> string \<Rightarrow> string \<Rightarrow> System \<Rightarrow> err \<Rightarrow> System \<Rightarrow> bool" where
  "installation tmp dest url s e s' \<longleftrightarrow> (\<exists>calls. oTrace s' = oTrace s @ calls
    \<and> (Ext ''os.Rename'' [tmp, dest] \<in> set calls \<longrightarrow>
         (noManifest (oExt s) (oTrace s) calls url \<or> checksumMatches (oExt s) (oTrace s) calls tmp url)
         \<and> (\<exists>sig. replied (oExt s) (oTrace s) calls ''codesign.Verify'' [tmp] sig \<and> (rpErr sig = None \<or> \<not> syEnforcing s)))
    \<and> (e = None \<longrightarrow> (\<exists>moved. replied (oExt s) (oTrace s) calls ''os.Rename'' [tmp, dest] moved \<and> rpErr moved = None)))"

lemma installation_refused:
  "oTrace s' = oTrace s @ calls \<Longrightarrow> list_all (\<lambda>c. c \<noteq> Ext ''os.Rename'' [tmp, dest]) calls \<Longrightarrow> installation tmp dest url s (Some x) s'"
  unfolding installation_def by (intro exI [of _ calls]) (auto simp: list_all_iff)

lemma install_calls:
  assumes "oTrace s1 = oTrace s @ calls" "oExt s1 = oExt s" "syEnforcing s1 = syEnforcing s" "list_all (\<lambda>c. c \<noteq> Ext ''os.Rename'' [tmp, dest]) calls"
    and "noManifest (oExt s) (oTrace s) calls url \<or> checksumMatches (oExt s) (oTrace s) calls tmp url"
  shows "wp (signAndInstall tmp dest agentURL) (installation tmp dest url s) s1"
proof -
  let ?verify = "Ext ''codesign.Verify'' [tmp]" and ?remove = "Ext ''os.Remove'' [tmp]" and ?chmod = "Ext ''os.Chmod'' [tmp]" and ?rename = "Ext ''os.Rename'' [tmp, dest]"
  let ?sig = "oExt s (oTrace s @ calls) ?verify"
  have moved: "installation tmp dest url s e s2"
    if "oTrace s2 = oTrace s @ calls @ [?verify, ?chmod, ?rename]" "rpErr ?sig = None \<or> \<not> syEnforcing s"
      "e = rpErr (oExt s (oTrace s @ calls @ [?verify, ?chmod]) ?rename)" for e s2
    unfolding installation_def using that assms(5) accepted_within [of "oExt s" "oTrace s" "[]" calls]
    by (intro exI [of _ "calls @ [?verify, ?chmod, ?rename]"]) auto
  have stopped: "installation tmp dest url s (Some x) s2" if "oTrace s2 = oTrace s @ calls @ [?verify, c]" "c \<noteq> ?rename" for x s2 c
    using that assms(4) by (intro installation_refused [of s2 s "calls @ [?verify, c]"]) simp_all
  show ?thesis
  proof (cases "rpErr ?sig \<noteq> None \<and> syEnforcing s")
    case True
    then show ?thesis using assms(1-3) by (auto simp: signAndInstall_def wp_simps intro!: stopped)
  next
    case False
    show ?thesis
    proof (cases "rpErr (oExt s (oTrace s @ calls @ [?verify]) ?chmod)")
      case None
      then show ?thesis using False assms(1-3)
        by (auto simp: signAndInstall_def installBinary_def wp_simps wp_steps_Cons split: option.split simp del: steps.simps intro!: moved)
    next
      case (Some x)
      then show ?thesis using False assms(1-3)
        by (auto simp: signAndInstall_def installBinary_def wp_simps wp_steps_Cons simp del: steps.simps intro!: stopped)
    qed
  qed
qed

lemma downloadBinary_installation:
  assumes "tmp = downloadTarget s fileName versionString" and "dest = binaryDestination s fileName versionString includeVersion"
  shows "wp (downloadBinary fileName bucketName versionString includeVersion) (\<lambda>r. installation tmp dest (binaryURL s fileName bucketName versionString) s (fst r)) s"
proof -
  let ?url = "binaryURL s fileName bucketName versionString"
  have verified: "wp (do { bad \<leftarrow> verifyRemoteChecksum tmp ?url;
            case bad of
              Some x \<Rightarrow> if x = indexPanic then ret (Some x, events) else do { _ \<leftarrow> askE ''os.Remove'' [tmp]; ret (Some x, events) }
            | None \<Rightarrow> do { res \<leftarrow> signAndInstall tmp dest ?url; ret (res, events) } }) (\<lambda>r. installation tmp dest ?url s (fst r)) s1"
    if down: "downloaded [tmp, dest] s s1" for events s1
    unfolding wp_bind
  proof (rule wp_mono [OF verify_calls [where args = "[tmp, dest]" and s = s1]])
    fix bad and s2 :: System
    assume "checked [tmp, dest] tmp ?url s1 bad s2"
    with down obtain pre calls where pre: "oTrace s2 = oTrace s @ pre @ calls" "oExt s2 = oExt s" "syEnforcing s2 = syEnforcing s"
      "list_all (\<lambda>c. c \<noteq> Ext ''os.Rename'' [tmp, dest]) (pre @ calls)"
      "bad = None \<longrightarrow> noManifest (oExt s) (oTrace s @ pre) calls ?url \<or> checksumMatches (oExt s) (oTrace s @ pre) calls tmp ?url"
      by (auto simp: checked_def downloaded_def)
    show "wp (case bad of
              Some x \<Rightarrow> if x = indexPanic then ret (Some x, events) else do { _ \<leftarrow> askE ''os.Remove'' [tmp]; ret (Some x, events) }
            | None \<Rightarrow> do { res \<leftarrow> signAndInstall tmp dest ?url; ret (res, events) }) (\<lambda>r. installation tmp dest ?url s (fst r)) s2"
    proof (cases bad)
      case None
      then have "noManifest (oExt s) (oTrace s) (pre @ calls) ?url \<or> checksumMatches (oExt s) (oTrace s) (pre @ calls) tmp ?url"
        using pre(5) accepted_within(1) [of "oExt s" "oTrace s" pre calls _ "[]"] accepted_within(2) [of "oExt s" "oTrace s" pre calls _ _ "[]"] by auto
      then show ?thesis using None install_calls [OF pre(1-4)] by (simp add: wp_simps)
    next
      case (Some x)
      then show ?thesis using pre
        by (simp add: wp_simps installation_refused [of _ s "pre @ calls"] installation_refused [of _ s "pre @ calls @ [Ext ''os.Remove'' [tmp]]"])
    qed
  qed
  have failed: "installation tmp dest ?url s (Some x) s1" if "downloaded [tmp, dest] s s1" for x s1
    using that installation_refused by (auto simp: downloaded_def)
  show ?thesis
    unfolding downloadBinary_def wp_bind wp_get Let_def assms [symmetric] binaryURL_def [symmetric]
    by (rule wp_mono [OF download_calls [where args = "[tmp, dest]" and s = s]])
      (auto simp: wp_return failed split: prod.split option.split intro: verified)
qed

text \<open>
  C25: A downloaded binary is moved into place only after its checksum was found to be the published one,
  or no usable manifest was published, and only after its signature was checked, which it passes where signatures are
  enforced; a download that succeeds has moved it there.
\<close>

theorem installed_binary_checked:
  assumes "run_state (downloadBinary fileName bucketName versionString includeVersion) s = ((e, events), s')"
    and "tmp = downloadTarget s fileName versionString" and "dest = binaryDestination s fileName versionString includeVersion"
    and "url = binaryURL s fileName bucketName versionString"
  shows "\<exists>calls. oTrace s' = oTrace s @ calls
    \<and> (Ext ''os.Rename'' [tmp, dest] \<in> set calls \<longrightarrow>
         (noManifest (oExt s) (oTrace s) calls url \<or> checksumMatches (oExt s) (oTrace s) calls tmp url)
         \<and> (\<exists>sig. replied (oExt s) (oTrace s) calls ''codesign.Verify'' [tmp] sig \<and> (rpErr sig = None \<or> \<not> syEnforcing s)))
    \<and> (e = None \<longrightarrow> (\<exists>moved. replied (oExt s) (oTrace s) calls ''os.Rename'' [tmp, dest] moved \<and> rpErr moved = None))"
  using wp_runD [OF downloadBinary_installation [OF assms(2,3)] assms(1)] unfolding installation_def assms(4) by simp

section \<open>Progress\<close>

lemma store_single:
  assumes "m = [] \<or> (\<exists>q. m = [(dpFilePath p, q)] \<and> dpFilePath q = dpFilePath p \<and> dpTotalFileSize q = dpTotalFileSize p)"
  shows "storeProgress p m = [(dpFilePath p, p)]"
proof (cases "m = []")
  case False
  then obtain q where q: "m = [(dpFilePath p, q)]" "dpFilePath q = dpFilePath p" "dpTotalFileSize q = dpTotalFileSize p" using assms by blast
  then have "q\<lparr>dpIncrement := dpIncrement p, dpCurrentBytes := dpCurrentBytes p\<rparr> = p" by (cases q, cases p) simp
  with q show ?thesis by (simp add: storeProgress_def)
qed (simp add: storeProgress_def)

lemma sum_single: "sumProgress [(path, p)] = p\<lparr>dpFilePath := []\<rparr>"
  by (simp add: sumProgress_def)

text \<open>The events of one download that has not reached its length yet.\<close>

lemma progress_from:
  assumes "list_all (\<lambda>c. c \<noteq> []) chunks" "n + length (concat chunks) \<le> l" "l < 2 ^ 64"
    and "m = [] \<or> (\<exists>q. m = [(path, q)] \<and> dpFilePath q = path \<and> dpTotalFileSize q = of_nat l)"
  shows "progressLoop m (counterEvents path (of_nat l) (of_nat n) chunks) = (map (dpFilePath_update (\<lambda>_. [])) (counterEvents path (of_nat l) (of_nat n) chunks), [])"
  using assms
proof (induction chunks arbitrary: n m)
  case Nil
  then show ?case by simp
next
  case (Cons c chunks)
  let ?p = "\<lparr>dpFilePath = path, dpIncrement = of_nat (length c), dpCurrentBytes = of_nat (n + length c), dpTotalFileSize = of_nat l\<rparr> :: DownloadProgress"
  have store: "storeProgress ?p m = [(path, ?p)]"
    using Cons.prems(4) store_single [of m ?p] by simp
  show ?case
  proof (cases chunks)
    case Nil
    then show ?thesis by (simp add: store sum_single Let_def flip: of_nat_add)
  next
    case (Cons d ds)
    then have "n + length c < l" using Cons.prems(1,2) by (cases d) simp_all
    then have "(of_nat (n + length c) :: uint64) \<noteq> of_nat l"
      using Cons.prems(3) by (auto dest!: arg_cong [of _ _ unat] simp: unat_of_nat simp flip: of_nat_add)
    moreover have "progressLoop [(path, ?p)] (counterEvents path (of_nat l) (of_nat (n + length c)) chunks)
        = (map (dpFilePath_update (\<lambda>_. [])) (counterEvents path (of_nat l) (of_nat (n + length c)) chunks), [])"
      using Cons.prems by (intro Cons.IH) auto
    ultimately show ?thesis by (simp add: store sum_single Let_def flip: of_nat_add)
  qed
qed

text \<open>
  What the HTTP client promises of a body: the chunks that are read are not empty and together not longer than
  the length that was announced.
\<close>

definition honestBodies :: "(ext_call list \<Rightarrow> ext_call \<Rightarrow> reply) \<Rightarrow> bool" where
  "honestBodies outer \<longleftrightarrow> (\<forall>tr path url contentLength. Atoi (rpStr (outer tr (Ext ''http.Get'' [url]))) = Some contentLength \<longrightarrow>
     0 \<le> contentLength \<and> list_all (\<lambda>c. c \<noteq> []) (rpLines (outer (tr @ [Ext ''http.Get'' [url]]) (Ext ''io.Copy'' [path])))
     \<and> int (length (concat (rpLines (outer (tr @ [Ext ''http.Get'' [url]]) (Ext ''io.Copy'' [path]))))) \<le> contentLength)"

definition allRead :: "DownloadProgress list \<Rightarrow> bool" where
  "allRead events \<longleftrightarrow> progressLoop [] events = (map (dpFilePath_update (\<lambda>_. [])) events, [])"

lemma allRead_Nil [simp]: "allRead []"
  by (simp add: allRead_def)

lemma Atoi_below: "Atoi s = Some i \<Longrightarrow> i < 2 ^ 63"
  by (auto simp: Atoi_def Let_def split: if_splits option.splits)

lemma fetch_allRead:
  assumes "honestBodies (oExt s)"
  shows "wp (fetchBody path url) (\<lambda>r s'. allRead (snd r) \<and> oExt s' = oExt s) s"
proof -
  have "allRead (counterEvents path (word_of_int contentLength) 0 (rpLines (oExt s (tr @ [Ext ''http.Get'' [url]]) (Ext ''io.Copy'' [path]))))"
    if "Atoi (rpStr (oExt s tr (Ext ''http.Get'' [url]))) = Some contentLength" for tr contentLength
  proof -
    have "0 \<le> contentLength" "contentLength < 2 ^ 64" using assms that Atoi_below [OF that] by (auto simp: honestBodies_def)
    moreover from this have "(word_of_int contentLength :: uint64) = of_nat (nat contentLength)" by simp
    ultimately show ?thesis unfolding allRead_def
      using assms that progress_from [of "rpLines (oExt s (tr @ [Ext ''http.Get'' [url]]) (Ext ''io.Copy'' [path]))" 0 "nat contentLength" "[]" path]
      by (simp add: honestBodies_def le_nat_iff nat_less_iff)
  qed
  from this [of "oTrace s @ [Ext ''os.Create'' [path]]"] show ?thesis by (auto simp: fetchBody_def wp_simps split: option.split)
qed

text \<open>What every step of an update keeps: the outside, and that the events of a download are all received.\<close>

lemma download_allRead:
  assumes "honestBodies (oExt s)"
  shows "wp (DownloadURL path url) (\<lambda>r s'. allRead (snd r) \<and> oExt s' = oExt s) s"
proof -
  have "wp (fetchBody path url) (\<lambda>r s'. allRead (snd r) \<and> oExt s' = oExt s) (s\<lparr>syDownloadLocks := path # syDownloadLocks s\<rparr>)"
    using fetch_allRead [of "s\<lparr>syDownloadLocks := path # syDownloadLocks s\<rparr>" path url] assms by simp
  then show ?thesis by (auto simp: DownloadURL_def wp_simps elim: wp_mono)
qed

definition sameOuter :: "System \<Rightarrow> System \<Rightarrow> bool" where
  "sameOuter s s' \<longleftrightarrow> oExt s' = oExt s"

interpretation so: asking_relation sameOuter
  by unfold_locales (simp_all add: sameOuter_def)

lemma verify_sameOuter: "keeps sameOuter (verifyRemoteChecksum f url)"
  unfolding verifyRemoteChecksum_def compareChecksum_def by (intro so.asking)

lemma sign_sameOuter: "keeps sameOuter (signAndInstall f d url)"
  unfolding signAndInstall_def installBinary_def by (intro so.asking)

lemma fetch_sameOuter: "keeps sameOuter (fetchBody path url)"
  unfolding fetchBody_def by (intro so.asking)

lemma DownloadURL_sameOuter: "keeps sameOuter (DownloadURL path url)"
  unfolding DownloadURL_def by (intro so.asking fetch_sameOuter so.keeps_modify) (simp_all add: sameOuter_def)

lemma downloadBinary_sameOuter: "keeps sameOuter (downloadBinary f b v i)"
  unfolding downloadBinary_def by (intro so.asking DownloadURL_sameOuter verify_sameOuter sign_sameOuter)

lemma updateFrp_sameOuter: "keeps sameOuter updateFrpIfRequired"
  unfolding updateFrpIfRequired_def DownloadFrpIfNotExists_def acquireFrp_def GetFrpCurrentVersion_def PathExists_def
  by (intro so.asking downloadBinary_sameOuter | split bool.split | intro conjI impI)+

lemma downloadBinary_allRead:
  assumes "honestBodies (oExt s)"
  shows "wp (downloadBinary f b v i) (\<lambda>r s'. allRead (snd r)) s"
  unfolding downloadBinary_def wp_bind wp_get Let_def
  by (rule wp_mono [OF download_allRead [OF assms]]) (auto simp: wp_simps wp_def split: prod.split option.split)

lemma updateAgent_allRead:
  assumes "honestBodies (oExt s)"
  shows "wp updateAgentIfRequired (\<lambda>r s'. allRead (snd (snd r))) s"
proof -
  have "wp (downloadAgent c l) (\<lambda>r s'. allRead (snd (snd r))) s1" if "oExt s1 = oExt s" for c l s1
    unfolding downloadAgent_def wp_bind Let_def
    by (rule wp_mono [OF downloadBinary_allRead]) (use that assms in \<open>auto simp: wp_simps split: option.split\<close>)
  then show ?thesis
    by (auto simp: updateAgentIfRequired_def GetLatestVersion_def compareVersion_def wp_simps split: sum.splits option.splits bool.splits)
qed

text \<open>
  C26: An update of the system returns: every event of the download is received, so that none of the
  goroutines it waits for stays blocked on the channel, and the progress that is reported is that of the download, event by event.
\<close>

theorem update_system_returns:
  assumes "honestBodies (oExt s)"
  shows "\<exists>result events s'. run_state (UpdateSystem updateAgent) s = (Some (result, map (dpFilePath_update (\<lambda>_. [])) events), s')
    \<and> (\<exists>frp s1. run_state updateFrpIfRequired s = (frp, s1)
         \<and> (updateAgent \<longrightarrow> (\<exists>r e s2. run_state updateAgentIfRequired s1 = ((r, e, events), s2) \<and> urDidAgentUpdate result = urDidUpdate r)))"
proof -
  obtain frp s1 where frp: "run_state updateFrpIfRequired s = (frp, s1)" by force
  then have honest: "honestBodies (oExt s1)" using assms keepsD [OF updateFrp_sameOuter frp] by (simp add: sameOuter_def)
  show ?thesis
  proof (cases updateAgent)
    case False
    then show ?thesis using frp by (auto simp: UpdateSystem_def run_ops Let_def noUpdate_def intro!: exI [of _ "[]"])
  next
    case True
    obtain r e events s2 where agent: "run_state updateAgentIfRequired s1 = ((r, e, events), s2)" by (metis surj_pair)
    have "progressLoop [] events = (map (dpFilePath_update (\<lambda>_. [])) events, [])"
      using wp_runD [OF updateAgent_allRead [OF honest] agent] by (simp add: allRead_def)
    then show ?thesis using True frp agent
      by (auto simp: UpdateSystem_def run_ops Let_def noUpdate_def split: prod.split intro!: exI [of _ events])
  qed
qed

section \<open>Examples\<close>

text \<open>A server that answers every request with 404 and a page of three bytes.\<close>

definition lost_server :: "ext_call list \<Rightarrow> ext_call \<Rightarrow> reply" where
  "lost_server tr c = (case c of Ext name args \<Rightarrow>
     if name = ''http.Get'' then ok_reply\<lparr>rpStr := ''3'', rpNum := 404\<rparr>
     else if name = ''io.Copy'' then ok_reply\<lparr>rpStrs := [([], [''404''])]\<rparr>
     else if name = ''GetRemoteFileWithStatus'' then ok_reply\<lparr>rpNum := 404\<rparr>
     else if name = ''codesign.Verify'' then ok_reply\<lparr>rpErr := Some (Msg ''unsigned'')\<rparr>
     else ok_reply)"

definition demo_system :: System where
  "demo_system = \<lparr>oTrace = [], oExt = lost_server, syUpdateURL = [], syRemoteUpdateURL = ''u'', syAgentDir = ''a'', syDownloadDir = ''d'',
     syConfigFile = ''c'', syGOOS = ''linux'', syArch = ''arm'', syVersion = ''1'', syFrpVersion = ''2'', syEmbedded = True, syEnforcing = False,
     syEnvironment = [], syEndpoint = [], syDeviceKey = 1, syName = [], sySwarmName = [], sySwarmOwnerName = [], sySwarmKey = 1, syDownloadLocks = []\<rparr>"

lemma demo_Atoi: "Atoi ''3'' = Some 3"
  by (simp add: Atoi_def char_digit_def)

lemma demo_system_simps [simp]:
  "oTrace demo_system = []" "oExt demo_system = lost_server" "syDownloadLocks demo_system = []" "syEnforcing demo_system = False"
  by (simp_all add: demo_system_def)

lemma error_page_installed:
  "\<exists>events s'. run_state (downloadBinary ''reagent'' ''re-agent'' ''2'' True) demo_system = ((None, events), s')
     \<and> Ext ''os.Rename'' [''d/reagent-v2'', ''a/reagent-v2''] \<in> set (oTrace s')"
  by (simp add: downloadBinary_def DownloadURL_def fetchBody_def verifyRemoteChecksum_def signAndInstall_def installBinary_def run_ops lost_server_def
      ok_reply_def demo_Atoi rpLines_def Let_def downloadTarget_def binaryDestination_def) (simp add: demo_system_def)

theorem installed_binary_checked_witness:
  "\<exists>calls sig. oTrace (snd (run_state (downloadBinary ''reagent'' ''re-agent'' ''2'' True) demo_system)) = calls
     \<and> replied lost_server [] calls ''codesign.Verify'' [''d/reagent-v2''] sig"
proof -
  obtain events s' where run: "run_state (downloadBinary ''reagent'' ''re-agent'' ''2'' True) demo_system = ((None, events), s')"
    and moved: "Ext ''os.Rename'' [''d/reagent-v2'', ''a/reagent-v2''] \<in> set (oTrace s')"
    using error_page_installed by blast
  have paths: "''d/reagent-v2'' = downloadTarget demo_system ''reagent'' ''2''" "''a/reagent-v2'' = binaryDestination demo_system ''reagent'' ''2'' True"
    by (simp_all add: downloadTarget_def binaryDestination_def demo_system_def)
  from installed_binary_checked [OF run paths refl] moved run show ?thesis by auto
qed

lemma lost_server_honest: "honestBodies lost_server"
  by (simp add: honestBodies_def lost_server_def ok_reply_def demo_Atoi rpLines_def)

theorem update_system_returns_witness:
  "\<exists>result events s'. run_state (UpdateSystem True) demo_system = (Some (result, events), s')"
  using update_system_returns [of demo_system True] lost_server_honest by auto

text \<open>A manifest of white space only, an installation that failed, and two downloads that report at the same time.\<close>

lemma blank_manifest_panics: "expectedChecksum '' '' = None"
  by (simp add: expectedChecksum_def firstField_def isSpace_def)

lemma failed_installation_unreported:
  "run_state getOSUpdateTags s = (Some t, s1) \<Longrightarrow> \<exists>s'. run_state (InstallOSUpdate signals) s = (None, s')"
  by (cases t) (simp add: InstallOSUpdate_def run_ops split: prod.splits)

lemma second_download_blocked:
  "snd (progressLoop [] [\<lparr>dpFilePath = ''a'', dpIncrement = 5, dpCurrentBytes = 5, dpTotalFileSize = 5\<rparr>,
     \<lparr>dpFilePath = ''b'', dpIncrement = 1, dpCurrentBytes = 1, dpTotalFileSize = 9\<rparr>]) \<noteq> []"
  by (simp add: storeProgress_def sumProgress_def)

lemma missing_name_stored: "Sprint (obj_get (JObj []) ''device_name'') = ''<nil>''"
  by (simp add: obj_get_def)

end
