(* ===== verification/FlockConfig.thy ===== *)
theory FlockConfig
  imports Outside ComposePorts Prog
begin

text \<open>
  \<^verbatim>\<open>config/config.go\<close>: the \<^verbatim>\<open>.flock\<close> file with the identity of the device. The content of the file is a JSON
  value or text that is none. Decoding leaves the fields that are missing or of another type at their zero
  values, as the decoder does when its error is ignored; keys are taken to be in the case in which
  they are written. The flags of the command line are not modelled.
\<close>

section \<open>Data\<close>

record Board =
  bdCPU :: string
  bdDocs :: json
  bdBoard :: string
  bdModel :: string
  bdBoardname :: string
  bdModelname :: string
  bdReflasher :: bool
  bdArchitecture :: string

record ReswarmConfig =
  rcName :: string
  rcSecret :: string
  rcBoard :: Board
  rcStatus :: string
  rcPassword :: string
  rcWlanssid :: string
  rcSwarmKey :: int
  rcDeviceKey :: int
  rcSwarmName :: string
  rcDescription :: json
  rcArchitecture :: string
  rcSerialNumber :: string
  rcAuthKey :: string
  rcAuthCertificate :: string
  rcSwarmOwnerName :: string
  rcConfigPassphrase :: string
  rcDeviceEndpointURL :: string
  rcEnvironment :: string
  rcDockerRegistryURL :: string
  rcInsecureRegistries :: string
  rcDockerMainRepository :: string
  rcApplianceDomain :: string
  rcUpdateURL :: string
  rcReswarmBaseURL :: string

section \<open>Encoding\<close>

definition omitEmpty :: "string \<Rightarrow> string \<Rightarrow> (string \<times> json) list" where
  "omitEmpty k v = (if v = [] then [] else [(k, JStr v)])"

definition encodeBoard :: "Board \<Rightarrow> json" where
  "encodeBoard b = JObj [(''cpu'', JStr (bdCPU b)), (''docs'', bdDocs b), (''board'', JStr (bdBoard b)), (''model'', JStr (bdModel b)),
     (''boardname'', JStr (bdBoardname b)), (''modelname'', JStr (bdModelname b)), (''reflasher'', JBool (bdReflasher b)), (''architecture'', JStr (bdArchitecture b))]"

definition encodeReswarmConfig :: "ReswarmConfig \<Rightarrow> json" where
  "encodeReswarmConfig c = JObj ([(''name'', JStr (rcName c)), (''secret'', JStr (rcSecret c)), (''board'', encodeBoard (rcBoard c)),
     (''status'', JStr (rcStatus c)), (''password'', JStr (rcPassword c)), (''wlanssid'', JStr (rcWlanssid c)), (''swarm_key'', JNum (rcSwarmKey c)),
     (''device_key'', JNum (rcDeviceKey c)), (''swarm_name'', JStr (rcSwarmName c)), (''description'', rcDescription c), (''architecture'', JStr (rcArchitecture c)),
     (''serial_number'', JStr (rcSerialNumber c)), (''authentication'', JObj [(''key'', JStr (rcAuthKey c)), (''certificate'', JStr (rcAuthCertificate c))]),
     (''swarm_owner_name'', JStr (rcSwarmOwnerName c)), (''config_passphrase'', JStr (rcConfigPassphrase c)), (''device_endpoint_url'', JStr (rcDeviceEndpointURL c))]
     @ omitEmpty ''environment'' (rcEnvironment c) @ [(''docker_registry_url'', JStr (rcDockerRegistryURL c))]
     @ omitEmpty ''insecure-registries'' (rcInsecureRegistries c) @ [(''docker_main_repository'', JStr (rcDockerMainRepository c))]
     @ omitEmpty ''appliance_domain'' (rcApplianceDomain c) @ omitEmpty ''update_url'' (rcUpdateURL c))"

definition strField :: "json \<Rightarrow> string \<Rightarrow> string" where
  "strField j k = (case obj_get j k of JStr s \<Rightarrow> s | _ \<Rightarrow> [])"

definition boolField :: "json \<Rightarrow> string \<Rightarrow> bool" where
  "boolField j k = (case obj_get j k of JBool b \<Rightarrow> b | _ \<Rightarrow> False)"

definition intField :: "json \<Rightarrow> string \<Rightarrow> int" where
  "intField j k = (case obj_get j k of JNum n \<Rightarrow> if - (2 ^ 63) \<le> n \<and> n < 2 ^ 63 then n else 0 | _ \<Rightarrow> 0)"

definition decodeBoard :: "json \<Rightarrow> Board" where
  "decodeBoard j = \<lparr>bdCPU = strField j ''cpu'', bdDocs = obj_get j ''docs'', bdBoard = strField j ''board'', bdModel = strField j ''model'',
     bdBoardname = strField j ''boardname'', bdModelname = strField j ''modelname'', bdReflasher = boolField j ''reflasher'', bdArchitecture = strField j ''architecture''\<rparr>"

definition decodeReswarmConfig :: "json \<Rightarrow> ReswarmConfig" where
  "decodeReswarmConfig j = \<lparr>rcName = strField j ''name'', rcSecret = strField j ''secret'', rcBoard = decodeBoard (obj_get j ''board''),
     rcStatus = strField j ''status'', rcPassword = strField j ''password'', rcWlanssid = strField j ''wlanssid'', rcSwarmKey = intField j ''swarm_key'',
     rcDeviceKey = intField j ''device_key'', rcSwarmName = strField j ''swarm_name'', rcDescription = obj_get j ''description'',
     rcArchitecture = strField j ''architecture'', rcSerialNumber = strField j ''serial_number'', rcAuthKey = strField (obj_get j ''authentication'') ''key'',
     rcAuthCertificate = strField (obj_get j ''authentication'') ''certificate'', rcSwarmOwnerName = strField j ''swarm_owner_name'',
     rcConfigPassphrase = strField j ''config_passphrase'', rcDeviceEndpointURL = strField j ''device_endpoint_url'', rcEnvironment = strField j ''environment'',
     rcDockerRegistryURL = strField j ''docker_registry_url'', rcInsecureRegistries = strField j ''insecure-registries'',
     rcDockerMainRepository = strField j ''docker_main_repository'', rcApplianceDomain = strField j ''appliance_domain'', rcUpdateURL = strField j ''update_url'',
     rcReswarmBaseURL = []\<rparr>"

section \<open>The file\<close>

datatype file_content = Missing | Garbage | Content json

record ConfigStore = outside +
  csFile :: file_content

type_synonym 'a cprog = "(ConfigStore, 'a) state"

definition SaveReswarmConfig :: "string \<Rightarrow> ReswarmConfig \<Rightarrow> err cprog" where
  "SaveReswarmConfig path c = do {
     e \<leftarrow> askE ''ioutil.WriteFile'' [path];
     case e of
       Some x \<Rightarrow> ret (Some x)
     | None \<Rightarrow> do { _ \<leftarrow> modify (\<lambda>s. s\<lparr>csFile := Content (encodeReswarmConfig c)\<rparr>); ret None } }"

text \<open>The addresses that were renamed.\<close>

definition migrated :: "ReswarmConfig \<Rightarrow> ReswarmConfig" where
  "migrated c = c\<lparr>
     rcDockerRegistryURL := (if rcDockerRegistryURL c = ''registry.reswarm.io/'' then ''registry.ironflock.com/'' else rcDockerRegistryURL c),
     rcDeviceEndpointURL := (if rcDeviceEndpointURL c = ''wss://cbw.record-evolution.com/ws-re-dev'' then ''wss://cbw.ironflock.com/ws-re-dev'' else rcDeviceEndpointURL c)\<rparr>"

definition readConfig :: "file_content \<Rightarrow> ReswarmConfig" where
  "readConfig f = decodeReswarmConfig (case f of Content j \<Rightarrow> j | _ \<Rightarrow> JNull)"

text \<open>The outer None: the agent exits because the file cannot be written.\<close>

definition LoadReswarmConfig :: "string \<Rightarrow> (go_error + ReswarmConfig) option cprog" where
  "LoadReswarmConfig path = do {
     opened \<leftarrow> askE ''os.Open'' [path];
     f \<leftarrow> gets csFile;
     case opened of
       Some e \<Rightarrow> ret (Some (Inl e))
     | None \<Rightarrow> do {
         let c = migrated (readConfig f);
         saved \<leftarrow> SaveReswarmConfig path c;
         case saved of Some _ \<Rightarrow> ret None | None \<Rightarrow> ret (Some (Inr c)) } }"

section \<open>Properties\<close>

definition inRange :: "ReswarmConfig \<Rightarrow> bool" where
  "inRange c \<longleftrightarrow> - (2 ^ 63) \<le> rcSwarmKey c \<and> rcSwarmKey c < 2 ^ 63 \<and> - (2 ^ 63) \<le> rcDeviceKey c \<and> rcDeviceKey c < 2 ^ 63"

lemma decode_encode_board: "decodeBoard (encodeBoard b) = b"
  by (cases b) (simp add: decodeBoard_def encodeBoard_def strField_def boolField_def obj_get_def)

lemma map_of_omitEmpty: "map_of (omitEmpty k v) k' = (if k' = k \<and> v \<noteq> [] then Some (JStr v) else None)"
  by (simp add: omitEmpty_def)

lemma decode_encode:
  assumes "inRange c"
  shows "decodeReswarmConfig (encodeReswarmConfig c) = c\<lparr>rcReswarmBaseURL := []\<rparr>"
  using assms by (cases c) (simp add: decodeReswarmConfig_def encodeReswarmConfig_def strField_def intField_def obj_get_def inRange_def
    map_add_def map_of_omitEmpty decode_encode_board)

lemma migrated_idem: "migrated (migrated c) = migrated c"
  by (simp add: migrated_def)

lemma inRange_decoded: "inRange (decodeReswarmConfig j)"
  by (auto simp: inRange_def decodeReswarmConfig_def intField_def split: json.splits)

lemma inRange_migrated [simp]: "inRange (migrated c) \<longleftrightarrow> inRange c" "inRange (c\<lparr>rcReswarmBaseURL := u\<rparr>) \<longleftrightarrow> inRange c"
  by (simp_all add: inRange_def migrated_def)

lemma base_migrated: "rcReswarmBaseURL (migrated c) = rcReswarmBaseURL c" "rcReswarmBaseURL (decodeReswarmConfig j) = []"
  by (simp_all add: migrated_def decodeReswarmConfig_def)

lemma save_saved:
  "run_state (SaveReswarmConfig path c) s = (None, s') \<Longrightarrow> csFile s' = Content (encodeReswarmConfig c)"
  by (auto simp: SaveReswarmConfig_def run_ops split: prod.splits sum.splits option.splits)

lemma save_refused:
  "run_state (SaveReswarmConfig path c) s = (Some e, s') \<Longrightarrow> csFile s' = csFile s"
  by (auto simp: SaveReswarmConfig_def run_ops split: prod.splits sum.splits option.splits)

lemma load_loaded:
  assumes "run_state (LoadReswarmConfig path) s = (Some (Inr c), s')"
  shows "c = migrated (readConfig (csFile s)) \<and> csFile s' = Content (encodeReswarmConfig c)"
  using assms
  by (auto simp: LoadReswarmConfig_def Let_def run_ops split: prod.splits sum.splits option.splits dest: save_saved)

text \<open>
  Loading a configuration that was saved gives what was saved, with the renamed addresses replaced and without the
  base address, which is not written; loading it again gives the same and changes the file no more, whatever the file system
  answers in between, as long as the calls succeed.
\<close>

theorem saved_config_loaded:
  assumes "inRange c"
    and "run_state (SaveReswarmConfig path c) s = (None, s1)"
    and "run_state (LoadReswarmConfig path) s1 = (Some (Inr c1), s2)"
    and "run_state (LoadReswarmConfig path) s2 = (Some (Inr c2), s3)"
  shows "c1 = migrated (c\<lparr>rcReswarmBaseURL := []\<rparr>) \<and> c2 = c1 \<and> csFile s3 = csFile s2"
proof -
  have c1: "c1 = migrated (c\<lparr>rcReswarmBaseURL := []\<rparr>)" and f2: "csFile s2 = Content (encodeReswarmConfig c1)"
    using load_loaded [OF assms(3)] save_saved [OF assms(2)] decode_encode [OF assms(1)] by (simp_all add: readConfig_def)
  have "inRange c1" "c1\<lparr>rcReswarmBaseURL := []\<rparr> = c1" "migrated c1 = c1"
    using assms(1) by (simp_all add: c1 migrated_idem) (simp add: migrated_def)
  then have "c2 = c1" "csFile s3 = Content (encodeReswarmConfig c2)"
    using load_loaded [OF assms(4)] f2 decode_encode [of c1] by (simp_all add: readConfig_def)
  with c1 f2 show ?thesis by simp
qed

definition demo_flock :: ReswarmConfig where
  "demo_flock = (decodeReswarmConfig JNull)\<lparr>rcName := ''device'', rcDeviceKey := 7, rcDockerRegistryURL := ''registry.reswarm.io/'', rcReswarmBaseURL := ''https://x''\<rparr>"

definition demo_store :: ConfigStore where
  "demo_store = \<lparr>oTrace = [], oExt = (\<lambda>_ _. ok_reply), csFile = Missing\<rparr>"

lemma demo_save: "run_state (SaveReswarmConfig path c) s = (None, s\<lparr>oTrace := oTrace s @ [Ext ''ioutil.WriteFile'' [path]], csFile := Content (encodeReswarmConfig c)\<rparr>)"
  if "oExt s = (\<lambda>_ _. ok_reply)" for s :: ConfigStore
  using that by (simp add: SaveReswarmConfig_def run_ops ok_reply_def)

lemma demo_load: "\<exists>s'. run_state (LoadReswarmConfig path) s = (Some (Inr (migrated (readConfig (csFile s)))), s') \<and> oExt s' = (\<lambda>_ _. ok_reply)"
  if "oExt s = (\<lambda>_ _. ok_reply)" for s :: ConfigStore
  proof -
  have "rpErr ok_reply = None" by (simp add: ok_reply_def)
  then show ?thesis by (simp add: LoadReswarmConfig_def run_ops Let_def demo_save that)
qed

theorem saved_config_loaded_witness:
  "\<exists>c s1 s2. run_state (SaveReswarmConfig ''f'' demo_flock) demo_store = (None, s1) \<and> run_state (LoadReswarmConfig ''f'') s1 = (Some (Inr c), s2)
     \<and> rcName c = ''device'' \<and> rcDeviceKey c = 7 \<and> rcDockerRegistryURL c = ''registry.ironflock.com/'' \<and> rcReswarmBaseURL c = []"
proof -
  have ext: "oExt demo_store = (\<lambda>_ _. ok_reply)" by (simp add: demo_store_def)
  obtain s1 :: ConfigStore where s1: "run_state (SaveReswarmConfig ''f'' demo_flock) demo_store = (None, s1)" "oExt s1 = (\<lambda>_ _. ok_reply)"
    using demo_save [OF ext] ext by simp
  obtain c1 s2 where s2: "run_state (LoadReswarmConfig ''f'') s1 = (Some (Inr c1), s2)" "oExt s2 = (\<lambda>_ _. ok_reply)"
    using demo_load [OF s1(2)] by blast
  obtain c2 s3 where s3: "run_state (LoadReswarmConfig ''f'') s2 = (Some (Inr c2), s3)"
    using demo_load [OF s2(2)] by blast
  have "inRange demo_flock" by (simp add: demo_flock_def inRange_def decodeReswarmConfig_def intField_def obj_get_def)
  from saved_config_loaded [OF this s1(1) s2(1) s3] have "c1 = migrated (demo_flock\<lparr>rcReswarmBaseURL := []\<rparr>)" by simp
  then show ?thesis using s1(1) s2(1) by (auto simp: migrated_def demo_flock_def)
qed

text \<open>A file that is no JSON is replaced by an empty configuration: the error of the decoder is dropped and the file is written at once.\<close>

lemma unparsable_file_replaced:
  assumes "csFile s = Garbage" "run_state (LoadReswarmConfig path) s = (Some (Inr c), s')"
  shows "c = decodeReswarmConfig JNull \<and> rcSecret c = [] \<and> rcDeviceKey c = 0 \<and> csFile s' = Content (encodeReswarmConfig (decodeReswarmConfig JNull))"
proof -
  have "c = decodeReswarmConfig JNull"
    using load_loaded [OF assms(2)] assms(1)
    by (simp add: readConfig_def migrated_def decodeReswarmConfig_def strField_def obj_get_def)
  moreover have "csFile s' = Content (encodeReswarmConfig c)" using load_loaded [OF assms(2)] by simp
  ultimately show ?thesis by (simp add: decodeReswarmConfig_def strField_def intField_def obj_get_def)
qed

end
