(* ===== verification/ServiceCommand.thy ===== *)
theory ServiceCommand
  imports Outside
begin

text \<open>
  \<^verbatim>\<open>servicecmd.go\<close> and \<^verbatim>\<open>lifecycle/lifecycle.go\<close>: the flags of the service command, the arguments that are put into the
  service's command line and read back from it, and the requests for a restart. Joining of paths depends on
  the system and is a parameter, as is the quoting of arguments by the service manager's library.
\<close>

section \<open>Flags\<close>

text \<open>
  \<^verbatim>\<open>FlagSet.Parse\<close>: arguments that start with one or two dashes, with the value behind an equals sign or, for texts, in the
  next argument. It ends at the first other argument or behind two dashes.
\<close>

datatype flag_value = Text string | Switch bool

definition flagName :: "string \<Rightarrow> string option" where
  "flagName s = (case s of
     (c # d # cs) \<Rightarrow> if c \<noteq> CHR ''-'' then None else if d = CHR ''-'' then Some cs else Some (d # cs)
   | _ \<Rightarrow> None)"

definition splitEquals :: "string \<Rightarrow> string \<times> string option" where
  "splitEquals s = (let name = takeWhile (\<lambda>c. c \<noteq> CHR ''='') s in
     if name = s \<or> name = [] then (s, None) else (name, Some (drop (Suc (length name)) s)))"

definition parseBool :: "string \<Rightarrow> bool option" where
  "parseBool s = (if s \<in> {''1'', ''t'', ''T'', ''true'', ''TRUE'', ''True''} then Some True
     else if s \<in> {''0'', ''f'', ''F'', ''false'', ''FALSE'', ''False''} then Some False else None)"

fun parseFlags :: "(string \<times> flag_value) list \<Rightarrow> string list \<Rightarrow> go_error + (string \<times> flag_value) list" where
  "parseFlags known [] = Inr known"
| "parseFlags known (s # rest) = (case flagName s of
     None \<Rightarrow> Inr known
   | Some text \<Rightarrow>
       if s = ''--'' then Inr known
       else if text = [] \<or> hd text = CHR ''-'' \<or> hd text = CHR ''='' then Inl (Msg (''bad flag syntax: '' @ s))
       else case splitEquals text of (name, given) \<Rightarrow>
         (case map_of known name of
            None \<Rightarrow> Inl (Msg (if name \<in> {''help'', ''h''} then ''flag: help requested'' else ''flag provided but not defined: -'' @ name))
          | Some (Switch _) \<Rightarrow>
              (case given of
                 None \<Rightarrow> parseFlags (map_put name (Switch True) known) rest
               | Some v \<Rightarrow> (case parseBool v of
                    None \<Rightarrow> Inl (Msg (''invalid boolean value for -'' @ name))
                  | Some b \<Rightarrow> parseFlags (map_put name (Switch b) known) rest))
          | Some (Text _) \<Rightarrow>
              (case given of
                 Some v \<Rightarrow> parseFlags (map_put name (Text v) known) rest
               | None \<Rightarrow> (case rest of
                    [] \<Rightarrow> Inl (Msg (''flag needs an argument: -'' @ name))
                  | v # rest' \<Rightarrow> parseFlags (map_put name (Text v) known) rest'))))"

record serviceInstallOptions =
  soConfigPath :: string
  soAgentDir :: string
  soAppsDir :: string
  soProxy :: string
  soStartNow :: bool
  soAgentDirSet :: bool

definition textFlag :: "(string \<times> flag_value) list \<Rightarrow> string \<Rightarrow> string" where
  "textFlag flags name = (case map_of flags name of Some (Text v) \<Rightarrow> v | _ \<Rightarrow> [])"

definition switchFlag :: "(string \<times> flag_value) list \<Rightarrow> string \<Rightarrow> bool" where
  "switchFlag flags name = (case map_of flags name of Some (Switch b) \<Rightarrow> b | _ \<Rightarrow> False)"

definition installFlags :: "(string \<times> flag_value) list" where
  "installFlags = [(''config'', Text []), (''agentDir'', Text []), (''appsDir'', Text []), (''proxy'', Text []), (''noStart'', Switch False), (''start'', Switch False)]"

definition parseServiceInstallFlags :: "(string list \<Rightarrow> string) \<Rightarrow> string list \<Rightarrow> string \<Rightarrow> go_error + serviceInstallOptions" where
  "parseServiceInstallFlags join args programData = (case parseFlags installFlags args of
     Inl e \<Rightarrow> Inl e
   | Inr flags \<Rightarrow>
       if textFlag flags ''config'' = [] then Inl (Msg ''-config <path-to-.flock> is required'')
       else if textFlag flags ''agentDir'' = [] \<and> programData = [] then Inl (Msg ''%ProgramData% is not set and no -agentDir was given'')
       else let agentDir = (if textFlag flags ''agentDir'' = [] then join [programData, ''IronFlock'', ''Reagent''] else textFlag flags ''agentDir'') in
         Inr \<lparr>soConfigPath = textFlag flags ''config'', soAgentDir = agentDir,
              soAppsDir = (if textFlag flags ''appsDir'' = [] then join [agentDir, ''apps''] else textFlag flags ''appsDir''),
              soProxy = textFlag flags ''proxy'', soStartNow = (\<not> switchFlag flags ''noStart''), soAgentDirSet = (textFlag flags ''agentDir'' \<noteq> [])\<rparr>)"

section \<open>The command line of the service\<close>

definition serviceBinaryArgs :: "(string list \<Rightarrow> string) \<Rightarrow> serviceInstallOptions \<Rightarrow> string list" where
  "serviceBinaryArgs join opts = [
     ''-config'', join [soAgentDir opts, ''device.flock''],
     ''-agentDir'', soAgentDir opts,
     ''-appsDir'', soAppsDir opts,
     ''-dbFileName'', join [soAgentDir opts, ''reagent.db''],
     ''-logFile'', join [soAgentDir opts, ''reagent.log'']]"

definition endField :: "string \<Rightarrow> string list" where
  "endField cur = (if cur = [] then [] else [rev cur])"

fun splitFrom :: "bool \<Rightarrow> string \<Rightarrow> string \<Rightarrow> string list" where
  "splitFrom inQuote cur [] = endField cur"
| "splitFrom inQuote cur (r # rs) =
     (if r = CHR 0x22 then splitFrom (\<not> inQuote) cur rs
      else if r = CHR '' '' \<and> \<not> inQuote then endField cur @ splitFrom inQuote [] rs
      else splitFrom inQuote (r # cur) rs)"

definition splitCommandLine :: "string \<Rightarrow> string list" where
  "splitCommandLine s = splitFrom False [] s"

fun dirArgument :: "string list \<Rightarrow> string" where
  "dirArgument (f # g # args) = (if f = ''-agentDir'' then g else dirArgument (g # args))"
| "dirArgument _ = []"

definition agentDirFromImagePath :: "string \<Rightarrow> string" where
  "agentDirFromImagePath imagePath = dirArgument (splitCommandLine imagePath)"

section \<open>Restarts\<close>

text \<open>The channel of requests, of capacity one: None before the supervisor subscribes.\<close>

record Lifecycle =
  lcRequests :: "string option option"

definition Subscribe :: "unit \<Rightarrow> Lifecycle \<Rightarrow> Lifecycle" where
  "Subscribe _ s = (if lcRequests s = None then s\<lparr>lcRequests := Some None\<rparr> else s)"

definition Supervised :: "Lifecycle \<Rightarrow> bool" where
  "Supervised s \<longleftrightarrow> lcRequests s \<noteq> None"

definition RequestRestart :: "string \<Rightarrow> Lifecycle \<Rightarrow> err \<times> Lifecycle" where
  "RequestRestart reason s = (case lcRequests s of
     None \<Rightarrow> (Some (Msg ''no process supervisor available: the agent is not running as a service''), s)
   | Some None \<Rightarrow> (None, s\<lparr>lcRequests := Some (Some reason)\<rparr>)
   | Some (Some _) \<Rightarrow> (None, s))"

text \<open>The supervisor takes the pending request, if there is one.\<close>

definition receive :: "Lifecycle \<Rightarrow> string option \<times> Lifecycle" where
  "receive s = (case lcRequests s of Some (Some reason) \<Rightarrow> (Some reason, s\<lparr>lcRequests := Some None\<rparr>) | _ \<Rightarrow> (None, s))"

section \<open>The service\<close>

text \<open>
  What reaches the control loop of the service, in order, and how the loop ends: with an exit that makes the
  service manager start the agent again, or with a clean stop. The agent that was started is shut down first.
\<close>

datatype service_event = AgentStarted | StartFailed go_error | RestartRequested string | Interrogate | StopService | ShutdownService

datatype service_end = ExitForRestart string bool | Stopped bool \<comment> \<open>whether an agent was shut down\<close>

fun serviceLoop :: "bool \<Rightarrow> service_event list \<Rightarrow> service_end option" where
  "serviceLoop started [] = None"
| "serviceLoop started (ev # evs) = (case ev of
     AgentStarted \<Rightarrow> serviceLoop True evs
   | StartFailed e \<Rightarrow> Some (ExitForRestart ''agent startup failed'' False)
   | RestartRequested reason \<Rightarrow> Some (ExitForRestart reason started)
   | Interrogate \<Rightarrow> serviceLoop started evs
   | StopService \<Rightarrow> Some (Stopped started)
   | ShutdownService \<Rightarrow> Some (Stopped started))"

definition Execute :: "bool \<Rightarrow> service_event list \<Rightarrow> service_end option" where
  "Execute rollbackPerformed evs =
     (if rollbackPerformed then Some (ExitForRestart ''rolled back a failed agent update'' False) else serviceLoop False evs)"

section \<open>Properties\<close>

text \<open>An argument that is quoted as a whole, or has nothing that needs quotes.\<close>

definition quotedWell :: "(string \<Rightarrow> string) \<Rightarrow> string \<Rightarrow> bool" where
  "quotedWell escape s \<longleftrightarrow> s \<noteq> [] \<and> CHR 0x22 \<notin> set s \<and> (escape s = CHR 0x22 # s @ [CHR 0x22] \<or> escape s = s \<and> CHR '' '' \<notin> set s)"

lemma splitFrom_plain:
  "CHR 0x22 \<notin> set s \<Longrightarrow> inQuote \<or> CHR '' '' \<notin> set s \<Longrightarrow> splitFrom inQuote cur (s @ rest) = splitFrom inQuote (rev s @ cur) rest"
  by (induction s arbitrary: cur) auto

lemma splitFrom_escaped: "quotedWell escape s \<Longrightarrow> splitFrom False [] (escape s @ rest) = splitFrom False (rev s) rest"
  using splitFrom_plain [of s True "[]"] splitFrom_plain [of s False "[]"] by (auto simp: quotedWell_def)

text \<open>The arguments of a command line whose arguments are quoted well are read back.\<close>

theorem command_line_roundtrip:
  "list_all (quotedWell escape) args \<Longrightarrow> splitCommandLine (Join (CHR '' '') (map escape args)) = args"
proof (induction args rule: induct_list012)
  case 1
  show ?case by (simp add: splitCommandLine_def endField_def)
next
  case (2 x)
  then show ?case using splitFrom_escaped [of escape x "[]"] by (simp add: splitCommandLine_def endField_def quotedWell_def)
next
  case (3 x y zs)
  then show ?case using splitFrom_escaped [of escape x] by (simp add: splitCommandLine_def endField_def quotedWell_def)
qed

text \<open>So the uninstallation finds the directory that was installed, given that it is quoted well and that the program and the configuration have other names.\<close>

lemma agent_dir_recovered:
  assumes "list_all (quotedWell escape) (exe # serviceBinaryArgs join opts)" "exe \<noteq> ''-agentDir''" "join [soAgentDir opts, ''device.flock''] \<noteq> ''-agentDir''"
  shows "agentDirFromImagePath (Join (CHR '' '') (map escape (exe # serviceBinaryArgs join opts))) = soAgentDir opts"
  unfolding agentDirFromImagePath_def command_line_roundtrip [OF assms(1)] using assms(2,3) by (simp add: serviceBinaryArgs_def)

text \<open>An installation gives the service every directory: none of its paths is left to a default.\<close>

lemma install_flags_spec:
  assumes "parseServiceInstallFlags join args programData = Inr opts"
  shows "soConfigPath opts \<noteq> [] \<and> (soAgentDirSet opts \<longrightarrow> soAgentDir opts \<noteq> [])
    \<and> (\<not> soAgentDirSet opts \<longrightarrow> soAgentDir opts = join [programData, ''IronFlock'', ''Reagent''] \<and> programData \<noteq> [])"
  using assms by (auto simp: parseServiceInstallFlags_def Let_def split: sum.splits if_splits)

text \<open>The deprecated flag is accepted and changes nothing.\<close>

lemma start_flag_ignored:
  "parseServiceInstallFlags join [''-start'', ''-config'', c] p = parseServiceInstallFlags join [''-config'', c] p"
  by (simp add: parseServiceInstallFlags_def installFlags_def flagName_def splitEquals_def Let_def textFlag_def switchFlag_def)

text \<open>Requests for a restart that arrive while one is pending are covered by it: the supervisor gets the first of them, once.\<close>

lemma restarts_coalesce:
  assumes "Supervised s" "lcRequests s = Some None" "reasons \<noteq> []"
  shows "fst (receive (fold (\<lambda>r s. snd (RequestRestart r s)) reasons s)) = Some (hd reasons)
    \<and> fst (receive (snd (receive (fold (\<lambda>r s. snd (RequestRestart r s)) reasons s)))) = None"
proof -
  have "fold (\<lambda>r s. snd (RequestRestart r s)) rs s = s" if "lcRequests s = Some (Some x)" for rs x and s :: Lifecycle
    using that by (induction rs) (simp_all add: RequestRestart_def)
  with assms show ?thesis by (cases reasons) (simp_all add: RequestRestart_def receive_def)
qed

lemma unsupervised_refused: "\<not> Supervised s \<Longrightarrow> fst (RequestRestart r s) \<noteq> None \<and> snd (RequestRestart r s) = s"
  by (simp add: Supervised_def RequestRestart_def)

text \<open>The service stops cleanly only when it was told to.\<close>

lemma clean_stop_requested: "Execute rollback evs = Some (Stopped b) \<Longrightarrow> StopService \<in> set evs \<or> ShutdownService \<in> set evs"
proof -
  have "serviceLoop started evs = Some (Stopped b) \<Longrightarrow> StopService \<in> set evs \<or> ShutdownService \<in> set evs" for started
    by (induction started evs rule: serviceLoop.induct) (auto split: service_event.splits)
  then show "Execute rollback evs = Some (Stopped b) \<Longrightarrow> ?thesis" by (auto simp: Execute_def split: if_splits)
qed

end
