(* ===== verification/Files.thy ===== *)
theory Files
  imports AgentLog Prog
begin

text \<open>
  \<^verbatim>\<open>filesystem/files.go\<close>, \<^verbatim>\<open>filesystem/setup.go\<close>, \<^verbatim>\<open>filesystem/get.go\<close> and the reading of archives in
  \<^verbatim>\<open>filesystem/utils.go\<close>. An archive is what its reader delivers: entries, or an error at which the reading ends. Paths
  are those of Unix, as in \<open>AgentLog\<close>: joining them cleans them lexically.
\<close>

section \<open>Archives\<close>

datatype entry_type = TypeDir | TypeReg | TypeOther nat

record tar_entry =
  teName :: string
  teType :: entry_type
  teData :: string

type_synonym archive = "(go_error + tar_entry) list"

record FileHost = outside +
  fhFiles :: "(string \<times> string) list"

type_synonym 'a fileprog = "(FileHost, 'a) state"

text \<open>A file that was created and copied completely holds the data; its mode is set afterwards.\<close>

definition extractFile :: "string \<Rightarrow> string \<Rightarrow> err fileprog" where
  "extractFile target data = steps [
     askE ''os.Create'' [target],
     do {
       e \<leftarrow> askE ''io.Copy'' [target];
       case e of
         Some x \<Rightarrow> ret (Some x)
       | None \<Rightarrow> do { _ \<leftarrow> modify (\<lambda>s. s\<lparr>fhFiles := map_put target data (fhFiles s)\<rparr>); ret None } },
     askE ''file.Chmod'' [target]]"

definition extractEntry :: "string \<Rightarrow> tar_entry \<Rightarrow> err fileprog" where
  "extractEntry dest h = (let target = joinPath dest (teName h) in case teType h of
     TypeDir \<Rightarrow> askE ''os.MkdirAll'' [target]
   | TypeReg \<Rightarrow> extractFile target (teData h)
   | TypeOther n \<Rightarrow> ret (Some (Msg (''unknown type: '' @ itoa n @ '' in '' @ teName h))))"

definition extractItem :: "string \<Rightarrow> go_error + tar_entry \<Rightarrow> err fileprog" where
  "extractItem dest item = (case item of Inl e \<Rightarrow> ret (Some e) | Inr h \<Rightarrow> extractEntry dest h)"

definition ExtractTarGz :: "string \<Rightarrow> archive \<Rightarrow> string \<Rightarrow> err fileprog" where
  "ExtractTarGz source content dest = steps (askE ''os.Open'' [source] # askE ''gzip.NewReader'' [source] # map (extractItem dest) content)"

text \<open>The first regular file of the given name, in whatever directory.\<close>

fun findFile :: "string \<Rightarrow> archive \<Rightarrow> go_error + tar_entry" where
  "findFile fileToFind [] = Inl (Msg ''not found'')"
| "findFile fileToFind (Inl e # items) = Inl e"
| "findFile fileToFind (Inr h # items) =
     (if teType h = TypeReg \<and> Base (teName h) = fileToFind then Inr h else findFile fileToFind items)"

definition ReadFileInTgz :: "string \<Rightarrow> archive \<Rightarrow> string \<Rightarrow> (go_error + tar_entry) fileprog" where
  "ReadFileInTgz tarPath content fileToFind = do {
     e \<leftarrow> steps [askE ''os.Open'' [tarPath], askE ''gzip.NewReader'' [tarPath]];
     ret (case e of Some x \<Rightarrow> Inl x | None \<Rightarrow> findFile fileToFind content) }"

section \<open>Directories and remote files\<close>

text \<open>\<open>rpFlag\<close> of a failed call: the error says that the directory exists.\<close>

definition initDirectory :: "string \<Rightarrow> ('z outside_scheme, err) state" where
  "initDirectory dir = do {
     r \<leftarrow> ask ''os.MkdirAll'' [dir];
     ret (if rpErr r \<noteq> None \<and> \<not> rpFlag r then rpErr r else None) }"

definition InitDirectories :: "string \<Rightarrow> string \<Rightarrow> string \<Rightarrow> string \<Rightarrow> string \<Rightarrow> ('z outside_scheme, err) state" where
  "InitDirectories apps build compose shared downloads = steps (map initDirectory [apps, build, compose, shared, downloads])"

text \<open>
  A certificate that is not valid yet is taken for a clock that is not set: the request is made again, without a limit. The
  rounds are an argument; None: they were not enough.
\<close>

fun GetRemoteFileWithStatus :: "nat \<Rightarrow> string \<Rightarrow> (go_error + string \<times> int) option fileprog" where
  "GetRemoteFileWithStatus 0 url = ret None"
| "GetRemoteFileWithStatus (Suc rounds) url = do {
     resp \<leftarrow> ask ''http.Get'' [url];
     case rpErr resp of
       None \<Rightarrow> ret (Some (Inr (rpStr resp, rpNum resp)))
     | Some e \<Rightarrow>
         if Contains (Error e) ''certificate has expired or is not yet valid''
         then do { _ \<leftarrow> ask ''time.Sleep'' [''1s'']; GetRemoteFileWithStatus rounds url }
         else ret (Some (Inl e)) }"

section \<open>Where an archive is written\<close>

definition ordinary :: "string \<Rightarrow> bool" where
  "ordinary c \<longleftrightarrow> c \<noteq> [] \<and> c \<noteq> ''.'' \<and> c \<noteq> ''..'' \<and> CHR ''/'' \<notin> set c"

text \<open>A name whose elements never lead above the directory it is relative to.\<close>

fun staysInside :: "nat \<Rightarrow> string list \<Rightarrow> bool" where
  "staysInside depth [] = True"
| "staysInside depth (c # cs) =
     (if c = [] \<or> c = ''.'' then staysInside depth cs
      else if c = ''..'' then depth > 0 \<and> staysInside (depth - 1) cs
      else staysInside (Suc depth) cs)"

definition localName :: "string \<Rightarrow> bool" where
  "localName name \<longleftrightarrow> staysInside 0 (Split (CHR ''/'') name)"

definition under :: "string \<Rightarrow> string \<Rightarrow> bool" where
  "under dest p \<longleftrightarrow> p = dest \<or> HasPrefix p (dest @ ''/'')"

lemma cleaned_inside:
  "staysInside (length inner) cs \<Longrightarrow> list_all (\<lambda>c. c \<noteq> ''..'') inner \<Longrightarrow> \<exists>rest. foldl (cleanStep True) (inner @ outer) cs = rest @ outer"
proof (induction cs arbitrary: inner)
  case (Cons c cs)
  show ?case
  proof (cases "c = ''..''")
    case True
    then obtain t inner' where inner: "inner = t # inner'" using Cons.prems(1) by (cases inner) auto
    with True Cons.prems Cons.IH [of inner'] show ?thesis by simp
  qed (use Cons.prems Cons.IH [of inner] Cons.IH [of "c # inner"] in auto)
qed simp

lemma cleaned_ordinary: "list_all ordinary ds \<Longrightarrow> foldl (cleanStep rooted) sofar ds = rev ds @ sofar"
  by (induction ds arbitrary: sofar) (auto simp: ordinary_def)

lemma split_aux_append: "split_aux sep acc (xs @ sep # ys) = split_aux sep acc xs @ Split sep ys"
  by (induction xs arbitrary: acc) (auto simp: Split_def)

lemma Split_append: "Split sep (xs @ sep # ys) = Split sep xs @ Split sep ys"
  using split_aux_append by (simp add: Split_def)

lemma Split_Join: "ds \<noteq> [] \<Longrightarrow> list_all (\<lambda>d. sep \<notin> set d) ds \<Longrightarrow> Split sep (Join sep ds) = ds"
  by (induction sep ds rule: Join.induct) (auto simp: Split_no_sep Split_Cons_sep)

lemma Join_append: "xs \<noteq> [] \<Longrightarrow> ys \<noteq> [] \<Longrightarrow> Join sep (xs @ ys) = Join sep xs @ sep # Join sep ys"
proof (induction xs)
  case (Cons x xs)
  then show ?case by (cases "xs = []") (simp_all add: Join_Cons)
qed simp

lemma joinPath_under:
  assumes "ds \<noteq> []" "list_all ordinary ds" "dest = CHR ''/'' # Join (CHR ''/'') ds" "localName name"
  shows "under dest (joinPath dest name)"
proof -
  let ?S = "Split (CHR ''/'')"
  have parts: "?S dest = [] # ds"
    using assms(1,2) Split_Cons_sep [of "CHR ''/''" "[]" "Join (CHR ''/'') ds"] by (simp add: assms(3) Split_Join ordinary_def list_all_iff)
  have rooted: "HasPrefix (dest @ t) ''/''" for t by (simp add: HasPrefix_iff assms(3))
  have stack: "foldl (cleanStep True) [] (?S dest) = rev ds" by (simp add: parts cleaned_ordinary [OF assms(2)])
  obtain rest where rest: "foldl (cleanStep True) (rev ds) (?S name) = rev rest @ rev ds"
    using cleaned_inside [of "[]" "?S name" "rev ds"] assms(4) by (auto simp: localName_def) (metis rev_rev_ident)
  have "Clean dest = dest"
    using rooted [of "[]"] stack by (simp add: Clean_def Let_def) (simp add: assms(3))
  moreover have "Clean (dest @ CHR ''/'' # name) = CHR ''/'' # Join (CHR ''/'') (ds @ rest)"
    using rooted stack rest by (simp add: Clean_def Let_def Split_append)
  moreover have "under dest (CHR ''/'' # Join (CHR ''/'') (ds @ rest))"
    using assms(1) by (cases "rest = []") (auto simp: under_def assms(3) HasPrefix_iff Join_append)
  ultimately show ?thesis using assms(3) by (auto simp: joinPath_def under_def)
qed

text \<open>What is in the files after a successful extraction, and which files can change in any.\<close>

definition itemFiles :: "string \<Rightarrow> go_error + tar_entry \<Rightarrow> (string \<times> string) list" where
  "itemFiles dest item = (case item of Inl _ \<Rightarrow> [] | Inr h \<Rightarrow> if teType h = TypeReg then [(joinPath dest (teName h), teData h)] else [])"

definition filled :: "string \<Rightarrow> archive \<Rightarrow> FileHost \<Rightarrow> err \<Rightarrow> FileHost \<Rightarrow> bool" where
  "filled dest content s e s' \<longleftrightarrow>
     (e = None \<longrightarrow> map_of (fhFiles s') = map_of (fhFiles s) ++ map_of (rev (concat (map (itemFiles dest) content))))
   \<and> (\<forall>p. map_of (fhFiles s') p \<noteq> map_of (fhFiles s) p \<longrightarrow> p \<in> fst ` set (concat (map (itemFiles dest) content)))"

lemma item_filled: "wp (extractItem dest item) (filled dest [item] s) s"
  by (auto simp: extractItem_def extractEntry_def extractFile_def wp_simps wp_steps_Cons filled_def itemFiles_def Let_def
      simp del: steps.simps split: sum.split entry_type.split option.split)

lemma filled_trans: "filled dest [item] s None s1 \<Longrightarrow> filled dest content s1 e s2 \<Longrightarrow> filled dest (item # content) s e s2"
  unfolding filled_def by (simp add: map_add_assoc image_Un) metis

lemma filled_stopped: "filled dest [item] s (Some x) s1 \<Longrightarrow> filled dest (item # content) s (Some x) s1"
  unfolding filled_def by auto

lemma items_filled: "wp (steps (map (extractItem dest) content)) (filled dest content s) s"
proof (induction content arbitrary: s)
  case Nil
  show ?case by (simp add: wp_simps filled_def)
next
  case (Cons item content)
  have "wp (case e of Some x \<Rightarrow> ret (Some x) | None \<Rightarrow> steps (map (extractItem dest) content)) (filled dest (item # content) s) s1"
    if "filled dest [item] s e s1" for e s1
    using that by (cases e) (auto simp: wp_simps intro: filled_stopped filled_trans wp_mono [OF Cons.IH])
  then show ?case using wp_mono [OF item_filled] by (simp add: wp_simps wp_bind)
qed

lemma ExtractTarGz_filled: "wp (ExtractTarGz source content dest) (filled dest content s) s"
proof -
  have opened: "wp (steps (map (extractItem dest) content)) (filled dest content s) (s\<lparr>oTrace := t\<rparr>)" for t
    by (rule wp_mono [OF items_filled [of dest content "s\<lparr>oTrace := t\<rparr>"]]) (simp add: filled_def)
  have "filled dest content s (Some x) (s\<lparr>oTrace := t\<rparr>)" for x t by (simp add: filled_def)
  then show ?thesis
    unfolding ExtractTarGz_def by (auto simp: wp_simps wp_steps_Cons simp del: steps.simps split: option.split intro: opened)
qed

text \<open>
  Extracting an archive without an error leaves in every file the data of the last regular entry with its path, and the
  other files as they were; however it ends, names that stay inside their directory are
  written below the destination only.
\<close>

theorem archive_extracted:
  assumes "run_state (ExtractTarGz source content dest) s = (e, s')"
    and "ds \<noteq> []" "list_all ordinary ds" "dest = CHR ''/'' # Join (CHR ''/'') ds"
  shows "(e = None \<longrightarrow> map_of (fhFiles s') = map_of (fhFiles s) ++ map_of (rev (concat (map (itemFiles dest) content))))
    \<and> (\<forall>p. map_of (fhFiles s') p \<noteq> map_of (fhFiles s) p \<and> list_all (case_sum (\<lambda>_. True) (\<lambda>h. localName (teName h))) content \<longrightarrow> under dest p)"
proof -
  have all: "filled dest content s e s'" by (rule wp_runD [OF ExtractTarGz_filled assms(1)])
  have "under dest p" if "p \<in> fst ` set (concat (map (itemFiles dest) content))" "list_all (case_sum (\<lambda>_. True) (\<lambda>h. localName (teName h))) content" for p
    using that joinPath_under [OF assms(2-4)] by (auto simp: itemFiles_def list_all_iff split: sum.splits if_splits)
  with all show ?thesis unfolding filled_def by blast
qed

text \<open>A name with leading dots is filled wherever it points: the names of the entries are not checked.\<close>

definition file_host :: FileHost where
  "file_host = \<lparr>oTrace = [], oExt = (\<lambda>_ _. ok_reply), fhFiles = []\<rparr>"

lemma archive_escapes:
  "fhFiles (snd (run_state (ExtractTarGz ''/apps/build/app.tgz'' [Inr \<lparr>teName = ''../../../etc/cron.d/x'', teType = TypeReg, teData = ''job''\<rparr>]
     ''/apps/build/app'') file_host)) = [(''/etc/cron.d/x'', ''job'')]"
  by code_simp

lemma nested_entry_extracted:
  "fhFiles (snd (run_state (ExtractTarGz ''/apps/build/app.tgz'' [Inr \<lparr>teName = ''./src/../main.py'', teType = TypeReg, teData = ''pass''\<rparr>]
     ''/apps/build/app'') file_host)) = [(''/apps/build/app/main.py'', ''pass'')]"
  by code_simp

text \<open>A request that is answered is answered the same with more rounds.\<close>

lemma remote_file_enough:
  "run_state (GetRemoteFileWithStatus n url) s = (Some r, s') \<Longrightarrow> n \<le> m \<Longrightarrow> run_state (GetRemoteFileWithStatus m url) s = (Some r, s')"
proof (induction n arbitrary: m s)
  case (Suc n)
  then obtain m' where "m = Suc m'" "n \<le> m'" by (cases m) auto
  with Suc show ?case by (auto simp: run_ops split: option.splits if_splits)
qed (simp add: run_ops)

end
