(* ===== verification/WindowsService.thy ===== *)
theory WindowsService
  imports ServiceCommand Files EnvVars
begin

text \<open>
  \<^verbatim>\<open>servicecmd_windows.go\<close>: installing, removing and controlling the service of the agent on Windows. The service
  manager, the registry, the commands of the system and the files are the outside; the pinned root certificates
  and the joining of paths are fields of the state.
\<close>

section \<open>Data\<close>

record EmbeddedRoot =
  erFileName :: string
  erCommonName :: string
  erPEM :: string

record ServiceHost = outside +
  shJoin :: "string list \<Rightarrow> string"
  shRoots :: "EmbeddedRoot list"

type_synonym 'a wsprog = "(ServiceHost, 'a) state"

definition wrapping :: "string \<Rightarrow> err wsprog \<Rightarrow> err wsprog" where
  "wrapping msg m = do { e \<leftarrow> m; ret (map_option (Wrap msg) e) }"

section \<open>Commands and files\<close>

definition runCommand :: "string \<Rightarrow> string list \<Rightarrow> err wsprog" where
  "runCommand name args = do {
     r \<leftarrow> ask ''exec'' (name # args);
     ret (map_option (\<lambda>e. Msg (name @ '' '' @ Join (CHR '' '') args @ '': '' @ Error e @ '': '' @ TrimSpace (rpStr r))) (rpErr r)) }"

definition certImportArgs :: "string \<Rightarrow> string \<Rightarrow> string list" where
  "certImportArgs store certPath = [''-addstore'', ''-f'', store, certPath]"

definition certDeleteArgs :: "string \<Rightarrow> string \<Rightarrow> string list" where
  "certDeleteArgs store name = [''-delstore'', store, name]"

definition exclusionCmd :: "string \<Rightarrow> string \<Rightarrow> string" where
  "exclusionCmd verb frpcPath = verb @ ''-MpPreference -ExclusionPath '' @ [CHR 0x27] @ frpcPath @ [CHR 0x27]"

definition trustStores :: "string list" where
  "trustStores = [''Root'', ''TrustedPublisher'']"

definition installRoot :: "string \<Rightarrow> EmbeddedRoot \<Rightarrow> err wsprog" where
  "installRoot certPath r = do {
     e \<leftarrow> askE ''os.WriteFile'' [certPath, erPEM r];
     if e \<noteq> None then ret None
     else steps (map (\<lambda>store. ignore (runCommand ''certutil'' (certImportArgs store certPath))) trustStores) }"

definition installTrustAnchors :: "string \<Rightarrow> err wsprog" where
  "installTrustAnchors agentDir = do {
     s \<leftarrow> State_Monad.get;
     steps (map (\<lambda>r. installRoot (shJoin s [agentDir, erFileName r]) r) (shRoots s)) }"

definition removeTrustAnchors :: "string \<Rightarrow> err wsprog" where
  "removeTrustAnchors agentDir = do {
     s \<leftarrow> State_Monad.get;
     steps (map (\<lambda>r. steps [
         steps (map (\<lambda>store. ignore (runCommand ''certutil'' (certDeleteArgs store (erCommonName r)))) trustStores),
         ignore (askE ''os.Remove'' [shJoin s [agentDir, erFileName r]])]) (shRoots s)) }"

text \<open>The copy goes to a temporary name first; the error of the copy counts before that of closing.\<close>

definition copyFileIfDifferent :: "string \<Rightarrow> string \<Rightarrow> err wsprog" where
  "copyFileIfDifferent src dst = do {
     srcAbs \<leftarrow> ask ''filepath.Abs'' [src];
     if rpErr srcAbs \<noteq> None then ret (rpErr srcAbs) else do {
     dstAbs \<leftarrow> ask ''filepath.Abs'' [dst];
     if rpErr dstAbs \<noteq> None then ret (rpErr dstAbs)
     else if EqualFold (rpStr srcAbs) (rpStr dstAbs) then ret None
     else steps [
       askE ''os.Open'' [src],
       askE ''os.OpenFile'' [dst @ ''.tmp''],
       do {
         copied \<leftarrow> askE ''io.Copy'' [dst @ ''.tmp''];
         closed \<leftarrow> askE ''destination.Close'' [dst @ ''.tmp''];
         if copied = None \<and> closed = None then ret None
         else do { _ \<leftarrow> askE ''os.Remove'' [dst @ ''.tmp'']; ret (if copied \<noteq> None then copied else closed) } },
       askE ''os.Rename'' [dst @ ''.tmp'', dst]] } }"

definition setServiceProxy :: "string \<Rightarrow> err wsprog" where
  "setServiceProxy proxy = steps [
     askE ''registry.OpenKey'' [''reagent''],
     askE ''SetStringsValue'' [''Environment'', ''HTTP_PROXY='' @ proxy, ''HTTPS_PROXY='' @ proxy, ''NO_PROXY=localhost,127.0.0.1'']]"

text \<open>The reply to the search lists the directories of the matches.\<close>

definition findExistingAgentDirs :: "string list wsprog" where
  "findExistingAgentDirs = do {
     drive \<leftarrow> ask ''os.Getenv'' [''SystemDrive''];
     r \<leftarrow> ask ''filepath.Glob'' [if rpStr drive = [] then ''C:'' else rpStr drive];
     ret (if rpErr r \<noteq> None then [] else rpLines r) }"

definition migrationAbortMessage :: "string list \<Rightarrow> string \<Rightarrow> string" where
  "migrationAbortMessage existingDirs defaultAgentDir =
     (let nl = [CHR 0x0A]; q = [CHR 0x22] in
      ''Found data from a previous agent installation:'' @ nl @ concat (map (\<lambda>dir. ''  '' @ dir @ nl) existingDirs)
      @ nl @ ''Re-run with an explicit -agentDir to choose:'' @ nl
      @ ''  keep using the existing device data:  -agentDir '' @ q @ hd existingDirs @ q @ nl
      @ ''  start fresh (existing app data stays behind):  -agentDir '' @ q @ defaultAgentDir @ q @ nl)"

section \<open>Installing\<close>

definition requireElevation :: "err wsprog" where
  "requireElevation = do {
     r \<leftarrow> ask ''IsElevated'' [];
     ret (if rpFlag r then None else Some (Msg ''this command must be run from an elevated (Administrator) prompt'')) }"

definition refuseMigration :: "serviceInstallOptions \<Rightarrow> err wsprog" where
  "refuseMigration opts =
     (if soAgentDirSet opts then ret None
      else do {
        existingDirs \<leftarrow> findExistingAgentDirs;
        ret (if existingDirs = [] then None else Some (Msg (migrationAbortMessage existingDirs (soAgentDir opts)))) })"

text \<open>\<^verbatim>\<open>installCliArgs\<close>: the directories are derived as from the flags of the agent.\<close>

definition installCliArgs :: "serviceInstallOptions \<Rightarrow> err wsprog" where
  "installCliArgs opts = InitDirectories (soAppsDir opts) (soAppsDir opts @ ''/build'') (soAppsDir opts @ ''/compose'') (soAppsDir opts @ ''/shared'')
     (soAgentDir opts @ ''/downloads'')"

definition restrictArgs :: "string \<Rightarrow> string list" where
  "restrictArgs agentDir = [agentDir, ''/inheritance:r'', ''/grant'', ''*S-1-5-18:(OI)(CI)F'', ''/grant'', ''*S-1-5-32-544:(OI)(CI)F'']"

definition prepareInstall :: "serviceInstallOptions \<Rightarrow> err wsprog" where
  "prepareInstall opts = steps [
     refuseMigration opts,
     wrapping ''cannot read the .flock config file'' (askE ''os.Stat'' [soConfigPath opts]),
     wrapping ''failed to create agent directories'' (installCliArgs opts),
     wrapping (''failed to restrict permissions on '' @ soAgentDir opts) (runCommand ''icacls'' (restrictArgs (soAgentDir opts)))]"

definition copyInstall :: "serviceInstallOptions \<Rightarrow> err wsprog" where
  "copyInstall opts = do {
     s \<leftarrow> State_Monad.get;
     let repairCmd = shJoin s [soAgentDir opts, ''repair.cmd''];
     steps [
       wrapping (''failed to grant app-data permissions on '' @ soAppsDir opts) (runCommand ''icacls'' [soAppsDir opts, ''/grant'', ''*S-1-5-32-545:(OI)(CI)M'']),
       do {
         exe \<leftarrow> ask ''os.Executable'' [];
         case rpErr exe of
           Some e \<Rightarrow> ret (Some e)
         | None \<Rightarrow> wrapping ''failed to install the agent binary'' (copyFileIfDifferent (rpStr exe) (shJoin s [soAgentDir opts, ''reagent.exe''])) },
       wrapping ''failed to install the .flock config'' (copyFileIfDifferent (soConfigPath opts) (shJoin s [soAgentDir opts, ''device.flock''])),
       wrapping ''failed to write repair.cmd'' (askE ''os.WriteFile'' [repairCmd, soAgentDir opts])] }"

definition createService :: "serviceInstallOptions \<Rightarrow> err wsprog" where
  "createService opts = do {
     s \<leftarrow> State_Monad.get;
     connected \<leftarrow> askE ''mgr.Connect'' [];
     case connected of
       Some e \<Rightarrow> ret (Some (Wrap ''failed to connect to the service manager'' e))
     | None \<Rightarrow> do {
         existing \<leftarrow> askE ''mgr.OpenService'' [''reagent''];
         if existing = None then ret (Some (Msg ''service is already installed''))
         else wrapping ''failed to create the service''
                (askE ''mgr.CreateService'' (shJoin s [soAgentDir opts, ''reagent.exe''] # serviceBinaryArgs (shJoin s) opts)) } }"

text \<open>
  Waiting for the service: one reply per poll, with the state as text and the exit code; the clock is read after each. The
  polls are an argument; the deadline passes when they are used up.
\<close>

fun waitForRunning :: "nat \<Rightarrow> err wsprog" where
  "waitForRunning rounds = do {
     status \<leftarrow> ask ''service.Query'' [];
     case rpErr status of
       Some e \<Rightarrow> ret (Some (Wrap ''could not query the service after starting it'' e))
     | None \<Rightarrow>
         if rpStr status = ''running'' then ret None
         else if rpStr status = ''stopped'' then ret (Some (Msg (''the service stopped immediately after starting (exit code '' @ itoa_int (rpNum status) @ '')'')))
         else (case rounds of
                 0 \<Rightarrow> ret (Some (Msg ''the service did not report running within 30s''))
               | Suc n \<Rightarrow> do { _ \<leftarrow> ask ''time.Sleep'' [''1s'']; waitForRunning n }) }"

text \<open>The service exists: what fails from here on is a warning, but for the proxy and the start.\<close>

definition finishInstall :: "nat \<Rightarrow> serviceInstallOptions \<Rightarrow> err wsprog" where
  "finishInstall rounds opts = do {
     s \<leftarrow> State_Monad.get;
     steps [
       ignore (askE ''SetRecoveryActions'' [''5s'', ''30s'', ''120s'']),
       ignore (askE ''SetRecoveryActionsOnNonCrashFailures'' []),
       ignore (askE ''eventlog.InstallAsEventCreate'' []),
       ignore (runCommand ''schtasks'' [''/Create'', ''/F'', ''/TN'', ''IronFlock Agent Repair'', ''/SC'', ''ONSTART'', ''/RU'', ''SYSTEM'', ''/TR'',
         [CHR 0x22] @ shJoin s [soAgentDir opts, ''repair.cmd''] @ [CHR 0x22]]),
       (if soProxy opts \<noteq> [] then wrapping ''failed to set the service proxy environment'' (setServiceProxy (soProxy opts)) else ret None),
       installTrustAnchors (soAgentDir opts),
       ignore (runCommand ''powershell'' [''-NonInteractive'', ''-Command'', exclusionCmd ''Add'' (shJoin s [soAgentDir opts, ''frpc.exe''])]),
       (if soStartNow opts
        then steps [wrapping ''installed, but failed to start the service'' (askE ''service.Start'' []), ignore (waitForRunning rounds)]
        else ret None)] }"

definition serviceInstall :: "nat \<Rightarrow> string list \<Rightarrow> err wsprog" where
  "serviceInstall rounds args = do {
     e \<leftarrow> requireElevation;
     case e of
       Some x \<Rightarrow> ret (Some x)
     | None \<Rightarrow> do {
         s \<leftarrow> State_Monad.get;
         programData \<leftarrow> ask ''os.Getenv'' [''ProgramData''];
         case parseServiceInstallFlags (shJoin s) args (rpStr programData) of
           Inl x \<Rightarrow> ret (Some x)
         | Inr opts \<Rightarrow> steps [prepareInstall opts, copyInstall opts, createService opts, finishInstall rounds opts] } }"

section \<open>Removing and controlling\<close>

definition serviceControl :: "err wsprog \<Rightarrow> err wsprog" where
  "serviceControl action = steps [
     requireElevation,
     wrapping ''failed to connect to the service manager'' (askE ''mgr.Connect'' []),
     do { e \<leftarrow> askE ''mgr.OpenService'' [''reagent'']; ret (map_option (\<lambda>_. Msg ''service is not installed'') e) },
     action]"

text \<open>The polls for the end of the service, at most thirty; the last state and error.\<close>

fun awaitStop :: "nat \<Rightarrow> string \<Rightarrow> (err \<times> string) wsprog" where
  "awaitStop 0 st = ret (None, st)"
| "awaitStop (Suc n) st =
     (if st = ''stopped'' then ret (None, st)
      else do {
        _ \<leftarrow> ask ''time.Sleep'' [''1s''];
        status \<leftarrow> ask ''service.Query'' [];
        if rpErr status \<noteq> None then ret (rpErr status, rpStr status) else awaitStop n (rpStr status) })"

definition serviceStop :: "err wsprog" where
  "serviceStop = serviceControl (do {
     status \<leftarrow> ask ''service.Control'' [''stop''];
     if rpErr status \<noteq> None then ret (rpErr status)
     else do {
       r \<leftarrow> awaitStop 30 (rpStr status);
       ret (if fst r \<noteq> None then fst r else if snd r \<noteq> ''stopped'' then Some (Msg ''service did not stop in time'') else None) } })"

definition removeService :: "string \<Rightarrow> err wsprog" where
  "removeService agentDir = do {
     s \<leftarrow> State_Monad.get;
     steps [
       wrapping ''failed to delete the service'' (askE ''service.Delete'' []),
       ignore (askE ''eventlog.Remove'' []),
       ignore (runCommand ''schtasks'' [''/Delete'', ''/F'', ''/TN'', ''IronFlock Agent Repair'']),
       (if agentDir \<noteq> [] then steps [
          ignore (runCommand ''powershell'' [''-NonInteractive'', ''-Command'', exclusionCmd ''Remove'' (shJoin s [agentDir, ''frpc.exe''])]),
          removeTrustAnchors agentDir] else ret None)] }"

definition serviceUninstall :: "err wsprog" where
  "serviceUninstall = serviceControl (do {
     cfg \<leftarrow> ask ''service.Config'' [];
     let agentDir = (if rpErr cfg = None then agentDirFromImagePath (rpStr cfg) else []);
     status \<leftarrow> ask ''service.Control'' [''stop''];
     _ \<leftarrow> (if rpErr status = None then awaitStop 30 (rpStr status) else ret (None, []));
     removeService agentDir })"

definition serviceStatus :: "err wsprog" where
  "serviceStatus = serviceControl (askE ''service.Query'' [])"

definition usage :: "int" where
  "usage = 2"

definition runServiceCommand :: "nat \<Rightarrow> string list \<Rightarrow> int wsprog" where
  "runServiceCommand rounds args = (case args of
     [] \<Rightarrow> ret usage
   | cmd # rest \<Rightarrow>
       (let exitCode = (\<lambda>m. do { e \<leftarrow> m; ret (if e \<noteq> None then 1 else 0) }) in
        if cmd = ''install'' then exitCode (serviceInstall rounds rest)
        else if cmd = ''uninstall'' then exitCode serviceUninstall
        else if cmd = ''start'' then exitCode (serviceControl (askE ''service.Start'' []))
        else if cmd = ''stop'' then exitCode serviceStop
        else if cmd = ''status'' then exitCode serviceStatus
        else ret usage))"

section \<open>The order of an installation\<close>

text \<open>Calls whose names avoid a set, and answers that do not change meanwhile.\<close>

definition avoiding :: "string set \<Rightarrow> ServiceHost \<Rightarrow> ServiceHost \<Rightarrow> bool" where
  "avoiding N s s' \<longleftrightarrow> oExt s' = oExt s \<and> (\<exists>calls. oTrace s' = oTrace s @ calls \<and> list_all (\<lambda>c. case c of Ext name args \<Rightarrow> name \<notin> N) calls)"

interpretation avd: state_relation "avoiding N" for N
proof unfold_locales
  show "avoiding N s s" for s by (simp add: avoiding_def)
  show "avoiding N s u" if "avoiding N s t" "avoiding N t u" for s t u
    using that by (fastforce simp: avoiding_def)
qed

lemma avoiding_ask: "name \<notin> N \<Longrightarrow> keeps (avoiding N) (ask name args)" "name \<notin> N \<Longrightarrow> keeps (avoiding N) (askE name args)"
  by (simp_all add: keeps_wp wp_simps avoiding_def)

lemma avoiding_run: "''exec'' \<notin> N \<Longrightarrow> keeps (avoiding N) (runCommand name args)"
  unfolding runCommand_def by (intro avd.keeps_basic avoiding_ask)

lemma avoiding_wrapping: "keeps (avoiding N) m \<Longrightarrow> keeps (avoiding N) (wrapping msg m)"
  unfolding wrapping_def by (intro avd.keeps_basic)

lemmas avoiding_intros = avd.keeps_basic avoiding_wrapping avoiding_run avoiding_ask

definition copying :: "string set" where
  "copying = {''os.OpenFile'', ''os.Rename'', ''mgr.CreateService''}"

definition checksBefore :: "serviceInstallOptions \<Rightarrow> err wsprog list" where
  "checksBefore opts = [
     refuseMigration opts,
     wrapping ''cannot read the .flock config file'' (askE ''os.Stat'' [soConfigPath opts]),
     wrapping ''failed to create agent directories'' (installCliArgs opts)]"

lemma checks_avoid: "keeps (avoiding copying) (steps (checksBefore opts))"
proof -
  have "keeps (avoiding copying) (steps (map initDirectory dirs))" for dirs
    unfolding initDirectory_def by (rule avd.keeps_steps) (auto intro!: avoiding_intros; simp add: copying_def)
  then have "keeps (avoiding copying) (installCliArgs opts)" by (simp only: installCliArgs_def InitDirectories_def)
  then show ?thesis
    unfolding checksBefore_def refuseMigration_def findExistingAgentDirs_def by (intro avoiding_intros; simp add: copying_def)
qed

lemma anything_avoids_nothing:
  "keeps (avoiding {}) (copyInstall opts)" "keeps (avoiding {}) (createService opts)" "keeps (avoiding {}) (finishInstall rounds opts)"
proof -
  have copy: "keeps (avoiding {}) (copyFileIfDifferent a b)" for a b
    unfolding copyFileIfDifferent_def by (intro avoiding_intros; simp)
  show "keeps (avoiding {}) (copyInstall opts)" "keeps (avoiding {}) (createService opts)"
    unfolding copyInstall_def createService_def Let_def by (intro avoiding_intros copy; simp)+
  have "keeps (avoiding {}) (waitForRunning n)" for n
  proof (induction n)
    case 0
    show ?case by (subst waitForRunning.simps) (simp only: nat.case, intro avoiding_intros; simp)
  next
    case (Suc n)
    show ?case by (subst waitForRunning.simps) (simp only: nat.case, intro avoiding_intros Suc; simp)
  qed
  moreover have "keeps (avoiding {}) (installRoot p r)" for p r
    unfolding installRoot_def trustStores_def list.map by (intro avoiding_intros; simp)
  then have "keeps (avoiding {}) (installTrustAnchors dir)" for dir
    unfolding installTrustAnchors_def by (intro avoiding_intros avd.keeps_steps) auto
  ultimately show "keeps (avoiding {}) (finishInstall rounds opts)"
    unfolding finishInstall_def setServiceProxy_def by (intro avoiding_intros; simp)
qed

lemma exec_copies_nothing: "''exec'' \<notin> copying"
  by (simp add: copying_def)

definition restriction :: "string \<Rightarrow> ext_call" where
  "restriction agentDir = Ext ''exec'' (''icacls'' # restrictArgs agentDir)"

text \<open>The preparation copies nothing, and it ends well only when the directory was restricted.\<close>

definition restricted :: "string \<Rightarrow> ServiceHost \<Rightarrow> err \<Rightarrow> ServiceHost \<Rightarrow> bool" where
  "restricted agentDir s e s' \<longleftrightarrow> avoiding copying s s'
     \<and> (e = None \<longrightarrow> (\<exists>pre. oTrace s' = pre @ [restriction agentDir] \<and> (\<exists>c. pre = oTrace s @ c) \<and> rpErr (oExt s pre (restriction agentDir)) = None))"

lemma prepare_restricted: "wp (prepareInstall opts) (restricted (soAgentDir opts) s) s"
proof -
  let ?restrict = "wrapping (''failed to restrict permissions on '' @ soAgentDir opts) (runCommand ''icacls'' (restrictArgs (soAgentDir opts)))"
  have split: "prepareInstall opts = steps (checksBefore opts @ [?restrict])" by (simp add: prepareInstall_def checksBefore_def)
  have restrict: "wp (steps [?restrict]) (restricted (soAgentDir opts) s) s1" if "avoiding copying s s1" for s1
  proof -
    have "avoiding copying s (s1\<lparr>oTrace := oTrace s1 @ [restriction (soAgentDir opts)]\<rparr>)"
      using that exec_copies_nothing by (auto simp: avoiding_def restriction_def)
    moreover have "oExt s1 = oExt s" "\<exists>c. oTrace s1 = oTrace s @ c" using that by (auto simp: avoiding_def)
    ultimately show ?thesis
      by (auto simp: wrapping_def runCommand_def wp_simps restricted_def restriction_def split: option.split)
  qed
  obtain e1 s1 where checks: "run_state (steps (checksBefore opts)) s = (e1, s1)" by force
  then have s1: "avoiding copying s s1" by (rule keepsD [OF checks_avoid])
  show ?thesis
  proof (rule wp_runI)
    fix e s' assume "run_state (prepareInstall opts) s = (e, s')"
    then have "run_state (steps (checksBefore opts @ [?restrict])) s = (e, s')" by (simp only: split)
    then have run: "(case e1 of None \<Rightarrow> run_state (steps [?restrict]) s1 | Some x \<Rightarrow> (Some x, s1)) = (e, s')"
      unfolding run_steps_append checks by (simp only: prod.case)
    show "restricted (soAgentDir opts) s e s'"
    proof (cases e1)
      case None
      then show ?thesis using run wp_runD [OF restrict [OF s1]] by (simp del: steps.simps)
    next
      case (Some x)
      then show ?thesis using run s1 by (auto simp: restricted_def)
    qed
  qed
qed

lemma rest_avoids_nothing: "keeps (avoiding {}) (steps [copyInstall opts, createService opts, finishInstall rounds opts])"
  by (intro avd.keeps_basic anything_avoids_nothing)

text \<open>
  The secret of the device and the binary that runs as the system are copied into the directory only after
  the directory was closed to other users: every copy and the creation of the service come after the
  call that restricts it, and that call succeeded.
\<close>

theorem secret_copied_after_restriction:
  assumes "run_state (serviceInstall rounds args) s = (e, s')"
  shows "\<exists>before after. oTrace s' = oTrace s @ before @ after \<and> list_all (\<lambda>c. case c of Ext name as \<Rightarrow> name \<notin> copying) before
    \<and> (after \<noteq> [] \<longrightarrow> (\<exists>pre opts programData. before = pre @ [restriction (soAgentDir opts)] \<and> rpErr (oExt s (oTrace s @ pre) (restriction (soAgentDir opts))) = None
         \<and> parseServiceInstallFlags (shJoin s) args programData = Inr opts))"
proof -
  let ?s0 = "s\<lparr>oTrace := oTrace s @ [Ext ''IsElevated'' []]\<rparr>"
  let ?s1 = "?s0\<lparr>oTrace := oTrace ?s0 @ [Ext ''os.Getenv'' [''ProgramData'']]\<rparr>"
  let ?data = "rpStr (oExt s (oTrace ?s0) (Ext ''os.Getenv'' [''ProgramData'']))"
  have early: ?thesis if "avoiding copying s s'" using that by (force simp: avoiding_def)
  have s0: "avoiding copying s ?s0" and s1: "avoiding copying s ?s1" by (simp_all add: avoiding_def copying_def)
  consider (refused) "s' = ?s0" | (unparsed) "s' = ?s1"
    | (installing) opts where "parseServiceInstallFlags (shJoin s) args ?data = Inr opts"
        "run_state (steps [prepareInstall opts, copyInstall opts, createService opts, finishInstall rounds opts]) ?s1 = (e, s')"
    using assms by (auto simp: serviceInstall_def requireElevation_def run_ops simp del: steps.simps split: if_splits sum.splits)
  then show ?thesis
  proof cases
    case (installing opts)
    obtain e2 s2 where prep: "run_state (prepareInstall opts) ?s1 = (e2, s2)" by force
    then have ok: "restricted (soAgentDir opts) ?s1 e2 s2" by (rule wp_runD [OF prepare_restricted])
    then have s2: "avoiding copying s s2" using s1 avd.R_trans by (auto simp: restricted_def)
    show ?thesis
    proof (cases e2)
      case None
      then obtain c where c: "oTrace s2 = oTrace s @ c @ [restriction (soAgentDir opts)]" "rpErr (oExt s (oTrace s @ c) (restriction (soAgentDir opts))) = None"
        using ok by (auto simp: restricted_def)
      have "run_state (steps [copyInstall opts, createService opts, finishInstall rounds opts]) s2 = (e, s')"
        using installing(2) prep None by (simp add: run_steps_Cons del: steps.simps)
      from keepsD [OF rest_avoids_nothing this] obtain after where "oTrace s' = oTrace s2 @ after" unfolding avoiding_def by blast
      moreover have "list_all (\<lambda>c. case c of Ext name as \<Rightarrow> name \<notin> copying) (c @ [restriction (soAgentDir opts)])"
        using s2 c(1) by (auto simp: avoiding_def)
      ultimately show ?thesis using c installing(1) by (intro exI [of _ "c @ [restriction (soAgentDir opts)]"] exI [of _ after]) auto
    next
      case (Some x)
      with installing(2) prep have "s' = s2" by (simp add: run_steps_Cons State_Monad.return_def del: steps.simps)
      with s2 early show ?thesis by simp
    qed
  qed (use early s0 s1 in simp_all)
qed

text \<open>Once the service exists, only the proxy and the start can make the installation fail.\<close>

lemma steps_ignored: "list_all (\<lambda>m. \<forall>s. fst (run_state m s) = None) ms \<Longrightarrow> fst (run_state (steps ms) s) = None"
proof (induction ms arbitrary: s)
  case (Cons m ms)
  then have "fst (run_state m s) = None" by simp
  then obtain s1 where "run_state m s = (None, s1)" by (cases "run_state m s") simp
  then show ?case using Cons by (simp add: run_bind)
qed (simp add: State_Monad.return_def)

lemma anchors_never_fail: "fst (run_state (installTrustAnchors dir) s) = None"
proof -
  have "fst (run_state (installRoot p r) s) = None" for p r s
    by (simp add: installRoot_def run_ops trustStores_def split: prod.split)
  then show ?thesis by (simp add: installTrustAnchors_def run_ops steps_ignored list_all_iff split: prod.split)
qed

lemma finish_failures:
  assumes "run_state (finishInstall rounds opts) s = (Some x, s')"
  shows "\<exists>y. x = Wrap ''failed to set the service proxy environment'' y \<and> soProxy opts \<noteq> []
    \<or> x = Wrap ''installed, but failed to start the service'' y \<and> soStartNow opts"
proof -
  have anchors: "run_state (installTrustAnchors dir) s = (e, s') \<Longrightarrow> e = None" for dir s e s' using anchors_never_fail [of dir s] by simp
  show ?thesis using assms
    by (auto simp: finishInstall_def run_ops wrapping_def split: prod.splits option.splits if_splits dest: anchors)
qed

end
