(* ===== verification/Spec2Isabelle.thy ===== *)
theory Spec2Isabelle
  imports Startup SelfUpdate Tunnels Messenger ComposeCli ContainerTerminals Network LanAddresses Updates FlockConfig
    WindowsService
begin

text \<open>
  A verification of the device management agent (Go, below \<^verbatim>\<open>src/src\<close>): the process that runs on a
  device, receives the apps it shall run from a backend, drives Docker accordingly, reports the
  states it reaches, exposes the ports of apps through tunnels, guards the disk and updates
  itself.

  \<^bold>\<open>How the parts work together.\<close> A request of the backend (\<^verbatim>\<open>api/request_app_state.go\<close>) is decoded
  into a transition payload, stored (\<^verbatim>\<open>persistence\<close>, \<^verbatim>\<open>store\<close>) and handed to the app manager
  (\<^verbatim>\<open>apps/app_manager.go\<close>), which takes the transition lock of the app, chooses a transition function
  from the table of the state machine (\<^verbatim>\<open>apps/state_machine.go\<close>) and waits for its result. The
  transition functions (\<^verbatim>\<open>apps/*_app.go\<close>) call Docker and compose with the ports the host port
  registry (\<^verbatim>\<open>apps/hostports.go\<close>) reserved, and note every state they reach through the state
  observer (\<^verbatim>\<open>apps/state_observer.go\<close>). A transition that fails starts a crash loop
  (\<^verbatim>\<open>apps/crashloop.go\<close>) that requests it again later. Observers poll the containers and correct the
  noted states; on every connection (\<^verbatim>\<open>agent.go\<close>) the device is reconciled with the backend. The
  disk guard (\<^verbatim>\<open>diskguard\<close>) raises the flag that refuses transitions which need disk space. The
  tunnel manager (\<^verbatim>\<open>tunnel\<close>) and the self update (\<^verbatim>\<open>selfupdate\<close>) keep their own state. The session with
  the message router (\<^verbatim>\<open>messenger\<close>) carries the requests and the publications; the other handlers of
  the backend (\<^verbatim>\<open>api\<close>) check the caller's privilege and then call the log manager (\<^verbatim>\<open>logging\<close>), the
  terminals (\<^verbatim>\<open>terminal\<close>), the networks (\<^verbatim>\<open>network\<close>, \<^verbatim>\<open>networkmanager\<close>), the updates (\<^verbatim>\<open>system\<close>), the
  transfers of archives (\<^verbatim>\<open>filesystem\<close>) and the container engine (\<^verbatim>\<open>container\<close>).

  \<^bold>\<open>Modelling.\<close> A Go function that changes state is a program of the state monad over a record of
  the process's state: \<open>world\<close> for everything around the app manager, \<open>FrpTunnelManager\<close> for the
  tunnels, \<open>disk\<close> for the self update, \<open>WampSession\<close> for the session, \<open>LogManager\<close> for the logs, \<open>External\<close>
  for the handlers, \<open>DockerClient\<close> and \<open>ComposeClient\<close> for the engine, \<open>TerminalHost\<close> and
  \<open>TerminalManager\<close> for the terminals, \<open>Bus\<close> for the networks, \<open>System\<close> for the updates and \<open>ConfigStore\<close> for the
  device's file. The records of components that keep to themselves extend \<open>outside\<close>. An app object is an index into the list of apps of the
  store, so aliases of one app see each other's writes. What is outside the process (Docker,
  compose, the message router, the file system, SQLite's own failures, the clock) is a field of
  the state that answers each call as it likes, depending on all calls made before; the theorems
  hold for every such answer unless they name what they need. Errors are values (\<open>go_error\<close>, the
  typed errors of \<^verbatim>\<open>errdefs\<close>), \<open>None\<close> is \<^verbatim>\<open>nil\<close>; ports and keys are 64 bit words. A goroutine nobody
  waits for is an entry in the list of pending tasks; a step of the agent runs one activity to its
  end, in any order. A loop that polls is one task per round.

  \<^bold>\<open>Theories\<close>, each with the code it models:
  \<^item> \<open>Prelude\<close>: strings, decimal numbers, association lists and words; \<open>Effects\<close>: programs over a
    state, \<open>wp\<close>, and the locale \<open>state_relation\<close> that carries a relation through every combinator.
  \<^item> \<open>Errdefs\<close> (\<^verbatim>\<open>errdefs\<close>), \<open>Types\<close> (\<^verbatim>\<open>common/constants.go\<close>), \<open>Names\<close> (\<^verbatim>\<open>common/utils.go\<close>): the typed errors,
    the states, the names of containers and images and their parsing.
  \<^item> \<open>HostPorts\<close> (\<^verbatim>\<open>apps/hostports.go\<close>): the registry of host ports; the locales \<open>port_allocator\<close> and
    \<open>stable_allocator\<close> state what its clients rely on. No port is held twice in any reachable
    registry.
  \<^item> \<open>World\<close>, \<open>Prog\<close>: the state of the app manager and its programs; the locales \<open>program_relation\<close>
    and \<open>step_relation\<close> extend \<open>state_relation\<close>.
  \<^item> \<open>Database\<close> (\<^verbatim>\<open>persistence\<close>), \<open>Store\<close> (\<^verbatim>\<open>store/app_store.go\<close>): the tables with their constraints, the
    objects over them, and notification; what is written is read back.
  \<^item> \<open>ComposePorts\<close>, \<open>EnvVars\<close>, \<open>Compose\<close> (\<^verbatim>\<open>apps/compose_ports.go\<close>, \<^verbatim>\<open>hostports_resolve.go\<close>, \<^verbatim>\<open>build_app.go\<close>,
    \<^verbatim>\<open>host_access.go\<close>, \<^verbatim>\<open>env_files.go\<close>, \<^verbatim>\<open>app_credential.go\<close>): compose port syntax and its rewriting,
    environment variables, and the locale \<open>transition_relation\<close>.
  \<^item> \<open>Transitions\<close>, \<open>Releases\<close>, \<open>Running\<close>, \<open>StateMachine\<close> (the transition functions and
    \<^verbatim>\<open>apps/state_machine.go\<close>): what each transition reaches when it returns without an error, which
    calls it can make, and the gate of the disk emergency.
  \<^item> \<open>CrashLoops\<close> (\<^verbatim>\<open>apps/crashloop.go\<close>), \<open>Manager\<close>, \<open>Reconcile\<close> (\<^verbatim>\<open>apps/app_manager.go\<close>): requests with
    their locking, the retry of failures, and the reconciliation with the backend; the locale
    \<open>request_relation\<close>.
  \<^item> \<open>Observer\<close> (\<^verbatim>\<open>apps/state_observer.go\<close>), \<open>DiskGuard\<close> (\<^verbatim>\<open>diskguard\<close>), \<open>Requests\<close>
    (\<^verbatim>\<open>api/request_app_state.go\<close>): correction of states and observers, cleanup and hysteresis, decoding.
  \<^item> \<open>Agent\<close> (\<^verbatim>\<open>agent.go\<close>): the steps of the whole and the invariants of every reachable state, through
    the locales \<open>agent_relation\<close>, \<open>calm_relation\<close> and \<open>watch_relation\<close>; \<open>Startup\<close>: an agent that starts on a full
    disk starts no app.
  \<^item> \<open>SelfUpdate\<close> (\<^verbatim>\<open>selfupdate\<close>, the repair script of \<^verbatim>\<open>servicecmd.go\<close>): the swap of the binary as steps on
    a disk that can fail or lose power at each of them.
  \<^item> \<open>TunnelConfigs\<close>, \<open>Tunnels\<close> (\<^verbatim>\<open>tunnel\<close>): the client's configuration as a finite map, the tunnels, the
    client process and its supervisor; the locale \<open>tunnel_relation\<close>.
  \<^item> \<open>Outside\<close>: calls that leave a component, and the locale \<open>asking_relation\<close> of relations they keep, which
    the logs, the container terminals and the updates interpret.
  \<^item> \<open>LogBatches\<close>, \<open>AppLogs\<close>, \<open>LogQueries\<close>, \<open>AgentLog\<close> (\<^verbatim>\<open>logging\<close>, the log history of
    \<^verbatim>\<open>persistence/database.go\<close>): every line is published in order or counted as dropped; the maps
    and goroutines of the log manager; the bounds of queries; the agent's log against a reference reading.
  \<^item> \<open>Transfers\<close> (\<^verbatim>\<open>filesystem/transfer.go\<close>), \<open>Handlers\<close> (\<^verbatim>\<open>privilege\<close>, \<^verbatim>\<open>api\<close>): the file holds what its chunks
    encode; a procedure does nothing for a caller who lacks its privilege.
  \<^item> \<open>Messenger\<close> (\<^verbatim>\<open>messenger/wamp.go\<close>): the goroutines of the session as tasks; one of them guards the
    connection in every reachable state, and it heals.
  \<^item> \<open>Engine\<close>, \<open>ComposeCli\<close> (\<^verbatim>\<open>container/docker.go\<close>, \<^verbatim>\<open>container/compose.go\<close>): the clients of Docker and compose. The locale
    \<open>stream_opener\<close> is interpreted for pulls, pushes and builds: a cancel reaches the newest stream of its name.
  \<^item> \<open>Terminals\<close>, \<open>ContainerTerminals\<close> (\<^verbatim>\<open>terminal/pty.go\<close>, \<^verbatim>\<open>terminal/docker_term.go\<close>): the goroutines and
    channels of a terminal, and its output cut at runes.
  \<^item> \<open>NetManager\<close>, \<open>Network\<close>, \<open>LanAddresses\<close> (\<^verbatim>\<open>networkmanager\<close>, \<^verbatim>\<open>network\<close>): the objects on the bus, the profiles that are written,
    and the addresses that are reported, against the syntax of addresses.
  \<^item> \<open>Updates\<close> (\<^verbatim>\<open>system/system.go\<close>, \<^verbatim>\<open>system/rauc.go\<close>, \<^verbatim>\<open>filesystem/utils.go\<close>): what is checked before a binary is installed, and
    that an update ends; \<open>FlockConfig\<close> (\<^verbatim>\<open>config/config.go\<close>): what is saved is loaded again.
  \<^item> \<open>Files\<close> (\<^verbatim>\<open>filesystem/files.go\<close>, \<^verbatim>\<open>filesystem/setup.go\<close>, \<^verbatim>\<open>filesystem/get.go\<close>): where an archive is written and what
    its files hold; \<open>ServiceCommand\<close>, \<open>WindowsService\<close> (\<^verbatim>\<open>servicecmd.go\<close>, \<^verbatim>\<open>servicecmd_windows.go\<close>, \<^verbatim>\<open>service_windows.go\<close>,
    \<^verbatim>\<open>lifecycle\<close>): the command line of the service is read back, restarts coalesce, and the secret of the device is
    copied only into a directory that was closed before.

  \<^bold>\<open>Bounds and fuel.\<close> Loops the code bounds keep their bounds: three starts of
  a container, three compose attempts, five renames, three starts on probation, six attempts of the
  supervisor; the scan for a free port ends at the last port of the pool. A loop without a bound
  (an observer, a monitor, a crash loop, a heartbeat) is one round per task. A wait that ends with a deadline takes
  the number of its polls as an argument, because the clock decides it: the container waits of \<open>Engine\<close> (more rounds
  than are needed for a verdict do not change it, lemma \<open>poll_enough\<close>), the scan of \<open>Network\<close>, one
  number per attempt, the fetch of a remote file (lemma \<open>remote_file_enough\<close>) and the wait for the service of Windows.

  \<^bold>\<open>Not modelled.\<close> Interleavings inside one activity of the app manager, mutexes that guard a few
  assignments, and what a panic leaves behind; contexts and their deadlines, beyond the error they
  cause; the texts of log messages. Behind the answers of the outside are the Docker daemon, the compose
  command, the router, the bus, the pseudo terminals, HTTP, the signature check of \<^verbatim>\<open>codesign\<close> and the file system. Left
  out are the flags of the agent itself, file helpers that nothing calls, the lock of the single instance, the shells of
  Windows, the bindings to NetworkManager that
  nothing calls, of \<^verbatim>\<open>persistence\<close> the device state and the migrations, of \<^verbatim>\<open>common\<close> the topic names, and of
  \<^verbatim>\<open>agent.go\<close> the wiring of the components and the shutdown.
\<close>

end
